(* ===== verification/Unicode_Tables.thy ===== *)
theory Unicode_Tables
  imports Main
begin

text \<open>
  The part of Go's \<^verbatim>\<open>unicode\<close> package the repository relies on: the categories that
  \<^verbatim>\<open>unicode.IsLower\<close>, \<^verbatim>\<open>unicode.IsDigit\<close> and \<^verbatim>\<open>unicode.IsLetter\<close> test (Ll, Nd and L of
  Unicode 15.0), the simple lower-case mapping of \<^verbatim>\<open>unicode.ToLower\<close> and the simple case folding
  \<^verbatim>\<open>strings.EqualFold\<close> compares by. As in Go's own tables an entry is a range with a stride,
  \<open>(lo, hi, stride)\<close>, with the offset to the mapped code point where there is one; code points
  below 128 are decided without a table.
\<close>

type_synonym range_table = "(nat \<times> nat \<times> nat) list"

type_synonym case_table = "(nat \<times> nat \<times> nat \<times> int) list"

definition lower_letter_table :: "range_table" where
  "lower_letter_table = [
    (181, 181, 1), (223, 246, 1), (248, 255, 1), (257, 311, 2), (312, 328, 2), (329, 375, 2),
    (378, 382, 2), (383, 384, 1), (387, 389, 2), (392, 392, 1), (396, 397, 1), (402, 402, 1),
    (405, 405, 1), (409, 411, 1), (414, 414, 1), (417, 421, 2), (424, 426, 2), (427, 429, 2),
    (432, 432, 1), (436, 438, 2), (441, 442, 1), (445, 447, 1), (454, 454, 1), (457, 457, 1),
    (460, 476, 2), (477, 495, 2), (496, 496, 1), (499, 501, 2), (505, 563, 2), (564, 569, 1),
    (572, 572, 1), (575, 576, 1), (578, 578, 1), (583, 591, 2), (592, 659, 1), (661, 687, 1),
    (881, 883, 2), (887, 887, 1), (891, 893, 1), (912, 912, 1), (940, 974, 1), (976, 977, 1),
    (981, 983, 1), (985, 1007, 2), (1008, 1011, 1), (1013, 1013, 1), (1016, 1016, 1),
    (1019, 1020, 1), (1072, 1119, 1), (1121, 1153, 2), (1163, 1215, 2), (1218, 1230, 2),
    (1231, 1327, 2), (1376, 1416, 1), (4304, 4346, 1), (4349, 4351, 1), (5112, 5117, 1),
    (7296, 7304, 1), (7424, 7467, 1), (7531, 7543, 1), (7545, 7578, 1), (7681, 7829, 2),
    (7830, 7837, 1), (7839, 7935, 2), (7936, 7943, 1), (7952, 7957, 1), (7968, 7975, 1),
    (7984, 7991, 1), (8000, 8005, 1), (8016, 8023, 1), (8032, 8039, 1), (8048, 8061, 1),
    (8064, 8071, 1), (8080, 8087, 1), (8096, 8103, 1), (8112, 8116, 1), (8118, 8119, 1),
    (8126, 8126, 1), (8130, 8132, 1), (8134, 8135, 1), (8144, 8147, 1), (8150, 8151, 1),
    (8160, 8167, 1), (8178, 8180, 1), (8182, 8183, 1), (8458, 8458, 1), (8462, 8463, 1),
    (8467, 8467, 1), (8495, 8495, 1), (8500, 8500, 1), (8505, 8505, 1), (8508, 8509, 1),
    (8518, 8521, 1), (8526, 8526, 1), (8580, 8580, 1), (11312, 11359, 1), (11361, 11361, 1),
    (11365, 11366, 1), (11368, 11372, 2), (11377, 11379, 2), (11380, 11382, 2), (11383, 11387, 1),
    (11393, 11491, 2), (11492, 11492, 1), (11500, 11502, 2), (11507, 11507, 1), (11520, 11557, 1),
    (11559, 11559, 1), (11565, 11565, 1), (42561, 42605, 2), (42625, 42651, 2), (42787, 42799, 2),
    (42800, 42801, 1), (42803, 42865, 2), (42866, 42872, 1), (42874, 42876, 2), (42879, 42887, 2),
    (42892, 42894, 2), (42897, 42899, 2), (42900, 42901, 1), (42903, 42921, 2), (42927, 42927, 1),
    (42933, 42947, 2), (42952, 42954, 2), (42961, 42969, 2), (42998, 42998, 1), (43002, 43002, 1),
    (43824, 43866, 1), (43872, 43880, 1), (43888, 43967, 1), (64256, 64262, 1), (64275, 64279, 1),
    (65345, 65370, 1), (66600, 66639, 1), (66776, 66811, 1), (66967, 66977, 1), (66979, 66993, 1),
    (66995, 67001, 1), (67003, 67004, 1), (68800, 68850, 1), (71872, 71903, 1), (93792, 93823, 1),
    (119834, 119859, 1), (119886, 119892, 1), (119894, 119911, 1), (119938, 119963, 1),
    (119990, 119993, 1), (119995, 119997, 2), (119998, 120003, 1), (120005, 120015, 1),
    (120042, 120067, 1), (120094, 120119, 1), (120146, 120171, 1), (120198, 120223, 1),
    (120250, 120275, 1), (120302, 120327, 1), (120354, 120379, 1), (120406, 120431, 1),
    (120458, 120485, 1), (120514, 120538, 1), (120540, 120545, 1), (120572, 120596, 1),
    (120598, 120603, 1), (120630, 120654, 1), (120656, 120661, 1), (120688, 120712, 1),
    (120714, 120719, 1), (120746, 120770, 1), (120772, 120777, 1), (120779, 120779, 1),
    (122624, 122633, 1), (122635, 122654, 1), (122661, 122666, 1), (125218, 125251, 1)]"

definition decimal_digit_table :: "range_table" where
  "decimal_digit_table = [
    (1632, 1641, 1), (1776, 1785, 1), (1984, 1993, 1), (2406, 2415, 1), (2534, 2543, 1),
    (2662, 2671, 1), (2790, 2799, 1), (2918, 2927, 1), (3046, 3055, 1), (3174, 3183, 1),
    (3302, 3311, 1), (3430, 3439, 1), (3558, 3567, 1), (3664, 3673, 1), (3792, 3801, 1),
    (3872, 3881, 1), (4160, 4169, 1), (4240, 4249, 1), (6112, 6121, 1), (6160, 6169, 1),
    (6470, 6479, 1), (6608, 6617, 1), (6784, 6793, 1), (6800, 6809, 1), (6992, 7001, 1),
    (7088, 7097, 1), (7232, 7241, 1), (7248, 7257, 1), (42528, 42537, 1), (43216, 43225, 1),
    (43264, 43273, 1), (43472, 43481, 1), (43504, 43513, 1), (43600, 43609, 1), (44016, 44025, 1),
    (65296, 65305, 1), (66720, 66729, 1), (68912, 68921, 1), (69734, 69743, 1), (69872, 69881, 1),
    (69942, 69951, 1), (70096, 70105, 1), (70384, 70393, 1), (70736, 70745, 1), (70864, 70873, 1),
    (71248, 71257, 1), (71360, 71369, 1), (71472, 71481, 1), (71904, 71913, 1), (72016, 72025, 1),
    (72784, 72793, 1), (73040, 73049, 1), (73120, 73129, 1), (73552, 73561, 1), (92768, 92777, 1),
    (92864, 92873, 1), (93008, 93017, 1), (120782, 120831, 1), (123200, 123209, 1),
    (123632, 123641, 1), (124144, 124153, 1), (125264, 125273, 1), (130032, 130041, 1)]"

definition letter_table :: "range_table" where
  "letter_table = [
    (170, 170, 1), (181, 181, 1), (186, 186, 1), (192, 214, 1), (216, 246, 1), (248, 705, 1),
    (710, 721, 1), (736, 740, 1), (748, 750, 2), (880, 884, 1), (886, 887, 1), (890, 893, 1),
    (895, 895, 1), (902, 904, 2), (905, 906, 1), (908, 910, 2), (911, 929, 1), (931, 1013, 1),
    (1015, 1153, 1), (1162, 1327, 1), (1329, 1366, 1), (1369, 1369, 1), (1376, 1416, 1),
    (1488, 1514, 1), (1519, 1522, 1), (1568, 1610, 1), (1646, 1647, 1), (1649, 1747, 1),
    (1749, 1749, 1), (1765, 1766, 1), (1774, 1775, 1), (1786, 1788, 1), (1791, 1791, 1),
    (1808, 1810, 2), (1811, 1839, 1), (1869, 1957, 1), (1969, 1969, 1), (1994, 2026, 1),
    (2036, 2037, 1), (2042, 2042, 1), (2048, 2069, 1), (2074, 2074, 1), (2084, 2084, 1),
    (2088, 2088, 1), (2112, 2136, 1), (2144, 2154, 1), (2160, 2183, 1), (2185, 2190, 1),
    (2208, 2249, 1), (2308, 2361, 1), (2365, 2365, 1), (2384, 2384, 1), (2392, 2401, 1),
    (2417, 2432, 1), (2437, 2444, 1), (2447, 2448, 1), (2451, 2472, 1), (2474, 2480, 1),
    (2482, 2482, 1), (2486, 2489, 1), (2493, 2493, 1), (2510, 2510, 1), (2524, 2525, 1),
    (2527, 2529, 1), (2544, 2545, 1), (2556, 2556, 1), (2565, 2570, 1), (2575, 2576, 1),
    (2579, 2600, 1), (2602, 2608, 1), (2610, 2611, 1), (2613, 2614, 1), (2616, 2617, 1),
    (2649, 2652, 1), (2654, 2654, 1), (2674, 2676, 1), (2693, 2701, 1), (2703, 2705, 1),
    (2707, 2728, 1), (2730, 2736, 1), (2738, 2739, 1), (2741, 2745, 1), (2749, 2749, 1),
    (2768, 2768, 1), (2784, 2785, 1), (2809, 2809, 1), (2821, 2828, 1), (2831, 2832, 1),
    (2835, 2856, 1), (2858, 2864, 1), (2866, 2867, 1), (2869, 2873, 1), (2877, 2877, 1),
    (2908, 2909, 1), (2911, 2913, 1), (2929, 2929, 1), (2947, 2949, 2), (2950, 2954, 1),
    (2958, 2960, 1), (2962, 2965, 1), (2969, 2970, 1), (2972, 2974, 2), (2975, 2975, 1),
    (2979, 2980, 1), (2984, 2986, 1), (2990, 3001, 1), (3024, 3024, 1), (3077, 3084, 1),
    (3086, 3088, 1), (3090, 3112, 1), (3114, 3129, 1), (3133, 3133, 1), (3160, 3162, 1),
    (3165, 3165, 1), (3168, 3169, 1), (3200, 3200, 1), (3205, 3212, 1), (3214, 3216, 1),
    (3218, 3240, 1), (3242, 3251, 1), (3253, 3257, 1), (3261, 3261, 1), (3293, 3294, 1),
    (3296, 3297, 1), (3313, 3314, 1), (3332, 3340, 1), (3342, 3344, 1), (3346, 3386, 1),
    (3389, 3389, 1), (3406, 3406, 1), (3412, 3414, 1), (3423, 3425, 1), (3450, 3455, 1),
    (3461, 3478, 1), (3482, 3505, 1), (3507, 3515, 1), (3517, 3517, 1), (3520, 3526, 1),
    (3585, 3632, 1), (3634, 3635, 1), (3648, 3654, 1), (3713, 3714, 1), (3716, 3718, 2),
    (3719, 3722, 1), (3724, 3747, 1), (3749, 3751, 2), (3752, 3760, 1), (3762, 3763, 1),
    (3773, 3773, 1), (3776, 3780, 1), (3782, 3782, 1), (3804, 3807, 1), (3840, 3840, 1),
    (3904, 3911, 1), (3913, 3948, 1), (3976, 3980, 1), (4096, 4138, 1), (4159, 4159, 1),
    (4176, 4181, 1), (4186, 4189, 1), (4193, 4193, 1), (4197, 4198, 1), (4206, 4208, 1),
    (4213, 4225, 1), (4238, 4238, 1), (4256, 4293, 1), (4295, 4295, 1), (4301, 4301, 1),
    (4304, 4346, 1), (4348, 4680, 1), (4682, 4685, 1), (4688, 4694, 1), (4696, 4698, 2),
    (4699, 4701, 1), (4704, 4744, 1), (4746, 4749, 1), (4752, 4784, 1), (4786, 4789, 1),
    (4792, 4798, 1), (4800, 4802, 2), (4803, 4805, 1), (4808, 4822, 1), (4824, 4880, 1),
    (4882, 4885, 1), (4888, 4954, 1), (4992, 5007, 1), (5024, 5109, 1), (5112, 5117, 1),
    (5121, 5740, 1), (5743, 5759, 1), (5761, 5786, 1), (5792, 5866, 1), (5873, 5880, 1),
    (5888, 5905, 1), (5919, 5937, 1), (5952, 5969, 1), (5984, 5996, 1), (5998, 6000, 1),
    (6016, 6067, 1), (6103, 6103, 1), (6108, 6108, 1), (6176, 6264, 1), (6272, 6276, 1),
    (6279, 6312, 1), (6314, 6314, 1), (6320, 6389, 1), (6400, 6430, 1), (6480, 6509, 1),
    (6512, 6516, 1), (6528, 6571, 1), (6576, 6601, 1), (6656, 6678, 1), (6688, 6740, 1),
    (6823, 6823, 1), (6917, 6963, 1), (6981, 6988, 1), (7043, 7072, 1), (7086, 7087, 1),
    (7098, 7141, 1), (7168, 7203, 1), (7245, 7247, 1), (7258, 7293, 1), (7296, 7304, 1),
    (7312, 7354, 1), (7357, 7359, 1), (7401, 7404, 1), (7406, 7411, 1), (7413, 7414, 1),
    (7418, 7418, 1), (7424, 7615, 1), (7680, 7957, 1), (7960, 7965, 1), (7968, 8005, 1),
    (8008, 8013, 1), (8016, 8023, 1), (8025, 8031, 2), (8032, 8061, 1), (8064, 8116, 1),
    (8118, 8124, 1), (8126, 8126, 1), (8130, 8132, 1), (8134, 8140, 1), (8144, 8147, 1),
    (8150, 8155, 1), (8160, 8172, 1), (8178, 8180, 1), (8182, 8188, 1), (8305, 8305, 1),
    (8319, 8319, 1), (8336, 8348, 1), (8450, 8450, 1), (8455, 8455, 1), (8458, 8467, 1),
    (8469, 8469, 1), (8473, 8477, 1), (8484, 8490, 2), (8491, 8493, 1), (8495, 8505, 1),
    (8508, 8511, 1), (8517, 8521, 1), (8526, 8526, 1), (8579, 8580, 1), (11264, 11492, 1),
    (11499, 11502, 1), (11506, 11507, 1), (11520, 11557, 1), (11559, 11559, 1), (11565, 11565, 1),
    (11568, 11623, 1), (11631, 11631, 1), (11648, 11670, 1), (11680, 11686, 1), (11688, 11694, 1),
    (11696, 11702, 1), (11704, 11710, 1), (11712, 11718, 1), (11720, 11726, 1), (11728, 11734, 1),
    (11736, 11742, 1), (11823, 11823, 1), (12293, 12294, 1), (12337, 12341, 1), (12347, 12348, 1),
    (12353, 12438, 1), (12445, 12447, 1), (12449, 12538, 1), (12540, 12543, 1), (12549, 12591, 1),
    (12593, 12686, 1), (12704, 12735, 1), (12784, 12799, 1), (13312, 19903, 1), (19968, 42124, 1),
    (42192, 42237, 1), (42240, 42508, 1), (42512, 42527, 1), (42538, 42539, 1), (42560, 42606, 1),
    (42623, 42653, 1), (42656, 42725, 1), (42775, 42783, 1), (42786, 42888, 1), (42891, 42954, 1),
    (42960, 42961, 1), (42963, 42965, 2), (42966, 42969, 1), (42994, 43009, 1), (43011, 43013, 1),
    (43015, 43018, 1), (43020, 43042, 1), (43072, 43123, 1), (43138, 43187, 1), (43250, 43255, 1),
    (43259, 43261, 2), (43262, 43262, 1), (43274, 43301, 1), (43312, 43334, 1), (43360, 43388, 1),
    (43396, 43442, 1), (43471, 43471, 1), (43488, 43492, 1), (43494, 43503, 1), (43514, 43518, 1),
    (43520, 43560, 1), (43584, 43586, 1), (43588, 43595, 1), (43616, 43638, 1), (43642, 43642, 1),
    (43646, 43695, 1), (43697, 43697, 1), (43701, 43702, 1), (43705, 43709, 1), (43712, 43714, 2),
    (43739, 43741, 1), (43744, 43754, 1), (43762, 43764, 1), (43777, 43782, 1), (43785, 43790, 1),
    (43793, 43798, 1), (43808, 43814, 1), (43816, 43822, 1), (43824, 43866, 1), (43868, 43881, 1),
    (43888, 44002, 1), (44032, 55203, 1), (55216, 55238, 1), (55243, 55291, 1), (63744, 64109, 1),
    (64112, 64217, 1), (64256, 64262, 1), (64275, 64279, 1), (64285, 64287, 2), (64288, 64296, 1),
    (64298, 64310, 1), (64312, 64316, 1), (64318, 64320, 2), (64321, 64323, 2), (64324, 64326, 2),
    (64327, 64433, 1), (64467, 64829, 1), (64848, 64911, 1), (64914, 64967, 1), (65008, 65019, 1),
    (65136, 65140, 1), (65142, 65276, 1), (65313, 65338, 1), (65345, 65370, 1), (65382, 65470, 1),
    (65474, 65479, 1), (65482, 65487, 1), (65490, 65495, 1), (65498, 65500, 1), (65536, 65547, 1),
    (65549, 65574, 1), (65576, 65594, 1), (65596, 65597, 1), (65599, 65613, 1), (65616, 65629, 1),
    (65664, 65786, 1), (66176, 66204, 1), (66208, 66256, 1), (66304, 66335, 1), (66349, 66368, 1),
    (66370, 66377, 1), (66384, 66421, 1), (66432, 66461, 1), (66464, 66499, 1), (66504, 66511, 1),
    (66560, 66717, 1), (66736, 66771, 1), (66776, 66811, 1), (66816, 66855, 1), (66864, 66915, 1),
    (66928, 66938, 1), (66940, 66954, 1), (66956, 66962, 1), (66964, 66965, 1), (66967, 66977, 1),
    (66979, 66993, 1), (66995, 67001, 1), (67003, 67004, 1), (67072, 67382, 1), (67392, 67413, 1),
    (67424, 67431, 1), (67456, 67461, 1), (67463, 67504, 1), (67506, 67514, 1), (67584, 67589, 1),
    (67592, 67594, 2), (67595, 67637, 1), (67639, 67640, 1), (67644, 67644, 1), (67647, 67669, 1),
    (67680, 67702, 1), (67712, 67742, 1), (67808, 67826, 1), (67828, 67829, 1), (67840, 67861, 1),
    (67872, 67897, 1), (67968, 68023, 1), (68030, 68031, 1), (68096, 68096, 1), (68112, 68115, 1),
    (68117, 68119, 1), (68121, 68149, 1), (68192, 68220, 1), (68224, 68252, 1), (68288, 68295, 1),
    (68297, 68324, 1), (68352, 68405, 1), (68416, 68437, 1), (68448, 68466, 1), (68480, 68497, 1),
    (68608, 68680, 1), (68736, 68786, 1), (68800, 68850, 1), (68864, 68899, 1), (69248, 69289, 1),
    (69296, 69297, 1), (69376, 69404, 1), (69415, 69415, 1), (69424, 69445, 1), (69488, 69505, 1),
    (69552, 69572, 1), (69600, 69622, 1), (69635, 69687, 1), (69745, 69746, 1), (69749, 69749, 1),
    (69763, 69807, 1), (69840, 69864, 1), (69891, 69926, 1), (69956, 69956, 1), (69959, 69959, 1),
    (69968, 70002, 1), (70006, 70006, 1), (70019, 70066, 1), (70081, 70084, 1), (70106, 70108, 2),
    (70144, 70161, 1), (70163, 70187, 1), (70208, 70208, 1), (70272, 70278, 1), (70280, 70282, 2),
    (70283, 70285, 1), (70287, 70301, 1), (70303, 70312, 1), (70320, 70366, 1), (70405, 70412, 1),
    (70415, 70416, 1), (70419, 70440, 1), (70442, 70448, 1), (70450, 70451, 1), (70453, 70457, 1),
    (70461, 70461, 1), (70480, 70480, 1), (70493, 70497, 1), (70656, 70708, 1), (70727, 70730, 1),
    (70751, 70753, 1), (70784, 70831, 1), (70852, 70853, 1), (70855, 70855, 1), (71040, 71086, 1),
    (71128, 71131, 1), (71168, 71215, 1), (71236, 71236, 1), (71296, 71338, 1), (71352, 71352, 1),
    (71424, 71450, 1), (71488, 71494, 1), (71680, 71723, 1), (71840, 71903, 1), (71935, 71942, 1),
    (71945, 71945, 1), (71948, 71955, 1), (71957, 71958, 1), (71960, 71983, 1), (71999, 72001, 2),
    (72096, 72103, 1), (72106, 72144, 1), (72161, 72163, 2), (72192, 72192, 1), (72203, 72242, 1),
    (72250, 72250, 1), (72272, 72272, 1), (72284, 72329, 1), (72349, 72349, 1), (72368, 72440, 1),
    (72704, 72712, 1), (72714, 72750, 1), (72768, 72768, 1), (72818, 72847, 1), (72960, 72966, 1),
    (72968, 72969, 1), (72971, 73008, 1), (73030, 73030, 1), (73056, 73061, 1), (73063, 73064, 1),
    (73066, 73097, 1), (73112, 73112, 1), (73440, 73458, 1), (73474, 73476, 2), (73477, 73488, 1),
    (73490, 73523, 1), (73648, 73648, 1), (73728, 74649, 1), (74880, 75075, 1), (77712, 77808, 1),
    (77824, 78895, 1), (78913, 78918, 1), (82944, 83526, 1), (92160, 92728, 1), (92736, 92766, 1),
    (92784, 92862, 1), (92880, 92909, 1), (92928, 92975, 1), (92992, 92995, 1), (93027, 93047, 1),
    (93053, 93071, 1), (93760, 93823, 1), (93952, 94026, 1), (94032, 94032, 1), (94099, 94111, 1),
    (94176, 94177, 1), (94179, 94179, 1), (94208, 100343, 1), (100352, 101589, 1),
    (101632, 101640, 1), (110576, 110579, 1), (110581, 110587, 1), (110589, 110590, 1),
    (110592, 110882, 1), (110898, 110898, 1), (110928, 110930, 1), (110933, 110933, 1),
    (110948, 110951, 1), (110960, 111355, 1), (113664, 113770, 1), (113776, 113788, 1),
    (113792, 113800, 1), (113808, 113817, 1), (119808, 119892, 1), (119894, 119964, 1),
    (119966, 119967, 1), (119970, 119970, 1), (119973, 119974, 1), (119977, 119980, 1),
    (119982, 119993, 1), (119995, 119997, 2), (119998, 120003, 1), (120005, 120069, 1),
    (120071, 120074, 1), (120077, 120084, 1), (120086, 120092, 1), (120094, 120121, 1),
    (120123, 120126, 1), (120128, 120132, 1), (120134, 120134, 1), (120138, 120144, 1),
    (120146, 120485, 1), (120488, 120512, 1), (120514, 120538, 1), (120540, 120570, 1),
    (120572, 120596, 1), (120598, 120628, 1), (120630, 120654, 1), (120656, 120686, 1),
    (120688, 120712, 1), (120714, 120744, 1), (120746, 120770, 1), (120772, 120779, 1),
    (122624, 122654, 1), (122661, 122666, 1), (122928, 122989, 1), (123136, 123180, 1),
    (123191, 123197, 1), (123214, 123214, 1), (123536, 123565, 1), (123584, 123627, 1),
    (124112, 124139, 1), (124896, 124902, 1), (124904, 124907, 1), (124909, 124910, 1),
    (124912, 124926, 1), (124928, 125124, 1), (125184, 125251, 1), (125259, 125259, 1),
    (126464, 126467, 1), (126469, 126495, 1), (126497, 126498, 1), (126500, 126500, 1),
    (126503, 126505, 2), (126506, 126514, 1), (126516, 126519, 1), (126521, 126523, 2),
    (126530, 126530, 1), (126535, 126541, 2), (126542, 126543, 1), (126545, 126546, 1),
    (126548, 126548, 1), (126551, 126561, 2), (126562, 126564, 2), (126567, 126570, 1),
    (126572, 126578, 1), (126580, 126583, 1), (126585, 126588, 1), (126590, 126592, 2),
    (126593, 126601, 1), (126603, 126619, 1), (126625, 126627, 1), (126629, 126633, 1),
    (126635, 126651, 1), (131072, 173791, 1), (173824, 177976, 1), (177984, 178205, 1),
    (178208, 183969, 1), (183984, 191456, 1), (194560, 195101, 1), (196608, 201546, 1),
    (201552, 205743, 1)]"

definition to_lower_table :: "case_table" where
  "to_lower_table = [
    (192, 214, 1, 32), (216, 222, 1, 32), (256, 302, 2, 1), (304, 304, 1, - 199),
    (306, 310, 2, 1), (313, 327, 2, 1), (330, 374, 2, 1), (376, 376, 1, - 121), (377, 381, 2, 1),
    (385, 385, 1, 210), (386, 388, 2, 1), (390, 390, 1, 206), (391, 391, 1, 1),
    (393, 394, 1, 205), (395, 395, 1, 1), (398, 398, 1, 79), (399, 399, 1, 202),
    (400, 400, 1, 203), (401, 401, 1, 1), (403, 403, 1, 205), (404, 404, 1, 207),
    (406, 406, 1, 211), (407, 407, 1, 209), (408, 408, 1, 1), (412, 412, 1, 211),
    (413, 413, 1, 213), (415, 415, 1, 214), (416, 420, 2, 1), (422, 422, 1, 218),
    (423, 423, 1, 1), (425, 425, 1, 218), (428, 428, 1, 1), (430, 430, 1, 218), (431, 431, 1, 1),
    (433, 434, 1, 217), (435, 437, 2, 1), (439, 439, 1, 219), (440, 440, 1, 1), (444, 444, 1, 1),
    (452, 452, 1, 2), (453, 453, 1, 1), (455, 455, 1, 2), (456, 456, 1, 1), (458, 458, 1, 2),
    (459, 475, 2, 1), (478, 494, 2, 1), (497, 497, 1, 2), (498, 500, 2, 1), (502, 502, 1, - 97),
    (503, 503, 1, - 56), (504, 542, 2, 1), (544, 544, 1, - 130), (546, 562, 2, 1),
    (570, 570, 1, 10795), (571, 571, 1, 1), (573, 573, 1, - 163), (574, 574, 1, 10792),
    (577, 577, 1, 1), (579, 579, 1, - 195), (580, 580, 1, 69), (581, 581, 1, 71),
    (582, 590, 2, 1), (880, 882, 2, 1), (886, 886, 1, 1), (895, 895, 1, 116), (902, 902, 1, 38),
    (904, 906, 1, 37), (908, 908, 1, 64), (910, 911, 1, 63), (913, 929, 1, 32), (931, 939, 1, 32),
    (975, 975, 1, 8), (984, 1006, 2, 1), (1012, 1012, 1, - 60), (1015, 1015, 1, 1),
    (1017, 1017, 1, - 7), (1018, 1018, 1, 1), (1021, 1023, 1, - 130), (1024, 1039, 1, 80),
    (1040, 1071, 1, 32), (1120, 1152, 2, 1), (1162, 1214, 2, 1), (1216, 1216, 1, 15),
    (1217, 1229, 2, 1), (1232, 1326, 2, 1), (1329, 1366, 1, 48), (4256, 4293, 1, 7264),
    (4295, 4295, 1, 7264), (4301, 4301, 1, 7264), (5024, 5103, 1, 38864), (5104, 5109, 1, 8),
    (7312, 7354, 1, - 3008), (7357, 7359, 1, - 3008), (7680, 7828, 2, 1), (7838, 7838, 1, - 7615),
    (7840, 7934, 2, 1), (7944, 7951, 1, - 8), (7960, 7965, 1, - 8), (7976, 7983, 1, - 8),
    (7992, 7999, 1, - 8), (8008, 8013, 1, - 8), (8025, 8031, 2, - 8), (8040, 8047, 1, - 8),
    (8072, 8079, 1, - 8), (8088, 8095, 1, - 8), (8104, 8111, 1, - 8), (8120, 8121, 1, - 8),
    (8122, 8123, 1, - 74), (8124, 8124, 1, - 9), (8136, 8139, 1, - 86), (8140, 8140, 1, - 9),
    (8152, 8153, 1, - 8), (8154, 8155, 1, - 100), (8168, 8169, 1, - 8), (8170, 8171, 1, - 112),
    (8172, 8172, 1, - 7), (8184, 8185, 1, - 128), (8186, 8187, 1, - 126), (8188, 8188, 1, - 9),
    (8486, 8486, 1, - 7517), (8490, 8490, 1, - 8383), (8491, 8491, 1, - 8262),
    (8498, 8498, 1, 28), (8544, 8559, 1, 16), (8579, 8579, 1, 1), (9398, 9423, 1, 26),
    (11264, 11311, 1, 48), (11360, 11360, 1, 1), (11362, 11362, 1, - 10743),
    (11363, 11363, 1, - 3814), (11364, 11364, 1, - 10727), (11367, 11371, 2, 1),
    (11373, 11373, 1, - 10780), (11374, 11374, 1, - 10749), (11375, 11375, 1, - 10783),
    (11376, 11376, 1, - 10782), (11378, 11378, 1, 1), (11381, 11381, 1, 1),
    (11390, 11391, 1, - 10815), (11392, 11490, 2, 1), (11499, 11501, 2, 1), (11506, 11506, 1, 1),
    (42560, 42604, 2, 1), (42624, 42650, 2, 1), (42786, 42798, 2, 1), (42802, 42862, 2, 1),
    (42873, 42875, 2, 1), (42877, 42877, 1, - 35332), (42878, 42886, 2, 1), (42891, 42891, 1, 1),
    (42893, 42893, 1, - 42280), (42896, 42898, 2, 1), (42902, 42920, 2, 1),
    (42922, 42922, 1, - 42308), (42923, 42923, 1, - 42319), (42924, 42924, 1, - 42315),
    (42925, 42925, 1, - 42305), (42926, 42926, 1, - 42308), (42928, 42928, 1, - 42258),
    (42929, 42929, 1, - 42282), (42930, 42930, 1, - 42261), (42931, 42931, 1, 928),
    (42932, 42946, 2, 1), (42948, 42948, 1, - 48), (42949, 42949, 1, - 42307),
    (42950, 42950, 1, - 35384), (42951, 42953, 2, 1), (42960, 42960, 1, 1), (42966, 42968, 2, 1),
    (42997, 42997, 1, 1), (65313, 65338, 1, 32), (66560, 66599, 1, 40), (66736, 66771, 1, 40),
    (66928, 66938, 1, 39), (66940, 66954, 1, 39), (66956, 66962, 1, 39), (66964, 66965, 1, 39),
    (68736, 68786, 1, 64), (71840, 71871, 1, 32), (93760, 93791, 1, 32), (125184, 125217, 1, 34)]"

definition case_fold_table :: "case_table" where
  "case_fold_table = [
    (181, 181, 1, 775), (192, 214, 1, 32), (216, 222, 1, 32), (256, 302, 2, 1), (306, 310, 2, 1),
    (313, 327, 2, 1), (330, 374, 2, 1), (376, 376, 1, - 121), (377, 381, 2, 1),
    (383, 383, 1, - 268), (385, 385, 1, 210), (386, 388, 2, 1), (390, 390, 1, 206),
    (391, 391, 1, 1), (393, 394, 1, 205), (395, 395, 1, 1), (398, 398, 1, 79), (399, 399, 1, 202),
    (400, 400, 1, 203), (401, 401, 1, 1), (403, 403, 1, 205), (404, 404, 1, 207),
    (406, 406, 1, 211), (407, 407, 1, 209), (408, 408, 1, 1), (412, 412, 1, 211),
    (413, 413, 1, 213), (415, 415, 1, 214), (416, 420, 2, 1), (422, 422, 1, 218),
    (423, 423, 1, 1), (425, 425, 1, 218), (428, 428, 1, 1), (430, 430, 1, 218), (431, 431, 1, 1),
    (433, 434, 1, 217), (435, 437, 2, 1), (439, 439, 1, 219), (440, 440, 1, 1), (444, 444, 1, 1),
    (452, 452, 1, 2), (453, 453, 1, 1), (455, 455, 1, 2), (456, 456, 1, 1), (458, 458, 1, 2),
    (459, 475, 2, 1), (478, 494, 2, 1), (497, 497, 1, 2), (498, 500, 2, 1), (502, 502, 1, - 97),
    (503, 503, 1, - 56), (504, 542, 2, 1), (544, 544, 1, - 130), (546, 562, 2, 1),
    (570, 570, 1, 10795), (571, 571, 1, 1), (573, 573, 1, - 163), (574, 574, 1, 10792),
    (577, 577, 1, 1), (579, 579, 1, - 195), (580, 580, 1, 69), (581, 581, 1, 71),
    (582, 590, 2, 1), (837, 837, 1, 116), (880, 882, 2, 1), (886, 886, 1, 1), (895, 895, 1, 116),
    (902, 902, 1, 38), (904, 906, 1, 37), (908, 908, 1, 64), (910, 911, 1, 63), (913, 929, 1, 32),
    (931, 939, 1, 32), (962, 962, 1, 1), (975, 975, 1, 8), (976, 976, 1, - 30),
    (977, 977, 1, - 25), (981, 981, 1, - 15), (982, 982, 1, - 22), (984, 1006, 2, 1),
    (1008, 1008, 1, - 54), (1009, 1009, 1, - 48), (1012, 1012, 1, - 60), (1013, 1013, 1, - 64),
    (1015, 1015, 1, 1), (1017, 1017, 1, - 7), (1018, 1018, 1, 1), (1021, 1023, 1, - 130),
    (1024, 1039, 1, 80), (1040, 1071, 1, 32), (1120, 1152, 2, 1), (1162, 1214, 2, 1),
    (1216, 1216, 1, 15), (1217, 1229, 2, 1), (1232, 1326, 2, 1), (1329, 1366, 1, 48),
    (4256, 4293, 1, 7264), (4295, 4295, 1, 7264), (4301, 4301, 1, 7264), (5112, 5117, 1, - 8),
    (7296, 7296, 1, - 6222), (7297, 7297, 1, - 6221), (7298, 7298, 1, - 6212),
    (7299, 7300, 1, - 6210), (7301, 7301, 1, - 6211), (7302, 7302, 1, - 6204),
    (7303, 7303, 1, - 6180), (7304, 7304, 1, 35267), (7312, 7354, 1, - 3008),
    (7357, 7359, 1, - 3008), (7680, 7828, 2, 1), (7835, 7835, 1, - 58), (7838, 7838, 1, - 7615),
    (7840, 7934, 2, 1), (7944, 7951, 1, - 8), (7960, 7965, 1, - 8), (7976, 7983, 1, - 8),
    (7992, 7999, 1, - 8), (8008, 8013, 1, - 8), (8025, 8031, 2, - 8), (8040, 8047, 1, - 8),
    (8072, 8079, 1, - 8), (8088, 8095, 1, - 8), (8104, 8111, 1, - 8), (8120, 8121, 1, - 8),
    (8122, 8123, 1, - 74), (8124, 8124, 1, - 9), (8126, 8126, 1, - 7173), (8136, 8139, 1, - 86),
    (8140, 8140, 1, - 9), (8152, 8153, 1, - 8), (8154, 8155, 1, - 100), (8168, 8169, 1, - 8),
    (8170, 8171, 1, - 112), (8172, 8172, 1, - 7), (8184, 8185, 1, - 128), (8186, 8187, 1, - 126),
    (8188, 8188, 1, - 9), (8486, 8486, 1, - 7517), (8490, 8490, 1, - 8383),
    (8491, 8491, 1, - 8262), (8498, 8498, 1, 28), (8544, 8559, 1, 16), (8579, 8579, 1, 1),
    (9398, 9423, 1, 26), (11264, 11311, 1, 48), (11360, 11360, 1, 1), (11362, 11362, 1, - 10743),
    (11363, 11363, 1, - 3814), (11364, 11364, 1, - 10727), (11367, 11371, 2, 1),
    (11373, 11373, 1, - 10780), (11374, 11374, 1, - 10749), (11375, 11375, 1, - 10783),
    (11376, 11376, 1, - 10782), (11378, 11378, 1, 1), (11381, 11381, 1, 1),
    (11390, 11391, 1, - 10815), (11392, 11490, 2, 1), (11499, 11501, 2, 1), (11506, 11506, 1, 1),
    (42560, 42604, 2, 1), (42624, 42650, 2, 1), (42786, 42798, 2, 1), (42802, 42862, 2, 1),
    (42873, 42875, 2, 1), (42877, 42877, 1, - 35332), (42878, 42886, 2, 1), (42891, 42891, 1, 1),
    (42893, 42893, 1, - 42280), (42896, 42898, 2, 1), (42902, 42920, 2, 1),
    (42922, 42922, 1, - 42308), (42923, 42923, 1, - 42319), (42924, 42924, 1, - 42315),
    (42925, 42925, 1, - 42305), (42926, 42926, 1, - 42308), (42928, 42928, 1, - 42258),
    (42929, 42929, 1, - 42282), (42930, 42930, 1, - 42261), (42931, 42931, 1, 928),
    (42932, 42946, 2, 1), (42948, 42948, 1, - 48), (42949, 42949, 1, - 42307),
    (42950, 42950, 1, - 35384), (42951, 42953, 2, 1), (42960, 42960, 1, 1), (42966, 42968, 2, 1),
    (42997, 42997, 1, 1), (43888, 43967, 1, - 38864), (65313, 65338, 1, 32),
    (66560, 66599, 1, 40), (66736, 66771, 1, 40), (66928, 66938, 1, 39), (66940, 66954, 1, 39),
    (66956, 66962, 1, 39), (66964, 66965, 1, 39), (68736, 68786, 1, 64), (71840, 71871, 1, 32),
    (93760, 93791, 1, 32), (125184, 125217, 1, 34)]"

definition in_table :: "range_table \<Rightarrow> nat \<Rightarrow> bool" where
  "in_table t r \<longleftrightarrow> list_ex (\<lambda>(lo, hi, stride). lo \<le> r \<and> r \<le> hi \<and> (r - lo) mod stride = 0) t"

definition table_offset :: "case_table \<Rightarrow> nat \<Rightarrow> int" where
  "table_offset t r =
     (case find (\<lambda>(lo, hi, stride, d). lo \<le> r \<and> r \<le> hi \<and> (r - lo) mod stride = 0) t of
        None \<Rightarrow> 0 | Some (lo, hi, stride, d) \<Rightarrow> d)"

text \<open>The predicates and mappings on code points, with Go's fast path for ASCII.\<close>

definition is_lower_rune :: "nat \<Rightarrow> bool" where
  "is_lower_rune r = (if r < 128 then 97 \<le> r \<and> r \<le> 122 else in_table lower_letter_table r)"

definition is_digit_rune :: "nat \<Rightarrow> bool" where
  "is_digit_rune r = (if r < 128 then 48 \<le> r \<and> r \<le> 57 else in_table decimal_digit_table r)"

definition is_letter_rune :: "nat \<Rightarrow> bool" where
  "is_letter_rune r =
     (if r < 128 then (65 \<le> r \<and> r \<le> 90) \<or> (97 \<le> r \<and> r \<le> 122) else in_table letter_table r)"

definition is_control_rune :: "nat \<Rightarrow> bool" where
  "is_control_rune r \<longleftrightarrow> r < 32 \<or> (127 \<le> r \<and> r < 160)"

definition lower_rune :: "nat \<Rightarrow> nat" where
  "lower_rune r =
     (if r < 128 then (if 65 \<le> r \<and> r \<le> 90 then r + 32 else r)
      else nat (int r + table_offset to_lower_table r))"

definition fold_rune :: "nat \<Rightarrow> nat" where
  "fold_rune r =
     (if r < 128 then (if 65 \<le> r \<and> r \<le> 90 then r + 32 else r)
      else nat (int r + table_offset case_fold_table r))"

lemma is_lower_rune_ascii [simp]: "r < 128 \<Longrightarrow> is_lower_rune r \<longleftrightarrow> 97 \<le> r \<and> r \<le> 122"
  by (simp add: is_lower_rune_def)

lemma is_digit_rune_ascii [simp]: "r < 128 \<Longrightarrow> is_digit_rune r \<longleftrightarrow> 48 \<le> r \<and> r \<le> 57"
  by (simp add: is_digit_rune_def)

lemma is_letter_rune_ascii [simp]:
  "r < 128 \<Longrightarrow> is_letter_rune r \<longleftrightarrow> (65 \<le> r \<and> r \<le> 90) \<or> (97 \<le> r \<and> r \<le> 122)"
  by (simp add: is_letter_rune_def)

lemma lower_rune_ascii [simp]:
  "r < 128 \<Longrightarrow> lower_rune r = (if 65 \<le> r \<and> r \<le> 90 then r + 32 else r)"
  by (simp add: lower_rune_def)

lemma fold_rune_ascii [simp]:
  "r < 128 \<Longrightarrow> fold_rune r = (if 65 \<le> r \<and> r \<le> 90 then r + 32 else r)"
  by (simp add: fold_rune_def)

end
