(* ===== verification/GoPrelude.thy ===== *)
theory GoPrelude
  imports Unicode_Tables "HOL-Library.Sublist" "HOL-Library.AList"
begin

text \<open>
  What every component shares: Go strings and the functions of \<^verbatim>\<open>strings\<close>, \<^verbatim>\<open>strconv\<close> and
  \<^verbatim>\<open>unicode/utf8\<close> the repository calls, Go's \<^verbatim>\<open>map[string]string\<close>, error values, and the lemma
  collections of the development.

  A Go string is its bytes: \<^typ>\<open>string\<close>, a list of 8-bit characters, so \<^verbatim>\<open>len(s)\<close> is
  \<open>length s\<close> and a byte index is a list index. Runes are code points (\<^typ>\<open>nat\<close>), read by the
  UTF-8 decoder below, which returns U+FFFD and width 1 for an invalid byte, as Go's does.
  A Go map is an association list with distinct keys; the list order is one of the iteration
  orders the runtime may choose, so what is proved of every list holds for every order. A nil map
  is the empty list; where the code tells nil from empty the model uses an option.
  A \<^verbatim>\<open>time.Time\<close> is its distance from the Unix epoch in nanoseconds; \<^verbatim>\<open>IsZero\<close> is
  \<open>t = zero_time\<close>.
\<close>

named_theorems go_eval \<open>equations that evaluate the string functions on literals\<close>

type_synonym gotime = int

text \<open>The zero value of \<^verbatim>\<open>time.Time\<close>: year 1.\<close>

definition zero_time :: gotime where
  "zero_time = - 62135596800000000000"

subsection \<open>Runes and UTF-8\<close>

definition byte :: "char \<Rightarrow> nat" where
  "byte c = of_char c"

definition is_cont :: "nat \<Rightarrow> nat \<Rightarrow> nat \<Rightarrow> bool" where
  "is_cont lo hi b \<longleftrightarrow> lo \<le> b \<and> b \<le> hi"

text \<open>\<^verbatim>\<open>utf8.DecodeRuneInString\<close>: the first rune and its width in bytes.\<close>

definition rune_error :: nat where
  "rune_error = 65533"

fun second_range :: "nat \<Rightarrow> nat \<times> nat" where
  "second_range b0 =
     (if b0 = 224 then (160, 191) else if b0 = 237 then (128, 159)
      else if b0 = 240 then (144, 191) else if b0 = 244 then (128, 143) else (128, 191))"

fun decode_bytes :: "nat list \<Rightarrow> nat \<times> nat" where
  "decode_bytes [] = (rune_error, 0)"
| "decode_bytes (b0 # bs) =
     (let (lo, hi) = second_range b0 in
      if b0 < 128 then (b0, 1)
      else if 194 \<le> b0 \<and> b0 \<le> 223 then
        (case bs of b1 # _ \<Rightarrow>
           if is_cont lo hi b1 then ((b0 - 192) * 64 + (b1 - 128), 2) else (rune_error, 1)
         | [] \<Rightarrow> (rune_error, 1))
      else if 224 \<le> b0 \<and> b0 \<le> 239 then
        (case bs of b1 # b2 # _ \<Rightarrow>
           if is_cont lo hi b1 \<and> is_cont 128 191 b2
           then ((b0 - 224) * 4096 + (b1 - 128) * 64 + (b2 - 128), 3) else (rune_error, 1)
         | _ \<Rightarrow> (rune_error, 1))
      else if 240 \<le> b0 \<and> b0 \<le> 244 then
        (case bs of b1 # b2 # b3 # _ \<Rightarrow>
           if is_cont lo hi b1 \<and> is_cont 128 191 b2 \<and> is_cont 128 191 b3
           then ((b0 - 240) * 262144 + (b1 - 128) * 4096 + (b2 - 128) * 64 + (b3 - 128), 4)
           else (rune_error, 1)
         | _ \<Rightarrow> (rune_error, 1))
      else (rune_error, 1))"

definition decode_rune :: "string \<Rightarrow> nat \<times> nat" where
  "decode_rune s = decode_bytes (map byte (take 4 s))"

text \<open>The runes of a string, in order: what \<^verbatim>\<open>range s\<close> and \<^verbatim>\<open>[]rune(s)\<close> give.\<close>

function runes :: "string \<Rightarrow> nat list" where
  "runes s = (if s = [] then []
     else case decode_rune s of (r, n) \<Rightarrow> r # runes (drop (max 1 n) s))"
  by pat_completeness auto
termination
  by (relation "measure length") auto

declare runes.simps [simp del]

definition rune_count :: "string \<Rightarrow> nat" where
  "rune_count s = length (runes s)"

text \<open>\<^verbatim>\<open>string(rune)\<close>; surrogates and values past U+10FFFF encode as U+FFFD.\<close>

definition encode_rune :: "nat \<Rightarrow> string" where
  "encode_rune r0 =
     (let r = (if (55296 \<le> r0 \<and> r0 < 57344) \<or> 1114111 < r0 then rune_error else r0) in
      map char_of
        (if r < 128 then [r]
         else if r < 2048 then [192 + r div 64, 128 + r mod 64]
         else if r < 65536 then [224 + r div 4096, 128 + r div 64 mod 64, 128 + r mod 64]
         else [240 + r div 262144, 128 + r div 4096 mod 64, 128 + r div 64 mod 64,
               128 + r mod 64]))"

definition string_of_runes :: "nat list \<Rightarrow> string" where
  "string_of_runes rs = concat (map encode_rune rs)"

subsection \<open>White space\<close>

text \<open>The UTF-8 encodings of the runes \<^verbatim>\<open>unicode.IsSpace\<close> accepts.\<close>

definition white_space_runes :: "string list" where
  "white_space_runes =
     [[CHR 0x20], [CHR 0x09], [CHR 0x0A], [CHR 0x0B], [CHR 0x0C], [CHR 0x0D],
      [CHR 0xC2, CHR 0x85], [CHR 0xC2, CHR 0xA0], [CHR 0xE1, CHR 0x9A, CHR 0x80],
      [CHR 0xE2, CHR 0x80, CHR 0x80], [CHR 0xE2, CHR 0x80, CHR 0x81],
      [CHR 0xE2, CHR 0x80, CHR 0x82], [CHR 0xE2, CHR 0x80, CHR 0x83],
      [CHR 0xE2, CHR 0x80, CHR 0x84], [CHR 0xE2, CHR 0x80, CHR 0x85],
      [CHR 0xE2, CHR 0x80, CHR 0x86], [CHR 0xE2, CHR 0x80, CHR 0x87],
      [CHR 0xE2, CHR 0x80, CHR 0x88], [CHR 0xE2, CHR 0x80, CHR 0x89],
      [CHR 0xE2, CHR 0x80, CHR 0x8A], [CHR 0xE2, CHR 0x80, CHR 0xA8],
      [CHR 0xE2, CHR 0x80, CHR 0xA9], [CHR 0xE2, CHR 0x80, CHR 0xAF],
      [CHR 0xE2, CHR 0x81, CHR 0x9F], [CHR 0xE3, CHR 0x80, CHR 0x80]]"

text \<open>
  \<open>head_seq_len ps s\<close> is the length of the first member of \<open>ps\<close> that begins \<open>s\<close>, 0 if none
  does; \<open>strip_seqs\<close> removes such beginnings as long as there are any.
\<close>

definition head_seq_len :: "string list \<Rightarrow> string \<Rightarrow> nat" where
  "head_seq_len ps s =
     (case find (\<lambda>p. prefix p s) ps of None \<Rightarrow> 0 | Some p \<Rightarrow> length p)"

lemma head_seq_len_le: "head_seq_len ps s \<le> length s"
  by (auto simp: head_seq_len_def find_Some_iff prefix_length_le split: option.splits)

function strip_seqs :: "string list \<Rightarrow> string \<Rightarrow> string" where
  "strip_seqs ps s =
     (if head_seq_len ps s = 0 then s else strip_seqs ps (drop (head_seq_len ps s) s))"
  by pat_completeness auto
termination
proof (relation "measure (\<lambda>(ps, s). length s)")
  fix ps s assume "head_seq_len ps s \<noteq> 0"
  then show "((ps, drop (head_seq_len ps s) s), ps, s) \<in> measure (\<lambda>(ps, s). length s)"
    using head_seq_len_le [of ps s] by simp
qed simp

declare strip_seqs.simps [simp del]

text \<open>\<^verbatim>\<open>strings.TrimSpace\<close>: on the right it removes the same encodings, read backwards.\<close>

definition trim_space :: "string \<Rightarrow> string" where
  "trim_space s =
     rev (strip_seqs (map rev white_space_runes) (rev (strip_seqs white_space_runes s)))"

lemma head_seq_len_strip [simp]: "head_seq_len ps (strip_seqs ps s) = 0"
  by (induction ps s rule: strip_seqs.induct) (metis strip_seqs.simps)

lemma strip_seqs_idem: "head_seq_len ps s = 0 \<Longrightarrow> strip_seqs ps s = s"
  by (simp add: strip_seqs.simps)

lemma suffix_strip_seqs: "suffix (strip_seqs ps s) s"
proof (induction ps s rule: strip_seqs.induct)
  case (1 ps s)
  show ?case
  proof (cases "head_seq_len ps s = 0")
    case True
    then show ?thesis by (simp add: strip_seqs_idem)
  next
    case False
    then have "suffix (strip_seqs ps s) (drop (head_seq_len ps s) s)"
      using "1.IH" by (simp add: strip_seqs.simps [of ps s])
    then show ?thesis by (rule suffix_order.trans) (rule suffix_drop)
  qed
qed

lemma head_seq_len_0_iff:
  "[] \<notin> set ps \<Longrightarrow> head_seq_len ps s = 0 \<longleftrightarrow> (\<forall>p\<in>set ps. \<not> prefix p s)"
  by (auto simp: head_seq_len_def find_None_iff find_Some_iff split: option.splits)
    (metis nth_mem)

lemma Nil_notin_white_space [simp]:
  "[] \<notin> set white_space_runes" "[] \<notin> set (map rev white_space_runes)"
  by (simp_all add: white_space_runes_def)

lemma head_seq_len_prefix:
  "prefix t s \<Longrightarrow> head_seq_len white_space_runes s = 0 \<Longrightarrow> head_seq_len white_space_runes t = 0"
  using prefix_order.trans by (fastforce simp: head_seq_len_0_iff)

lemma trim_space_left [simp]: "head_seq_len white_space_runes (trim_space s) = 0"
proof -
  let ?l = "strip_seqs white_space_runes s"
  have "prefix (trim_space s) ?l"
    using suffix_strip_seqs [of "map rev white_space_runes" "rev ?l"]
    by (simp add: trim_space_def suffix_to_prefix)
  then show ?thesis by (rule head_seq_len_prefix) simp
qed

lemma trim_space_idem [simp]: "trim_space (trim_space s) = trim_space s"
proof -
  have "strip_seqs white_space_runes (trim_space s) = trim_space s"
    by (simp add: strip_seqs_idem)
  moreover have "strip_seqs (map rev white_space_runes) (rev (trim_space s)) = rev (trim_space s)"
    by (simp add: trim_space_def strip_seqs_idem)
  ultimately show ?thesis by (simp add: trim_space_def)
qed

lemma length_trim_space_le: "length (trim_space s) \<le> length s"
  using suffix_length_le [OF suffix_strip_seqs [of white_space_runes s]]
    suffix_length_le [OF suffix_strip_seqs [of "map rev white_space_runes"
      "rev (strip_seqs white_space_runes s)"]]
  by (simp add: trim_space_def)

text \<open>A string whose first and last bytes are visible ASCII is its own trimming.\<close>

definition visible :: "char \<Rightarrow> bool" where
  "visible c \<longleftrightarrow> 33 \<le> byte c \<and> byte c \<le> 126"

definition visible_ends :: "string \<Rightarrow> bool" where
  "visible_ends s \<longleftrightarrow> s = [] \<or> (visible (hd s) \<and> visible (last s))"

lemma head_seq_len_visible:
  assumes "ps \<in> {white_space_runes, map rev white_space_runes}" "s = [] \<or> visible (hd s)"
  shows "head_seq_len ps s = 0"
proof -
  have "\<forall>p\<in>set ps. \<not> prefix p s"
    using assms
    by (cases s) (auto simp: white_space_runes_def visible_def byte_def)
  moreover have "[] \<notin> set ps"
    using assms(1) by (auto simp: white_space_runes_def)
  ultimately show ?thesis by (simp add: head_seq_len_0_iff)
qed

lemma trim_space_visible [go_eval]:
  assumes "visible_ends s"
  shows "trim_space s = s"
proof -
  have "strip_seqs white_space_runes s = s"
    using assms by (intro strip_seqs_idem head_seq_len_visible) (auto simp: visible_ends_def)
  moreover have "strip_seqs (map rev white_space_runes) (rev s) = rev s"
    using assms
    by (intro strip_seqs_idem head_seq_len_visible) (auto simp: visible_ends_def hd_rev)
  ultimately show ?thesis by (simp add: trim_space_def)
qed

lemmas [go_eval] = visible_ends_def visible_def byte_def Let_def

lemma trim_space_fix_iff:
  "trim_space s = s \<longleftrightarrow>
     head_seq_len white_space_runes s = 0 \<and> head_seq_len (map rev white_space_runes) (rev s) = 0"
proof
  assume "trim_space s = s"
  moreover have "head_seq_len (map rev white_space_runes) (rev (trim_space s)) = 0"
    by (simp add: trim_space_def)
  moreover have "head_seq_len white_space_runes (trim_space s) = 0" by simp
  ultimately show "head_seq_len white_space_runes s = 0 \<and>
      head_seq_len (map rev white_space_runes) (rev s) = 0"
    by simp
qed (simp add: trim_space_def strip_seqs_idem)

text \<open>No white space contains a colon, so trimmed strings glued with one are trimmed.\<close>

lemma head_seq_len_glue:
  assumes "head_seq_len ps a = 0" "ps \<in> {white_space_runes, map rev white_space_runes}" "a \<noteq> []"
  shows "head_seq_len ps (a @ CHR '':'' # b) = 0"
proof -
  have nn: "[] \<notin> set ps" using assms(2) by auto
  have colon: "CHR '':'' \<notin> set q" if "q \<in> set ps" for q
    using assms(2) that by (auto simp: white_space_runes_def)
  have "\<not> prefix q (a @ CHR '':'' # b)" if q: "q \<in> set ps" for q
  proof
    assume "prefix q (a @ CHR '':'' # b)"
    then have "prefix q a \<or> (\<exists>r. r \<noteq> [] \<and> q = a @ r \<and> prefix r (CHR '':'' # b))"
      by (auto simp: prefix_append)
    then show False
      using assms(1) nn q colon [OF q] by (auto simp: head_seq_len_0_iff prefix_Cons)
  qed
  then show ?thesis using nn by (simp add: head_seq_len_0_iff)
qed

lemma trim_space_glue:
  assumes "trim_space a = a" "trim_space b = b" "a \<noteq> []" "b \<noteq> []"
  shows "trim_space (a @ CHR '':'' # b) = a @ CHR '':'' # b"
  using assms head_seq_len_glue [of white_space_runes a b]
    head_seq_len_glue [of "map rev white_space_runes" "rev b" "rev a"]
  by (simp add: trim_space_fix_iff)

lemma trim_space_Nil [simp]: "trim_space [] = []"
  by (simp add: trim_space_visible visible_ends_def)

subsection \<open>Searching, splitting and joining\<close>

text \<open>\<^verbatim>\<open>strings.Contains(s, sub)\<close>.\<close>

fun contains_sub :: "string \<Rightarrow> string \<Rightarrow> bool" where
  "contains_sub [] sub \<longleftrightarrow> sub = []"
| "contains_sub (c # s) sub \<longleftrightarrow> prefix sub (c # s) \<or> contains_sub s sub"

lemma contains_sub_iff: "contains_sub s sub \<longleftrightarrow> (\<exists>u v. s = u @ sub @ v)"
proof (induction s)
  case (Cons c s)
  have "(\<exists>u v. c # s = u @ sub @ v) \<longleftrightarrow> prefix sub (c # s) \<or> (\<exists>u v. s = u @ sub @ v)"
  proof
    assume "\<exists>u v. c # s = u @ sub @ v"
    then obtain u v where uv: "c # s = u @ sub @ v" by blast
    then show "prefix sub (c # s) \<or> (\<exists>u v. s = u @ sub @ v)"
      by (cases u) (auto simp: prefix_def)
  next
    assume "prefix sub (c # s) \<or> (\<exists>u v. s = u @ sub @ v)"
    then show "\<exists>u v. c # s = u @ sub @ v"
    proof
      assume "prefix sub (c # s)"
      then obtain v where "c # s = [] @ sub @ v" by (auto simp: prefix_def)
      then show ?thesis by blast
    next
      assume "\<exists>u v. s = u @ sub @ v"
      then obtain u v where "c # s = (c # u) @ sub @ v" by auto
      then show ?thesis by blast
    qed
  qed
  with Cons show ?case by simp
qed simp

text \<open>\<^verbatim>\<open>strings.Fields\<close>: the maximal runs of bytes that are not white space.\<close>

function fields_from :: "string \<Rightarrow> string \<Rightarrow> string list" where
  "fields_from w s =
     (let word = (if w = [] then [] else [rev w]) in
      if s = [] then word
      else if head_seq_len white_space_runes s > 0
      then word @ fields_from [] (drop (head_seq_len white_space_runes s) s)
      else fields_from (hd s # w) (tl s))"
  by pat_completeness auto
termination
  by (relation "measure (length \<circ> snd)") (auto simp: Let_def)

declare fields_from.simps [simp del]

definition fields :: "string \<Rightarrow> string list" where
  "fields s = fields_from [] s"

text \<open>\<^verbatim>\<open>strings.Join(parts, sep)\<close>.\<close>

fun join :: "string \<Rightarrow> string list \<Rightarrow> string" where
  "join sep [] = []"
| "join sep [x] = x"
| "join sep (x # y # xs) = x @ sep @ join sep (y # xs)"

subsection \<open>Letter case\<close>

definition is_ascii :: "string \<Rightarrow> bool" where
  "is_ascii s \<longleftrightarrow> list_all (\<lambda>c. byte c < 128) s"

lemma runes_ascii [go_eval]: "is_ascii s \<Longrightarrow> runes s = map byte s"
proof (induction s)
  case Nil
  then show ?case by (simp add: runes.simps)
next
  case (Cons c s)
  then have "byte c < 128" "is_ascii s" by (auto simp: is_ascii_def)
  then show ?case
    using Cons.IH by (simp add: runes.simps [of "c # s"] decode_rune_def Let_def)
qed

lemmas [go_eval] = is_ascii_def

definition lower_char :: "char \<Rightarrow> char" where
  "lower_char c = char_of (lower_rune (byte c))"

text \<open>\<^verbatim>\<open>strings.ToLower\<close> and \<^verbatim>\<open>strings.EqualFold\<close>.\<close>

definition to_lower :: "string \<Rightarrow> string" where
  "to_lower s =
     (if is_ascii s then map lower_char s else string_of_runes (map lower_rune (runes s)))"

definition equal_fold :: "string \<Rightarrow> string \<Rightarrow> bool" where
  "equal_fold s t \<longleftrightarrow> map fold_rune (runes s) = map fold_rune (runes t)"

lemma char_of_byte [simp]: "char_of (byte c) = c"
  by (simp add: byte_def)

lemma lower_char_ascii [go_eval]:
  "byte c < 128 \<Longrightarrow> lower_char c = (if 65 \<le> byte c \<and> byte c \<le> 90 then char_of (byte c + 32) else c)"
  by (simp add: lower_char_def)

lemma to_lower_plain [go_eval]:
  assumes "list_all (\<lambda>c. byte c < 128 \<and> \<not> (65 \<le> byte c \<and> byte c \<le> 90)) s"
  shows "to_lower s = s"
proof -
  have "map lower_char s = s"
    using assms by (intro map_idI) (auto simp: list_all_iff lower_char_ascii)
  moreover have "is_ascii s" using assms by (auto simp: is_ascii_def list_all_iff)
  ultimately show ?thesis by (simp add: to_lower_def)
qed

lemma char_of_numeral [go_eval]:
  "char_of (numeral n :: nat) = Char (bit (numeral n :: nat) 0) (bit (numeral n :: nat) 1)
     (bit (numeral n :: nat) 2) (bit (numeral n :: nat) 3) (bit (numeral n :: nat) 4)
     (bit (numeral n :: nat) 5) (bit (numeral n :: nat) 6) (bit (numeral n :: nat) 7)"
  by (simp only: char_of_def bit_0)

lemma bit_Suc_0_0 [go_eval]: "bit (Suc 0) 0"
  by (simp add: bit_0)

lemma equal_fold_refl [simp]: "equal_fold s s"
  by (simp add: equal_fold_def)

lemma equal_fold_sym: "equal_fold s t \<longleftrightarrow> equal_fold t s"
  by (auto simp: equal_fold_def)

subsection \<open>Decimal numerals\<close>

text \<open>\<^verbatim>\<open>strconv.Itoa\<close> and \<^verbatim>\<open>%d\<close>.\<close>

fun nat_str :: "nat \<Rightarrow> string" where
  "nat_str n = (if n < 10 then [char_of (48 + n)] else nat_str (n div 10) @ [char_of (48 + n mod 10)])"

declare nat_str.simps [simp del]

definition int_str :: "int \<Rightarrow> string" where
  "int_str i = (if i < 0 then ''-'' @ nat_str (nat (- i)) else nat_str (nat i))"

definition str_nat :: "string \<Rightarrow> nat" where
  "str_nat s = foldl (\<lambda>n c. 10 * n + (byte c - 48)) 0 s"

lemma byte_char_of: "n < 256 \<Longrightarrow> byte (char_of n) = n"
  by (simp add: byte_def)

lemma str_nat_nat_str [simp]: "str_nat (nat_str n) = n"
proof (induction n rule: nat_str.induct)
  case (1 n)
  show ?case
  proof (cases "n < 10")
    case True
    then show ?thesis by (simp add: nat_str.simps [of n] str_nat_def byte_char_of)
  next
    case False
    then show ?thesis
      using "1.IH" by (simp add: nat_str.simps [of n] str_nat_def byte_char_of)
  qed
qed

lemma nat_str_inject [simp]: "nat_str m = nat_str n \<longleftrightarrow> m = n"
  by (metis str_nat_nat_str)

definition bool_str :: "bool \<Rightarrow> string" where
  "bool_str b = (if b then ''true'' else ''false'')"

subsection \<open>Maps of strings\<close>

type_synonym gomap = "(string \<times> string) list"

text \<open>\<^verbatim>\<open>m[k]\<close> reads the zero value for an absent key; \<^verbatim>\<open>m[k] = v\<close> and \<^verbatim>\<open>delete(m, k)\<close>.\<close>

definition mget :: "gomap \<Rightarrow> string \<Rightarrow> string" where
  "mget m k = (case map_of m k of None \<Rightarrow> [] | Some v \<Rightarrow> v)"

abbreviation mput :: "string \<Rightarrow> 'v \<Rightarrow> (string \<times> 'v) list \<Rightarrow> (string \<times> 'v) list" where
  "mput \<equiv> AList.update"

abbreviation wf_map :: "(string \<times> 'v) list \<Rightarrow> bool" where
  "wf_map m \<equiv> distinct (map fst m)"

text \<open>Building a map from the entries of another: later entries overwrite earlier ones.\<close>

definition mput_all :: "(string \<times> 'v) list \<Rightarrow> (string \<times> 'v) list \<Rightarrow> (string \<times> 'v) list" where
  "mput_all kvs m = fold (\<lambda>(k, v). mput k v) kvs m"

lemma mput_all_simps [simp]:
  "mput_all [] m = m"
  "mput_all ((k, v) # kvs) m = mput_all kvs (mput k v m)"
  by (simp_all add: mput_all_def)

lemma distinct_mput_all: "wf_map m \<Longrightarrow> wf_map (mput_all kvs m)"
  by (induction kvs arbitrary: m) (auto simp: distinct_update)

lemma set_mput_all: "set (mput_all kvs m) \<subseteq> set kvs \<union> set m"
proof (induction kvs arbitrary: m)
  case (Cons kv kvs)
  obtain k v where [simp]: "kv = (k, v)" by (cases kv)
  have "set (mput k v m) \<subseteq> insert (k, v) (set m)"
    by (induction m) auto
  with Cons [of "mput k v m"] show ?case by auto
qed simp

lemma map_of_mput_all: "map_of (mput_all kvs m) = map_of m ++ map_of (rev kvs)"
  by (induction kvs arbitrary: m) (auto simp: update_conv' map_add_def fun_eq_iff split: option.splits)

lemma map_of_rev_distinct: "wf_map kvs \<Longrightarrow> map_of (rev kvs) = map_of kvs"
  by (induction kvs)
    (auto simp: map_add_def fun_eq_iff map_of_eq_None_iff [symmetric] split: option.splits)

lemma mput_all_distinct: "wf_map kvs \<Longrightarrow> map_of (mput_all kvs []) = map_of kvs"
  by (simp add: map_of_mput_all map_of_rev_distinct)

subsection \<open>Errors\<close>

text \<open>
  \<^verbatim>\<open>error\<close> values: \<^verbatim>\<open>errors.New\<close> and \<^verbatim>\<open>fmt.Errorf\<close> without a wrapped error, \<^verbatim>\<open>%w\<close> wrapping,
  and the sentinels and types the code looks for with \<^verbatim>\<open>errors.Is\<close> and \<^verbatim>\<open>errors.As\<close>. A message is the
  format string of the call: its verbs are not expanded.
\<close>

datatype goerror =
    Errorf string
  | Wrap string goerror
  | ErrNoRows
  | ErrContextPermissionDenied
  | ErrBlockedHost
  | ErrSearchProviderChallenge
  | WebSearchError string goerror
  | ErrUnsupportedProvider
  | ProviderHTTPError string int

fun errors_is :: "goerror \<Rightarrow> goerror \<Rightarrow> bool" where
  "errors_is (Wrap m e) t \<longleftrightarrow> Wrap m e = t \<or> errors_is e t"
| "errors_is (WebSearchError p e) t \<longleftrightarrow> WebSearchError p e = t \<or> errors_is e t"
| "errors_is e t \<longleftrightarrow> e = t"

text \<open>
  The provider of the first \<^verbatim>\<open>WebSearchError\<close> in a chain and the status code of the first
  \<^verbatim>\<open>ProviderHTTPError\<close> (\<^verbatim>\<open>errors.As\<close>), and the text of an error.
\<close>

fun search_error_provider :: "goerror \<Rightarrow> string option" where
  "search_error_provider (WebSearchError p e) = Some p"
| "search_error_provider (Wrap m e) = search_error_provider e"
| "search_error_provider _ = None"

fun provider_status :: "goerror \<Rightarrow> int option" where
  "provider_status (ProviderHTTPError p code) = Some code"
| "provider_status (Wrap m e) = provider_status e"
| "provider_status (WebSearchError p e) = provider_status e"
| "provider_status _ = None"

fun error_text :: "goerror \<Rightarrow> string" where
  "error_text (Errorf m) = m"
| "error_text (Wrap m e) = m @ '': '' @ error_text e"
| "error_text ErrNoRows = ''sql: no rows in result set''"
| "error_text ErrContextPermissionDenied = ''permission denied for context''"
| "error_text ErrBlockedHost = ''blocked host''"
| "error_text ErrSearchProviderChallenge = ''search provider challenge''"
| "error_text ErrUnsupportedProvider = ''unsupported llm provider''"
| "error_text (ProviderHTTPError p code) =
     (if p = [] then ''llm provider request failed with status '' else p @ '' provider request failed with status '')
       @ int_str code"
| "error_text (WebSearchError p e) =
     (if trim_space p = [] then ''web search failed: '' else p @ '' search failed: '') @ error_text e"

type_synonym 'a result = "goerror + 'a"

definition require :: "bool \<Rightarrow> string \<Rightarrow> 'a result \<Rightarrow> 'a result" where
  "require b msg k = (if b then k else Inl (Errorf msg))"

lemma require_Inr [simp]: "require b msg k = Inr x \<longleftrightarrow> b \<and> k = Inr x"
  by (simp add: require_def)

lemma require_Inl: "require b msg k = Inl e \<longleftrightarrow> (if b then k = Inl e else e = Errorf msg)"
  by (auto simp: require_def)

lemma require_simps [simp]:
  "require True msg k = k"
  "require False msg k = Inl (Errorf msg)"
  by (simp_all add: require_def)

definition attempt :: "'a result \<Rightarrow> ('a \<Rightarrow> 'b result) \<Rightarrow> 'b result" where
  "attempt m f = (case m of Inl e \<Rightarrow> Inl e | Inr x \<Rightarrow> f x)"

lemma attempt_simps [simp]: "attempt (Inl e) f = Inl e" "attempt (Inr x) f = f x"
  by (simp_all add: attempt_def)

lemma attempt_Inr [simp]: "attempt m f = Inr y \<longleftrightarrow> (\<exists>x. m = Inr x \<and> f x = Inr y)"
  by (cases m) auto

lemma find_Some_in: "find P xs = Some x \<Longrightarrow> x \<in> set xs \<and> P x"
  by (induction xs) (auto split: if_splits)

text \<open>The checks of a list in order, stopping at the first failure.\<close>

fun check_each :: "('a \<Rightarrow> unit result) \<Rightarrow> 'a list \<Rightarrow> unit result" where
  "check_each f [] = Inr ()"
| "check_each f (x # xs) = attempt (f x) (\<lambda>_. check_each f xs)"

lemma check_each_Inr: "check_each f xs = Inr u \<longleftrightarrow> (\<forall>x\<in>set xs. f x = Inr ())"
  by (induction xs) auto

text \<open>The checks of a function in order: the first that fails is its result.\<close>

definition checks :: "unit result list \<Rightarrow> unit result" where
  "checks cs = check_each (\<lambda>c. c) cs"

definition must :: "bool \<Rightarrow> string \<Rightarrow> unit result" where
  "must b msg = require b msg (Inr ())"

lemma checks_Inr [simp]: "checks cs = Inr u \<longleftrightarrow> list_all (\<lambda>c. c = Inr ()) cs"
  by (simp add: checks_def check_each_Inr list_all_iff)

lemma must_Inr [simp]: "must b msg = Inr u \<longleftrightarrow> b"
  by (simp add: must_def)

end
