(* ===== verification/Sql.thy ===== *)
theory Sql
  imports GoPrelude
begin

text \<open>
  The database as the stores of the repository use it through \<^verbatim>\<open>database/sql\<close>: some tables, the
  server's clock (\<^verbatim>\<open>now()\<close>) and a script of driver outcomes. Every statement consumes one
  outcome; \<open>Some e\<close> is a driver error with message \<open>e\<close> (connection lost, context cancelled, a type the driver
  rejects) and leaves the tables alone, \<open>None\<close> runs the statement. A statement may also fail by
  itself, by a constraint of the schema. What is proved holds for every script.
\<close>

record 't sqldb =
  tables :: 't
  clock :: gotime
  faults :: "string option list"

type_synonym ('t, 'r) statement = "gotime \<Rightarrow> 't \<Rightarrow> ('r \<times> 't) result"

definition next_fault :: "'t sqldb \<Rightarrow> string option \<times> 't sqldb" where
  "next_fault db =
     (case faults db of [] \<Rightarrow> (None, db) | f # fs \<Rightarrow> (f, db\<lparr>faults := fs\<rparr>))"

text \<open>\<^verbatim>\<open>ExecContext\<close> and \<^verbatim>\<open>QueryContext\<close>: one statement, atomic.\<close>

definition sql_exec :: "('t, 'r) statement \<Rightarrow> 't sqldb \<Rightarrow> 'r result \<times> 't sqldb" where
  "sql_exec stmt db =
     (case next_fault db of
        (Some e, db') \<Rightarrow> (Inl (Errorf e), db')
      | (None, db') \<Rightarrow>
          (case stmt (clock db') (tables db') of
             Inl e \<Rightarrow> (Inl e, db')
           | Inr (r, t) \<Rightarrow> (Inr r, db'\<lparr>tables := t\<rparr>)))"

text \<open>
  \<^verbatim>\<open>BeginTx\<close>, the statements of the body, \<^verbatim>\<open>Commit\<close>; every early return of the body runs the
  deferred \<^verbatim>\<open>Rollback\<close>, which restores the tables the transaction began with.
\<close>

definition sql_tx ::
  "string \<Rightarrow> string \<Rightarrow> ('t sqldb \<Rightarrow> 'r result \<times> 't sqldb) \<Rightarrow> 't sqldb \<Rightarrow> 'r result \<times> 't sqldb"
where
  "sql_tx begin_msg commit_msg body db =
     (case next_fault db of
        (Some e, db1) \<Rightarrow> (Inl (Wrap begin_msg (Errorf e)), db1)
      | (None, db1) \<Rightarrow>
          (case body db1 of
             (Inl e, db2) \<Rightarrow> (Inl e, db2\<lparr>tables := tables db1\<rparr>)
           | (Inr r, db2) \<Rightarrow>
               (case next_fault db2 of
                  (Some e, db3) \<Rightarrow> (Inl (Wrap commit_msg (Errorf e)), db3\<lparr>tables := tables db1\<rparr>)
                | (None, db3) \<Rightarrow> (Inr r, db3))))"

definition wrap_err :: "string \<Rightarrow> 'r result \<times> 'd \<Rightarrow> 'r result \<times> 'd" where
  "wrap_err msg p = (case p of (Inl e, d) \<Rightarrow> (Inl (Wrap msg e), d) | (Inr r, d) \<Rightarrow> (Inr r, d))"

definition db_bind ::
  "'r result \<times> 'd \<Rightarrow> ('r \<Rightarrow> 'd \<Rightarrow> 's result \<times> 'd) \<Rightarrow> 's result \<times> 'd" where
  "db_bind p f = (case p of (Inl e, d) \<Rightarrow> (Inl e, d) | (Inr r, d) \<Rightarrow> f r d)"

lemma db_bind_simps [simp]:
  "db_bind (Inl e, d) f = (Inl e, d)"
  "db_bind (Inr r, d) f = f r d"
  by (simp_all add: db_bind_def)

lemma db_bind_InrD: "db_bind p f = (Inr r, d) \<Longrightarrow> \<exists>x d1. p = (Inr x, d1) \<and> f x d1 = (Inr r, d)"
  by (auto simp: db_bind_def split: prod.splits sum.splits)

lemma wrap_err_simps [simp]:
  "wrap_err m (Inl e, d) = (Inl (Wrap m e), d)"
  "wrap_err m (Inr r, d) = (Inr r, d)"
  by (simp_all add: wrap_err_def)

lemma wrap_err_Inl_iff:
  "wrap_err m p = (Inl e, d) \<longleftrightarrow> (\<exists>e'. p = (Inl e', d) \<and> e = Wrap m e')"
  by (auto simp: wrap_err_def split: prod.splits sum.splits)

lemma wrap_err_Inr_iff [simp]: "wrap_err m p = (Inr r, d) \<longleftrightarrow> p = (Inr r, d)"
  by (auto simp: wrap_err_def split: prod.splits sum.splits)

lemma next_fault_frame [simp]:
  "tables (snd (next_fault db)) = tables db"
  "clock (snd (next_fault db)) = clock db"
  by (simp_all add: next_fault_def split: list.splits)

lemma next_faultD:
  "next_fault db = (f, db') \<Longrightarrow> tables db' = tables db \<and> clock db' = clock db"
  using next_fault_frame [of db] by simp

lemma next_fault_Nil [simp]: "faults db = [] \<Longrightarrow> next_fault db = (None, db)"
  by (simp add: next_fault_def)

text \<open>A failed statement changes nothing; a successful one is the statement run on the tables.\<close>

lemma sql_exec_Inl: "sql_exec stmt db = (Inl e, db') \<Longrightarrow> tables db' = tables db"
  by (auto simp: sql_exec_def split: prod.splits option.splits sum.splits dest: next_faultD)

lemma sql_exec_ErrNoRows:
  "sql_exec stmt db = (Inl ErrNoRows, db') \<Longrightarrow> stmt (clock db) (tables db) = Inl ErrNoRows"
  by (auto simp: sql_exec_def split: prod.splits option.splits sum.splits dest: next_faultD)

lemma sql_exec_Inr:
  "sql_exec stmt db = (Inr r, db') \<Longrightarrow>
     stmt (clock db) (tables db) = Inr (r, tables db') \<and> clock db' = clock db"
  by (auto simp: sql_exec_def split: prod.splits option.splits sum.splits dest: next_faultD)

lemma sql_exec_ok [simp]:
  "faults db = [] \<Longrightarrow> sql_exec stmt db =
     (case stmt (clock db) (tables db) of
        Inl e \<Rightarrow> (Inl e, db) | Inr (r, t) \<Rightarrow> (Inr r, db\<lparr>tables := t\<rparr>))"
  by (simp add: sql_exec_def)

lemma sql_exec_clock [simp]: "clock (snd (sql_exec stmt db)) = clock db"
  by (auto simp: sql_exec_def split: prod.splits option.splits sum.splits dest: next_faultD)

text \<open>A failed transaction leaves the tables as they were, whatever its body did.\<close>

lemma sql_tx_Inl: "sql_tx b c body db = (Inl e, db') \<Longrightarrow> tables db' = tables db"
  by (auto simp: sql_tx_def split: prod.splits option.splits sum.splits dest: next_faultD)

lemma sql_tx_Inr:
  assumes "sql_tx b c body db = (Inr r, db')"
  shows "\<exists>db1 db2. body db1 = (Inr r, db2) \<and> tables db1 = tables db \<and> clock db1 = clock db \<and>
    tables db' = tables db2"
proof -
  from assms obtain db1 db2 where "next_fault db = (None, db1)" "body db1 = (Inr r, db2)"
    "next_fault db2 = (None, db')"
    by (auto simp: sql_tx_def split: prod.splits option.splits sum.splits)
  then show ?thesis using next_faultD by metis
qed

subsection \<open>Parts of a larger world\<close>

text \<open>A component that works on one part of the world; the other part stays as it is.\<close>

definition on_left :: "('d \<Rightarrow> 'a \<times> 'd) \<Rightarrow> 'd \<times> 'x \<Rightarrow> 'a \<times> 'd \<times> 'x" where
  "on_left f w = (case f (fst w) of (r, d) \<Rightarrow> (r, d, snd w))"

definition on_right :: "('x \<Rightarrow> 'a \<times> 'x) \<Rightarrow> 'd \<times> 'x \<Rightarrow> 'a \<times> 'd \<times> 'x" where
  "on_right f w = (case f (snd w) of (r, x) \<Rightarrow> (r, fst w, x))"

lemma on_leftD: "on_left f w = (r, w') \<Longrightarrow> f (fst w) = (r, fst w') \<and> snd w' = snd w"
  by (auto simp: on_left_def split: prod.splits)

lemma on_rightD: "on_right f w = (r, w') \<Longrightarrow> f (snd w) = (r, snd w') \<and> fst w' = fst w"
  by (auto simp: on_right_def split: prod.splits)

subsection \<open>The contract of a store operation\<close>

text \<open>
  What every caller of a store relies on: an operation that reports an error has changed nothing.
  So a caller that retries an operation until it succeeds ends in the state of one successful
  call.
\<close>

locale atomic_op =
  fixes run :: "'t sqldb \<Rightarrow> 'r result \<times> 't sqldb"
  assumes failed_unchanged: "run db = (Inl e, db') \<Longrightarrow> tables db' = tables db"
begin

lemma changed_succeeded:
  "tables (snd (run db)) \<noteq> tables db \<Longrightarrow> \<exists>r. fst (run db) = Inr r"
  using failed_unchanged by (metis prod.collapse sum.exhaust)

lemma retry_unchanged:
  assumes "fst (run db) = Inl e" "fst (run (snd (run db))) = Inl e'"
  shows "tables (snd (run (snd (run db)))) = tables db"
  using assms failed_unchanged by (metis prod.collapse)

end

interpretation exec: atomic_op "sql_exec stmt"
  by unfold_locales (rule sql_exec_Inl)

interpretation tx: atomic_op "sql_tx b c body"
  by unfold_locales (rule sql_tx_Inl)

end
