(* ===== verification/Utf8.thy ===== *)
theory Utf8
  imports GoPrelude
begin

text \<open>
  The laws of the UTF-8 layer: decoding distributes over concatenation at rune boundaries, encoding
  and decoding are inverse on valid code points, and trimming or truncating a string never makes it
  longer in runes.
\<close>

text \<open>A string can follow any other without changing how that one is read.\<close>

definition rune_start :: "string \<Rightarrow> bool" where
  "rune_start w \<longleftrightarrow> w = [] \<or> \<not> is_cont 128 191 (byte (hd w))"

lemma rune_start_Nil: "rune_start []"
  by (simp add: rune_start_def)

lemma second_range_bounds: "second_range b = (lo, hi) \<Longrightarrow> 128 \<le> lo \<and> hi \<le> 191"
  by (auto simp: second_range.simps split: if_splits)

declare second_range.simps [simp del]

lemma decode_bytes_width:
  "bs \<noteq> [] \<Longrightarrow> 1 \<le> snd (decode_bytes bs) \<and> snd (decode_bytes bs) \<le> length bs"
  by (cases bs) (simp_all add: Let_def split_beta split: list.split)

lemma decode_width: "t \<noteq> [] \<Longrightarrow> 1 \<le> snd (decode_rune t) \<and> snd (decode_rune t) \<le> length t"
  using decode_bytes_width [of "map byte (take 4 t)"] by (simp add: decode_rune_def)

lemma not_cont_narrow: "\<not> is_cont 128 191 b \<Longrightarrow> second_range b0 = (lo, hi) \<Longrightarrow> \<not> is_cont lo hi b"
  using second_range_bounds [of b0 lo hi] by (auto simp: is_cont_def)

lemma decode_rune_append:
  assumes "t \<noteq> []" "rune_start w"
  shows "decode_rune (t @ w) = decode_rune t"
proof (cases w)
  case (Cons c w')
  then have c: "\<not> is_cont 128 191 (byte c)" using assms(2) by (simp add: rune_start_def)
  obtain a t1 where t: "t = a # t1" using assms(1) by (cases t) auto
  obtain lo hi where r: "second_range (byte a) = (lo, hi)" by (cases "second_range (byte a)")
  have n: "\<not> is_cont lo hi (byte c)" by (rule not_cont_narrow [OF c r])
  consider "t1 = []" | b where "t1 = [b]" | b d where "t1 = [b, d]" | b d e t2 where "t1 = b # d # e # t2"
    by (metis list.exhaust)
  then show ?thesis
    using c n r unfolding Cons t
    by cases (auto simp: decode_rune_def Let_def take_Cons' split: list.splits)
qed simp

lemma runes_append: "rune_start w \<Longrightarrow> runes (t @ w) = runes t @ runes w"
proof (induction t rule: runes.induct)
  case (1 t)
  show ?case
  proof (cases "t = []")
    case False
    obtain r n where d: "decode_rune t = (r, n)" by (cases "decode_rune t")
    then have n: "1 \<le> n" "n \<le> length t" using decode_width [OF False] by auto
    have "runes (t @ w) = r # runes (drop n t @ w)"
      using False d n decode_rune_append [OF False 1(2)]
      by (subst runes.simps) (simp add: max_def)
    also have "runes (drop n t @ w) = runes (drop n t) @ runes w"
      using "1.IH" [OF False d [symmetric]] 1(2) n by (simp add: max_def)
    also have "r # runes (drop n t) @ runes w = runes t @ runes w"
      using False d n by (subst (2) runes.simps) (simp add: max_def)
    finally show ?thesis .
  qed (simp add: runes.simps)
qed

lemma runes_Nil [simp]: "runes [] = []"
  by (simp add: runes.simps)

lemma rune_count_append: "rune_start w \<Longrightarrow> rune_count (t @ w) = rune_count t + rune_count w"
  by (simp add: rune_count_def runes_append)

subsection \<open>White space\<close>

lemma white_space_start: "w \<in> set white_space_runes \<Longrightarrow> rune_start (w @ s)"
  by (auto simp: white_space_runes_def rune_start_def is_cont_def byte_def)

lemma runes_white_space:
  assumes "w \<in> set white_space_runes"
  shows "\<exists>r. runes (w @ s) = r # runes s"
proof -
  have "list_all (\<lambda>w. w \<noteq> [] \<and> snd (decode_rune (w @ s)) = length w) white_space_runes"
    by (simp add: white_space_runes_def decode_rune_def byte_def is_cont_def Let_def
      second_range.simps)
  then have w: "w \<noteq> []" "snd (decode_rune (w @ s)) = length w"
    using assms by (auto simp: list_all_iff)
  then have "runes (w @ s) = fst (decode_rune (w @ s)) # runes s"
    by (subst runes.simps) (simp add: split_beta max_def Suc_le_eq)
  then show ?thesis by blast
qed

lemma head_seq_len_split:
  assumes "head_seq_len ps s \<noteq> 0"
  obtains p t where "p \<in> set ps" "s = p @ t" "drop (head_seq_len ps s) s = t"
proof -
  obtain p where p: "find (\<lambda>p. prefix p s) ps = Some p" "head_seq_len ps s = length p"
    using assms by (auto simp: head_seq_len_def split: option.splits)
  then obtain t where "p \<in> set ps" "s = p @ t"
    using find_Some_in [OF p(1)] by (auto simp: prefix_def)
  then show thesis using that p(2) by simp
qed

lemma rune_count_strip_left: "rune_count (strip_seqs white_space_runes s) \<le> rune_count s"
proof (induction "white_space_runes" s rule: strip_seqs.induct)
  case (1 s)
  show ?case
  proof (cases "head_seq_len white_space_runes s = 0")
    case False
    then obtain p t where p: "p \<in> set white_space_runes" "s = p @ t"
      "drop (head_seq_len white_space_runes s) s = t"
      by (rule head_seq_len_split)
    then have "rune_count (strip_seqs white_space_runes t) \<le> rune_count t"
      using 1 False by simp
    also have "rune_count t \<le> rune_count s"
      using runes_white_space [OF p(1), of t] p(2) by (auto simp: rune_count_def)
    finally show ?thesis
      using False p(3) by (subst strip_seqs.simps) simp
  qed (simp add: strip_seqs_idem)
qed

lemma rune_count_strip_right:
  "rune_count (rev (strip_seqs (map rev white_space_runes) (rev s))) \<le> rune_count s"
proof (induction "map rev white_space_runes" "rev s" arbitrary: s rule: strip_seqs.induct)
  case (1 s)
  let ?ps = "map rev white_space_runes"
  show ?case
  proof (cases "head_seq_len ?ps (rev s) = 0")
    case False
    then obtain p t where p: "p \<in> set ?ps" "rev s = p @ t" "drop (head_seq_len ?ps (rev s)) (rev s) = t"
      by (rule head_seq_len_split)
    then obtain w where w: "w \<in> set white_space_runes" "p = rev w" by auto
    then have s: "s = rev t @ w" using p(2) by (metis rev_append rev_rev_ident)
    have "rune_count (rev (strip_seqs ?ps t)) \<le> rune_count (rev t)"
      using 1 [of "rev t"] False p(3) by simp
    also have "rune_count (rev t) \<le> rune_count s"
      using white_space_start [OF w(1), of "[]"] by (simp add: s rune_count_append)
    finally show ?thesis
      using False p(3) by (subst strip_seqs.simps) simp
  qed (simp add: strip_seqs_idem)
qed

lemma rune_count_trim_space: "rune_count (trim_space s) \<le> rune_count s"
  using rune_count_strip_right [of "strip_seqs white_space_runes s"] rune_count_strip_left [of s]
  by (simp add: trim_space_def)

subsection \<open>Encoding and decoding\<close>

definition valid_rune :: "nat \<Rightarrow> bool" where
  "valid_rune r \<longleftrightarrow> r < 55296 \<or> (57344 \<le> r \<and> r \<le> 1114111)"

lemma decode_four:
  assumes "a \<le> 4" "b < 64" "c < 64" "d < 64" "a = 0 \<Longrightarrow> 16 \<le> b" "a = 4 \<Longrightarrow> b < 16"
  shows "snd (decode_bytes [240 + a, 128 + b, 128 + c, 128 + d]) = 4"
  using assms by (auto simp: second_range.simps is_cont_def Let_def)

lemma decode_three:
  assumes "a < 16" "b < 64" "c < 64" "a = 0 \<Longrightarrow> 32 \<le> b" "a = 13 \<Longrightarrow> b < 32"
  shows "snd (decode_bytes [224 + a, 128 + b, 128 + c]) = 3"
  using assms by (auto simp: second_range.simps is_cont_def Let_def)

lemma encode_width:
  assumes "valid_rune r"
  shows "snd (decode_bytes (map byte (encode_rune r))) = length (encode_rune r)"
proof -
  consider "r < 128" | "128 \<le> r" "r < 2048" | "2048 \<le> r" "r < 65536" | "65536 \<le> r" by linarith
  then show ?thesis
  proof cases
    case 1
    then show ?thesis by (simp add: encode_rune_def byte_char_of split_beta)
  next
    case 2
    then have "r div 64 < 32" "2 \<le> r div 64" by auto
    with 2 show ?thesis
      by (simp add: encode_rune_def byte_char_of Let_def is_cont_def second_range.simps)
  next
    case 3
    let ?a = "r div 4096" and ?b = "r div 64 mod 64"
    have ab: "r div 64 = ?a * 64 + ?b"
      using div_mult_mod_eq [of "r div 64" 64] by (simp add: div_mult2_eq [symmetric])
    have "?a < 16" using 3 by auto
    moreover have "32 \<le> ?b" if "?a = 0"
    proof -
      have "32 \<le> r div 64" using 3(1) div_le_mono [of 2048 r 64] by simp
      then show ?thesis using ab that by simp
    qed
    moreover have "?b < 32" if "?a = 13"
    proof (rule ccontr)
      assume "\<not> ?b < 32"
      then have "864 \<le> r div 64" using ab that by simp
      then have "55296 \<le> r" by linarith
      moreover have "r < 57344" using that by linarith
      ultimately show False using assms by (simp add: valid_rune_def)
    qed
    ultimately have "snd (decode_bytes [224 + ?a, 128 + ?b, 128 + r mod 64]) = 3"
      by (intro decode_three) simp_all
    moreover have e: "map byte (encode_rune r) = [224 + ?a, 128 + ?b, 128 + r mod 64]"
    proof -
      have enc: "encode_rune r = map char_of [224 + ?a, 128 + ?b, 128 + r mod 64]"
        using 3 assms by (auto simp: encode_rune_def Let_def valid_rune_def)
      have low: "128 + x mod 64 < (256 :: nat)" for x
        using mod_less_divisor [of 64 x] by linarith
      have "224 + ?a < 256" using \<open>?a < 16\<close> by linarith
      with low show ?thesis unfolding enc by (simp only: list.map byte_char_of)
    qed
    moreover have "length (encode_rune r) = 3"
      using arg_cong [OF e, of length] by simp
    ultimately show ?thesis by simp
  next
    case 4
    let ?a = "r div 262144" and ?b = "r div 4096 mod 64"
    have r: "r \<le> 1114111" using assms 4 by (simp add: valid_rune_def)
    have ab: "r div 4096 = ?a * 64 + ?b"
      using div_mult_mod_eq [of "r div 4096" 64] by (simp add: div_mult2_eq [symmetric])
    have le: "r div 4096 \<le> 271" "16 \<le> r div 4096"
      using div_le_mono [OF r, of 4096] div_le_mono [OF 4, of 4096] by simp_all
    have "?a \<le> 4" using div_le_mono [OF r, of 262144] by simp
    moreover have "16 \<le> ?b" if "?a = 0" using ab le that by simp
    moreover have "?b < 16" if "?a = 4" using ab le that by simp
    ultimately have "snd (decode_bytes [240 + ?a, 128 + ?b, 128 + r div 64 mod 64, 128 + r mod 64]) = 4"
      by (intro decode_four) simp_all
    moreover have e: "map byte (encode_rune r) =
        [240 + ?a, 128 + ?b, 128 + r div 64 mod 64, 128 + r mod 64]"
    proof -
      have enc: "encode_rune r =
          map char_of [240 + ?a, 128 + ?b, 128 + r div 64 mod 64, 128 + r mod 64]"
        using 4 r by (simp add: encode_rune_def Let_def)
      have low: "128 + x mod 64 < (256 :: nat)" for x
        using mod_less_divisor [of 64 x] by linarith
      have "240 + ?a < 256" using \<open>?a \<le> 4\<close> by linarith
      with low show ?thesis unfolding enc by (simp only: list.map byte_char_of)
    qed
    moreover have "length (encode_rune r) = 4"
      using arg_cong [OF e, of length] by simp
    ultimately show ?thesis by simp
  qed
qed

lemma encode_rune_length: "1 \<le> length (encode_rune r) \<and> length (encode_rune r) \<le> 4"
  by (simp add: encode_rune_def Let_def)

lemma runes_encode:
  assumes "valid_rune r"
  shows "length (runes (encode_rune r)) = 1"
proof -
  have ne: "encode_rune r \<noteq> []" using encode_rune_length [of r] by auto
  have "snd (decode_rune (encode_rune r)) = length (encode_rune r)"
    using encode_width [OF assms] encode_rune_length [of r] by (simp add: decode_rune_def)
  then show ?thesis
    using ne by (subst runes.simps) (simp add: split_beta)
qed

lemma encode_rune_start: "rune_start (encode_rune r @ s)"
  by (auto simp: encode_rune_def rune_start_def byte_char_of Let_def is_cont_def rune_error_def)

lemma rune_count_string_of_runes:
  "list_all valid_rune rs \<Longrightarrow> rune_count (string_of_runes rs) = length rs"
proof (induction rs)
  case (Cons r rs)
  have "rune_start (string_of_runes rs)"
    by (cases rs) (simp_all add: string_of_runes_def encode_rune_start rune_start_Nil)
  then have "rune_count (string_of_runes (r # rs)) =
      rune_count (encode_rune r) + rune_count (string_of_runes rs)"
    by (simp add: string_of_runes_def rune_count_append)
  then show ?case using Cons runes_encode [of r] by (simp add: rune_count_def)
qed (simp add: string_of_runes_def rune_count_def)

lemma valid_three:
  "224 \<le> b0 \<Longrightarrow> b0 \<le> 239 \<Longrightarrow> second_range b0 = (lo, hi) \<Longrightarrow> is_cont lo hi b1 \<Longrightarrow> is_cont 128 191 b2 \<Longrightarrow>
     valid_rune ((b0 - 224) * 4096 + (b1 - 128) * 64 + (b2 - 128))"
  by (cases "b0 = 237"; cases "b0 < 237")
    (auto simp: valid_rune_def is_cont_def second_range.simps split: if_splits)

lemma valid_four:
  "240 \<le> b0 \<Longrightarrow> b0 \<le> 244 \<Longrightarrow> second_range b0 = (lo, hi) \<Longrightarrow> is_cont lo hi b1 \<Longrightarrow> is_cont 128 191 b2 \<Longrightarrow>
     is_cont 128 191 b3 \<Longrightarrow>
     valid_rune ((b0 - 240) * 262144 + (b1 - 128) * 4096 + (b2 - 128) * 64 + (b3 - 128))"
  by (cases "b0 = 244"; cases "b0 = 240")
    (auto simp: valid_rune_def is_cont_def second_range.simps split: if_splits)

lemma valid_decode_bytes: "valid_rune (fst (decode_bytes bs))"
proof (cases bs)
  case (Cons b0 cs)
  obtain lo hi where r: "second_range b0 = (lo, hi)" by (cases "second_range b0")
  have err: "valid_rune rune_error" by (simp add: valid_rune_def rune_error_def)
  have two: "valid_rune ((b0 - 192) * 64 + (b1 - 128))" if "b0 \<le> 223" "is_cont lo hi b1" for b1
    using that second_range_bounds [OF r] by (auto simp: valid_rune_def is_cont_def)
  show ?thesis
    unfolding Cons
    using err two valid_three [OF _ _ r] valid_four [OF _ _ r]
    by (auto simp: Let_def r valid_rune_def [of b0] split: list.split)
qed (simp add: valid_rune_def rune_error_def)

lemma valid_decode: "valid_rune (fst (decode_rune s))"
proof -
  show ?thesis
    using valid_decode_bytes by (simp add: decode_rune_def)
qed

lemma valid_runes: "list_all valid_rune (runes s)"
proof (induction s rule: runes.induct)
  case (1 s)
  show ?case
  proof (cases "s = []")
    case False
    obtain r n where d: "decode_rune s = (r, n)" by (cases "decode_rune s")
    then have "valid_rune r" using valid_decode [of s] by simp
    with "1.IH" [OF False d [symmetric]] False d show ?thesis
      by (subst runes.simps) simp
  qed simp
qed

lemma rune_count_take_runes: "rune_count (string_of_runes (take n (runes s))) \<le> n"
proof -
  have "list_all valid_rune (take n (runes s))"
    using valid_runes [of s] by (auto simp: list_all_iff dest: in_set_takeD)
  then show ?thesis by (simp add: rune_count_string_of_runes)
qed

lemma ascii_of_runes: "is_ascii s \<Longrightarrow> string_of_runes (map byte s) = s"
  by (induction s) (auto simp: string_of_runes_def is_ascii_def encode_rune_def Let_def)

lemma rune_count_ascii: "is_ascii s \<Longrightarrow> rune_count s = length s"
  by (simp add: rune_count_def runes_ascii)

end
