(* ===== verification/JsonText.thy ===== *)
theory JsonText
  imports Utf8
begin

text \<open>
  Strings on their way through \<^verbatim>\<open>json.Marshal\<close> into a \<^verbatim>\<open>jsonb\<close> column: every byte that is not part of a valid UTF-8 sequence
  becomes U+FFFD. The laws say that this changes neither the runes of a string nor where its white space is, so that
  whatever was decided of its letters still holds of what is stored.
\<close>

definition json_string :: "string \<Rightarrow> string" where
  "json_string s = string_of_runes (runes s)"

definition jsonb :: "gomap \<Rightarrow> gomap" where
  "jsonb m = mput_all (map (\<lambda>(k, v). (json_string k, json_string v)) m) []"

text \<open>What a \<^verbatim>\<open>text\<close> column takes, and what a \<^verbatim>\<open>jsonb\<close> column takes of a JSON object of strings.\<close>

definition text_ok :: "string \<Rightarrow> bool" where
  "text_ok s \<longleftrightarrow> json_string s = s \<and> CHR 0x00 \<notin> set s"

definition jsonb_ok :: "gomap \<Rightarrow> bool" where
  "jsonb_ok m \<longleftrightarrow> list_all (\<lambda>(k, v). CHR 0x00 \<notin> set k \<and> CHR 0x00 \<notin> set v) m"

subsection \<open>Decoding what was encoded\<close>

lemma digits_two: "r = 64 * x + c \<Longrightarrow> x = 64 * y + b \<Longrightarrow> r = y * 4096 + b * 64 + (c :: nat)"
  by simp

lemma rune_digits:
  fixes r :: nat
  shows "r = r div 4096 * 4096 + r div 64 mod 64 * 64 + r mod 64"
    "r = r div 262144 * 262144 + r div 4096 mod 64 * 4096 + r div 64 mod 64 * 64 + r mod 64"
proof -
  have d: "r = 64 * (r div 64) + r mod 64" "r div 64 = 64 * (r div 4096) + r div 64 mod 64"
      "r div 4096 = 64 * (r div 262144) + r div 4096 mod 64"
    using div_mult_mod_eq [of "r div 64" 64] div_mult_mod_eq [of "r div 4096" 64]
    by (simp_all add: div_mult2_eq [symmetric])
  show "r = r div 4096 * 4096 + r div 64 mod 64 * 64 + r mod 64"
    by (rule digits_two [OF d(1,2)])
  have "r = x * 262144 + y * 4096 + b * 64 + c"
    if "r = 64 * u + c" "u = 64 * v + b" "v = 64 * x + y" for u v x y b c
    using that by simp
  from this [OF d] show "r = r div 262144 * 262144 + r div 4096 mod 64 * 4096 + r div 64 mod 64 * 64 + r mod 64" .
qed

lemma three_value:
  "snd (decode_bytes [224 + a, 128 + b, 128 + c]) = 3 \<Longrightarrow> a < 16 \<Longrightarrow>
     fst (decode_bytes [224 + a, 128 + b, 128 + c]) = a * 4096 + b * 64 + c"
  by (auto simp: Let_def split: if_splits prod.splits)

lemma four_value:
  "snd (decode_bytes [240 + a, 128 + b, 128 + c, 128 + d]) = 4 \<Longrightarrow> a \<le> 4 \<Longrightarrow>
     fst (decode_bytes [240 + a, 128 + b, 128 + c, 128 + d]) = a * 262144 + b * 4096 + c * 64 + d"
  by (auto simp: Let_def split: if_splits prod.splits)

lemma decode_encode_bytes:
  assumes "valid_rune r"
  shows "fst (decode_bytes (map byte (encode_rune r))) = r"
proof -
  have low: "128 + x mod 64 < (256 :: nat)" for x
    using mod_less_divisor [of 64 x] by linarith
  consider "r < 128" | "128 \<le> r" "r < 2048" | "2048 \<le> r" "r < 65536" | "65536 \<le> r" by linarith
  then show ?thesis
  proof cases
    case 1
    then show ?thesis by (simp add: encode_rune_def byte_char_of split_beta)
  next
    case 2
    then have "r div 64 < 32" "2 \<le> r div 64" by auto
    moreover have "r mod 64 \<le> 63" using mod_less_divisor [of 64 r] by linarith
    ultimately show ?thesis
      using 2 by (simp add: encode_rune_def byte_char_of Let_def is_cont_def second_range.simps low)
  next
    case 3
    have w: "snd (decode_bytes (map byte (encode_rune r))) = length (encode_rune r)" by (rule encode_width [OF assms])
    have enc: "encode_rune r = map char_of [224 + r div 4096, 128 + r div 64 mod 64, 128 + r mod 64]"
      using 3 assms by (auto simp: encode_rune_def Let_def valid_rune_def)
    have "r div 4096 < 16" using 3 by auto
    then have bytes: "map byte (encode_rune r) = [224 + r div 4096, 128 + r div 64 mod 64, 128 + r mod 64]"
      using low unfolding enc by (simp add: byte_char_of)
    have l: "length (encode_rune r) = 3" using arg_cong [OF bytes, of length] by simp
    have "fst (decode_bytes (map byte (encode_rune r))) = r div 4096 * 4096 + r div 64 mod 64 * 64 + r mod 64"
      unfolding bytes by (rule three_value [OF w [unfolded bytes l] \<open>r div 4096 < 16\<close>])
    also have "\<dots> = r" by (rule rune_digits(1) [symmetric])
    finally show ?thesis .
  next
    case 4
    have r: "r \<le> 1114111" using assms 4 by (simp add: valid_rune_def)
    have w: "snd (decode_bytes (map byte (encode_rune r))) = length (encode_rune r)" by (rule encode_width [OF assms])
    have enc: "encode_rune r =
        map char_of [240 + r div 262144, 128 + r div 4096 mod 64, 128 + r div 64 mod 64, 128 + r mod 64]"
      using 4 r by (simp add: encode_rune_def Let_def)
    have "r div 262144 \<le> 4" using div_le_mono [OF r, of 262144] by simp
    then have bytes: "map byte (encode_rune r) =
        [240 + r div 262144, 128 + r div 4096 mod 64, 128 + r div 64 mod 64, 128 + r mod 64]"
      using low unfolding enc by (simp add: byte_char_of)
    have l: "length (encode_rune r) = 4" using arg_cong [OF bytes, of length] by simp
    have "fst (decode_bytes (map byte (encode_rune r))) =
        r div 262144 * 262144 + r div 4096 mod 64 * 4096 + r div 64 mod 64 * 64 + r mod 64"
      unfolding bytes by (rule four_value [OF w [unfolded bytes l] \<open>r div 262144 \<le> 4\<close>])
    also have "\<dots> = r" by (rule rune_digits(2) [symmetric])
    finally show ?thesis .
  qed
qed

lemma string_of_runes_Cons: "string_of_runes (r # rs) = encode_rune r @ string_of_runes rs"
  by (simp add: string_of_runes_def)

lemma string_of_runes_append: "string_of_runes (rs @ qs) = string_of_runes rs @ string_of_runes qs"
  by (simp add: string_of_runes_def)

lemma string_of_runes_rune_start: "rune_start (string_of_runes rs)"
  by (cases rs) (simp_all add: string_of_runes_Cons encode_rune_start rune_start_Nil string_of_runes_def)

lemma decode_encode:
  assumes "valid_rune r" "rune_start s"
  shows "decode_rune (encode_rune r @ s) = (r, length (encode_rune r))"
proof -
  have l: "encode_rune r \<noteq> []" "take 4 (encode_rune r) = encode_rune r" using encode_rune_length [of r] by auto
  then have "decode_rune (encode_rune r @ s) = decode_rune (encode_rune r)"
    by (intro decode_rune_append) (use assms in auto)
  then show ?thesis
    using l decode_encode_bytes [OF assms(1)] encode_width [OF assms(1)] by (simp add: decode_rune_def prod_eq_iff)
qed

lemma runes_encode_append:
  assumes "valid_rune r" "rune_start s"
  shows "runes (encode_rune r @ s) = r # runes s"
proof -
  have l: "1 \<le> length (encode_rune r)" "encode_rune r \<noteq> []" using encode_rune_length [of r] by auto
  then show ?thesis
    by (subst runes.simps) (simp add: decode_encode [OF assms] max_def)
qed

lemma runes_string_of_runes: "list_all valid_rune rs \<Longrightarrow> runes (string_of_runes rs) = rs"
  by (induction rs)
    (simp_all add: string_of_runes_Cons runes_encode_append string_of_runes_rune_start, simp add: string_of_runes_def)

lemma runes_json_string [simp]: "runes (json_string s) = runes s"
  by (simp add: json_string_def runes_string_of_runes valid_runes)

lemma json_string_idem [simp]: "json_string (json_string s) = json_string s"
  by (simp add: json_string_def [of "json_string s"]) (simp add: json_string_def)

lemma json_string_append: "rune_start w \<Longrightarrow> json_string (t @ w) = json_string t @ json_string w"
  by (simp add: json_string_def runes_append string_of_runes_append)

lemma json_string_Nil [simp]: "json_string [] = []"
  by (simp add: json_string_def string_of_runes_def)

lemma json_string_ascii [go_eval]: "is_ascii s \<Longrightarrow> json_string s = s"
  by (simp add: json_string_def runes_ascii ascii_of_runes)

subsection \<open>Encoding what was decoded\<close>

text \<open>A rune other than the error one stands for its encoding.\<close>

lemma encode_two: "2 \<le> a \<Longrightarrow> a < 32 \<Longrightarrow> b < 64 \<Longrightarrow> encode_rune (a * 64 + b) = map char_of [192 + a, 128 + b]"
  by (simp add: encode_rune_def Let_def)

lemma digit_div: "c < 64 \<Longrightarrow> (x * 64 + c) div 64 = (x :: nat)" "c < 64 \<Longrightarrow> (x * 64 + c) mod 64 = (c :: nat)"
  by simp_all

lemma horner:
  "a * 4096 + b * 64 + c = (a * 64 + b) * 64 + (c :: nat)"
  "a * 262144 + b * 4096 + c * 64 + d = ((a * 64 + b) * 64 + c) * 64 + (d :: nat)"
  by simp_all

lemma encode_three:
  assumes "valid_rune r" "r = (a * 64 + b) * 64 + c" "a < 16" "b < 64" "c < 64" "a = 0 \<Longrightarrow> 32 \<le> b"
  shows "encode_rune r = map char_of [224 + a, 128 + b, 128 + c]"
proof -
  have d: "r div 64 = a * 64 + b" "r mod 64 = c" "r div 4096 = a"
    using digit_div [OF assms(5), of "a * 64 + b"] digit_div [OF assms(4), of a] assms(2)
    by (simp_all add: div_mult2_eq [of r 64 64, simplified])
  have "2048 \<le> r" "r < 65536" using assms(2-6) by (cases a; simp)+
  moreover have "\<not> (55296 \<le> r \<and> r < 57344)" "\<not> 1114111 < r" using assms(1) by (auto simp: valid_rune_def)
  ultimately show ?thesis
    using assms(4) by (auto simp: encode_rune_def Let_def d)
qed

lemma encode_four:
  assumes "valid_rune r" "r = ((a * 64 + b) * 64 + c) * 64 + d" "a \<le> 4" "b < 64" "c < 64" "d < 64" "a = 0 \<Longrightarrow> 16 \<le> b"
  shows "encode_rune r = map char_of [240 + a, 128 + b, 128 + c, 128 + d]"
proof -
  have d: "r div 64 = (a * 64 + b) * 64 + c" "r mod 64 = d" "r div 4096 = a * 64 + b" "r div 262144 = a"
    using digit_div [OF assms(6), of "(a * 64 + b) * 64 + c"] digit_div [OF assms(5), of "a * 64 + b"]
      digit_div [OF assms(4), of a] assms(2)
    by (simp_all add: div_mult2_eq [of r 64 64, simplified] div_mult2_eq [of r 4096 64, simplified])
  have "65536 \<le> r" using assms(2-7) by (cases a; simp)
  moreover have "\<not> 1114111 < r" using assms(1) by (auto simp: valid_rune_def)
  moreover have "r div 64 mod 64 = c" "r div 4096 mod 64 = b"
    unfolding d by (rule digit_div(2) [OF assms(5)], rule digit_div(2) [OF assms(4)])
  ultimately show ?thesis
    by (simp add: encode_rune_def Let_def d(2,4))
qed

text \<open>A decoded rune that is not the error rune is written with the bytes it was read from.\<close>

lemma encode_decode_bytes:
  assumes "decode_bytes bs = (r, n)" "r \<noteq> rune_error" "list_all (\<lambda>b. b < 256) bs"
  shows "encode_rune r = map char_of (take n bs) \<and> n \<le> length bs"
proof (cases bs)
  case (Cons b0 cs)
  obtain lo hi where lh: "second_range b0 = (lo, hi)" by (cases "second_range b0")
  have valid: "valid_rune r" using valid_decode_bytes [of bs] assms(1) by simp
  note range = second_range_bounds [OF lh]
  consider "b0 < 128" | "194 \<le> b0" "b0 \<le> 223" | "224 \<le> b0" "b0 \<le> 239" | "240 \<le> b0" "b0 \<le> 244"
    | "128 \<le> b0" "\<not> (194 \<le> b0 \<and> b0 \<le> 244)" by linarith
  then show ?thesis
  proof cases
    case 1
    then show ?thesis using assms Cons lh by (auto simp: encode_rune_def Let_def)
  next
    case 2
    then obtain b1 ds where c: "cs = b1 # ds" "is_cont lo hi b1" "r = (b0 - 192) * 64 + (b1 - 128)" "n = 2"
      using assms Cons lh by (auto simp: Let_def split: list.splits if_splits)
    have "encode_rune r = map char_of [192 + (b0 - 192), 128 + (b1 - 128)]"
      unfolding c(3) by (rule encode_two) (use 2 c(2) range in \<open>auto simp: is_cont_def\<close>)
    then show ?thesis using 2 c range Cons by (simp add: is_cont_def)
  next
    case 3
    then obtain b1 b2 ds where c: "cs = b1 # b2 # ds" "is_cont lo hi b1" "is_cont 128 191 b2"
        "r = (b0 - 224) * 4096 + (b1 - 128) * 64 + (b2 - 128)" "n = 3"
      using assms Cons lh by (auto simp: Let_def split: list.splits if_splits)
    have "encode_rune r = map char_of [224 + (b0 - 224), 128 + (b1 - 128), 128 + (b2 - 128)]"
      by (rule encode_three [OF valid c(4) [unfolded horner]])
        (use 3 c(2-3) range lh in \<open>auto simp: is_cont_def second_range.simps split: if_splits\<close>)
    then show ?thesis using 3 c range Cons by (simp add: is_cont_def)
  next
    case 4
    then obtain b1 b2 b3 ds where c: "cs = b1 # b2 # b3 # ds" "is_cont lo hi b1" "is_cont 128 191 b2" "is_cont 128 191 b3"
        "r = (b0 - 240) * 262144 + (b1 - 128) * 4096 + (b2 - 128) * 64 + (b3 - 128)" "n = 4"
      using assms Cons lh by (auto simp: Let_def split: list.splits if_splits)
    have "encode_rune r = map char_of [240 + (b0 - 240), 128 + (b1 - 128), 128 + (b2 - 128), 128 + (b3 - 128)]"
      by (rule encode_four [OF valid c(5) [unfolded horner]])
        (use 4 c(2-4) range lh in \<open>auto simp: is_cont_def second_range.simps split: if_splits\<close>)
    then show ?thesis using 4 c range Cons by (simp add: is_cont_def)
  next
    case 5
    then show ?thesis using assms Cons lh by (auto simp: Let_def split: if_splits)
  qed
qed (use assms in simp)

lemma decode_rune_encode:
  assumes "decode_rune s = (r, n)" "r \<noteq> rune_error"
  shows "s = encode_rune r @ drop n s" "n = length (encode_rune r)"
proof -
  have b: "list_all (\<lambda>b. b < 256) (map byte (take 4 s))" by (simp add: list_all_iff byte_def)
  have e: "encode_rune r = take n (take 4 s)" "n \<le> length (take 4 s)"
    using encode_decode_bytes [OF _ assms(2) b] assms(1) by (simp_all add: decode_rune_def take_map comp_def)
  then show "n = length (encode_rune r)" by simp
  have "take n (take 4 s) = take n s" using e(2) by (auto simp: min_def split: if_splits)
  then show "s = encode_rune r @ drop n s" using e(1) by simp
qed

lemma json_string_valid: "rune_error \<notin> set (runes s) \<Longrightarrow> json_string s = s"
proof (induction s rule: runes.induct)
  case (1 s)
  show ?case
  proof (cases "s = []")
    case False
    obtain r n where d: "decode_rune s = (r, n)" by (cases "decode_rune s")
    have n: "max 1 n = n" using decode_width [OF False] d by simp
    then have rs: "runes s = r # runes (drop n s)" using False d by (subst runes.simps) simp
    then have "r \<noteq> rune_error" "json_string (drop n s) = drop n s"
      using 1 False d n by (auto simp: max_def)
    then show ?thesis
      using decode_rune_encode [OF d] rs by (simp add: json_string_def string_of_runes_Cons)
  qed simp
qed

lemma last_rune:
  "runes s = rs @ [r] \<Longrightarrow> r \<noteq> rune_error \<Longrightarrow> rune_start (encode_rune r) \<Longrightarrow> \<exists>t. s = t @ encode_rune r"
proof (induction s arbitrary: rs rule: runes.induct)
  case (1 s)
  have ne: "s \<noteq> []" using "1.prems" by auto
  obtain a n where d: "decode_rune s = (a, n)" by (cases "decode_rune s")
  have n: "max 1 n = n" using decode_width [OF ne] d by simp
  then have rs: "runes s = a # runes (drop n s)" using ne d by (subst runes.simps) simp
  show ?case
  proof (cases rs)
    case Nil
    then have "a = r" "runes (drop n s) = []" using rs "1.prems"(1) by auto
    then have "drop n s = []" by (metis list.discI runes.simps split_beta)
    then show ?thesis using decode_rune_encode [OF d] \<open>a = r\<close> "1.prems"(2) by (intro exI [of _ "[]"]) simp
  next
    case (Cons b bs)
    then have "runes (drop (max 1 n) s) = bs @ [r]" using rs "1.prems"(1) n by simp
    then obtain t where "drop n s = t @ encode_rune r"
      using "1.IH" [OF ne d [symmetric]] "1.prems"(2,3) n by auto
    then have "s = (take n s @ t) @ encode_rune r" by (metis append.assoc append_take_drop_id)
    then show ?thesis by blast
  qed
qed

subsection \<open>White space and letters are where they were\<close>

lemma white_space_decode:
  assumes "w \<in> set white_space_runes"
  shows "\<exists>r. w = encode_rune r \<and> valid_rune r \<and> r \<noteq> rune_error \<and> (\<forall>s. decode_rune (w @ s) = (r, length w))"
proof -
  have "list_all (\<lambda>w. decode_rune (w @ s) = (fst (decode_rune w), length w) \<and> fst (decode_rune w) \<noteq> rune_error)
      white_space_runes" for s
    by (simp add: white_space_runes_def decode_rune_def byte_def is_cont_def Let_def second_range.simps rune_error_def)
  then have d: "decode_rune (w @ s) = (fst (decode_rune w), length w)" "fst (decode_rune w) \<noteq> rune_error" for s
    using assms by (simp_all add: list_all_iff)
  have "w = encode_rune (fst (decode_rune w))"
    using decode_rune_encode [OF d(1) [of "[]"] d(2)] by simp
  then show ?thesis using d valid_decode [of w] by blast
qed

lemma runes_white_space_append:
  assumes "w = encode_rune r" "\<forall>s. decode_rune (w @ s) = (r, length w)"
  shows "json_string (w @ s) = w @ json_string s"
proof -
  have "1 \<le> length w" using assms(1) encode_rune_length [of r] by auto
  then have "w \<noteq> []" "max 1 (length w) = length w" by auto
  then have "runes (w @ s) = r # runes s"
    using assms(2) by (subst runes.simps) simp
  then show ?thesis using assms(1) by (simp add: json_string_def string_of_runes_Cons)
qed

lemma prefix_white_space_json:
  assumes "w \<in> set white_space_runes"
  shows "prefix w (json_string s) \<longleftrightarrow> prefix w s"
proof -
  obtain r where r: "w = encode_rune r" "valid_rune r" "r \<noteq> rune_error" "\<forall>s. decode_rune (w @ s) = (r, length w)"
    using white_space_decode [OF assms] by blast
  show ?thesis
  proof
    assume "prefix w (json_string s)"
    then obtain t where t: "json_string s = w @ t" by (auto simp: prefix_def)
    have "1 \<le> length w" using r(1) encode_rune_length [of r] by auto
    then have "w \<noteq> []" "max 1 (length w) = length w" by auto
    then have "runes (json_string s) = r # runes t"
      using r(4) unfolding t by (subst runes.simps) simp
    then have "hd (runes s) = r" "s \<noteq> []" by auto
    then have "fst (decode_rune s) = r" by (metis list.sel(1) prod.case_eq_if runes.simps)
    then show "prefix w s"
      using decode_rune_encode [OF prod.collapse [symmetric], of s] r(1,3) by (metis prefixI)
  next
    assume "prefix w s"
    then obtain t where "s = w @ t" by (auto simp: prefix_def)
    then show "prefix w (json_string s)" using runes_white_space_append [OF r(1,4)] by simp
  qed
qed

lemma suffix_white_space_json:
  assumes "w \<in> set white_space_runes"
  shows "suffix w (json_string s) \<longleftrightarrow> suffix w s"
proof -
  obtain r where r: "w = encode_rune r" "valid_rune r" "r \<noteq> rune_error" "\<forall>s. decode_rune (w @ s) = (r, length w)"
    using white_space_decode [OF assms] by blast
  have start: "rune_start w" using white_space_start [OF assms, of "[]"] by simp
  show ?thesis
  proof
    assume "suffix w (json_string s)"
    then obtain u where u: "json_string s = u @ w" by (auto simp: suffix_def)
    have "runes w = [r]" using runes_encode_append [OF r(2) rune_start_Nil] r(1) by simp
    then have "runes s = runes u @ [r]" using runes_append [OF start, of u] u by (metis runes_json_string)
    then show "suffix w s" using last_rune [of s "runes u" r] r(1,3) start by (auto simp: suffix_def)
  next
    assume "suffix w s"
    then obtain t where "s = t @ w" by (auto simp: suffix_def)
    then show "suffix w (json_string s)"
      using json_string_append [OF start, of t] runes_white_space_append [OF r(1,4), of "[]"] by (simp add: suffix_def)
  qed
qed

lemma head_seq_len_cong:
  "(\<And>p. p \<in> set ps \<Longrightarrow> prefix p s \<longleftrightarrow> prefix p t) \<Longrightarrow> head_seq_len ps s = head_seq_len ps t"
proof -
  assume "\<And>p. p \<in> set ps \<Longrightarrow> prefix p s \<longleftrightarrow> prefix p t"
  then have "List.find (\<lambda>p. prefix p s) ps = List.find (\<lambda>p. prefix p t) ps"
    by (intro find_cong) auto
  then show ?thesis by (simp add: head_seq_len_def)
qed

lemma strip_left_json: "strip_seqs white_space_runes (json_string s) = json_string (strip_seqs white_space_runes s)"
proof (induction "white_space_runes" s rule: strip_seqs.induct)
  case (1 s)
  have h: "head_seq_len white_space_runes (json_string s) = head_seq_len white_space_runes s"
    by (rule head_seq_len_cong) (simp add: prefix_white_space_json)
  show ?case
  proof (cases "head_seq_len white_space_runes s = 0")
    case True
    then show ?thesis using h by (simp add: strip_seqs_idem)
  next
    case False
    then obtain w t where w: "w \<in> set white_space_runes" "s = w @ t" "drop (head_seq_len white_space_runes s) s = t"
      by (rule head_seq_len_split)
    obtain r where "w = encode_rune r" "\<forall>s. decode_rune (w @ s) = (r, length w)"
      using white_space_decode [OF w(1)] by blast
    then have "json_string s = w @ json_string t" unfolding w(2) by (rule runes_white_space_append)
    moreover have "head_seq_len white_space_runes s = length w"
      using w(2,3) by (metis append_eq_append_conv append_take_drop_id length_append length_drop add_diff_cancel_right' diff_diff_cancel head_seq_len_le)
    ultimately have "drop (head_seq_len white_space_runes s) (json_string s) = json_string t" by simp
    then show ?thesis
      using 1 False h w(3) by (subst (1 2) strip_seqs.simps) simp
  qed
qed

lemma strip_right_json:
  "rev (strip_seqs (map rev white_space_runes) (rev (json_string s))) =
     json_string (rev (strip_seqs (map rev white_space_runes) (rev s)))"
proof (induction "map rev white_space_runes" "rev s" arbitrary: s rule: strip_seqs.induct)
  case (1 s)
  let ?ps = "map rev white_space_runes"
  have h: "head_seq_len ?ps (rev (json_string s)) = head_seq_len ?ps (rev s)"
    by (rule head_seq_len_cong) (auto simp: suffix_to_prefix [symmetric] suffix_white_space_json)
  show ?case
  proof (cases "head_seq_len ?ps (rev s) = 0")
    case True
    then show ?thesis using h by (simp add: strip_seqs_idem)
  next
    case False
    then obtain p t where p: "p \<in> set ?ps" "rev s = p @ t" "drop (head_seq_len ?ps (rev s)) (rev s) = t"
      by (rule head_seq_len_split)
    then obtain w where w: "w \<in> set white_space_runes" "p = rev w" by auto
    have s: "s = rev t @ w" using p(2) w(2) by (metis rev_append rev_rev_ident)
    obtain r where "w = encode_rune r" "\<forall>s. decode_rune (w @ s) = (r, length w)"
      using white_space_decode [OF w(1)] by blast
    then have "json_string w = w" using runes_white_space_append [of w r "[]"] by simp
    then have j: "rev (json_string s) = rev w @ rev (json_string (rev t))"
      using json_string_append [of w "rev t"] white_space_start [OF w(1), of "[]"] s by simp
    have "head_seq_len ?ps (rev s) = length w"
      using p(2,3) w(2) by (metis append_eq_append_conv append_take_drop_id length_append length_drop add_diff_cancel_right' diff_diff_cancel head_seq_len_le length_rev)
    then have "drop (head_seq_len ?ps (rev s)) (rev (json_string s)) = rev (json_string (rev t))" using j by simp
    then show ?thesis
      using 1 [of "rev t"] False h p(3) by (subst (1 2) strip_seqs.simps) simp
  qed
qed

lemma trim_space_json: "trim_space (json_string s) = json_string (trim_space s)"
  by (simp add: trim_space_def strip_left_json strip_right_json)

lemma is_ascii_json: "is_ascii (json_string s) \<longleftrightarrow> is_ascii s"
proof
  assume a: "is_ascii (json_string s)"
  then have "runes s = map byte (json_string s)" using runes_ascii [OF a] by simp
  then have "rune_error \<notin> set (runes s)" using a by (auto simp: is_ascii_def list_all_iff rune_error_def)
  then show "is_ascii s" using a by (simp add: json_string_valid)
qed (simp add: json_string_ascii)

lemma to_lower_json: "to_lower (json_string s) = to_lower s"
  using is_ascii_json [of s] by (auto simp: to_lower_def json_string_ascii)

end
