(* ===== verification/AuditLog.thy ===== *)
theory AuditLog
  imports Sql JsonText
begin

text \<open>
  \<^verbatim>\<open>internal/audit\<close>: the metadata filter every audit record and trace goes through
  (\<^verbatim>\<open>SanitizeMetadata\<close>, \<^verbatim>\<open>IsSensitiveMetadata\<close>), the validation of an event and the store that
  writes it to \<^verbatim>\<open>audit_logs\<close>. Only the metadata goes through the filter: the other columns hold what
  the event says.
\<close>

type_synonym audit_status = string

abbreviation StatusAllowed :: audit_status where "StatusAllowed \<equiv> ''allowed''"
abbreviation StatusDenied :: audit_status where "StatusDenied \<equiv> ''denied''"
abbreviation StatusFailed :: audit_status where "StatusFailed \<equiv> ''failed''"
abbreviation StatusSucceeded :: audit_status where "StatusSucceeded \<equiv> ''succeeded''"

record audit_event =
  ev_kind :: string
  ev_guild_id :: string
  ev_actor_id :: string
  ev_status :: audit_status
  ev_reason :: string
  ev_metadata :: gomap
  ev_request_id :: string

definition redacted_metadata_value :: string where
  "redacted_metadata_value = ''[REDACTED]''"

definition has_secret_key_prefix :: "string \<Rightarrow> bool" where
  "has_secret_key_prefix value \<longleftrightarrow>
     prefix ''sk-'' value \<or>
     list_ex (contains_sub value)
       ['' sk-'', [CHR 0x09] @ ''sk-'', [CHR 0x0A] @ ''sk-'', [CHR 0x22] @ ''sk-'',
        [CHR 0x27] @ ''sk-'', ''=sk-'', '':sk-'']"

definition sensitive_markers :: "string list" where
  "sensitive_markers =
     [''api_key'', ''apikey'', ''authorization'', ''bearer '', ''client_secret'',
      ''provider_secret'', ''private_key'', ''refresh_token'', ''secret'', ''token'',
      ''x-api-key'']"

definition IsSensitiveMetadata :: "string \<Rightarrow> bool" where
  "IsSensitiveMetadata value0 =
     (let value = to_lower (trim_space value0) in
      if value = [] then False
      else if has_secret_key_prefix value then True
      else list_ex (contains_sub value) sensitive_markers)"

text \<open>One iteration of the loop of \<^verbatim>\<open>SanitizeMetadata\<close>, and the loop over the map.\<close>

definition sanitize_entry :: "string \<times> string \<Rightarrow> (string \<times> string) option" where
  "sanitize_entry kv =
     (case kv of (key, value) \<Rightarrow>
        if IsSensitiveMetadata key then None
        else if IsSensitiveMetadata value then Some (key, redacted_metadata_value)
        else Some (key, value))"

definition SanitizeMetadata :: "gomap \<Rightarrow> gomap" where
  "SanitizeMetadata metadata = List.map_filter sanitize_entry metadata"

definition validStatus :: "audit_status \<Rightarrow> bool" where
  "validStatus status \<longleftrightarrow>
     status \<in> {StatusAllowed, StatusDenied, StatusFailed, StatusSucceeded}"

definition Validate :: "audit_event \<Rightarrow> unit result" where
  "Validate e =
     require (trim_space (ev_kind e) \<noteq> []) ''audit kind is required''
    (require (trim_space (ev_actor_id e) \<noteq> []) ''audit actor ID is required''
    (require (validStatus (ev_status e)) ''audit status is required''
    (check_each (\<lambda>(key, value).
        require (\<not> (IsSensitiveMetadata key \<or> IsSensitiveMetadata value))
          ''sensitive metadata is not allowed'' (Inr ()))
      (ev_metadata e))))"

text \<open>A row of \<^verbatim>\<open>audit_logs\<close>; the table's primary key is its id.\<close>

record audit_row =
  row_id :: string
  row_event :: audit_event

type_synonym audit_db = "audit_row list sqldb"

definition insert_audit_log :: "string \<Rightarrow> audit_event \<Rightarrow> (audit_row list, unit) statement" where
  "insert_audit_log i e now rows =
     (if \<not> list_all text_ok [i, ev_kind e, ev_guild_id e, ev_actor_id e, ev_status e, ev_reason e, ev_request_id e]
      then Inl (Errorf ''invalid byte sequence for encoding UTF8'')
      else if \<not> jsonb_ok (ev_metadata e) then Inl (Errorf ''unsupported Unicode escape sequence'')
      else if i \<in> row_id ` set rows then Inl (Errorf ''duplicate key'')
      else Inr ((), rows @ [\<lparr>row_id = i, row_event = e\<lparr>ev_metadata := jsonb (ev_metadata e)\<rparr>\<rparr>]))"

text \<open>\<^verbatim>\<open>Store.Record\<close>; \<open>newID\<close> is the value the store's ID function returns, empty when it has none.\<close>

definition Record :: "string \<Rightarrow> audit_event \<Rightarrow> audit_db \<Rightarrow> unit result \<times> audit_db" where
  "Record newID event0 db =
     (let event = event0\<lparr>ev_metadata := SanitizeMetadata (ev_metadata event0)\<rparr> in
      case Validate event of
        Inl e \<Rightarrow> (Inl e, db)
      | Inr _ \<Rightarrow>
          if newID = [] then (Inl (Errorf ''audit ID is required''), db)
          else wrap_err ''insert audit log'' (sql_exec (insert_audit_log newID event) db))"

subsection \<open>What the filter guarantees\<close>

definition clean_metadata :: "gomap \<Rightarrow> bool" where
  "clean_metadata m \<longleftrightarrow> (\<forall>(k, v)\<in>set m. \<not> IsSensitiveMetadata k \<and> \<not> IsSensitiveMetadata v)"

lemmas sensitive_eval = IsSensitiveMetadata_def has_secret_key_prefix_def sensitive_markers_def
  redacted_metadata_value_def to_lower_def is_ascii_def go_eval

lemma redacted_not_sensitive [simp]: "\<not> IsSensitiveMetadata redacted_metadata_value"
  by (simp add: sensitive_eval)

lemma sanitize_entry_clean:
  "sanitize_entry kv = Some (k, v) \<Longrightarrow> \<not> IsSensitiveMetadata k \<and> \<not> IsSensitiveMetadata v"
  by (auto simp: sanitize_entry_def split: prod.splits if_splits)

lemma clean_SanitizeMetadata: "clean_metadata (SanitizeMetadata m)"
  by (auto simp: clean_metadata_def SanitizeMetadata_def map_filter_def dest: sanitize_entry_clean)

lemma SanitizeMetadata_clean: "clean_metadata m \<Longrightarrow> SanitizeMetadata m = m"
  by (induction m) (auto simp: clean_metadata_def SanitizeMetadata_def map_filter_simps sanitize_entry_def)

lemma fst_set_SanitizeMetadata: "fst ` set (SanitizeMetadata m) \<subseteq> fst ` set m"
  by (force simp: SanitizeMetadata_def map_filter_def sanitize_entry_def split: if_splits)

lemma wf_SanitizeMetadata: "wf_map m \<Longrightarrow> wf_map (SanitizeMetadata m)"
proof (induction m)
  case (Cons kv m)
  then have "fst kv \<notin> fst ` set (SanitizeMetadata m)" "wf_map (SanitizeMetadata m)"
    using fst_set_SanitizeMetadata [of m] by auto
  moreover have "fst kv' = fst kv" if "sanitize_entry kv = Some kv'" for kv'
    using that by (auto simp: sanitize_entry_def split: prod.splits if_splits)
  ultimately show ?case
    by (auto simp: SanitizeMetadata_def map_filter_simps split: option.splits)
qed (simp add: SanitizeMetadata_def map_filter_simps)

text \<open>The conversion to JSON neither hides nor makes a sensitive text.\<close>

lemma sensitive_json_string [simp]: "IsSensitiveMetadata (json_string v) \<longleftrightarrow> IsSensitiveMetadata v"
  by (simp add: IsSensitiveMetadata_def trim_space_json to_lower_json)

lemma clean_jsonb: "clean_metadata m \<Longrightarrow> clean_metadata (jsonb m)"
  using set_mput_all [of "map (\<lambda>(k, v). (json_string k, json_string v)) m" "[]"]
  by (fastforce simp: clean_metadata_def jsonb_def)

definition clean_rows :: "audit_row list \<Rightarrow> bool" where
  "clean_rows rows \<longleftrightarrow> (\<forall>r\<in>set rows. clean_metadata (ev_metadata (row_event r)))"

lemma clean_rows_insert:
  assumes "clean_rows (tables db)" "clean_metadata (ev_metadata e)"
  shows "clean_rows (tables (snd (wrap_err m (sql_exec (insert_audit_log i e) db))))"
  using assms clean_jsonb [OF assms(2)]
  by (auto simp: sql_exec_def insert_audit_log_def wrap_err_def clean_rows_def
      split: prod.splits option.splits sum.splits if_splits dest!: next_faultD)

lemma Record_clean_rows: "clean_rows (tables db) \<Longrightarrow> clean_rows (tables (snd (Record i e db)))"
  by (auto simp: Record_def Let_def clean_rows_insert clean_SanitizeMetadata split: sum.splits)

lemma Validate_sanitized:
  "ev_metadata e = SanitizeMetadata m \<Longrightarrow> Validate e = Inr () \<longleftrightarrow>
     trim_space (ev_kind e) \<noteq> [] \<and> trim_space (ev_actor_id e) \<noteq> [] \<and> validStatus (ev_status e)"
  using clean_SanitizeMetadata [of m]
  by (auto simp: Validate_def check_each_Inr clean_metadata_def)

text \<open>What the columns of \<^verbatim>\<open>audit_logs\<close> take.\<close>

definition storable :: "string \<Rightarrow> audit_event \<Rightarrow> bool" where
  "storable i e \<longleftrightarrow>
     list_all text_ok [i, ev_kind e, ev_guild_id e, ev_actor_id e, ev_status e, ev_reason e, ev_request_id e] \<and>
     jsonb_ok (SanitizeMetadata (ev_metadata e))"

lemma Record_stores:
  assumes "trim_space (ev_kind e) \<noteq> []" "trim_space (ev_actor_id e) \<noteq> []"
    "validStatus (ev_status e)" "i \<noteq> []" "i \<notin> row_id ` set (tables db)" "faults db = []" "storable i e"
  shows "Record i e db =
    (Inr (), db\<lparr>tables := tables db @
      [\<lparr>row_id = i, row_event = e\<lparr>ev_metadata := jsonb (SanitizeMetadata (ev_metadata e))\<rparr>\<rparr>]\<rparr>)"
proof -
  have "Validate (e\<lparr>ev_metadata := SanitizeMetadata (ev_metadata e)\<rparr>) = Inr ()"
    using assms(1-3) by (subst Validate_sanitized [where m = "ev_metadata e"]) simp_all
  then show ?thesis
    using assms(4-7) by (simp add: Record_def insert_audit_log_def storable_def)
qed

text \<open>
  C22: the metadata of the audit log holds nothing the filter takes for a secret. \<^verbatim>\<open>Store.Record\<close> keeps the metadata of every row
  of \<^verbatim>\<open>audit_logs\<close> free of sensitive keys and values, as they are stored, whatever event it is given and whatever the driver does. An
  event with a kind, an actor, a known status and a fresh id, whose texts the columns take, is stored: its sensitive metadata
  is dropped or redacted instead of being rejected, and every other column holds what the event says.
\<close>

theorem audit_log_clean:
  assumes "clean_rows (tables db)"
  shows "clean_rows (tables (snd (Record i e db))) \<and>
    (trim_space (ev_kind e) \<noteq> [] \<and> trim_space (ev_actor_id e) \<noteq> [] \<and> validStatus (ev_status e) \<and>
     i \<noteq> [] \<and> i \<notin> row_id ` set (tables db) \<and> faults db = [] \<and> storable i e \<longrightarrow>
     Record i e db = (Inr (), db\<lparr>tables := tables db @
       [\<lparr>row_id = i, row_event = e\<lparr>ev_metadata := jsonb (SanitizeMetadata (ev_metadata e))\<rparr>\<rparr>]\<rparr>))"
  using Record_clean_rows [OF assms] Record_stores by blast

definition sample_event :: audit_event where
  "sample_event = \<lparr>ev_kind = ''agent.tool'', ev_guild_id = ''g'', ev_actor_id = ''u'',
     ev_status = StatusDenied, ev_reason = [],
     ev_metadata = [(''tool'', ''web.search''), (''note'', ''my Token''), (''api_key'', ''x'')],
     ev_request_id = []\<rparr>"

lemma sample_sanitized:
  "SanitizeMetadata (ev_metadata sample_event) = [(''tool'', ''web.search''), (''note'', ''[REDACTED]'')]"
  by (simp add: sample_event_def SanitizeMetadata_def sanitize_entry_def map_filter_simps sensitive_eval)

lemma sample_storable: "storable ''a1'' sample_event"
  unfolding storable_def sample_sanitized by (simp add: sample_event_def text_ok_def jsonb_ok_def json_string_ascii go_eval)

lemma audit_log_clean_witness:
  "ev_metadata (row_event (hd (tables (snd (Record ''a1'' sample_event
       \<lparr>tables = [], clock = 0, faults = []\<rparr>))))) =
     [(''tool'', ''web.search''), (''note'', ''[REDACTED]'')]"
proof -
  let ?db = "\<lparr>tables = [] :: audit_row list, clock = 0, faults = []\<rparr>"
  have "clean_rows (tables ?db)" by (simp add: clean_rows_def)
  moreover have "trim_space (ev_kind sample_event) \<noteq> [] \<and> trim_space (ev_actor_id sample_event) \<noteq> [] \<and>
    validStatus (ev_status sample_event)"
    by (simp add: sample_event_def validStatus_def go_eval)
  ultimately have "Record ''a1'' sample_event ?db = (Inr (), ?db\<lparr>tables := tables ?db @
    [\<lparr>row_id = ''a1'', row_event =
      sample_event\<lparr>ev_metadata := jsonb (SanitizeMetadata (ev_metadata sample_event))\<rparr>\<rparr>]\<rparr>)"
    using audit_log_clean [of ?db "''a1''" sample_event] sample_storable by simp
  then show ?thesis
    by (simp add: sample_sanitized jsonb_def json_string_ascii go_eval)
qed

end
