(* ===== verification/Capability.thy ===== *)
theory Capability
  imports Sql
begin

text \<open>
  \<^verbatim>\<open>internal/capability\<close>: the capability names and presets, the evaluator that decides whether a
  Discord member may act (\<^verbatim>\<open>Evaluator.Check\<close>), the SQL store it reads grants from and the manager
  that grants and revokes. The evaluator depends on its store through an interface; the locale
  \<open>grant_store\<close> states what it relies on and is interpreted on the SQL store.
\<close>

type_synonym capability = string

abbreviation CapabilityManage :: capability where "CapabilityManage \<equiv> ''capability.manage''"

subsection \<open>Known capabilities and presets\<close>

definition KnownCapabilities :: "capability list" where
  "KnownCapabilities =
     [CapabilityManage, ''plugin.install'', ''job.admin'', ''job.read'', ''job.schedule'',
      ''job.write'', ''web.search'', ''web.fetch'', ''agent.analytics'',
      ''agent.reply_latency.manage'', ''memory.read.guild'', ''memory.manage.guild'',
      ''relay.dispatch'', ''relay.receive'', ''llm.provider.write'', ''llm.provider.test'',
      ''llm.provider.select'']"

definition KnownPresets :: "(string \<times> capability list) list" where
  "KnownPresets =
     [(''gigi-admin'',
        [CapabilityManage, ''plugin.install'', ''job.admin'', ''job.read'', ''job.schedule'',
         ''job.write'', ''web.search'', ''web.fetch'', ''agent.analytics'',
         ''agent.reply_latency.manage'', ''memory.read.guild'', ''memory.manage.guild'',
         ''llm.provider.write'', ''llm.provider.test'', ''llm.provider.select'']),
      (''plugin-manager'', [''plugin.install'']),
      (''job-operator'', [''job.read'', ''job.schedule'', ''job.write'']),
      (''web-reader'', [''web.search'', ''web.fetch'']),
      (''memory-manager'', [''memory.read.guild'', ''memory.manage.guild'']),
      (''llm-manager'', [''llm.provider.write'', ''llm.provider.test'', ''llm.provider.select'']),
      (''memory-reader'', [''memory.read.guild'']),
      (''relay-user'', [''relay.dispatch'', ''relay.receive''])]"

definition PresetCapabilities :: "string \<Rightarrow> capability list option" where
  "PresetCapabilities name = map_option snd (find (\<lambda>p. fst p = name) KnownPresets)"

subsection \<open>Names\<close>

definition capability_rune :: "nat \<Rightarrow> bool" where
  "capability_rune r \<longleftrightarrow> is_lower_rune r \<or> is_digit_rune r \<or> r \<in> {46, 58, 95, 45}"

definition Normalize :: "string \<Rightarrow> capability result" where
  "Normalize value0 =
     (let value = trim_space value0 in
      require (value \<noteq> []) ''capability is required''
     (require (\<not> length value > 128) ''capability is too long''
     (require (list_all capability_rune (runes value)) ''capability contains unsupported character''
       (Inr value))))"

lemma Normalize_Inr:
  "Normalize v = Inr c \<longleftrightarrow>
     c = trim_space v \<and> c \<noteq> [] \<and> length c \<le> 128 \<and> list_all capability_rune (runes c)"
  by (auto simp: Normalize_def Let_def)

lemma Normalize_idem: "Normalize v = Inr c \<Longrightarrow> Normalize c = Inr c"
  by (auto simp: Normalize_Inr)

subsection \<open>The evaluator\<close>

record subject =
  sub_guild_id :: string
  sub_user_id :: string
  sub_role_ids :: "string list"
  sub_is_owner :: bool
  sub_is_admin :: bool

abbreviation ReasonAdminOverride :: string where "ReasonAdminOverride \<equiv> ''admin_override''"
abbreviation ReasonUserGrant :: string where "ReasonUserGrant \<equiv> ''user_grant''"
abbreviation ReasonRoleGrant :: string where "ReasonRoleGrant \<equiv> ''role_grant''"
abbreviation ReasonPublicAction :: string where "ReasonPublicAction \<equiv> ''public_action''"
abbreviation ReasonMissingCapability :: string where
  "ReasonMissingCapability \<equiv> ''missing_capability''"
abbreviation ReasonStoreError :: string where "ReasonStoreError \<equiv> ''store_error''"
abbreviation ReasonUnknownIdentity :: string where "ReasonUnknownIdentity \<equiv> ''unknown_identity''"

record decision =
  allowed :: bool
  dec_capability :: capability
  dec_reason :: string

text \<open>The \<^verbatim>\<open>GrantStore\<close> interface, over the state \<open>'w\<close> its implementation reads.\<close>

record 'w grant_reader =
  UserCapabilities :: "string \<Rightarrow> string \<Rightarrow> 'w \<Rightarrow> capability list result \<times> 'w"
  RoleCapabilities :: "string \<Rightarrow> string list \<Rightarrow> 'w \<Rightarrow> capability list result \<times> 'w"

definition contains_capability :: "capability list \<Rightarrow> capability \<Rightarrow> bool" where
  "contains_capability capabilities want \<longleftrightarrow> list_ex (\<lambda>c. trim_space c = want) capabilities"

definition check_roles ::
  "'w grant_reader \<Rightarrow> subject \<Rightarrow> decision \<Rightarrow> 'w \<Rightarrow> (decision \<times> goerror option) \<times> 'w" where
  "check_roles store s dec w =
     (case RoleCapabilities store (sub_guild_id s) (sub_role_ids s) w of
        (Inl e, w2) \<Rightarrow>
          ((dec\<lparr>dec_reason := ReasonStoreError\<rparr>, Some (Wrap ''load role capabilities'' e)), w2)
      | (Inr roleCaps, w2) \<Rightarrow>
          if contains_capability roleCaps (dec_capability dec)
          then ((dec\<lparr>allowed := True, dec_reason := ReasonRoleGrant\<rparr>, None), w2)
          else ((dec, None), w2))"

definition Check ::
  "'w grant_reader option \<Rightarrow> subject \<Rightarrow> capability \<Rightarrow> 'w \<Rightarrow> (decision \<times> goerror option) \<times> 'w" where
  "Check st s capability0 w =
     (let cap = trim_space capability0;
          dec = \<lparr>allowed = False, dec_capability = cap, dec_reason = ReasonMissingCapability\<rparr>
      in if sub_is_owner s \<or> sub_is_admin s
         then ((dec\<lparr>allowed := True, dec_reason := ReasonAdminOverride\<rparr>, None), w)
         else if trim_space (sub_guild_id s) = [] \<or> trim_space (sub_user_id s) = [] \<or> cap = []
         then ((dec\<lparr>dec_reason := ReasonUnknownIdentity\<rparr>, None), w)
         else case st of
           None \<Rightarrow> ((dec, None), w)
         | Some store \<Rightarrow>
             (case UserCapabilities store (sub_guild_id s) (sub_user_id s) w of
                (Inl e, w1) \<Rightarrow>
                  ((dec\<lparr>dec_reason := ReasonStoreError\<rparr>, Some (Wrap ''load user capabilities'' e)), w1)
              | (Inr userCaps, w1) \<Rightarrow>
                  if contains_capability userCaps cap
                  then ((dec\<lparr>allowed := True, dec_reason := ReasonUserGrant\<rparr>, None), w1)
                  else check_roles store s dec w1))"

lemma contains_capability_iff: "contains_capability cs c \<longleftrightarrow> c \<in> trim_space ` set cs"
  by (auto simp: contains_capability_def list_ex_iff)

lemma Check_error_denied:
  "Check st s c w = ((d, Some e), w') \<Longrightarrow> \<not> allowed d \<and> dec_reason d = ReasonStoreError"
  by (auto simp: Check_def check_roles_def Let_def split: if_splits option.splits prod.splits sum.splits)

lemma Check_capability: "dec_capability (fst (fst (Check st s c w))) = trim_space c"
  by (auto simp: Check_def check_roles_def Let_def split: if_splits option.splits prod.splits sum.splits)

text \<open>The contract of a grant store: what it lists is what is granted.\<close>

locale grant_store =
  fixes store :: "'w grant_reader"
    and user_granted :: "'w \<Rightarrow> string \<Rightarrow> string \<Rightarrow> capability \<Rightarrow> bool"
    and role_granted :: "'w \<Rightarrow> string \<Rightarrow> string \<Rightarrow> capability \<Rightarrow> bool"
  assumes user_caps:
    "\<And>g u w cs w' c. UserCapabilities store g u w = (Inr cs, w') \<Longrightarrow> c \<noteq> [] \<Longrightarrow>
       c \<in> trim_space ` set cs \<longleftrightarrow> user_granted w (trim_space g) (trim_space u) c"
    and role_caps:
    "\<And>g rs w cs w' c. RoleCapabilities store g rs w = (Inr cs, w') \<Longrightarrow> c \<noteq> [] \<Longrightarrow>
       c \<in> trim_space ` set cs \<longleftrightarrow>
       (\<exists>r\<in>set rs. trim_space r \<noteq> [] \<and> role_granted w (trim_space g) (trim_space r) c)"
    and user_frame:
    "\<And>g u w cs w' g' r c. UserCapabilities store g u w = (Inr cs, w') \<Longrightarrow>
       role_granted w' g' r c = role_granted w g' r c"
begin

definition entitled :: "'w \<Rightarrow> subject \<Rightarrow> capability \<Rightarrow> bool" where
  "entitled w s c \<longleftrightarrow>
     sub_is_owner s \<or> sub_is_admin s \<or>
     (trim_space (sub_guild_id s) \<noteq> [] \<and> trim_space (sub_user_id s) \<noteq> [] \<and> c \<noteq> [] \<and>
      (user_granted w (trim_space (sub_guild_id s)) (trim_space (sub_user_id s)) c \<or>
       (\<exists>r\<in>set (sub_role_ids s). trim_space r \<noteq> [] \<and>
          role_granted w (trim_space (sub_guild_id s)) (trim_space r) c)))"

lemma check_roles_exact:
  assumes "check_roles store s dec w = ((d, None), w')" "\<not> allowed dec" "dec_capability dec \<noteq> []"
  shows "allowed d \<longleftrightarrow> (\<exists>r\<in>set (sub_role_ids s). trim_space r \<noteq> [] \<and>
    role_granted w (trim_space (sub_guild_id s)) (trim_space r) (dec_capability dec))"
  using assms role_caps
  by (fastforce simp: check_roles_def contains_capability_iff split: prod.splits sum.splits if_splits)

lemma Check_exact:
  assumes "Check (Some store) s c w = ((d, None), w')"
  shows "allowed d \<longleftrightarrow> entitled w s (trim_space c)"
proof (cases "sub_is_owner s \<or> sub_is_admin s \<or>
    trim_space (sub_guild_id s) = [] \<or> trim_space (sub_user_id s) = [] \<or> trim_space c = []")
  case True
  then show ?thesis
    using assms by (auto simp: Check_def Let_def entitled_def split: if_splits)
next
  case False
  then obtain cs w1 where u: "UserCapabilities store (sub_guild_id s) (sub_user_id s) w = (Inr cs, w1)"
    using assms by (auto simp: Check_def Let_def split: prod.splits sum.splits)
  note facts = user_caps [OF u, of "trim_space c"] user_frame [OF u]
  show ?thesis
    using assms False u facts check_roles_exact [of s _ w1 d w']
    by (auto simp: Check_def Let_def entitled_def contains_capability_iff split: if_splits)
qed

end

subsection \<open>The grant tables\<close>

record grant_row =
  grant_id :: string
  grant_guild :: string
  grant_target :: string
  grant_cap :: string
  granted_by :: string

record grant_tables =
  guilds :: "string list"
  role_grants :: "grant_row list"
  user_grants :: "grant_row list"

type_synonym grant_db = "grant_tables sqldb"

datatype grant_table = RoleGrants | UserGrants

fun rows_of :: "grant_table \<Rightarrow> grant_tables \<Rightarrow> grant_row list" where
  "rows_of RoleGrants t = role_grants t"
| "rows_of UserGrants t = user_grants t"

fun with_rows :: "grant_table \<Rightarrow> grant_row list \<Rightarrow> grant_tables \<Rightarrow> grant_tables" where
  "with_rows RoleGrants rs t = t\<lparr>role_grants := rs\<rparr>"
| "with_rows UserGrants rs t = t\<lparr>user_grants := rs\<rparr>"

lemma rows_of_with_rows [simp]:
  "rows_of tb (with_rows tb' rs t) = (if tb = tb' then rs else rows_of tb t)"
  by (cases tb; cases tb') simp_all

lemma guilds_with_rows [simp]: "guilds (with_rows tb rs t) = guilds t"
  by (cases tb) simp_all

definition granted :: "grant_table \<Rightarrow> grant_tables \<Rightarrow> string \<Rightarrow> string \<Rightarrow> capability \<Rightarrow> bool" where
  "granted tb t g x c \<longleftrightarrow>
     (\<exists>r\<in>set (rows_of tb t). grant_guild r = g \<and> grant_target r = x \<and> trim_space (grant_cap r) = c)"

text \<open>The statements of \<^verbatim>\<open>SQLGrantStore\<close>: the select, and the scan loop that trims each name.\<close>

definition select_capabilities ::
  "grant_table \<Rightarrow> string \<Rightarrow> string list \<Rightarrow> (grant_tables, string list) statement" where
  "select_capabilities tb g xs now t =
     Inr (map grant_cap (filter (\<lambda>r. grant_guild r = g \<and> grant_target r \<in> set xs) (rows_of tb t)), t)"

definition queryCapabilities ::
  "(grant_tables, string list) statement \<Rightarrow> grant_db \<Rightarrow> capability list result \<times> grant_db" where
  "queryCapabilities q db =
     db_bind (sql_exec q db) (\<lambda>names db'. (Inr (filter (\<lambda>c. c \<noteq> []) (map trim_space names)), db'))"

definition cleanStrings :: "string list \<Rightarrow> string list" where
  "cleanStrings values = filter (\<lambda>v. v \<noteq> []) (map trim_space values)"

definition sql_user_capabilities ::
  "string \<Rightarrow> string \<Rightarrow> grant_db \<Rightarrow> capability list result \<times> grant_db" where
  "sql_user_capabilities g u db =
     queryCapabilities (select_capabilities UserGrants (trim_space g) [trim_space u]) db"

definition sql_role_capabilities ::
  "string \<Rightarrow> string list \<Rightarrow> grant_db \<Rightarrow> capability list result \<times> grant_db" where
  "sql_role_capabilities g roleIDs0 db =
     (let roleIDs = cleanStrings roleIDs0 in
      if roleIDs = [] then (Inr [], db)
      else queryCapabilities (select_capabilities RoleGrants (trim_space g) roleIDs) db)"

definition SQLGrantStore :: "grant_db grant_reader" where
  "SQLGrantStore =
     \<lparr>UserCapabilities = sql_user_capabilities, RoleCapabilities = sql_role_capabilities\<rparr>"

lemma queryCapabilities_Inr:
  assumes "queryCapabilities (select_capabilities tb g xs) db = (Inr cs, db')"
  shows "set cs = {c. c \<noteq> [] \<and> (\<exists>x\<in>set xs. granted tb (tables db) g x c)} \<and> tables db' = tables db"
proof -
  obtain names where "sql_exec (select_capabilities tb g xs) db = (Inr names, db')"
    "cs = filter (\<lambda>c. c \<noteq> []) (map trim_space names)"
    using assms by (auto simp: queryCapabilities_def db_bind_def split: prod.splits sum.splits)
  then show ?thesis
    by (auto simp: select_capabilities_def granted_def dest!: sql_exec_Inr) blast
qed

lemma granted_trimmed: "granted tb t g x c \<Longrightarrow> trim_space c = c"
  by (auto simp: granted_def)

lemma trim_image_granted:
  "trim_space ` {c. c \<noteq> [] \<and> (\<exists>x\<in>X. granted tb t g x c)} = {c. c \<noteq> [] \<and> (\<exists>x\<in>X. granted tb t g x c)}"
proof -
  let ?S = "{c. c \<noteq> [] \<and> (\<exists>x\<in>X. granted tb t g x c)}"
  have "trim_space c = c" if "c \<in> ?S" for c
    using that by (auto dest: granted_trimmed)
  then have "trim_space ` ?S = (\<lambda>c. c) ` ?S" by (intro image_cong refl)
  then show ?thesis by simp
qed

interpretation sql_grants: grant_store SQLGrantStore
  "\<lambda>db. granted UserGrants (tables db)" "\<lambda>db. granted RoleGrants (tables db)"
proof unfold_locales
  fix g u and w :: grant_db and cs w' and c :: capability
  assume "UserCapabilities SQLGrantStore g u w = (Inr cs, w')" "c \<noteq> []"
  then have "set cs = {c. c \<noteq> [] \<and>
      (\<exists>x\<in>{trim_space u}. granted UserGrants (tables w) (trim_space g) x c)}"
    using queryCapabilities_Inr [of UserGrants "trim_space g" "[trim_space u]" w cs w']
    by (simp add: SQLGrantStore_def sql_user_capabilities_def)
  then have "trim_space ` set cs = {c. c \<noteq> [] \<and>
      (\<exists>x\<in>{trim_space u}. granted UserGrants (tables w) (trim_space g) x c)}"
    by (simp only: trim_image_granted)
  with \<open>c \<noteq> []\<close> show "c \<in> trim_space ` set cs \<longleftrightarrow>
    granted UserGrants (tables w) (trim_space g) (trim_space u) c"
    by simp
next
  fix g rs and w :: grant_db and cs w' and c :: capability
  assume "RoleCapabilities SQLGrantStore g rs w = (Inr cs, w')" "c \<noteq> []"
  then have "set cs = {c. c \<noteq> [] \<and> (\<exists>x\<in>set (cleanStrings rs).
      granted RoleGrants (tables w) (trim_space g) x c)}"
    using queryCapabilities_Inr [of RoleGrants "trim_space g" "cleanStrings rs" w cs w']
    by (auto simp: SQLGrantStore_def sql_role_capabilities_def Let_def split: if_splits)
  then have "trim_space ` set cs = {c. c \<noteq> [] \<and> (\<exists>x\<in>set (cleanStrings rs).
      granted RoleGrants (tables w) (trim_space g) x c)}"
    by (simp only: trim_image_granted)
  with \<open>c \<noteq> []\<close> show "c \<in> trim_space ` set cs \<longleftrightarrow> (\<exists>r\<in>set rs. trim_space r \<noteq> [] \<and>
    granted RoleGrants (tables w) (trim_space g) (trim_space r) c)"
    by (auto simp: cleanStrings_def)
next
  fix g u and w :: grant_db and cs w' g' r c
  assume "UserCapabilities SQLGrantStore g u w = (Inr cs, w')"
  then show "granted RoleGrants (tables w') g' r c = granted RoleGrants (tables w) g' r c"
    using queryCapabilities_Inr [of UserGrants "trim_space g" "[trim_space u]" w cs w']
    by (simp add: SQLGrantStore_def sql_user_capabilities_def)
qed

end
