(* ===== verification/CapabilityManager.thy ===== *)
theory CapabilityManager
  imports Capability
begin

text \<open>
  \<^verbatim>\<open>internal/capability/manager.go\<close>: granting and revoking capabilities of roles and users, one at
  a time and, for roles, as a set inside a transaction. The table is that of migration
  \<^verbatim>\<open>000001\<close>: a grant's id is the primary key, guild, target and capability together are
  unique, and the guild must exist.
\<close>

text \<open>\<^verbatim>\<open>SQLGrantManager\<close>: whether it has a database and whether that database has transactions.\<close>

record grant_manager =
  has_db :: bool
  has_tx :: bool

definition validateGrant :: "string \<Rightarrow> string \<Rightarrow> capability \<Rightarrow> unit result" where
  "validateGrant guildID targetID cap =
     require (trim_space guildID \<noteq> []) ''guild ID is required''
    (require (trim_space targetID \<noteq> []) ''target ID is required''
    (attempt (Normalize cap) (\<lambda>_. Inr ())))"

fun normalize_loop :: "capability list \<Rightarrow> capability list result" where
  "normalize_loop [] = Inr []"
| "normalize_loop (c # cs) =
     attempt (Normalize c) (\<lambda>cleaned. attempt (normalize_loop cs) (\<lambda>rest. Inr (cleaned # rest)))"

definition normalizeCapabilities :: "capability list \<Rightarrow> capability list result" where
  "normalizeCapabilities caps =
     require (caps \<noteq> []) ''capabilities are required'' (normalize_loop caps)"

definition insert_guild :: "string \<Rightarrow> (grant_tables, unit) statement" where
  "insert_guild g now t =
     Inr ((), if g \<in> set (guilds t) then t else t\<lparr>guilds := g # guilds t\<rparr>)"

definition ensureGuild :: "string \<Rightarrow> grant_db \<Rightarrow> unit result \<times> grant_db" where
  "ensureGuild guildID db = wrap_err ''ensure guild'' (sql_exec (insert_guild (trim_space guildID)) db)"

definition same_grant :: "string \<Rightarrow> string \<Rightarrow> capability \<Rightarrow> grant_row \<Rightarrow> bool" where
  "same_grant g x c r \<longleftrightarrow> grant_guild r = g \<and> grant_target r = x \<and> grant_cap r = c"

definition insert_grant :: "grant_table \<Rightarrow> grant_row \<Rightarrow> (grant_tables, unit) statement" where
  "insert_grant tb row now t =
     (if list_ex (same_grant (grant_guild row) (grant_target row) (grant_cap row)) (rows_of tb t)
      then Inr ((), t)
      else if grant_id row \<in> grant_id ` set (rows_of tb t) then Inl (Errorf ''duplicate key'')
      else if grant_guild row \<notin> set (guilds t) then Inl (Errorf ''guild is not present'')
      else Inr ((), with_rows tb (rows_of tb t @ [row]) t))"

definition delete_grant ::
  "grant_table \<Rightarrow> string \<Rightarrow> string \<Rightarrow> capability \<Rightarrow> (grant_tables, unit) statement" where
  "delete_grant tb g x c now t =
     Inr ((), with_rows tb (filter (\<lambda>r. \<not> same_grant g x c r) (rows_of tb t)) t)"

definition grantWithExecutor ::
  "string \<Rightarrow> grant_table \<Rightarrow> string \<Rightarrow> string \<Rightarrow> capability \<Rightarrow> string \<Rightarrow> grant_db
     \<Rightarrow> unit result \<times> grant_db" where
  "grantWithExecutor newID tb guildID targetID cap actorID db =
     (if trim_space newID = [] then (Inl (Errorf ''capability grant ID is required''), db)
      else wrap_err ''grant capability''
        (sql_exec (insert_grant tb
           \<lparr>grant_id = newID, grant_guild = trim_space guildID, grant_target = trim_space targetID,
            grant_cap = cap, granted_by = trim_space actorID\<rparr>) db))"

definition revokeWithExecutor ::
  "grant_table \<Rightarrow> string \<Rightarrow> string \<Rightarrow> capability \<Rightarrow> grant_db \<Rightarrow> unit result \<times> grant_db" where
  "revokeWithExecutor tb guildID targetID cap db =
     wrap_err ''revoke capability''
       (sql_exec (delete_grant tb (trim_space guildID) (trim_space targetID) cap) db)"

definition grant ::
  "grant_manager \<Rightarrow> string \<Rightarrow> grant_table \<Rightarrow> string \<Rightarrow> string \<Rightarrow> capability \<Rightarrow> string \<Rightarrow> grant_db
     \<Rightarrow> unit result \<times> grant_db" where
  "grant m newID tb guildID targetID cap actorID db =
     (case validateGrant guildID targetID cap of
        Inl e \<Rightarrow> (Inl e, db)
      | Inr _ \<Rightarrow>
          if \<not> has_db m then (Inl (Errorf ''capability grant database is required''), db)
          else db_bind (ensureGuild guildID db)
            (\<lambda>_. grantWithExecutor newID tb guildID targetID cap actorID))"

definition revoke ::
  "grant_manager \<Rightarrow> grant_table \<Rightarrow> string \<Rightarrow> string \<Rightarrow> capability \<Rightarrow> grant_db
     \<Rightarrow> unit result \<times> grant_db" where
  "revoke m tb guildID targetID cap db =
     (case validateGrant guildID targetID cap of
        Inl e \<Rightarrow> (Inl e, db)
      | Inr _ \<Rightarrow>
          if \<not> has_db m then (Inl (Errorf ''capability grant database is required''), db)
          else revokeWithExecutor tb guildID targetID cap db)"

text \<open>The loops of \<^verbatim>\<open>applyRoleCapabilities\<close>; \<open>ids i\<close> is the id the generator gives at its i-th call.\<close>

fun grant_loop ::
  "(nat \<Rightarrow> string) \<Rightarrow> nat \<Rightarrow> string \<Rightarrow> string \<Rightarrow> string \<Rightarrow> capability list \<Rightarrow> grant_db
     \<Rightarrow> unit result \<times> grant_db" where
  "grant_loop ids i guildID roleID actorID [] db = (Inr (), db)"
| "grant_loop ids i guildID roleID actorID (c # cs) db =
     db_bind (grantWithExecutor (ids i) RoleGrants guildID roleID c actorID db)
       (\<lambda>_. grant_loop ids (Suc i) guildID roleID actorID cs)"

fun revoke_loop ::
  "string \<Rightarrow> string \<Rightarrow> capability list \<Rightarrow> grant_db \<Rightarrow> unit result \<times> grant_db" where
  "revoke_loop guildID roleID [] db = (Inr (), db)"
| "revoke_loop guildID roleID (c # cs) db =
     db_bind (revokeWithExecutor RoleGrants guildID roleID c db)
       (\<lambda>_. revoke_loop guildID roleID cs)"

definition applyRoleCapabilities ::
  "grant_manager \<Rightarrow> (nat \<Rightarrow> string) \<Rightarrow> bool \<Rightarrow> string \<Rightarrow> string \<Rightarrow> capability list \<Rightarrow> string \<Rightarrow> grant_db
     \<Rightarrow> unit result \<times> grant_db" where
  "applyRoleCapabilities m ids grants guildID roleID caps0 actorID db =
     (case normalizeCapabilities caps0 of
        Inl e \<Rightarrow> (Inl e, db)
      | Inr caps \<Rightarrow>
          if trim_space guildID = [] then (Inl (Errorf ''guild ID is required''), db)
          else if trim_space roleID = [] then (Inl (Errorf ''target ID is required''), db)
          else if \<not> has_tx m then (Inl (Errorf ''capability grant transaction is required''), db)
          else sql_tx ''begin capability grant transaction'' ''commit capability grant transaction''
            (\<lambda>tx. if grants
               then db_bind (ensureGuild guildID tx) (\<lambda>_. grant_loop ids 0 guildID roleID actorID caps)
               else revoke_loop guildID roleID caps tx) db)"

definition GrantRole ::
  "grant_manager \<Rightarrow> string \<Rightarrow> string \<Rightarrow> string \<Rightarrow> capability \<Rightarrow> string \<Rightarrow> grant_db
     \<Rightarrow> unit result \<times> grant_db" where
  "GrantRole m newID guildID roleID cap actorID = grant m newID RoleGrants guildID roleID cap actorID"

definition RevokeRole ::
  "grant_manager \<Rightarrow> string \<Rightarrow> string \<Rightarrow> capability \<Rightarrow> grant_db \<Rightarrow> unit result \<times> grant_db" where
  "RevokeRole m guildID roleID cap = revoke m RoleGrants guildID roleID cap"

definition GrantUser ::
  "grant_manager \<Rightarrow> string \<Rightarrow> string \<Rightarrow> string \<Rightarrow> capability \<Rightarrow> string \<Rightarrow> grant_db
     \<Rightarrow> unit result \<times> grant_db" where
  "GrantUser m newID guildID userID cap actorID = grant m newID UserGrants guildID userID cap actorID"

definition RevokeUser ::
  "grant_manager \<Rightarrow> string \<Rightarrow> string \<Rightarrow> capability \<Rightarrow> grant_db \<Rightarrow> unit result \<times> grant_db" where
  "RevokeUser m guildID userID cap = revoke m UserGrants guildID userID cap"

definition GrantRoleCapabilities ::
  "grant_manager \<Rightarrow> (nat \<Rightarrow> string) \<Rightarrow> string \<Rightarrow> string \<Rightarrow> capability list \<Rightarrow> string \<Rightarrow> grant_db
     \<Rightarrow> unit result \<times> grant_db" where
  "GrantRoleCapabilities m ids guildID roleID caps actorID =
     applyRoleCapabilities m ids True guildID roleID caps actorID"

definition RevokeRoleCapabilities ::
  "grant_manager \<Rightarrow> string \<Rightarrow> string \<Rightarrow> capability list \<Rightarrow> grant_db \<Rightarrow> unit result \<times> grant_db" where
  "RevokeRoleCapabilities m guildID roleID caps =
     applyRoleCapabilities m (\<lambda>_. []) False guildID roleID caps []"

subsection \<open>The effect of the statements on what is granted\<close>

abbreviation holds :: "grant_table \<Rightarrow> grant_db \<Rightarrow> string \<Rightarrow> string \<Rightarrow> capability \<Rightarrow> bool" where
  "holds tb db g x c \<equiv> granted tb (tables db) g x c"

lemma granted_with_rows [simp]:
  "granted tb (with_rows tb' rs t) g x c =
     (if tb = tb' then (\<exists>r\<in>set rs. grant_guild r = g \<and> grant_target r = x \<and> trim_space (grant_cap r) = c)
      else granted tb t g x c)"
  by (simp add: granted_def)

lemma granted_guilds [simp]: "granted tb (t\<lparr>guilds := gs\<rparr>) = granted tb t"
  by (cases tb) (auto simp: granted_def fun_eq_iff)

lemma ensureGuild_holds:
  "ensureGuild g db = (res, db') \<Longrightarrow> granted tb (tables db') = granted tb (tables db)"
  by (auto simp: ensureGuild_def insert_guild_def wrap_err_def
      split: prod.splits sum.splits dest!: sql_exec_Inl sql_exec_Inr)
    (metis granted_guilds)

lemma insert_grant_holds:
  assumes "insert_grant tb row now t = Inr (u, t')"
  shows "granted tb' t' g x c \<longleftrightarrow> granted tb' t g x c \<or>
    (tb' = tb \<and> g = grant_guild row \<and> x = grant_target row \<and> c = trim_space (grant_cap row))"
proof (cases "list_ex (same_grant (grant_guild row) (grant_target row) (grant_cap row)) (rows_of tb t)")
  case True
  then show ?thesis
    using assms by (auto simp: insert_grant_def granted_def list_ex_iff same_grant_def)
next
  case False
  then have "t' = with_rows tb (rows_of tb t @ [row]) t"
    using assms by (auto simp: insert_grant_def split: if_splits)
  then show ?thesis by (auto simp: granted_def)
qed

lemma grantWithExecutor_holds:
  assumes "grantWithExecutor i tb g x c a db = (Inr u, db')"
  shows "holds tb' db' g' x' c' \<longleftrightarrow> holds tb' db g' x' c' \<or>
    (tb' = tb \<and> g' = trim_space g \<and> x' = trim_space x \<and> c' = trim_space c)"
  using assms
  by (auto simp: grantWithExecutor_def split: if_splits dest!: sql_exec_Inr insert_grant_holds)

lemma grant_loop_holds:
  "grant_loop ids i g x a cs db = (Inr u, db') \<Longrightarrow>
     holds tb' db' g' x' c' \<longleftrightarrow> holds tb' db g' x' c' \<or>
     (tb' = RoleGrants \<and> g' = trim_space g \<and> x' = trim_space x \<and> c' \<in> trim_space ` set cs)"
proof (induction cs arbitrary: i db)
  case (Cons c cs)
  then obtain v db1 where "grantWithExecutor (ids i) RoleGrants g x c a db = (Inr v, db1)"
    "grant_loop ids (Suc i) g x a cs db1 = (Inr u, db')"
    by (auto simp: db_bind_def split: prod.splits sum.splits)
  then show ?case
    using Cons.IH [of "Suc i" db1] grantWithExecutor_holds [of "ids i" RoleGrants g x c a db v db1]
    by auto
qed simp

text \<open>
  The stored names are canonical when each is its own normal form; then deleting the rows with
  a name removes the grant.
\<close>

definition canonical :: "grant_table \<Rightarrow> grant_tables \<Rightarrow> bool" where
  "canonical tb t \<longleftrightarrow> (\<forall>r\<in>set (rows_of tb t). trim_space (grant_cap r) = grant_cap r)"

lemma delete_grant_holds:
  assumes "delete_grant tb g x c now t = Inr (u, t')" "canonical tb t"
  shows "canonical tb t' \<and> (granted tb' t' g' x' c' \<longleftrightarrow>
    granted tb' t g' x' c' \<and> \<not> (tb' = tb \<and> g' = g \<and> x' = x \<and> c' = c))"
proof -
  have t': "t' = with_rows tb (filter (\<lambda>r. \<not> same_grant g x c r) (rows_of tb t)) t"
    using assms(1) by (simp add: delete_grant_def)
  have "granted tb' t' g' x' c' \<longleftrightarrow>
    (\<exists>r\<in>set (rows_of tb' t). grant_guild r = g' \<and> grant_target r = x' \<and>
       trim_space (grant_cap r) = c' \<and> (tb' = tb \<longrightarrow> \<not> same_grant g x c r))"
    unfolding t' by (cases "tb = tb'") (auto simp: granted_def)
  with assms(2) show ?thesis
    unfolding t' canonical_def granted_def same_grant_def by (cases "tb' = tb") auto
qed

lemma revokeWithExecutor_holds:
  assumes "revokeWithExecutor tb g x c db = (Inr u, db')" "canonical tb (tables db)"
  shows "canonical tb (tables db') \<and> (holds tb' db' g' x' c' \<longleftrightarrow> holds tb' db g' x' c' \<and>
    \<not> (tb' = tb \<and> g' = trim_space g \<and> x' = trim_space x \<and> c' = c))"
  using assms delete_grant_holds
  by (auto simp: revokeWithExecutor_def dest!: sql_exec_Inr)

lemma revoke_loop_holds:
  "revoke_loop g x cs db = (Inr u, db') \<Longrightarrow> canonical RoleGrants (tables db) \<Longrightarrow>
     holds tb' db' g' x' c' \<longleftrightarrow> holds tb' db g' x' c' \<and>
     \<not> (tb' = RoleGrants \<and> g' = trim_space g \<and> x' = trim_space x \<and> c' \<in> set cs)"
proof (induction cs arbitrary: db)
  case (Cons c cs)
  then obtain v db1 where s: "revokeWithExecutor RoleGrants g x c db = (Inr v, db1)"
    "revoke_loop g x cs db1 = (Inr u, db')"
    by (auto simp: db_bind_def split: prod.splits sum.splits)
  with Cons show ?case
    using revokeWithExecutor_holds [OF s(1)] by auto
qed simp

lemma normalize_loop_Inr: "normalize_loop cs = Inr ds \<Longrightarrow> ds = map trim_space cs"
  by (induction cs arbitrary: ds) (auto simp: Normalize_Inr)

lemma normalizeCapabilities_Inr:
  "normalizeCapabilities cs = Inr ds \<Longrightarrow> cs \<noteq> [] \<and> ds = map trim_space cs"
  by (auto simp: normalizeCapabilities_def dest: normalize_loop_Inr)

lemma grant_holds:
  assumes "grant m i tb g x c a db = (Inr u, db')"
  shows "holds tb' db' g' x' c' \<longleftrightarrow> holds tb' db g' x' c' \<or>
    (tb' = tb \<and> g' = trim_space g \<and> x' = trim_space x \<and> c' = trim_space c)"
proof -
  obtain v db1 where "ensureGuild g db = (Inr v, db1)"
    "grantWithExecutor i tb g x c a db1 = (Inr u, db')"
    using assms by (auto simp: grant_def db_bind_def split: sum.splits if_splits prod.splits)
  then show ?thesis
    using grantWithExecutor_holds ensureGuild_holds by metis
qed

lemma grant_valid: "grant m i tb g x c a db = (Inr u, db') \<Longrightarrow>
    trim_space g \<noteq> [] \<and> trim_space x \<noteq> [] \<and> trim_space c \<noteq> []"
  by (auto simp: grant_def validateGrant_def Normalize_Inr split: sum.splits)

subsection \<open>Properties\<close>

text \<open>
  C5: the decision of the evaluator over the SQL store is exact. When \<^verbatim>\<open>Check\<close> reports no error it
  allows exactly the guild owner, administrators, and identified members of whom a stored grant
  of the guild names the user or one of the roles for that capability.
\<close>

theorem check_exact:
  assumes "Check (Some SQLGrantStore) s c db = ((d, None), db')"
  shows "allowed d \<longleftrightarrow>
    sub_is_owner s \<or> sub_is_admin s \<or>
    (trim_space (sub_guild_id s) \<noteq> [] \<and> trim_space (sub_user_id s) \<noteq> [] \<and> trim_space c \<noteq> [] \<and>
     (holds UserGrants db (trim_space (sub_guild_id s)) (trim_space (sub_user_id s)) (trim_space c) \<or>
      (\<exists>r\<in>set (sub_role_ids s). trim_space r \<noteq> [] \<and>
         holds RoleGrants db (trim_space (sub_guild_id s)) (trim_space r) (trim_space c))))"
  using sql_grants.Check_exact [OF assms] unfolding sql_grants.entitled_def .

text \<open>
  An error never authorizes. Whatever the store, a check that returns an error denies, with
  the reason \<^verbatim>\<open>store_error\<close>, so a caller that ignored the error would still refuse.
\<close>

theorem check_error_denies:
  assumes "Check st s c w = ((d, Some e), w')"
  shows "\<not> allowed d \<and> dec_reason d = ReasonStoreError \<and> dec_capability d = trim_space c"
  using Check_error_denied [OF assms] Check_capability [of st s c w] assms by simp

text \<open>
  Granting a capability to a role takes effect and nothing else changes. After a successful
  \<^verbatim>\<open>GrantRole\<close> the grants are the old ones and the new one, and every identified member of the
  guild that has the role passes \<^verbatim>\<open>Check\<close> unless the store fails.
\<close>

theorem grant_role_effective:
  assumes "GrantRole m i g x c a db = (Inr u, db')"
  shows "(\<forall>tb' g' x' c'. holds tb' db' g' x' c' \<longleftrightarrow> holds tb' db g' x' c' \<or>
       (tb' = RoleGrants \<and> g' = trim_space g \<and> x' = trim_space x \<and> c' = trim_space c)) \<and>
    (Check (Some SQLGrantStore) s c db' = ((d, None), db'') \<and>
     trim_space (sub_guild_id s) = trim_space g \<and> trim_space (sub_user_id s) \<noteq> [] \<and>
     x \<in> set (sub_role_ids s) \<longrightarrow> allowed d)"
proof -
  note eff = grant_holds [OF assms [unfolded GrantRole_def]]
  have "allowed d"
    if "Check (Some SQLGrantStore) s c db' = ((d, None), db'')"
      "trim_space (sub_guild_id s) = trim_space g" "trim_space (sub_user_id s) \<noteq> []"
      "x \<in> set (sub_role_ids s)"
    using sql_grants.Check_exact [OF that(1)] that(2-) eff grant_valid [OF assms [unfolded GrantRole_def]]
    unfolding sql_grants.entitled_def by auto
  with eff show ?thesis by blast
qed

text \<open>
  C6: a set of role capabilities is applied as a whole or not at all. When
  \<^verbatim>\<open>GrantRoleCapabilities\<close> or \<^verbatim>\<open>RevokeRoleCapabilities\<close> reports an error the tables are unchanged;
  when it succeeds exactly the listed capabilities of that role were added, or (the stored names
  being canonical) removed.
\<close>

theorem apply_role_capabilities_atomic:
  assumes "applyRoleCapabilities m ids grants g x cs a db = (res, db')"
  shows "case res of
      Inl e \<Rightarrow> tables db' = tables db
    | Inr u \<Rightarrow>
        if grants then \<forall>tb' g' x' c'. holds tb' db' g' x' c' \<longleftrightarrow> holds tb' db g' x' c' \<or>
          (tb' = RoleGrants \<and> g' = trim_space g \<and> x' = trim_space x \<and> c' \<in> trim_space ` set cs)
        else canonical RoleGrants (tables db) \<longrightarrow>
          (\<forall>tb' g' x' c'. holds tb' db' g' x' c' \<longleftrightarrow> holds tb' db g' x' c' \<and>
          \<not> (tb' = RoleGrants \<and> g' = trim_space g \<and> x' = trim_space x \<and> c' \<in> trim_space ` set cs))"
proof (cases res)
  case (Inl e)
  then show ?thesis
    using assms
    by (auto simp: applyRoleCapabilities_def split: sum.splits if_splits dest: tx.failed_unchanged)
next
  case (Inr u)
  obtain ds where n: "normalizeCapabilities cs = Inr ds"
    using assms Inr by (auto simp: applyRoleCapabilities_def split: sum.splits)
  then have ds: "set ds = trim_space ` set cs" by (auto dest: normalizeCapabilities_Inr)
  from assms Inr n obtain db1 db2 where body:
    "(if grants then db_bind (ensureGuild g db1) (\<lambda>_. grant_loop ids 0 g x a ds)
      else revoke_loop g x ds db1) = (Inr u, db2)"
    "tables db1 = tables db" "tables db' = tables db2"
    by (auto simp: applyRoleCapabilities_def split: if_splits dest!: sql_tx_Inr)
  show ?thesis
  proof (cases grants)
    case True
    then obtain v db3 where "ensureGuild g db1 = (Inr v, db3)"
      "grant_loop ids 0 g x a ds db3 = (Inr u, db2)"
      using body(1) by (auto simp: db_bind_def split: prod.splits sum.splits)
    with True Inr body(2,3) show ?thesis
      using grant_loop_holds [of ids 0 g x a ds db3 u db2] ensureGuild_holds [of g db1 "Inr v" db3] ds
      by (auto simp: image_image)
  next
    case False
    with Inr body show ?thesis
      using revoke_loop_holds [of g x ds db1 u db2] ds by auto
  qed
qed

text \<open>
  Every preset is well formed: it lists known capabilities only, and the manager's
  normalisation accepts the list as it is.
\<close>

theorem presets_known:
  assumes "PresetCapabilities name = Some caps"
  shows "set caps \<subseteq> set KnownCapabilities \<and> normalizeCapabilities caps = Inr caps"
proof -
  have "(name, caps) \<in> set KnownPresets"
    using assms by (auto simp: PresetCapabilities_def dest: find_Some_in)
  moreover have "list_all (\<lambda>(n, cs). list_all (\<lambda>c. c \<in> set KnownCapabilities) cs \<and>
      normalizeCapabilities cs = Inr cs) KnownPresets"
    by (simp add: KnownPresets_def KnownCapabilities_def normalizeCapabilities_def Normalize_def
      capability_rune_def go_eval)
  ultimately show ?thesis by (auto simp: list_all_iff)
qed

subsection \<open>Witnesses\<close>

definition sample_grants :: grant_db where
  "sample_grants = \<lparr>tables = \<lparr>guilds = [''g''], role_grants = [], user_grants =
     [\<lparr>grant_id = ''i0'', grant_guild = ''g'', grant_target = ''u'', grant_cap = ''job.read'',
       granted_by = ''boss''\<rparr>]\<rparr>, clock = 0, faults = []\<rparr>"

definition sample_member :: subject where
  "sample_member = \<lparr>sub_guild_id = ''g'', sub_user_id = ''u'', sub_role_ids = [''r''],
     sub_is_owner = False, sub_is_admin = False\<rparr>"

definition full_manager :: grant_manager where
  "full_manager = \<lparr>has_db = True, has_tx = True\<rparr>"

lemmas grant_eval = sample_grants_def sample_member_def full_manager_def Check_def check_roles_def
  SQLGrantStore_def sql_user_capabilities_def sql_role_capabilities_def queryCapabilities_def
  select_capabilities_def cleanStrings_def contains_capability_def go_eval

lemmas manager_eval = GrantRole_def grant_def validateGrant_def Normalize_def capability_rune_def
  ensureGuild_def insert_guild_def grantWithExecutor_def insert_grant_def same_grant_def
  applyRoleCapabilities_def normalizeCapabilities_def sql_tx_def

lemma check_exact_witness:
  "allowed (fst (fst (Check (Some SQLGrantStore) sample_member ''job.read'' sample_grants))) \<and>
   \<not> allowed (fst (fst (Check (Some SQLGrantStore) sample_member ''job.write'' sample_grants)))"
proof -
  let ?chk = "\<lambda>c. Check (Some SQLGrantStore) sample_member c sample_grants"
  have r: "?chk ''job.read'' = ((fst (fst (?chk ''job.read'')), None), snd (?chk ''job.read''))"
    by (simp add: grant_eval)
  have w: "?chk ''job.write'' = ((fst (fst (?chk ''job.write'')), None), snd (?chk ''job.write''))"
    by (simp add: grant_eval)
  show ?thesis
    using check_exact [OF r] check_exact [OF w]
    by (simp add: sample_member_def sample_grants_def granted_def go_eval)
qed

lemma check_error_denies_witness:
  "\<exists>d e db'. Check (Some SQLGrantStore) sample_member ''job.read''
       (sample_grants\<lparr>faults := [Some ''timeout'']\<rparr>) = ((d, Some e), db') \<and> \<not> allowed d"
proof -
  let ?r = "Check (Some SQLGrantStore) sample_member ''job.read''
    (sample_grants\<lparr>faults := [Some ''timeout'']\<rparr>)"
  have "?r = ((fst (fst ?r), Some (Wrap ''load user capabilities'' (Errorf ''timeout''))), snd ?r)"
    by (simp add: grant_eval sql_exec_def next_fault_def)
  from check_error_denies [OF this] this show ?thesis by blast
qed

lemma grant_role_effective_witness:
  "holds RoleGrants (snd (GrantRole full_manager ''i1'' ''g'' ''r'' ''job.write'' ''boss'' sample_grants))
     ''g'' ''r'' ''job.write''"
proof -
  let ?r = "GrantRole full_manager ''i1'' ''g'' ''r'' ''job.write'' ''boss'' sample_grants"
  have "?r = (Inr (), snd ?r)"
    by (simp add: manager_eval grant_eval db_bind_def)
  from grant_role_effective [OF this] show ?thesis by (simp add: go_eval)
qed

lemma apply_role_capabilities_atomic_witness:
  "tables (snd (applyRoleCapabilities full_manager (\<lambda>i. if i = 0 then ''i1'' else ''i0'') True ''g'' ''r''
     [''job.read'', ''web.fetch''] ''boss'' (sample_grants\<lparr>faults :=
       [None, None, None, Some ''timeout'']\<rparr>))) = tables sample_grants"
proof -
  let ?db = "sample_grants\<lparr>faults := [None, None, None, Some ''timeout'']\<rparr>"
  let ?r = "applyRoleCapabilities full_manager (\<lambda>i. if i = 0 then ''i1'' else ''i0'') True ''g'' ''r''
     [''job.read'', ''web.fetch''] ''boss'' ?db"
  have "?r = (Inl (Wrap ''grant capability'' (Errorf ''timeout'')), snd ?r)"
    by (simp add: manager_eval grant_eval db_bind_def sql_exec_def next_fault_def)
  from apply_role_capabilities_atomic [OF this] show ?thesis by simp
qed

lemma presets_known_witness:
  "normalizeCapabilities [''web.search'', ''web.fetch''] = Inr [''web.search'', ''web.fetch'']"
proof -
  have "PresetCapabilities ''web-reader'' = Some [''web.search'', ''web.fetch'']"
    by (simp add: PresetCapabilities_def KnownPresets_def)
  from presets_known [OF this] show ?thesis by simp
qed

end
