(* ===== verification/ContextBroker.thy ===== *)
theory ContextBroker
  imports Utf8 "HOL-Library.Word" "HOL-Library.Multiset"
begin

text \<open>
  \<^verbatim>\<open>internal/contextbroker/packer.go\<close>: choosing which context snippets a prompt gets. \<^verbatim>\<open>BuildPack\<close>
  puts pinned snippets first, leaves out what the previous pack of the session already held
  unchanged, stops at a budget of characters (runes), numbers the citations and returns the
  fingerprints the next pack compares with.

  The SHA-256 hash is the parameter \<open>sha\<close>, from a string to its hexadecimal digest; nothing is
  assumed of it unless a lemma says so. In the code \<^verbatim>\<open>previousSeen\<close> and \<^verbatim>\<open>pack.NextState.Seen\<close>
  are one map, read and then written in each round; the model keeps the one map in \<open>seen\<close>.
  \<^verbatim>\<open>Score\<close> is carried as the bits of its float64.
\<close>

record snippet =
  sn_id :: string
  sn_source :: string
  sn_channel_id :: string
  sn_author_id :: string
  sn_text :: string
  sn_score :: "64 word"
  sn_created_at :: string
  sn_pinned :: bool
  sn_stale :: bool

type_synonym session_state = gomap

abbreviation StatusNew :: string where "StatusNew \<equiv> ''NEW''"
abbreviation StatusChanged :: string where "StatusChanged \<equiv> ''CHANGED''"
abbreviation StatusPinned :: string where "StatusPinned \<equiv> ''PINNED''"
abbreviation StatusOmitUnchanged :: string where "StatusOmitUnchanged \<equiv> ''OMIT_UNCHANGED''"
abbreviation StatusOmitBudget :: string where "StatusOmitBudget \<equiv> ''OMIT_BUDGET''"
abbreviation StatusInvalidatePrevious :: string where
  "StatusInvalidatePrevious \<equiv> ''INVALIDATE_PREVIOUS''"

record citation =
  ci_label :: string
  ci_source_id :: string
  ci_snippet_id :: string
  ci_source :: string
  ci_created_at :: string

record context_item =
  it_status :: string
  it_source_id :: string
  it_snippet :: snippet
  it_citation :: citation
  it_restore_handle :: string
  it_chars :: nat
  it_pinned :: bool
  it_stale_previous :: bool
  it_stale :: bool

record omitted_context =
  om_status :: string
  om_source_id :: string
  om_restore_handle :: string
  om_reason :: string

record context_invalidation =
  in_status :: string
  in_source_id :: string
  in_previous_fingerprint :: string
  in_current_fingerprint :: string
  in_restore_handle :: string

record pack =
  pk_snippets :: "snippet list"
  pk_items :: "context_item list"
  pk_omitted :: "omitted_context list"
  pk_invalidations :: "context_invalidation list"
  pk_citations :: "citation list"
  pk_chars :: nat
  pk_truncated :: bool
  pk_next_state :: session_state

record build_request =
  br_snippets :: "snippet list"
  br_previous :: session_state
  br_max_chars :: int

subsection \<open>Identity of a snippet\<close>

definition normalizeSnippet :: "snippet \<Rightarrow> snippet" where
  "normalizeSnippet s = s\<lparr>
     sn_id := trim_space (sn_id s), sn_source := trim_space (sn_source s),
     sn_channel_id := trim_space (sn_channel_id s), sn_author_id := trim_space (sn_author_id s),
     sn_text := trim_space (sn_text s), sn_created_at := trim_space (sn_created_at s)\<rparr>"

definition shortHash :: "(string \<Rightarrow> string) \<Rightarrow> string \<Rightarrow> string" where
  "shortHash sha value = take 16 (sha value)"

definition SourceID :: "(string \<Rightarrow> string) \<Rightarrow> snippet \<Rightarrow> string" where
  "SourceID sha s0 =
     (let s = normalizeSnippet s0 in
      if sn_source s \<noteq> [] \<and> sn_id s \<noteq> [] then sn_source s @ '':'' @ sn_id s
      else if sn_source s \<noteq> [] then sn_source s
      else if sn_id s \<noteq> [] then sn_id s
      else ''snippet:'' @ shortHash sha (sn_text s))"

definition Fingerprint :: "(string \<Rightarrow> string) \<Rightarrow> snippet \<Rightarrow> string" where
  "Fingerprint sha s0 =
     (let s = normalizeSnippet s0 in
      shortHash sha (join [CHR 0x00]
        [SourceID sha s, sn_author_id s, sn_created_at s, sn_text s]))"

definition RestoreHandle :: "(string \<Rightarrow> string) \<Rightarrow> string \<Rightarrow> string \<Rightarrow> string" where
  "RestoreHandle sha sourceID fingerprint =
     ''ctx:'' @ shortHash sha (trim_space sourceID @ [CHR 0x00] @ trim_space fingerprint)"

definition prioritizeSnippets :: "snippet list \<Rightarrow> snippet list" where
  "prioritizeSnippets snippets =
     filter sn_pinned snippets @ filter (\<lambda>s. \<not> sn_pinned s) snippets"

definition copySeen :: "gomap \<Rightarrow> gomap" where
  "copySeen seen = mput_all
     (filter (\<lambda>(k, v). k \<noteq> [] \<and> v \<noteq> []) (map (\<lambda>(k, v). (trim_space k, trim_space v)) seen)) []"

definition truncateRunes :: "string \<Rightarrow> nat \<Rightarrow> string" where
  "truncateRunes value limit =
     (if limit = 0 \<or> rune_count value \<le> limit then value
      else if limit \<le> 3 then string_of_runes (take limit (runes value))
      else trim_space (string_of_runes (take (limit - 3) (runes value))) @ ''...'')"

subsection \<open>Building a pack\<close>

definition appendItem ::
  "(string \<Rightarrow> string) \<Rightarrow> snippet \<Rightarrow> string \<Rightarrow> string \<Rightarrow> string option \<Rightarrow> nat \<Rightarrow> pack \<Rightarrow> pack" where
  "appendItem sha s sourceID fingerprint previous sz p =
     (let changed = (\<exists>f. previous = Some f \<and> f \<noteq> fingerprint);
          status = (if sn_pinned s then StatusPinned
                    else if sn_stale s \<or> changed then StatusChanged else StatusNew);
          stalePrevious = (\<not> sn_pinned s \<and> changed);
          invalidation = \<lparr>in_status = StatusInvalidatePrevious, in_source_id = sourceID,
            in_previous_fingerprint = (case previous of None \<Rightarrow> [] | Some f \<Rightarrow> f),
            in_current_fingerprint = fingerprint,
            in_restore_handle = RestoreHandle sha sourceID (case previous of None \<Rightarrow> [] | Some f \<Rightarrow> f)\<rparr>;
          citation = \<lparr>ci_label = ''S'' @ nat_str (length (pk_citations p) + 1),
            ci_source_id = sourceID, ci_snippet_id = sn_id s, ci_source = sn_source s,
            ci_created_at = sn_created_at s\<rparr>;
          item = \<lparr>it_status = status, it_source_id = sourceID, it_snippet = s,
            it_citation = citation, it_restore_handle = RestoreHandle sha sourceID fingerprint,
            it_chars = sz, it_pinned = sn_pinned s, it_stale_previous = stalePrevious,
            it_stale = sn_stale s\<rparr>
      in p\<lparr>pk_invalidations :=
             (if stalePrevious then pk_invalidations p @ [invalidation] else pk_invalidations p),
           pk_citations := pk_citations p @ [citation],
           pk_items := pk_items p @ [item],
           pk_snippets := pk_snippets p @ [s]\<rparr>)"

definition omit :: "(string \<Rightarrow> string) \<Rightarrow> string \<Rightarrow> string \<Rightarrow> string \<Rightarrow> string \<Rightarrow> pack \<Rightarrow> pack" where
  "omit sha status sourceID fingerprint reason p =
     p\<lparr>pk_omitted := pk_omitted p @
        [\<lparr>om_status = status, om_source_id = sourceID,
          om_restore_handle = RestoreHandle sha sourceID fingerprint, om_reason = reason\<rparr>]\<rparr>"

text \<open>The branch that runs out of budget: the last snippet is shortened or left out, then \<^verbatim>\<open>break\<close>.\<close>

definition pack_last ::
  "(string \<Rightarrow> string) \<Rightarrow> nat \<Rightarrow> snippet \<Rightarrow> string \<Rightarrow> string \<Rightarrow> string option \<Rightarrow> pack \<Rightarrow> pack" where
  "pack_last sha maxChars s sourceID fingerprint previous p =
     (let remaining = int maxChars - int (pk_chars p);
          p' = (if remaining > 3 then
                  let s' = s\<lparr>sn_text := truncateRunes (sn_text s) (nat remaining)\<rparr>;
                      sz = rune_count (sn_text s')
                  in appendItem sha s' sourceID fingerprint previous sz
                       (p\<lparr>pk_chars := pk_chars p + sz\<rparr>)
                else omit sha StatusOmitBudget sourceID fingerprint ''budget'' p)
      in p'\<lparr>pk_truncated := True\<rparr>)"

fun pack_loop :: "(string \<Rightarrow> string) \<Rightarrow> nat \<Rightarrow> snippet list \<Rightarrow> pack \<Rightarrow> pack" where
  "pack_loop sha maxChars [] p = p"
| "pack_loop sha maxChars (s0 # rest) p =
     (let s = normalizeSnippet s0 in
      if sn_text s = [] then pack_loop sha maxChars rest p
      else
        let sourceID = SourceID sha s;
            fingerprint = Fingerprint sha s;
            previous = map_of (pk_next_state p) sourceID;
            p1 = p\<lparr>pk_next_state := mput sourceID fingerprint (pk_next_state p)\<rparr>;
            sz = rune_count (sn_text s)
        in if previous = Some fingerprint \<and> \<not> sn_pinned s
           then pack_loop sha maxChars rest
             (omit sha StatusOmitUnchanged sourceID fingerprint ''unchanged'' p1)
           else if pk_chars p + sz > maxChars
           then pack_last sha maxChars s sourceID fingerprint previous p1
           else pack_loop sha maxChars rest
             (appendItem sha s sourceID fingerprint previous sz
               (p1\<lparr>pk_chars := pk_chars p + sz\<rparr>)))"

definition empty_pack :: "session_state \<Rightarrow> pack" where
  "empty_pack seen = \<lparr>pk_snippets = [], pk_items = [], pk_omitted = [], pk_invalidations = [],
     pk_citations = [], pk_chars = 0, pk_truncated = False, pk_next_state = seen\<rparr>"

definition max_chars :: "int \<Rightarrow> nat" where
  "max_chars n = (if n \<le> 0 then 4000 else nat n)"

definition BuildPack :: "(string \<Rightarrow> string) \<Rightarrow> build_request \<Rightarrow> pack" where
  "BuildPack sha r =
     pack_loop sha (max_chars (br_max_chars r)) (prioritizeSnippets (br_snippets r))
       (empty_pack (copySeen (br_previous r)))"

definition PackSnippets :: "(string \<Rightarrow> string) \<Rightarrow> snippet list \<Rightarrow> int \<Rightarrow> pack" where
  "PackSnippets sha snippets maxChars =
     BuildPack sha \<lparr>br_snippets = snippets, br_previous = [], br_max_chars = maxChars\<rparr>"

subsection \<open>The budget and the shape of a pack\<close>

lemma normalizeSnippet_idem [simp]: "normalizeSnippet (normalizeSnippet s) = normalizeSnippet s"
  by (simp add: normalizeSnippet_def)

lemma SourceID_normalize [simp]: "SourceID sha (normalizeSnippet s) = SourceID sha s"
  by (simp add: SourceID_def)

lemma Fingerprint_normalize [simp]: "Fingerprint sha (normalizeSnippet s) = Fingerprint sha s"
  by (simp add: Fingerprint_def)

lemma rune_count_truncate:
  assumes "0 < limit"
  shows "rune_count (truncateRunes v limit) \<le> limit"
proof -
  have "rune_count (t @ ''...'') = rune_count t + 3" for t
    by (subst rune_count_append)
      (simp_all add: rune_start_def is_cont_def byte_def rune_count_ascii is_ascii_def)
  moreover have "rune_count (trim_space (string_of_runes (take (limit - 3) (runes v)))) \<le> limit - 3"
    using rune_count_trim_space rune_count_take_runes order_trans by blast
  ultimately show ?thesis
    using assms rune_count_take_runes [of limit v] by (auto simp: truncateRunes_def)
qed

text \<open>What every round of the loop keeps: items, snippets and citations in step, sizes that add up.\<close>

definition pack_ok :: "pack \<Rightarrow> bool" where
  "pack_ok p \<longleftrightarrow>
     map it_snippet (pk_items p) = pk_snippets p \<and>
     map it_citation (pk_items p) = pk_citations p \<and>
     map ci_label (pk_citations p) = map (\<lambda>i. ''S'' @ nat_str i) [1..<Suc (length (pk_items p))] \<and>
     (\<forall>it\<in>set (pk_items p). it_chars it = rune_count (sn_text (it_snippet it))) \<and>
     pk_chars p = sum_list (map it_chars (pk_items p))"

lemma pack_ok_frame [simp]:
  "pack_ok (p\<lparr>pk_next_state := st\<rparr>) = pack_ok p"
  "pack_ok (p\<lparr>pk_truncated := b\<rparr>) = pack_ok p"
  "pack_ok (omit sha os i f r p) = pack_ok p"
  by (simp_all add: pack_ok_def omit_def)

lemma omit_frame [simp]:
  "pk_chars (omit sha os i f r p) = pk_chars p"
  "pk_next_state (omit sha os i f r p) = pk_next_state p"
  "pk_items (omit sha os i f r p) = pk_items p"
  by (simp_all add: omit_def)

lemma appendItem_frame [simp]:
  "pk_chars (appendItem sha s i f pr n p) = pk_chars p"
  "pk_next_state (appendItem sha s i f pr n p) = pk_next_state p"
  by (simp_all add: appendItem_def Let_def)

lemma pack_ok_append:
  assumes "pack_ok p" "n = rune_count (sn_text s)"
  shows "pack_ok (appendItem sha s i f pr n (p\<lparr>pk_chars := pk_chars p + n\<rparr>))"
proof -
  have "length (pk_citations p) = length (pk_items p)"
    using assms(1) by (metis pack_ok_def length_map)
  with assms show ?thesis by (auto simp: pack_ok_def appendItem_def Let_def)
qed

lemma pack_last_ok:
  assumes "pack_ok p" "pk_chars p \<le> m"
  shows "pack_ok (pack_last sha m s i f pr p) \<and> pk_chars (pack_last sha m s i f pr p) \<le> m"
  using assms rune_count_truncate [of "nat (int m - int (pk_chars p))" "sn_text s"]
  by (auto simp: pack_last_def Let_def pack_ok_append)

lemma pack_ok_append_seen:
  assumes "pack_ok p"
  shows "pack_ok (appendItem sha s i f pr (rune_count (sn_text s))
    (p\<lparr>pk_next_state := st, pk_chars := pk_chars p + rune_count (sn_text s)\<rparr>))"
  using pack_ok_append [of "p\<lparr>pk_next_state := st\<rparr>"] assms by simp

text \<open>The four outcomes of a round, as equations; \<open>seen_step\<close> is what every round but the first records.\<close>

abbreviation seen_step :: "(string \<Rightarrow> string) \<Rightarrow> snippet \<Rightarrow> pack \<Rightarrow> pack" where
  "seen_step sha s p \<equiv>
     p\<lparr>pk_next_state := mput (SourceID sha s) (Fingerprint sha s) (pk_next_state p)\<rparr>"

abbreviation snippet_size :: "snippet \<Rightarrow> nat" where
  "snippet_size s \<equiv> rune_count (sn_text (normalizeSnippet s))"

lemma normalizeSnippet_pinned [simp]: "sn_pinned (normalizeSnippet s) = sn_pinned s"
  by (simp add: normalizeSnippet_def)

lemma pack_loop_cases:
  obtains
    (Empty) "sn_text (normalizeSnippet s) = []"
      "pack_loop sha m (s # ss) p = pack_loop sha m ss p"
  | (Unchanged) "sn_text (normalizeSnippet s) \<noteq> []" "\<not> sn_pinned s"
      "map_of (pk_next_state p) (SourceID sha s) = Some (Fingerprint sha s)"
      "pack_loop sha m (s # ss) p = pack_loop sha m ss
         (omit sha StatusOmitUnchanged (SourceID sha s) (Fingerprint sha s) ''unchanged''
           (seen_step sha s p))"
  | (Last) "sn_text (normalizeSnippet s) \<noteq> []"
      "sn_pinned s \<or> map_of (pk_next_state p) (SourceID sha s) \<noteq> Some (Fingerprint sha s)"
      "pk_chars p + snippet_size s > m"
      "pack_loop sha m (s # ss) p = pack_last sha m (normalizeSnippet s) (SourceID sha s)
         (Fingerprint sha s) (map_of (pk_next_state p) (SourceID sha s)) (seen_step sha s p)"
  | (Append) "sn_text (normalizeSnippet s) \<noteq> []"
      "sn_pinned s \<or> map_of (pk_next_state p) (SourceID sha s) \<noteq> Some (Fingerprint sha s)"
      "pk_chars p + snippet_size s \<le> m"
      "pack_loop sha m (s # ss) p = pack_loop sha m ss
         (appendItem sha (normalizeSnippet s) (SourceID sha s) (Fingerprint sha s)
           (map_of (pk_next_state p) (SourceID sha s)) (snippet_size s)
           ((seen_step sha s p)\<lparr>pk_chars := pk_chars p + snippet_size s\<rparr>))"
proof (cases "sn_text (normalizeSnippet s) = []")
  case True
  then show ?thesis by (intro Empty) simp_all
next
  case ne: False
  show ?thesis
  proof (cases "map_of (pk_next_state p) (SourceID sha s) = Some (Fingerprint sha s) \<and> \<not> sn_pinned s")
    case True
    then show ?thesis using ne by (intro Unchanged) (simp_all add: Let_def)
  next
    case new: False
    show ?thesis
    proof (cases "pk_chars p + snippet_size s > m")
      case True
      then show ?thesis using ne new by (intro Last) (auto simp: Let_def)
    next
      case False
      then show ?thesis using ne new by (intro Append) (auto simp: Let_def)
    qed
  qed
qed

lemma pack_loop_ok:
  "pack_ok p \<Longrightarrow> pk_chars p \<le> m \<Longrightarrow>
     pack_ok (pack_loop sha m ss p) \<and> pk_chars (pack_loop sha m ss p) \<le> m"
proof (induction ss arbitrary: p)
  case (Cons s ss)
  show ?case
  proof (cases rule: pack_loop_cases [of s sha m ss p])
    case Unchanged
    show ?thesis unfolding Unchanged(4) by (rule Cons.IH) (simp_all add: Cons.prems)
  next
    case Last
    show ?thesis unfolding Last(4) by (rule pack_last_ok) (simp_all add: Cons.prems)
  next
    case Append
    show ?thesis unfolding Append(4)
      by (rule Cons.IH, rule pack_ok_append_seen [OF Cons.prems(1)]) (simp add: Append(3))
  qed (simp add: Cons)
qed simp

lemma pack_ok_empty: "pack_ok (empty_pack st)"
  by (simp add: pack_ok_def empty_pack_def)

lemma BuildPack_ok: "pack_ok (BuildPack sha r) \<and> pk_chars (BuildPack sha r) \<le> max_chars (br_max_chars r)"
  unfolding BuildPack_def by (rule pack_loop_ok) (simp_all add: pack_ok_empty, simp add: empty_pack_def)

text \<open>
  C23: the snippets of a pack never hold more characters than the budget (4000 when the request
  gives none), whatever the request and the earlier packs; the size reported is the sum of the
  sizes of the texts delivered, and there is one citation per item, numbered S1, S2, ... in the
  order of the items.
\<close>

theorem pack_within_budget:
  "(let p = BuildPack sha r in
     sum_list (map (rune_count \<circ> sn_text) (pk_snippets p)) = pk_chars p \<and>
     pk_chars p \<le> max_chars (br_max_chars r) \<and>
     map it_snippet (pk_items p) = pk_snippets p \<and> map it_citation (pk_items p) = pk_citations p \<and>
     map ci_label (pk_citations p) = map (\<lambda>i. ''S'' @ nat_str i) [1..<Suc (length (pk_items p))])"
proof -
  let ?p = "BuildPack sha r"
  have ok: "pack_ok ?p" "pk_chars ?p \<le> max_chars (br_max_chars r)"
    using BuildPack_ok by auto
  have "map (rune_count \<circ> sn_text) (pk_snippets ?p) = map it_chars (pk_items ?p)"
    using ok(1) unfolding pack_ok_def
    by (metis (no_types, lifting) comp_apply list.map_comp map_cong)
  with ok show ?thesis by (simp add: pack_ok_def Let_def)
qed

subsection \<open>What the next pack leaves out\<close>

text \<open>A digest is 64 hexadecimal digits.\<close>

definition hex_digest :: "(string \<Rightarrow> string) \<Rightarrow> bool" where
  "hex_digest sha \<longleftrightarrow>
     (\<forall>x. length (sha x) = 64 \<and> set (sha x) \<subseteq> set ''0123456789abcdef'')"

abbreviation live :: "snippet list \<Rightarrow> snippet list" where
  "live ss \<equiv> filter (\<lambda>s. sn_text (normalizeSnippet s) \<noteq> []) ss"

abbreviation recorded :: "(string \<Rightarrow> string) \<Rightarrow> gomap \<Rightarrow> snippet \<Rightarrow> bool" where
  "recorded sha st s \<equiv> map_of st (SourceID sha s) = Some (Fingerprint sha s)"

lemma hex_visible: "c \<in> set ''0123456789abcdef'' \<Longrightarrow> visible c"
  by (auto simp: visible_def byte_def)

lemma shortHash_trimmed:
  assumes "hex_digest sha"
  shows "shortHash sha x \<noteq> []" "trim_space (shortHash sha x) = shortHash sha x"
    "trim_space (''snippet:'' @ shortHash sha x) = ''snippet:'' @ shortHash sha x"
proof -
  let ?h = "shortHash sha x"
  have h: "length ?h = 16" "set ?h \<subseteq> set ''0123456789abcdef''"
    using assms set_take_subset [of 16 "sha x"] by (fastforce simp: hex_digest_def shortHash_def)+
  then have ne: "?h \<noteq> []" by auto
  moreover have "visible (hd ?h)" "visible (last ?h)"
    using h(2) ne hex_visible hd_in_set last_in_set by (meson subsetD)+
  ultimately show "?h \<noteq> []" "trim_space ?h = ?h"
    "trim_space (''snippet:'' @ ?h) = ''snippet:'' @ ?h"
    by (auto intro!: trim_space_visible simp: visible_ends_def, simp add: visible_def byte_def)
qed

lemma SourceID_trimmed:
  assumes "hex_digest sha"
  shows "SourceID sha s \<noteq> []" "trim_space (SourceID sha s) = SourceID sha s"
  using shortHash_trimmed [OF assms]
  by (auto simp: SourceID_def Let_def normalizeSnippet_def trim_space_glue)

lemma Fingerprint_trimmed:
  assumes "hex_digest sha"
  shows "Fingerprint sha s \<noteq> []" "trim_space (Fingerprint sha s) = Fingerprint sha s"
  using shortHash_trimmed [OF assms] by (simp_all add: Fingerprint_def Let_def)

text \<open>The remembered state is clean: \<open>copySeen\<close> of it is the same map.\<close>

definition seen_clean :: "gomap \<Rightarrow> bool" where
  "seen_clean m \<longleftrightarrow> wf_map m \<and>
     (\<forall>(k, v)\<in>set m. k \<noteq> [] \<and> v \<noteq> [] \<and> trim_space k = k \<and> trim_space v = v)"

lemma seen_clean_copySeen: "seen_clean (copySeen m)"
proof -
  let ?kvs = "filter (\<lambda>(k, v). k \<noteq> [] \<and> v \<noteq> []) (map (\<lambda>(k, v). (trim_space k, trim_space v)) m)"
  have "set (copySeen m) \<subseteq> set ?kvs"
    using set_mput_all [of ?kvs "[]"] by (simp add: copySeen_def)
  moreover have "wf_map (copySeen m)" by (simp add: copySeen_def distinct_mput_all)
  ultimately show ?thesis by (fastforce simp: seen_clean_def)
qed

lemma copySeen_clean:
  assumes "seen_clean m"
  shows "map_of (copySeen m) = map_of m"
proof -
  have "map (\<lambda>(k, v). (trim_space k, trim_space v)) m = m"
    using assms by (intro map_idI) (auto simp: seen_clean_def)
  moreover have "filter (\<lambda>(k, v). k \<noteq> [] \<and> v \<noteq> []) m = m"
    using assms by (intro filter_True) (auto simp: seen_clean_def)
  ultimately show ?thesis
    using assms by (simp add: copySeen_def seen_clean_def mput_all_distinct)
qed

lemma seen_clean_mput:
  assumes "hex_digest sha" "seen_clean m"
  shows "seen_clean (mput (SourceID sha s) (Fingerprint sha s) m)"
proof -
  have "set (mput k v m) \<subseteq> insert (k, v) (set m)" for k v :: string
    by (induction m) auto
  then show ?thesis
    using assms SourceID_trimmed [of sha s] Fingerprint_trimmed [of sha s]
    by (fastforce simp: seen_clean_def distinct_update)
qed

lemma pack_last_frame [simp]:
  "pk_next_state (pack_last sha m s i f pr p) = pk_next_state p"
  "pk_truncated (pack_last sha m s i f pr p)"
  by (simp_all add: pack_last_def Let_def)

lemma pack_last_entries:
  "o' \<in> set (pk_omitted (pack_last sha m s i f pr p)) \<Longrightarrow> o' \<in> set (pk_omitted p) \<or> om_source_id o' = i"
  "it \<in> set (pk_items (pack_last sha m s i f pr p)) \<Longrightarrow>
     it \<in> set (pk_items p) \<or> it_source_id it = i \<and> it_pinned it = sn_pinned s"
  by (auto simp: pack_last_def omit_def appendItem_def Let_def split: if_splits)

lemma pack_loop_clean:
  "hex_digest sha \<Longrightarrow> seen_clean (pk_next_state p) \<Longrightarrow>
     seen_clean (pk_next_state (pack_loop sha m ss p))"
proof (induction ss arbitrary: p)
  case (Cons s ss)
  show ?case
    by (cases rule: pack_loop_cases [of s sha m ss p])
      (use Cons in \<open>simp_all add: seen_clean_mput\<close>)
qed simp

lemma pack_loop_other:
  "i \<notin> SourceID sha ` set (live ss) \<Longrightarrow>
     map_of (pk_next_state (pack_loop sha m ss p)) i = map_of (pk_next_state p) i"
proof (induction ss arbitrary: p)
  case (Cons s ss)
  show ?case
    by (cases rule: pack_loop_cases [of s sha m ss p])
      (use Cons in \<open>auto simp: update_conv'\<close>)
qed simp

lemma pack_loop_recorded:
  assumes "distinct (map (SourceID sha) (live ss))"
    "\<not> pk_truncated (pack_loop sha m ss p)" "s \<in> set (live ss)"
  shows "recorded sha (pk_next_state (pack_loop sha m ss p)) s"
  using assms
proof (induction ss arbitrary: p)
  case (Cons s' ss)
  have other: "map_of (pk_next_state (pack_loop sha m ss q)) (SourceID sha s') =
      map_of (pk_next_state q) (SourceID sha s')" if "sn_text (normalizeSnippet s') \<noteq> []" for q
    using Cons.prems(1) that by (intro pack_loop_other) auto
  show ?case
  proof (cases rule: pack_loop_cases [of s' sha m ss p])
    case Empty
    then show ?thesis using Cons by simp
  next
    case Unchanged
    then show ?thesis using Cons other by (cases "s = s'") (simp_all add: update_conv')
  next
    case Last
    then show ?thesis using Cons.prems by simp
  next
    case Append
    then show ?thesis using Cons other by (cases "s = s'") (simp_all add: update_conv')
  qed
qed simp

text \<open>A build over snippets that are all recorded delivers the pinned ones only.\<close>

lemma mput_same: "map_of m k = Some v \<Longrightarrow> mput k v m = m"
  by (induction m) (auto split: if_splits)

lemma pack_loop_pinned:
  "\<forall>s\<in>set (live ss). recorded sha (pk_next_state p) s \<Longrightarrow>
     \<forall>it\<in>set (pk_items (pack_loop sha m ss p)). it \<in> set (pk_items p) \<or> it_pinned it"
proof (induction ss arbitrary: p)
  case (Cons s ss)
  show ?case
  proof (cases rule: pack_loop_cases [of s sha m ss p])
    case Last
    then have "sn_pinned s" using Cons.prems by auto
    then show ?thesis using pack_last_entries(2) unfolding Last(4) by fastforce
  next
    case Append
    then have "sn_pinned s" "seen_step sha s p = p" using Cons.prems by (auto simp: mput_same)
    then show ?thesis
      using Cons.IH [of "appendItem sha (normalizeSnippet s) (SourceID sha s) (Fingerprint sha s)
        (map_of (pk_next_state p) (SourceID sha s)) (snippet_size s)
        (p\<lparr>pk_chars := pk_chars p + snippet_size s\<rparr>)"] Cons.prems Append
      by (auto simp: appendItem_def Let_def)
  next
    case Unchanged
    then show ?thesis
      using Cons.prems Cons.IH [of "omit sha StatusOmitUnchanged (SourceID sha s) (Fingerprint sha s)
        ''unchanged'' p"]
      by (auto simp: mput_same)
  qed (use Cons in auto)
qed simp

lemma set_prioritize [simp]: "set (prioritizeSnippets ss) = set ss"
  by (auto simp: prioritizeSnippets_def)

lemma mset_prioritize [simp]: "mset (prioritizeSnippets ss) = mset ss"
  by (simp add: prioritizeSnippets_def union_filter_mset_complement)

lemma distinct_live_prioritize [simp]:
  "distinct (map f (live (prioritizeSnippets ss))) \<longleftrightarrow> distinct (map f (live ss))"
  by (rule mset_eq_imp_distinct_iff) simp

text \<open>
  When a pack was not cut short by its budget and its snippets have different source ids,
  building again with the remembered state and the same snippets, under any budget, delivers no
  snippet but the pinned ones: nothing unchanged is sent twice.
\<close>

theorem unchanged_not_sent_twice:
  assumes "hex_digest sha" "distinct (map (SourceID sha) (live (br_snippets r)))"
    and "\<not> pk_truncated (BuildPack sha r)"
    and "it \<in> set (pk_items (BuildPack sha
           (r\<lparr>br_previous := pk_next_state (BuildPack sha r), br_max_chars := n\<rparr>)))"
  shows "it_pinned it"
proof -
  let ?ss = "prioritizeSnippets (br_snippets r)" and ?st = "pk_next_state (BuildPack sha r)"
  have "seen_clean ?st"
    unfolding BuildPack_def by (rule pack_loop_clean [OF assms(1)])
      (simp add: empty_pack_def seen_clean_copySeen)
  moreover have "\<forall>s\<in>set (live ?ss). recorded sha ?st s"
    using assms(2,3) pack_loop_recorded unfolding BuildPack_def by (metis distinct_live_prioritize)
  ultimately have "\<forall>s\<in>set (live ?ss). recorded sha (pk_next_state (empty_pack (copySeen ?st))) s"
    by (simp add: empty_pack_def copySeen_clean)
  then show ?thesis
    using pack_loop_pinned assms(4) by (fastforce simp: BuildPack_def empty_pack_def)
qed

text \<open>A digest and a session to evaluate the builder on.\<close>

definition toy_sha :: "string \<Rightarrow> string" where
  "toy_sha x = replicate 64 (''0123456789abcdef'' ! (length x mod 16))"

lemma hex_digest_toy_sha: "hex_digest toy_sha"
proof -
  have "set (toy_sha x) \<subseteq> set ''0123456789abcdef''" for x
    using nth_mem [of "length x mod 16" "''0123456789abcdef''"] by (auto simp: toy_sha_def)
  then show ?thesis by (simp add: hex_digest_def toy_sha_def)
qed

definition toy_snippet :: "string \<Rightarrow> string \<Rightarrow> bool \<Rightarrow> snippet" where
  "toy_snippet i t pinned = \<lparr>sn_id = i, sn_source = ''ch'', sn_channel_id = ''ch'', sn_author_id = ''u'',
     sn_text = t, sn_score = 0, sn_created_at = ''t0'', sn_pinned = pinned, sn_stale = False\<rparr>"

lemmas [go_eval] = normalizeSnippet_def toy_snippet_def SourceID_def Fingerprint_def shortHash_def
  toy_sha_def RestoreHandle_def prioritizeSnippets_def copySeen_def max_chars_def empty_pack_def
  appendItem_def omit_def BuildPack_def pack_last_def rune_count_def

lemma unchanged_not_sent_twice_witness:
  "let r = \<lparr>br_snippets = [toy_snippet ''1'' ''hello'' False, toy_snippet ''2'' ''rules'' True],
          br_previous = [], br_max_chars = 100\<rparr>;
       p = BuildPack toy_sha r;
       p' = BuildPack toy_sha (r\<lparr>br_previous := pk_next_state p, br_max_chars := 50\<rparr>)
   in length (pk_items p) = 2 \<and> length (pk_items p') = 1 \<and> it_pinned (hd (pk_items p'))"
proof -
  define r where "r = \<lparr>br_snippets = [toy_snippet ''1'' ''hello'' False, toy_snippet ''2'' ''rules'' True],
          br_previous = [], br_max_chars = 100\<rparr>"
  let ?p = "BuildPack toy_sha r"
  let ?p' = "BuildPack toy_sha (r\<lparr>br_previous := pk_next_state ?p, br_max_chars := 50\<rparr>)"
  have st: "pk_next_state ?p = [(''ch:2'', replicate 16 CHR ''f''), (''ch:1'', replicate 16 CHR ''f'')]"
    by (simp add: go_eval r_def)
  have n: "length (pk_items ?p) = 2" "\<not> pk_truncated ?p"
    "distinct (map (SourceID toy_sha) (live (br_snippets r)))"
    by (simp_all add: go_eval r_def)
  have n': "length (pk_items ?p') = 1"
    unfolding st by (simp add: go_eval r_def)
  from n' have "hd (pk_items ?p') \<in> set (pk_items ?p')" by (cases "pk_items ?p'") auto
  then have "it_pinned (hd (pk_items ?p'))"
    using n unchanged_not_sent_twice [OF hex_digest_toy_sha] by blast
  with n n' show ?thesis by (simp add: r_def Let_def)
qed

subsection \<open>A snippet left out for the budget is never delivered\<close>

lemma appendItem_entries:
  "pk_omitted (appendItem sha s i f pr n p) = pk_omitted p"
  "it \<in> set (pk_items (appendItem sha s i f pr n p)) \<Longrightarrow> it \<in> set (pk_items p) \<or> it_source_id it = i"
  by (auto simp: appendItem_def Let_def)

lemma pack_loop_items:
  "it \<in> set (pk_items (pack_loop sha m ss p)) \<Longrightarrow>
     it \<in> set (pk_items p) \<or> it_source_id it \<in> SourceID sha ` set (live ss)"
proof (induction ss arbitrary: p)
  case (Cons s ss)
  show ?case
  proof (cases rule: pack_loop_cases [of s sha m ss p])
    case Empty
    then show ?thesis using Cons.prems Cons.IH [of p] by auto
  next
    case Unchanged
    show ?thesis using Cons.IH [OF Cons.prems [unfolded Unchanged(4)]] Unchanged(1) by auto
  next
    case Last
    show ?thesis
      using pack_last_entries(2) [OF Cons.prems [unfolded Last(4)]] Last(1) by auto
  next
    case Append
    show ?thesis
      using Cons.IH [OF Cons.prems [unfolded Append(4)]] Append(1)
      by (auto dest!: appendItem_entries(2))
  qed
qed simp

lemma pack_last_omitted_mono: "set (pk_omitted p) \<subseteq> set (pk_omitted (pack_last sha m s i f pr p))"
  by (auto simp: pack_last_def omit_def appendItem_entries Let_def)

lemma pack_loop_omitted_mono:
  "set (pk_omitted p) \<subseteq> set (pk_omitted (pack_loop sha m ss p))"
proof (induction ss arbitrary: p)
  case (Cons s ss)
  show ?case
  proof (cases rule: pack_loop_cases [of s sha m ss p])
    case Empty
    then show ?thesis using Cons.IH by simp
  next
    case Unchanged
    show ?thesis unfolding Unchanged(4) by (rule order_trans [OF _ Cons.IH]) (auto simp: omit_def)
  next
    case Last
    show ?thesis unfolding Last(4) by (rule order_trans [OF _ pack_last_omitted_mono]) simp
  next
    case Append
    show ?thesis
      unfolding Append(4) by (rule order_trans [OF _ Cons.IH]) (simp add: appendItem_entries)
  qed
qed simp

text \<open>Where the loop stops for the budget: what came before was recorded, and so was the snippet.\<close>

definition budget_stop ::
  "(string \<Rightarrow> string) \<Rightarrow> snippet list \<Rightarrow> context_item list \<Rightarrow> pack \<Rightarrow> string \<Rightarrow> bool" where
  "budget_stop sha ss its p i \<longleftrightarrow>
     (\<exists>pre s suf. ss = pre @ s # suf \<and> sn_text (normalizeSnippet s) \<noteq> [] \<and> i = SourceID sha s \<and>
        (\<forall>s'\<in>set (live (pre @ [s])). recorded sha (pk_next_state p) s') \<and>
        (\<forall>it\<in>set (pk_items p). it \<in> set its \<or> it_source_id it \<in> SourceID sha ` set (live pre)))"

lemma budget_stop_Cons:
  assumes "budget_stop sha ss its' p i"
    and "sn_text (normalizeSnippet s) \<noteq> [] \<Longrightarrow> recorded sha (pk_next_state p) s"
    and "\<forall>it\<in>set its'. it \<in> set its \<or>
      sn_text (normalizeSnippet s) \<noteq> [] \<and> it_source_id it = SourceID sha s"
  shows "budget_stop sha (s # ss) its p i"
proof -
  obtain pre s' suf where ss: "ss = pre @ s' # suf" "sn_text (normalizeSnippet s') \<noteq> []"
    "i = SourceID sha s'" "\<forall>s'\<in>set (live (pre @ [s'])). recorded sha (pk_next_state p) s'"
    "\<forall>it\<in>set (pk_items p). it \<in> set its' \<or> it_source_id it \<in> SourceID sha ` set (live pre)"
    using assms(1) unfolding budget_stop_def by blast
  have "\<forall>s''\<in>set (live ((s # pre) @ [s'])). recorded sha (pk_next_state p) s''"
    using ss(4) assms(2) by auto
  moreover have "\<forall>it\<in>set (pk_items p). it \<in> set its \<or>
      it_source_id it \<in> SourceID sha ` set (live (s # pre))"
    using ss(5) assms(3) by fastforce
  ultimately show ?thesis
    using ss(1-3) unfolding budget_stop_def by (metis append_Cons)
qed

lemma pack_loop_budget:
  "distinct (map (SourceID sha) (live ss)) \<Longrightarrow> om \<in> set (pk_omitted (pack_loop sha m ss p)) \<Longrightarrow>
     om_status om = StatusOmitBudget \<Longrightarrow> om \<notin> set (pk_omitted p) \<Longrightarrow>
     budget_stop sha ss (pk_items p) (pack_loop sha m ss p) (om_source_id om)"
proof (induction ss arbitrary: p)
  case (Cons s ss)
  have other: "map_of (pk_next_state (pack_loop sha m ss q)) (SourceID sha s) =
      map_of (pk_next_state q) (SourceID sha s)" if "sn_text (normalizeSnippet s) \<noteq> []" for q
    using Cons.prems(1) that by (intro pack_loop_other) auto
  have dist: "distinct (map (SourceID sha) (live ss))"
    using Cons.prems(1) by (simp split: if_splits)
  show ?case
  proof (cases rule: pack_loop_cases [of s sha m ss p])
    case Empty
    then show ?thesis
      using Cons.IH [OF dist, of p] Cons.prems by (intro budget_stop_Cons) auto
  next
    case Unchanged
    let ?q = "omit sha StatusOmitUnchanged (SourceID sha s) (Fingerprint sha s) ''unchanged''
      (seen_step sha s p)"
    have "om \<notin> set (pk_omitted ?q)" using Cons.prems(3,4) by (auto simp: omit_def)
    then have "budget_stop sha ss (pk_items ?q) (pack_loop sha m ss ?q) (om_source_id om)"
      using Cons.prems(2,3) unfolding Unchanged(4) by (intro Cons.IH [OF dist])
    then show ?thesis
      unfolding Unchanged(4) by (rule budget_stop_Cons) (simp_all add: other update_conv')
  next
    case Last
    have "om_source_id om = SourceID sha s"
      using Cons.prems unfolding Last(4)
      by (auto simp: pack_last_def omit_def appendItem_def Let_def split: if_splits)
    moreover have "\<not> int m - int (pk_chars p) > 3"
      using Cons.prems(2,4) unfolding Last(4)
      by (auto simp: pack_last_def appendItem_entries Let_def split: if_splits)
    then have "\<forall>it\<in>set (pk_items (pack_loop sha m (s # ss) p)). it \<in> set (pk_items p)"
      unfolding Last(4) by (simp add: pack_last_def Let_def)
    ultimately show ?thesis
      using Last unfolding budget_stop_def
      by (intro exI [of _ "[]"] exI [of _ s] exI [of _ ss]) (simp add: update_conv')
  next
    case Append
    let ?q = "appendItem sha (normalizeSnippet s) (SourceID sha s) (Fingerprint sha s)
           (map_of (pk_next_state p) (SourceID sha s)) (snippet_size s)
           ((seen_step sha s p)\<lparr>pk_chars := pk_chars p + snippet_size s\<rparr>)"
    have "om \<notin> set (pk_omitted ?q)" using Cons.prems(4) by (auto simp: appendItem_def Let_def)
    then have "budget_stop sha ss (pk_items ?q) (pack_loop sha m ss ?q) (om_source_id om)"
      using Cons.prems(2,3) unfolding Append(4) by (intro Cons.IH [OF dist])
    then show ?thesis
      unfolding Append(4)
      by (rule budget_stop_Cons)
        (use Append(1) in \<open>auto simp: other update_conv' appendItem_def Let_def\<close>)
  qed
qed simp

lemma pack_loop_skip:
  "\<forall>s\<in>set pre. \<not> sn_pinned s \<Longrightarrow> \<forall>s\<in>set (live pre). recorded sha (pk_next_state p) s \<Longrightarrow>
     \<exists>oms. pack_loop sha m (pre @ suf) p = pack_loop sha m suf (p\<lparr>pk_omitted := pk_omitted p @ oms\<rparr>) \<and>
       (\<forall>s\<in>set (live pre). \<exists>om\<in>set oms. om_status om = StatusOmitUnchanged \<and>
          om_source_id om = SourceID sha s)"
proof (induction pre arbitrary: p)
  case Nil
  then show ?case by (intro exI [of _ "[]"]) simp
next
  case (Cons s pre)
  show ?case
  proof (cases rule: pack_loop_cases [of s sha m "pre @ suf" p])
    case Empty
    then show ?thesis using Cons by auto
  next
    case Unchanged
    let ?om = "\<lparr>om_status = StatusOmitUnchanged, om_source_id = SourceID sha s,
      om_restore_handle = RestoreHandle sha (SourceID sha s) (Fingerprint sha s),
      om_reason = ''unchanged''\<rparr>"
    obtain oms where oms: "pack_loop sha m (pre @ suf) (p\<lparr>pk_omitted := pk_omitted p @ [?om]\<rparr>) =
        pack_loop sha m suf (p\<lparr>pk_omitted := pk_omitted p @ ?om # oms\<rparr>)"
      "\<forall>s\<in>set (live pre). \<exists>om\<in>set oms. om_status om = StatusOmitUnchanged \<and>
          om_source_id om = SourceID sha s"
      using Cons.IH [of "p\<lparr>pk_omitted := pk_omitted p @ [?om]\<rparr>"] Cons.prems by auto
    then show ?thesis
      using Unchanged by (intro exI [of _ "?om # oms"]) (auto simp: mput_same omit_def)
  qed (use Cons.prems in auto)
qed

text \<open>
  A snippet left out of a pack for the budget is nevertheless remembered as seen: with different
  source ids and nothing pinned, it is in no item of that pack, and the next pack of the same
  snippets, under any budget, does not deliver it either but reports it as unchanged.
\<close>

theorem budget_omission_never_delivered:
  assumes "hex_digest sha" "distinct (map (SourceID sha) (live (br_snippets r)))"
    and "\<forall>s\<in>set (br_snippets r). \<not> sn_pinned s"
    and "om \<in> set (pk_omitted (BuildPack sha r))" "om_status om = StatusOmitBudget"
  shows "let p = BuildPack sha r;
             p' = BuildPack sha (r\<lparr>br_previous := pk_next_state p, br_max_chars := n\<rparr>)
         in om_source_id om \<notin> it_source_id ` set (pk_items p) \<and>
            om_source_id om \<notin> it_source_id ` set (pk_items p') \<and>
            (StatusOmitUnchanged, om_source_id om) \<in>
              (\<lambda>om. (om_status om, om_source_id om)) ` set (pk_omitted p')"
proof -
  let ?ss = "br_snippets r" and ?p = "BuildPack sha r"
  let ?e = "empty_pack (copySeen (br_previous r))" and ?e' = "empty_pack (copySeen (pk_next_state ?p))"
  have prio: "prioritizeSnippets ?ss = ?ss"
    using assms(3) by (simp add: prioritizeSnippets_def)
  then have p: "?p = pack_loop sha (max_chars (br_max_chars r)) ?ss ?e" by (simp add: BuildPack_def)
  have "seen_clean (pk_next_state ?p)"
    unfolding p by (rule pack_loop_clean [OF assms(1)]) (simp add: empty_pack_def seen_clean_copySeen)
  then have same: "map_of (pk_next_state ?e') = map_of (pk_next_state ?p)"
    by (simp add: empty_pack_def copySeen_clean)
  have "budget_stop sha ?ss (pk_items ?e) ?p (om_source_id om)"
    unfolding p by (rule pack_loop_budget [OF assms(2) assms(4) [unfolded p] assms(5)])
      (simp add: empty_pack_def)
  then obtain pre s suf where split: "?ss = pre @ s # suf" "sn_text (normalizeSnippet s) \<noteq> []"
    "om_source_id om = SourceID sha s"
    "\<forall>s'\<in>set (live (pre @ [s])). recorded sha (pk_next_state ?p) s'"
    "\<forall>it\<in>set (pk_items ?p). it_source_id it \<in> SourceID sha ` set (live pre)"
    unfolding budget_stop_def by (auto simp: empty_pack_def)
  have fresh: "SourceID sha s \<notin> SourceID sha ` set (live pre)"
    "SourceID sha s \<notin> SourceID sha ` set (live suf)"
    using assms(2) split(2) unfolding split(1) by auto
  obtain oms where skip: "pack_loop sha (max_chars n) ((pre @ [s]) @ suf) ?e' =
      pack_loop sha (max_chars n) suf (?e'\<lparr>pk_omitted := pk_omitted ?e' @ oms\<rparr>)" (is "?p' = ?q")
    and "\<exists>om\<in>set oms. om_status om = StatusOmitUnchanged \<and> om_source_id om = SourceID sha s"
    using pack_loop_skip [of "pre @ [s]" ?e' sha "max_chars n" suf] assms(3) split(1,2,4) same by auto
  then obtain om' where om': "om' \<in> set oms" "om_status om' = StatusOmitUnchanged"
    "om_source_id om' = SourceID sha s"
    by blast
  have p': "BuildPack sha (r\<lparr>br_previous := pk_next_state ?p, br_max_chars := n\<rparr>) = ?q"
    using prio split(1) skip by (simp add: BuildPack_def)
  have "SourceID sha s \<notin> it_source_id ` set (pk_items ?q)"
    using pack_loop_items fresh(2) by (fastforce simp: empty_pack_def)
  moreover have "SourceID sha s \<notin> it_source_id ` set (pk_items ?p)"
    using split(5) fresh(1) by auto
  moreover have "set oms \<subseteq> set (pk_omitted ?q)"
    using pack_loop_omitted_mono [of "?e'\<lparr>pk_omitted := pk_omitted ?e' @ oms\<rparr>"] by simp
  then have "(StatusOmitUnchanged, SourceID sha s) \<in>
      (\<lambda>om. (om_status om, om_source_id om)) ` set (pk_omitted ?q)"
    using om' by (intro image_eqI [of _ _ om']) auto
  ultimately show ?thesis
    unfolding Let_def p' split(3) by (intro conjI)
qed

lemma budget_omission_never_delivered_witness:
  "let r = \<lparr>br_snippets = [toy_snippet ''1'' ''hello'' False, toy_snippet ''2'' ''rules'' False],
          br_previous = [], br_max_chars = 6\<rparr>;
       p = BuildPack toy_sha r;
       p' = BuildPack toy_sha (r\<lparr>br_previous := pk_next_state p, br_max_chars := 100\<rparr>)
   in map om_source_id (pk_omitted p) = [''ch:2''] \<and> ''ch:2'' \<notin> it_source_id ` set (pk_items p')"
proof -
  define r where "r = \<lparr>br_snippets = [toy_snippet ''1'' ''hello'' False, toy_snippet ''2'' ''rules'' False],
          br_previous = [], br_max_chars = 6\<rparr>"
  define om where "om = hd (pk_omitted (BuildPack toy_sha r))"
  have om: "map om_source_id (pk_omitted (BuildPack toy_sha r)) = [''ch:2'']"
    by (simp add: go_eval r_def)
  have st: "om_status om = StatusOmitBudget"
    by (simp add: go_eval r_def om_def)
  have "distinct (map (SourceID toy_sha) (live (br_snippets r)))"
    "\<forall>s\<in>set (br_snippets r). \<not> sn_pinned s"
    by (simp_all add: go_eval r_def)
  moreover have "om \<in> set (pk_omitted (BuildPack toy_sha r))" "om_source_id om = ''ch:2''"
    using om unfolding om_def by (cases "pk_omitted (BuildPack toy_sha r)", auto)+
  ultimately have "''ch:2'' \<notin> it_source_id ` set (pk_items (BuildPack toy_sha
      (r\<lparr>br_previous := pk_next_state (BuildPack toy_sha r), br_max_chars := 100\<rparr>)))"
    using budget_omission_never_delivered [OF hex_digest_toy_sha _ _ _ st, of r 100]
    by (simp add: Let_def)
  with om show ?thesis by (simp add: r_def Let_def)
qed

end
