(* ===== verification/SqlTables.thy ===== *)
theory SqlTables
  imports Sql
begin

text \<open>
  Tables with a primary key, as lists of rows: lookup by key, \<^verbatim>\<open>insert ... on conflict do update\<close>,
  \<^verbatim>\<open>update ... where\<close> and \<^verbatim>\<open>delete ... where\<close>, with the laws the stores share.
\<close>

definition row_of :: "('r \<Rightarrow> 'k) \<Rightarrow> 'k \<Rightarrow> 'r list \<Rightarrow> 'r option" where
  "row_of key k rows = find (\<lambda>r. key r = k) rows"

definition update_where :: "('r \<Rightarrow> bool) \<Rightarrow> ('r \<Rightarrow> 'r) \<Rightarrow> 'r list \<Rightarrow> 'r list" where
  "update_where P f rows = map (\<lambda>r. if P r then f r else r) rows"

definition delete_where :: "('r \<Rightarrow> bool) \<Rightarrow> 'r list \<Rightarrow> 'r list" where
  "delete_where P rows = filter (\<lambda>r. \<not> P r) rows"

definition count_where :: "('r \<Rightarrow> bool) \<Rightarrow> 'r list \<Rightarrow> nat" where
  "count_where P rows = length (filter P rows)"

text \<open>\<open>upsert key row f rows\<close>: append the row, or apply \<open>f\<close> to the row its key conflicts with.\<close>

definition upsert :: "('r \<Rightarrow> 'k) \<Rightarrow> 'r \<Rightarrow> ('r \<Rightarrow> 'r) \<Rightarrow> 'r list \<Rightarrow> 'r list" where
  "upsert key row f rows =
     (case row_of key (key row) rows of
        None \<Rightarrow> rows @ [row]
      | Some _ \<Rightarrow> update_where (\<lambda>r. key r = key row) f rows)"

abbreviation unique_key :: "('r \<Rightarrow> 'k) \<Rightarrow> 'r list \<Rightarrow> bool" where
  "unique_key key rows \<equiv> distinct (map key rows)"

lemma row_of_Nil [simp]: "row_of key k [] = None"
  by (simp add: row_of_def)

lemma row_of_Cons [simp]: "row_of key k (r # rows) = (if key r = k then Some r else row_of key k rows)"
  by (simp add: row_of_def)

lemma row_of_None: "row_of key k rows = None \<longleftrightarrow> k \<notin> key ` set rows"
  by (induction rows) auto

lemma row_of_SomeD: "row_of key k rows = Some r \<Longrightarrow> r \<in> set rows \<and> key r = k"
  by (induction rows) (auto split: if_splits)

lemma row_of_append:
  "row_of key k (xs @ ys) = (case row_of key k xs of None \<Rightarrow> row_of key k ys | Some r \<Rightarrow> Some r)"
  by (induction xs) auto

lemma row_of_unique: "unique_key key rows \<Longrightarrow> r \<in> set rows \<Longrightarrow> row_of key (key r) rows = Some r"
  by (induction rows) force+

lemma row_of_update_where:
  assumes "\<And>r. key (f r) = key r"
  shows "row_of key k (update_where P f rows) = map_option (\<lambda>r. if P r then f r else r) (row_of key k rows)"
  by (induction rows) (auto simp: update_where_def assms)

lemma map_key_update_where:
  "(\<And>r. key (f r) = key r) \<Longrightarrow> map key (update_where P f rows) = map key rows"
  by (induction rows) (auto simp: update_where_def)

lemma length_update_where [simp]: "length (update_where P f rows) = length rows"
  by (simp add: update_where_def)

lemma update_where_none: "count_where P rows = 0 \<Longrightarrow> update_where P f rows = rows"
  by (induction rows) (auto simp: update_where_def count_where_def split: if_splits)

lemma count_where_key:
  "unique_key key rows \<Longrightarrow> count_where (\<lambda>r. key r = k \<and> Q r) rows =
     (case row_of key k rows of None \<Rightarrow> 0 | Some r \<Rightarrow> if Q r then 1 else 0)"
proof (induction rows)
  case (Cons r rows)
  have "count_where (\<lambda>r. key r = k \<and> Q r) rows = 0" if "key r = k"
  proof -
    have "k \<notin> key ` set rows" using Cons.prems that by auto
    then show ?thesis by (auto simp: count_where_def filter_empty_conv)
  qed
  then show ?case using Cons by (auto simp: count_where_def)
qed (simp add: count_where_def)

lemma row_of_delete_where_key:
  "row_of key k (delete_where (\<lambda>r. key r = k') rows) = (if k = k' then None else row_of key k rows)"
  by (induction rows) (auto simp: delete_where_def)

lemma unique_key_delete_where: "unique_key key rows \<Longrightarrow> unique_key key (delete_where P rows)"
  by (simp add: delete_where_def distinct_map_filter)

lemma set_update_where: "set (update_where P f rows) = (\<lambda>r. if P r then f r else r) ` set rows"
  by (simp add: update_where_def)

lemma set_delete_where [simp]: "set (delete_where P rows) = {r \<in> set rows. \<not> P r}"
  by (auto simp: delete_where_def)

lemma row_of_upsert:
  assumes "\<And>r. key (f r) = key r"
  shows "row_of key k (upsert key row f rows) =
    (if k = key row
     then Some (case row_of key k rows of None \<Rightarrow> row | Some r \<Rightarrow> f r)
     else row_of key k rows)"
proof (cases "row_of key (key row) rows")
  case None
  then show ?thesis by (auto simp: upsert_def row_of_append split: option.splits)
next
  case (Some r)
  have "map_option (\<lambda>r. if key r = key row then f r else r) (row_of key k rows) = row_of key k rows"
    if "k \<noteq> key row"
    using that by (cases "row_of key k rows") (auto dest: row_of_SomeD)
  moreover have "key r = key row" using row_of_SomeD [OF Some] by simp
  ultimately show ?thesis using Some by (simp add: upsert_def row_of_update_where assms)
qed

lemma unique_key_upsert:
  assumes "\<And>r. key (f r) = key r" "unique_key key rows"
  shows "unique_key key (upsert key row f rows)"
  using assms by (auto simp: upsert_def map_key_update_where row_of_None split: option.splits)

lemma set_upsertD:
  "r \<in> set (upsert key row f rows) \<Longrightarrow> r = row \<or> r \<in> set rows \<or> (\<exists>r'\<in>set rows. r = f r')"
  by (auto simp: upsert_def set_update_where split: option.splits if_splits)

lemma set_upsert_keyD:
  "r \<in> set (upsert key row f rows) \<Longrightarrow>
     r = row \<or> r \<in> set rows \<or> (\<exists>r'\<in>set rows. key r' = key row \<and> r = f r')"
  by (auto simp: upsert_def set_update_where split: option.splits if_splits)

text \<open>A query changes no table.\<close>

lemma sql_query_frame:
  assumes "\<And>now t r t'. stmt now t = Inr (r, t') \<Longrightarrow> t' = t"
  shows "tables (snd (sql_exec stmt db)) = tables db"
proof (cases "sql_exec stmt db")
  case (Pair r db')
  then show ?thesis using assms by (cases r) (auto dest: sql_exec_Inl sql_exec_Inr)
qed

lemma sql_query_tables:
  assumes "sql_exec stmt db = (x, db')" "\<And>now t r t'. stmt now t = Inr (r, t') \<Longrightarrow> t' = t"
  shows "tables db' = tables db"
  using sql_query_frame [of stmt db] assms by simp

text \<open>A statement leaves the tables alone or has the effect it has on them.\<close>

lemma exec_tables:
  assumes "sql_exec stmt db = (x, db')"
  shows "tables db' = tables db \<or> (\<exists>r. stmt (clock db) (tables db) = Inr (r, tables db'))"
  using assms by (cases x) (auto dest: sql_exec_Inl sql_exec_Inr)

lemma exec_rejected:
  "(\<And>now. stmt now (tables db) = Inl e) \<Longrightarrow>
     fst (sql_exec stmt db) = Inl (case fst (next_fault db) of None \<Rightarrow> e | Some f \<Rightarrow> Errorf f)"
  by (auto simp: sql_exec_def split: prod.splits option.splits dest: next_faultD)

lemma exec_runs:
  "fst (next_fault db) = None \<Longrightarrow> stmt (clock db) (tables db) = Inr (r, t) \<Longrightarrow>
     fst (sql_exec stmt db) = Inr r \<and> tables (snd (sql_exec stmt db)) = t"
  by (auto simp: sql_exec_def split: prod.splits option.splits dest: next_faultD)

lemma wrap_exec_tables:
  assumes "wrap_err m (sql_exec stmt db) = (x, db')"
  shows "tables db' = tables db \<or> (\<exists>r. stmt (clock db) (tables db) = Inr (r, tables db'))"
proof (cases "sql_exec stmt db")
  case (Pair y d)
  then show ?thesis
    using assms by (cases y) (auto dest: sql_exec_Inl sql_exec_Inr)
qed

text \<open>Invariants of rows, and the keys of a table, under the writes.\<close>

lemma ball_update_where:
  "(\<And>r. r \<in> set rows \<Longrightarrow> Q r) \<Longrightarrow> (\<And>r. r \<in> set rows \<Longrightarrow> P r \<Longrightarrow> Q (f r)) \<Longrightarrow>
     r \<in> set (update_where P f rows) \<Longrightarrow> Q r"
  by (auto simp: set_update_where)

lemma key_set_update_where:
  "(\<And>r. key (f r) = key r) \<Longrightarrow> key ` set (update_where P f rows) = key ` set rows"
  using map_key_update_where [of key f P rows] by (metis list.set_map)

lemma key_set_upsert:
  "(\<And>r. key (f r) = key r) \<Longrightarrow> key ` set (upsert key row f rows) = insert (key row) (key ` set rows)"
  by (auto simp: upsert_def key_set_update_where split: option.splits)
    (metis image_eqI row_of_SomeD)

lemma ball_upsert:
  "(\<And>r. r \<in> set rows \<Longrightarrow> Q r) \<Longrightarrow> (\<And>r. r \<in> set rows \<Longrightarrow> key r = key row \<Longrightarrow> Q (f r)) \<Longrightarrow>
     (key row \<notin> key ` set rows \<Longrightarrow> Q row) \<Longrightarrow> r \<in> set (upsert key row f rows) \<Longrightarrow> Q r"
  by (auto simp: upsert_def set_update_where row_of_None split: option.splits if_splits)

lemma count_where_append [simp]: "count_where P (xs @ ys) = count_where P xs + count_where P ys"
  by (simp add: count_where_def)

lemma count_where_single [simp]: "count_where P [x] = (if P x then 1 else 0)"
  by (simp add: count_where_def)

lemma count_where_0: "(\<And>x. x \<in> set xs \<Longrightarrow> \<not> P x) \<Longrightarrow> count_where P xs = 0"
  by (auto simp: count_where_def filter_empty_conv)

text \<open>A partial unique index stays satisfied by an update that keeps the keys and moves no row into it.\<close>

lemma partial_index_update:
  assumes "\<And>x. x \<in> set rows \<Longrightarrow> Q x \<Longrightarrow> P (f x) \<Longrightarrow> P x \<and> key (f x) = key x" "unique_key key (filter P rows)"
  shows "unique_key key (filter P (update_where Q f rows))"
proof -
  let ?g = "\<lambda>r. if Q r then f r else r"
  have g: "P x \<and> key (?g x) = key x" if "x \<in> set rows" "P (?g x)" for x
    using assms(1) [of x] that by (simp split: if_splits)
  have "map key (filter P (update_where Q f rows)) = map (\<lambda>r. key (?g r)) (filter (\<lambda>r. P (?g r)) rows)"
    by (simp add: update_where_def filter_map o_def)
  also have "\<dots> = map key (filter (\<lambda>r. P (?g r)) rows)"
    using g by (intro map_cong) auto
  also have "filter (\<lambda>r. P (?g r)) rows = filter (\<lambda>r. P (?g r)) (filter P rows)"
    using g by (auto simp: intro: filter_cong)
  finally show ?thesis
    using assms(2) by (simp only: distinct_map_filter)
qed

lemma set_update_whereD:
  "x \<in> set (update_where Q f rows) \<Longrightarrow> x \<in> set rows \<and> \<not> Q x \<or> (\<exists>r\<in>set rows. Q r \<and> x = f r)"
  by (auto simp: set_update_where split: if_splits)

text \<open>Column types: a \<^verbatim>\<open>timestamptz\<close> keeps microseconds of a time in nanoseconds, an \<^verbatim>\<open>integer\<close> has 32 bits.\<close>

definition timestamptz :: "gotime \<Rightarrow> gotime" where
  "timestamptz t = 1000 * (t div 1000)"

definition int4 :: "int \<Rightarrow> bool" where
  "int4 i \<longleftrightarrow> - 2147483648 \<le> i \<and> i \<le> 2147483647"

end
