(* ===== verification/GuildPolicy.thy ===== *)
theory GuildPolicy
  imports SqlTables
begin

text \<open>
  \<^verbatim>\<open>internal/llm/provider/policy.go\<close>: a guild's policy for personal keys and for the routing of
  agent tools, kept in \<^verbatim>\<open>llm_guild_policies\<close> (migrations \<^verbatim>\<open>000005\<close> and \<^verbatim>\<open>000007\<close>, the guild the primary
  key). A store is described by what its \<^verbatim>\<open>db\<close> can do: answer a query, execute a statement.
\<close>

type_synonym personal_keys_mode = string
type_synonym tool_routing_mode = string

abbreviation PersonalKeysOff :: personal_keys_mode where "PersonalKeysOff \<equiv> ''off''"
abbreviation PersonalKeysDMOnly :: personal_keys_mode where "PersonalKeysDMOnly \<equiv> ''dm-only''"
abbreviation PersonalKeysGuildAllowed :: personal_keys_mode where
  "PersonalKeysGuildAllowed \<equiv> ''guild-allowed''"

abbreviation ToolRoutingOff :: tool_routing_mode where "ToolRoutingOff \<equiv> ''off''"
abbreviation ToolRoutingDryRun :: tool_routing_mode where "ToolRoutingDryRun \<equiv> ''dry-run''"
abbreviation ToolRoutingEnabled :: tool_routing_mode where "ToolRoutingEnabled \<equiv> ''enabled''"

record guild_policy =
  gp_guild_id :: string
  gp_personal_keys_mode :: personal_keys_mode
  gp_tool_routing_mode :: tool_routing_mode

record guild_policy_input = guild_policy +
  gp_actor_user_id :: string

record policy_row = guild_policy +
  gp_updated_by :: string
  gp_updated_at :: gotime

type_synonym policy_db = "policy_row list sqldb"

record policy_store =
  ps_exec :: bool
  ps_query :: bool

definition DefaultGuildPolicy :: "string \<Rightarrow> guild_policy" where
  "DefaultGuildPolicy guildID =
     \<lparr>gp_guild_id = trim_space guildID, gp_personal_keys_mode = PersonalKeysOff,
      gp_tool_routing_mode = ToolRoutingOff\<rparr>"

definition ValidatePersonalKeysMode :: "personal_keys_mode \<Rightarrow> unit result" where
  "ValidatePersonalKeysMode mode =
     require (mode \<in> {PersonalKeysOff, PersonalKeysDMOnly, PersonalKeysGuildAllowed})
       ''unknown personal keys mode'' (Inr ())"

definition ValidateToolRoutingMode :: "tool_routing_mode \<Rightarrow> unit result" where
  "ValidateToolRoutingMode mode =
     require (mode \<in> {ToolRoutingOff, ToolRoutingDryRun, ToolRoutingEnabled})
       ''unknown tool routing mode'' (Inr ())"

definition select_policy :: "string \<Rightarrow> (policy_row list, string \<times> string) statement" where
  "select_policy g now rows =
     (case row_of gp_guild_id g rows of
        None \<Rightarrow> Inl ErrNoRows
      | Some r \<Rightarrow> Inr ((gp_personal_keys_mode r, gp_tool_routing_mode r), rows))"

definition get_policy :: "policy_store \<Rightarrow> string \<Rightarrow> policy_db \<Rightarrow> guild_policy result \<times> policy_db" where
  "get_policy s guildID0 db =
     (let guildID = trim_space guildID0; policy = DefaultGuildPolicy guildID in
      if guildID = [] then (Inl (Errorf ''guild ID is required''), db)
      else if \<not> ps_query s then (Inl (Errorf ''policy query database is required''), db)
      else case sql_exec (select_policy guildID) db of
          (Inl e, db') \<Rightarrow>
            if e = ErrNoRows then (Inr policy, db')
            else (Inl (Wrap ''query guild llm policy'' e), db')
        | (Inr (keys, routing), db') \<Rightarrow>
            (attempt (ValidatePersonalKeysMode keys) (\<lambda>_.
             attempt (ValidateToolRoutingMode routing) (\<lambda>_.
               Inr (policy\<lparr>gp_personal_keys_mode := keys, gp_tool_routing_mode := routing\<rparr>))), db'))"

definition upsert_policy :: "guild_policy_input \<Rightarrow> (policy_row list, unit) statement" where
  "upsert_policy i now rows =
     Inr ((), upsert gp_guild_id
       \<lparr>gp_guild_id = gp_guild_id i, gp_personal_keys_mode = gp_personal_keys_mode i,
        gp_tool_routing_mode = gp_tool_routing_mode i, gp_updated_by = gp_actor_user_id i,
        gp_updated_at = now\<rparr>
       (\<lambda>r. r\<lparr>gp_personal_keys_mode := gp_personal_keys_mode i,
          gp_tool_routing_mode := gp_tool_routing_mode i, gp_updated_by := gp_actor_user_id i,
          gp_updated_at := now\<rparr>) rows)"

definition SetGuildPolicy ::
  "policy_store \<Rightarrow> guild_policy_input \<Rightarrow> policy_db \<Rightarrow> unit result \<times> policy_db" where
  "SetGuildPolicy s input0 db =
     (let keys = trim_space (gp_personal_keys_mode input0);
          routing = trim_space (gp_tool_routing_mode input0);
          input = input0\<lparr>gp_guild_id := trim_space (gp_guild_id input0),
            gp_personal_keys_mode := (if keys = [] then PersonalKeysOff else keys),
            gp_tool_routing_mode := (if routing = [] then ToolRoutingOff else routing),
            gp_actor_user_id := trim_space (gp_actor_user_id input0)\<rparr>
      in if gp_guild_id input = [] then (Inl (Errorf ''guild ID is required''), db)
         else case attempt (ValidatePersonalKeysMode (gp_personal_keys_mode input))
             (\<lambda>_. ValidateToolRoutingMode (gp_tool_routing_mode input)) of
           Inl e \<Rightarrow> (Inl e, db)
         | Inr _ \<Rightarrow>
             if gp_actor_user_id input = [] then (Inl (Errorf ''actor user ID is required''), db)
             else if \<not> ps_exec s then (Inl (Errorf ''policy exec database is required''), db)
             else wrap_err ''upsert guild llm policy'' (sql_exec (upsert_policy input) db))"

subsection \<open>What a policy read returns\<close>

lemmas policy_defs = ValidatePersonalKeysMode_def ValidateToolRoutingMode_def

lemma get_policy_frame: "tables (snd (get_policy s g db)) = tables db"
proof -
  have "tables (snd (sql_exec (select_policy k) db)) = tables db" for k
    by (rule sql_query_frame) (auto simp: select_policy_def split: option.splits)
  then show ?thesis
    by (auto simp: get_policy_def Let_def split: prod.splits sum.splits) (metis snd_conv)+
qed

lemma get_policy_mode:
  "fst (get_policy s g db) = Inr p \<Longrightarrow>
     gp_tool_routing_mode p \<in> {ToolRoutingOff, ToolRoutingDryRun, ToolRoutingEnabled}"
  by (auto simp: get_policy_def Let_def DefaultGuildPolicy_def policy_defs
      split: if_splits prod.splits sum.splits)

text \<open>The policy the rows give a guild, and the row an upsert leaves.\<close>

definition policy_in :: "policy_row list \<Rightarrow> string \<Rightarrow> guild_policy result" where
  "policy_in rows g =
     (case row_of gp_guild_id g rows of
        None \<Rightarrow> Inr (DefaultGuildPolicy g)
      | Some r \<Rightarrow>
          attempt (ValidatePersonalKeysMode (gp_personal_keys_mode r)) (\<lambda>_.
          attempt (ValidateToolRoutingMode (gp_tool_routing_mode r)) (\<lambda>_.
            Inr \<lparr>gp_guild_id = g, gp_personal_keys_mode = gp_personal_keys_mode r,
              gp_tool_routing_mode = gp_tool_routing_mode r\<rparr>)))"

lemma get_policy_ok:
  assumes "faults db = []" "ps_query s" "trim_space g \<noteq> []"
  shows "fst (get_policy s g db) = policy_in (tables db) (trim_space g)"
  using assms
  by (simp add: get_policy_def Let_def policy_in_def select_policy_def DefaultGuildPolicy_def
      split: option.split)

lemma policy_in_upsert:
  assumes "upsert_policy i now rows = Inr (u, rows')"
    and "ValidatePersonalKeysMode (gp_personal_keys_mode i) = Inr ()"
      "ValidateToolRoutingMode (gp_tool_routing_mode i) = Inr ()"
  shows "policy_in rows' g =
    (if g = gp_guild_id i
     then Inr \<lparr>gp_guild_id = g, gp_personal_keys_mode = gp_personal_keys_mode i,
       gp_tool_routing_mode = gp_tool_routing_mode i\<rparr>
     else policy_in rows g)"
  using assms(2,3) assms(1) [symmetric]
  by (auto simp: policy_in_def upsert_policy_def row_of_upsert split: option.splits)

text \<open>
  A policy that was set is the policy that is read. After a successful \<^verbatim>\<open>SetGuildPolicy\<close> the
  guild's policy is the trimmed input with empty modes read as off, and the policies of the other
  guilds are unchanged; a guild without a row has both modes off.
\<close>

theorem set_policy_read_back:
  assumes "SetGuildPolicy s i db = (Inr (), db')" "faults db' = []" "ps_query s"
    and "trim_space g \<noteq> []"
  shows "fst (get_policy s g db') =
    (if trim_space g = trim_space (gp_guild_id i)
     then Inr \<lparr>gp_guild_id = trim_space g,
       gp_personal_keys_mode =
         (let m = trim_space (gp_personal_keys_mode i) in if m = [] then PersonalKeysOff else m),
       gp_tool_routing_mode =
         (let m = trim_space (gp_tool_routing_mode i) in if m = [] then ToolRoutingOff else m)\<rparr>
     else fst (get_policy s g (db'\<lparr>tables := tables db\<rparr>)))"
proof -
  define j where "j = i\<lparr>gp_guild_id := trim_space (gp_guild_id i),
    gp_personal_keys_mode := (let m = trim_space (gp_personal_keys_mode i) in if m = [] then PersonalKeysOff else m),
    gp_tool_routing_mode := (let m = trim_space (gp_tool_routing_mode i) in if m = [] then ToolRoutingOff else m),
    gp_actor_user_id := trim_space (gp_actor_user_id i)\<rparr>"
  have run: "sql_exec (upsert_policy j) db = (Inr (), db')"
    and valid: "ValidatePersonalKeysMode (gp_personal_keys_mode j) = Inr ()"
      "ValidateToolRoutingMode (gp_tool_routing_mode j) = Inr ()"
    using assms(1) by (auto simp: SetGuildPolicy_def Let_def j_def split: if_splits sum.splits)
  then have "policy_in (tables db') k =
      (if k = gp_guild_id j
       then Inr \<lparr>gp_guild_id = k, gp_personal_keys_mode = gp_personal_keys_mode j,
         gp_tool_routing_mode = gp_tool_routing_mode j\<rparr>
       else policy_in (tables db) k)" for k
    using sql_exec_Inr [OF run] by (intro policy_in_upsert [of j "clock db" _ "()"]) simp_all
  then show ?thesis
    using assms(2-4) by (simp add: get_policy_ok j_def Let_def)
qed

lemma set_policy_read_back_witness:
  "let i = \<lparr>gp_guild_id = '' g1'', gp_personal_keys_mode = [], gp_tool_routing_mode = ''enabled'',
         gp_actor_user_id = ''admin''\<rparr>;
       s = \<lparr>ps_exec = True, ps_query = True\<rparr>;
       db' = snd (SetGuildPolicy s i \<lparr>tables = [], clock = 5, faults = []\<rparr>)
   in fst (get_policy s ''g1'' db') = Inr \<lparr>gp_guild_id = ''g1'', gp_personal_keys_mode = ''off'',
        gp_tool_routing_mode = ''enabled''\<rparr>"
proof -
  define i where "i = \<lparr>gp_guild_id = '' g1'', gp_personal_keys_mode = [],
    gp_tool_routing_mode = ''enabled'', gp_actor_user_id = ''admin''\<rparr>"
  define s where "s = \<lparr>ps_exec = True, ps_query = True\<rparr>"
  define db where "db = \<lparr>tables = [] :: policy_row list, clock = 5, faults = []\<rparr>"
  have t: "trim_space '' g1'' = ''g1''"
    by (simp add: trim_space_def strip_seqs.simps head_seq_len_def white_space_runes_def)
  obtain db' where db': "SetGuildPolicy s i db = (Inr (), db')" "faults db' = []"
    by (simp add: SetGuildPolicy_def i_def s_def db_def t go_eval policy_defs upsert_policy_def)
  then have "fst (get_policy s ''g1'' db') = Inr \<lparr>gp_guild_id = ''g1'', gp_personal_keys_mode = ''off'',
      gp_tool_routing_mode = ''enabled''\<rparr>"
    using set_policy_read_back [OF db'(1) db'(2), of "''g1''"] by (simp add: s_def i_def t go_eval)
  then show ?thesis using db'(1) by (simp add: Let_def i_def s_def db_def)
qed

end
