(* ===== verification/AgentTypes.thy ===== *)
theory AgentTypes
  imports ContextBroker "HOL-Library.List_Lexorder" "HOL-Library.Char_ord"
begin

text \<open>
  The data of \<^verbatim>\<open>internal/agent\<close>: requests and responses (\<^verbatim>\<open>types.go\<close>), tools, their registry and
  plans (\<^verbatim>\<open>tools.go\<close>), the snapshots of earlier runs (\<^verbatim>\<open>followup.go\<close>) and the statuses of a run
  (\<^verbatim>\<open>run_store.go\<close>). An interface of the code is the function, or the record of functions, its
  implementation provides, over the state \<open>'w\<close> of the world; \<open>None\<close> is a nil interface. The
  request's \<^verbatim>\<open>TraceSink\<close> is an argument of the handler that reads it.
\<close>

type_synonym surface = string

abbreviation SurfaceDM :: surface where "SurfaceDM \<equiv> ''dm''"
abbreviation SurfaceGuildMention :: surface where "SurfaceGuildMention \<equiv> ''guild_mention''"

type_synonym visibility = string

abbreviation VisibilityPublic :: visibility where "VisibilityPublic \<equiv> ''public''"
abbreviation VisibilityPrivate :: visibility where "VisibilityPrivate \<equiv> ''private''"

type_synonym run_status = string

abbreviation RunStatusRunning :: run_status where "RunStatusRunning \<equiv> ''running''"
abbreviation RunStatusSucceeded :: run_status where "RunStatusSucceeded \<equiv> ''succeeded''"
abbreviation RunStatusFailed :: run_status where "RunStatusFailed \<equiv> ''failed''"
abbreviation RunStatusDenied :: run_status where "RunStatusDenied \<equiv> ''denied''"
abbreviation RunStatusDryRun :: run_status where "RunStatusDryRun \<equiv> ''dry_run''"
abbreviation RunStatusConfirmationRequired :: run_status where
  "RunStatusConfirmationRequired \<equiv> ''confirmation_required''"
abbreviation RunStatusCanceled :: run_status where "RunStatusCanceled \<equiv> ''canceled''"

type_synonym termination_reason = string

abbreviation TerminationCompleted :: termination_reason where "TerminationCompleted \<equiv> ''completed''"
abbreviation TerminationDryRun :: termination_reason where "TerminationDryRun \<equiv> ''dry_run''"
abbreviation TerminationCanceled :: termination_reason where "TerminationCanceled \<equiv> ''canceled''"
abbreviation TerminationIgnored :: termination_reason where "TerminationIgnored \<equiv> ''ignored''"
abbreviation TerminationRoutingPolicyFailed :: termination_reason where
  "TerminationRoutingPolicyFailed \<equiv> ''routing_policy_failed''"
abbreviation TerminationRoutingOff :: termination_reason where "TerminationRoutingOff \<equiv> ''routing_off''"
abbreviation TerminationPermissionDenied :: termination_reason where
  "TerminationPermissionDenied \<equiv> ''permission_denied''"
abbreviation TerminationPermissionFailed :: termination_reason where
  "TerminationPermissionFailed \<equiv> ''permission_check_failed''"
abbreviation TerminationPlannerFailed :: termination_reason where
  "TerminationPlannerFailed \<equiv> ''planner_failed''"
abbreviation TerminationClarify :: termination_reason where "TerminationClarify \<equiv> ''clarify''"
abbreviation TerminationConfirmationRequired :: termination_reason where
  "TerminationConfirmationRequired \<equiv> ''confirmation_required''"
abbreviation TerminationStepBudgetExceeded :: termination_reason where
  "TerminationStepBudgetExceeded \<equiv> ''step_budget_exceeded''"
abbreviation TerminationToolBudgetExceeded :: termination_reason where
  "TerminationToolBudgetExceeded \<equiv> ''tool_budget_exceeded''"
abbreviation TerminationExecutorFailed :: termination_reason where
  "TerminationExecutorFailed \<equiv> ''executor_failed''"
abbreviation TerminationLLMBudgetExceeded :: termination_reason where
  "TerminationLLMBudgetExceeded \<equiv> ''llm_budget_exceeded''"

subsection \<open>Tools and plans\<close>

type_synonym tool_kind = string

abbreviation ToolKindRead :: tool_kind where "ToolKindRead \<equiv> ''read''"
abbreviation ToolKindWrite :: tool_kind where "ToolKindWrite \<equiv> ''write''"

abbreviation IntentSummarizeRecentChat :: string where
  "IntentSummarizeRecentChat \<equiv> ''summarize_recent_chat''"

record tool_spec =
  sp_name :: string
  sp_description :: string
  sp_kind :: tool_kind
  sp_capability :: string

record tool_call =
  tc_name :: string
  tc_args :: gomap

text \<open>\<^verbatim>\<open>Data\<close> is an option since the code tells a nil map from an empty one.\<close>

record tool_result =
  tr_name :: string
  tr_summary :: string
  tr_data :: "gomap option"

record plan =
  pl_intent :: string
  pl_context_scopes :: "string list"
  pl_tool_calls :: "tool_call list"
  pl_clarifying_question :: string
  pl_requires_confirmation :: bool
  pl_trace :: gomap

subsection \<open>Requests, responses and snapshots\<close>

record run_snapshot =
  rn_run_id :: string
  rn_intent :: string
  rn_results :: "tool_result list"
  rn_response_text :: string
  rn_context_state :: session_state
  rn_created_at :: "gotime option"

record request =
  rq_surface :: surface
  rq_guild_id :: string
  rq_channel_id :: string
  rq_actor_user_id :: string
  rq_role_ids :: "string list"
  rq_has_administrator :: bool
  rq_context_scope :: string
  rq_text :: string
  rq_raw_text :: string
  rq_prior_run :: "run_snapshot option"
  rq_context_pack :: "pack option"

record response =
  rs_text :: string
  rs_visibility :: visibility
  rs_run_id :: string
  rs_confirmation_id :: string
  rs_run_status :: run_status
  rs_termination_reason :: termination_reason
  rs_trace :: gomap

definition empty_response :: response where
  "empty_response = \<lparr>rs_text = [], rs_visibility = [], rs_run_id = [], rs_confirmation_id = [],
     rs_run_status = [], rs_termination_reason = [], rs_trace = []\<rparr>"

abbreviation text_response :: "string \<Rightarrow> response" where
  "text_response t \<equiv> empty_response\<lparr>rs_text := t\<rparr>"

definition copyToolResult :: "tool_result \<Rightarrow> tool_result" where
  "copyToolResult r =
     \<lparr>tr_name = trim_space (tr_name r), tr_summary = trim_space (tr_summary r), tr_data = tr_data r\<rparr>"

definition copyContextState :: "session_state \<Rightarrow> session_state" where
  "copyContextState state = mput_all
     (filter (\<lambda>(k, v). k \<noteq> [] \<and> v \<noteq> []) (map (\<lambda>(k, v). (trim_space k, trim_space v)) state)) []"

definition copyContextPack :: "pack \<Rightarrow> pack" where
  "copyContextPack p = p\<lparr>pk_next_state := copyContextState (pk_next_state p)\<rparr>"

definition copy_snapshot :: "run_snapshot \<Rightarrow> run_snapshot" where
  "copy_snapshot s =
     \<lparr>rn_run_id = trim_space (rn_run_id s), rn_intent = trim_space (rn_intent s),
      rn_results = map copyToolResult (rn_results s),
      rn_response_text = trim_space (rn_response_text s),
      rn_context_state = copyContextState (rn_context_state s), rn_created_at = rn_created_at s\<rparr>"

definition copyStringMap :: "gomap \<Rightarrow> gomap" where
  "copyStringMap values = mput_all values []"

definition NormalizeRequest :: "request \<Rightarrow> request" where
  "NormalizeRequest r = r\<lparr>
     rq_surface := trim_space (rq_surface r), rq_guild_id := trim_space (rq_guild_id r),
     rq_channel_id := trim_space (rq_channel_id r),
     rq_actor_user_id := trim_space (rq_actor_user_id r),
     rq_context_scope := trim_space (rq_context_scope r), rq_text := trim_space (rq_text r),
     rq_raw_text := trim_space (rq_raw_text r),
     rq_prior_run := map_option copy_snapshot (rq_prior_run r),
     rq_context_pack := map_option copyContextPack (rq_context_pack r)\<rparr>"

definition NormalizeResponse :: "response \<Rightarrow> response" where
  "NormalizeResponse r = r\<lparr>
     rs_text := trim_space (rs_text r), rs_visibility := trim_space (rs_visibility r),
     rs_run_id := trim_space (rs_run_id r),
     rs_confirmation_id := trim_space (rs_confirmation_id r),
     rs_trace := copyStringMap (rs_trace r)\<rparr>"

subsection \<open>The handlers of a runtime\<close>

type_synonym 'w handler = "request \<Rightarrow> 'w \<Rightarrow> (response \<times> bool \<times> goerror option) \<times> 'w"

record 'w runtime =
  rt_handlers :: "'w handler option list"
  rt_fallback :: "'w handler option"

fun run_handlers ::
  "'w handler option list \<Rightarrow> 'w handler option \<Rightarrow> request \<Rightarrow> 'w \<Rightarrow> (response \<times> goerror option) \<times> 'w"
where
  "run_handlers (None # hs) fb r w = run_handlers hs fb r w"
| "run_handlers (Some h # hs) fb r w =
     (case h r w of ((response, handled, err), w') \<Rightarrow>
        if err \<noteq> None \<or> handled then ((NormalizeResponse response, err), w')
        else run_handlers hs fb r w')"
| "run_handlers [] None r w = ((empty_response, None), w)"
| "run_handlers [] (Some h) r w =
     (case h r w of ((response, handled, err), w') \<Rightarrow> ((NormalizeResponse response, err), w'))"

definition Runtime_Run :: "'w runtime \<Rightarrow> request \<Rightarrow> 'w \<Rightarrow> (response \<times> goerror option) \<times> 'w" where
  "Runtime_Run rt r w = run_handlers (rt_handlers rt) (rt_fallback rt) (NormalizeRequest r) w"

subsection \<open>The registry of tools\<close>

record 'w tool =
  tl_spec :: tool_spec
  tl_execute :: "request \<Rightarrow> tool_call \<Rightarrow> 'w \<Rightarrow> tool_result result \<times> 'w"

type_synonym 'w registry = "(string \<times> 'w tool) list"

definition NormalizeToolSpec :: "tool_spec \<Rightarrow> tool_spec" where
  "NormalizeToolSpec s =
     (let k = trim_space (sp_kind s) in
      \<lparr>sp_name = trim_space (sp_name s), sp_description = trim_space (sp_description s),
       sp_kind = (if k = [] then ToolKindRead
                  else if k = ToolKindRead \<or> k = ToolKindWrite then k else ToolKindRead),
       sp_capability = trim_space (sp_capability s)\<rparr>)"

definition Register :: "'w tool option \<Rightarrow> 'w registry \<Rightarrow> 'w registry" where
  "Register tool r =
     (case tool of None \<Rightarrow> r
      | Some t \<Rightarrow>
          let spec = NormalizeToolSpec (tl_spec t) in
          if sp_name spec = [] then r else mput (sp_name spec) t r)"

definition NewRegistry :: "'w tool option list \<Rightarrow> 'w registry" where
  "NewRegistry tools = fold Register tools []"

definition Specs :: "'w registry \<Rightarrow> tool_spec list" where
  "Specs r = sort_key sp_name (map (\<lambda>(n, t). NormalizeToolSpec (tl_spec t)) r)"

definition Lookup :: "'w registry \<Rightarrow> string \<Rightarrow> ('w tool \<times> tool_spec) result" where
  "Lookup r name0 =
     (let name = trim_space name0 in
      if name = [] then Inl (Errorf ''tool name is required'')
      else case map_of r name of
          None \<Rightarrow> Inl (Errorf ''unknown tool %q'')
        | Some t \<Rightarrow> Inr (t, NormalizeToolSpec (tl_spec t)))"

definition Registry_Execute ::
  "'w registry \<Rightarrow> request \<Rightarrow> tool_call \<Rightarrow> 'w \<Rightarrow> tool_result result \<times> 'w" where
  "Registry_Execute r req call w =
     (case Lookup r (tc_name call) of
        Inl e \<Rightarrow> (Inl e, w)
      | Inr (t, spec) \<Rightarrow> tl_execute t req (call\<lparr>tc_name := sp_name spec\<rparr>) w)"

subsection \<open>Normal forms\<close>

lemma NormalizeToolSpec_idem [simp]: "NormalizeToolSpec (NormalizeToolSpec s) = NormalizeToolSpec s"
  by (simp add: NormalizeToolSpec_def Let_def go_eval)

lemma NormalizeToolSpec_kind: "sp_kind (NormalizeToolSpec s) \<in> {ToolKindRead, ToolKindWrite}"
  by (simp add: NormalizeToolSpec_def Let_def)

text \<open>Every entry of a registry is filed under the normalised name of its tool.\<close>

definition wf_registry :: "'w registry \<Rightarrow> bool" where
  "wf_registry r \<longleftrightarrow> wf_map r \<and> (\<forall>(n, t)\<in>set r. n = sp_name (NormalizeToolSpec (tl_spec t)) \<and> n \<noteq> [])"

lemma wf_Register: "wf_registry r \<Longrightarrow> wf_registry (Register t r)"
proof -
  have "set (mput k t m) \<subseteq> insert (k, t) (set m)" for k and t :: "'w tool" and m
    by (induction m) auto
  then show "wf_registry r \<Longrightarrow> wf_registry (Register t r)"
    by (fastforce simp: wf_registry_def Register_def distinct_update Let_def split: option.splits)
qed

lemma wf_NewRegistry: "wf_registry (NewRegistry tools)"
proof -
  have "wf_registry r \<Longrightarrow> wf_registry (fold Register tools r)" for r :: "'a registry"
    by (induction tools arbitrary: r) (simp_all add: wf_Register)
  from this [of "[]"] show ?thesis by (simp add: NewRegistry_def wf_registry_def)
qed

lemma Lookup_Inr:
  "Lookup r n = Inr (t, spec) \<Longrightarrow>
     map_of r (trim_space n) = Some t \<and> spec = NormalizeToolSpec (tl_spec t) \<and> trim_space n \<noteq> []"
  by (auto simp: Lookup_def Let_def split: if_splits option.splits)

lemma Lookup_name: "wf_registry r \<Longrightarrow> Lookup r n = Inr (t, spec) \<Longrightarrow> sp_name spec = trim_space n"
  using Lookup_Inr [of r n t spec] map_of_SomeD [of r "trim_space n" t]
  by (fastforce simp: wf_registry_def)

lemma Lookup_kind: "Lookup r n = Inr (t, spec) \<Longrightarrow> sp_kind spec \<in> {ToolKindRead, ToolKindWrite}"
  using Lookup_Inr NormalizeToolSpec_kind by metis

text \<open>The specs shown to a planner are those of the registry, in strictly increasing order of name.\<close>

lemma sorted_Specs: "sorted (map sp_name (Specs r))"
  by (simp add: Specs_def)

lemma set_Specs: "set (Specs r) = (\<lambda>(n, t). NormalizeToolSpec (tl_spec t)) ` set r"
  by (simp add: Specs_def)

lemma distinct_Specs:
  assumes "wf_registry r"
  shows "distinct (map sp_name (Specs r))"
proof -
  have names: "map (sp_name \<circ> (\<lambda>(n, t). NormalizeToolSpec (tl_spec t))) r = map fst r"
    using assms by (auto simp: wf_registry_def)
  have "mset (map sp_name (Specs r)) =
      mset (map (sp_name \<circ> (\<lambda>(n, t). NormalizeToolSpec (tl_spec t))) r)"
    by (simp only: Specs_def mset_map mset_sort image_mset.compositionality map_map o_def)
  then have "mset (map sp_name (Specs r)) = mset (map fst r)"
    by (simp only: names)
  then have "distinct (map sp_name (Specs r)) \<longleftrightarrow> wf_map r"
    by (rule mset_eq_imp_distinct_iff)
  then show ?thesis using assms by (simp add: wf_registry_def)
qed

text \<open>
  A planner can call exactly the tools it is shown. For every list of tools the specs of the
  registry come in strictly increasing order of their names, and a name is found, with the spec shown,
  exactly when (trimmed) it is the name of one of these specs.
\<close>

theorem specs_are_the_tools:
  "sorted_wrt (<) (map sp_name (Specs (NewRegistry tools))) \<and>
   ((\<exists>t. Lookup (NewRegistry tools) n = Inr (t, spec)) \<longleftrightarrow>
      spec \<in> set (Specs (NewRegistry tools)) \<and> sp_name spec = trim_space n)"
proof
  let ?r = "NewRegistry tools"
  note wf = wf_NewRegistry [of tools]
  show "sorted_wrt (<) (map sp_name (Specs ?r))"
    using sorted_Specs distinct_Specs [OF wf] by (simp add: strict_sorted_iff)
  show "(\<exists>t. Lookup ?r n = Inr (t, spec)) \<longleftrightarrow> spec \<in> set (Specs ?r) \<and> sp_name spec = trim_space n"
  proof
    assume "\<exists>t. Lookup ?r n = Inr (t, spec)"
    then show "spec \<in> set (Specs ?r) \<and> sp_name spec = trim_space n"
      using Lookup_Inr Lookup_name [OF wf] map_of_SomeD by (fastforce simp: set_Specs)
  next
    assume "spec \<in> set (Specs ?r) \<and> sp_name spec = trim_space n"
    then obtain t where "(trim_space n, t) \<in> set ?r" "spec = NormalizeToolSpec (tl_spec t)"
      "trim_space n \<noteq> []"
      using wf by (auto simp: set_Specs wf_registry_def)
    then have "map_of ?r (trim_space n) = Some t"
      using wf by (simp add: wf_registry_def)
    then show "\<exists>t. Lookup ?r n = Inr (t, spec)"
      using \<open>spec = _\<close> \<open>trim_space n \<noteq> []\<close> by (simp add: Lookup_def Let_def)
  qed
qed

end
