(* ===== verification/RunStore.thy ===== *)
theory RunStore
  imports AgentTypes AuditLog SqlTables
begin

text \<open>
  \<^verbatim>\<open>internal/agent/run_store.go\<close>: the runs of the agent, their steps and the confirmations they wait
  for, in the tables of migration \<^verbatim>\<open>000009\<close>. The ids of runs and confirmations are primary keys, a step
  belongs to an existing run and has its index in the run to itself, the statuses are checked. A
  \<^verbatim>\<open>jsonb\<close> column holds the map \<^verbatim>\<open>json.Marshal\<close> writes: each invalid byte of a string becomes U+FFFD.
\<close>

type_synonym confirmation_status = string

abbreviation ConfirmationStatusPending :: confirmation_status where
  "ConfirmationStatusPending \<equiv> ''pending''"
abbreviation ConfirmationStatusConfirmed :: confirmation_status where
  "ConfirmationStatusConfirmed \<equiv> ''confirmed''"
abbreviation ConfirmationStatusCanceled :: confirmation_status where
  "ConfirmationStatusCanceled \<equiv> ''canceled''"
abbreviation ConfirmationStatusExpired :: confirmation_status where
  "ConfirmationStatusExpired \<equiv> ''expired''"

record run_record =
  ru_id :: string
  ru_guild_id :: string
  ru_channel_id :: string
  ru_actor_user_id :: string
  ru_surface :: surface
  ru_context_scope :: string
  ru_status :: run_status
  ru_max_steps :: int
  ru_max_tool_calls :: int
  ru_max_llm_calls :: int
  ru_max_input_tokens :: int
  ru_max_output_tokens :: int

record step_record =
  st_run_id :: string
  st_step_index :: int
  st_kind :: string
  st_status :: audit_status
  st_reason :: string
  st_observation :: gomap

record confirmation_record =
  co_id :: string
  co_run_id :: string
  co_step_index :: int
  co_status :: confirmation_status
  co_tool_name :: string
  co_payload :: gomap
  co_created_by :: string
  co_resolved_by :: string
  co_expires_at :: "gotime option"

text \<open>The \<^verbatim>\<open>RunStore\<close> interface.\<close>

record 'w run_store =
  StartRun :: "run_record \<Rightarrow> 'w \<Rightarrow> unit result \<times> 'w"
  CompleteRun :: "string \<Rightarrow> run_status \<Rightarrow> termination_reason \<Rightarrow> 'w \<Rightarrow> unit result \<times> 'w"
  RecordStep :: "step_record \<Rightarrow> 'w \<Rightarrow> unit result \<times> 'w"
  IsRunCanceled :: "string \<Rightarrow> 'w \<Rightarrow> bool result \<times> 'w"
  RequestCancelRun :: "string \<Rightarrow> string \<Rightarrow> 'w \<Rightarrow> unit result \<times> 'w"
  CreateConfirmation :: "confirmation_record \<Rightarrow> 'w \<Rightarrow> unit result \<times> 'w"
  PendingConfirmation :: "string \<Rightarrow> 'w \<Rightarrow> confirmation_record option result \<times> 'w"
  ResolveConfirmation :: "string \<Rightarrow> confirmation_status \<Rightarrow> string \<Rightarrow> 'w \<Rightarrow> unit result \<times> 'w"

subsection \<open>Values written to the trace\<close>

definition safeAuditValue :: "string \<Rightarrow> string" where
  "safeAuditValue value =
     take 120 (map (\<lambda>c. if c = CHR 0x0A \<or> c = CHR 0x0D then CHR '' ''
                        else if c = CHR 0x60 then CHR 0x27 else c) (trim_space value))"

definition sanitizeStepObservation :: "gomap \<Rightarrow> gomap" where
  "sanitizeStepObservation observation =
     mput_all (filter (\<lambda>(k, v). k \<noteq> [])
       (map (\<lambda>(k, v). (safeAuditValue k, safeAuditValue v)) (SanitizeMetadata observation))) []"

subsection \<open>The tables\<close>

record run_row = run_record +
  ru_termination_reason :: "string option"
  ru_steps_used :: nat
  ru_tool_calls_used :: nat
  ru_llm_calls_used :: nat
  ru_cancel_requested_at :: "gotime option"
  ru_cancel_requested_by :: "string option"
  ru_canceled_at :: "gotime option"
  ru_completed_at :: "gotime option"
  ru_updated_at :: gotime

record confirmation_row = confirmation_record +
  co_confirmed_at :: "gotime option"
  co_canceled_at :: "gotime option"
  co_created_at :: gotime

record run_tables =
  runs :: "run_row list"
  run_steps :: "step_record list"
  confirmations :: "confirmation_row list"

type_synonym run_db = "run_tables sqldb"

text \<open>\<^verbatim>\<open>SQLRunStore\<close>: whether its database executes statements and answers queries.\<close>

record sql_run_store =
  sq_exec :: bool
  sq_query :: bool

definition run_status_check :: "run_status \<Rightarrow> bool" where
  "run_status_check s \<longleftrightarrow>
     s \<in> {RunStatusRunning, RunStatusSucceeded, RunStatusFailed, RunStatusDenied, RunStatusDryRun,
          RunStatusConfirmationRequired, RunStatusCanceled}"

definition cancel_marked :: "run_row \<Rightarrow> bool" where
  "cancel_marked r \<longleftrightarrow> ru_status r = RunStatusCanceled \<or> ru_cancel_requested_at r \<noteq> None"

definition fresh_run_row :: "run_record \<Rightarrow> gotime \<Rightarrow> run_row" where
  "fresh_run_row r now =
     \<lparr>ru_id = ru_id r, ru_guild_id = trim_space (ru_guild_id r),
      ru_channel_id = trim_space (ru_channel_id r),
      ru_actor_user_id = trim_space (ru_actor_user_id r), ru_surface = ru_surface r,
      ru_context_scope = trim_space (ru_context_scope r), ru_status = ru_status r,
      ru_max_steps = ru_max_steps r, ru_max_tool_calls = ru_max_tool_calls r,
      ru_max_llm_calls = ru_max_llm_calls r, ru_max_input_tokens = ru_max_input_tokens r,
      ru_max_output_tokens = ru_max_output_tokens r, ru_termination_reason = None,
      ru_steps_used = 0, ru_tool_calls_used = 0, ru_llm_calls_used = 0,
      ru_cancel_requested_at = None, ru_cancel_requested_by = None, ru_canceled_at = None,
      ru_completed_at = None, ru_updated_at = now\<rparr>"

definition insert_run :: "run_record \<Rightarrow> (run_tables, unit) statement" where
  "insert_run r now t =
     (if \<not> run_status_check (ru_status r) then Inl (Errorf ''agent_runs_status_check'')
      else Inr ((), t\<lparr>runs := upsert ru_id (fresh_run_row r now)
        (\<lambda>old. if cancel_marked old then old\<lparr>ru_updated_at := now\<rparr>
               else old\<lparr>ru_status := ru_status r, ru_termination_reason := None,
                 ru_completed_at := None, ru_updated_at := now\<rparr>) (runs t)\<rparr>))"

definition sql_StartRun :: "sql_run_store \<Rightarrow> run_record \<Rightarrow> run_db \<Rightarrow> unit result \<times> run_db" where
  "sql_StartRun s record0 db =
     (let rec = record0\<lparr>ru_id := trim_space (ru_id record0)\<rparr> in
      if ru_id rec = [] then (Inl (Errorf ''agent run ID is required''), db)
      else if \<not> sq_exec s then (Inl (Errorf ''agent run exec database is required''), db)
      else wrap_err ''start agent run''
        (sql_exec (insert_run
          (rec\<lparr>ru_status := (if ru_status rec = [] then RunStatusRunning else ru_status rec)\<rparr>)) db))"

definition select_run :: "string \<Rightarrow> (run_tables, run_row) statement" where
  "select_run i now t =
     (case row_of ru_id i (runs t) of None \<Rightarrow> Inl ErrNoRows | Some r \<Rightarrow> Inr (r, t))"

definition sql_LoadRun :: "sql_run_store \<Rightarrow> string \<Rightarrow> run_db \<Rightarrow> run_record option result \<times> run_db" where
  "sql_LoadRun s runID0 db =
     (let runID = trim_space runID0 in
      if runID = [] \<or> \<not> sq_query s then (Inr None, db)
      else case sql_exec (select_run runID) db of
          (Inl e, db') \<Rightarrow> (if e = ErrNoRows then Inr None else Inl (Wrap ''load agent run'' e), db')
        | (Inr r, db') \<Rightarrow> (Inr (Some (run_record.truncate r)), db'))"

definition complete_run ::
  "string \<Rightarrow> run_status \<Rightarrow> termination_reason \<Rightarrow> (run_tables, unit) statement" where
  "complete_run i status reason now t =
     (if (\<exists>r\<in>set (runs t). ru_id r = i \<and> \<not> cancel_marked r) \<and> \<not> run_status_check status
      then Inl (Errorf ''agent_runs_status_check'')
      else Inr ((), t\<lparr>runs := update_where (\<lambda>r. ru_id r = i)
        (\<lambda>r. r\<lparr>ru_status := (if cancel_marked r then RunStatusCanceled else status),
              ru_termination_reason := Some (if cancel_marked r then TerminationCanceled else reason),
              ru_completed_at := Some now,
              ru_canceled_at := (if status = RunStatusCanceled \<or> ru_cancel_requested_at r \<noteq> None
                then Some now else ru_canceled_at r),
              ru_updated_at := now\<rparr>) (runs t)\<rparr>))"

definition sql_CompleteRun ::
  "sql_run_store \<Rightarrow> string \<Rightarrow> run_status \<Rightarrow> termination_reason \<Rightarrow> run_db \<Rightarrow> unit result \<times> run_db" where
  "sql_CompleteRun s runID0 status reason db =
     (let runID = trim_space runID0 in
      if runID = [] then (Inl (Errorf ''agent run ID is required''), db)
      else if \<not> sq_exec s then (Inl (Errorf ''agent run exec database is required''), db)
      else wrap_err ''complete agent run'' (sql_exec (complete_run runID status reason) db))"

definition insert_step :: "step_record \<Rightarrow> (run_tables, unit) statement" where
  "insert_step st now t =
     (if st_run_id st \<notin> ru_id ` set (runs t) then Inl (Errorf ''run is not present'')
      else if (st_run_id st, st_step_index st) \<in> (\<lambda>s. (st_run_id s, st_step_index s)) ` set (run_steps t)
      then Inl (Errorf ''agent_run_steps_run_step_idx'')
      else Inr ((), t\<lparr>run_steps := run_steps t @ [st],
        runs := update_where (\<lambda>r. ru_id r = st_run_id st)
          (\<lambda>r. r\<lparr>ru_steps_used := ru_steps_used r + 1,
            ru_tool_calls_used := ru_tool_calls_used r + (if st_kind st = ''agent.tool'' then 1 else 0),
            ru_llm_calls_used := ru_llm_calls_used r +
              (if st_kind st \<in> {''agent.plan'', ''agent.answer''} then 1 else 0),
            ru_updated_at := now\<rparr>) (runs t)\<rparr>))"

definition sql_RecordStep :: "sql_run_store \<Rightarrow> step_record \<Rightarrow> run_db \<Rightarrow> unit result \<times> run_db" where
  "sql_RecordStep s record0 db =
     (let rec = record0\<lparr>st_run_id := trim_space (st_run_id record0)\<rparr> in
      if st_run_id rec = [] then (Inl (Errorf ''agent run ID is required''), db)
      else if \<not> sq_exec s then (Inl (Errorf ''agent run exec database is required''), db)
      else wrap_err ''record agent run step''
        (sql_exec (insert_step (rec\<lparr>st_kind := trim_space (st_kind rec),
          st_reason := trim_space (st_reason rec),
          st_observation := jsonb (sanitizeStepObservation (st_observation rec))\<rparr>)) db))"

definition sql_IsRunCanceled :: "sql_run_store \<Rightarrow> string \<Rightarrow> run_db \<Rightarrow> bool result \<times> run_db" where
  "sql_IsRunCanceled s runID0 db =
     (let runID = trim_space runID0 in
      if runID = [] \<or> \<not> sq_query s then (Inr False, db)
      else case sql_exec (select_run runID) db of
          (Inl e, db') \<Rightarrow>
            (if e = ErrNoRows then Inr False else Inl (Wrap ''check agent run cancellation'' e), db')
        | (Inr r, db') \<Rightarrow> (Inr (ru_status r = RunStatusCanceled \<or> ru_cancel_requested_at r \<noteq> None), db'))"

text \<open>The statement of \<^verbatim>\<open>RequestCancelRun\<close>, and the number of rows it affects.\<close>

definition cancelable :: "string \<Rightarrow> run_row \<Rightarrow> bool" where
  "cancelable i r \<longleftrightarrow> ru_id r = i \<and> ru_status r = RunStatusRunning \<and> ru_completed_at r = None \<and>
     ru_cancel_requested_at r = None"

definition request_cancel :: "string \<Rightarrow> string \<Rightarrow> (run_tables, nat) statement" where
  "request_cancel i actor now t =
     Inr (count_where (cancelable i) (runs t),
       t\<lparr>runs := update_where (cancelable i)
         (\<lambda>r. r\<lparr>ru_cancel_requested_at := Some now, ru_cancel_requested_by := Some actor,
               ru_updated_at := now\<rparr>) (runs t)\<rparr>)"

definition sql_RequestCancelRun ::
  "sql_run_store \<Rightarrow> string \<Rightarrow> string \<Rightarrow> run_db \<Rightarrow> unit result \<times> run_db" where
  "sql_RequestCancelRun s runID0 actorID0 db =
     (let runID = trim_space runID0; actorID = trim_space actorID0 in
      if runID = [] then (Inl (Errorf ''agent run ID is required''), db)
      else if \<not> sq_exec s then (Inl (Errorf ''agent run exec database is required''), db)
      else case sql_exec (request_cancel runID actorID) db of
          (Inl e, db') \<Rightarrow> (Inl (Wrap ''request cancel agent run'' e), db')
        | (Inr rows, db') \<Rightarrow> (if rows = 0 then Inl ErrNoRows else Inr (), db'))"

definition insert_confirmation :: "confirmation_record \<Rightarrow> (run_tables, unit) statement" where
  "insert_confirmation c now t =
     (if co_status c \<notin> {ConfirmationStatusPending, ConfirmationStatusConfirmed,
           ConfirmationStatusCanceled, ConfirmationStatusExpired}
      then Inl (Errorf ''agent_run_confirmations_status_check'')
      else if co_id c \<in> co_id ` set (confirmations t) then Inl (Errorf ''duplicate key'')
      else if co_run_id c \<notin> ru_id ` set (runs t) then Inl (Errorf ''run is not present'')
      else Inr ((), t\<lparr>confirmations := confirmations t @
        [confirmation_record.extend (c\<lparr>co_resolved_by := []\<rparr>)
          \<lparr>co_confirmed_at = None, co_canceled_at = None, co_created_at = now\<rparr>]\<rparr>))"

definition sql_CreateConfirmation ::
  "sql_run_store \<Rightarrow> confirmation_record \<Rightarrow> run_db \<Rightarrow> unit result \<times> run_db" where
  "sql_CreateConfirmation s record0 db =
     (let rec = record0\<lparr>co_id := trim_space (co_id record0), co_run_id := trim_space (co_run_id record0)\<rparr> in
      if co_id rec = [] then (Inl (Errorf ''agent confirmation ID is required''), db)
      else if co_run_id rec = [] then (Inl (Errorf ''agent run ID is required''), db)
      else if \<not> sq_exec s then (Inl (Errorf ''agent run exec database is required''), db)
      else wrap_err ''create agent confirmation''
        (sql_exec (insert_confirmation
          (rec\<lparr>co_status := (if co_status rec = [] then ConfirmationStatusPending else co_status rec),
            co_tool_name := trim_space (co_tool_name rec),
            co_payload := jsonb (sanitizeStepObservation (co_payload rec)),
            co_created_by := trim_space (co_created_by rec)\<rparr>)) db))"

text \<open>\<^verbatim>\<open>order by created_at desc limit 1\<close>; of rows created at one instant the model takes the first.\<close>

definition select_pending :: "string \<Rightarrow> (run_tables, confirmation_row) statement" where
  "select_pending runID now t =
     (case sort_key (\<lambda>c. - co_created_at c)
         (filter (\<lambda>c. co_run_id c = runID \<and> co_status c = ConfirmationStatusPending) (confirmations t)) of
        [] \<Rightarrow> Inl ErrNoRows
      | c # _ \<Rightarrow> Inr (c, t))"

definition sql_PendingConfirmation ::
  "sql_run_store \<Rightarrow> string \<Rightarrow> run_db \<Rightarrow> confirmation_record option result \<times> run_db" where
  "sql_PendingConfirmation s runID0 db =
     (let runID = trim_space runID0 in
      if runID = [] \<or> \<not> sq_query s then (Inr None, db)
      else case sql_exec (select_pending runID) db of
          (Inl e, db') \<Rightarrow>
            (if e = ErrNoRows then Inr None else Inl (Wrap ''load pending agent confirmation'' e), db')
        | (Inr c, db') \<Rightarrow> (Inr (Some ((confirmation_record.truncate c)\<lparr>co_expires_at := None\<rparr>)), db'))"

definition resolve_confirmation ::
  "string \<Rightarrow> confirmation_status \<Rightarrow> string \<Rightarrow> (run_tables, nat) statement" where
  "resolve_confirmation i status actor now t =
     (let P = (\<lambda>c. co_id c = i \<and> co_status c = ConfirmationStatusPending) in
      Inr (count_where P (confirmations t),
        t\<lparr>confirmations := update_where P
          (\<lambda>c. c\<lparr>co_status := status, co_resolved_by := actor,
             co_confirmed_at := (if status = ConfirmationStatusConfirmed then Some now else co_confirmed_at c),
             co_canceled_at := (if status = ConfirmationStatusCanceled then Some now else co_canceled_at c)\<rparr>)
          (confirmations t)\<rparr>))"

definition sql_ResolveConfirmation ::
  "sql_run_store \<Rightarrow> string \<Rightarrow> confirmation_status \<Rightarrow> string \<Rightarrow> run_db \<Rightarrow> unit result \<times> run_db" where
  "sql_ResolveConfirmation s confirmationID0 status actorID0 db =
     (let confirmationID = trim_space confirmationID0; actorID = trim_space actorID0 in
      if confirmationID = [] then (Inl (Errorf ''agent confirmation ID is required''), db)
      else if status \<notin> {ConfirmationStatusConfirmed, ConfirmationStatusCanceled, ConfirmationStatusExpired}
      then (Inl (Errorf ''unsupported agent confirmation status''), db)
      else if \<not> sq_exec s then (Inl (Errorf ''agent run exec database is required''), db)
      else case sql_exec (resolve_confirmation confirmationID status actorID) db of
          (Inl e, db') \<Rightarrow> (Inl (Wrap ''resolve agent confirmation'' e), db')
        | (Inr rows, db') \<Rightarrow> (if rows = 0 then Inl ErrNoRows else Inr (), db'))"

definition SQLRunStore :: "sql_run_store \<Rightarrow> run_db run_store" where
  "SQLRunStore s = \<lparr>StartRun = sql_StartRun s, CompleteRun = sql_CompleteRun s,
     RecordStep = sql_RecordStep s, IsRunCanceled = sql_IsRunCanceled s,
     RequestCancelRun = sql_RequestCancelRun s, CreateConfirmation = sql_CreateConfirmation s,
     PendingConfirmation = sql_PendingConfirmation s, ResolveConfirmation = sql_ResolveConfirmation s\<rparr>"

subsection \<open>The store as a state machine\<close>

text \<open>One operation of a store, with any arguments and any outcome.\<close>

inductive store_step :: "'w run_store \<Rightarrow> 'w \<Rightarrow> 'w \<Rightarrow> bool" for s where
  start: "StartRun s rec w = (x, w') \<Longrightarrow> store_step s w w'"
| complete: "CompleteRun s i status reason w = (x, w') \<Longrightarrow> store_step s w w'"
| record_step: "RecordStep s st w = (x, w') \<Longrightarrow> store_step s w w'"
| check: "IsRunCanceled s i w = (b, w') \<Longrightarrow> store_step s w w'"
| cancel: "RequestCancelRun s i actor w = (x, w') \<Longrightarrow> store_step s w w'"
| create: "CreateConfirmation s c w = (x, w') \<Longrightarrow> store_step s w w'"
| pending: "PendingConfirmation s i w = (p, w') \<Longrightarrow> store_step s w w'"
| resolve: "ResolveConfirmation s ci cs actor w = (x, w') \<Longrightarrow> store_step s w w'"

text \<open>
  The contract the runner relies on for cancellation: a cancelled run stays cancelled under every
  operation, and the check answers exactly whether it is.
\<close>

locale cancel_store =
  fixes store :: "'w run_store"
    and cancelled :: "'w \<Rightarrow> string \<Rightarrow> bool"
  assumes sticky: "store_step store w w' \<Longrightarrow> cancelled w i \<Longrightarrow> cancelled w' i"
    and exact: "IsRunCanceled store i w = (Inr b, w') \<Longrightarrow> trim_space i \<noteq> [] \<Longrightarrow>
      b \<longleftrightarrow> cancelled w (trim_space i)"
begin

lemma steps_sticky: "(store_step store)\<^sup>*\<^sup>* w w' \<Longrightarrow> cancelled w i \<Longrightarrow> cancelled w' i"
  by (induction rule: rtranclp_induct) (auto intro: sticky)

lemma check_after:
  assumes "(store_step store)\<^sup>*\<^sup>* w w'" "cancelled w (trim_space i)" "trim_space i \<noteq> []"
    and "IsRunCanceled store i w' = (Inr b, w'')"
  shows b
  using assms steps_sticky exact by blast

end

text \<open>The writes of the SQL store on the tables.\<close>

inductive table_step :: "run_tables \<Rightarrow> run_tables \<Rightarrow> bool" where
  idle: "table_step t t"
| ins_run: "insert_run rec now t = Inr (u, t') \<Longrightarrow> table_step t t'"
| complete: "complete_run i status reason now t = Inr (u, t') \<Longrightarrow> table_step t t'"
| ins_step: "insert_step st now t = Inr (u, t') \<Longrightarrow> table_step t t'"
| cancel: "request_cancel i actor now t = Inr (n, t') \<Longrightarrow> table_step t t'"
| ins_conf: "insert_confirmation c now t = Inr (u, t') \<Longrightarrow> table_step t t'"
| resolve: "resolve_confirmation ci cs actor now t = Inr (n, t') \<Longrightarrow>
    cs \<in> {ConfirmationStatusConfirmed, ConfirmationStatusCanceled, ConfirmationStatusExpired} \<Longrightarrow>
    table_step t t'"

lemma select_run_frame: "sql_exec (select_run i) db = (x, db') \<Longrightarrow> tables db' = tables db"
  by (erule sql_query_tables) (auto simp: select_run_def split: option.splits)

lemma select_pending_frame: "sql_exec (select_pending i) db = (x, db') \<Longrightarrow> tables db' = tables db"
  by (erule sql_query_tables) (auto simp: select_pending_def split: list.splits)

lemmas sql_store_defs = SQLRunStore_def sql_StartRun_def sql_CompleteRun_def sql_RecordStep_def
  sql_IsRunCanceled_def sql_RequestCancelRun_def sql_CreateConfirmation_def
  sql_PendingConfirmation_def sql_ResolveConfirmation_def Let_def

inductive_cases store_stepE: "store_step s w w'"

lemma store_step_tables:
  assumes "store_step (SQLRunStore s) db db'"
  shows "table_step (tables db) (tables db')"
  using assms
proof (cases rule: store_step.cases)
  case (start rec x)
  then show ?thesis
    by (auto simp: sql_store_defs idle split: if_splits dest!: wrap_exec_tables intro: ins_run)
next
  case (complete i status reason x)
  then show ?thesis
    by (auto simp: sql_store_defs idle split: if_splits dest!: wrap_exec_tables
        intro: table_step.complete)
next
  case (record_step st x)
  then show ?thesis
    by (auto simp: sql_store_defs idle split: if_splits dest!: wrap_exec_tables intro: ins_step)
next
  case (check i b)
  then show ?thesis
    by (auto simp: sql_store_defs idle split: if_splits prod.splits sum.splits
        dest!: select_run_frame)
next
  case (cancel i actor x)
  then show ?thesis
    by (auto simp: sql_store_defs idle split: if_splits prod.splits sum.splits dest!: exec_tables
        intro: table_step.cancel)
next
  case (create c x)
  then show ?thesis
    by (auto simp: sql_store_defs idle split: if_splits dest!: wrap_exec_tables intro: ins_conf)
next
  case (pending i p)
  then show ?thesis
    by (auto simp: sql_store_defs idle split: if_splits prod.splits sum.splits
        dest!: select_pending_frame)
next
  case (resolve ci cs actor x)
  then show ?thesis
    by (auto simp: sql_store_defs idle split: if_splits prod.splits sum.splits dest!: exec_tables
        intro: table_step.resolve)
qed

lemma store_steps_tables:
  "(store_step (SQLRunStore s))\<^sup>*\<^sup>* db db' \<Longrightarrow> table_step\<^sup>*\<^sup>* (tables db) (tables db')"
  by (induction rule: rtranclp_induct) (auto intro: store_step_tables rtranclp.rtrancl_into_rtrancl)

subsection \<open>Cancellation is final\<close>

definition cancelled_in :: "run_tables \<Rightarrow> string \<Rightarrow> bool" where
  "cancelled_in t i \<longleftrightarrow> (\<exists>r. row_of ru_id i (runs t) = Some r \<and> cancel_marked r)"

lemma table_step_cancelled:
  "table_step t t' \<Longrightarrow> cancelled_in t i \<Longrightarrow> cancelled_in t' i"
proof (induction rule: table_step.induct)
  case (ins_run rec now t u t')
  then show ?case
    by (auto simp: insert_run_def cancelled_in_def row_of_upsert cancel_marked_def split: if_splits)
next
  case (complete i status reason now t u t')
  then show ?case
    by (auto simp: complete_run_def cancelled_in_def row_of_update_where cancel_marked_def
        split: if_splits)
next
  case (ins_step st now t u t')
  then show ?case
    by (auto simp: insert_step_def cancelled_in_def row_of_update_where cancel_marked_def
        split: if_splits)
next
  case (cancel i actor now t n t')
  then show ?case
    by (auto simp: request_cancel_def cancelled_in_def row_of_update_where cancel_marked_def)
next
  case (ins_conf c now t u t')
  then show ?case by (auto simp: insert_confirmation_def cancelled_in_def split: if_splits)
next
  case (resolve ci cs actor now t n t')
  then show ?case by (auto simp: resolve_confirmation_def cancelled_in_def Let_def)
qed

lemma IsRunCanceled_exact:
  assumes "sql_IsRunCanceled s i db = (Inr b, db')" "trim_space i \<noteq> []" "sq_query s"
  shows "b \<longleftrightarrow> cancelled_in (tables db) (trim_space i)"
proof (cases "sql_exec (select_run (trim_space i)) db")
  case (Pair x d)
  show ?thesis
    using assms Pair
    by (cases x)
      (auto simp: sql_IsRunCanceled_def Let_def cancelled_in_def select_run_def cancel_marked_def
        split: if_splits option.splits dest!: sql_exec_Inr sql_exec_ErrNoRows)
qed

text \<open>The store \<^verbatim>\<open>NewSQLRunStore\<close> makes of a database.\<close>

definition NewSQLRunStore :: "run_db run_store" where
  "NewSQLRunStore = SQLRunStore \<lparr>sq_exec = True, sq_query = True\<rparr>"

interpretation sql_cancel: cancel_store NewSQLRunStore "\<lambda>db. cancelled_in (tables db)"
proof
  show "store_step NewSQLRunStore w w' \<Longrightarrow> cancelled_in (tables w) i \<Longrightarrow> cancelled_in (tables w') i"
    for w w' i
    unfolding NewSQLRunStore_def using store_step_tables table_step_cancelled by blast
  show "IsRunCanceled NewSQLRunStore i w = (Inr b, w') \<Longrightarrow> trim_space i \<noteq> [] \<Longrightarrow>
      b \<longleftrightarrow> cancelled_in (tables w) (trim_space i)" for i w b w'
    by (rule IsRunCanceled_exact [of "\<lparr>sq_exec = True, sq_query = True\<rparr>"])
      (simp_all add: NewSQLRunStore_def SQLRunStore_def)
qed

lemma request_cancel_cancels:
  assumes "request_cancel i actor now t = Inr (n, t')" "n \<noteq> 0" "unique_key ru_id (runs t)"
  shows "cancelled_in t' i"
proof -
  have "count_where (\<lambda>r. ru_id r = i \<and> cancelable i r) (runs t) = count_where (cancelable i) (runs t)"
    by (intro arg_cong2 [of _ _ _ _ count_where]) (auto simp: cancelable_def)
  then obtain r where "row_of ru_id i (runs t) = Some r" "cancelable i r"
    using count_where_key [OF assms(3), of i "cancelable i"] assms(1,2)
    by (auto simp: request_cancel_def split: option.splits if_splits)
  then show ?thesis
    using assms(1)
    by (auto simp: request_cancel_def cancelled_in_def row_of_update_where cancel_marked_def)
qed

lemma complete_run_cancelled:
  "complete_run i status reason now t = Inr (u, t') \<Longrightarrow> cancelled_in t i \<Longrightarrow>
     \<exists>r. row_of ru_id i (runs t') = Some r \<and> ru_status r = RunStatusCanceled \<and>
       ru_termination_reason r = Some TerminationCanceled"
  by (auto simp: cancelled_in_def complete_run_def row_of_update_where split: if_splits
      dest: row_of_SomeD)

lemma RequestCancelRun_cancels:
  assumes "RequestCancelRun NewSQLRunStore i actor db = (Inr (), db')"
    and "unique_key ru_id (runs (tables db))"
  shows "cancelled_in (tables db') (trim_space i)" "trim_space i \<noteq> []"
proof -
  obtain n where run: "sql_exec (request_cancel (trim_space i) (trim_space actor)) db = (Inr n, db')" "n \<noteq> 0"
    and i: "trim_space i \<noteq> []"
    using assms(1)
    by (auto simp: NewSQLRunStore_def SQLRunStore_def sql_RequestCancelRun_def Let_def
        split: if_splits prod.splits sum.splits)
  show "cancelled_in (tables db') (trim_space i)"
    using sql_exec_Inr [OF run(1)] run(2) assms(2) request_cancel_cancels by blast
  show "trim_space i \<noteq> []" by (rule i)
qed

lemma CompleteRun_cancelled:
  assumes "CompleteRun NewSQLRunStore i status reason db = (Inr (), db')"
    and "cancelled_in (tables db) (trim_space i)"
  shows "\<exists>r. row_of ru_id (trim_space i) (runs (tables db')) = Some r \<and> ru_status r = RunStatusCanceled \<and>
    ru_termination_reason r = Some TerminationCanceled"
proof -
  have "sql_exec (complete_run (trim_space i) status reason) db = (Inr (), db')"
    using assms(1)
    by (auto simp: NewSQLRunStore_def SQLRunStore_def sql_CompleteRun_def Let_def split: if_splits)
  from sql_exec_Inr [OF this, THEN conjunct1] assms(2) show ?thesis
    by (rule complete_run_cancelled)
qed

text \<open>
  C7: a cancellation is never lost. Once \<^verbatim>\<open>RequestCancelRun\<close> has succeeded, then after any sequence of
  operations of the store with any arguments (restarting the run, completing it as succeeded, recording
  steps, ...), some of which may fail, a cancellation check that succeeds answers true, and a completion
  that succeeds leaves the run canceled whatever status it was given.
\<close>

theorem cancellation_is_final:
  assumes "unique_key ru_id (runs (tables db))"
    and "RequestCancelRun NewSQLRunStore i actor db = (Inr (), db1)"
    and "(store_step NewSQLRunStore)\<^sup>*\<^sup>* db1 db2"
  shows "(IsRunCanceled NewSQLRunStore i db2 = (Inr b, db3) \<longrightarrow> b) \<and>
    (CompleteRun NewSQLRunStore i status reason db2 = (Inr (), db3) \<longrightarrow>
       (\<exists>r. row_of ru_id (trim_space i) (runs (tables db3)) = Some r \<and>
          ru_status r = RunStatusCanceled \<and> ru_termination_reason r = Some TerminationCanceled))"
proof -
  note c = RequestCancelRun_cancels [OF assms(2,1)]
  have "cancelled_in (tables db2) (trim_space i)"
    by (rule sql_cancel.steps_sticky [OF assms(3) c(1)])
  then show ?thesis
    using sql_cancel.check_after [OF assms(3) c] CompleteRun_cancelled by blast
qed

subsection \<open>What holds of the tables at any time\<close>

definition count_steps :: "step_record list \<Rightarrow> string \<Rightarrow> (string \<Rightarrow> bool) \<Rightarrow> nat" where
  "count_steps ss i P = count_where (\<lambda>s. st_run_id s = i \<and> P (st_kind s)) ss"

definition run_row_ok :: "step_record list \<Rightarrow> run_row \<Rightarrow> bool" where
  "run_row_ok ss r \<longleftrightarrow> run_status_check (ru_status r) \<and>
     ru_steps_used r = count_steps ss (ru_id r) (\<lambda>_. True) \<and>
     ru_tool_calls_used r = count_steps ss (ru_id r) (\<lambda>k. k = ''agent.tool'') \<and>
     ru_llm_calls_used r = count_steps ss (ru_id r) (\<lambda>k. k \<in> {''agent.plan'', ''agent.answer''})"

definition run_tables_ok :: "run_tables \<Rightarrow> bool" where
  "run_tables_ok t \<longleftrightarrow>
     unique_key ru_id (runs t) \<and> unique_key co_id (confirmations t) \<and>
     unique_key (\<lambda>s. (st_run_id s, st_step_index s)) (run_steps t) \<and>
     st_run_id ` set (run_steps t) \<subseteq> ru_id ` set (runs t) \<and>
     (\<forall>r\<in>set (runs t). run_row_ok (run_steps t) r)"

lemma ok_insert_run:
  assumes "insert_run rec now t = Inr (u, t')" "run_tables_ok t"
  shows "run_tables_ok t'"
proof -
  let ?f = "\<lambda>old. if cancel_marked old then old\<lparr>ru_updated_at := now\<rparr>
               else old\<lparr>ru_status := ru_status rec, ru_termination_reason := None,
                 ru_completed_at := None, ru_updated_at := now\<rparr>"
  have t': "t' = t\<lparr>runs := upsert ru_id (fresh_run_row rec now) ?f (runs t)\<rparr>"
    and st: "run_status_check (ru_status rec)"
    using assms(1) by (auto simp: insert_run_def split: if_splits)
  have new: "run_row_ok (run_steps t) (fresh_run_row rec now)"
    if "ru_id (fresh_run_row rec now) \<notin> ru_id ` set (runs t)"
  proof -
    have "count_steps (run_steps t) (ru_id rec) P = 0" for P
      using assms(2) that unfolding run_tables_ok_def count_steps_def
      by (intro count_where_0) (force simp: fresh_run_row_def)
    then show ?thesis using st by (simp add: run_row_ok_def fresh_run_row_def)
  qed
  have "run_row_ok (run_steps t) r" if "r \<in> set (runs t')" for r
  proof -
    have "r \<in> set (upsert ru_id (fresh_run_row rec now) ?f (runs t))" using that by (simp add: t')
    then show ?thesis
      by (rule ball_upsert [rotated -1]) (use assms(2) st new in \<open>auto simp: run_tables_ok_def run_row_ok_def\<close>)
  qed
  then show ?thesis
    using assms(2) by (auto simp: run_tables_ok_def t' unique_key_upsert key_set_upsert)
qed

text \<open>An update of runs that keeps their ids and rows keeps the tables sound.\<close>

lemma ok_update_runs:
  assumes "run_tables_ok t" "\<And>r. ru_id (f r) = ru_id r"
    and "\<And>r. r \<in> set (runs t) \<Longrightarrow> P r \<Longrightarrow> run_row_ok (run_steps t) (f r)"
  shows "run_tables_ok (t\<lparr>runs := update_where P f (runs t)\<rparr>)"
proof -
  have "run_row_ok (run_steps t) r" if "r \<in> set (update_where P f (runs t))" for r
    using that by (rule ball_update_where [rotated -1]) (use assms in \<open>auto simp: run_tables_ok_def\<close>)
  then show ?thesis
    using assms(1,2) by (simp add: run_tables_ok_def map_key_update_where key_set_update_where)
qed

lemma ok_complete_run:
  assumes "complete_run i status reason now t = Inr (u, t')" "run_tables_ok t"
  shows "run_tables_ok t'"
proof -
  have "run_row_ok (run_steps t) r" if "r \<in> set (runs t)" for r
    using assms(2) that by (simp add: run_tables_ok_def)
  moreover have "run_status_check status" if "r \<in> set (runs t)" "ru_id r = i" "\<not> cancel_marked r" for r
    using assms(1) that by (auto simp: complete_run_def split: if_splits)
  moreover have "run_status_check RunStatusCanceled" by (simp add: run_status_check_def)
  ultimately show ?thesis
    using assms unfolding complete_run_def
    by (auto split: if_splits intro!: ok_update_runs simp: run_row_ok_def)
qed

lemma ok_insert_step:
  assumes "insert_step st now t = Inr (u, t')" "run_tables_ok t"
  shows "run_tables_ok t'"
proof -
  let ?f = "\<lambda>r. r\<lparr>ru_steps_used := ru_steps_used r + 1,
            ru_tool_calls_used := ru_tool_calls_used r + (if st_kind st = ''agent.tool'' then 1 else 0),
            ru_llm_calls_used := ru_llm_calls_used r +
              (if st_kind st \<in> {''agent.plan'', ''agent.answer''} then 1 else 0),
            ru_updated_at := now\<rparr>"
  let ?rs = "update_where (\<lambda>r. ru_id r = st_run_id st) ?f (runs t)"
  have t': "t' = t\<lparr>run_steps := run_steps t @ [st], runs := ?rs\<rparr>"
    and ids: "st_run_id st \<in> ru_id ` set (runs t)"
      "(st_run_id st, st_step_index st) \<notin> (\<lambda>s. (st_run_id s, st_step_index s)) ` set (run_steps t)"
    using assms(1) by (auto simp: insert_step_def split: if_splits)
  have ok: "run_row_ok (run_steps t) r" if "r \<in> set (runs t)" for r
    using assms(2) that by (simp add: run_tables_ok_def)
  have "run_row_ok (run_steps t @ [st]) (if ru_id r = st_run_id st then ?f r else r)"
    if "r \<in> set (runs t)" for r
    using ok [OF that] by (simp add: run_row_ok_def count_steps_def)
  then have "run_row_ok (run_steps t @ [st]) r" if "r \<in> set ?rs" for r
    using that unfolding set_update_where by blast
  moreover have "map ru_id ?rs = map ru_id (runs t)" "ru_id ` set ?rs = ru_id ` set (runs t)"
    by (simp_all add: map_key_update_where key_set_update_where)
  ultimately show ?thesis
    using assms(2) ids by (simp add: run_tables_ok_def t')
qed

lemma ok_request_cancel:
  assumes "request_cancel i actor now t = Inr (n, t')" "run_tables_ok t"
  shows "run_tables_ok t'"
proof -
  have "run_row_ok (run_steps t) r" if "r \<in> set (runs t)" for r
    using assms(2) that by (simp add: run_tables_ok_def)
  then show ?thesis
    using assms by (auto simp: request_cancel_def run_row_ok_def intro!: ok_update_runs)
qed

lemma ok_insert_confirmation:
  "insert_confirmation c now t = Inr (u, t') \<Longrightarrow> run_tables_ok t \<Longrightarrow> run_tables_ok t'"
  unfolding insert_confirmation_def
  by (clarsimp split: if_splits) (simp add: run_tables_ok_def confirmation_record.defs)

lemma ok_resolve_confirmation:
  "resolve_confirmation ci cs actor now t = Inr (n, t') \<Longrightarrow> run_tables_ok t \<Longrightarrow> run_tables_ok t'"
  unfolding resolve_confirmation_def Let_def
  by clarsimp (simp add: run_tables_ok_def map_key_update_where)

lemmas run_tables_ok_intros = ok_insert_run ok_complete_run ok_insert_step ok_request_cancel
  ok_insert_confirmation ok_resolve_confirmation

lemma table_step_ok: "table_step t t' \<Longrightarrow> run_tables_ok t \<Longrightarrow> run_tables_ok t'"
  by (induction rule: table_step.induct) (blast intro: run_tables_ok_intros)+

lemma table_steps_ok: "table_step\<^sup>*\<^sup>* t t' \<Longrightarrow> run_tables_ok t \<Longrightarrow> run_tables_ok t'"
  by (induction rule: rtranclp_induct) (auto intro: table_step_ok)

text \<open>
  C8: whatever operations reach the store, in any order and with any failures, the tables are sound:
  run and confirmation ids are unique, a run has at most one step of each index, every step belongs to
  a run, every run has one of the seven statuses, and the counters of a run are exactly the numbers of
  its recorded steps, tool steps, and plan and answer steps.
\<close>

theorem run_tables_sound:
  assumes "(store_step (SQLRunStore s))\<^sup>*\<^sup>* \<lparr>tables = \<lparr>runs = [], run_steps = [], confirmations = []\<rparr>,
    clock = now, faults = fs\<rparr> db"
  shows "run_tables_ok (tables db)"
  by (rule table_steps_ok, use store_steps_tables [OF assms] in simp) (simp add: run_tables_ok_def)

subsection \<open>A confirmation is resolved once\<close>

definition resolved_as :: "run_tables \<Rightarrow> string \<Rightarrow> confirmation_status \<Rightarrow> string \<Rightarrow> bool" where
  "resolved_as t i cs actor \<longleftrightarrow>
     (\<exists>c. row_of co_id i (confirmations t) = Some c \<and> co_status c = cs \<and> co_resolved_by c = actor \<and>
        cs \<noteq> ConfirmationStatusPending)"

lemma table_step_resolved: "table_step t t' \<Longrightarrow> resolved_as t i cs a \<Longrightarrow> resolved_as t' i cs a"
proof (induction rule: table_step.induct)
  case (resolve ci cs actor now t n t')
  then show ?case
    unfolding resolve_confirmation_def Let_def
    by (clarsimp simp: resolved_as_def row_of_update_where)
next
  case (ins_conf c now t u t')
  then show ?case
    unfolding insert_confirmation_def
    by (clarsimp simp: resolved_as_def row_of_append split: if_splits)
qed (auto simp: resolved_as_def insert_run_def complete_run_def insert_step_def request_cancel_def
  split: if_splits)

lemma resolve_confirmation_effect:
  assumes "resolve_confirmation i cs actor now t = Inr (n, t')" "n \<noteq> 0"
    and "unique_key co_id (confirmations t)" "cs \<noteq> ConfirmationStatusPending"
  shows "resolved_as t' i cs actor \<and>
    (\<exists>c. row_of co_id i (confirmations t) = Some c \<and> co_status c = ConfirmationStatusPending)"
proof -
  obtain c where "row_of co_id i (confirmations t) = Some c" "co_status c = ConfirmationStatusPending"
    using count_where_key [OF assms(3), of i "\<lambda>c. co_status c = ConfirmationStatusPending"] assms(1,2)
    by (auto simp: resolve_confirmation_def Let_def split: option.splits if_splits)
  then show ?thesis
    using assms(1,4) row_of_SomeD [of co_id i "confirmations t" c]
    unfolding resolve_confirmation_def Let_def
    by (clarsimp simp: resolved_as_def row_of_update_where)
qed

lemma ResolveConfirmation_effect:
  assumes "ResolveConfirmation NewSQLRunStore i cs actor db = (Inr (), db')"
    and "run_tables_ok (tables db)"
  shows "resolved_as (tables db') (trim_space i) cs (trim_space actor) \<and>
    (\<exists>c. row_of co_id (trim_space i) (confirmations (tables db)) = Some c \<and>
       co_status c = ConfirmationStatusPending)"
proof -
  obtain n where run: "sql_exec (resolve_confirmation (trim_space i) cs (trim_space actor)) db = (Inr n, db')"
    "n \<noteq> 0" and cs: "cs \<noteq> ConfirmationStatusPending"
    using assms(1)
    by (auto simp: NewSQLRunStore_def SQLRunStore_def sql_ResolveConfirmation_def Let_def
        split: if_splits prod.splits sum.splits)
  from sql_exec_Inr [OF run(1), THEN conjunct1] run(2) assms(2) cs show ?thesis
    by (intro resolve_confirmation_effect) (auto simp: run_tables_ok_def)
qed

text \<open>
  A confirmation is resolved at most once. When \<^verbatim>\<open>ResolveConfirmation\<close> succeeds, the confirmation was
  pending and gets that status and actor; after any further operations it still has them, and no later
  \<^verbatim>\<open>ResolveConfirmation\<close> of it succeeds, with whatever status or actor.
\<close>

theorem confirmation_resolved_once:
  assumes "run_tables_ok (tables db)"
    and "ResolveConfirmation NewSQLRunStore i cs actor db = (Inr (), db1)"
    and "(store_step NewSQLRunStore)\<^sup>*\<^sup>* db1 db2"
  shows "(\<exists>c. row_of co_id (trim_space i) (confirmations (tables db)) = Some c \<and>
            co_status c = ConfirmationStatusPending) \<and>
    (\<exists>c. row_of co_id (trim_space i) (confirmations (tables db2)) = Some c \<and>
       co_status c = cs \<and> co_resolved_by c = trim_space actor) \<and>
    fst (ResolveConfirmation NewSQLRunStore i cs' actor' db2) \<noteq> Inr ()"
proof -
  note e = ResolveConfirmation_effect [OF assms(2,1)]
  have steps: "table_step\<^sup>*\<^sup>* (tables db1) (tables db2)"
    using store_steps_tables assms(3) unfolding NewSQLRunStore_def by blast
  have step1: "table_step (tables db) (tables db1)"
    using store_step_tables store_step.resolve [OF assms(2)] unfolding NewSQLRunStore_def by blast
  have ok: "run_tables_ok (tables db2)"
    using table_steps_ok [OF steps] table_step_ok [OF step1] assms(1) by blast
  have res: "resolved_as (tables db2) (trim_space i) cs (trim_space actor)"
    using steps by (induction rule: rtranclp_induct) (auto intro: table_step_resolved e [THEN conjunct1])
  have "fst (ResolveConfirmation NewSQLRunStore i cs' actor' db2) \<noteq> Inr ()"
  proof
    assume "fst (ResolveConfirmation NewSQLRunStore i cs' actor' db2) = Inr ()"
    then obtain db3 where "ResolveConfirmation NewSQLRunStore i cs' actor' db2 = (Inr (), db3)"
      by (metis prod.collapse)
    from ResolveConfirmation_effect [OF this ok] res show False by (auto simp: resolved_as_def)
  qed
  with e res show ?thesis by (auto simp: resolved_as_def)
qed

subsection \<open>The properties at work\<close>

definition no_runs :: run_db where
  "no_runs = \<lparr>tables = \<lparr>runs = [], run_steps = [], confirmations = []\<rparr>, clock = 7, faults = []\<rparr>"

definition sample_run :: run_record where
  "sample_run = \<lparr>ru_id = ''r1'', ru_guild_id = ''g'', ru_channel_id = ''c'', ru_actor_user_id = ''u'',
     ru_surface = SurfaceGuildMention, ru_context_scope = [], ru_status = [], ru_max_steps = 0,
     ru_max_tool_calls = 5, ru_max_llm_calls = 0, ru_max_input_tokens = 0, ru_max_output_tokens = 0\<rparr>"

definition sample_confirmation :: confirmation_record where
  "sample_confirmation = \<lparr>co_id = ''k1'', co_run_id = ''r1'', co_step_index = 1, co_status = [],
     co_tool_name = ''t'', co_payload = [], co_created_by = ''u'', co_resolved_by = [], co_expires_at = None\<rparr>"

definition sample_db :: run_db where
  "sample_db = snd (CreateConfirmation NewSQLRunStore sample_confirmation
     (snd (StartRun NewSQLRunStore sample_run no_runs)))"

lemma sanitize_Nil [simp]: "sanitizeStepObservation [] = []" "jsonb [] = []"
  by (simp_all add: sanitizeStepObservation_def SanitizeMetadata_def map_filter_simps jsonb_def)

lemmas run_store_eval = sql_store_defs NewSQLRunStore_def go_eval wrap_err_def insert_run_def
  run_status_check_def upsert_def fresh_run_row_def insert_confirmation_def confirmation_record.defs
  request_cancel_def complete_run_def resolve_confirmation_def select_run_def count_where_def
  cancelable_def update_where_def cancel_marked_def

lemma sample_db_eval: "sample_db = no_runs\<lparr>tables := \<lparr>runs = [fresh_run_row (sample_run\<lparr>ru_status := RunStatusRunning\<rparr>) 7],
    run_steps = [], confirmations = [confirmation_record.extend (sample_confirmation\<lparr>co_status := ConfirmationStatusPending\<rparr>)
      \<lparr>co_confirmed_at = None, co_canceled_at = None, co_created_at = 7\<rparr>]\<rparr>\<rparr>"
  by (simp add: sample_db_def no_runs_def sample_run_def sample_confirmation_def run_store_eval)

lemma store_step_snd:
  "store_step s w (snd (StartRun s rec w))" "store_step s w (snd (CreateConfirmation s c w))"
  by (rule store_step.start [OF surjective_pairing], rule store_step.create [OF surjective_pairing])

lemma sample_db_steps: "(store_step NewSQLRunStore)\<^sup>*\<^sup>* no_runs sample_db"
  unfolding sample_db_def by (meson store_step_snd r_into_rtranclp rtranclp.rtrancl_into_rtrancl)

lemma run_tables_sound_witness:
  "run_tables_ok (tables sample_db) \<and> length (runs (tables sample_db)) = 1"
proof -
  have "(store_step (SQLRunStore \<lparr>sq_exec = True, sq_query = True\<rparr>))\<^sup>*\<^sup>*
      \<lparr>tables = \<lparr>runs = [], run_steps = [], confirmations = []\<rparr>, clock = 7, faults = []\<rparr> sample_db"
    using sample_db_steps by (simp add: NewSQLRunStore_def no_runs_def)
  from run_tables_sound [OF this] show ?thesis by (simp add: sample_db_eval)
qed

lemma cancellation_is_final_witness:
  "let db1 = snd (RequestCancelRun NewSQLRunStore ''r1'' ''mod'' sample_db);
       db2 = snd (StartRun NewSQLRunStore sample_run db1)
   in fst (IsRunCanceled NewSQLRunStore ''r1'' db2) = Inr True \<and>
      map ru_status (runs (tables (snd (CompleteRun NewSQLRunStore ''r1'' RunStatusSucceeded ''completed'' db2)))) =
        [RunStatusCanceled]"
proof -
  define db1 where "db1 = snd (RequestCancelRun NewSQLRunStore ''r1'' ''mod'' sample_db)"
  define db2 where "db2 = snd (StartRun NewSQLRunStore sample_run db1)"
  have c: "RequestCancelRun NewSQLRunStore ''r1'' ''mod'' sample_db = (Inr (), db1)"
    by (simp add: db1_def sample_db_eval no_runs_def sample_run_def run_store_eval)
  have steps: "(store_step NewSQLRunStore)\<^sup>*\<^sup>* db1 db2"
    unfolding db2_def by (meson store_step_snd r_into_rtranclp)
  have u: "unique_key ru_id (runs (tables sample_db))" by (simp add: sample_db_eval)
  obtain b where b: "fst (IsRunCanceled NewSQLRunStore ''r1'' db2) = Inr b"
    "fst (CompleteRun NewSQLRunStore ''r1'' RunStatusSucceeded ''completed'' db2) = Inr ()"
    "length (runs (tables (snd (CompleteRun NewSQLRunStore ''r1'' RunStatusSucceeded ''completed'' db2)))) = 1"
    by (simp add: db2_def db1_def sample_db_eval no_runs_def sample_run_def run_store_eval)
  note final = cancellation_is_final [OF u c steps]
  have "b" using final b(1) by (metis prod.collapse)
  moreover have "\<exists>r. row_of ru_id (trim_space ''r1'') (runs (tables (snd (CompleteRun NewSQLRunStore ''r1''
      RunStatusSucceeded ''completed'' db2)))) = Some r \<and> ru_status r = RunStatusCanceled"
    using final b(2) by (metis prod.collapse)
  ultimately show ?thesis
    using b unfolding Let_def db1_def [symmetric] db2_def [symmetric]
    by (auto simp: length_Suc_conv split: if_splits)
qed

lemma confirmation_resolved_once_witness:
  "let db1 = snd (ResolveConfirmation NewSQLRunStore ''k1'' ConfirmationStatusCanceled ''u'' sample_db)
   in map co_status (confirmations (tables db1)) = [ConfirmationStatusCanceled] \<and>
      fst (ResolveConfirmation NewSQLRunStore ''k1'' ConfirmationStatusConfirmed ''u'' db1) \<noteq> Inr ()"
proof -
  define db1 where "db1 = snd (ResolveConfirmation NewSQLRunStore ''k1'' ConfirmationStatusCanceled ''u'' sample_db)"
  have r: "ResolveConfirmation NewSQLRunStore ''k1'' ConfirmationStatusCanceled ''u'' sample_db = (Inr (), db1)"
    "map co_status (confirmations (tables db1)) = [ConfirmationStatusCanceled]"
    by (simp_all add: db1_def sample_db_eval no_runs_def sample_run_def sample_confirmation_def run_store_eval)
  have "table_step\<^sup>*\<^sup>* (tables no_runs) (tables sample_db)"
    using store_steps_tables sample_db_steps unfolding NewSQLRunStore_def by blast
  then have "run_tables_ok (tables sample_db)"
    by (rule table_steps_ok) (simp add: no_runs_def run_tables_ok_def)
  then show ?thesis
    using confirmation_resolved_once [OF _ r(1), of db1] r(2) by (simp add: db1_def)
qed

end
