(* ===== verification/Effects.thy ===== *)
theory Effects
  imports GoPrelude "HOL-Library.State_Monad"
begin

text \<open>
  Code that calls out. A step reads and changes the world outside (\<open>env\<close>, any type) and leaves a
  record of what was asked for and what came back (\<open>trail\<close>). The trail is not part of the program:
  it is what the properties of the agent speak of. \<open>wp m Q s\<close> says that \<open>m\<close> run from \<open>s\<close> ends with \<open>Q\<close>;
  the rules in \<open>vcg\<close> reduce it to the calls \<open>m\<close> makes, whatever these calls return.
\<close>

named_theorems vcg \<open>rules for weakest preconditions\<close>

record ('w, 'e) world =
  env :: 'w
  trail :: "'e list"

type_synonym ('w, 'e, 'a) eff = "(('w, 'e) world, 'a) state"

text \<open>One call of the outside: \<open>f\<close> is what it does, \<open>ev\<close> the record of its outcome.\<close>

definition perform :: "('w \<Rightarrow> 'a \<times> 'w) \<Rightarrow> ('a \<Rightarrow> 'e) \<Rightarrow> ('w, 'e, 'a) eff" where
  "perform f ev = State (\<lambda>s. case f (env s) of (a, w) \<Rightarrow> (a, s\<lparr>env := w, trail := trail s @ [ev a]\<rparr>))"

abbreviation skip :: "('w, 'e, unit) eff" where "skip \<equiv> State_Monad.return ()"

definition wp :: "('s, 'a) state \<Rightarrow> ('a \<Rightarrow> 's \<Rightarrow> bool) \<Rightarrow> 's \<Rightarrow> bool" where
  "wp m Q s \<longleftrightarrow> (case run_state m s of (a, s') \<Rightarrow> Q a s')"

lemma wp_return [vcg]: "Q x s \<Longrightarrow> wp (State_Monad.return x) Q s"
  by (simp add: wp_def State_Monad.return_def)

lemma wp_bind [vcg]: "wp m (\<lambda>a. wp (f a) Q) s \<Longrightarrow> wp (State_Monad.bind m f) Q s"
  by (auto simp: wp_def State_Monad.bind_def split: prod.splits)

lemma wp_perform [vcg]:
  "(\<And>a w. Q a \<lparr>env = w, trail = trail s @ [ev a]\<rparr>) \<Longrightarrow> wp (perform f ev) Q s"
  by (cases s) (auto simp: wp_def perform_def split: prod.splits)

lemma wp_if [vcg]:
  "(b \<Longrightarrow> wp m Q s) \<Longrightarrow> (\<not> b \<Longrightarrow> wp n Q s) \<Longrightarrow> wp (if b then m else n) Q s"
  by simp

lemma wp_option [vcg]:
  "(x = None \<Longrightarrow> wp m Q s) \<Longrightarrow> (\<And>y. x = Some y \<Longrightarrow> wp (f y) Q s) \<Longrightarrow>
     wp (case x of None \<Rightarrow> m | Some y \<Rightarrow> f y) Q s"
  by (cases x) auto

lemma wp_sum [vcg]:
  "(\<And>y. x = Inl y \<Longrightarrow> wp (f y) Q s) \<Longrightarrow> (\<And>y. x = Inr y \<Longrightarrow> wp (g y) Q s) \<Longrightarrow>
     wp (case x of Inl y \<Rightarrow> f y | Inr y \<Rightarrow> g y) Q s"
  by (cases x) auto

lemma wp_prod [vcg]: "(\<And>y z. x = (y, z) \<Longrightarrow> wp (f y z) Q s) \<Longrightarrow> wp (case x of (y, z) \<Rightarrow> f y z) Q s"
  by (cases x) auto

lemma wp_let [vcg]: "(\<And>y. y = e \<Longrightarrow> wp (f y) Q s) \<Longrightarrow> wp (let y = e in f y) Q s"
  by simp

lemma wp_mono: "wp m R s \<Longrightarrow> (\<And>a s'. R a s' \<Longrightarrow> Q a s') \<Longrightarrow> wp m Q s"
  by (auto simp: wp_def split: prod.splits)

lemma wp_conj: "wp m Q s \<Longrightarrow> wp m R s \<Longrightarrow> wp m (\<lambda>a s'. Q a s' \<and> R a s') s"
  by (auto simp: wp_def split: prod.splits)

lemma wp_run: "wp m Q s \<Longrightarrow> run_state m s = (a, s') \<Longrightarrow> Q a s'"
  by (simp add: wp_def)

subsection \<open>What a computation adds to the trail\<close>

text \<open>\<open>adds P m\<close>: run from anywhere, \<open>m\<close> appends records of which each satisfies \<open>P\<close>.\<close>

definition adds :: "('e \<Rightarrow> bool) \<Rightarrow> ('w, 'e, 'a) eff \<Rightarrow> bool" where
  "adds P m \<longleftrightarrow> (\<forall>s. wp m (\<lambda>_ s'. \<exists>l. trail s' = trail s @ l \<and> list_all P l) s)"

lemma adds_return: "adds P (State_Monad.return x)"
  by (auto simp: adds_def intro!: vcg)

lemma adds_perform: "(\<And>a. P (ev a)) \<Longrightarrow> adds P (perform f ev)"
  by (auto simp: adds_def intro!: vcg)

lemma adds_bind:
  fixes m :: "('w, 'e, 'a) eff"
  assumes "adds P m" "\<And>a. adds P (f a)"
  shows "adds P (State_Monad.bind m f)"
proof -
  have "wp m (\<lambda>a. wp (f a) (\<lambda>_ s'. \<exists>l. trail s' = trail s @ l \<and> list_all P l)) s" for s
  proof (rule wp_mono)
    show "wp m (\<lambda>_ s'. \<exists>l. trail s' = trail s @ l \<and> list_all P l) s"
      using assms(1) by (simp add: adds_def)
  next
    fix a and s' :: "('w, 'e) world" assume "\<exists>l. trail s' = trail s @ l \<and> list_all P l"
    then obtain l where l: "trail s' = trail s @ l" "list_all P l" by blast
    have "wp (f a) (\<lambda>_ s''. \<exists>l. trail s'' = trail s' @ l \<and> list_all P l) s'"
      using assms(2) by (simp add: adds_def)
    then show "wp (f a) (\<lambda>_ s''. \<exists>l. trail s'' = trail s @ l \<and> list_all P l) s'"
      by (rule wp_mono) (use l in auto)
  qed
  then show ?thesis by (auto simp: adds_def intro: wp_bind)
qed

lemma adds_if: "(b \<Longrightarrow> adds P m) \<Longrightarrow> (\<not> b \<Longrightarrow> adds P n) \<Longrightarrow> adds P (if b then m else n)"
  by simp

lemma adds_option:
  "(x = None \<Longrightarrow> adds P m) \<Longrightarrow> (\<And>y. x = Some y \<Longrightarrow> adds P (f y)) \<Longrightarrow>
     adds P (case x of None \<Rightarrow> m | Some y \<Rightarrow> f y)"
  by (cases x) auto

lemma adds_sum:
  "(\<And>y. x = Inl y \<Longrightarrow> adds P (f y)) \<Longrightarrow> (\<And>y. x = Inr y \<Longrightarrow> adds P (g y)) \<Longrightarrow>
     adds P (case x of Inl y \<Rightarrow> f y | Inr y \<Rightarrow> g y)"
  by (cases x) auto

lemma adds_prod: "(\<And>y z. x = (y, z) \<Longrightarrow> adds P (f y z)) \<Longrightarrow> adds P (case x of (y, z) \<Rightarrow> f y z)"
  by (cases x) auto

lemma adds_let: "(\<And>y. y = e \<Longrightarrow> adds P (f y)) \<Longrightarrow> adds P (let y = e in f y)"
  by simp

lemmas adds_rules = adds_return adds_perform adds_bind adds_if adds_option adds_sum adds_prod adds_let

lemma wp_adds:
  fixes m :: "('w, 'e, 'a) eff" and s :: "('w, 'e) world"
  assumes "adds P m" and Q: "\<And>a w l. list_all P l \<Longrightarrow> Q a \<lparr>env = w, trail = trail s @ l\<rparr>"
  shows "wp m Q s"
proof -
  have "wp m (\<lambda>_ s'. \<exists>l. trail s' = trail s @ l \<and> list_all P l) s"
    using assms(1) by (simp add: adds_def)
  then show "wp m Q s"
  proof (rule wp_mono)
    fix a and s' :: "('w, 'e) world"
    assume "\<exists>l. trail s' = trail s @ l \<and> list_all P l"
    then obtain l where "list_all P l" "s' = \<lparr>env = env s', trail = trail s @ l\<rparr>"
      by (metis world.surjective old.unit.exhaust)
    then show "Q a s'" using Q by metis
  qed
qed

end
