(* ===== verification/AgentTrace.thy ===== *)
theory AgentTrace
  imports RunStore GuildPolicy Capability Effects
begin

text \<open>
  \<^verbatim>\<open>internal/agent/trace.go\<close>: what the agent records of a run. \<^verbatim>\<open>Trace.Record\<close> cleans the metadata and
  sends the same event to the run store, the trace sink and the audit recorder; \<^verbatim>\<open>MemoryTraceStore\<close> is
  the sink that keeps the last runs in memory. The calls the agent makes are recorded as \<open>effect\<close>s,
  each with its outcome.
\<close>

record trace_event =
  te_run_id :: string
  te_step_index :: int
  te_phase :: string
  te_source :: string
  te_kind :: string
  te_status :: string
  te_reason :: string
  te_intent :: string
  te_planner :: string
  te_tool_name :: string
  te_tool_kind :: string
  te_capability :: string
  te_routing_mode :: string
  te_created_at :: "gotime option"
  te_details :: gomap

record trace_run =
  tn_run_id :: string
  tn_guild_id :: string
  tn_channel_id :: string
  tn_actor_user_id :: string
  tn_surface :: string
  tn_status :: string
  tn_updated_at :: gotime
  tn_events :: "trace_event list"

record trace_query =
  tq_guild_id :: string
  tq_channel_id :: string
  tq_actor_user_id :: string

datatype effect =
    RunStarted run_record "unit result"
  | RunCompleted string run_status termination_reason "unit result"
  | StepRecorded step_record "unit result"
  | CancelChecked string "bool result"
  | ConfirmationCreated confirmation_record "unit result"
  | TraceSent trace_event "unit result"
  | Audited audit_event "unit result"
  | PolicyRead string "guild_policy result"
  | CapabilityChecked subject capability "decision \<times> goerror option"
  | ContextFetched request "pack \<times> goerror option"
  | Planned request "tool_spec list" "(plan \<times> bool) result"
  | ToolExecuted request tool_spec tool_call "tool_result result"
  | Answered request plan "tool_result list" "response result"
  | FollowUpLoaded request "run_snapshot option result"
  | FollowUpSaved request run_snapshot "unit result"

type_synonym ('w, 'a) agent = "('w, effect, 'a) eff"

type_synonym 'w trace_sink = "request \<Rightarrow> trace_event \<Rightarrow> 'w \<Rightarrow> unit result \<times> 'w"
type_synonym 'w audit_recorder = "audit_event \<Rightarrow> 'w \<Rightarrow> unit result \<times> 'w"

fun MultiTraceSink :: "'w trace_sink option list \<Rightarrow> 'w trace_sink" where
  "MultiTraceSink [] r e w = (Inr (), w)"
| "MultiTraceSink (None # sinks) r e w = MultiTraceSink sinks r e w"
| "MultiTraceSink (Some sink # sinks) r e w =
     (case sink r e w of
        (Inl err, w') \<Rightarrow> (Inl err, w')
      | (Inr _, w') \<Rightarrow> MultiTraceSink sinks r e w')"

record 'w trace =
  tx_recorder :: "'w audit_recorder option"
  tx_store :: "'w run_store option"
  tx_sink :: "'w trace_sink option"
  tx_source :: string
  tx_run_id :: string
  tx_step :: int

definition WithRunID :: "string \<Rightarrow> 'w trace \<Rightarrow> 'w trace" where
  "WithRunID runID t = t\<lparr>tx_run_id := trim_space runID\<rparr>"

definition WithStep :: "int \<Rightarrow> 'w trace \<Rightarrow> 'w trace" where
  "WithStep step t = t\<lparr>tx_step := step\<rparr>"

definition inherit :: "'w trace \<Rightarrow> 'w trace \<Rightarrow> 'w trace" where
  "inherit parent t = t\<lparr>
     tx_recorder := (if tx_recorder t = None then tx_recorder parent else tx_recorder t),
     tx_store := (if tx_store t = None then tx_store parent else tx_store t),
     tx_sink := (if tx_sink t = None then tx_sink parent else tx_sink t),
     tx_source := (if trim_space (tx_source t) = [] then tx_source parent else tx_source t),
     tx_run_id := (if trim_space (tx_run_id t) = [] then tx_run_id parent else tx_run_id t)\<rparr>"

definition sanitizeTraceMetadata :: "gomap \<Rightarrow> gomap" where
  "sanitizeTraceMetadata metadata =
     mput_all (filter (\<lambda>(k, v). k \<noteq> [])
       (map (\<lambda>(k, v). (safeAuditValue k, safeAuditValue v)) (SanitizeMetadata metadata))) []"

definition traceEventDetails :: "gomap \<Rightarrow> gomap" where
  "traceEventDetails metadata =
     filter (\<lambda>(k, v). k \<notin> {''source'', ''run_id'', ''step_index''} \<and> k \<noteq> [] \<and> v \<noteq> []) metadata"

definition tracePhase :: "string \<Rightarrow> string" where
  "tracePhase kind0 =
     (let kind = trim_space kind0 in
      if kind = ''agent.context'' then ''context''
      else if kind = ''agent.plan'' then ''plan''
      else if kind = ''agent.tool'' then ''tool''
      else if kind = ''agent.answer'' then ''answer''
      else ''fallback'')"

text \<open>The metadata of a record: what every consumer gets.\<close>

definition record_metadata :: "'w trace \<Rightarrow> gomap \<Rightarrow> gomap" where
  "record_metadata t metadata =
     (let source = (if trim_space (tx_source t) = [] then ''agent'' else trim_space (tx_source t));
          m1 = mput ''source'' source (sanitizeTraceMetadata metadata);
          m2 = (if trim_space (tx_run_id t) \<noteq> [] then mput ''run_id'' (safeAuditValue (tx_run_id t)) m1
                else m1)
      in if tx_step t > 0 then mput ''step_index'' (int_str (tx_step t)) m2 else m2)"

definition trace_event_of :: "'w trace \<Rightarrow> string \<Rightarrow> audit_status \<Rightarrow> string \<Rightarrow> gomap \<Rightarrow> trace_event" where
  "trace_event_of t kind status reason m =
     \<lparr>te_run_id = mget m ''run_id'', te_step_index = tx_step t, te_phase = tracePhase kind,
      te_source = (if trim_space (tx_source t) = [] then ''agent'' else trim_space (tx_source t)),
      te_kind = safeAuditValue kind, te_status = safeAuditValue status,
      te_reason = safeAuditValue reason, te_intent = mget m ''intent'', te_planner = mget m ''planner'',
      te_tool_name = mget m ''tool'', te_tool_kind = mget m ''kind'',
      te_capability = mget m ''capability'', te_routing_mode = mget m ''routing_mode'',
      te_created_at = None, te_details = traceEventDetails m\<rparr>"

definition Trace_Record ::
  "'w trace \<Rightarrow> request \<Rightarrow> string \<Rightarrow> audit_status \<Rightarrow> string \<Rightarrow> gomap \<Rightarrow> ('w, unit result) agent" where
  "Trace_Record t request kind status reason metadata =
     (if trim_space (rq_actor_user_id request) = [] then State_Monad.return (Inr ())
      else do {
        let m = record_metadata t metadata;
        let step = \<lparr>st_run_id = tx_run_id t, st_step_index = tx_step t, st_kind = trim_space kind,
          st_status = status, st_reason = trim_space reason, st_observation = m\<rparr>;
        _ \<leftarrow> (case tx_store t of
            None \<Rightarrow> State_Monad.return (Inr ())
          | Some store \<Rightarrow>
              if trim_space (tx_run_id t) = [] then State_Monad.return (Inr ())
              else perform (RecordStep store step) (StepRecorded step));
        let event = trace_event_of t kind status reason m;
        sent \<leftarrow> (case tx_sink t of
            None \<Rightarrow> State_Monad.return (Inr ())
          | Some sink \<Rightarrow> perform (sink request event) (TraceSent event));
        (case sent of
           Inl err \<Rightarrow> State_Monad.return (Inl err)
         | Inr _ \<Rightarrow>
             (case tx_recorder t of
                None \<Rightarrow> State_Monad.return (Inr ())
              | Some recorder \<Rightarrow>
                  (let ev = \<lparr>ev_kind = safeAuditValue kind, ev_guild_id = rq_guild_id request,
                       ev_actor_id = rq_actor_user_id request, ev_status = status,
                       ev_reason = safeAuditValue reason, ev_metadata = m, ev_request_id = []\<rparr>
                   in perform (recorder ev) (Audited ev))))
      })"

text \<open>Recording is quiet: it starts, completes, checks and executes nothing.\<close>

fun recording :: "effect \<Rightarrow> bool" where
  "recording (StepRecorded st x) = True"
| "recording (TraceSent e x) = True"
| "recording (Audited e x) = True"
| "recording _ = False"

lemma adds_Trace_Record: "adds recording (Trace_Record t r k s re m)"
  unfolding Trace_Record_def by (intro adds_rules) simp_all

lemma wp_Trace_Record [vcg]:
  "(\<And>a w l. list_all recording l \<Longrightarrow> Q a \<lparr>env = w, trail = trail s @ l\<rparr>) \<Longrightarrow>
     wp (Trace_Record t r k st re m) Q s"
  by (rule wp_adds [OF adds_Trace_Record])

subsection \<open>The traces kept in memory\<close>

record mem_trace_store =
  mt_max_runs :: int
  mt_runs :: "(string \<times> trace_run) list"
  mt_keys :: gomap
  mt_order :: "string list"

definition NewMemoryTraceStore :: "int \<Rightarrow> mem_trace_store" where
  "NewMemoryTraceStore maxRuns =
     \<lparr>mt_max_runs = (if maxRuns \<le> 0 then 256 else maxRuns), mt_runs = [], mt_keys = [], mt_order = []\<rparr>"

definition traceKey :: "trace_query \<Rightarrow> string" where
  "traceKey q =
     (if trim_space (tq_guild_id q) = [] \<or> trim_space (tq_channel_id q) = [] \<or>
         trim_space (tq_actor_user_id q) = [] then []
      else join '':'' [trim_space (tq_guild_id q), trim_space (tq_channel_id q),
        trim_space (tq_actor_user_id q)])"

definition traceRunKey :: "string \<Rightarrow> string \<Rightarrow> string" where
  "traceRunKey scopeKey runID = trim_space scopeKey @ '':'' @ trim_space runID"

definition drop_oldest :: "mem_trace_store \<Rightarrow> mem_trace_store" where
  "drop_oldest s =
     (let runKey = hd (mt_order s) in
      s\<lparr>mt_order := tl (mt_order s), mt_runs := AList.delete runKey (mt_runs s),
        mt_keys := filter (\<lambda>(k, v). v \<noteq> runKey) (mt_keys s)\<rparr>)"

function trimLocked :: "mem_trace_store \<Rightarrow> mem_trace_store" where
  "trimLocked s =
     (if mt_max_runs s > 0 \<and> int (length (mt_order s)) > mt_max_runs s
      then trimLocked (drop_oldest s) else s)"
  by pat_completeness auto
termination
  by (relation "measure (length \<circ> mt_order)") (auto simp: drop_oldest_def Let_def)

declare trimLocked.simps [simp del]

definition query_of :: "request \<Rightarrow> trace_query" where
  "query_of r = \<lparr>tq_guild_id = rq_guild_id r, tq_channel_id = rq_channel_id r,
     tq_actor_user_id = rq_actor_user_id r\<rparr>"

definition record_event :: "gotime \<Rightarrow> request \<Rightarrow> trace_event \<Rightarrow> string \<Rightarrow> mem_trace_store \<Rightarrow> mem_trace_store" where
  "record_event now request event0 key s =
     (let runKey = traceRunKey key (te_run_id event0);
          event = event0\<lparr>te_created_at := Some now\<rparr>;
          found = map_of (mt_runs s) runKey;
          run = (case found of
            Some run \<Rightarrow> run
          | None \<Rightarrow> \<lparr>tn_run_id = te_run_id event, tn_guild_id = trim_space (rq_guild_id request),
              tn_channel_id = trim_space (rq_channel_id request),
              tn_actor_user_id = trim_space (rq_actor_user_id request),
              tn_surface = safeAuditValue (rq_surface request), tn_status = [],
              tn_updated_at = 0, tn_events = []\<rparr>);
          order = (if found = None then mt_order s @ [runKey] else mt_order s);
          run' = run\<lparr>tn_status := te_status event, tn_updated_at := now,
            tn_events := tn_events run @ [event]\<rparr>
      in s\<lparr>mt_order := order, mt_runs := mput runKey run' (mt_runs s),
           mt_keys := mput key runKey (mt_keys s)\<rparr>)"

definition RecordTraceEvent ::
  "gotime \<Rightarrow> request \<Rightarrow> trace_event \<Rightarrow> mem_trace_store \<Rightarrow> mem_trace_store" where
  "RecordTraceEvent now request event s =
     (let key = traceKey (query_of request) in
      if key = [] \<or> trim_space (te_run_id event) = [] then s
      else trimLocked (record_event now request event key s))"

definition LastTrace :: "trace_query \<Rightarrow> mem_trace_store \<Rightarrow> trace_run option" where
  "LastTrace q s =
     (let key = traceKey q in
      if key = [] then None
      else case map_of (mt_keys s) key of
          None \<Rightarrow> None
        | Some runKey \<Rightarrow> map_of (mt_runs s) runKey)"

text \<open>The runs kept are those in the order list, oldest first; every key leads to a run kept.\<close>

definition mem_trace_ok :: "mem_trace_store \<Rightarrow> bool" where
  "mem_trace_ok s \<longleftrightarrow>
     distinct (mt_order s) \<and> wf_map (mt_runs s) \<and> wf_map (mt_keys s) \<and>
     fst ` set (mt_runs s) = set (mt_order s) \<and> snd ` set (mt_keys s) \<subseteq> set (mt_order s)"

lemma drop_oldest_ok:
  assumes "mem_trace_ok s" "mt_order s \<noteq> []"
  shows "mem_trace_ok (drop_oldest s)"
proof -
  obtain k ks where o: "mt_order s = k # ks" using assms(2) by (cases "mt_order s") auto
  have "map fst (AList.delete k (mt_runs s)) = removeAll k (map fst (mt_runs s))"
    by (rule delete_keys)
  then have "fst ` set (AList.delete k (mt_runs s)) = fst ` set (mt_runs s) - {k}"
    "wf_map (AList.delete k (mt_runs s))"
    using assms(1) by (metis set_map set_removeAll, simp add: mem_trace_ok_def distinct_removeAll)
  then show ?thesis
    using assms(1) o by (auto simp: mem_trace_ok_def drop_oldest_def Let_def distinct_map_filter)
qed

lemma trimLocked_ok:
  "mem_trace_ok s \<Longrightarrow> mem_trace_ok (trimLocked s) \<and> mt_max_runs (trimLocked s) = mt_max_runs s \<and>
     (mt_max_runs s > 0 \<longrightarrow> int (length (mt_order (trimLocked s))) \<le> mt_max_runs s)"
proof (induction s rule: trimLocked.induct)
  case (1 s)
  show ?case
  proof (cases "mt_max_runs s > 0 \<and> int (length (mt_order s)) > mt_max_runs s")
    case True
    then have "mem_trace_ok (drop_oldest s)" using drop_oldest_ok 1(2) by force
    then show ?thesis
      using "1.IH" [OF True] True by (simp add: trimLocked.simps [of s] drop_oldest_def Let_def)
  next
    case False
    then show ?thesis using 1(2) by (auto simp: trimLocked.simps [of s])
  qed
qed

text \<open>What the newest run and a key that leads to it keep when older runs are dropped.\<close>

lemma trimLocked_last:
  assumes "mem_trace_ok s" "mt_order s \<noteq> []" "map_of (mt_keys s) k = Some (last (mt_order s))"
  shows "map_of (mt_keys (trimLocked s)) k = Some (last (mt_order s)) \<and>
    map_of (mt_runs (trimLocked s)) (last (mt_order s)) = map_of (mt_runs s) (last (mt_order s))"
  using assms
proof (induction s rule: trimLocked.induct)
  case (1 s)
  show ?case
  proof (cases "mt_max_runs s > 0 \<and> int (length (mt_order s)) > mt_max_runs s")
    case True
    then obtain rk rks where o: "mt_order s = rk # rks" "rks \<noteq> []"
      by (cases "mt_order s") (auto, cases "tl (mt_order s)", auto)
    then have new: "last rks \<noteq> rk" using 1(2) last_in_set by (fastforce simp: mem_trace_ok_def)
    let ?d = "drop_oldest s"
    have "map_of (mt_keys ?d) k = Some (last rks)"
    proof (rule map_of_is_SomeI)
      show "wf_map (mt_keys ?d)"
        using 1(2) by (simp add: mem_trace_ok_def drop_oldest_def Let_def distinct_map_filter)
      show "(k, last rks) \<in> set (mt_keys ?d)"
        using map_of_SomeD [OF 1(4)] o new by (simp add: drop_oldest_def Let_def)
    qed
    moreover have "map_of (mt_runs ?d) (last rks) = map_of (mt_runs s) (last rks)"
      using o new by (simp add: drop_oldest_def Let_def delete_conv')
    moreover have "mt_order ?d = rks" using o by (simp add: drop_oldest_def Let_def)
    ultimately show ?thesis
      using "1.IH" [OF True] drop_oldest_ok [OF 1(2,3)] o True by (simp add: trimLocked.simps [of s])
  next
    case False
    then show ?thesis using 1 by (auto simp: trimLocked.simps [of s])
  qed
qed

lemma record_event_ok:
  assumes "mem_trace_ok s"
  shows "mem_trace_ok (record_event now r e k s)"
proof -
  let ?rk = "traceRunKey k (te_run_id e)"
  have *: "snd ` set (mput k rk m) \<subseteq> insert rk (snd ` set m)" for rk :: string and m
    by (induction m) auto
  have keys: "snd ` set (mput k ?rk (mt_keys s)) \<subseteq> insert ?rk (set (mt_order s))"
    by (rule subset_trans [OF *]) (use assms in \<open>auto simp: mem_trace_ok_def\<close>)
  have runs: "fst ` set (mput ?rk x (mt_runs s)) = insert ?rk (set (mt_order s))" for x
    using assms dom_update [of ?rk x "mt_runs s"]
    by (simp add: dom_map_of_conv_image_fst mem_trace_ok_def)
  have "(map_of (mt_runs s) ?rk = None) = (?rk \<notin> set (mt_order s))"
    using assms by (auto simp: mem_trace_ok_def map_of_eq_None_iff)
  then show ?thesis
    using assms keys runs
    by (auto simp: mem_trace_ok_def record_event_def Let_def distinct_update insert_absorb
        split: if_splits option.splits)
qed

lemma record_event_length:
  "length (mt_order (record_event now r e k s)) \<le> Suc (length (mt_order s))"
  "mt_max_runs (record_event now r e k s) = mt_max_runs s"
  by (simp_all add: record_event_def Let_def)

text \<open>Every state of the store that recording can reach from a new one.\<close>

inductive mem_trace_reach :: "int \<Rightarrow> mem_trace_store \<Rightarrow> bool" for n where
  new: "mem_trace_reach n (NewMemoryTraceStore n)"
| recorded: "mem_trace_reach n s \<Longrightarrow> mem_trace_reach n (RecordTraceEvent now r e s)"

lemma mem_trace_reach_ok:
  "mem_trace_reach n s \<Longrightarrow> mem_trace_ok s \<and> mt_max_runs s = (if n \<le> 0 then 256 else n) \<and>
     int (length (mt_order s)) \<le> mt_max_runs s"
proof (induction rule: mem_trace_reach.induct)
  case new
  then show ?case by (simp add: NewMemoryTraceStore_def mem_trace_ok_def)
next
  case (recorded s now r e)
  let ?k = "traceKey (query_of r)"
  show ?case
    using recorded trimLocked_ok [OF record_event_ok [of s now r e ?k]]
    by (auto simp: RecordTraceEvent_def Let_def record_event_length)
qed

text \<open>Right after an event is recorded, its run is there with the event at its end.\<close>

lemma record_event_run:
  "\<exists>run. map_of (mt_runs (record_event now r e k s)) (traceRunKey k (te_run_id e)) = Some run \<and>
     last (tn_events run) = e\<lparr>te_created_at := Some now\<rparr> \<and> tn_status run = te_status e"
  by (auto simp: record_event_def Let_def update_conv')

lemma LastTrace_recorded:
  assumes "mem_trace_reach n s" "traceKey (query_of r) \<noteq> []" "trim_space (te_run_id e) \<noteq> []"
  shows "\<exists>run. LastTrace (query_of r) (RecordTraceEvent now r e s) = Some run \<and>
    last (tn_events run) = e\<lparr>te_created_at := Some now\<rparr> \<and> tn_status run = te_status e"
proof -
  let ?k = "traceKey (query_of r)" and ?rk = "traceRunKey (traceKey (query_of r)) (te_run_id e)"
  let ?s = "record_event now r e ?k s"
  note ok = mem_trace_reach_ok [OF assms(1)]
  have key: "map_of (mt_keys ?s) ?k = Some ?rk"
    by (simp add: record_event_def Let_def update_conv')
  have kept: "map_of (mt_keys (trimLocked ?s)) ?k = Some ?rk \<and>
      map_of (mt_runs (trimLocked ?s)) ?rk = map_of (mt_runs ?s) ?rk"
  proof (cases "map_of (mt_runs s) ?rk")
    case None
    then have "mt_order ?s = mt_order s @ [?rk]" by (simp add: record_event_def Let_def)
    then show ?thesis
      using trimLocked_last [OF record_event_ok [OF ok [THEN conjunct1]], of now r e ?k ?k] key by simp
  next
    case (Some run)
    then have "mt_order ?s = mt_order s" by (simp add: record_event_def Let_def)
    then have "trimLocked ?s = ?s"
      using ok by (simp add: trimLocked.simps [of ?s] record_event_length)
    then show ?thesis using key by simp
  qed
  have "RecordTraceEvent now r e s = trimLocked ?s"
    using assms(2,3) by (simp add: RecordTraceEvent_def Let_def)
  then show ?thesis
    using record_event_run [of now r e ?k s] kept assms(2) by (simp add: LastTrace_def Let_def)
qed

text \<open>
  The trace store is bounded and current. In every state recording can reach it holds at most the
  configured number of runs (256 by default), each once, and every conversation's key leads to one of
  them; and right after an event of an identified run and conversation is recorded, the last trace of the
  conversation is a run that ends with this event, whatever older runs had to go.
\<close>

theorem trace_store_bounded_and_current:
  assumes "mem_trace_reach n s"
  shows "int (length (mt_runs s)) \<le> (if n \<le> 0 then 256 else n) \<and>
    (\<forall>k rk. map_of (mt_keys s) k = Some rk \<longrightarrow> map_of (mt_runs s) rk \<noteq> None) \<and>
    (traceKey (query_of r) \<noteq> [] \<and> trim_space (te_run_id e) \<noteq> [] \<longrightarrow>
       (\<exists>run. LastTrace (query_of r) (RecordTraceEvent now r e s) = Some run \<and>
          last (tn_events run) = e\<lparr>te_created_at := Some now\<rparr> \<and> tn_status run = te_status e))"
proof -
  note ok = mem_trace_reach_ok [OF assms]
  have "length (mt_runs s) = card (set (mt_order s))"
    using ok distinct_card [of "map fst (mt_runs s)"] by (simp add: mem_trace_ok_def)
  then have "int (length (mt_runs s)) \<le> (if n \<le> 0 then 256 else n)"
    using ok by (simp add: mem_trace_ok_def distinct_card)
  moreover have "map_of (mt_runs s) rk \<noteq> None" if "map_of (mt_keys s) k = Some rk" for k rk
    using ok map_of_SomeD [OF that] by (force simp: mem_trace_ok_def map_of_eq_None_iff)
  ultimately show ?thesis using LastTrace_recorded [OF assms] by blast
qed

lemma trace_store_bounded_and_current_witness:
  "let q = \<lparr>tq_guild_id = ''g'', tq_channel_id = ''c'', tq_actor_user_id = ''u''\<rparr>;
       r = \<lparr>rq_surface = SurfaceGuildMention, rq_guild_id = ''g'', rq_channel_id = ''c'',
         rq_actor_user_id = ''u'', rq_role_ids = [], rq_has_administrator = False,
         rq_context_scope = [], rq_text = [], rq_raw_text = [], rq_prior_run = None,
         rq_context_pack = None\<rparr>;
       e = (trace_event_of (\<lparr>tx_recorder = None, tx_store = None, tx_sink = None, tx_source = [],
         tx_run_id = ''r1'', tx_step = 0\<rparr> :: run_db trace) ''agent.plan'' StatusSucceeded [] [(''run_id'', ''r1'')])
   in map_option (te_phase \<circ> last \<circ> tn_events)
        (LastTrace q (RecordTraceEvent 9 r e (NewMemoryTraceStore 1))) = Some ''plan''"
proof -
  define r where "r = \<lparr>rq_surface = SurfaceGuildMention, rq_guild_id = ''g'', rq_channel_id = ''c'',
         rq_actor_user_id = ''u'', rq_role_ids = [], rq_has_administrator = False,
         rq_context_scope = [], rq_text = [], rq_raw_text = [], rq_prior_run = None,
         rq_context_pack = None\<rparr>"
  define e where "e = trace_event_of (\<lparr>tx_recorder = None, tx_store = None, tx_sink = None,
    tx_source = [], tx_run_id = ''r1'', tx_step = 0\<rparr> :: run_db trace) ''agent.plan'' StatusSucceeded [] [(''run_id'', ''r1'')]"
  have "traceKey (query_of r) \<noteq> []" "trim_space (te_run_id e) \<noteq> []" "te_phase e = ''plan''"
    by (simp_all add: r_def e_def query_of_def traceKey_def trace_event_of_def tracePhase_def mget_def go_eval)
  then obtain run where "LastTrace (query_of r) (RecordTraceEvent 9 r e (NewMemoryTraceStore 1)) = Some run"
      "te_phase (last (tn_events run)) = ''plan''"
    using trace_store_bounded_and_current [OF mem_trace_reach.new [of 1], of r e 9] by force
  then show ?thesis by (auto simp: r_def e_def query_of_def)
qed

subsection \<open>What cleaning misses\<close>

text \<open>
  The metadata of a trace can show a secret. A value with an API key in backticks is not sensitive
  for \<^verbatim>\<open>IsSensitiveMetadata\<close>, so \<^verbatim>\<open>SanitizeMetadata\<close> keeps it; \<^verbatim>\<open>safeAuditValue\<close> then turns the backticks
  into quotes, and the trace event that reaches the sink carries a value that is sensitive by the
  program's own test.
\<close>

theorem trace_shows_quoted_key:
  "let key = [CHR 0x60] @ ''sk-live-1'' @ [CHR 0x60]; m = sanitizeTraceMetadata [(''arg_text'', key)]
   in \<not> IsSensitiveMetadata key \<and> map fst m = [''arg_text''] \<and>
      IsSensitiveMetadata (mget m ''arg_text'') \<and>
      map_of (te_details (trace_event_of t kind status reason (record_metadata t [(''arg_text'', key)]))) ''arg_text''
        = Some (mget m ''arg_text'')"
proof -
  let ?key = "[CHR 0x60] @ ''sk-live-1'' @ [CHR 0x60]" and ?safe = "[CHR 0x27] @ ''sk-live-1'' @ [CHR 0x27]"
  have clean: "\<not> IsSensitiveMetadata ?key" "\<not> IsSensitiveMetadata ''arg_text''" "IsSensitiveMetadata ?safe"
    by (simp_all add: sensitive_eval)
  then have m: "sanitizeTraceMetadata [(''arg_text'', ?key)] = [(''arg_text'', ?safe)]"
    by (simp add: sanitizeTraceMetadata_def SanitizeMetadata_def map_filter_simps sanitize_entry_def
        safeAuditValue_def go_eval)
  then have "map_of (traceEventDetails (record_metadata t [(''arg_text'', ?key)])) ''arg_text'' = Some ?safe"
    unfolding record_metadata_def m by (simp add: traceEventDetails_def Let_def)
  with m clean show ?thesis by (simp add: mget_def trace_event_of_def Let_def)
qed

end
