(* ===== verification/FollowUp.thy ===== *)
theory FollowUp
  imports AgentTypes "HOL-Library.Word"
begin

text \<open>
  \<^verbatim>\<open>internal/agent/followup.go\<close>, and the redaction \<^verbatim>\<open>internal/agent/executor.go\<close> applies before it saves:
  the snapshots of the last runs, one per conversation, kept in memory for a limited time and number.
  Times are nanoseconds; \<^verbatim>\<open>time.Time\<close>'s zero value is \<open>zero_time\<close>, \<^verbatim>\<open>Sub\<close> saturates at 64 bits.
\<close>

definition time_sub :: "gotime \<Rightarrow> gotime \<Rightarrow> int" where
  "time_sub t u = max (- (2 ^ 63)) (min (2 ^ 63 - 1) (t - u))"

record follow_up_entry =
  fe_snapshot :: run_snapshot
  fe_saved_at :: gotime
  fe_sequence :: "64 word"

record follow_up_store =
  fs_ttl :: int
  fs_max_entries :: int
  fs_sequence :: "64 word"
  fs_items :: "(string \<times> follow_up_entry) list"

text \<open>The \<^verbatim>\<open>FollowUpStore\<close> interface.\<close>

record 'w follow_ups =
  fu_load :: "request \<Rightarrow> 'w \<Rightarrow> run_snapshot option result \<times> 'w"
  fu_save :: "request \<Rightarrow> run_snapshot \<Rightarrow> 'w \<Rightarrow> unit result \<times> 'w"

definition new_follow_up_store :: "int \<Rightarrow> int \<Rightarrow> follow_up_store" where
  "new_follow_up_store ttl maxEntries =
     \<lparr>fs_ttl = ttl, fs_max_entries = maxEntries, fs_sequence = 0, fs_items = []\<rparr>"

definition NewMemoryFollowUpStore :: follow_up_store where
  "NewMemoryFollowUpStore = new_follow_up_store (30 * 60 * 1000000000) 1000"

definition followUpKey :: "request \<Rightarrow> string" where
  "followUpKey r =
     (if trim_space (rq_guild_id r) = [] \<or> trim_space (rq_channel_id r) = [] \<or>
         trim_space (rq_actor_user_id r) = [] then []
      else rq_guild_id r @ '':'' @ rq_channel_id r @ '':'' @ rq_actor_user_id r)"

definition expired :: "follow_up_store \<Rightarrow> follow_up_entry \<Rightarrow> gotime \<Rightarrow> bool" where
  "expired s entry now \<longleftrightarrow>
     \<not> fs_ttl s \<le> 0 \<and> fe_saved_at entry \<noteq> zero_time \<and> time_sub now (fe_saved_at entry) > fs_ttl s"

definition Load :: "gotime \<Rightarrow> request \<Rightarrow> follow_up_store \<Rightarrow> run_snapshot option \<times> follow_up_store" where
  "Load now r s =
     (let key = followUpKey r in
      if key = [] then (None, s)
      else case map_of (fs_items s) key of
          None \<Rightarrow> (None, s)
        | Some entry \<Rightarrow>
            if expired s entry now then (None, s\<lparr>fs_items := AList.delete key (fs_items s)\<rparr>)
            else (Some (copy_snapshot (fe_snapshot entry)), s))"

definition purgeLocked :: "gotime \<Rightarrow> follow_up_store \<Rightarrow> follow_up_store" where
  "purgeLocked now s = s\<lparr>fs_items := filter (\<lambda>(k, e). \<not> expired s e now) (fs_items s)\<rparr>"

text \<open>The inner loop of \<^verbatim>\<open>trimLocked\<close>: the key with the smallest sequence number.\<close>

definition oldest_step ::
  "string \<times> follow_up_entry \<Rightarrow> string \<times> 64 word \<Rightarrow> string \<times> 64 word" where
  "oldest_step kv acc =
     (if fst acc = [] \<or> fe_sequence (snd kv) < snd acc then (fst kv, fe_sequence (snd kv)) else acc)"

definition oldest_key :: "(string \<times> follow_up_entry) list \<Rightarrow> string" where
  "oldest_key items = fst (fold oldest_step items ([], 0))"

lemma fold_oldest:
  "fold oldest_step items acc = acc \<or>
     (\<exists>k e. (k, e) \<in> set items \<and> fold oldest_step items acc = (k, fe_sequence e))"
proof (induction items arbitrary: acc)
  case (Cons kv items)
  show ?case
    using Cons [of "oldest_step kv acc"] by (cases kv) (auto simp: oldest_step_def split: if_splits)
qed simp

lemma oldest_key_in: "oldest_key items \<noteq> [] \<Longrightarrow> oldest_key items \<in> fst ` set items"
  using fold_oldest [of items "([], 0)"] by (force simp: oldest_key_def)

lemma length_delete_less: "k \<in> fst ` set m \<Longrightarrow> length (AList.delete k m) < length m"
  by (induction m) (auto simp: AList.delete_eq intro: le_imp_less_Suc length_filter_le)

function trim_items :: "int \<Rightarrow> (string \<times> follow_up_entry) list \<Rightarrow> (string \<times> follow_up_entry) list" where
  "trim_items m items =
     (if int (length items) > m \<and> oldest_key items \<noteq> []
      then trim_items m (AList.delete (oldest_key items) items) else items)"
  by pat_completeness auto
termination
  by (relation "measure (length \<circ> snd)") (auto simp: length_delete_less oldest_key_in)

declare trim_items.simps [simp del]

definition trimLocked :: "follow_up_store \<Rightarrow> follow_up_store" where
  "trimLocked s = (if fs_max_entries s \<le> 0 then s
     else s\<lparr>fs_items := trim_items (fs_max_entries s) (fs_items s)\<rparr>)"

definition Save :: "gotime \<Rightarrow> request \<Rightarrow> run_snapshot \<Rightarrow> follow_up_store \<Rightarrow> follow_up_store" where
  "Save now r snapshot0 s =
     (let key = followUpKey r; snapshot = copy_snapshot snapshot0 in
      if key = [] then s
      else if rn_intent snapshot = [] \<and> rn_results snapshot = [] \<and> rn_response_text snapshot = [] then s
      else
        let snapshot' = (if rn_created_at snapshot = None then snapshot\<lparr>rn_created_at := Some now\<rparr> else snapshot);
            sequence = fs_sequence s + 1
        in trimLocked (purgeLocked now (s\<lparr>fs_sequence := sequence,
             fs_items := mput key \<lparr>fe_snapshot = snapshot', fe_saved_at = now, fe_sequence = sequence\<rparr>
               (fs_items s)\<rparr>)))"

subsection \<open>Redaction before saving\<close>

abbreviation ToolMemorySearch :: string where "ToolMemorySearch \<equiv> ''memory.search''"
abbreviation ToolMemoryRecent :: string where "ToolMemoryRecent \<equiv> ''memory.recent''"

definition shouldRedactFollowUpToolData :: "string \<Rightarrow> bool" where
  "shouldRedactFollowUpToolData toolName \<longleftrightarrow> toolName \<in> {ToolMemorySearch, ToolMemoryRecent}"

definition redactedFollowUpData :: "gomap option \<Rightarrow> gomap option" where
  "redactedFollowUpData data =
     (let d = (case data of None \<Rightarrow> [] | Some m \<Rightarrow> m);
          kept = map (\<lambda>k. (k, mget d k))
            (filter (\<lambda>k. mget d k \<noteq> []) [''count'', ''matches'', ''messages'', ''scope''])
      in if d = [] then None else if kept = [] then None else Some kept)"

definition redactedFollowUpSummary :: "tool_result \<Rightarrow> string" where
  "redactedFollowUpSummary r =
     (if tr_name r = ToolMemorySearch then ''Memory search results redacted from follow-up snapshot.''
      else if tr_name r = ToolMemoryRecent then ''Recent memory results redacted from follow-up snapshot.''
      else tr_summary r)"

definition redact_result :: "tool_result \<Rightarrow> tool_result \<times> bool" where
  "redact_result result =
     (let copied = copyToolResult result in
      if shouldRedactFollowUpToolData (tr_name copied) \<and> (tr_data copied \<noteq> None \<or> tr_summary copied \<noteq> [])
      then let r1 = copied\<lparr>tr_data := redactedFollowUpData (tr_data copied)\<rparr>
           in (r1\<lparr>tr_summary := redactedFollowUpSummary r1\<rparr>, True)
      else (copied, False))"

definition sanitizeFollowUpSnapshot :: "tool_result list \<Rightarrow> string \<Rightarrow> tool_result list \<times> string" where
  "sanitizeFollowUpSnapshot results responseText =
     (let rs = map redact_result results in
      (map fst rs, if list_ex snd rs then [] else responseText))"

subsection \<open>Which snapshots are kept\<close>

lemma fold_oldest_min:
  assumes "fst acc \<noteq> []" "\<forall>(k, e)\<in>set items. k \<noteq> []"
  shows "snd (fold oldest_step items acc) \<le> snd acc \<and>
    (\<forall>(k, e)\<in>set items. snd (fold oldest_step items acc) \<le> fe_sequence e)"
  using assms
proof (induction items arbitrary: acc)
  case (Cons kv items)
  obtain k e where [simp]: "kv = (k, e)" by (cases kv)
  have "fst (oldest_step kv acc) \<noteq> []" "\<forall>(k, e)\<in>set items. k \<noteq> []"
    using Cons.prems by (auto simp: oldest_step_def)
  note IH = Cons.IH [OF this]
  have "snd (oldest_step kv acc) \<le> snd acc" "snd (oldest_step kv acc) \<le> fe_sequence e"
    using Cons.prems(1) by (auto simp: oldest_step_def)
  with IH show ?case by (fastforce intro: order_trans)
qed simp

lemma oldest_key_min:
  assumes "items \<noteq> []" "\<forall>(k, e)\<in>set items. k \<noteq> []"
  shows "\<exists>e. (oldest_key items, e) \<in> set items \<and> (\<forall>(k', e')\<in>set items. fe_sequence e \<le> fe_sequence e')"
proof -
  obtain k0 e0 rest where items: "items = (k0, e0) # rest" using assms(1) by (cases items) auto
  have step: "oldest_step (k0, e0) ([], 0) = (k0, fe_sequence e0)" by (simp add: oldest_step_def)
  let ?f = "fold oldest_step rest (k0, fe_sequence e0)"
  have "snd ?f \<le> fe_sequence e0 \<and> (\<forall>(k, e)\<in>set rest. snd ?f \<le> fe_sequence e)"
    using fold_oldest_min [of "(k0, fe_sequence e0)" rest] assms(2) items by auto
  moreover have "\<exists>e. (fst ?f, e) \<in> set items \<and> snd ?f = fe_sequence e"
    using fold_oldest [of rest "(k0, fe_sequence e0)"] items by force
  ultimately show ?thesis using items step by (auto simp: oldest_key_def)
qed

lemma set_delete: "wf_map m \<Longrightarrow> set (AList.delete k m) = {(k', v) \<in> set m. k' \<noteq> k}"
  by (auto simp: AList.delete_eq)

lemma wf_delete: "wf_map m \<Longrightarrow> wf_map (AList.delete k m)"
  by (simp add: AList.delete_eq distinct_map_filter case_prod_unfold)

lemma length_delete: "wf_map m \<Longrightarrow> k \<in> fst ` set m \<Longrightarrow> length m = Suc (length (AList.delete k m))"
proof (induction m)
  case (Cons kv m)
  have "AList.delete k m = m" if "k \<notin> fst ` set m"
    using that by (force simp: AList.delete_eq filter_id_conv)
  then show ?case using Cons by (cases kv) auto
qed simp

lemma trim_items_props:
  assumes "wf_map items" "\<forall>(k, e)\<in>set items. k \<noteq> []" "0 < m"
  shows "set (trim_items m items) \<subseteq> set items \<and> wf_map (trim_items m items) \<and>
    int (length (trim_items m items)) = min m (int (length items)) \<and>
    (\<forall>(k, e)\<in>set items - set (trim_items m items). int (length (trim_items m items)) = m \<and>
       (\<forall>(k', e')\<in>set (trim_items m items). fe_sequence e \<le> fe_sequence e'))"
  using assms
proof (induction m items rule: trim_items.induct)
  case (1 m items)
  show ?case
  proof (cases "int (length items) > m \<and> oldest_key items \<noteq> []")
    case True
    let ?k = "oldest_key items"
    let ?d = "AList.delete ?k items"
    have items: "items \<noteq> []" using True "1.prems"(3) by auto
    obtain e where e: "(?k, e) \<in> set items" "\<forall>(k', e')\<in>set items. fe_sequence e \<le> fe_sequence e'"
      using oldest_key_min [OF items "1.prems"(2)] by blast
    have unique: "e' = e" if "(?k, e') \<in> set items" for e'
      using that e(1) "1.prems"(1) by (metis eq_key_imp_eq_value)
    have d: "set ?d = {(k', v) \<in> set items. k' \<noteq> ?k}" by (rule set_delete [OF "1.prems"(1)])
    have IH: "set (trim_items m ?d) \<subseteq> set ?d \<and> wf_map (trim_items m ?d) \<and>
        int (length (trim_items m ?d)) = min m (int (length ?d)) \<and>
        (\<forall>(k, e)\<in>set ?d - set (trim_items m ?d). int (length (trim_items m ?d)) = m \<and>
          (\<forall>(k', e')\<in>set (trim_items m ?d). fe_sequence e \<le> fe_sequence e'))"
      using "1.prems" d by (intro "1.IH" [OF True]) (auto intro: wf_delete)
    have eq: "trim_items m items = trim_items m ?d" using True by (simp add: trim_items.simps [of m items])
    have "length items = Suc (length ?d)"
      using length_delete [OF "1.prems"(1)] e(1) by force
    then have len: "int (length (trim_items m ?d)) = m" "m = min m (int (length items))"
      using IH True by auto
    have sub: "set (trim_items m ?d) \<subseteq> set items" using IH d by auto
    have "\<forall>(k', e')\<in>set (trim_items m ?d). fe_sequence e'' \<le> fe_sequence e'"
      if "(k, e'') \<in> set items - set (trim_items m ?d)" for k e''
    proof (cases "k = ?k")
      case True
      then have "e'' = e" using that unique by simp
      then show ?thesis using e(2) sub by blast
    next
      case False
      then have "(k, e'') \<in> set ?d - set (trim_items m ?d)" using that d by simp
      then show ?thesis using IH by blast
    qed
    then show ?thesis unfolding eq using IH sub len by (intro conjI) (simp, simp, simp, fast)
  next
    case False
    have "oldest_key items \<noteq> []" if "items \<noteq> []"
      using oldest_key_min [OF that "1.prems"(2)] "1.prems"(2) by fastforce
    then have "int (length items) \<le> m" using False "1.prems"(3) by force
    moreover have "trim_items m items = items" using False by (auto simp: trim_items.simps [of m items])
    ultimately show ?thesis using "1.prems" by simp
  qed
qed

text \<open>Copying twice is copying once.\<close>

lemma mput_new: "k \<notin> fst ` set m \<Longrightarrow> mput k v m = m @ [(k, v)]"
  by (induction m) auto

lemma mput_all_append: "wf_map (m @ kvs) \<Longrightarrow> mput_all kvs m = m @ kvs"
proof (induction kvs arbitrary: m)
  case (Cons kv kvs)
  then show ?case by (cases kv) (auto simp: mput_new)
qed simp

lemma copyContextState_idem: "copyContextState (copyContextState st) = copyContextState st"
proof -
  have eq: "copyContextState = copySeen" by (simp add: fun_eq_iff copyContextState_def copySeen_def)
  have "copySeen m = m" if m: "seen_clean m" for m
  proof -
    have "map (\<lambda>(k, v). (trim_space k, trim_space v)) m = m"
      using m by (intro map_idI) (auto simp: seen_clean_def)
    moreover have "filter (\<lambda>(k, v). k \<noteq> [] \<and> v \<noteq> []) m = m"
      using m by (intro filter_True) (auto simp: seen_clean_def)
    ultimately show ?thesis
      using m mput_all_append [of "[]" m] by (simp add: copySeen_def seen_clean_def)
  qed
  then show ?thesis by (simp add: eq seen_clean_copySeen)
qed

text \<open>The states of a store that loading and saving reach, with fewer than $2^{64}$ saves.\<close>

inductive follow_reach :: "int \<Rightarrow> int \<Rightarrow> follow_up_store \<Rightarrow> bool" for ttl m where
  new: "follow_reach ttl m (new_follow_up_store ttl m)"
| load: "follow_reach ttl m s \<Longrightarrow> follow_reach ttl m (snd (Load now r s))"
| save: "follow_reach ttl m s \<Longrightarrow> fs_sequence s \<noteq> - 1 \<Longrightarrow> follow_reach ttl m (Save now r snap s)"

definition follow_ok :: "int \<Rightarrow> int \<Rightarrow> follow_up_store \<Rightarrow> bool" where
  "follow_ok ttl m s \<longleftrightarrow> fs_ttl s = ttl \<and> fs_max_entries s = m \<and> wf_map (fs_items s) \<and>
     int (length (fs_items s)) \<le> m \<and>
     (\<forall>(k, e)\<in>set (fs_items s). k \<noteq> [] \<and> fe_sequence e \<le> fs_sequence s)"

text \<open>The items after a save that is not skipped, before the oldest are dropped.\<close>

definition saved_items ::
  "gotime \<Rightarrow> request \<Rightarrow> run_snapshot \<Rightarrow> follow_up_store \<Rightarrow> (string \<times> follow_up_entry) list" where
  "saved_items now r snap s =
     (let sn = copy_snapshot snap;
          sn' = (if rn_created_at sn = None then sn\<lparr>rn_created_at := Some now\<rparr> else sn)
      in filter (\<lambda>(k, e). \<not> expired s e now)
        (mput (followUpKey r) \<lparr>fe_snapshot = sn', fe_saved_at = now, fe_sequence = fs_sequence s + 1\<rparr> (fs_items s)))"

definition empty_snapshot :: "run_snapshot \<Rightarrow> bool" where
  "empty_snapshot snap \<longleftrightarrow> rn_intent (copy_snapshot snap) = [] \<and> rn_results snap = [] \<and>
     rn_response_text (copy_snapshot snap) = []"

lemma Save_eq:
  "Save now r snap s =
    (if followUpKey r = [] \<or> empty_snapshot snap then s
     else s\<lparr>fs_sequence := fs_sequence s + 1,
       fs_items := (if fs_max_entries s \<le> 0 then saved_items now r snap s
         else trim_items (fs_max_entries s) (saved_items now r snap s))\<rparr>)"
  by (simp add: Save_def Let_def empty_snapshot_def saved_items_def purgeLocked_def trimLocked_def
      expired_def copy_snapshot_def)

lemma word_less_Suc: "(w :: 64 word) \<noteq> - 1 \<Longrightarrow> w < w + 1"
  using unatSuc [of w] by (simp add: word_less_nat_alt add.commute eq_neg_iff_add_eq_0)

lemma saved_items_ok:
  assumes "follow_ok ttl m s" "followUpKey r \<noteq> []" "fs_sequence s \<noteq> - 1"
  shows "wf_map (saved_items now r snap s)"
    "\<forall>(k, e)\<in>set (saved_items now r snap s). k \<noteq> [] \<and> fe_sequence e \<le> fs_sequence s + 1"
    "(k, e) \<in> set (saved_items now r snap s) \<Longrightarrow> k \<noteq> followUpKey r \<Longrightarrow> fe_sequence e < fs_sequence s + 1"
proof -
  have upd: "set (mput k v m) \<subseteq> insert (k, v) (set m)" for k and v :: follow_up_entry and m
    by (induction m) auto
  have old: "k \<noteq> [] \<and> fe_sequence e < fs_sequence s + 1" if "(k, e) \<in> set (fs_items s)" for k e
    using that assms(1,3) word_less_Suc [of "fs_sequence s"] by (fastforce simp: follow_ok_def)
  show "wf_map (saved_items now r snap s)"
    using assms(1) by (simp add: saved_items_def Let_def follow_ok_def distinct_map_filter distinct_update)
  show "\<forall>(k, e)\<in>set (saved_items now r snap s). k \<noteq> [] \<and> fe_sequence e \<le> fs_sequence s + 1"
    using assms(2) upd [THEN subsetD] old
    by (fastforce simp: saved_items_def Let_def intro: less_imp_le)
  show "(k, e) \<in> set (saved_items now r snap s) \<Longrightarrow> k \<noteq> followUpKey r \<Longrightarrow> fe_sequence e < fs_sequence s + 1"
    using upd [THEN subsetD] old by (fastforce simp: saved_items_def Let_def)
qed

lemma follow_ok_Save:
  assumes "follow_ok ttl m s" "fs_sequence s \<noteq> - 1" "0 < m"
  shows "follow_ok ttl m (Save now r snap s)"
proof (cases "followUpKey r = [] \<or> empty_snapshot snap")
  case False
  let ?items = "saved_items now r snap s"
  note it = saved_items_ok [OF assms(1) _ assms(2), where r = r and now = now and snap = snap]
  have "wf_map ?items" "\<forall>(k, e)\<in>set ?items. k \<noteq> [] \<and> fe_sequence e \<le> fs_sequence s + 1"
    using it False by blast+
  moreover have "\<forall>(k, e)\<in>set ?items. k \<noteq> []" using calculation(2) by auto
  ultimately show ?thesis
    using False assms(1,3) trim_items_props [of ?items m]
    by (auto simp: Save_eq follow_ok_def)
qed (use assms in \<open>simp add: Save_eq\<close>)

lemma follow_ok_Load: "follow_ok ttl m s \<Longrightarrow> follow_ok ttl m (snd (Load now r s))"
proof -
  have "int (length (AList.delete k (fs_items s))) \<le> m" if "int (length (fs_items s)) \<le> m" for k
    unfolding AList.delete_eq by (rule order_trans [OF _ that]) simp
  then show "follow_ok ttl m s \<Longrightarrow> follow_ok ttl m (snd (Load now r s))"
    by (auto simp: Load_def Let_def follow_ok_def wf_delete set_delete split: option.split)
qed

lemma follow_reach_ok: "follow_reach ttl m s \<Longrightarrow> 0 < m \<Longrightarrow> follow_ok ttl m s"
proof (induction rule: follow_reach.induct)
  case new
  then show ?case by (simp add: follow_ok_def new_follow_up_store_def)
qed (simp_all add: follow_ok_Load follow_ok_Save)

text \<open>The entry just saved is the newest, so it stays.\<close>

lemma Save_entry:
  assumes "follow_ok ttl m s" "fs_sequence s \<noteq> - 1" "followUpKey r \<noteq> []" "\<not> empty_snapshot snap"
    "now \<noteq> zero_time" "0 < m" "0 < ttl"
  shows "\<exists>e. map_of (fs_items (Save now r snap s)) (followUpKey r) = Some e \<and> fe_saved_at e = now \<and>
    copy_snapshot (fe_snapshot e) = (copy_snapshot snap)\<lparr>rn_created_at :=
      (if rn_created_at snap = None then Some now else rn_created_at snap)\<rparr>"
proof -
  let ?items = "saved_items now r snap s" and ?k = "followUpKey r"
  let ?sn = "(copy_snapshot snap)\<lparr>rn_created_at := (if rn_created_at snap = None then Some now else rn_created_at snap)\<rparr>"
  let ?e = "\<lparr>fe_snapshot = ?sn, fe_saved_at = now, fe_sequence = fs_sequence s + 1\<rparr>"
  note it = saved_items_ok [OF assms(1,3,2), where now = now and snap = snap]
  have "(?k, ?e) \<in> set (mput ?k ?e (fs_items s))"
    using map_of_SomeD [of "mput ?k ?e (fs_items s)" ?k ?e] by (simp add: update_conv')
  moreover have "(if rn_created_at (copy_snapshot snap) = None then (copy_snapshot snap)\<lparr>rn_created_at := Some now\<rparr>
      else copy_snapshot snap) = ?sn"
    by (simp add: copy_snapshot_def)
  moreover have "\<not> expired s ?e now"
    using assms(1,7) by (simp add: expired_def time_sub_def follow_ok_def)
  ultimately have "(?k, ?e) \<in> set ?items" by (simp add: saved_items_def Let_def)
  have "\<forall>(k, e)\<in>set ?items. k \<noteq> []" using it(2) by auto
  note all = trim_items_props [OF it(1) this \<open>0 < m\<close>]
  then have props: "set (trim_items m ?items) \<subseteq> set ?items" "wf_map (trim_items m ?items)"
    by simp_all
  have full: "int (length (trim_items m ?items)) = m \<and>
       (\<forall>(k', e')\<in>set (trim_items m ?items). fs_sequence s + 1 \<le> fe_sequence e')"
    if "(?k, ?e) \<notin> set (trim_items m ?items)"
  proof -
    have "(?k, ?e) \<in> set ?items - set (trim_items m ?items)"
      using that \<open>(?k, ?e) \<in> set ?items\<close> by simp
    from all [THEN conjunct2, THEN conjunct2, THEN conjunct2, THEN bspec, OF this]
    show ?thesis by simp
  qed
  have "(?k, ?e) \<in> set (trim_items m ?items)"
  proof (rule ccontr)
    assume no: "(?k, ?e) \<notin> set (trim_items m ?items)"
    then obtain k' e' where k': "(k', e') \<in> set (trim_items m ?items)"
      using full assms(6) by (cases "trim_items m ?items") auto
    then have "fs_sequence s + 1 \<le> fe_sequence e'" "(k', e') \<in> set ?items"
      using props(1) full no by auto
    then have "k' = ?k" using it(3) by (meson not_le)
    then have "e' = ?e" using \<open>(k', e') \<in> set ?items\<close> \<open>(?k, ?e) \<in> set ?items\<close> it(1)
      by (metis eq_key_imp_eq_value)
    then show False using no k' \<open>k' = ?k\<close> by simp
  qed
  then have "map_of (trim_items m ?items) ?k = Some ?e"
    using props(2) by simp
  moreover have "copy_snapshot ?sn = ?sn"
    by (simp add: copy_snapshot_def copyToolResult_def copyContextState_idem)
  ultimately show ?thesis
    using assms(1,3,4,6) by (simp add: Save_eq follow_ok_def)
qed

lemma Load_entry:
  "map_of (fs_items s) (followUpKey r) = Some e \<Longrightarrow> followUpKey r \<noteq> [] \<Longrightarrow>
     fst (Load t r s) = (if expired s e t then None else Some (copy_snapshot (fe_snapshot e)))"
  by (simp add: Load_def Let_def)

text \<open>
  A follow-up finds the last run of its conversation until it expires. In every state that a store with
  time to live ttl and room for m snapshots reaches (the code's has 30 minutes and 1000) it holds at most
  m of them; after a run with something to keep is saved at time now, a load of the same conversation gives
  that snapshot (trimmed, with its time of creation) as long as at most ttl has passed, and nothing
  afterwards: the snapshot just saved is never the one dropped for room.
\<close>

theorem followup_saved_then_loaded:
  assumes "follow_reach ttl m s" "0 < ttl" "ttl < 2 ^ 63 - 1" "0 < m"
    and "fs_sequence s \<noteq> - 1" "followUpKey r \<noteq> []" "\<not> empty_snapshot snap" "now \<noteq> zero_time"
  shows "int (length (fs_items (Save now r snap s))) \<le> m \<and>
    fst (Load t r (Save now r snap s)) =
      (if t - now \<le> ttl
       then Some ((copy_snapshot snap)\<lparr>rn_created_at :=
         (if rn_created_at snap = None then Some now else rn_created_at snap)\<rparr>)
       else None)"
proof -
  note ok = follow_reach_ok [OF assms(1,4)]
  obtain e where e: "map_of (fs_items (Save now r snap s)) (followUpKey r) = Some e" "fe_saved_at e = now"
    "copy_snapshot (fe_snapshot e) = (copy_snapshot snap)\<lparr>rn_created_at :=
      (if rn_created_at snap = None then Some now else rn_created_at snap)\<rparr>"
    using Save_entry [OF ok assms(5-8,4,2)] by blast
  have ok': "follow_ok ttl m (Save now r snap s)" by (rule follow_ok_Save [OF ok assms(5,4)])
  then have "expired (Save now r snap s) e t \<longleftrightarrow> \<not> t - now \<le> ttl"
    using e(2) assms(2,3,8) by (auto simp: expired_def follow_ok_def time_sub_def)
  then show ?thesis
    using ok' by (simp add: Load_entry [OF e(1) assms(6)] e(3) follow_ok_def)
qed

text \<open>
  Room is made by dropping the oldest. When a save drops another conversation's snapshot that has not
  expired, the store is full, and everything it keeps was saved later.
\<close>

theorem followup_evicts_oldest:
  assumes "follow_reach ttl m s" "0 < m" "fs_sequence s \<noteq> - 1"
    and "(k, e) \<in> set (fs_items s)" "k \<noteq> followUpKey r" "\<not> expired s e now"
    and "(k, e) \<notin> set (fs_items (Save now r snap s))"
  shows "int (length (fs_items (Save now r snap s))) = m \<and>
    (\<forall>(k', e')\<in>set (fs_items (Save now r snap s)). fe_sequence e \<le> fe_sequence e')"
proof -
  note ok = follow_reach_ok [OF assms(1,2)]
  have go: "\<not> (followUpKey r = [] \<or> empty_snapshot snap)"
    using assms(4,7) by (auto simp: Save_eq split: if_splits)
  let ?items = "saved_items now r snap s"
  note it = saved_items_ok [OF ok _ assms(3), where r = r and now = now and snap = snap]
  have "(k, e) \<in> set (mput k' v m)" if "(k, e) \<in> set m" "k \<noteq> k'" for k' v and m :: "(string \<times> follow_up_entry) list"
    using that by (induction m) auto
  then have inn: "(k, e) \<in> set ?items"
    using assms(4-6) by (simp add: saved_items_def Let_def)
  have kept: "fs_items (Save now r snap s) = trim_items m ?items"
    using go ok assms(2) by (simp add: Save_eq follow_ok_def)
  have "\<forall>(k, e)\<in>set ?items. k \<noteq> []" using it(2) go by auto
  note all = trim_items_props [OF it(1) this assms(2)]
  have "(k, e) \<in> set ?items - set (trim_items m ?items)" using inn assms(7) kept by simp
  from all [THEN conjunct2, THEN conjunct2, THEN conjunct2, THEN bspec, OF _ this] go
  show ?thesis unfolding kept by auto
qed

text \<open>A store of room one, and two conversations.\<close>

definition sample_request :: "string \<Rightarrow> request" where
  "sample_request channel = \<lparr>rq_surface = SurfaceGuildMention, rq_guild_id = ''g'', rq_channel_id = channel,
     rq_actor_user_id = ''u'', rq_role_ids = [], rq_has_administrator = False, rq_context_scope = [],
     rq_text = [], rq_raw_text = [], rq_prior_run = None, rq_context_pack = None\<rparr>"

definition sample_snapshot :: run_snapshot where
  "sample_snapshot = \<lparr>rn_run_id = ''r1'', rn_intent = ''chat'', rn_results = [],
     rn_response_text = ''hello'', rn_context_state = [], rn_created_at = None\<rparr>"

lemmas follow_eval = go_eval sample_request_def sample_snapshot_def followUpKey_def empty_snapshot_def
  copy_snapshot_def copyContextState_def new_follow_up_store_def Save_eq saved_items_def expired_def
  zero_time_def time_sub_def trim_items.simps oldest_key_def oldest_step_def AList.delete_eq

lemma followup_saved_then_loaded_witness:
  "let s = Save 100 (sample_request ''c'') sample_snapshot (new_follow_up_store 50 1)
   in map_option rn_response_text (fst (Load 150 (sample_request ''c'') s)) = Some ''hello'' \<and>
      fst (Load 151 (sample_request ''c'') s) = None"
  using followup_saved_then_loaded [OF follow_reach.new [of 50 1], of "sample_request ''c''" sample_snapshot 100 150]
    followup_saved_then_loaded [OF follow_reach.new [of 50 1], of "sample_request ''c''" sample_snapshot 100 151]
  by (simp add: new_follow_up_store_def followUpKey_def sample_request_def empty_snapshot_def
      sample_snapshot_def copy_snapshot_def zero_time_def go_eval)

lemma followup_evicts_oldest_witness:
  "let s = Save 100 (sample_request ''c'') sample_snapshot (new_follow_up_store 50 1);
       s' = Save 101 (sample_request ''d'') sample_snapshot s
   in map fst (fs_items s) = [''g:c:u''] \<and> length (fs_items s') = 1 \<and>
      fe_sequence (snd (hd (fs_items s))) \<le> fe_sequence (snd (hd (fs_items s')))"
proof -
  define s where "s = Save 100 (sample_request ''c'') sample_snapshot (new_follow_up_store 50 1)"
  let ?s' = "Save 101 (sample_request ''d'') sample_snapshot s"
  have reach: "follow_reach 50 1 s"
    unfolding s_def by (intro follow_reach.intros) (simp add: new_follow_up_store_def)
  have items: "map fst (fs_items s) = [''g:c:u'']" "fs_sequence s \<noteq> - 1"
    "\<not> expired s (snd (hd (fs_items s))) 101" "map fst (fs_items ?s') = [''g:d:u'']"
    by (simp_all add: s_def follow_eval)
  then have k: "(''g:c:u'', snd (hd (fs_items s))) \<in> set (fs_items s)"
    "(''g:c:u'', snd (hd (fs_items s))) \<notin> set (fs_items ?s')"
    by auto
  have "\<forall>(k', e')\<in>set (fs_items ?s'). fe_sequence (snd (hd (fs_items s))) \<le> fe_sequence e'"
    using followup_evicts_oldest [OF reach _ items(2) k(1) _ items(3) k(2)]
    by (simp add: followUpKey_def sample_request_def go_eval)
  then show ?thesis
    using items unfolding Let_def s_def [symmetric] by (auto simp: map_eq_Cons_conv)
qed

subsection \<open>What the redaction keeps\<close>

text \<open>
  Nothing read from memory outlives the run. In the snapshot the executor saves, a result of the
  memory search and recent tools carries no text of its own: its summary is empty or a fixed sentence and
  its data has no key but the counts and the scope; and when there was such a result with content, the
  text of the answer is left out. Other results and answers are saved as they are.
\<close>

theorem memory_results_redacted:
  assumes "sanitizeFollowUpSnapshot results text = (rs, text')"
  shows "length rs = length results \<and>
    (\<forall>i < length results. let r = copyToolResult (results ! i); r' = rs ! i in
       tr_name r' = tr_name r \<and>
       (tr_name r \<notin> {ToolMemorySearch, ToolMemoryRecent} \<longrightarrow> r' = r) \<and>
       (tr_name r \<in> {ToolMemorySearch, ToolMemoryRecent} \<longrightarrow>
          tr_summary r' \<in> {[], ''Memory search results redacted from follow-up snapshot.'',
            ''Recent memory results redacted from follow-up snapshot.''} \<and>
          fst ` set (case tr_data r' of None \<Rightarrow> [] | Some d \<Rightarrow> d) \<subseteq>
            {''count'', ''matches'', ''messages'', ''scope''} \<and>
          (tr_data r \<noteq> None \<or> tr_summary r \<noteq> [] \<longrightarrow> text' = []))) \<and>
    text' \<in> {[], text}"
proof -
  have rs: "rs = map (fst \<circ> redact_result) results"
    and text': "text' = (if list_ex (snd \<circ> redact_result) results then [] else text)"
    using assms by (auto simp: sanitizeFollowUpSnapshot_def Let_def list_ex_iff)
  have keys: "fst ` set (case redactedFollowUpData d of None \<Rightarrow> [] | Some d \<Rightarrow> d) \<subseteq>
      {''count'', ''matches'', ''messages'', ''scope''}" for d
    by (auto simp: redactedFollowUpData_def Let_def)
  have one: "let r = copyToolResult x; r' = fst (redact_result x) in
       tr_name r' = tr_name r \<and>
       (tr_name r \<notin> {ToolMemorySearch, ToolMemoryRecent} \<longrightarrow> r' = r) \<and>
       (tr_name r \<in> {ToolMemorySearch, ToolMemoryRecent} \<longrightarrow>
          tr_summary r' \<in> {[], ''Memory search results redacted from follow-up snapshot.'',
            ''Recent memory results redacted from follow-up snapshot.''} \<and>
          fst ` set (case tr_data r' of None \<Rightarrow> [] | Some d \<Rightarrow> d) \<subseteq>
            {''count'', ''matches'', ''messages'', ''scope''} \<and>
          (tr_data r \<noteq> None \<or> tr_summary r \<noteq> [] \<longrightarrow> snd (redact_result x)))" for x
    using keys by (auto simp: redact_result_def Let_def shouldRedactFollowUpToolData_def
        redactedFollowUpSummary_def)
  have "snd (redact_result (results ! i)) \<Longrightarrow> text' = []" if "i < length results" for i
    using that nth_mem by (fastforce simp: text' list_ex_iff)
  then show ?thesis using one by (auto simp: rs text' Let_def) 
qed

lemma memory_results_redacted_witness:
  "let rs = [\<lparr>tr_name = ''memory.search'', tr_summary = ''bob said hi'',
         tr_data = Some [(''count'', ''1''), (''message_1'', ''hi'')]\<rparr>]
   in map tr_data (fst (sanitizeFollowUpSnapshot rs ''bob said hi'')) = [Some [(''count'', ''1'')]] \<and>
      snd (sanitizeFollowUpSnapshot rs ''bob said hi'') = []"
proof -
  define rs where "rs = [\<lparr>tr_name = ''memory.search'', tr_summary = ''bob said hi'',
         tr_data = Some [(''count'', ''1''), (''message_1'', ''hi'')]\<rparr>]"
  have "map tr_data (fst (sanitizeFollowUpSnapshot rs ''bob said hi'')) = [Some [(''count'', ''1'')]]"
    by (simp add: rs_def sanitizeFollowUpSnapshot_def redact_result_def copyToolResult_def
        shouldRedactFollowUpToolData_def redactedFollowUpData_def mget_def go_eval)
  moreover have "snd (sanitizeFollowUpSnapshot rs ''bob said hi'') = []"
    using memory_results_redacted [of rs "''bob said hi''", OF surjective_pairing]
    by (simp add: rs_def copyToolResult_def go_eval)
  ultimately show ?thesis by (simp add: rs_def Let_def)
qed

end
