(* ===== verification/AgentExecutor.thy ===== *)
theory AgentExecutor
  imports AgentTrace FollowUp
begin

text \<open>
  \<^verbatim>\<open>internal/agent/policy.go\<close> and \<^verbatim>\<open>internal/agent/executor.go\<close>: the routing policy, and the executor that
  runs the tool calls of a plan one after the other. A call that names no tool, a cancelled run, a write
  tool, a failed or denied permission check and a failing tool each end the run early; otherwise an
  answer is made of the results.
\<close>

subsection \<open>The routing policy\<close>

type_synonym 'w capability_checker =
  "subject \<Rightarrow> capability \<Rightarrow> 'w \<Rightarrow> (decision \<times> goerror option) \<times> 'w"

record 'w routing_policy =
  rp_policy :: "(string \<Rightarrow> 'w \<Rightarrow> guild_policy result \<times> 'w) option"
  rp_checker :: "'w capability_checker option"
  rp_required :: capability

definition Mode :: "'w routing_policy \<Rightarrow> string \<Rightarrow> ('w, tool_routing_mode result) agent" where
  "Mode p guildID =
     (case rp_policy p of
        None \<Rightarrow> State_Monad.return (Inr ToolRoutingOff)
      | Some guildPolicy \<Rightarrow> do {
          policy \<leftarrow> perform (guildPolicy guildID) (PolicyRead guildID);
          State_Monad.return (attempt policy (\<lambda>g. Inr (gp_tool_routing_mode g)))
        })"

definition subject_of :: "request \<Rightarrow> subject" where
  "subject_of r = \<lparr>sub_guild_id = rq_guild_id r, sub_user_id = rq_actor_user_id r,
     sub_role_ids = rq_role_ids r, sub_is_owner = False, sub_is_admin = rq_has_administrator r\<rparr>"

definition checkCapability ::
  "'w routing_policy \<Rightarrow> request \<Rightarrow> capability \<Rightarrow> ('w, decision \<times> goerror option) agent" where
  "checkCapability p request required =
     (case rp_checker p of
        None \<Rightarrow> State_Monad.return
          (\<lparr>allowed = False, dec_capability = required, dec_reason = ReasonStoreError\<rparr>,
           Some (Errorf ''capability checker is required''))
      | Some check \<Rightarrow>
          perform (check (subject_of request) required) (CapabilityChecked (subject_of request) required))"

definition public_action :: decision where
  "public_action = \<lparr>allowed = True, dec_capability = [], dec_reason = ReasonPublicAction\<rparr>"

definition CheckBeforePlan ::
  "'w routing_policy \<Rightarrow> request \<Rightarrow> ('w, decision \<times> goerror option) agent" where
  "CheckBeforePlan p request =
     (if rp_required p = [] then State_Monad.return (public_action, None)
      else checkCapability p request (rp_required p))"

definition CheckBeforeTool ::
  "'w routing_policy \<Rightarrow> request \<Rightarrow> tool_spec \<Rightarrow> ('w, decision \<times> goerror option) agent" where
  "CheckBeforeTool p request spec0 =
     (let spec = NormalizeToolSpec spec0 in
      if sp_capability spec = [] then State_Monad.return (public_action, None)
      else checkCapability p request (sp_capability spec))"

subsection \<open>Metadata\<close>

definition mergeMetadata :: "gomap list \<Rightarrow> gomap" where
  "mergeMetadata maps =
     mput_all (filter (\<lambda>(k, v). trim_space k \<noteq> [] \<and> trim_space v \<noteq> []) (concat maps)) []"

definition toolCallMetadata :: "tool_call \<Rightarrow> gomap" where
  "toolCallMetadata call =
     mput_all (List.map_filter
       (\<lambda>(key, value). if trim_space key = [] \<or> trim_space value = [] then None
          else Some (''arg_'' @ trim_space key, trim_space value))
       (sort_key fst (tc_args call))) []"

definition webSearchErrorKind :: "goerror \<Rightarrow> string" where
  "webSearchErrorKind err =
     (if errors_is err ErrSearchProviderChallenge then ''provider_challenge''
      else if errors_is err ErrBlockedHost then ''blocked_host''
      else if contains_sub (to_lower (error_text err)) ''status '' then ''provider_status''
      else if contains_sub (to_lower (error_text err)) ''api key'' then ''missing_provider_key''
      else ''provider_error'')"

abbreviation ToolWebSearch :: string where "ToolWebSearch \<equiv> ''web.search''"

definition toolFailureMetadata :: "string \<Rightarrow> goerror \<Rightarrow> gomap" where
  "toolFailureMetadata toolName err =
     (if toolName \<noteq> ToolWebSearch then []
      else
        [(''error_kind'', webSearchErrorKind err), (''error_message'', safeAuditValue (error_text err))] @
        (case search_error_provider err of
           None \<Rightarrow> []
         | Some p \<Rightarrow> if trim_space p = [] then [] else [(''error_provider'', trim_space p)]))"

definition toolResultMetadata :: "tool_result \<Rightarrow> gomap" where
  "toolResultMetadata r =
     (let entry = (\<lambda>name key d. if trim_space (mget d key) = [] then []
                     else [(name, trim_space (mget d key))])
      in (''result_summary'', tr_summary r) #
         (case tr_data r of
            None \<Rightarrow> []
          | Some d \<Rightarrow> entry ''result_count'' ''count'' d @ entry ''result_url'' ''url'' d @
              entry ''result_truncated'' ''truncated'' d))"

definition formatToolResults :: "tool_result list \<Rightarrow> string" where
  "formatToolResults results =
     (if results = [] then ''No agent tool results.''
      else
        let lns = filter (\<lambda>l. l \<noteq> []) (map (\<lambda>r. trim_space (tr_summary r)) results) in
        if lns = [] then ''Agent tools completed.'' else join [CHR 0x0A] lns)"

definition spec_metadata :: "tool_spec \<Rightarrow> gomap" where
  "spec_metadata spec =
     [(''tool'', safeAuditValue (sp_name spec)), (''kind'', safeAuditValue (sp_kind spec)),
      (''capability'', safeAuditValue (sp_capability spec))]"

subsection \<open>The executor\<close>

type_synonym 'w answerer = "request \<Rightarrow> plan \<Rightarrow> tool_result list \<Rightarrow> 'w \<Rightarrow> response result \<times> 'w"

text \<open>\<open>ex_confirmation_id\<close> is the value \<^verbatim>\<open>storage.NewID\<close> gives when a confirmation is created.\<close>

record 'w executor =
  ex_tools :: "'w registry"
  ex_answerer :: "'w answerer option"
  ex_skip_answer_reason :: string
  ex_policy :: "'w routing_policy"
  ex_trace :: "'w trace"
  ex_trace_step_offset :: int
  ex_follow_ups :: "'w follow_ups option"
  ex_confirmation_id :: string

definition traceRunCanceled :: "'w trace \<Rightarrow> ('w, bool result) agent" where
  "traceRunCanceled t =
     (case tx_store t of
        None \<Rightarrow> State_Monad.return (Inr False)
      | Some store \<Rightarrow>
          if tx_run_id t = [] then State_Monad.return (Inr False)
          else perform (IsRunCanceled store (tx_run_id t)) (CancelChecked (tx_run_id t)))"

definition createPendingConfirmation ::
  "string \<Rightarrow> 'w trace \<Rightarrow> request \<Rightarrow> int \<Rightarrow> tool_spec \<Rightarrow> tool_call \<Rightarrow> ('w, string result) agent" where
  "createPendingConfirmation newID t request stepIndex spec call =
     (case tx_store t of
        None \<Rightarrow> State_Monad.return (Inr [])
      | Some store \<Rightarrow>
          if tx_run_id t = [] then State_Monad.return (Inr [])
          else do {
            let payload = mput_all (map (\<lambda>(k, v). (''arg.'' @ k, v)) (tc_args call))
              [(''tool'', sp_name spec)];
            let confirmation = \<lparr>co_id = newID, co_run_id = tx_run_id t, co_step_index = stepIndex,
              co_status = ConfirmationStatusPending, co_tool_name = sp_name spec,
              co_payload = SanitizeMetadata payload, co_created_by = rq_actor_user_id request,
              co_resolved_by = [], co_expires_at = None\<rparr>;
            created \<leftarrow> perform (CreateConfirmation store confirmation) (ConfirmationCreated confirmation);
            State_Monad.return (attempt created (\<lambda>_. Inr newID))
          })"

definition requestContextState :: "request \<Rightarrow> session_state" where
  "requestContextState r = (case rq_context_pack r of None \<Rightarrow> [] | Some p \<Rightarrow> pk_next_state p)"

definition saveFollowUp ::
  "'w executor \<Rightarrow> request \<Rightarrow> plan \<Rightarrow> tool_result list \<Rightarrow> response \<Rightarrow> ('w, unit result) agent" where
  "saveFollowUp e request p results response =
     (case ex_follow_ups e of
        None \<Rightarrow> State_Monad.return (Inr ())
      | Some store \<Rightarrow>
          (case sanitizeFollowUpSnapshot results (rs_text response) of (results', text) \<Rightarrow>
             (let snapshot = \<lparr>rn_run_id = tx_run_id (ex_trace e), rn_intent = pl_intent p,
                rn_results = results', rn_response_text = text,
                rn_context_state = requestContextState request, rn_created_at = None\<rparr>
              in perform (fu_save store request snapshot) (FollowUpSaved request snapshot))))"

definition early :: "string \<Rightarrow> run_status \<Rightarrow> termination_reason \<Rightarrow> response" where
  "early text status reason = empty_response\<lparr>rs_text := text, rs_run_status := status,
     rs_termination_reason := reason\<rparr>"

text \<open>
  The loop over the tool calls, from the call of the given index; \<open>Inl\<close> is an early return, \<open>Inr\<close> the
  results of all the calls.
\<close>

fun execute_calls ::
  "'w executor \<Rightarrow> request \<Rightarrow> nat \<Rightarrow> tool_call list \<Rightarrow> tool_result list
     \<Rightarrow> ('w, response + tool_result list) agent" where
  "execute_calls e request index [] results = State_Monad.return (Inr results)"
| "execute_calls e request index (call # calls) results =
     (let tr = WithStep (ex_trace_step_offset e + int index + 1) (ex_trace e) in
      case Lookup (ex_tools e) (tc_name call) of
        Inl err \<Rightarrow> do {
          _ \<leftarrow> Trace_Record tr request ''agent.tool'' StatusFailed ''tool_failed''
            [(''tool'', safeAuditValue (tc_name call))];
          State_Monad.return (Inl (early ''Agent tool failed.'' RunStatusFailed TerminationExecutorFailed))
        }
      | Inr (tool, spec) \<Rightarrow> do {
          canceled \<leftarrow> traceRunCanceled tr;
          (case canceled of
             Inl err \<Rightarrow> do {
               _ \<leftarrow> Trace_Record tr request ''agent.tool'' StatusFailed ''cancel_check_failed''
                 [(''tool'', safeAuditValue (sp_name spec))];
               State_Monad.return
                 (Inl (early ''Agent run failed.'' RunStatusFailed TerminationExecutorFailed))
             }
           | Inr stop \<Rightarrow>
               if stop then State_Monad.return
                 (Inl (early ''Agent run was canceled.'' RunStatusCanceled TerminationCanceled))
               else if sp_kind spec = ToolKindWrite then do {
                 _ \<leftarrow> Trace_Record tr request ''agent.tool'' StatusDenied ''confirmation_required''
                   (spec_metadata spec);
                 created \<leftarrow> createPendingConfirmation (ex_confirmation_id e) tr request (int index + 1)
                   spec call;
                 (case created of
                    Inl err \<Rightarrow> do {
                      _ \<leftarrow> Trace_Record tr request ''agent.tool'' StatusFailed
                        ''confirmation_create_failed'' [(''tool'', safeAuditValue (sp_name spec))];
                      State_Monad.return
                        (Inl (early ''Agent confirmation failed.'' RunStatusFailed TerminationExecutorFailed))
                    }
                  | Inr confirmationID \<Rightarrow> State_Monad.return
                      (Inl ((early ''I can plan that, but confirmation is required before running it.''
                        RunStatusConfirmationRequired TerminationConfirmationRequired)
                        \<lparr>rs_confirmation_id := confirmationID\<rparr>)))
               }
               else do {
                 check \<leftarrow> CheckBeforeTool (ex_policy e) request spec;
                 (case check of (decision, err) \<Rightarrow>
                    if err \<noteq> None then do {
                      _ \<leftarrow> Trace_Record tr request ''agent.tool'' StatusFailed ''permission_check_failed''
                        (spec_metadata spec);
                      State_Monad.return
                        (Inl (early ''Permission check failed.'' RunStatusFailed TerminationPermissionFailed))
                    }
                    else if \<not> allowed decision then do {
                      _ \<leftarrow> Trace_Record tr request ''agent.tool'' StatusDenied ''permission_denied''
                        [(''tool'', safeAuditValue (sp_name spec)),
                         (''kind'', safeAuditValue (sp_kind spec)),
                         (''capability'', safeAuditValue (dec_capability decision)),
                         (''decision_reason'', safeAuditValue (dec_reason decision))];
                      State_Monad.return
                        (Inl (early ''Permission denied for agent tool.'' RunStatusDenied
                          TerminationPermissionDenied))
                    }
                    else do {
                      let call' = call\<lparr>tc_name := sp_name spec\<rparr>;
                      let metadata = mergeMetadata [spec_metadata spec, toolCallMetadata call'];
                      outcome \<leftarrow> perform (tl_execute tool request call') (ToolExecuted request spec call');
                      (case outcome of
                         Inl err \<Rightarrow> do {
                           _ \<leftarrow> Trace_Record tr request ''agent.tool'' StatusFailed ''tool_failed''
                             (mergeMetadata [metadata, toolFailureMetadata (sp_name spec) err]);
                           State_Monad.return
                             (Inl (early ''Agent tool failed.'' RunStatusFailed TerminationExecutorFailed))
                         }
                       | Inr result \<Rightarrow> do {
                           _ \<leftarrow> Trace_Record tr request ''agent.tool'' StatusSucceeded []
                             (mergeMetadata [metadata, toolResultMetadata result]);
                           execute_calls e request (Suc index) calls (results @ [result])
                         })
                    })
               })
        })"

definition answer_results ::
  "'w executor \<Rightarrow> request \<Rightarrow> plan \<Rightarrow> tool_result list \<Rightarrow> ('w, response) agent" where
  "answer_results e request p results =
     (let tr = WithStep (ex_trace_step_offset e + int (length (pl_tool_calls p)) + 1) (ex_trace e);
          intent = (''intent'', safeAuditValue (pl_intent p))
      in do {
        canceled \<leftarrow> traceRunCanceled tr;
        (case canceled of
           Inl err \<Rightarrow> do {
             _ \<leftarrow> Trace_Record tr request ''agent.answer'' StatusFailed ''cancel_check_failed'' [intent];
             State_Monad.return (early ''Agent run failed.'' RunStatusFailed TerminationExecutorFailed)
           }
         | Inr stop \<Rightarrow>
             if stop then State_Monad.return
               (early ''Agent run was canceled.'' RunStatusCanceled TerminationCanceled)
             else
               (case ex_answerer e of
                  None \<Rightarrow> do {
                    let response = empty_response\<lparr>rs_text := formatToolResults results,
                      rs_trace := [(''answer_mode'', ''fallback''), (''fallback_reason'', ''no_answerer'')]\<rparr>;
                    _ \<leftarrow> Trace_Record tr request ''agent.answer'' StatusSucceeded []
                      (mergeMetadata [[intent], rs_trace response]);
                    _ \<leftarrow> saveFollowUp e request p results response;
                    State_Monad.return response
                  }
                | Some answer \<Rightarrow>
                    if ex_skip_answer_reason e \<noteq> [] then do {
                      _ \<leftarrow> Trace_Record tr request ''agent.answer'' StatusFailed (ex_skip_answer_reason e)
                        [intent, (''answer_mode'', ''fallback''), (''fallback_reason'', ex_skip_answer_reason e)];
                      let response = early (formatToolResults results) RunStatusFailed TerminationLLMBudgetExceeded;
                      _ \<leftarrow> saveFollowUp e request p results response;
                      State_Monad.return response
                    }
                    else do {
                      outcome \<leftarrow> perform (answer request p results) (Answered request p results);
                      (case outcome of
                         Inl err \<Rightarrow> do {
                           _ \<leftarrow> Trace_Record tr request ''agent.answer'' StatusFailed ''answer_failed'' [intent];
                           State_Monad.return
                             (early ''Agent answer failed.'' RunStatusFailed TerminationExecutorFailed)
                         }
                       | Inr response \<Rightarrow> do {
                           _ \<leftarrow> Trace_Record tr request ''agent.answer'' StatusSucceeded []
                             (mergeMetadata [[intent], rs_trace response]);
                           _ \<leftarrow> saveFollowUp e request p results response;
                           State_Monad.return response
                         })
                    }))
      })"

text \<open>\<^verbatim>\<open>Executor.Execute\<close>; its error is always nil.\<close>

definition Execute :: "'w executor \<Rightarrow> request \<Rightarrow> plan \<Rightarrow> ('w, response) agent" where
  "Execute e request p = do {
     outcome \<leftarrow> execute_calls e request 0 (pl_tool_calls p) [];
     (case outcome of
        Inl response \<Rightarrow> State_Monad.return response
      | Inr results \<Rightarrow> answer_results e request p results)
   }"

end
