(* ===== verification/AgentRunner.thy ===== *)
theory AgentRunner
  imports AgentExecutor
begin

text \<open>
  \<^verbatim>\<open>internal/agent/runner.go\<close> and the handler of \<^verbatim>\<open>internal/agent/planning.go\<close>: one run of the agent,
  from the start recorded in the run store, over the routing policy, the permission to plan, the context
  and the planner, to the execution of the plan and the completion of the run. The definitions
  \<open>run_plan\<close>, \<open>run_context\<close> and \<open>run_routed\<close> are consecutive parts of \<^verbatim>\<open>Runner.Run\<close>; its error is always nil.
\<close>

record budget =
  bu_max_input_tokens :: int
  bu_max_output_tokens :: int
  bu_max_llm_calls :: int

record limits =
  li_max_steps :: int
  li_max_tool_calls :: int
  li_budget :: budget

type_synonym 'w planner = "request \<Rightarrow> tool_spec list \<Rightarrow> 'w \<Rightarrow> (plan \<times> bool) result \<times> 'w"
type_synonym 'w context_fetcher = "request \<Rightarrow> 'w \<Rightarrow> (pack \<times> goerror option) \<times> 'w"

text \<open>\<open>rr_new_run_id\<close> is what \<^verbatim>\<open>NewRunID\<close> returns, \<open>None\<close> without one; \<open>rr_generated_id\<close> what \<^verbatim>\<open>storage.NewID\<close> does.\<close>

record 'w runner =
  rr_planner :: "'w planner option"
  rr_context_fetcher :: "'w context_fetcher option"
  rr_policy :: "'w routing_policy"
  rr_executor :: "'w executor"
  rr_trace :: "'w trace"
  rr_limits :: limits
  rr_run_store :: "'w run_store option"
  rr_new_run_id :: "string option"
  rr_generated_id :: string

definition newRunID :: "'w runner \<Rightarrow> string" where
  "newRunID r = (case rr_new_run_id r of Some i \<Rightarrow> trim_space i | None \<Rightarrow> rr_generated_id r)"

definition maxToolCalls :: "'w runner \<Rightarrow> int" where
  "maxToolCalls r = (if li_max_tool_calls (rr_limits r) > 0 then li_max_tool_calls (rr_limits r) else 5)"

definition maxSteps :: "'w runner \<Rightarrow> int" where
  "maxSteps r = li_max_steps (rr_limits r)"

definition maxLLMCalls :: "'w runner \<Rightarrow> int" where
  "maxLLMCalls r = bu_max_llm_calls (li_budget (rr_limits r))"

definition capabilityMetadata :: "capability \<Rightarrow> gomap" where
  "capabilityMetadata required = (if required = [] then [] else [(''capability'', required)])"

definition plannedStepCount :: "plan \<Rightarrow> int" where
  "plannedStepCount p = 2 + int (length (pl_tool_calls p))"

definition isChannelContextScope :: "string \<Rightarrow> bool" where
  "isChannelContextScope scope \<longleftrightarrow>
     trim_space scope = ''channel'' \<or> trim_space scope = ''channel-auto''"

definition isOptionalContextScope :: "string \<Rightarrow> bool" where
  "isOptionalContextScope scope \<longleftrightarrow> trim_space scope = ''channel-auto''"

definition shouldFallThroughNoToolPlan :: "request \<Rightarrow> plan \<Rightarrow> bool" where
  "shouldFallThroughNoToolPlan r p =
     (if rq_context_pack r = None then True
      else isOptionalContextScope (rq_context_scope r) \<and>
        equal_fold (trim_space (pl_intent p)) ''chat'')"

definition contextFailureStatus :: "goerror \<Rightarrow> audit_status" where
  "contextFailureStatus err =
     (if errors_is err ErrContextPermissionDenied then StatusDenied else StatusFailed)"

definition contextFailureReason :: "goerror \<Rightarrow> string" where
  "contextFailureReason err =
     (if errors_is err ErrContextPermissionDenied then ''permission_denied'' else ''context_fetch_failed'')"

abbreviation SourceMemoryCurrentChannel :: string where
  "SourceMemoryCurrentChannel \<equiv> ''memory.current_channel''"

definition contextMetadata :: "pack \<Rightarrow> gomap" where
  "contextMetadata p =
     [(''scope'', ''channel''), (''source'', SourceMemoryCurrentChannel),
      (''snippets'', nat_str (length (pk_snippets p))), (''chars'', nat_str (pk_chars p)),
      (''truncated'', bool_str (pk_truncated p)), (''capability'', ''memory.read.guild'')]"

definition formatDryRunPlan :: "plan \<Rightarrow> string" where
  "formatDryRunPlan p =
     (if pl_tool_calls p = []
      then ''Planned agent response. LLM tool routing is in '' @ [CHR 0x60] @ ''dry-run'' @ [CHR 0x60] @ '' mode.''
      else ''Planned agent tools: '' @
        join '', '' (map (\<lambda>c. [CHR 0x60] @ trim_space (tc_name c) @ [CHR 0x60]) (pl_tool_calls p)) @
        ''. LLM tool routing is in '' @ [CHR 0x60] @ ''dry-run'' @ [CHR 0x60] @ '' mode.'')"

definition executionTermination :: "response \<Rightarrow> run_status \<times> termination_reason" where
  "executionTermination response =
     (if rs_run_status response \<noteq> []
      then (rs_run_status response,
        if rs_termination_reason response = [] then TerminationCompleted
        else rs_termination_reason response)
      else (RunStatusSucceeded, TerminationCompleted))"

definition completeRun ::
  "'w runner \<Rightarrow> string \<Rightarrow> bool \<Rightarrow> run_status \<Rightarrow> termination_reason \<Rightarrow> response \<Rightarrow> bool
     \<Rightarrow> ('w, response \<times> bool) agent" where
  "completeRun r runID started status reason response handled = do {
     _ \<leftarrow> (case rr_run_store r of
         None \<Rightarrow> State_Monad.return (Inr ())
       | Some store \<Rightarrow>
           if started then perform (CompleteRun store runID status reason) (RunCompleted runID status reason)
           else State_Monad.return (Inr ()));
     State_Monad.return (response\<lparr>rs_run_id := runID, rs_run_status := status,
       rs_termination_reason := reason\<rparr>, handled)
   }"

text \<open>What \<^verbatim>\<open>Run\<close> does with the planner and its plan.\<close>

definition plan_metadata :: "tool_routing_mode \<Rightarrow> gomap" where
  "plan_metadata mode = [(''routing_mode'', safeAuditValue mode)]"

definition run_plan ::
  "'w runner \<Rightarrow> string \<Rightarrow> bool \<Rightarrow> tool_routing_mode \<Rightarrow> 'w trace \<Rightarrow> 'w executor \<Rightarrow> request
     \<Rightarrow> ('w, response \<times> bool) agent" where
  "run_plan r runID started mode tr executor request =
     (case rr_planner r of
        None \<Rightarrow> State_Monad.return (empty_response, False)
      | Some planner \<Rightarrow> do {
          planned \<leftarrow> perform (planner request (Specs (ex_tools executor)))
            (Planned request (Specs (ex_tools executor)));
          (case planned of
             Inl err \<Rightarrow> do {
               _ \<leftarrow> Trace_Record tr request ''agent.plan'' StatusFailed ''planner_failed'' (plan_metadata mode);
               completeRun r runID started RunStatusFailed TerminationPlannerFailed
                 (text_response ''Agent routing failed.'') True
             }
           | Inr (p, ok) \<Rightarrow>
               (let intent = (''intent'', safeAuditValue (pl_intent p));
                    record_plan = (\<lambda>status reason extra. Trace_Record tr request ''agent.plan'' status reason
                      (mergeMetadata [plan_metadata mode, pl_trace p, extra]))
                in
                if \<not> ok then do {
                  _ \<leftarrow> record_plan StatusSucceeded ''no_plan'' [(''planner'', ''agent''), intent];
                  completeRun r runID started RunStatusSucceeded TerminationIgnored empty_response False
                }
                else if trim_space (pl_clarifying_question p) \<noteq> [] then do {
                  _ \<leftarrow> record_plan StatusSucceeded ''clarify'' [intent];
                  completeRun r runID started RunStatusSucceeded TerminationClarify
                    (text_response (pl_clarifying_question p)) True
                }
                else if pl_requires_confirmation p then do {
                  _ \<leftarrow> record_plan StatusSucceeded ''confirmation_required'' [intent];
                  completeRun r runID started RunStatusConfirmationRequired TerminationConfirmationRequired
                    (text_response ''I can plan that, but confirmation is required before running it.'') True
                }
                else if pl_tool_calls p = [] \<and> rq_prior_run request = None \<and>
                  shouldFallThroughNoToolPlan request p then do {
                  _ \<leftarrow> record_plan StatusSucceeded ''no_tools'' [intent, (''planner'', ''agent'')];
                  completeRun r runID started RunStatusSucceeded TerminationIgnored empty_response False
                }
                else if mode = ToolRoutingDryRun then do {
                  _ \<leftarrow> record_plan StatusSucceeded ''dry_run'' [intent];
                  completeRun r runID started RunStatusDryRun TerminationDryRun
                    (text_response (formatDryRunPlan p)) True
                }
                else if maxSteps r > 0 \<and> plannedStepCount p + ex_trace_step_offset executor > maxSteps r then do {
                  _ \<leftarrow> record_plan StatusFailed ''step_budget_exceeded'' [intent];
                  completeRun r runID started RunStatusFailed TerminationStepBudgetExceeded
                    (text_response ''Agent step budget exceeded.'') True
                }
                else if maxToolCalls r > 0 \<and> int (length (pl_tool_calls p)) > maxToolCalls r then do {
                  _ \<leftarrow> record_plan StatusFailed ''tool_budget_exceeded'' [intent];
                  completeRun r runID started RunStatusFailed TerminationToolBudgetExceeded
                    (text_response ''Agent tool budget exceeded.'') True
                }
                else do {
                  _ \<leftarrow> record_plan StatusSucceeded [] [intent, (''planner'', ''agent'')];
                  response \<leftarrow> Execute executor request p;
                  (case executionTermination response of (status, reason) \<Rightarrow>
                     completeRun r runID started status reason response True)
                }))
        })"

text \<open>The context of the channel, when the scope asks for it.\<close>

definition run_context ::
  "'w runner \<Rightarrow> string \<Rightarrow> bool \<Rightarrow> tool_routing_mode \<Rightarrow> 'w trace \<Rightarrow> 'w executor \<Rightarrow> request
     \<Rightarrow> ('w, response \<times> bool) agent" where
  "run_context r runID started mode tr executor request =
     (case (if isChannelContextScope (rq_context_scope request) \<and> rq_context_pack request = None
            then rr_context_fetcher r else None) of
        None \<Rightarrow> run_plan r runID started mode tr executor request
      | Some fetch \<Rightarrow> do {
          fetched \<leftarrow> perform (fetch request) (ContextFetched request);
          (case fetched of (p, err) \<Rightarrow>
             (let metadata = contextMetadata p; tr1 = WithStep 1 tr;
                  executor1 = executor\<lparr>ex_trace_step_offset := 1\<rparr>
              in case err of
                 Some e \<Rightarrow>
                   if isOptionalContextScope (rq_context_scope request) then do {
                     _ \<leftarrow> Trace_Record tr1 request ''agent.context'' (contextFailureStatus e)
                       (contextFailureReason e) metadata;
                     run_plan r runID started mode tr executor1 request
                   }
                   else if errors_is e ErrContextPermissionDenied then do {
                     _ \<leftarrow> Trace_Record tr1 request ''agent.context'' StatusDenied ''permission_denied'' metadata;
                     completeRun r runID started RunStatusDenied TerminationPermissionDenied
                       (text_response ''Permission denied for agent context.'') True
                   }
                   else do {
                     _ \<leftarrow> Trace_Record tr1 request ''agent.context'' StatusFailed ''context_fetch_failed'' metadata;
                     completeRun r runID started RunStatusFailed TerminationExecutorFailed
                       (text_response ''Agent context fetch failed.'') True
                   }
               | None \<Rightarrow> (let request1 = request\<lparr>rq_context_pack := Some p\<rparr> in do {
                   _ \<leftarrow> Trace_Record tr1 request1 ''agent.context'' StatusSucceeded [] metadata;
                   run_plan r runID started mode tr executor1 request1
                 })))
        })"

text \<open>The routing mode and the permission to plan.\<close>

definition run_routed ::
  "'w runner \<Rightarrow> string \<Rightarrow> bool \<Rightarrow> 'w trace \<Rightarrow> 'w executor \<Rightarrow> request \<Rightarrow> ('w, response \<times> bool) agent" where
  "run_routed r runID started tr executor request = do {
     routing \<leftarrow> Mode (rr_policy r) (rq_guild_id request);
     (case routing of
        Inl err \<Rightarrow> do {
          _ \<leftarrow> Trace_Record tr request ''agent.plan'' StatusFailed ''routing_policy_failed'' [];
          completeRun r runID started RunStatusFailed TerminationRoutingPolicyFailed
            (text_response ''Agent routing failed.'') True
        }
      | Inr mode \<Rightarrow>
          if mode = ToolRoutingOff then
            completeRun r runID started RunStatusSucceeded TerminationRoutingOff empty_response False
          else do {
            check \<leftarrow> CheckBeforePlan (rr_policy r) request;
            (let metadata = mergeMetadata [plan_metadata mode, capabilityMetadata (rp_required (rr_policy r))] in
             case check of (decision, err) \<Rightarrow>
               if err \<noteq> None then do {
                 _ \<leftarrow> Trace_Record tr request ''agent.plan'' StatusFailed (dec_reason decision) metadata;
                 completeRun r runID started RunStatusFailed TerminationPermissionFailed
                   (text_response ''Permission check failed.'') True
               }
               else if \<not> allowed decision then do {
                 _ \<leftarrow> Trace_Record tr request ''agent.plan'' StatusDenied (dec_reason decision) metadata;
                 completeRun r runID started RunStatusDenied TerminationPermissionDenied
                   (text_response ''Permission denied for agent tools.'') True
               }
               else run_context r runID started mode tr executor request)
          })
   }"

definition start_record :: "'w runner \<Rightarrow> string \<Rightarrow> request \<Rightarrow> run_record" where
  "start_record r runID request =
     \<lparr>ru_id = runID, ru_guild_id = rq_guild_id request, ru_channel_id = rq_channel_id request,
      ru_actor_user_id = rq_actor_user_id request, ru_surface = rq_surface request,
      ru_context_scope = rq_context_scope request, ru_status = RunStatusRunning,
      ru_max_steps = maxSteps r, ru_max_tool_calls = maxToolCalls r, ru_max_llm_calls = maxLLMCalls r,
      ru_max_input_tokens = bu_max_input_tokens (li_budget (rr_limits r)),
      ru_max_output_tokens = bu_max_output_tokens (li_budget (rr_limits r))\<rparr>"

definition run_trace :: "'w runner \<Rightarrow> 'w trace" where
  "run_trace r = (WithRunID (newRunID r) (rr_trace r))\<lparr>tx_store := rr_run_store r\<rparr>"

definition run_executor :: "'w runner \<Rightarrow> 'w executor" where
  "run_executor r =
     (let e = (rr_executor r)\<lparr>ex_trace := inherit (run_trace r) (ex_trace (rr_executor r))\<rparr> in
      if ex_answerer e \<noteq> None \<and> maxLLMCalls r > 0 \<and> maxLLMCalls r < 2
      then e\<lparr>ex_skip_answer_reason := ''llm_budget_exceeded''\<rparr> else e)"

definition Run :: "'w runner \<Rightarrow> request \<Rightarrow> ('w, response \<times> bool) agent" where
  "Run r request =
     (let runID = newRunID r; tr = run_trace r; executor = run_executor r in
      if rr_planner r = None \<or> rq_surface request \<noteq> SurfaceGuildMention \<or> rq_guild_id request = []
      then State_Monad.return (empty_response, False)
      else if rq_context_scope request = ''none'' then State_Monad.return (empty_response, False)
      else case rr_run_store r of
          None \<Rightarrow> run_routed r runID False tr executor request
        | Some store \<Rightarrow> do {
            started \<leftarrow> perform (StartRun store (start_record r runID request))
              (RunStarted (start_record r runID request));
            (case started of
               Inl err \<Rightarrow> State_Monad.return (text_response ''Agent run failed.'', True)
             | Inr _ \<Rightarrow> do {
                 canceled \<leftarrow> perform (IsRunCanceled store runID) (CancelChecked runID);
                 (case canceled of
                    Inl err \<Rightarrow> completeRun r runID True RunStatusFailed TerminationCanceled
                      (text_response ''Agent run failed.'') True
                  | Inr stop \<Rightarrow>
                      if stop then completeRun r runID True RunStatusCanceled TerminationCanceled
                        (text_response ''Agent run was canceled.'') True
                      else run_routed r runID True tr executor request)
               })
          })"

subsection \<open>The handler\<close>

record 'w planning_handler =
  ph_planner :: "'w planner option"
  ph_tools :: "'w registry"
  ph_answerer :: "'w answerer option"
  ph_context_fetcher :: "'w context_fetcher option"
  ph_policy :: "(string \<Rightarrow> 'w \<Rightarrow> guild_policy result \<times> 'w) option"
  ph_checker :: "'w capability_checker option"
  ph_recorder :: "'w audit_recorder option"
  ph_required :: capability
  ph_limits :: limits
  ph_new_run_id :: "string option"
  ph_follow_ups :: "'w follow_ups option"
  ph_run_store :: "'w run_store option"
  ph_trace_sink :: "'w trace_sink option"
  ph_generated_id :: string
  ph_confirmation_id :: string

definition handler_runner :: "'w planning_handler \<Rightarrow> 'w trace_sink option \<Rightarrow> 'w runner" where
  "handler_runner h request_sink =
     (let sink = (case request_sink of
            None \<Rightarrow> ph_trace_sink h
          | Some s \<Rightarrow> Some (MultiTraceSink [ph_trace_sink h, Some s]));
          tr = \<lparr>tx_recorder = ph_recorder h, tx_store = None, tx_sink = sink, tx_source = ''agent'',
            tx_run_id = [], tx_step = 0\<rparr>;
          policy = \<lparr>rp_policy = ph_policy h, rp_checker = ph_checker h, rp_required = ph_required h\<rparr>
      in \<lparr>rr_planner = ph_planner h, rr_context_fetcher = ph_context_fetcher h, rr_policy = policy,
          rr_executor = \<lparr>ex_tools = ph_tools h, ex_answerer = ph_answerer h, ex_skip_answer_reason = [],
            ex_policy = policy, ex_trace = tr, ex_trace_step_offset = 0,
            ex_follow_ups = ph_follow_ups h, ex_confirmation_id = ph_confirmation_id h\<rparr>,
          rr_trace = tr, rr_limits = ph_limits h, rr_run_store = ph_run_store h,
          rr_new_run_id = ph_new_run_id h, rr_generated_id = ph_generated_id h\<rparr>)"

definition HandleAgentRequest ::
  "'w planning_handler \<Rightarrow> 'w trace_sink option \<Rightarrow> request \<Rightarrow> ('w, response \<times> bool) agent" where
  "HandleAgentRequest h request_sink request =
     (case (if rq_prior_run request = None then ph_follow_ups h else None) of
        None \<Rightarrow> Run (handler_runner h request_sink) request
      | Some store \<Rightarrow> do {
          loaded \<leftarrow> perform (fu_load store request) (FollowUpLoaded request);
          (case loaded of
             Inl err \<Rightarrow> State_Monad.return (text_response ''Agent context failed.'', True)
           | Inr None \<Rightarrow> Run (handler_runner h request_sink) request
           | Inr (Some snapshot) \<Rightarrow>
               Run (handler_runner h request_sink) (request\<lparr>rq_prior_run := Some snapshot\<rparr>))
        })"

end
