(* ===== verification/AgentSafety.thy ===== *)
theory AgentSafety
  imports AgentRunner
begin

text \<open>
  What every run of the agent respects, whatever the planner, the tools, the stores, the permission
  checker and the answerer do: the properties are about the trail of calls a run leaves.
\<close>

subsection \<open>Events and what came before them\<close>

text \<open>\<open>justified P t\<close>: \<open>P\<close> holds of every event of \<open>t\<close> and the events before it.\<close>

definition justified :: "('e list \<Rightarrow> 'e \<Rightarrow> bool) \<Rightarrow> 'e list \<Rightarrow> bool" where
  "justified P t \<longleftrightarrow> (\<forall>i < length t. P (take i t) (t ! i))"

lemma justified_Nil [simp]: "justified P []"
  by (simp add: justified_def)

lemma justified_snoc [simp]: "justified P (t @ [e]) \<longleftrightarrow> justified P t \<and> P t e"
proof -
  have "(\<forall>i < Suc (length t). P (take i (t @ [e])) ((t @ [e]) ! i)) \<longleftrightarrow>
      (\<forall>i < length t. P (take i t) (t ! i)) \<and> P t e"
    by (auto simp: less_Suc_eq nth_append)
  then show ?thesis by (simp add: justified_def)
qed

lemma justified_free: "list_all (\<lambda>e. \<forall>p. P p e) l \<Longrightarrow> justified P (t @ l) \<longleftrightarrow> justified P t"
proof (induction l rule: rev_induct)
  case (snoc e l)
  then show ?case by (simp flip: append_assoc)
qed simp

lemma justifiedD: "justified P (l1 @ e # l2) \<Longrightarrow> P l1 e"
  unfolding justified_def by (drule spec [of _ "length l1"]) simp

fun tool_run :: "effect \<Rightarrow> bool" where
  "tool_run (ToolExecuted rq spec call x) = True"
| "tool_run _ = False"

definition not_cancelled :: "effect list \<Rightarrow> bool" where
  "not_cancelled p \<longleftrightarrow> (\<forall>i. CancelChecked i (Inr True) \<notin> set p)"

definition permitted :: "request \<Rightarrow> capability \<Rightarrow> effect list \<Rightarrow> bool" where
  "permitted req c p \<longleftrightarrow> c = [] \<or>
     (\<exists>d. CapabilityChecked (subject_of req) c (d, None) \<in> set p \<and> allowed d)"

definition routed :: "request \<Rightarrow> effect list \<Rightarrow> bool" where
  "routed req p \<longleftrightarrow> (\<exists>g. PolicyRead (rq_guild_id req) (Inr g) \<in> set p \<and>
     gp_tool_routing_mode g \<notin> {ToolRoutingOff, ToolRoutingDryRun})"

text \<open>What must come before a tool runs, and before an answer is asked for.\<close>

fun authorised :: "request \<Rightarrow> capability \<Rightarrow> effect list \<Rightarrow> effect \<Rightarrow> bool" where
  "authorised req c p (ToolExecuted rq spec call x) \<longleftrightarrow>
     sp_kind spec = ToolKindRead \<and> permitted req (sp_capability spec) p \<and>
     permitted req c p \<and> routed req p \<and> not_cancelled p"
| "authorised req c p (Answered rq pl rs x) \<longleftrightarrow> permitted req c p \<and> routed req p \<and> not_cancelled p"
| "authorised req c p _ \<longleftrightarrow> True"

lemma recording_cases: "recording e \<Longrightarrow> authorised req c p e \<and> (\<forall>i x. e \<noteq> CancelChecked i x) \<and>
    (\<forall>i x. e \<noteq> PolicyRead i x) \<and> (\<forall>s c' x. e \<noteq> CapabilityChecked s c' x) \<and> \<not> tool_run e"
  by (cases e) auto

lemma justified_recording [simp]:
  "list_all recording l \<Longrightarrow> justified (authorised req c) (t @ l) \<longleftrightarrow> justified (authorised req c) t"
  by (rule justified_free) (auto simp: list_all_iff dest: recording_cases)

lemma not_cancelled_recording [simp]:
  "list_all recording l \<Longrightarrow> not_cancelled (t @ l) \<longleftrightarrow> not_cancelled t"
  by (auto simp: not_cancelled_def list_all_iff dest: recording_cases)

lemma permitted_append: "permitted req c t \<Longrightarrow> permitted req c (t @ l)"
  by (auto simp: permitted_def)

lemma routed_append: "routed req t \<Longrightarrow> routed req (t @ l)"
  by (auto simp: routed_def)

lemma not_cancelled_snoc [simp]:
  "not_cancelled (t @ [e]) \<longleftrightarrow> not_cancelled t \<and> (\<forall>i. e \<noteq> CancelChecked i (Inr True))"
  by (auto simp: not_cancelled_def)

lemmas monotone_facts = permitted_append routed_append

subsection \<open>The steps of the executor\<close>

lemma wp_traceRunCanceled [vcg]:
  assumes "Q (Inr False) s"
    and "\<And>w x. Q x \<lparr>env = w, trail = trail s @ [CancelChecked (tx_run_id t) x]\<rparr>"
  shows "wp (traceRunCanceled t) Q s"
  unfolding traceRunCanceled_def by (intro vcg assms)

lemma wp_checkCapability:
  assumes "\<And>d e. e \<noteq> None \<Longrightarrow> Q (d, e) s"
    and "\<And>w d. Q d \<lparr>env = w, trail = trail s @ [CapabilityChecked (subject_of req) c d]\<rparr>"
  shows "wp (checkCapability p req c) Q s"
  unfolding checkCapability_def by (intro vcg assms) simp

lemma wp_CheckBeforeTool [vcg]:
  assumes "\<And>d. sp_capability (NormalizeToolSpec spec) = [] \<Longrightarrow> Q (d, None) s"
    and "\<And>d e. e \<noteq> None \<Longrightarrow> Q (d, e) s"
    and "\<And>w d. Q d \<lparr>env = w, trail = trail s @
      [CapabilityChecked (subject_of req) (sp_capability (NormalizeToolSpec spec)) d]\<rparr>"
  shows "wp (CheckBeforeTool p req spec) Q s"
  unfolding CheckBeforeTool_def Let_def by (intro vcg wp_checkCapability assms)

fun confirming :: "effect \<Rightarrow> bool" where
  "confirming (ConfirmationCreated c x) = True"
| "confirming (FollowUpSaved r s x) = True"
| "confirming e = recording e"

lemma adds_createPendingConfirmation: "adds confirming (createPendingConfirmation i t r n spec call)"
  unfolding createPendingConfirmation_def Let_def by (intro adds_rules) simp_all

lemma adds_saveFollowUp: "adds confirming (saveFollowUp e r p rs resp)"
  unfolding saveFollowUp_def Let_def by (intro adds_rules) simp_all

lemma wp_createPendingConfirmation [vcg]:
  "(\<And>a w l. list_all confirming l \<Longrightarrow> Q a \<lparr>env = w, trail = trail s @ l\<rparr>) \<Longrightarrow>
     wp (createPendingConfirmation i t r n spec call) Q s"
  by (rule wp_adds [OF adds_createPendingConfirmation])

lemma wp_saveFollowUp [vcg]:
  "(\<And>a w l. list_all confirming l \<Longrightarrow> Q a \<lparr>env = w, trail = trail s @ l\<rparr>) \<Longrightarrow>
     wp (saveFollowUp e r p rs resp) Q s"
  by (rule wp_adds [OF adds_saveFollowUp])

lemma confirming_cases: "confirming e \<Longrightarrow> authorised req c p e \<and> (\<forall>i x. e \<noteq> CancelChecked i x) \<and> \<not> tool_run e"
  by (cases e) auto

lemma justified_confirming [simp]:
  "list_all confirming l \<Longrightarrow> justified (authorised req c) (t @ l) \<longleftrightarrow> justified (authorised req c) t"
  by (rule justified_free) (auto simp: list_all_iff dest: confirming_cases)

lemma not_cancelled_confirming [simp]:
  "list_all confirming l \<Longrightarrow> not_cancelled (t @ l) \<longleftrightarrow> not_cancelled t"
  by (auto simp: not_cancelled_def list_all_iff dest: confirming_cases)

text \<open>The state of a run that may go on, and of one that has ended with a response.\<close>

definition cleared :: "request \<Rightarrow> capability \<Rightarrow> effect list \<Rightarrow> bool" where
  "cleared req c t \<longleftrightarrow> justified (authorised req c) t \<and> permitted req c t \<and> routed req t \<and> not_cancelled t"

definition ended :: "request \<Rightarrow> capability \<Rightarrow> effect list \<Rightarrow> run_status \<Rightarrow> bool" where
  "ended req c t status \<longleftrightarrow> justified (authorised req c) t \<and>
     (\<not> not_cancelled t \<longrightarrow> status = RunStatusCanceled)"

lemma cleared_ended: "cleared req c t \<Longrightarrow> ended req c t status"
  by (simp add: cleared_def ended_def)

lemma cleared_recording [simp]: "cleared req c t \<Longrightarrow> list_all recording l \<Longrightarrow> cleared req c (t @ l)"
  by (simp add: cleared_def monotone_facts)

lemma cleared_confirming [simp]: "cleared req c t \<Longrightarrow> list_all confirming l \<Longrightarrow> cleared req c (t @ l)"
  by (simp add: cleared_def monotone_facts)

lemma ended_recording [simp]: "list_all recording l \<Longrightarrow> ended req c (t @ l) st \<longleftrightarrow> ended req c t st"
  by (simp add: ended_def)

lemma permitted_checked [simp]:
  "allowed d \<Longrightarrow> permitted req c (t @ [CapabilityChecked (subject_of req) c (d, None)])"
  by (auto simp: permitted_def)

lemma permitted_Nil [simp]: "permitted req [] t"
  by (simp add: permitted_def)

lemmas safety_simps = cleared_def ended_def permitted_append routed_append early_def

lemma Lookup_normal:
  "Lookup r n = Inr (t, spec) \<Longrightarrow>
     NormalizeToolSpec spec = spec \<and> (sp_kind spec \<noteq> ToolKindWrite \<longrightarrow> sp_kind spec = ToolKindRead)"
  using Lookup_Inr [of r n t spec] Lookup_kind [of r n t spec] by auto

lemma execute_calls_safe:
  assumes "cleared req c (trail s)" "subject_of request = subject_of req"
  shows "wp (execute_calls e request n calls results)
    (\<lambda>x s'. case x of Inl resp \<Rightarrow> ended req c (trail s') (rs_run_status resp) \<and> rs_run_status resp \<noteq> []
       | Inr rs \<Rightarrow> cleared req c (trail s')) s"
  using assms(1)
proof (induction calls arbitrary: n results s)
  case Nil
  then show ?case by (auto intro!: vcg)
next
  case (Cons call calls)
  show ?case
    unfolding execute_calls.simps Let_def
    by (intro vcg)
      (use Cons.prems assms(2) in \<open>auto simp: safety_simps dest!: Lookup_normal intro!: Cons.IH
        simp del: append_assoc\<close>)
qed

lemma answer_results_safe:
  assumes "cleared req c (trail s)" "subject_of request = subject_of req"
  shows "wp (answer_results e request p results)
    (\<lambda>resp s'. ended req c (trail s') (rs_run_status resp)) s"
  unfolding answer_results_def Let_def
  by (intro vcg) (use assms in \<open>auto simp: safety_simps simp del: append_assoc\<close>)

lemma Execute_safe:
  assumes "cleared req c (trail s)" "subject_of request = subject_of req"
  shows "wp (Execute e request p) (\<lambda>resp s'. ended req c (trail s') (rs_run_status resp)) s"
  unfolding Execute_def
  by (intro vcg wp_mono [OF execute_calls_safe [OF assms]])
    (auto intro!: vcg answer_results_safe simp: assms split: sum.splits)

lemma wp_completeRun:
  assumes "started \<longrightarrow> rr_run_store r \<noteq> None"
    and "\<And>w l. l = [] \<and> \<not> started \<or> (\<exists>x. l = [RunCompleted i st re x] \<and> started) \<Longrightarrow>
      Q (resp\<lparr>rs_run_id := i, rs_run_status := st, rs_termination_reason := re\<rparr>, h)
        \<lparr>env = w, trail = trail s @ l\<rparr>"
  shows "wp (completeRun r i started st re resp h) Q s"
  unfolding completeRun_def
  by (cases s, intro vcg) (use assms in \<open>auto split: option.splits\<close>)

text \<open>Until the mode is found not to be dry-run, planning goes on under the mode that was read.\<close>

definition planning :: "request \<Rightarrow> capability \<Rightarrow> tool_routing_mode \<Rightarrow> effect list \<Rightarrow> bool" where
  "planning req c mode t \<longleftrightarrow> justified (authorised req c) t \<and> permitted req c t \<and> not_cancelled t \<and>
     mode \<noteq> ToolRoutingOff \<and>
     (\<exists>g. PolicyRead (rq_guild_id req) (Inr g) \<in> set t \<and> gp_tool_routing_mode g = mode)"

lemmas planning_simps = planning_def cleared_def ended_def routed_def permitted_append

lemma completeRun_ended:
  assumes "ended req c (trail s) st" "started \<longrightarrow> rr_run_store r \<noteq> None"
  shows "wp (completeRun r i started st re resp h) (\<lambda>(resp, h) s'. ended req c (trail s') (rs_run_status resp)) s"
  by (rule wp_completeRun [OF assms(2)]) (use assms(1) in \<open>auto simp: ended_def\<close>)

lemma ended_termination:
  "ended req c t (rs_run_status resp) \<Longrightarrow> executionTermination resp = (st, re) \<Longrightarrow> ended req c t st"
  by (auto simp: ended_def executionTermination_def split: if_splits)

lemma planning_more [simp]:
  "planning req c mode t \<Longrightarrow> list_all recording l \<Longrightarrow> planning req c mode (t @ l)"
  "planning req c mode t \<Longrightarrow> planning req c mode (t @ [Planned rq sp x])"
  "planning req c mode t \<Longrightarrow> planning req c mode (t @ [ContextFetched rq y])"
  by (auto simp: planning_def permitted_append)

lemma planning_cleared: "planning req c mode t \<Longrightarrow> mode \<noteq> ToolRoutingDryRun \<Longrightarrow> cleared req c t"
  by (auto simp: planning_def cleared_def routed_def)

lemma planning_ended: "planning req c mode t \<Longrightarrow> ended req c t st"
  by (simp add: planning_def ended_def)

lemma run_plan_safe:
  assumes "planning req c mode (trail s)" "subject_of request = subject_of req"
    and "started \<longrightarrow> rr_run_store r \<noteq> None"
  shows "wp (run_plan r i started mode tr e request)
    (\<lambda>(resp, h) s'. ended req c (trail s') (rs_run_status resp)) s"
  unfolding run_plan_def Let_def
  by (intro vcg completeRun_ended wp_mono [OF Execute_safe [of req c]] assms(3))
    (use assms(1,2) in \<open>auto intro: planning_ended [of req c mode] planning_cleared [of req c mode]
      dest: ended_termination simp del: append_assoc\<close>)

lemma run_context_safe:
  assumes "planning req c mode (trail s)" "subject_of request = subject_of req"
    and "started \<longrightarrow> rr_run_store r \<noteq> None"
  shows "wp (run_context r i started mode tr e request)
    (\<lambda>(resp, h) s'. ended req c (trail s') (rs_run_status resp)) s"
  unfolding run_context_def Let_def
  by (intro vcg completeRun_ended run_plan_safe assms(3))
    (use assms(1,2) in \<open>auto simp: planning_simps subject_of_def simp del: append_assoc\<close>)

lemma wp_CheckBeforePlan [vcg]:
  assumes "\<And>d. rp_required p = [] \<Longrightarrow> Q (d, None) s"
    and "\<And>d e. e \<noteq> None \<Longrightarrow> Q (d, e) s"
    and "\<And>w d. Q d \<lparr>env = w, trail = trail s @ [CapabilityChecked (subject_of req) (rp_required p) d]\<rparr>"
  shows "wp (CheckBeforePlan p req) Q s"
  unfolding CheckBeforePlan_def by (intro vcg wp_checkCapability assms)

lemma wp_Mode [vcg]:
  assumes "Q (Inr ToolRoutingOff) s"
    and "\<And>w x. Q (attempt x (\<lambda>g. Inr (gp_tool_routing_mode g))) \<lparr>env = w, trail = trail s @ [PolicyRead g x]\<rparr>"
  shows "wp (Mode p g) Q s"
  unfolding Mode_def by (intro vcg assms)

text \<open>Before the routing is decided a run may only have been found not cancelled.\<close>

definition entered :: "request \<Rightarrow> capability \<Rightarrow> effect list \<Rightarrow> bool" where
  "entered req c t \<longleftrightarrow> justified (authorised req c) t \<and> not_cancelled t"

lemma run_routed_safe:
  assumes "entered req (rp_required (rr_policy r)) (trail s)"
    and "started \<longrightarrow> rr_run_store r \<noteq> None"
  shows "wp (run_routed r i started tr e req)
    (\<lambda>(resp, h) s'. ended req (rp_required (rr_policy r)) (trail s') (rs_run_status resp)) s"
  unfolding run_routed_def Let_def
  by (intro vcg completeRun_ended run_context_safe assms(2))
    (use assms in \<open>auto simp: planning_def ended_def entered_def permitted_append simp del: append_assoc\<close>)

lemma Run_safe:
  assumes "entered req (rp_required (rr_policy r)) (trail s)"
  shows "wp (Run r req)
    (\<lambda>(resp, h) s'. ended req (rp_required (rr_policy r)) (trail s') (rs_run_status resp)) s"
  unfolding Run_def Let_def
  by (intro vcg completeRun_ended run_routed_safe)
    (use assms in \<open>auto simp: ended_def entered_def simp del: append_assoc\<close>)

text \<open>A run from an empty trail, and what it leaves.\<close>

definition runs_to :: "'w runner \<Rightarrow> request \<Rightarrow> 'w \<Rightarrow> response \<Rightarrow> bool \<Rightarrow> effect list \<Rightarrow> bool" where
  "runs_to r req w resp handled t \<longleftrightarrow>
     (\<exists>s'. run_state (Run r req) \<lparr>env = w, trail = []\<rparr> = ((resp, handled), s') \<and> trail s' = t)"

lemma runs_to_wp:
  assumes "wp (Run r req) (\<lambda>(resp, h) s'. Q resp h (trail s')) \<lparr>env = w, trail = []\<rparr>"
    and "runs_to r req w resp handled t"
  shows "Q resp handled t"
  using assms by (auto simp: runs_to_def wp_def)

lemma runs_to_ended:
  "runs_to r req w resp handled t \<Longrightarrow> ended req (rp_required (rr_policy r)) t (rs_run_status resp)"
  by (rule runs_to_wp [OF Run_safe]) (simp_all add: entered_def not_cancelled_def)

text \<open>
  C1: the agent runs a tool only when everything allows it. In every run, whatever the planner plans and
  whatever its collaborators answer, a tool that is executed is a read tool; before it ran the guild's
  routing mode had been read and was neither off nor dry-run, the capability to plan (if one is required)
  and the capability of the tool (if it has one) had been checked for this actor and allowed, and no
  cancellation had been seen.
\<close>

theorem tools_run_authorised:
  assumes "runs_to r req w resp handled (before @ ToolExecuted rq spec call out # after)"
  shows "sp_kind spec = ToolKindRead \<and> routed req before \<and> not_cancelled before \<and>
    permitted req (rp_required (rr_policy r)) before \<and> permitted req (sp_capability spec) before"
  using runs_to_ended [OF assms] by (auto simp: ended_def dest: justifiedD)

text \<open>
  C2: a cancellation that is seen stops the run. When a cancellation check of a run answers true, nothing
  runs after it: no tool and no answer; and the response says the run is canceled.
\<close>

theorem cancellation_stops_the_run:
  assumes "runs_to r req w resp handled (before @ CancelChecked i (Inr True) # after)"
  shows "rs_run_status resp = RunStatusCanceled \<and>
    (\<forall>e\<in>set after. \<not> tool_run e \<and> (\<forall>rq p rs x. e \<noteq> Answered rq p rs x))"
proof
  let ?t = "before @ CancelChecked i (Inr True) # after"
  have ended: "ended req (rp_required (rr_policy r)) ?t (rs_run_status resp)"
    by (rule runs_to_ended [OF assms])
  then show "rs_run_status resp = RunStatusCanceled"
    by (auto simp: ended_def not_cancelled_def)
  show "\<forall>e\<in>set after. \<not> tool_run e \<and> (\<forall>rq p rs x. e \<noteq> Answered rq p rs x)"
  proof
    fix e assume "e \<in> set after"
    then obtain l1 l2 where "after = l1 @ e # l2" by (meson split_list)
    then have t: "?t = (before @ CancelChecked i (Inr True) # l1) @ e # l2" by simp
    have "authorised req (rp_required (rr_policy r)) (before @ CancelChecked i (Inr True) # l1) e"
      using ended unfolding t ended_def by (blast intro: justifiedD)
    then show "\<not> tool_run e \<and> (\<forall>rq p rs x. e \<noteq> Answered rq p rs x)"
      by (cases e) (auto simp: not_cancelled_def)
  qed
qed

subsection \<open>A run is completed once\<close>

fun lifecycle :: "effect \<Rightarrow> bool" where
  "lifecycle (RunStarted rec x) = True"
| "lifecycle (RunCompleted i st re x) = True"
| "lifecycle _ = False"

abbreviation working :: "effect \<Rightarrow> bool" where
  "working e \<equiv> \<not> lifecycle e"

lemma recording_working: "recording e \<Longrightarrow> working e"
  by (cases e) auto

lemma adds_mono: "adds P m \<Longrightarrow> (\<And>e. P e \<Longrightarrow> Q e) \<Longrightarrow> adds Q m"
  unfolding adds_def by (rule allI, rule wp_mono, erule spec) (auto simp: list_all_iff)

lemma adds_working_record: "adds working (Trace_Record t r k s re m)"
  by (rule adds_mono [OF adds_Trace_Record recording_working])

lemma adds_working_confirm:
  "adds working (createPendingConfirmation i t r n spec call)" "adds working (saveFollowUp e r p rs resp)"
proof -
  have *: "confirming e \<Longrightarrow> working e" for e by (cases e) auto
  show "adds working (createPendingConfirmation i t r n spec call)"
    by (rule adds_mono [OF adds_createPendingConfirmation *])
  show "adds working (saveFollowUp e r p rs resp)"
    by (rule adds_mono [OF adds_saveFollowUp *])
qed

lemma adds_working_checks:
  "adds working (traceRunCanceled t)" "adds working (CheckBeforeTool p r spec)"
  "adds working (CheckBeforePlan p r)" "adds working (Mode p g)"
  unfolding traceRunCanceled_def CheckBeforeTool_def CheckBeforePlan_def checkCapability_def Mode_def Let_def
  by (intro adds_rules; simp)+

lemmas adds_working = adds_working_record adds_working_confirm adds_working_checks

lemma adds_working_execute_calls: "adds working (execute_calls e r n calls rs)"
proof (induction calls arbitrary: n rs)
  case (Cons call calls)
  show ?case
    unfolding execute_calls.simps Let_def by (intro adds_rules adds_working Cons.IH) simp_all
qed (simp add: adds_return)

lemma adds_working_Execute: "adds working (Execute e r p)"
  unfolding Execute_def answer_results_def Let_def
  by (intro adds_rules adds_working adds_working_execute_calls) simp_all

text \<open>\<open>extends t0 t\<close>: the trail grew by work only; \<open>completes\<close>: and then by the completion, if there is one.\<close>

definition extends :: "effect list \<Rightarrow> effect list \<Rightarrow> bool" where
  "extends t0 t \<longleftrightarrow> (\<exists>l. list_all working l \<and> t = t0 @ l)"

lemma extends_append [simp]: "list_all working l \<Longrightarrow> extends t0 t \<Longrightarrow> extends t0 (t @ l)"
  by (auto simp: extends_def)

lemma extends_simps [simp]:
  "extends t t"
  "list_all recording l \<Longrightarrow> extends t0 t \<Longrightarrow> extends t0 (t @ l)"
  "working e \<Longrightarrow> extends t0 t \<Longrightarrow> extends t0 (t @ [e])"
proof -
  show "extends t t" by (simp add: extends_def)
  show "list_all recording l \<Longrightarrow> extends t0 t \<Longrightarrow> extends t0 (t @ l)"
    using recording_working by (auto simp: list_all_iff intro!: extends_append)
  show "working e \<Longrightarrow> extends t0 t \<Longrightarrow> extends t0 (t @ [e])" by simp
qed

definition completes :: "bool \<Rightarrow> string \<Rightarrow> effect list \<Rightarrow> response \<Rightarrow> effect list \<Rightarrow> bool" where
  "completes b i t0 resp t \<longleftrightarrow>
     (\<exists>t1 x. extends t0 t1 \<and>
        t = t1 @ (if b then [RunCompleted i (rs_run_status resp) (rs_termination_reason resp) x] else []))"

lemma completeRun_completes:
  "extends t0 (trail s) \<Longrightarrow> b \<longrightarrow> rr_run_store r \<noteq> None \<Longrightarrow>
     wp (completeRun r i b st re resp h) (\<lambda>(resp, h) s'. completes b i t0 resp (trail s')) s"
  by (rule wp_completeRun) (auto simp: completes_def)

lemma wp_working: "(\<And>a w l. list_all working l \<Longrightarrow> Q a \<lparr>env = w, trail = trail s @ l\<rparr>) \<Longrightarrow> wp (Execute e r p) Q s"
  by (rule wp_adds [OF adds_working_Execute])

lemma run_plan_completes:
  assumes "extends t0 (trail s)" "b \<longrightarrow> rr_run_store r \<noteq> None" "rr_planner r \<noteq> None"
  shows "wp (run_plan r i b mode tr e request) (\<lambda>(resp, h) s'. completes b i t0 resp (trail s')) s"
  unfolding run_plan_def Let_def
  by (intro vcg wp_working completeRun_completes assms(2))
    (use assms(1,3) in \<open>simp_all del: append_assoc\<close>)

lemma run_context_completes:
  assumes "extends t0 (trail s)" "b \<longrightarrow> rr_run_store r \<noteq> None" "rr_planner r \<noteq> None"
  shows "wp (run_context r i b mode tr e request) (\<lambda>(resp, h) s'. completes b i t0 resp (trail s')) s"
  unfolding run_context_def Let_def
  by (intro vcg run_plan_completes completeRun_completes assms(2,3))
    (use assms(1) in \<open>simp_all del: append_assoc\<close>)

lemma run_routed_completes:
  assumes "extends t0 (trail s)" "b \<longrightarrow> rr_run_store r \<noteq> None" "rr_planner r \<noteq> None"
  shows "wp (run_routed r i b tr e request) (\<lambda>(resp, h) s'. completes b i t0 resp (trail s')) s"
  unfolding run_routed_def Let_def
  by (intro vcg run_context_completes completeRun_completes assms(2,3))
    (use assms(1) in \<open>simp_all del: append_assoc\<close>)

definition lifecycle_ok :: "'w runner \<Rightarrow> response \<Rightarrow> effect list \<Rightarrow> bool" where
  "lifecycle_ok r resp t \<longleftrightarrow>
     (\<exists>rec l x. t = RunStarted rec (Inr ()) # l @
        [RunCompleted (newRunID r) (rs_run_status resp) (rs_termination_reason resp) x] \<and>
        ru_id rec = newRunID r \<and> list_all working l) \<or>
     (\<exists>rec err. t = [RunStarted rec (Inl err)]) \<or> list_all working t"

lemma completes_lifecycle:
  "completes True (newRunID r) [RunStarted rec (Inr ())] resp t \<Longrightarrow> ru_id rec = newRunID r \<Longrightarrow> lifecycle_ok r resp t"
  "completes False i [] resp t \<Longrightarrow> lifecycle_ok r resp t"
  by (auto simp: completes_def extends_def lifecycle_ok_def)

lemma Run_lifecycle_started:
  assumes "trail s = [RunStarted rec (Inr ()), CancelChecked j (Inr False)]" "ru_id rec = newRunID r"
    "rr_run_store r \<noteq> None" "rr_planner r \<noteq> None"
  shows "wp (run_routed r (newRunID r) True tr e req) (\<lambda>(resp, h) s'. lifecycle_ok r resp (trail s')) s"
  by (rule wp_mono [OF run_routed_completes [of "[RunStarted rec (Inr ())]"]])
    (use assms completes_lifecycle(1) [of r rec] in \<open>auto simp: extends_def\<close>)

lemma Run_lifecycle_stopped:
  assumes "trail s = [RunStarted rec (Inr ()), CancelChecked j x]" "ru_id rec = newRunID r"
    "rr_run_store r \<noteq> None"
  shows "wp (completeRun r (newRunID r) True st re resp h) (\<lambda>(resp, h) s'. lifecycle_ok r resp (trail s')) s"
  by (rule wp_mono [OF completeRun_completes [of "[RunStarted rec (Inr ())]"]])
    (use assms completes_lifecycle(1) [of r rec] in \<open>auto simp: extends_def\<close>)

lemma Run_lifecycle_unrecorded:
  assumes "trail s = []" "rr_planner r \<noteq> None"
  shows "wp (run_routed r i False tr e req) (\<lambda>(resp, h) s'. lifecycle_ok r resp (trail s')) s"
  by (rule wp_mono [OF run_routed_completes [of "[]"]])
    (use assms completes_lifecycle(2) in \<open>auto simp: extends_def\<close>)

lemma Run_lifecycle:
  assumes "trail s = []"
  shows "wp (Run r req) (\<lambda>(resp, h) s'. lifecycle_ok r resp (trail s')) s"
proof -
  have id: "ru_id (start_record r (newRunID r) req) = newRunID r" by (simp add: start_record_def)
  show ?thesis
    unfolding Run_def Let_def
    by (intro vcg Run_lifecycle_unrecorded Run_lifecycle_started Run_lifecycle_stopped)
      (use assms id in \<open>auto simp: lifecycle_ok_def\<close>)
qed

lemma runs_to_lifecycle: "runs_to r req w resp handled t \<Longrightarrow> lifecycle_ok r resp t"
  by (rule runs_to_wp [OF Run_lifecycle]) simp_all

text \<open>
  C3: a started run is completed exactly once. If the run store accepted the start of the run, the
  trail ends with the completion of that run, with the status and the reason the response carries, and
  no other start or completion happens in between.
\<close>

theorem run_completed_once:
  assumes "runs_to r req w resp handled t" "RunStarted rec (Inr ()) \<in> set t"
  shows "\<exists>l x. t = RunStarted rec (Inr ()) # l @
      [RunCompleted (ru_id rec) (rs_run_status resp) (rs_termination_reason resp) x] \<and>
    list_all working l"
proof -
  have "RunStarted rec (Inr ()) \<notin> set l" if "list_all working l" for l
    using that by (auto simp: list_all_iff)
  then show ?thesis
    using runs_to_lifecycle [OF assms(1)] assms(2) by (fastforce simp: lifecycle_ok_def)
qed

subsection \<open>Budgets\<close>

fun answering :: "effect \<Rightarrow> bool" where
  "answering (Answered rq p rs x) = True"
| "answering _ = False"

definition spent :: "effect list \<Rightarrow> nat" where
  "spent t = length (filter tool_run t)"

lemma spent_simps [simp]: "spent [] = 0" "spent (t @ l) = spent t + spent l"
  "spent (e # l) = (if tool_run e then Suc (spent l) else spent l)"
  by (simp_all add: spent_def)

lemma quiet [simp]:
  "list_all recording l \<Longrightarrow> spent l = 0" "list_all confirming l \<Longrightarrow> spent l = 0"
  "list_all recording l \<Longrightarrow> list_all (\<lambda>e. \<not> answering e) l"
  "list_all confirming l \<Longrightarrow> list_all (\<lambda>e. \<not> answering e) l"
proof -
  have *: "recording e \<Longrightarrow> \<not> tool_run e \<and> \<not> answering e" "confirming e \<Longrightarrow> \<not> tool_run e \<and> \<not> answering e" for e
    by (cases e; simp)+
  show "list_all recording l \<Longrightarrow> spent l = 0" "list_all confirming l \<Longrightarrow> spent l = 0"
    using * by (auto simp: list_all_iff spent_def filter_empty_conv)
  show "list_all recording l \<Longrightarrow> list_all (\<lambda>e. \<not> answering e) l"
    "list_all confirming l \<Longrightarrow> list_all (\<lambda>e. \<not> answering e) l"
    using * by (auto simp: list_all_iff)
qed

text \<open>An executor that may not ask for an answer.\<close>

definition mute :: "'w executor \<Rightarrow> bool" where
  "mute e \<longleftrightarrow> ex_answerer e = None \<or> ex_skip_answer_reason e \<noteq> []"

text \<open>\<open>spends n b t0 t\<close>: at most \<open>n\<close> tools more, and no answer if \<open>b\<close>.\<close>

definition spends :: "nat \<Rightarrow> bool \<Rightarrow> effect list \<Rightarrow> effect list \<Rightarrow> bool" where
  "spends n b t0 t \<longleftrightarrow> spent t \<le> spent t0 + n \<and>
     (b \<longrightarrow> list_all (\<lambda>e. \<not> answering e) t0 \<longrightarrow> list_all (\<lambda>e. \<not> answering e) t)"

lemma spends_simps [simp]:
  "spends n b t t"
  "\<not> tool_run e \<Longrightarrow> \<not> answering e \<Longrightarrow> spends n b t (t @ [e])"
  "list_all recording l \<Longrightarrow> spends n b t (t @ l)"
  by (simp_all add: spends_def)

lemma execute_calls_spends:
  "wp (execute_calls e request n calls results) (\<lambda>_ s'. spends (length calls) b (trail s) (trail s')) s"
proof (induction calls arbitrary: n results s)
  case (Cons call calls)
  show ?case
    unfolding execute_calls.simps Let_def
    by (intro vcg wp_mono [OF Cons.IH]) (auto simp: spends_def)
qed (auto intro!: vcg)

lemma answer_results_spends:
  "b \<longrightarrow> mute e \<Longrightarrow> wp (answer_results e request p results) (\<lambda>_ s'. spends 0 b (trail s) (trail s')) s"
  unfolding answer_results_def Let_def by (intro vcg) (auto simp: spends_def mute_def)

lemma Execute_spends:
  assumes "b \<longrightarrow> mute e"
  shows "wp (Execute e request p) (\<lambda>_ s'. spends (length (pl_tool_calls p)) b (trail s) (trail s')) s"
  unfolding Execute_def
  by (intro vcg wp_mono [OF execute_calls_spends [where b = b]])
    (use assms in \<open>auto intro!: vcg wp_mono [OF answer_results_spends [where b = b]] simp: spends_def split: sum.splits\<close>)

text \<open>\<open>idle\<close>: nothing spent yet. \<open>in_budget\<close>: what the limits of the runner say of a whole trail.\<close>

definition idle :: "effect list \<Rightarrow> bool" where
  "idle t \<longleftrightarrow> spent t = 0 \<and> list_all (\<lambda>e. \<not> answering e) t"

definition in_budget :: "'w runner \<Rightarrow> effect list \<Rightarrow> bool" where
  "in_budget r t \<longleftrightarrow> int (spent t) \<le> maxToolCalls r \<and>
     (maxSteps r > 0 \<longrightarrow> spent t = 0 \<or> int (spent t) + 2 \<le> maxSteps r) \<and>
     (0 < maxLLMCalls r \<and> maxLLMCalls r < 2 \<longrightarrow> list_all (\<lambda>e. \<not> answering e) t)"

lemma maxToolCalls_pos: "0 < maxToolCalls r"
  by (simp add: maxToolCalls_def)

lemma idle_simps [simp]:
  "list_all recording l \<Longrightarrow> idle t \<Longrightarrow> idle (t @ l)"
  "\<not> tool_run e \<Longrightarrow> \<not> answering e \<Longrightarrow> idle t \<Longrightarrow> idle (t @ [e])"
  by (simp_all add: idle_def)

lemma completeRun_in_budget:
  assumes "in_budget r (trail s)" "started \<longrightarrow> rr_run_store r \<noteq> None"
  shows "wp (completeRun r i started st re resp h) (\<lambda>(_, _) s'. in_budget r (trail s')) s"
  by (rule wp_completeRun [OF assms(2)]) (use assms(1) in \<open>auto simp: in_budget_def\<close>)

lemma idle_in_budget: "idle t \<Longrightarrow> in_budget r t"
  using maxToolCalls_pos [of r] by (simp add: idle_def in_budget_def)

definition thrifty :: "'w runner \<Rightarrow> 'w executor \<Rightarrow> bool" where
  "thrifty r e \<longleftrightarrow> 0 \<le> ex_trace_step_offset e \<and> (0 < maxLLMCalls r \<and> maxLLMCalls r < 2 \<longrightarrow> mute e)"

lemma spends_in_budget:
  assumes "spends (length (pl_tool_calls p)) (0 < maxLLMCalls r \<and> maxLLMCalls r < 2) t t'" "idle t" "thrifty r e"
    and "\<not> (0 < maxSteps r \<and> maxSteps r < plannedStepCount p + ex_trace_step_offset e)"
    and "\<not> (0 < maxToolCalls r \<and> maxToolCalls r < int (length (pl_tool_calls p)))"
  shows "in_budget r t'"
  using assms maxToolCalls_pos [of r]
  by (auto simp: spends_def idle_def in_budget_def thrifty_def plannedStepCount_def)

lemma Execute_in_budget:
  assumes "idle (trail s)" "thrifty r e"
    and "\<not> (0 < maxSteps r \<and> maxSteps r < plannedStepCount p + ex_trace_step_offset e)"
    and "\<not> (0 < maxToolCalls r \<and> maxToolCalls r < int (length (pl_tool_calls p)))"
  shows "wp (Execute e request p) (\<lambda>_ s'. in_budget r (trail s')) s"
  by (rule wp_mono [OF Execute_spends [where b = "0 < maxLLMCalls r \<and> maxLLMCalls r < 2"]])
    (use assms spends_in_budget [OF _ assms] in \<open>auto simp: thrifty_def\<close>)

lemma run_plan_in_budget:
  assumes "idle (trail s)" "thrifty r e" "started \<longrightarrow> rr_run_store r \<noteq> None"
  shows "wp (run_plan r i started mode tr e request) (\<lambda>(_, _) s'. in_budget r (trail s')) s"
  unfolding run_plan_def Let_def
  by (intro vcg completeRun_in_budget wp_mono [OF Execute_in_budget] assms(2,3))
    (use assms(1,2) in \<open>auto simp del: append_assoc intro: idle_in_budget\<close>)

lemma run_context_in_budget:
  assumes "idle (trail s)" "thrifty r e" "started \<longrightarrow> rr_run_store r \<noteq> None"
  shows "wp (run_context r i started mode tr e request) (\<lambda>(_, _) s'. in_budget r (trail s')) s"
  unfolding run_context_def Let_def
  by (intro vcg completeRun_in_budget idle_in_budget run_plan_in_budget assms(3))
    (use assms in \<open>auto simp: thrifty_def mute_def simp del: append_assoc\<close>)

lemma run_routed_in_budget:
  assumes "idle (trail s)" "thrifty r e" "started \<longrightarrow> rr_run_store r \<noteq> None"
  shows "wp (run_routed r i started tr e request) (\<lambda>(_, _) s'. in_budget r (trail s')) s"
  unfolding run_routed_def Let_def
  by (intro vcg completeRun_in_budget idle_in_budget run_context_in_budget assms(2,3))
    (use assms in \<open>auto simp del: append_assoc\<close>)

lemma thrifty_run_executor: "0 \<le> ex_trace_step_offset (rr_executor r) \<Longrightarrow> thrifty r (run_executor r)"
  by (auto simp: thrifty_def run_executor_def mute_def Let_def)

lemma Run_in_budget:
  assumes "trail s = []" "0 \<le> ex_trace_step_offset (rr_executor r)"
  shows "wp (Run r req) (\<lambda>(_, _) s'. in_budget r (trail s')) s"
  unfolding Run_def Let_def
  by (intro vcg completeRun_in_budget idle_in_budget run_routed_in_budget thrifty_run_executor assms)
    (use assms in \<open>auto intro: idle_in_budget simp: idle_def\<close>)

text \<open>
  C4: a run stays within its limits. However long the plan is, a run executes at most the tool calls
  the limits allow (five without a limit); under a step limit, at most the tools that leave a step for
  the plan and one for the answer; and under a budget of one model call, the planner's, no answer is
  asked of the model.
\<close>

theorem run_within_limits:
  assumes "runs_to r req w resp handled t" "0 \<le> ex_trace_step_offset (rr_executor r)"
  shows "int (length (filter tool_run t)) \<le> maxToolCalls r \<and>
    (0 < maxSteps r \<longrightarrow> filter tool_run t = [] \<or> int (length (filter tool_run t)) + 2 \<le> maxSteps r) \<and>
    (maxLLMCalls r = 1 \<longrightarrow> (\<forall>rq p rs x. Answered rq p rs x \<notin> set t))"
proof -
  have "in_budget r t"
    by (rule runs_to_wp [OF _ assms(1), where Q = "\<lambda>_ _. in_budget r"])
      (use Run_in_budget [OF _ assms(2)] in simp)
  then show ?thesis by (auto simp: in_budget_def spent_def list_all_iff)
qed

subsection \<open>A sample runner\<close>

text \<open>One read tool with a capability, a planner that plans it once, and a world that says whether the run is cancelled.\<close>

lemma Trace_Record_silent:
  "tx_store t = None \<Longrightarrow> tx_sink t = None \<Longrightarrow> tx_recorder t = None \<Longrightarrow>
     Trace_Record t request kind status reason metadata = State_Monad.return (Inr ())"
  by (simp add: Trace_Record_def Let_def)

definition sample_spec :: tool_spec where
  "sample_spec = \<lparr>sp_name = ''memory.search'', sp_description = ''search'', sp_kind = ToolKindRead,
     sp_capability = ''memory.read''\<rparr>"

definition sample_tool :: "bool tool" where
  "sample_tool = \<lparr>tl_spec = sample_spec,
     tl_execute = (\<lambda>_ _ w. (Inr \<lparr>tr_name = ''memory.search'', tr_summary = ''two'', tr_data = None\<rparr>, w))\<rparr>"

definition sample_call :: tool_call where
  "sample_call = \<lparr>tc_name = ''memory.search'', tc_args = []\<rparr>"

definition sample_plan :: plan where
  "sample_plan = \<lparr>pl_intent = ''chat'', pl_context_scopes = [], pl_tool_calls = [sample_call],
     pl_clarifying_question = [], pl_requires_confirmation = False, pl_trace = []\<rparr>"

definition sample_mention :: request where
  "sample_mention = \<lparr>rq_surface = SurfaceGuildMention, rq_guild_id = ''g'', rq_channel_id = ''c'',
     rq_actor_user_id = ''u'', rq_role_ids = [], rq_has_administrator = False, rq_context_scope = [],
     rq_text = ''hi'', rq_raw_text = ''hi'', rq_prior_run = None, rq_context_pack = None\<rparr>"

definition sample_run_store :: "bool run_store" where
  "sample_run_store = \<lparr>StartRun = (\<lambda>_ w. (Inr (), w)), CompleteRun = (\<lambda>_ _ _ w. (Inr (), w)),
     RecordStep = (\<lambda>_ w. (Inr (), w)), IsRunCanceled = (\<lambda>_ w. (Inr w, w)),
     RequestCancelRun = (\<lambda>_ _ w. (Inr (), True)), CreateConfirmation = (\<lambda>_ w. (Inr (), w)),
     PendingConfirmation = (\<lambda>_ w. (Inr None, w)), ResolveConfirmation = (\<lambda>_ _ _ w. (Inr (), w))\<rparr>"

definition sample_handler :: "bool run_store option \<Rightarrow> bool planning_handler" where
  "sample_handler store = \<lparr>ph_planner = Some (\<lambda>_ _ w. (Inr (sample_plan, True), w)),
     ph_tools = [(''memory.search'', sample_tool)], ph_answerer = None, ph_context_fetcher = None,
     ph_policy = Some (\<lambda>g w. (Inr \<lparr>gp_guild_id = g, gp_personal_keys_mode = PersonalKeysOff,
       gp_tool_routing_mode = ToolRoutingEnabled\<rparr>, w)),
     ph_checker = Some (\<lambda>_ c w. ((\<lparr>allowed = True, dec_capability = c, dec_reason = ''grant''\<rparr>, None), w)),
     ph_recorder = None, ph_required = ''llm.use'',
     ph_limits = \<lparr>li_max_steps = 4, li_max_tool_calls = 2, li_budget =
       \<lparr>bu_max_input_tokens = 0, bu_max_output_tokens = 0, bu_max_llm_calls = 1\<rparr>\<rparr>,
     ph_new_run_id = Some ''run'', ph_follow_ups = None, ph_run_store = store, ph_trace_sink = None,
     ph_generated_id = ''run'', ph_confirmation_id = ''conf''\<rparr>"

definition sample_runner :: "bool run_store option \<Rightarrow> bool runner" where
  "sample_runner store = handler_runner (sample_handler store) None"

lemmas sample_unfold = sample_runner_def handler_runner_def sample_handler_def Let_def

lemmas monad_eval = State_Monad.bind_def State_Monad.return_def perform_def

lemma sample_mention_fields [simp]:
  "rq_surface sample_mention = SurfaceGuildMention" "rq_guild_id sample_mention = ''g''"
  "rq_context_scope sample_mention = []" "rq_context_pack sample_mention = None"
  "rq_prior_run sample_mention = None"
  by (simp_all add: sample_mention_def)

lemma sample_plan_fields [simp]:
  "pl_tool_calls sample_plan = [sample_call]" "pl_clarifying_question sample_plan = []"
  "\<not> pl_requires_confirmation sample_plan"
  by (simp_all add: sample_plan_def)

lemma sample_spec_normal [simp]:
  "NormalizeToolSpec sample_spec = sample_spec" "sp_kind sample_spec = ToolKindRead"
  "sp_capability sample_spec = ''memory.read''" "sp_name sample_spec = ''memory.search''"
  by (simp_all add: NormalizeToolSpec_def sample_spec_def go_eval)

lemma sample_call_fields [simp]: "tc_name sample_call = ''memory.search''" "sample_call\<lparr>tc_name := ''memory.search''\<rparr> = sample_call"
  by (simp_all add: sample_call_def)

definition sample_policy :: "bool routing_policy" where
  "sample_policy = rr_policy (sample_runner None)"

lemma sample_runner_fields [simp]:
  "rr_policy (sample_runner st) = sample_policy" "rr_run_store (sample_runner st) = st"
  "rr_planner (sample_runner st) = Some (\<lambda>_ _ w. (Inr (sample_plan, True), w))"
  "rr_context_fetcher (sample_runner st) = None"
  "rp_required sample_policy = ''llm.use''"
  "newRunID (sample_runner st) = ''run''" "maxSteps (sample_runner st) = 4"
  "maxToolCalls (sample_runner st) = 2" "maxLLMCalls (sample_runner st) = 1"
  by (simp_all add: sample_unfold sample_policy_def newRunID_def
    maxSteps_def maxToolCalls_def maxLLMCalls_def go_eval)

definition sample_executor :: "bool executor" where
  "sample_executor = run_executor (sample_runner None)"

lemma sample_executor_fields [simp]:
  "ex_tools sample_executor = [(''memory.search'', sample_tool)]" "ex_answerer sample_executor = None"
  "ex_policy sample_executor = sample_policy" "ex_trace_step_offset sample_executor = 0"
  "ex_follow_ups sample_executor = None" 
  "tx_store (ex_trace sample_executor) = None" "tx_sink (ex_trace sample_executor) = None"
  "tx_recorder (ex_trace sample_executor) = None"
  by (simp_all add: sample_executor_def run_executor_def sample_unfold
    sample_policy_def run_trace_def inherit_def WithRunID_def maxLLMCalls_def Let_def)

lemma sample_trace_fields [simp]: "tx_store (run_trace (sample_runner None)) = None" "tx_sink (run_trace (sample_runner None)) = None"
  "tx_recorder (run_trace (sample_runner None)) = None"
  by (simp_all add: run_trace_def sample_unfold WithRunID_def)

lemma WithStep_fields [simp]: "tx_store (WithStep n t) = tx_store t" "tx_sink (WithStep n t) = tx_sink t"
  "tx_recorder (WithStep n t) = tx_recorder t"
  by (simp_all add: WithStep_def)

abbreviation "sample_grant c \<equiv> (\<lparr>allowed = True, dec_capability = c, dec_reason = ''grant''\<rparr>, None :: goerror option)"
abbreviation "sample_guild \<equiv> \<lparr>gp_guild_id = ''g'', gp_personal_keys_mode = PersonalKeysOff,
  gp_tool_routing_mode = ToolRoutingEnabled\<rparr>"

lemma sample_checkCapability [simp]: "checkCapability sample_policy sample_mention c =
  perform (\<lambda>w. (sample_grant c, w)) (CapabilityChecked (subject_of sample_mention) c)"
  by (simp add: checkCapability_def sample_policy_def sample_unfold)

lemma sample_Mode [simp]: "Mode sample_policy ''g'' = do {
    policy \<leftarrow> perform (\<lambda>w. (Inr sample_guild, w)) (PolicyRead ''g'');
    State_Monad.return (attempt policy (\<lambda>g. Inr (gp_tool_routing_mode g)))}"
  by (simp add: Mode_def sample_policy_def sample_unfold)

lemma sample_Specs [simp]: "Specs [(''memory.search'', sample_tool)] = [sample_spec]"
  by (simp add: Specs_def sample_tool_def)

lemma sample_Lookup [simp]: "Lookup [(''memory.search'', sample_tool)] ''memory.search'' = Inr (sample_tool, sample_spec)"
  by (simp add: Lookup_def go_eval sample_tool_def)

lemma sample_execute [simp]: "tl_execute sample_tool rq call w =
  (Inr \<lparr>tr_name = ''memory.search'', tr_summary = ''two'', tr_data = None\<rparr>, w)"
  by (simp add: sample_tool_def)

abbreviation "sample_result \<equiv> \<lparr>tr_name = ''memory.search'', tr_summary = ''two'', tr_data = None\<rparr>"

lemma sample_Execute: "\<exists>resp. run_state (Execute sample_executor sample_mention sample_plan) \<lparr>env = b, trail = t\<rparr> =
    (resp, \<lparr>env = b, trail = t @ [CapabilityChecked (subject_of sample_mention) ''memory.read'' (sample_grant ''memory.read''),
      ToolExecuted sample_mention sample_spec sample_call (Inr sample_result)]\<rparr>)"
  by (simp add: Execute_def monad_eval Trace_Record_silent traceRunCanceled_def CheckBeforeTool_def answer_results_def
     saveFollowUp_def)

text \<open>Two runs of it: without a run store the tool runs; in a run store that has the run cancelled it does not start.\<close>

definition sample_before :: "effect list" where
  "sample_before = [PolicyRead ''g'' (Inr sample_guild),
     CapabilityChecked (subject_of sample_mention) ''llm.use'' (sample_grant ''llm.use''),
     Planned sample_mention [sample_spec] (Inr (sample_plan, True)),
     CapabilityChecked (subject_of sample_mention) ''memory.read'' (sample_grant ''memory.read'')]"

lemma sample_tool_run: "\<exists>resp. runs_to (sample_runner None) sample_mention False resp True
    (sample_before @ ToolExecuted sample_mention sample_spec sample_call (Inr sample_result) # [])"
proof -
  obtain resp where exec: "\<And>t. run_state (Execute sample_executor sample_mention sample_plan) \<lparr>env = False, trail = t\<rparr> =
    (resp t, \<lparr>env = False, trail = t @ [CapabilityChecked (subject_of sample_mention) ''memory.read'' (sample_grant ''memory.read''),
      ToolExecuted sample_mention sample_spec sample_call (Inr sample_result)]\<rparr>)"
    using sample_Execute by metis
  show ?thesis
    unfolding runs_to_def Run_def sample_before_def
    by (auto simp: Let_def run_routed_def CheckBeforePlan_def run_context_def run_plan_def completeRun_def
      isChannelContextScope_def plannedStepCount_def monad_eval Trace_Record_silent exec
      sample_executor_def [symmetric] go_eval split: prod.splits)
qed

definition sample_start :: run_record where
  "sample_start = start_record (sample_runner (Some sample_run_store)) ''run'' sample_mention"

lemma sample_cancelled: "\<exists>resp. runs_to (sample_runner (Some sample_run_store)) sample_mention True resp True
    ([RunStarted sample_start (Inr ())] @ CancelChecked ''run'' (Inr True) #
      [RunCompleted ''run'' RunStatusCanceled TerminationCanceled (Inr ())])"
  unfolding runs_to_def Run_def
  by (simp add: Let_def completeRun_def monad_eval sample_start_def sample_run_store_def)

lemma tools_run_authorised_witness:
  "sp_kind sample_spec = ToolKindRead \<and> routed sample_mention sample_before \<and> not_cancelled sample_before \<and>
     permitted sample_mention (rp_required (rr_policy (sample_runner None))) sample_before \<and>
     permitted sample_mention (sp_capability sample_spec) sample_before"
proof -
  obtain resp where "runs_to (sample_runner None) sample_mention False resp True
    (sample_before @ ToolExecuted sample_mention sample_spec sample_call (Inr sample_result) # [])"
    using sample_tool_run by blast
  from tools_run_authorised [OF this] show ?thesis .
qed

lemma cancellation_stops_the_run_witness:
  "\<exists>resp. runs_to (sample_runner (Some sample_run_store)) sample_mention True resp True
      ([RunStarted sample_start (Inr ())] @ CancelChecked ''run'' (Inr True) #
        [RunCompleted ''run'' RunStatusCanceled TerminationCanceled (Inr ())]) \<and>
    rs_run_status resp = RunStatusCanceled"
proof -
  obtain resp where run: "runs_to (sample_runner (Some sample_run_store)) sample_mention True resp True
    ([RunStarted sample_start (Inr ())] @ CancelChecked ''run'' (Inr True) #
      [RunCompleted ''run'' RunStatusCanceled TerminationCanceled (Inr ())])"
    using sample_cancelled by blast
  from cancellation_stops_the_run [OF run] run show ?thesis by blast
qed

lemma run_completed_once_witness:
  "\<exists>(resp :: response) l x. [RunStarted sample_start (Inr ())] @ CancelChecked ''run'' (Inr True) #
       [RunCompleted ''run'' RunStatusCanceled TerminationCanceled (Inr ())] =
     RunStarted sample_start (Inr ()) # l @
       [RunCompleted (ru_id sample_start) (rs_run_status resp) (rs_termination_reason resp) x] \<and>
     list_all working l"
proof -
  obtain resp where "runs_to (sample_runner (Some sample_run_store)) sample_mention True resp True
    ([RunStarted sample_start (Inr ())] @ CancelChecked ''run'' (Inr True) #
      [RunCompleted ''run'' RunStatusCanceled TerminationCanceled (Inr ())])"
    using sample_cancelled by blast
  then show ?thesis by - (rule exI [of _ resp], rule run_completed_once, assumption, simp)
qed

lemma run_within_limits_witness:
  "int (length (filter tool_run (sample_before @ ToolExecuted sample_mention sample_spec sample_call
     (Inr sample_result) # []))) \<le> maxToolCalls (sample_runner None)"
proof -
  have "0 \<le> ex_trace_step_offset (rr_executor (sample_runner None))"
    by (simp add: sample_unfold)
  moreover obtain resp where "runs_to (sample_runner None) sample_mention False resp True
    (sample_before @ ToolExecuted sample_mention sample_spec sample_call (Inr sample_result) # [])"
    using sample_tool_run by blast
  ultimately show ?thesis by (auto dest: run_within_limits)
qed

end
