(* ===== verification/Jobs.thy ===== *)
theory Jobs
  imports SqlTables "HOL-Library.Product_Lexorder" "HOL-Library.List_Lexorder" "HOL-Library.Char_ord"
begin

text \<open>
  \<^verbatim>\<open>internal/jobs/jobs.go\<close> and \<^verbatim>\<open>internal/jobs/queue.go\<close>: the durable job queue over the table \<^verbatim>\<open>jobs\<close>. Two
  migrations create that table if it does not exist, with different columns; a table keeps the definition it was
  created with, and a statement names the columns of its text, which the server looks up in that definition.
  What the server does with JSON text and how it collates ids are
  parameters of the queue. Times are nanoseconds; a \<^verbatim>\<open>timestamptz\<close> keeps microseconds.
\<close>

type_synonym job_status = string

abbreviation StatusQueued :: job_status where "StatusQueued \<equiv> ''queued''"
abbreviation StatusRunning :: job_status where "StatusRunning \<equiv> ''running''"
abbreviation JobSucceeded :: job_status where "JobSucceeded \<equiv> ''succeeded''"
abbreviation JobFailed :: job_status where "JobFailed \<equiv> ''failed''"
abbreviation StatusCancelled :: job_status where "StatusCancelled \<equiv> ''cancelled''"

record job =
  jo_id :: string
  jo_kind :: string
  jo_payload :: string
  jo_status :: job_status
  jo_attempts :: int
  jo_max_attempts :: int
  jo_run_after :: gotime
  jo_locked_by :: string
  jo_locked_at :: gotime
  jo_last_error :: string

record job_row =
  jr_id :: string
  jr_kind :: string
  jr_payload :: string
  jr_status :: job_status
  jr_attempts :: int
  jr_max_attempts :: int
  jr_run_after :: gotime
  jr_locked_by :: "string option"
  jr_locked_at :: "gotime option"
  jr_last_error :: "string option"

text \<open>
  The definition of a table as far as the statements of the queue depend on it: the names of its columns and the values
  a check allows in \<^verbatim>\<open>status\<close>. A row of a table without some column has a value for it that nothing reads.
\<close>

record table_def =
  td_columns :: "string list"
  td_status_check :: "string list option"

definition initial_jobs :: table_def where
  "initial_jobs = \<lparr>td_columns = [''id'', ''kind'', ''payload'', ''status'', ''attempts'', ''run_after'',
       ''locked_by'', ''locked_at'', ''last_error'', ''created_at'', ''updated_at''],
     td_status_check = Some [''queued'', ''running'', ''succeeded'', ''failed'']\<rparr>"

definition durable_jobs :: table_def where
  "durable_jobs = \<lparr>td_columns = [''id'', ''kind'', ''payload'', ''status'', ''attempts'', ''max_attempts'',
       ''run_after'', ''locked_by'', ''locked_at'', ''last_error'', ''created_at'', ''updated_at''],
     td_status_check = None\<rparr>"

record jobs_table =
  jt_def :: table_def
  jt_rows :: "job_row list"

type_synonym jobs_db = "jobs_table sqldb"

text \<open>\<^verbatim>\<open>create table if not exists\<close>, and what the files leave when they are run in the order of their names.\<close>

definition create_jobs :: "table_def \<Rightarrow> jobs_table option \<Rightarrow> jobs_table option" where
  "create_jobs td t = (case t of None \<Rightarrow> Some \<lparr>jt_def = td, jt_rows = []\<rparr> | Some t \<Rightarrow> Some t)"

definition migrated_jobs :: "jobs_table option" where
  "migrated_jobs = fold create_jobs [initial_jobs, durable_jobs] None"

text \<open>
  A statement is planned before it runs: its first column the table does not have is its error. What it writes has
  to pass the check.
\<close>

definition missing_column :: "string list \<Rightarrow> table_def \<Rightarrow> string option" where
  "missing_column columns td = List.find (\<lambda>c. c \<notin> set (td_columns td)) columns"

definition on_columns :: "string list \<Rightarrow> (jobs_table, 'r) statement \<Rightarrow> (jobs_table, 'r) statement" where
  "on_columns columns stmt now t =
     (case missing_column columns (jt_def t) of
        Some c \<Rightarrow> Inl (Errorf (''column '' @ c @ '' does not exist''))
      | None \<Rightarrow> stmt now t)"

definition status_allowed :: "table_def \<Rightarrow> string \<Rightarrow> bool" where
  "status_allowed td s = (case td_status_check td of None \<Rightarrow> True | Some ss \<Rightarrow> s \<in> set ss)"

definition write_jobs :: "'r \<Rightarrow> job_row list \<Rightarrow> jobs_table \<Rightarrow> ('r \<times> jobs_table) result" where
  "write_jobs x rows t =
     (if list_all (\<lambda>r. r \<in> set (jt_rows t) \<or> status_allowed (jt_def t) (jr_status r)) rows
      then Inr (x, t\<lparr>jt_rows := rows\<rparr>)
      else Inl (Errorf ''violates check constraint jobs_status_check''))"

lemma on_columns_Inr: "on_columns columns stmt now t = Inr x \<Longrightarrow> stmt now t = Inr x"
  by (simp add: on_columns_def split: option.splits)

lemma write_jobs_Inr: "write_jobs x rows t = Inr (y, t') \<Longrightarrow> y = x \<and> t' = t\<lparr>jt_rows := rows\<rparr>"
  by (simp add: write_jobs_def split: if_splits)

text \<open>
  The queue: what its id generator returns (\<open>None\<close> without one), \<^verbatim>\<open>time.Now\<close>, and the server's part.
  \<open>qu_json\<close> is the text of a valid JSON value as \<^verbatim>\<open>jsonb\<close> gives it back, \<open>qu_collate\<close> the sort key of an id.
\<close>

record sql_queue =
  qu_new_job_id :: "string option"
  qu_now :: gotime
  qu_json :: "string \<Rightarrow> string option"
  qu_collate :: "string \<Rightarrow> string"

subsection \<open>The statements\<close>

definition new_row :: "job \<Rightarrow> string \<Rightarrow> job_row" where
  "new_row job payload =
     \<lparr>jr_id = jo_id job, jr_kind = jo_kind job, jr_payload = payload, jr_status = jo_status job,
      jr_attempts = jo_attempts job, jr_max_attempts = jo_max_attempts job,
      jr_run_after = timestamptz (jo_run_after job),
      jr_locked_by = (if jo_locked_by job = [] then None else Some (jo_locked_by job)),
      jr_locked_at = (if jo_locked_at job = zero_time then None else Some (timestamptz (jo_locked_at job))),
      jr_last_error = (if jo_last_error job = [] then None else Some (jo_last_error job))\<rparr>"

definition insert_job :: "sql_queue \<Rightarrow> job \<Rightarrow> (jobs_table, unit) statement" where
  "insert_job q job = on_columns
     [''id'', ''kind'', ''payload'', ''status'', ''attempts'', ''max_attempts'', ''run_after'', ''locked_by'',
      ''locked_at'', ''last_error'', ''created_at'', ''updated_at'']
     (\<lambda>now t.
       if \<not> int4 (jo_attempts job) \<or> \<not> int4 (jo_max_attempts job) then Inl (Errorf ''integer out of range'')
       else case qu_json q (jo_payload job) of
           None \<Rightarrow> Inl (Errorf ''invalid input syntax for type json'')
         | Some payload \<Rightarrow>
             (let row = new_row job payload in
              write_jobs () (upsert jr_id row (\<lambda>r. row\<lparr>jr_id := jr_id r\<rparr>) (jt_rows t)) t))"

text \<open>The rows a claim may take: \<open>skip\<close> are the ones another transaction has locked at the moment.\<close>

definition claimable :: "(string \<Rightarrow> bool) \<Rightarrow> gotime \<Rightarrow> job_row \<Rightarrow> bool" where
  "claimable skip now r \<longleftrightarrow> jr_status r = StatusQueued \<and> jr_run_after r \<le> now \<and>
     jr_attempts r < jr_max_attempts r \<and> \<not> skip (jr_id r)"

definition claim_order :: "sql_queue \<Rightarrow> job_row \<Rightarrow> gotime \<times> string" where
  "claim_order q r = (jr_run_after r, qu_collate q (jr_id r))"

definition claim_ids :: "sql_queue \<Rightarrow> (string \<Rightarrow> bool) \<Rightarrow> int \<Rightarrow> gotime \<Rightarrow> job_row list \<Rightarrow> string list" where
  "claim_ids q skip limit now rows =
     map jr_id (take (nat limit) (sort_key (claim_order q) (filter (claimable skip now) rows)))"

definition claim_mark :: "string \<Rightarrow> gotime \<Rightarrow> job_row \<Rightarrow> job_row" where
  "claim_mark workerID now r = r\<lparr>jr_status := StatusRunning, jr_attempts := jr_attempts r + 1,
     jr_locked_by := Some workerID, jr_locked_at := Some now\<rparr>"

definition claim_jobs ::
  "sql_queue \<Rightarrow> (string \<Rightarrow> bool) \<Rightarrow> string \<Rightarrow> int \<Rightarrow> (jobs_table, job_row list) statement" where
  "claim_jobs q skip workerID limit = on_columns
     [''status'', ''attempts'', ''locked_by'', ''locked_at'', ''updated_at'', ''id'', ''run_after'', ''max_attempts'',
      ''kind'', ''payload'', ''last_error'']
     (\<lambda>now t.
       if limit < 0 then Inl (Errorf ''LIMIT must not be negative'')
       else
         let ids = claim_ids q skip limit now (jt_rows t); taken = (\<lambda>r. jr_id r \<in> set ids) in
         write_jobs (map (claim_mark workerID now) (filter taken (jt_rows t)))
           (update_where taken (claim_mark workerID now) (jt_rows t)) t)"

definition complete_job :: "string \<Rightarrow> (jobs_table, unit) statement" where
  "complete_job i = on_columns [''status'', ''locked_by'', ''locked_at'', ''last_error'', ''updated_at'', ''id'']
     (\<lambda>now t. write_jobs () (update_where (\<lambda>r. jr_id r = i)
       (\<lambda>r. r\<lparr>jr_status := JobSucceeded, jr_locked_by := None, jr_locked_at := None,
          jr_last_error := None\<rparr>) (jt_rows t)) t)"

definition fail_mark :: "string \<Rightarrow> gotime \<Rightarrow> job_row \<Rightarrow> job_row" where
  "fail_mark cause now r = r\<lparr>
     jr_status := (if jr_attempts r < jr_max_attempts r then StatusQueued else JobFailed),
     jr_last_error := Some cause,
     jr_run_after := (if jr_attempts r < jr_max_attempts r
       then now + 1000000000 * min 300 (5 * jr_attempts r) else jr_run_after r),
     jr_locked_by := None, jr_locked_at := None\<rparr>"

definition fail_job :: "string \<Rightarrow> string \<Rightarrow> (jobs_table, unit) statement" where
  "fail_job i cause = on_columns
     [''status'', ''attempts'', ''max_attempts'', ''last_error'', ''run_after'', ''locked_by'', ''locked_at'',
      ''updated_at'', ''id'']
     (\<lambda>now t.
       if \<exists>r\<in>set (jt_rows t). jr_id r = i \<and> jr_attempts r < jr_max_attempts r \<and> \<not> int4 (5 * jr_attempts r)
       then Inl (Errorf ''integer out of range'')
       else write_jobs () (update_where (\<lambda>r. jr_id r = i) (fail_mark cause now) (jt_rows t)) t)"

definition cancel_mark :: "job_row \<Rightarrow> job_row" where
  "cancel_mark r = r\<lparr>jr_status := StatusCancelled, jr_locked_by := None, jr_locked_at := None\<rparr>"

definition cancel_job :: "string \<Rightarrow> (jobs_table, nat) statement" where
  "cancel_job i = on_columns [''status'', ''locked_by'', ''locked_at'', ''updated_at'', ''id'']
     (\<lambda>now t.
       let P = (\<lambda>r. jr_id r = i \<and> jr_status r \<in> {StatusQueued, JobFailed}) in
       write_jobs (count_where P (jt_rows t)) (update_where P cancel_mark (jt_rows t)) t)"

subsection \<open>The operations of \<^verbatim>\<open>SQLQueue\<close>\<close>

definition enqueue_defaults :: "sql_queue \<Rightarrow> string \<Rightarrow> job \<Rightarrow> job" where
  "enqueue_defaults q i job = job\<lparr>jo_id := i,
     jo_status := (if jo_status job = [] then StatusQueued else jo_status job),
     jo_max_attempts := (if jo_max_attempts job \<le> 0 then 3 else jo_max_attempts job),
     jo_run_after := (if jo_run_after job = zero_time then qu_now q else jo_run_after job)\<rparr>"

definition enqueue_id :: "sql_queue \<Rightarrow> job \<Rightarrow> string option" where
  "enqueue_id q job = (if jo_id job = [] then qu_new_job_id q else Some (jo_id job))"

definition Enqueue :: "sql_queue \<Rightarrow> job \<Rightarrow> jobs_db \<Rightarrow> unit result \<times> jobs_db" where
  "Enqueue q job db =
     (case enqueue_id q job of
        None \<Rightarrow> (Inl (Errorf ''job ID is required''), db)
      | Some i \<Rightarrow> sql_exec (insert_job q (enqueue_defaults q i job)) db)"

definition scan_job :: "job_row \<Rightarrow> job" where
  "scan_job r = \<lparr>jo_id = jr_id r, jo_kind = jr_kind r, jo_payload = jr_payload r, jo_status = jr_status r,
     jo_attempts = jr_attempts r, jo_max_attempts = jr_max_attempts r, jo_run_after = jr_run_after r,
     jo_locked_by = (case jr_locked_by r of None \<Rightarrow> [] | Some w \<Rightarrow> w),
     jo_locked_at = (case jr_locked_at r of None \<Rightarrow> zero_time | Some t \<Rightarrow> t),
     jo_last_error = (case jr_last_error r of None \<Rightarrow> [] | Some e \<Rightarrow> e)\<rparr>"

text \<open>The rows are read after the statement has run: a failure of the reading leaves its effect.\<close>

definition Claim ::
  "sql_queue \<Rightarrow> (string \<Rightarrow> bool) \<Rightarrow> string \<Rightarrow> int \<Rightarrow> jobs_db \<Rightarrow> job list result \<times> jobs_db" where
  "Claim q skip workerID limit db =
     (case sql_exec (claim_jobs q skip workerID limit) db of
        (Inl e, db1) \<Rightarrow> (Inl e, db1)
      | (Inr rows, db1) \<Rightarrow>
          (case next_fault db1 of
             (Some e, db2) \<Rightarrow> (Inl (Errorf e), db2)
           | (None, db2) \<Rightarrow> (Inr (map scan_job rows), db2)))"

definition Complete :: "string \<Rightarrow> jobs_db \<Rightarrow> unit result \<times> jobs_db" where
  "Complete i = sql_exec (complete_job i)"

definition Fail :: "string \<Rightarrow> goerror option \<Rightarrow> jobs_db \<Rightarrow> unit result \<times> jobs_db" where
  "Fail i cause = sql_exec (fail_job i (case cause of None \<Rightarrow> [] | Some e \<Rightarrow> error_text e))"

definition Cancel :: "string \<Rightarrow> jobs_db \<Rightarrow> bool result \<times> jobs_db" where
  "Cancel i db =
     (case sql_exec (cancel_job i) db of
        (Inl e, db') \<Rightarrow> (Inl e, db')
      | (Inr n, db') \<Rightarrow> (Inr (n > 0), db'))"

subsection \<open>Operations in sequence\<close>

text \<open>What can happen to the table: the operations of queues, whatever process runs them, and time.\<close>

datatype queue_op =
    OpEnqueue job
  | OpClaim "string \<Rightarrow> bool" string int
  | OpComplete string
  | OpFail string "goerror option"
  | OpCancel string
  | OpTick gotime

fun run_op :: "sql_queue \<Rightarrow> queue_op \<Rightarrow> jobs_db \<Rightarrow> jobs_db" where
  "run_op q (OpEnqueue job) db = snd (Enqueue q job db)"
| "run_op q (OpClaim skip w n) db = snd (Claim q skip w n db)"
| "run_op q (OpComplete i) db = snd (Complete i db)"
| "run_op q (OpFail i cause) db = snd (Fail i cause db)"
| "run_op q (OpCancel i) db = snd (Cancel i db)"
| "run_op q (OpTick d) db = db\<lparr>clock := clock db + \<bar>d\<bar>\<rparr>"

definition run_ops :: "sql_queue \<Rightarrow> queue_op list \<Rightarrow> jobs_db \<Rightarrow> jobs_db" where
  "run_ops q ops db = fold (run_op q) ops db"

lemma run_ops_simps [simp]:
  "run_ops q [] db = db" "run_ops q (op # ops) db = run_ops q ops (run_op q op db)"
  by (simp_all add: run_ops_def)

lemma Claim_tables:
  "Claim q skip w n db = (x, db') \<Longrightarrow>
     tables db' = tables db \<or> (\<exists>rows. claim_jobs q skip w n (clock db) (tables db) = Inr (rows, tables db'))"
  by (auto simp: Claim_def split: prod.splits sum.splits option.splits
      dest!: next_faultD dest: sql_exec_Inl sql_exec_Inr)

lemma Claim_Inr:
  "Claim q skip w n db = (Inr js, db') \<Longrightarrow>
     \<exists>rows. claim_jobs q skip w n (clock db) (tables db) = Inr (rows, tables db') \<and> js = map scan_job rows"
  by (auto simp: Claim_def split: prod.splits sum.splits option.splits
      dest!: next_faultD dest: sql_exec_Inl sql_exec_Inr)

text \<open>The effect of an operation on the table: none, or that of its statement.\<close>

fun op_effect :: "sql_queue \<Rightarrow> queue_op \<Rightarrow> gotime \<Rightarrow> jobs_table \<Rightarrow> jobs_table \<Rightarrow> bool" where
  "op_effect q (OpEnqueue job) now t t' \<longleftrightarrow>
     (\<exists>i. enqueue_id q job = Some i \<and> insert_job q (enqueue_defaults q i job) now t = Inr ((), t'))"
| "op_effect q (OpClaim skip w n) now t t' \<longleftrightarrow> (\<exists>rows. claim_jobs q skip w n now t = Inr (rows, t'))"
| "op_effect q (OpComplete i) now t t' \<longleftrightarrow> complete_job i now t = Inr ((), t')"
| "op_effect q (OpFail i cause) now t t' \<longleftrightarrow>
     fail_job i (case cause of None \<Rightarrow> [] | Some e \<Rightarrow> error_text e) now t = Inr ((), t')"
| "op_effect q (OpCancel i) now t t' \<longleftrightarrow> (\<exists>n. cancel_job i now t = Inr (n, t'))"
| "op_effect q (OpTick d) now t t' \<longleftrightarrow> False"

lemma run_op_tables:
  "tables (run_op q op db) = tables db \<or> op_effect q op (clock db) (tables db) (tables (run_op q op db))"
proof (cases op)
  case (OpEnqueue job)
  show ?thesis
  proof (cases "enqueue_id q job")
    case (Some i)
    then show ?thesis
      using exec_tables [of "insert_job q (enqueue_defaults q i job)" db] OpEnqueue
      by (cases "sql_exec (insert_job q (enqueue_defaults q i job)) db") (auto simp: Enqueue_def)
  qed (simp add: OpEnqueue Enqueue_def)
next
  case (OpClaim skip w n)
  then show ?thesis using Claim_tables [of q skip w n db] by (cases "Claim q skip w n db") auto
next
  case (OpComplete i)
  then show ?thesis
    using exec_tables [of "complete_job i" db] by (cases "sql_exec (complete_job i) db") (auto simp: Complete_def)
next
  case (OpFail i cause)
  let ?s = "fail_job i (case cause of None \<Rightarrow> [] | Some e \<Rightarrow> error_text e)"
  show ?thesis
    using exec_tables [of ?s db] OpFail by (cases "sql_exec ?s db") (auto simp: Fail_def)
next
  case (OpCancel i)
  then show ?thesis
    using exec_tables [of "cancel_job i" db]
    by (cases "sql_exec (cancel_job i) db") (auto simp: Cancel_def split: sum.splits)
qed simp

text \<open>An invariant of the table that every statement keeps holds after any sequence of operations.\<close>

lemma run_ops_invariant:
  assumes "\<And>op now t t'. op \<in> set ops \<Longrightarrow> op_effect q op now t t' \<Longrightarrow> P t \<Longrightarrow> P t'" "P (tables db)"
  shows "P (tables (run_ops q ops db))"
  using assms
proof (induction ops arbitrary: db)
  case (Cons op ops)
  have "P (tables (run_op q op db))"
    using run_op_tables [of q op db] Cons.prems by (metis list.set_intros(1))
  moreover have "P t \<Longrightarrow> P t'" if "o' \<in> set ops" "op_effect q o' now t t'" for o' now t t'
    using Cons.prems(1) that by (metis list.set_intros(2))
  ultimately show ?case using Cons.IH by simp
qed simp

subsection \<open>A claimed job stays claimed\<close>

text \<open>\<open>releases\<close>: the operations that can put a job back into the queue.\<close>

fun releases :: "sql_queue \<Rightarrow> string \<Rightarrow> queue_op \<Rightarrow> bool" where
  "releases q i (OpEnqueue job) \<longleftrightarrow> enqueue_id q job = Some i"
| "releases q i (OpFail k cause) \<longleftrightarrow> k = i"
| "releases q i _ \<longleftrightarrow> False"

definition not_queued :: "string \<Rightarrow> jobs_table \<Rightarrow> bool" where
  "not_queued i t \<longleftrightarrow> (\<forall>r\<in>set (jt_rows t). jr_id r = i \<longrightarrow> jr_status r \<noteq> StatusQueued)"

lemma claim_ids_claimable:
  "i \<in> set (claim_ids q skip n now rows) \<Longrightarrow> \<exists>r\<in>set rows. jr_id r = i \<and> claimable skip now r"
  by (auto simp: claim_ids_def dest!: in_set_takeD)

lemma not_queued_update:
  "not_queued i t \<Longrightarrow> (\<And>r. r \<in> set (jt_rows t) \<Longrightarrow> Q r \<Longrightarrow> jr_id (f r) = i \<Longrightarrow> jr_status (f r) \<noteq> StatusQueued) \<Longrightarrow>
     not_queued i (t\<lparr>jt_rows := update_where Q f (jt_rows t)\<rparr>)"
  by (auto simp: not_queued_def set_update_where)

lemma mark_fields [simp]:
  "jr_id (claim_mark w now r) = jr_id r" "jr_status (claim_mark w now r) = StatusRunning"
  "jr_id (fail_mark c now r) = jr_id r" "jr_id (cancel_mark r) = jr_id r"
  "jr_status (cancel_mark r) = StatusCancelled"
  by (simp_all add: claim_mark_def fail_mark_def cancel_mark_def)

lemma claim_jobs_Inr:
  "claim_jobs q skip w n now t = Inr (rows, t') \<Longrightarrow>
     rows = map (claim_mark w now) (filter (\<lambda>r. jr_id r \<in> set (claim_ids q skip n now (jt_rows t))) (jt_rows t)) \<and>
     t' = t\<lparr>jt_rows := update_where (\<lambda>r. jr_id r \<in> set (claim_ids q skip n now (jt_rows t)))
       (claim_mark w now) (jt_rows t)\<rparr> \<and> 0 \<le> n"
  by (auto simp: claim_jobs_def Let_def split: if_splits dest!: on_columns_Inr write_jobs_Inr)

lemma insert_job_Inr:
  "insert_job q job now t = Inr (u, t') \<Longrightarrow>
     \<exists>payload. t' = t\<lparr>jt_rows := upsert jr_id (new_row job payload)
        (\<lambda>r. (new_row job payload)\<lparr>jr_id := jr_id r\<rparr>) (jt_rows t)\<rparr>"
  by (auto simp: insert_job_def Let_def split: if_splits option.splits dest!: on_columns_Inr write_jobs_Inr)

lemma complete_job_Inr:
  "complete_job i now t = Inr (u, t') \<Longrightarrow>
     t' = t\<lparr>jt_rows := update_where (\<lambda>r. jr_id r = i)
       (\<lambda>r. r\<lparr>jr_status := JobSucceeded, jr_locked_by := None, jr_locked_at := None,
          jr_last_error := None\<rparr>) (jt_rows t)\<rparr>"
  by (auto simp: complete_job_def dest!: on_columns_Inr write_jobs_Inr)

lemma fail_job_Inr:
  "fail_job i cause now t = Inr (u, t') \<Longrightarrow>
     t' = t\<lparr>jt_rows := update_where (\<lambda>r. jr_id r = i) (fail_mark cause now) (jt_rows t)\<rparr>"
  by (auto simp: fail_job_def split: if_splits dest!: on_columns_Inr write_jobs_Inr)

lemma cancel_job_Inr:
  "cancel_job i now t = Inr (n, t') \<Longrightarrow>
     t' = t\<lparr>jt_rows := update_where (\<lambda>r. jr_id r = i \<and> jr_status r \<in> {StatusQueued, JobFailed})
       cancel_mark (jt_rows t)\<rparr>"
  by (auto simp: cancel_job_def Let_def dest!: on_columns_Inr write_jobs_Inr)

lemmas job_statements = claim_jobs_Inr insert_job_Inr complete_job_Inr fail_job_Inr cancel_job_Inr

lemma new_row_fields [simp]:
  "jr_id (new_row job p) = jo_id job" "jr_status (new_row job p) = jo_status job"
  "jr_attempts (new_row job p) = jo_attempts job" "jr_max_attempts (new_row job p) = jo_max_attempts job"
  "jr_locked_by (new_row job p) = None \<longleftrightarrow> jo_locked_by job = []"
  "jr_locked_at (new_row job p) = None \<longleftrightarrow> jo_locked_at job = zero_time"
  by (simp_all add: new_row_def)

lemma op_effect_not_queued:
  assumes "op_effect q op now t t'" "not_queued i t" "\<not> releases q i op"
  shows "not_queued i t'"
proof (cases op)
  case (OpEnqueue job)
  then obtain k where k: "enqueue_id q job = Some k" "k \<noteq> i"
    and ins: "insert_job q (enqueue_defaults q k job) now t = Inr ((), t')"
    using assms by auto
  show ?thesis
    using insert_job_Inr [OF ins] assms(2) k
    by (auto simp: not_queued_def enqueue_defaults_def dest!: set_upsert_keyD)
next
  case (OpClaim skip w n)
  then show ?thesis using assms by (auto dest!: claim_jobs_Inr intro!: not_queued_update)
next
  case (OpComplete k)
  then show ?thesis using assms by (auto dest!: complete_job_Inr intro!: not_queued_update)
next
  case (OpFail k cause)
  then show ?thesis using assms by (auto dest!: fail_job_Inr intro!: not_queued_update)
next
  case (OpCancel k)
  then show ?thesis using assms by (auto dest!: cancel_job_Inr intro!: not_queued_update)
qed (use assms in auto)

lemma Claim_not_queued:
  assumes "Claim q skip w n db = (Inr js, db')" "j \<in> set js"
  shows "not_queued (jo_id j) (tables db')"
proof -
  obtain rows where rows: "claim_jobs q skip w n (clock db) (tables db) = Inr (rows, tables db')"
    and js: "js = map scan_job rows"
    using Claim_Inr [OF assms(1)] by blast
  then show ?thesis
    using claim_jobs_Inr [OF rows] assms(2)
    by (auto simp: not_queued_def set_update_where scan_job_def)
qed

lemma not_queued_not_claimed:
  assumes "Claim q skip w n db = (Inr js, db')" "not_queued i (tables db)"
  shows "i \<notin> jo_id ` set js"
proof
  assume "i \<in> jo_id ` set js"
  then have "i \<in> set (claim_ids q skip n (clock db) (jt_rows (tables db)))"
    using Claim_Inr [OF assms(1)] by (auto simp: scan_job_def dest!: claim_jobs_Inr)
  then show False
    using assms(2) claim_ids_claimable by (fastforce simp: not_queued_def claimable_def)
qed

text \<open>
  C9: two workers never hold the same job. Once a claim has returned a job, no later claim of any worker
  returns it, after whatever operations of the queue in whatever order and with whatever failures, as long as none of them
  fails the job (which schedules a retry) or enqueues its id again.
\<close>

theorem claimed_job_not_claimed_again:
  assumes "Claim q skip w n db = (Inr js, db1)" "j \<in> set js"
    and "\<forall>op\<in>set ops. \<not> releases q (jo_id j) op"
    and "Claim q skip' w' n' (run_ops q ops db1) = (Inr js', db2)"
  shows "jo_id j \<notin> jo_id ` set js'"
proof -
  have "not_queued (jo_id j) (tables (run_ops q ops db1))"
    by (rule run_ops_invariant [where P = "not_queued (jo_id j)"])
      (use assms(3) Claim_not_queued [OF assms(1,2)] op_effect_not_queued in blast)+
  then show ?thesis by (rule not_queued_not_claimed [OF assms(4)])
qed

subsection \<open>A claim takes the earliest jobs that are due\<close>

lemma taken_rows:
  assumes "unique_key jr_id rows" "ids = claim_ids q skip n now rows"
    and "chosen = take (nat n) (sort_key (claim_order q) (filter (claimable skip now) rows))"
  shows "r \<in> set rows \<Longrightarrow> jr_id r \<in> set ids \<longleftrightarrow> r \<in> set chosen"
    "length (filter (\<lambda>r. jr_id r \<in> set ids) rows) = min (nat n) (length (filter (claimable skip now) rows))"
proof -
  have sub: "set chosen \<subseteq> set rows" using assms(3) by (auto dest: in_set_takeD)
  have inj: "inj_on jr_id (set rows)" and d: "distinct rows"
    using assms(1) by (simp_all add: distinct_map)
  show iff: "r \<in> set rows \<Longrightarrow> jr_id r \<in> set ids \<longleftrightarrow> r \<in> set chosen" for r
    using inj sub assms(2,3) by (auto simp: claim_ids_def inj_on_def)
  have "filter (\<lambda>r. jr_id r \<in> set ids) rows = filter (\<lambda>r. r \<in> set chosen) rows"
    using iff by (auto intro: filter_cong)
  moreover have "distinct chosen" using assms(3) d by simp
  moreover have "set (filter (\<lambda>r. r \<in> set chosen) rows) = set chosen" using sub by auto
  ultimately show "length (filter (\<lambda>r. jr_id r \<in> set ids) rows) = min (nat n) (length (filter (claimable skip now) rows))"
    using d assms(3) by (metis distinct_card distinct_filter length_sort length_take min.commute)
qed

lemma sorted_take_drop:
  "x \<in> set (take k (sort_key f xs)) \<Longrightarrow> y \<in> set xs \<Longrightarrow> y \<notin> set (take k (sort_key f xs)) \<Longrightarrow> f x \<le> f y"
proof -
  assume a: "x \<in> set (take k (sort_key f xs))" "y \<in> set xs" "y \<notin> set (take k (sort_key f xs))"
  have "y \<in> set (drop k (sort_key f xs))"
    using a(2,3) by (metis Un_iff append_take_drop_id set_append set_sort)
  moreover have "sorted (map f (take k (sort_key f xs)) @ map f (drop k (sort_key f xs)))"
    by (simp flip: map_append)
  ultimately show "f x \<le> f y" using a(1) by (auto simp: sorted_append)
qed

lemma scan_job_fields [simp]: "jo_id (scan_job r) = jr_id r" "jo_status (scan_job r) = jr_status r"
  by (simp_all add: scan_job_def)

lemma claimed_ids:
  assumes "claim_jobs q skip w n now t = Inr (rows, t')"
  shows "jr_id ` set rows = set (claim_ids q skip n now (jt_rows t))" (is "_ = set ?ids")
proof -
  have "i \<in> jr_id ` set rows" if "i \<in> set ?ids" for i
    using claim_ids_claimable [OF that] that claim_jobs_Inr [OF assms] by (auto simp: image_image)
  moreover have "jr_id ` set rows \<subseteq> set ?ids"
    using claim_jobs_Inr [OF assms] by auto
  ultimately show ?thesis by blast
qed

text \<open>
  A claim takes exactly the jobs it should. A claim that succeeds returns as many of the jobs that are
  queued, due, not locked by another transaction and not out of attempts as there are, up to the limit;
  they come before all others in the order of due time and id; each is returned running, locked by this
  worker, with one attempt more; and no other job changes.
\<close>

theorem claim_takes_the_earliest:
  assumes "Claim q skip w n db = (Inr js, db')" "unique_key jr_id (jt_rows (tables db))"
    and "due = filter (claimable skip (clock db)) (jt_rows (tables db))"
  shows "length js = min (nat n) (length due) \<and>
    (\<forall>j\<in>set js. jo_status j = StatusRunning \<and> jo_locked_by j = w \<and>
       (\<exists>r\<in>set due. jr_id r = jo_id j \<and> jo_attempts j = jr_attempts r + 1 \<and>
          (\<forall>r'\<in>set due. jr_id r' \<notin> jo_id ` set js \<longrightarrow> claim_order q r \<le> claim_order q r'))) \<and>
    (\<forall>r\<in>set (jt_rows (tables db)). jr_id r \<notin> jo_id ` set js \<longrightarrow> r \<in> set (jt_rows (tables db')))"
proof -
  let ?rows = "jt_rows (tables db)"
  let ?ids = "claim_ids q skip n (clock db) ?rows"
  let ?chosen = "take (nat n) (sort_key (claim_order q) due)"
  note t = taken_rows [where q = q and skip = skip and n = n and now = "clock db",
    OF assms(2) refl refl, folded assms(3)]
  obtain marked where stmt: "claim_jobs q skip w n (clock db) (tables db) = Inr (marked, tables db')"
    and js: "js = map scan_job marked"
    using Claim_Inr [OF assms(1)] by blast
  note c = claim_jobs_Inr [OF stmt, THEN conjunct1] claim_jobs_Inr [OF stmt, THEN conjunct2, THEN conjunct1]
  have ids: "jo_id ` set js = set ?ids"
    using claimed_ids [OF stmt] js by (simp add: image_image)
  have "length js = min (nat n) (length due)"
    using c(1) js t(2) by simp
  moreover have "jo_status j = StatusRunning \<and> jo_locked_by j = w \<and>
       (\<exists>r\<in>set due. jr_id r = jo_id j \<and> jo_attempts j = jr_attempts r + 1 \<and>
          (\<forall>r'\<in>set due. jr_id r' \<notin> jo_id ` set js \<longrightarrow> claim_order q r \<le> claim_order q r'))"
    if j: "j \<in> set js" for j
  proof -
    obtain r where r: "r \<in> set ?rows" "jr_id r \<in> set ?ids" "j = scan_job (claim_mark w (clock db) r)"
      using j unfolding js c(1) set_map set_filter by blast
    have chosen: "r \<in> set ?chosen" using t(1) r by blast
    have "claim_order q r \<le> claim_order q r'" if "r' \<in> set due" "jr_id r' \<notin> jo_id ` set js" for r'
      using sorted_take_drop [OF chosen that(1)] t(1) [of r'] that ids assms(3) by auto
    moreover have "r \<in> set due" using chosen by (auto dest: in_set_takeD)
    ultimately show ?thesis using r(3) by (auto simp: scan_job_def claim_mark_def)
  qed
  moreover have "r \<in> set (jt_rows (tables db'))" if "r \<in> set ?rows" "jr_id r \<notin> jo_id ` set js" for r
    using that c(2) ids by (auto simp: set_update_where image_iff)
  ultimately show ?thesis by blast
qed

subsection \<open>What holds of the table at any time\<close>

text \<open>A job as the rest of the program enqueues it: unclaimed, with no attempt made.\<close>

definition fresh_job :: "job \<Rightarrow> bool" where
  "fresh_job job \<longleftrightarrow> jo_status job \<in> {[], StatusQueued} \<and> jo_attempts job = 0 \<and> jo_locked_by job = [] \<and>
     jo_locked_at job = zero_time"

definition job_row_ok :: "job_row \<Rightarrow> bool" where
  "job_row_ok r \<longleftrightarrow>
     jr_status r \<in> {StatusQueued, StatusRunning, JobSucceeded, JobFailed, StatusCancelled} \<and>
     0 \<le> jr_attempts r \<and> jr_attempts r \<le> jr_max_attempts r \<and>
     (jr_status r = StatusQueued \<longrightarrow> jr_attempts r < jr_max_attempts r) \<and>
     (jr_status r = JobFailed \<longrightarrow> jr_attempts r = jr_max_attempts r) \<and>
     (jr_locked_by r \<noteq> None \<longleftrightarrow> jr_status r = StatusRunning) \<and>
     (jr_locked_at r \<noteq> None \<longleftrightarrow> jr_status r = StatusRunning)"

definition jobs_ok :: "jobs_table \<Rightarrow> bool" where
  "jobs_ok t \<longleftrightarrow> unique_key jr_id (jt_rows t) \<and> (\<forall>r\<in>set (jt_rows t). job_row_ok r)"

lemma jobs_ok_update:
  assumes "jobs_ok t" "\<And>r. jr_id (f r) = jr_id r"
    and "\<And>r. r \<in> set (jt_rows t) \<Longrightarrow> P r \<Longrightarrow> job_row_ok r \<Longrightarrow> job_row_ok (f r)"
  shows "jobs_ok (t\<lparr>jt_rows := update_where P f (jt_rows t)\<rparr>)"
  using assms by (auto simp: jobs_ok_def map_key_update_where set_update_where)

lemma claim_mark_ok: "claimable skip now' r \<Longrightarrow> job_row_ok r \<Longrightarrow> job_row_ok (claim_mark w now r)"
  by (auto simp: job_row_ok_def claim_mark_def claimable_def)

lemma fail_mark_ok: "job_row_ok r \<Longrightarrow> job_row_ok (fail_mark c now r)"
  by (auto simp: job_row_ok_def fail_mark_def)

lemma cancel_mark_ok: "job_row_ok r \<Longrightarrow> job_row_ok (cancel_mark r)"
  by (auto simp: job_row_ok_def cancel_mark_def)

lemma new_row_ok: "fresh_job job \<Longrightarrow> job_row_ok (new_row (enqueue_defaults q i job) p)"
  by (auto simp: job_row_ok_def new_row_def enqueue_defaults_def fresh_job_def)

fun fresh_op :: "queue_op \<Rightarrow> bool" where
  "fresh_op (OpEnqueue job) = fresh_job job"
| "fresh_op _ = True"

lemma op_effect_ok:
  assumes "op_effect q op now t t'" "jobs_ok t" "fresh_op op"
  shows "jobs_ok t'"
proof (cases op)
  case (OpEnqueue job)
  then obtain i where ins: "insert_job q (enqueue_defaults q i job) now t = Inr ((), t')"
    using assms(1) by auto
  obtain p where t': "t' = t\<lparr>jt_rows := upsert jr_id (new_row (enqueue_defaults q i job) p)
      (\<lambda>r. (new_row (enqueue_defaults q i job) p)\<lparr>jr_id := jr_id r\<rparr>) (jt_rows t)\<rparr>"
    using insert_job_Inr [OF ins] by blast
  have ok: "job_row_ok ((new_row (enqueue_defaults q i job) p)\<lparr>jr_id := k\<rparr>)"
    "job_row_ok (new_row (enqueue_defaults q i job) p)" for k
    using new_row_ok [of job q i p] assms(3) OpEnqueue by (simp_all add: job_row_ok_def)
  show ?thesis
    unfolding t' jobs_ok_def using assms(2) ok
    by (auto simp: jobs_ok_def unique_key_upsert dest!: set_upsertD)
next
  case (OpClaim skip w n)
  have "job_row_ok (claim_mark w now r)"
    if r: "r \<in> set (jt_rows t)" "jr_id r \<in> set (claim_ids q skip n now (jt_rows t))" "job_row_ok r" for r
  proof -
    obtain r' where r': "r' \<in> set (jt_rows t)" "jr_id r' = jr_id r" "claimable skip now r'"
      using claim_ids_claimable [OF r(2)] by blast
    then have "r' = r" using assms(2) r(1) by (auto simp: jobs_ok_def distinct_map inj_on_def)
    then show ?thesis using claim_mark_ok r'(3) r(3) by blast
  qed
  then show ?thesis
    using OpClaim assms by (auto dest!: claim_jobs_Inr intro!: jobs_ok_update)
next
  case (OpComplete k)
  then show ?thesis using assms by (auto simp: job_row_ok_def dest!: complete_job_Inr intro!: jobs_ok_update)
next
  case (OpFail k cause)
  then show ?thesis using assms fail_mark_ok by (auto dest!: fail_job_Inr intro!: jobs_ok_update)
next
  case (OpCancel k)
  then show ?thesis
    using assms cancel_mark_ok by (auto dest!: cancel_job_Inr intro!: jobs_ok_update)
qed (use assms in auto)

text \<open>
  C10: the table of jobs is sound at any time. If every job is enqueued fresh, then after any sequence of
  operations, failures included, ids are unique, a job never has more attempts than its maximum, a
  queued job always has an attempt left (so that it will be claimed once it is due), a failed job has none,
  and exactly the running jobs are locked.
\<close>

theorem jobs_table_sound:
  assumes "\<forall>op\<in>set ops. fresh_op op"
  shows "jobs_ok (tables (run_ops q ops
    \<lparr>tables = \<lparr>jt_def = td, jt_rows = []\<rparr>, clock = now, faults = fs\<rparr>))"
  by (rule run_ops_invariant [where P = jobs_ok])
    (use assms op_effect_ok in \<open>auto simp: jobs_ok_def\<close>)

lemma migrated_jobs_initial: "migrated_jobs = Some \<lparr>jt_def = initial_jobs, jt_rows = []\<rparr>"
  by (simp add: migrated_jobs_def create_jobs_def)

lemma durable_columns:
  "insert_job q job now \<lparr>jt_def = durable_jobs, jt_rows = rows\<rparr> =
     (if \<not> int4 (jo_attempts job) \<or> \<not> int4 (jo_max_attempts job) then Inl (Errorf ''integer out of range'')
      else case qu_json q (jo_payload job) of
          None \<Rightarrow> Inl (Errorf ''invalid input syntax for type json'')
        | Some payload \<Rightarrow>
            (let row = new_row job payload in
             Inr ((), \<lparr>jt_def = durable_jobs,
               jt_rows = upsert jr_id row (\<lambda>r. row\<lparr>jr_id := jr_id r\<rparr>) rows\<rparr>)))"
  by (simp add: insert_job_def on_columns_def missing_column_def durable_jobs_def write_jobs_def
      status_allowed_def Let_def list_all_iff split: option.split)

lemma initial_columns:
  "insert_job q job now \<lparr>jt_def = initial_jobs, jt_rows = rows\<rparr> = Inl (Errorf ''column max_attempts does not exist'')"
  "claim_jobs q skip w n now \<lparr>jt_def = initial_jobs, jt_rows = rows\<rparr> = Inl (Errorf ''column max_attempts does not exist'')"
  "fail_job i cause now \<lparr>jt_def = initial_jobs, jt_rows = rows\<rparr> = Inl (Errorf ''column max_attempts does not exist'')"
  by (simp_all add: insert_job_def claim_jobs_def fail_job_def on_columns_def missing_column_def initial_jobs_def)

lemma migrated_stays:
  assumes "migrated_jobs = Some (tables db)"
  shows "tables (run_ops q ops db) = tables db"
proof -
  have t: "tables db = \<lparr>jt_def = initial_jobs, jt_rows = []\<rparr>"
    using assms by (simp add: migrated_jobs_initial)
  have "t' = t" if "op_effect q op now t t'" "t = tables db" for op now t t'
    using that by (cases op) (auto simp: t initial_columns update_where_def dest!: complete_job_Inr cancel_job_Inr)
  then show ?thesis
    by (intro run_ops_invariant [where P = "\<lambda>t. t = tables db"]) auto
qed

text \<open>
  C12: on the schema the migrations leave, the queue does not work. \<^verbatim>\<open>000011_durable_jobs.sql\<close> creates the
  table \<^verbatim>\<open>jobs\<close> only if it does not exist, and \<^verbatim>\<open>000001_initial_schema.sql\<close> has created it without
  \<^verbatim>\<open>max_attempts\<close>: after any operations the migrated table is as empty as it was, and every \<^verbatim>\<open>Enqueue\<close>, \<^verbatim>\<open>Claim\<close> and \<^verbatim>\<open>Fail\<close>
  reports an error, which is that this column does not exist unless the driver failed first or the job has no id. On the
  table of \<^verbatim>\<open>000011_durable_jobs.sql\<close> the same \<^verbatim>\<open>Enqueue\<close> stores the job, if its payload is JSON and its counters are integers of
  the server.
\<close>

theorem migrated_queue_rejects:
  assumes "migrated_jobs = Some (tables db)" and "now_db = run_ops q ops db"
  shows "tables now_db = \<lparr>jt_def = initial_jobs, jt_rows = []\<rparr> \<and>
    (\<exists>e. fst (Enqueue q job now_db) = Inl e) \<and> (\<exists>e. fst (Claim q skip w n now_db) = Inl e) \<and>
    (\<exists>e. fst (Fail i cause now_db) = Inl e) \<and>
    (fst (next_fault now_db) = None \<longrightarrow>
      (enqueue_id q job \<noteq> None \<longrightarrow> fst (Enqueue q job now_db) = Inl (Errorf ''column max_attempts does not exist'')) \<and>
      fst (Claim q skip w n now_db) = Inl (Errorf ''column max_attempts does not exist'') \<and>
      fst (Fail i cause now_db) = Inl (Errorf ''column max_attempts does not exist'') \<and>
      (enqueue_id q job = Some k \<and> qu_json q (jo_payload job) = Some p \<and> int4 (jo_attempts job) \<and> int4 (jo_max_attempts job) \<longrightarrow>
        fst (Enqueue q job (now_db\<lparr>tables := \<lparr>jt_def = durable_jobs, jt_rows = []\<rparr>\<rparr>)) = Inr () \<and>
        jt_rows (tables (snd (Enqueue q job (now_db\<lparr>tables := \<lparr>jt_def = durable_jobs, jt_rows = []\<rparr>\<rparr>)))) =
          [new_row (enqueue_defaults q k job) p]))"
proof -
  have t: "tables now_db = \<lparr>jt_def = initial_jobs, jt_rows = []\<rparr>"
    using migrated_stays [OF assms(1)] assms by (simp add: migrated_jobs_initial)
  let ?e = "case fst (next_fault now_db) of None \<Rightarrow> Errorf ''column max_attempts does not exist'' | Some f \<Rightarrow> Errorf f"
  let ?durable = "now_db\<lparr>tables := \<lparr>jt_def = durable_jobs, jt_rows = []\<rparr>\<rparr>"
  have insert: "fst (sql_exec (insert_job q j) now_db) = Inl ?e" for j
    by (rule exec_rejected) (simp add: t initial_columns)
  have "fst (sql_exec (claim_jobs q skip w n) now_db) = Inl ?e"
    by (rule exec_rejected) (simp add: t initial_columns)
  then have claim: "fst (Claim q skip w n now_db) = Inl ?e"
    by (auto simp: Claim_def split: prod.splits sum.splits)
  have fail: "fst (Fail i cause now_db) = Inl ?e"
    unfolding Fail_def by (rule exec_rejected) (simp add: t initial_columns)
  have enqueue: "fst (Enqueue q job now_db) = Inl (if enqueue_id q job = None then Errorf ''job ID is required'' else ?e)"
    using insert by (simp add: Enqueue_def split: option.split)
  have stored: "fst (Enqueue q job ?durable) = Inr () \<and>
      jt_rows (tables (snd (Enqueue q job ?durable))) = [new_row (enqueue_defaults q k job) p]"
    if "fst (next_fault now_db) = None" "enqueue_id q job = Some k" "qu_json q (jo_payload job) = Some p"
      "int4 (jo_attempts job)" "int4 (jo_max_attempts job)"
  proof -
    have "insert_job q (enqueue_defaults q k job) (clock ?durable) (tables ?durable) =
        Inr ((), \<lparr>jt_def = durable_jobs, jt_rows = [new_row (enqueue_defaults q k job) p]\<rparr>)"
      using that(3-5) by (simp add: durable_columns enqueue_defaults_def int4_def upsert_def Let_def)
    moreover have "fst (next_fault ?durable) = None"
      using that(1) by (simp add: next_fault_def split: list.splits)
    ultimately show ?thesis
      using exec_runs [of ?durable "insert_job q (enqueue_defaults q k job)"] that(2) by (simp add: Enqueue_def)
  qed
  show ?thesis using t claim fail enqueue stored by auto
qed

subsection \<open>A sample queue\<close>

definition sample_queue :: sql_queue where
  "sample_queue = \<lparr>qu_new_job_id = Some ''n'', qu_now = 5, qu_json = Some, qu_collate = id\<rparr>"

definition sample_job_row :: job_row where
  "sample_job_row = \<lparr>jr_id = ''a'', jr_kind = ''k'', jr_payload = ''1'', jr_status = StatusQueued,
     jr_attempts = 0, jr_max_attempts = 3, jr_run_after = 0, jr_locked_by = None, jr_locked_at = None,
     jr_last_error = None\<rparr>"

definition jobs_sample :: "job_row list \<Rightarrow> jobs_db" where
  "jobs_sample rows = \<lparr>tables = \<lparr>jt_def = durable_jobs, jt_rows = rows\<rparr>, clock = 7, faults = []\<rparr>"

definition claimed_row :: job_row where
  "claimed_row = claim_mark ''w'' 7 sample_job_row"

lemmas sample_job_simps = on_columns_def missing_column_def durable_jobs_def write_jobs_def status_allowed_def
  jobs_sample_def Claim_def claim_jobs_def claim_ids_def claimable_def
  sample_job_row_def claimed_row_def claim_mark_def update_where_def

lemma sample_claim:
  "Claim sample_queue (\<lambda>_. False) ''w'' 1 (jobs_sample [sample_job_row]) =
     (Inr [scan_job claimed_row], jobs_sample [claimed_row])"
  by (simp add: sample_job_simps)

lemma sample_claim_again:
  "Claim sample_queue (\<lambda>_. False) ''v'' 1 (jobs_sample [claimed_row]) = (Inr [], jobs_sample [claimed_row])"
  by (simp add: sample_job_simps)

lemma claimed_job_not_claimed_again_witness:
  "jo_id (scan_job claimed_row) \<notin> jo_id ` set []"
  using claimed_job_not_claimed_again [OF sample_claim, of "scan_job claimed_row" "[OpTick 0]"]
    sample_claim_again by (simp add: jobs_sample_def)

lemma claim_takes_the_earliest_witness:
  "length [scan_job claimed_row] = min (nat 1) (length [sample_job_row])"
  using claim_takes_the_earliest [OF sample_claim, of "[sample_job_row]"] by (simp add: sample_job_simps)

lemma jobs_table_sound_witness:
  "jobs_ok (tables (run_ops sample_queue
     [OpEnqueue (scan_job sample_job_row), OpClaim (\<lambda>_. False) ''w'' 1, OpComplete ''a'']
     \<lparr>tables = \<lparr>jt_def = durable_jobs, jt_rows = []\<rparr>, clock = 7, faults = []\<rparr>))"
  by (rule jobs_table_sound) (simp add: fresh_job_def sample_job_row_def scan_job_def)

lemma migrated_queue_rejects_witness:
  "fst (Enqueue sample_queue (scan_job sample_job_row)
     \<lparr>tables = \<lparr>jt_def = initial_jobs, jt_rows = []\<rparr>, clock = 7, faults = []\<rparr>) =
   Inl (Errorf ''column max_attempts does not exist'')"
  using migrated_queue_rejects
    [of "\<lparr>tables = \<lparr>jt_def = initial_jobs, jt_rows = []\<rparr>, clock = 7, faults = []\<rparr>" _ sample_queue "[]"
        "scan_job sample_job_row"]
  by (simp add: migrated_jobs_initial enqueue_id_def scan_job_def sample_job_row_def)

end
