(* ===== verification/JobWorker.thy ===== *)
theory JobWorker
  imports Jobs
begin

text \<open>
  \<^verbatim>\<open>internal/jobs/worker.go\<close>: the pool that polls the queue and runs each claimed job in a goroutine of
  its own. The pool is a state machine: a step is one action of the poll loop, of one goroutine, of a caller of
  \<^verbatim>\<open>Start\<close> or \<^verbatim>\<open>Stop\<close>, or of another process that uses the queue, in any interleaving. The fields the
  mutex guards change in one step. The poll loop reads the number of free slots, claims, and starts the
  goroutines in separate steps, as in the code.
\<close>

text \<open>The operations of \<^verbatim>\<open>Queue\<close> the pool calls; a claim also depends on which rows others have locked.\<close>

record ('c, 'd) job_queue =
  jq_claim :: "'c \<Rightarrow> string \<Rightarrow> int \<Rightarrow> 'd \<Rightarrow> job list result \<times> 'd"
  jq_complete :: "string \<Rightarrow> 'd \<Rightarrow> unit result \<times> 'd"
  jq_fail :: "string \<Rightarrow> goerror option \<Rightarrow> 'd \<Rightarrow> unit result \<times> 'd"

record worker_options =
  wo_max_workers :: int
  wo_poll_interval :: int
  wo_worker_id :: string

record worker_pool =
  wp_handlers :: "string list"
  wp_max_workers :: int
  wp_poll_interval :: int
  wp_worker_id :: string

definition NewWorkerPool :: "worker_options \<Rightarrow> worker_pool" where
  "NewWorkerPool opts =
     \<lparr>wp_handlers = [],
      wp_max_workers = (if wo_max_workers opts \<le> 0 then 5 else wo_max_workers opts),
      wp_poll_interval = (if wo_poll_interval opts \<le> 0 then 5000000000 else wo_poll_interval opts),
      wp_worker_id = (if wo_worker_id opts = [] then ''worker-default'' else wo_worker_id opts)\<rparr>"

definition RegisterHandler :: "string \<Rightarrow> worker_pool \<Rightarrow> worker_pool" where
  "RegisterHandler kind p = p\<lparr>wp_handlers := List.insert kind (wp_handlers p)\<rparr>"

text \<open>Where the poll loop is, and where each goroutine is in \<^verbatim>\<open>processJob\<close>.\<close>

datatype poll_state = Unstarted | Waiting | Claiming int | Dispatching "job list" | Exited

datatype task = Working job | Settling job "goerror option" | Leaving

record 'd pool_state =
  ps_active :: int
  ps_poll :: poll_state
  ps_tasks :: "task list"
  ps_stopped :: bool
  ps_queue :: 'd

definition available :: "worker_pool \<Rightarrow> 'd pool_state \<Rightarrow> int" where
  "available p s = wp_max_workers p - ps_active s"

definition poll_next :: "worker_pool \<Rightarrow> 'd pool_state \<Rightarrow> poll_state" where
  "poll_next p s = (if available p s \<le> 0 then Waiting else Claiming (available p s))"

text \<open>A call of the queue under the context of the pool, which \<^verbatim>\<open>Stop\<close> cancels.\<close>

definition with_ctx :: "bool \<Rightarrow> ('d \<Rightarrow> 'r result \<times> 'd) \<Rightarrow> 'd \<Rightarrow> 'r result \<times> 'd" where
  "with_ctx cancelled call d = (if cancelled then (Inl (Errorf ''context canceled''), d) else call d)"

definition after_claim :: "job list result \<Rightarrow> poll_state" where
  "after_claim r = (case r of Inl e \<Rightarrow> Waiting | Inr js \<Rightarrow> Dispatching js)"

text \<open>What \<^verbatim>\<open>processJob\<close> may find of a job: without a handler always an error, with one whatever it returns.\<close>

definition outcome_ok :: "worker_pool \<Rightarrow> job \<Rightarrow> goerror option \<Rightarrow> bool" where
  "outcome_ok p j r \<longleftrightarrow> (jo_kind j \<notin> set (wp_handlers p) \<longrightarrow> r = Some (Errorf ''no handler registered''))"

definition settle :: "('c, 'd) job_queue \<Rightarrow> bool \<Rightarrow> job \<Rightarrow> goerror option \<Rightarrow> 'd \<Rightarrow> 'd" where
  "settle Q cancelled j r d =
     snd (with_ctx cancelled
       (case r of Some e \<Rightarrow> jq_fail Q (jo_id j) (Some e) | None \<Rightarrow> jq_complete Q (jo_id j)) d)"

text \<open>The jobs the pool is in charge of: claimed, and not yet reported back to the queue.\<close>

fun task_ids :: "task list \<Rightarrow> string list" where
  "task_ids [] = []"
| "task_ids (Working j # ts) = jo_id j # task_ids ts"
| "task_ids (Settling j r # ts) = jo_id j # task_ids ts"
| "task_ids (Leaving # ts) = task_ids ts"

fun poll_ids :: "poll_state \<Rightarrow> string list" where
  "poll_ids (Dispatching js) = map jo_id js"
| "poll_ids _ = []"

definition pool_ids :: "'d pool_state \<Rightarrow> string list" where
  "pool_ids s = poll_ids (ps_poll s) @ task_ids (ps_tasks s)"

inductive pool_step ::
  "worker_pool \<Rightarrow> ('c, 'd) job_queue \<Rightarrow> (string set \<Rightarrow> 'd \<Rightarrow> 'd \<Rightarrow> bool) \<Rightarrow> 'd pool_state \<Rightarrow> 'd pool_state \<Rightarrow> bool"
  for p :: worker_pool and Q :: "('c, 'd) job_queue" and others :: "string set \<Rightarrow> 'd \<Rightarrow> 'd \<Rightarrow> bool"
where
  start: "ps_poll s = Unstarted \<Longrightarrow> pool_step p Q others s (s\<lparr>ps_poll := Waiting\<rparr>)"
| stop: "ps_poll s \<noteq> Unstarted \<Longrightarrow> pool_step p Q others s (s\<lparr>ps_stopped := True\<rparr>)"
| poll: "ps_poll s = Waiting \<Longrightarrow> pool_step p Q others s (s\<lparr>ps_poll := poll_next p s\<rparr>)"
| exit: "ps_poll s = Waiting \<Longrightarrow> ps_stopped s \<Longrightarrow> pool_step p Q others s (s\<lparr>ps_poll := Exited\<rparr>)"
| claim: "ps_poll s = Claiming n \<Longrightarrow>
    with_ctx (ps_stopped s) (jq_claim Q c (wp_worker_id p) n) (ps_queue s) = (r, d) \<Longrightarrow>
    pool_step p Q others s (s\<lparr>ps_poll := after_claim r, ps_queue := d\<rparr>)"
| dispatch: "ps_poll s = Dispatching (j # js) \<Longrightarrow>
    pool_step p Q others s
      (s\<lparr>ps_poll := Dispatching js, ps_active := ps_active s + 1, ps_tasks := ps_tasks s @ [Working j]\<rparr>)"
| dispatched: "ps_poll s = Dispatching [] \<Longrightarrow> pool_step p Q others s (s\<lparr>ps_poll := Waiting\<rparr>)"
| work: "ps_tasks s = ts @ Working j # us \<Longrightarrow> outcome_ok p j r \<Longrightarrow>
    pool_step p Q others s (s\<lparr>ps_tasks := ts @ Settling j r # us\<rparr>)"
| settled: "ps_tasks s = ts @ Settling j r # us \<Longrightarrow>
    pool_step p Q others s (s\<lparr>ps_tasks := ts @ Leaving # us,
      ps_queue := settle Q (ps_stopped s) j r (ps_queue s)\<rparr>)"
| leave: "ps_tasks s = ts @ Leaving # us \<Longrightarrow>
    pool_step p Q others s (s\<lparr>ps_tasks := ts @ us, ps_active := ps_active s - 1\<rparr>)"
| other: "others (set (pool_ids s)) (ps_queue s) d \<Longrightarrow> pool_step p Q others s (s\<lparr>ps_queue := d\<rparr>)"

definition pool_start :: "'d \<Rightarrow> 'd pool_state" where
  "pool_start d = \<lparr>ps_active = 0, ps_poll = Unstarted, ps_tasks = [], ps_stopped = False, ps_queue = d\<rparr>"

definition pool_reach ::
  "worker_pool \<Rightarrow> ('c, 'd) job_queue \<Rightarrow> (string set \<Rightarrow> 'd \<Rightarrow> 'd \<Rightarrow> bool) \<Rightarrow> 'd \<Rightarrow> 'd pool_state \<Rightarrow> bool" where
  "pool_reach p Q others d s \<longleftrightarrow> (pool_step p Q others)\<^sup>*\<^sup>* (pool_start d) s"

lemma task_ids_append [simp]: "task_ids (ts @ us) = task_ids ts @ task_ids us"
  by (induction ts rule: task_ids.induct) auto

lemma pool_ids_poll [simp]:
  "pool_ids (s\<lparr>ps_poll := x\<rparr>) = poll_ids x @ task_ids (ps_tasks s)"
  "pool_ids (s\<lparr>ps_queue := d\<rparr>) = pool_ids s" "pool_ids (s\<lparr>ps_stopped := b\<rparr>) = pool_ids s"
  by (simp_all add: pool_ids_def)

lemma poll_next_ids [simp]: "poll_ids (poll_next p s) = []"
  by (simp add: poll_next_def)

text \<open>The slots the poll loop has counted as free and not yet filled.\<close>

fun reserved :: "poll_state \<Rightarrow> int" where
  "reserved (Claiming n) = n"
| "reserved (Dispatching js) = int (length js)"
| "reserved _ = 0"

subsection \<open>What the pool promises over any queue that keeps its word\<close>

text \<open>
  The contract of the queue has two parts. A claim returns at most as many jobs as asked for, and every operation keeps
  the queue in order: that bounds the pool, whatever the other users of the queue do.
\<close>

locale bounded_queue =
  fixes Q :: "('c, 'd) job_queue"
    and others :: "string set \<Rightarrow> 'd \<Rightarrow> 'd \<Rightarrow> bool"
    and ok :: "'d \<Rightarrow> bool"
  assumes claim_limit: "jq_claim Q c w n d = (Inr js, d') \<Longrightarrow> ok d \<Longrightarrow> 0 \<le> n \<Longrightarrow> int (length js) \<le> n"
    and claim_ok: "jq_claim Q c w n d = (x, d') \<Longrightarrow> ok d \<Longrightarrow> ok d'"
    and complete_ok: "jq_complete Q k d = (u, d') \<Longrightarrow> ok d \<Longrightarrow> ok d'"
    and fail_ok: "jq_fail Q k e d = (u, d') \<Longrightarrow> ok d \<Longrightarrow> ok d'"
    and others_ok: "others I d d' \<Longrightarrow> ok d \<Longrightarrow> ok d'"
begin

definition pool_bounded :: "worker_pool \<Rightarrow> 'd pool_state \<Rightarrow> bool" where
  "pool_bounded p s \<longleftrightarrow> ok (ps_queue s) \<and> ps_active s = int (length (ps_tasks s)) \<and> 0 \<le> reserved (ps_poll s) \<and>
     ps_active s + reserved (ps_poll s) \<le> wp_max_workers p"

lemma settle_ok: "ok d \<Longrightarrow> ok (settle Q b j r d)"
  using fail_ok [OF surjective_pairing] complete_ok [OF surjective_pairing]
  by (auto simp: settle_def with_ctx_def split: option.splits)

lemma pool_bounded_claim:
  assumes "pool_bounded p s" "ps_poll s = Claiming n"
    and "with_ctx (ps_stopped s) (jq_claim Q c (wp_worker_id p) n) (ps_queue s) = (r, d)"
  shows "pool_bounded p (s\<lparr>ps_poll := after_claim r, ps_queue := d\<rparr>)"
  using assms claim_limit [of c "wp_worker_id p" n "ps_queue s" _ d] claim_ok [of c "wp_worker_id p" n "ps_queue s" r d]
  by (cases r) (auto simp: pool_bounded_def with_ctx_def after_claim_def split: if_splits)

lemma pool_bounded_step: "pool_step p Q others s s' \<Longrightarrow> pool_bounded p s \<Longrightarrow> pool_bounded p s'"
proof (induction rule: pool_step.induct)
  case (claim s n c r d)
  then show ?case by (blast intro: pool_bounded_claim)
next
  case (settled s ts j r us)
  then show ?case using settle_ok [of "ps_queue s"] by (simp add: pool_bounded_def)
next
  case (other s d)
  then show ?case using others_ok [OF other.hyps] by (simp add: pool_bounded_def)
qed (auto simp: pool_bounded_def poll_next_def available_def)

lemma pool_bounded_reach:
  assumes "ok d" "0 \<le> wp_max_workers p" "pool_reach p Q others d s"
  shows "pool_bounded p s"
proof -
  have "pool_bounded p (pool_start d)" using assms(1,2) by (simp add: pool_bounded_def pool_start_def)
  with assms(3) show ?thesis
    unfolding pool_reach_def by (induction rule: rtranclp_induct) (auto intro: pool_bounded_step)
qed

end

text \<open>
  The second part: \<open>held i d\<close> says that no claim can return the job \<open>i\<close> in the state \<open>d\<close>. A claim returns different
  jobs, none of them held, and holds them; completing never releases a job, failing releases only the job it names; and
  the other users of the queue leave the jobs of this pool alone.
\<close>

locale claim_queue = bounded_queue Q others ok
  for Q :: "('c, 'd) job_queue"
    and others :: "string set \<Rightarrow> 'd \<Rightarrow> 'd \<Rightarrow> bool"
    and ok :: "'d \<Rightarrow> bool" +
  fixes held :: "string \<Rightarrow> 'd \<Rightarrow> bool"
  assumes claim_distinct: "jq_claim Q c w n d = (Inr js, d') \<Longrightarrow> ok d \<Longrightarrow> distinct (map jo_id js)"
    and claim_holds: "jq_claim Q c w n d = (Inr js, d') \<Longrightarrow> j \<in> set js \<Longrightarrow> held (jo_id j) d'"
    and claim_free: "jq_claim Q c w n d = (Inr js, d') \<Longrightarrow> j \<in> set js \<Longrightarrow> \<not> held (jo_id j) d"
    and claim_keeps: "jq_claim Q c w n d = (x, d') \<Longrightarrow> held i d \<Longrightarrow> held i d'"
    and complete_keeps: "jq_complete Q k d = (u, d') \<Longrightarrow> held i d \<Longrightarrow> held i d'"
    and fail_keeps: "jq_fail Q k e d = (u, d') \<Longrightarrow> i \<noteq> k \<Longrightarrow> held i d \<Longrightarrow> held i d'"
    and others_keep: "others I d d' \<Longrightarrow> i \<in> I \<Longrightarrow> held i d \<Longrightarrow> held i d'"
begin

definition pool_exclusive :: "'d pool_state \<Rightarrow> bool" where
  "pool_exclusive s \<longleftrightarrow> ok (ps_queue s) \<and> distinct (pool_ids s) \<and> (\<forall>i\<in>set (pool_ids s). held i (ps_queue s))"

lemma pool_exclusive_claim:
  assumes "pool_exclusive s" "ps_poll s = Claiming n"
    and "with_ctx (ps_stopped s) (jq_claim Q c w n) (ps_queue s) = (r, d)"
  shows "pool_exclusive (s\<lparr>ps_poll := after_claim r, ps_queue := d\<rparr>)"
proof (cases "ps_stopped s")
  case True
  then show ?thesis
    using assms by (auto simp: pool_exclusive_def with_ctx_def after_claim_def pool_ids_def)
next
  case False
  then have claim: "jq_claim Q c w n (ps_queue s) = (r, d)"
    using assms(3) by (simp add: with_ctx_def)
  have ids: "pool_ids s = task_ids (ps_tasks s)" using assms(2) by (simp add: pool_ids_def)
  have ok: "ok d" using claim_ok [OF claim] assms(1) by (simp add: pool_exclusive_def)
  note keep = claim_keeps [OF claim]
  show ?thesis
  proof (cases r)
    case (Inl e)
    then show ?thesis using assms keep ids ok by (auto simp: pool_exclusive_def after_claim_def pool_ids_def)
  next
    case (Inr js)
    note claim = claim [unfolded Inr]
    have "distinct (map jo_id js)" using claim_distinct [OF claim] assms(1) by (simp add: pool_exclusive_def)
    moreover have "i \<notin> jo_id ` set js" if "i \<in> set (task_ids (ps_tasks s))" for i
      using claim_free [OF claim] that assms(1) ids by (auto simp: pool_exclusive_def)
    ultimately show ?thesis
      using assms(1,2) keep ids ok claim_holds [OF claim] Inr
      by (auto simp: pool_exclusive_def after_claim_def pool_ids_def distinct_map)
  qed
qed

lemma settle_keeps: "i \<noteq> jo_id j \<Longrightarrow> held i d \<Longrightarrow> held i (settle Q b j r d)"
  using fail_keeps [OF surjective_pairing] complete_keeps [OF surjective_pairing]
  by (auto simp: settle_def with_ctx_def split: option.splits)

lemma pool_exclusive_step: "pool_step p Q others s s' \<Longrightarrow> pool_exclusive s \<Longrightarrow> pool_exclusive s'"
proof (induction rule: pool_step.induct)
  case (claim s n c r d)
  then show ?case by (blast intro: pool_exclusive_claim)
next
  case (settled s ts j r us)
  then have "i \<noteq> jo_id j" if "i \<in> set (poll_ids (ps_poll s) @ task_ids (ts @ us))" for i
    using that by (auto simp: pool_exclusive_def pool_ids_def)
  then show ?case
    using settled settle_keeps [of _ j "ps_queue s" "ps_stopped s" r] settle_ok [of "ps_queue s" "ps_stopped s" j r]
    by (simp add: pool_exclusive_def pool_ids_def)
next
  case (other s d)
  then show ?case using others_keep [OF other.hyps] others_ok [OF other.hyps] by (auto simp: pool_exclusive_def)
qed (auto simp: pool_exclusive_def pool_ids_def poll_next_def available_def)

lemma pool_exclusive_reach:
  assumes "ok d" "pool_reach p Q others d s"
  shows "pool_exclusive s"
proof -
  have "pool_exclusive (pool_start d)" using assms(1) by (simp add: pool_exclusive_def pool_start_def pool_ids_def)
  with assms(2) show ?thesis
    unfolding pool_reach_def by (induction rule: rtranclp_induct) (auto intro: pool_exclusive_step)
qed

end

text \<open>What the pool can reach grows with what the others may do.\<close>

lemma pool_step_mono:
  "pool_step p Q A s s' \<Longrightarrow> (\<And>I d d'. A I d d' \<Longrightarrow> B I d d') \<Longrightarrow> pool_step p Q B s s'"
  by (induction rule: pool_step.induct) (auto intro: pool_step.intros)

lemma pool_reach_mono:
  "pool_reach p Q A d s \<Longrightarrow> (\<And>I d d'. A I d d' \<Longrightarrow> B I d d') \<Longrightarrow> pool_reach p Q B d s"
  unfolding pool_reach_def by (rule rtranclp_mono [THEN predicate2D, rotated]) (auto intro: pool_step_mono)

subsection \<open>The pool over the SQL queue\<close>

definition sql_job_queue :: "sql_queue \<Rightarrow> (string \<Rightarrow> bool, jobs_db) job_queue" where
  "sql_job_queue q = \<lparr>jq_claim = Claim q, jq_complete = Complete, jq_fail = Fail\<rparr>"

text \<open>Other processes: any operation of the queue, or any that neither fails nor enqueues a job of \<open>I\<close>.\<close>

definition any_users :: "sql_queue \<Rightarrow> string set \<Rightarrow> jobs_db \<Rightarrow> jobs_db \<Rightarrow> bool" where
  "any_users q I db db' \<longleftrightarrow> (\<exists>op. db' = run_op q op db)"

definition other_users :: "sql_queue \<Rightarrow> string set \<Rightarrow> jobs_db \<Rightarrow> jobs_db \<Rightarrow> bool" where
  "other_users q I db db' \<longleftrightarrow> (\<exists>op. (\<forall>i\<in>I. \<not> releases q i op) \<and> db' = run_op q op db)"

definition unique_jobs :: "jobs_db \<Rightarrow> bool" where
  "unique_jobs db \<longleftrightarrow> unique_key jr_id (jt_rows (tables db))"

lemma op_effect_unique:
  "op_effect q op now t t' \<Longrightarrow> unique_key jr_id (jt_rows t) \<Longrightarrow> unique_key jr_id (jt_rows t')"
  by (cases op)
    (auto simp: map_key_update_where unique_key_upsert dest!: job_statements)

lemma run_op_unique: "unique_jobs db \<Longrightarrow> unique_jobs (run_op q op db)"
  using run_op_tables [of q op db] op_effect_unique by (metis unique_jobs_def)

lemma run_op_held:
  "not_queued i (tables db) \<Longrightarrow> \<not> releases q i op \<Longrightarrow> not_queued i (tables (run_op q op db))"
  using run_op_tables [of q op db] op_effect_not_queued by metis

lemma queue_ops:
  "jq_claim (sql_job_queue q) c w n d = (x, d') \<Longrightarrow> run_op q (OpClaim c w n) d = d'"
  "jq_complete (sql_job_queue q) k d = (u, d') \<Longrightarrow> run_op q (OpComplete k) d = d'"
  "jq_fail (sql_job_queue q) k e d = (u, d') \<Longrightarrow> run_op q (OpFail k e) d = d'"
  by (simp_all add: sql_job_queue_def)

lemma sql_bounded:
  assumes "\<And>I d d'. users I d d' \<Longrightarrow> any_users q I d d'"
  shows "bounded_queue (sql_job_queue q) users unique_jobs"
proof
  fix c w n d js d'
  assume "jq_claim (sql_job_queue q) c w n d = (Inr js, d')" "unique_jobs d" "0 \<le> n"
  then show "int (length js) \<le> n"
    using claim_takes_the_earliest [of q c w n d js d', OF _ _ refl] by (simp add: sql_job_queue_def unique_jobs_def)
next
  show "unique_jobs d'" if "jq_claim (sql_job_queue q) c w n d = (x, d')" "unique_jobs d" for c w n d x d'
    using run_op_unique [OF that(2), of q "OpClaim c w n"] queue_ops(1) [OF that(1)] by simp
  show "unique_jobs d'" if "jq_complete (sql_job_queue q) k d = (u, d')" "unique_jobs d" for k d u d'
    using run_op_unique [OF that(2), of q "OpComplete k"] queue_ops(2) [OF that(1)] by simp
  show "unique_jobs d'" if "jq_fail (sql_job_queue q) k e d = (u, d')" "unique_jobs d" for k e d u d'
    using run_op_unique [OF that(2), of q "OpFail k e"] queue_ops(3) [OF that(1)] by simp
  show "unique_jobs d'" if "users I d d'" "unique_jobs d" for I d d'
    using assms [OF that(1)] run_op_unique [OF that(2)] by (auto simp: any_users_def)
qed

interpretation sql_bound: bounded_queue "sql_job_queue q" "any_users q" unique_jobs
  by (rule sql_bounded)

interpretation sql_pool: claim_queue "sql_job_queue q" "other_users q" unique_jobs "\<lambda>i db. not_queued i (tables db)"
proof (rule claim_queue.intro [OF sql_bounded], goal_cases)
  case (1 I d d')
  then show ?case by (auto simp: any_users_def other_users_def)
next
  case 2
  show ?case
  proof
    fix c w n d js d'
    assume claim: "jq_claim (sql_job_queue q) c w n d = (Inr js, d')"
    then have C: "Claim q c w n d = (Inr js, d')" by (simp add: sql_job_queue_def)
    obtain rows where rows: "claim_jobs q c w n (clock d) (tables d) = Inr (rows, tables d')" "js = map scan_job rows"
      using Claim_Inr [OF C] by blast
    show "distinct (map jo_id js)" if "unique_jobs d"
      using claim_jobs_Inr [OF rows(1)] that rows(2)
      by (simp add: unique_jobs_def comp_def distinct_map inj_on_def)
    fix j assume j: "j \<in> set js"
    show "not_queued (jo_id j) (tables d')" by (rule Claim_not_queued [OF C j])
    show "\<not> not_queued (jo_id j) (tables d)" using not_queued_not_claimed [OF C] j by blast
  next
    fix c w n d x d' i
    assume "jq_claim (sql_job_queue q) c w n d = (x, d')" "not_queued i (tables d)"
    then show "not_queued i (tables d')" using run_op_held [of i d q "OpClaim c w n"] queue_ops(1) by fastforce
  next
    fix k d u d' i
    assume "jq_complete (sql_job_queue q) k d = (u, d')" "not_queued i (tables d)"
    then show "not_queued i (tables d')" using run_op_held [of i d q "OpComplete k"] queue_ops(2) by fastforce
  next
    fix k e d u d' i
    assume "jq_fail (sql_job_queue q) k e d = (u, d')" "i \<noteq> k" "not_queued i (tables d)"
    then show "not_queued i (tables d')" using run_op_held [of i d q "OpFail k e"] queue_ops(3) by fastforce
  next
    fix I d d' i
    assume "other_users q I d d'" "i \<in> I" "not_queued i (tables d)"
    then show "not_queued i (tables d')" using run_op_held by (auto simp: other_users_def)
  qed
qed

text \<open>
  C11: the pool never runs more jobs than it may, and no job twice at a time. In every state the pool can
  reach, whatever the interleaving of its goroutines, \<^verbatim>\<open>Stop\<close>, failing queries and whatever operations of the queue its other
  users perform, \<^verbatim>\<open>active\<close> counts the goroutines that are there and there are at most \<^verbatim>\<open>maxWorkers\<close> of them. And
  as long as no other user fails or enqueues again a job that is in the charge of the pool, the jobs in its charge are all different.
\<close>

theorem pool_bounded_and_exclusive:
  assumes "unique_jobs db" and "\<And>I d d'. users I d d' \<Longrightarrow> any_users q I d d'"
    and "pool_reach (fold RegisterHandler kinds (NewWorkerPool opts)) (sql_job_queue q) users db s"
  shows "ps_active s = int (length (ps_tasks s)) \<and>
    ps_active s \<le> (if wo_max_workers opts \<le> 0 then 5 else wo_max_workers opts) \<and>
    ((\<forall>I d d'. users I d d' \<longrightarrow> other_users q I d d') \<longrightarrow> distinct (pool_ids s))"
proof -
  let ?p = "fold RegisterHandler kinds (NewWorkerPool opts)"
  have max: "wp_max_workers ?p = (if wo_max_workers opts \<le> 0 then 5 else wo_max_workers opts)"
  proof -
    have "wp_max_workers (fold RegisterHandler kinds p) = wp_max_workers p" for p
      by (induction kinds arbitrary: p) (simp_all add: RegisterHandler_def)
    then show ?thesis by (simp add: NewWorkerPool_def)
  qed
  have "sql_bound.pool_bounded ?p s"
    by (rule sql_bound.pool_bounded_reach [OF assms(1) _ pool_reach_mono [OF assms(3)]])
      (use max assms(2) in auto)
  moreover have "sql_pool.pool_exclusive s" if "\<forall>I d d'. users I d d' \<longrightarrow> other_users q I d d'"
    by (rule sql_pool.pool_exclusive_reach [OF assms(1) pool_reach_mono [OF assms(3)]]) (use that in blast)
  ultimately show ?thesis
    by (auto simp: sql_bound.pool_bounded_def sql_pool.pool_exclusive_def max split: if_splits)
qed

subsection \<open>What stopping does to a running job\<close>

fun touches :: "sql_queue \<Rightarrow> string \<Rightarrow> queue_op \<Rightarrow> bool" where
  "touches q i (OpComplete k) \<longleftrightarrow> k = i"
| "touches q i op \<longleftrightarrow> releases q i op"

definition bystanders :: "sql_queue \<Rightarrow> string \<Rightarrow> string set \<Rightarrow> jobs_db \<Rightarrow> jobs_db \<Rightarrow> bool" where
  "bystanders q i I db db' \<longleftrightarrow> (\<exists>op. \<not> touches q i op \<and> db' = run_op q op db)"

definition running_in :: "string \<Rightarrow> jobs_table \<Rightarrow> bool" where
  "running_in i t \<longleftrightarrow> i \<in> jr_id ` set (jt_rows t) \<and>
     (\<forall>r\<in>set (jt_rows t). jr_id r = i \<longrightarrow> jr_status r = StatusRunning)"

lemma running_update:
  "running_in i t \<Longrightarrow> (\<And>r. jr_id (f r) = jr_id r) \<Longrightarrow>
     (\<And>r. r \<in> set (jt_rows t) \<Longrightarrow> Q r \<Longrightarrow> jr_id r = i \<Longrightarrow> jr_status r = StatusRunning \<Longrightarrow> jr_status (f r) = StatusRunning) \<Longrightarrow>
     running_in i (t\<lparr>jt_rows := update_where Q f (jt_rows t)\<rparr>)"
  unfolding running_in_def by (auto simp: key_set_update_where) (auto simp: set_update_where)

lemma op_effect_running:
  assumes "op_effect q op now t t'" "running_in i t" "\<not> touches q i op"
  shows "running_in i t'"
proof (cases op)
  case (OpEnqueue job)
  then obtain k where k: "enqueue_id q job = Some k" "k \<noteq> i"
    and ins: "insert_job q (enqueue_defaults q k job) now t = Inr ((), t')"
    using assms by auto
  obtain p where t': "t' = t\<lparr>jt_rows := upsert jr_id (new_row (enqueue_defaults q k job) p)
      (\<lambda>r. (new_row (enqueue_defaults q k job) p)\<lparr>jr_id := jr_id r\<rparr>) (jt_rows t)\<rparr>"
    using insert_job_Inr [OF ins] by blast
  have "i \<in> jr_id ` set (jt_rows t')"
    using assms(2) by (simp add: t' running_in_def key_set_upsert)
  moreover have "jr_status r = StatusRunning" if "r \<in> set (jt_rows t')" "jr_id r = i" for r
    using that assms(2) k set_upsert_keyD [of r jr_id "new_row (enqueue_defaults q k job) p"
        "\<lambda>r. (new_row (enqueue_defaults q k job) p)\<lparr>jr_id := jr_id r\<rparr>" "jt_rows t"]
    by (auto simp: t' running_in_def enqueue_defaults_def)
  ultimately show ?thesis by (simp add: running_in_def)
next
  case (OpClaim skip w n)
  then show ?thesis using assms by (auto dest!: claim_jobs_Inr intro!: running_update)
next
  case (OpComplete k)
  then show ?thesis using assms by (auto dest!: complete_job_Inr intro!: running_update)
next
  case (OpFail k cause)
  then show ?thesis using assms by (auto dest!: fail_job_Inr intro!: running_update)
next
  case (OpCancel k)
  then show ?thesis using assms by (auto dest!: cancel_job_Inr intro!: running_update)
qed (use assms in auto)

lemma stopped_step:
  "pool_step p Q (bystanders q i) s s' \<Longrightarrow> ps_stopped s \<Longrightarrow> running_in i (tables (ps_queue s)) \<Longrightarrow>
     ps_stopped s' \<and> running_in i (tables (ps_queue s'))"
proof (induction rule: pool_step.induct)
  case (other s d)
  then obtain op where "\<not> touches q i op" "d = run_op q op (ps_queue s)"
    by (auto simp: bystanders_def)
  then show ?case
    using run_op_tables [of q op "ps_queue s"] op_effect_running other.prems by auto
qed (auto simp: with_ctx_def settle_def)

text \<open>
  Stopping the pool strands the jobs it is running. Once \<^verbatim>\<open>Stop\<close> has cancelled the context of the pool, a
  job that is marked running stays so forever, even after its goroutine has finished and the pool has exited, and whatever
  other processes do that neither complete, fail nor enqueue this very job: \<^verbatim>\<open>Complete\<close> and \<^verbatim>\<open>Fail\<close> are called
  under the cancelled context, and no claim of any worker returns a running job.
\<close>

theorem stopped_job_stays_running:
  assumes "ps_stopped s" "running_in i (tables (ps_queue s))"
    and "(pool_step p (sql_job_queue q) (bystanders q i))\<^sup>*\<^sup>* s s'"
  shows "running_in i (tables (ps_queue s')) \<and>
    (\<forall>skip w n js db. Claim q skip w n (ps_queue s') = (Inr js, db) \<longrightarrow> i \<notin> jo_id ` set js)"
proof -
  have "ps_stopped s' \<and> running_in i (tables (ps_queue s'))"
    using assms(3,1,2) by (induction rule: rtranclp_induct) (auto dest: stopped_step)
  moreover have "running_in i t \<Longrightarrow> not_queued i t" for t
    by (auto simp: running_in_def not_queued_def)
  ultimately show ?thesis using not_queued_not_claimed by blast
qed

subsection \<open>A sample run of the pool\<close>

definition sample_pool :: worker_pool where
  "sample_pool = RegisterHandler ''k'' (NewWorkerPool
     \<lparr>wo_max_workers = 1, wo_poll_interval = 1, wo_worker_id = ''w''\<rparr>)"

lemma sample_pool_fields [simp]:
  "wp_max_workers sample_pool = 1" "wp_worker_id sample_pool = ''w''" "wp_handlers sample_pool = [''k'']"
  by (simp_all add: sample_pool_def RegisterHandler_def NewWorkerPool_def List.insert_def)

abbreviation sample_pool_state :: "int \<Rightarrow> poll_state \<Rightarrow> task list \<Rightarrow> bool \<Rightarrow> job_row list \<Rightarrow> jobs_db pool_state" where
  "sample_pool_state a po ts b rows \<equiv> \<lparr>ps_active = a, ps_poll = po, ps_tasks = ts, ps_stopped = b,
     ps_queue = jobs_sample rows\<rparr>"

abbreviation claimed_job :: job where "claimed_job \<equiv> scan_job claimed_row"

lemma sample_pool_runs:
  "(pool_step sample_pool (sql_job_queue sample_queue) others)\<^sup>*\<^sup>* (pool_start (jobs_sample [sample_job_row]))
     (sample_pool_state 1 Waiting [Working claimed_job] False [claimed_row])"
proof -
  let ?step = "pool_step sample_pool (sql_job_queue sample_queue) others"
  have s1: "?step (pool_start (jobs_sample [sample_job_row])) (sample_pool_state 0 Waiting [] False [sample_job_row])"
    using pool_step.start [of "pool_start (jobs_sample [sample_job_row])"] by (simp add: pool_start_def)
  have s2: "?step (sample_pool_state 0 Waiting [] False [sample_job_row])
      (sample_pool_state 0 (Claiming 1) [] False [sample_job_row])"
    using pool_step.poll [of "sample_pool_state 0 Waiting [] False [sample_job_row]" sample_pool "sql_job_queue sample_queue" others]
    by (simp add: poll_next_def available_def)
  have s3: "?step (sample_pool_state 0 (Claiming 1) [] False [sample_job_row])
      (sample_pool_state 0 (Dispatching [claimed_job]) [] False [claimed_row])"
    using pool_step.claim [of "sample_pool_state 0 (Claiming 1) [] False [sample_job_row]" 1 "sql_job_queue sample_queue"
        "\<lambda>_. False" sample_pool "Inr [claimed_job]" "jobs_sample [claimed_row]"]
    by (simp add: with_ctx_def sql_job_queue_def sample_claim after_claim_def)
  have s4: "?step (sample_pool_state 0 (Dispatching [claimed_job]) [] False [claimed_row])
      (sample_pool_state 1 (Dispatching []) [Working claimed_job] False [claimed_row])"
    using pool_step.dispatch [of "sample_pool_state 0 (Dispatching [claimed_job]) [] False [claimed_row]" claimed_job "[]"] by simp
  have s5: "?step (sample_pool_state 1 (Dispatching []) [Working claimed_job] False [claimed_row])
      (sample_pool_state 1 Waiting [Working claimed_job] False [claimed_row])"
    using pool_step.dispatched [of "sample_pool_state 1 (Dispatching []) [Working claimed_job] False [claimed_row]"] by simp
  show ?thesis
    by (rule converse_rtranclp_into_rtranclp, rule s1, rule converse_rtranclp_into_rtranclp, rule s2, rule converse_rtranclp_into_rtranclp, rule s3, rule converse_rtranclp_into_rtranclp, rule s4, rule converse_rtranclp_into_rtranclp, rule s5,
      rule rtranclp.rtrancl_refl)
qed

lemma sample_pool_stops:
  "(pool_step sample_pool (sql_job_queue sample_queue) others)\<^sup>*\<^sup>*
     (sample_pool_state 1 Waiting [Working claimed_job] True [claimed_row])
     (sample_pool_state 0 Exited [] True [claimed_row])"
proof -
  let ?step = "pool_step sample_pool (sql_job_queue sample_queue) others"
  have s1: "?step (sample_pool_state 1 Waiting [Working claimed_job] True [claimed_row])
      (sample_pool_state 1 Waiting [Settling claimed_job None] True [claimed_row])"
    using pool_step.work [of "sample_pool_state 1 Waiting [Working claimed_job] True [claimed_row]" "[]" claimed_job "[]" sample_pool None]
    by (simp add: outcome_ok_def scan_job_def claimed_row_def claim_mark_def sample_job_row_def)
  have s2: "?step (sample_pool_state 1 Waiting [Settling claimed_job None] True [claimed_row])
      (sample_pool_state 1 Waiting [Leaving] True [claimed_row])"
    using pool_step.settled [of "sample_pool_state 1 Waiting [Settling claimed_job None] True [claimed_row]" "[]" claimed_job None "[]"]
    by (simp add: settle_def with_ctx_def)
  have s3: "?step (sample_pool_state 1 Waiting [Leaving] True [claimed_row])
      (sample_pool_state 0 Waiting [] True [claimed_row])"
    using pool_step.leave [of "sample_pool_state 1 Waiting [Leaving] True [claimed_row]" "[]" "[]"] by simp
  have s4: "?step (sample_pool_state 0 Waiting [] True [claimed_row]) (sample_pool_state 0 Exited [] True [claimed_row])"
    using pool_step.exit [of "sample_pool_state 0 Waiting [] True [claimed_row]"] by simp
  show ?thesis
    by (rule converse_rtranclp_into_rtranclp, rule s1, rule converse_rtranclp_into_rtranclp, rule s2, rule converse_rtranclp_into_rtranclp, rule s3, rule converse_rtranclp_into_rtranclp, rule s4,
      rule rtranclp.rtrancl_refl)
qed

lemma pool_bounded_and_exclusive_witness:
  "ps_active (sample_pool_state 1 Waiting [Working claimed_job] False [claimed_row]) \<le> 1 \<and>
   distinct (pool_ids (sample_pool_state 1 Waiting [Working claimed_job] False [claimed_row]))"
  using pool_bounded_and_exclusive [of "jobs_sample [sample_job_row]" "other_users sample_queue" sample_queue "[''k'']"
      "\<lparr>wo_max_workers = 1, wo_poll_interval = 1, wo_worker_id = ''w''\<rparr>"
      "sample_pool_state 1 Waiting [Working claimed_job] False [claimed_row]"] sample_pool_runs
  by (auto simp: pool_reach_def sample_pool_def unique_jobs_def jobs_sample_def any_users_def other_users_def)

lemma stopped_job_stays_running_witness:
  "running_in ''a'' (tables (ps_queue (sample_pool_state 0 Exited [] True [claimed_row])))"
proof -
  have "running_in ''a'' (tables (ps_queue (sample_pool_state 1 Waiting [Working claimed_job] True [claimed_row])))"
    by (simp add: running_in_def jobs_sample_def claimed_row_def claim_mark_def sample_job_row_def)
  from stopped_job_stays_running [OF _ this sample_pool_stops] show ?thesis by simp
qed

end
