(* ===== verification/PluginManifest.thy ===== *)
theory PluginManifest
  imports Capability
begin

text \<open>
  \<^verbatim>\<open>internal/plugins/manifest.go\<close>: the manifest of a plugin, its validation, and the actions it
  declares in normal form. The parsers of the standard library are parameters: \<open>lb_json_object\<close> is what
  \<^verbatim>\<open>json.Unmarshal\<close> into a map makes of a text, \<open>lb_url\<close> is \<^verbatim>\<open>url.Parse\<close> and \<open>lb_manifest\<close> the
  strict JSON decoding of a manifest. A list of the code that is nil or empty is the empty list.
\<close>

type_synonym source_kind = string
type_synonym dispatch_mode = string
type_synonym safety_class = string
type_synonym dispatch_adapter = string

abbreviation SourceKindKnown :: source_kind where "SourceKindKnown \<equiv> ''known''"
abbreviation SourceKindManifestURL :: source_kind where "SourceKindManifestURL \<equiv> ''manifest_url''"
abbreviation SourceKindUploadedFile :: source_kind where "SourceKindUploadedFile \<equiv> ''uploaded_file''"

abbreviation DispatchModeDryRun :: dispatch_mode where "DispatchModeDryRun \<equiv> ''dry_run''"
abbreviation DispatchModeSendMessage :: dispatch_mode where "DispatchModeSendMessage \<equiv> ''send_message''"

abbreviation SafetyClassPublic :: safety_class where "SafetyClassPublic \<equiv> ''public''"
abbreviation SafetyClassRestricted :: safety_class where "SafetyClassRestricted \<equiv> ''restricted''"

abbreviation DispatchAdapterPrefixCommand :: dispatch_adapter where
  "DispatchAdapterPrefixCommand \<equiv> ''prefix_command''"

record plugin_capability =
  pc_name :: string
  pc_description :: string

record trigger =
  tg_kind :: string
  tg_value :: string
  tg_aliases :: "string list"

record attribution =
  at_name :: string
  at_use :: string
  at_source :: string

record plugin_action =
  ac_id :: string
  ac_name :: string
  ac_description :: string
  ac_trigger :: trigger
  ac_surfaces :: "string list"
  ac_permissions :: "string list"
  ac_safety :: safety_class
  ac_dispatch :: dispatch_mode
  ac_adapter :: dispatch_adapter
  ac_arg_schema :: string

record manifest =
  mf_id :: string
  mf_name :: string
  mf_version :: string
  mf_source :: string
  mf_source_kind :: source_kind
  mf_discord_application_id :: string
  mf_discord_bot_user_id :: string
  mf_manifest_url :: string
  mf_capabilities :: "plugin_capability list"
  mf_triggers :: "trigger list"
  mf_actions :: "plugin_action list"
  mf_surfaces :: "string list"
  mf_permissions :: "string list"
  mf_dispatch :: dispatch_mode
  mf_public_dispatch_allowed :: bool
  mf_config_schema :: string
  mf_audit_events :: "string list"
  mf_attribution :: "attribution list"

subsection \<open>The parsers of the standard library\<close>

text \<open>A parsed URL: \<open>ur_host\<close> may hold a port, \<open>ur_hostname\<close> (\<^verbatim>\<open>Hostname()\<close>) does not.\<close>

record url =
  ur_scheme :: string
  ur_has_user :: bool
  ur_host :: string
  ur_hostname :: string
  ur_path :: string
  ur_raw_query :: string
  ur_fragment :: string

datatype json_map = JsonError | JsonNull | JsonObject

record lib =
  lb_url :: "string \<Rightarrow> url option"
  lb_json_object :: "string \<Rightarrow> json_map"
  lb_manifest :: "string \<Rightarrow> manifest option"

subsection \<open>Validation\<close>

abbreviation blank :: "string \<Rightarrow> bool" where "blank s \<equiv> trim_space s = []"

definition validDiscordID :: "string \<Rightarrow> bool" where
  "validDiscordID value0 =
     (let value = trim_space value0 in
      \<not> (length value < 5 \<or> length value > 30) \<and> list_all is_digit_rune (runes value))"

definition identifier_rune :: "nat \<Rightarrow> bool" where
  "identifier_rune r \<longleftrightarrow> is_lower_rune r \<or> is_digit_rune r \<or> r \<in> {46, 95, 45}"

definition validIdentifier :: "string \<Rightarrow> bool" where
  "validIdentifier value0 =
     (let value = trim_space value0 in
      \<not> (value = [] \<or> length value > 128) \<and> list_all identifier_rune (runes value))"

definition validateManifestURL :: "lib \<Rightarrow> string \<Rightarrow> unit result" where
  "validateManifestURL lib value0 =
     (let value = trim_space value0 in
      if value = [] then Inl (Errorf ''manifest URL is required'')
      else case lb_url lib value of
          None \<Rightarrow> Inl (Errorf ''manifest URL must be an HTTPS URL'')
        | Some parsed \<Rightarrow> checks
            [must (ur_scheme parsed = ''https'' \<and> ur_host parsed \<noteq> []) ''manifest URL must be an HTTPS URL'',
             must (\<not> ur_has_user parsed \<and> ur_raw_query parsed = [] \<and> ur_fragment parsed = [])
               ''manifest URL must not include user info, query, or fragment''])"

definition validateTrigger :: "trigger \<Rightarrow> unit result" where
  "validateTrigger t = checks
     [must (\<not> blank (tg_kind t) \<and> \<not> blank (tg_value t)) ''trigger kind and value are required'',
      check_each (\<lambda>alias. must (\<not> blank alias) ''trigger alias is required'') (tg_aliases t)]"

definition validateSurfaces :: "string list \<Rightarrow> unit result" where
  "validateSurfaces surfaces = check_each (\<lambda>s. must (\<not> blank s) ''%s is required'') surfaces"

definition with_context :: "string \<Rightarrow> 'a result \<Rightarrow> unit result" where
  "with_context msg r = (case r of Inl e \<Rightarrow> Inl (Wrap msg e) | Inr x \<Rightarrow> Inr ())"

lemma with_context_Inr [simp]: "with_context msg r = Inr u \<longleftrightarrow> (\<exists>x. r = Inr x)"
  by (simp add: with_context_def split: sum.splits)

definition validatePermissions :: "string list \<Rightarrow> unit result" where
  "validatePermissions permissions = check_each (\<lambda>p. with_context ''%s %q'' (Normalize p)) permissions"

definition validateDispatchMode :: "dispatch_mode \<Rightarrow> unit result" where
  "validateDispatchMode d =
     must (d \<in> {[], DispatchModeDryRun, DispatchModeSendMessage}) ''unsupported dispatch mode %q''"

definition validateJSONObject :: "lib \<Rightarrow> string \<Rightarrow> unit result" where
  "validateJSONObject lib value0 =
     (let value = trim_space value0 in
      must (value = [] \<or> lb_json_object lib value = JsonObject) ''%s must be a JSON object'')"

definition validateAction :: "lib \<Rightarrow> manifest \<Rightarrow> plugin_action \<Rightarrow> unit result" where
  "validateAction lib m a =
     (let actionID = trim_space (ac_id a);
          surfaces = (if ac_surfaces a = [] then mf_surfaces m else ac_surfaces a)
      in checks
       [must (actionID \<noteq> []) ''action id is required'',
        must (validIdentifier actionID) ''action %q id contains unsupported characters'',
        with_context ''action %q'' (validateTrigger (ac_trigger a)),
        must (surfaces \<noteq> []) ''action %q surfaces are required'',
        validateSurfaces surfaces,
        validatePermissions (ac_permissions a),
        must (ac_safety a \<in> {SafetyClassPublic, SafetyClassRestricted})
          ''action %q has unsupported safety class %q'',
        must (\<not> (ac_safety a = SafetyClassPublic \<and> ac_permissions a \<noteq> []))
          ''action %q public safety cannot require permissions'',
        must (\<not> (ac_safety a = SafetyClassRestricted \<and> ac_permissions a = []))
          ''action %q restricted safety requires permissions'',
        with_context ''action %q'' (validateDispatchMode (ac_dispatch a)),
        must (ac_adapter a \<in> {[], DispatchAdapterPrefixCommand})
          ''action %q has unsupported dispatch adapter %q'',
        validateJSONObject lib (ac_arg_schema a)])"

definition validateCapability :: "plugin_capability \<Rightarrow> unit result" where
  "validateCapability c = checks
     [with_context ''capability %q'' (Normalize (pc_name c)),
      must (\<not> blank (pc_description c)) ''capability %q description is required'']"

definition validateAttribution :: "attribution \<Rightarrow> unit result" where
  "validateAttribution r =
     must (\<not> blank (at_name r) \<and> \<not> blank (at_use r) \<and> \<not> blank (at_source r))
       ''attribution name, use, and source are required''"

definition Validate :: "lib \<Rightarrow> manifest \<Rightarrow> unit result" where
  "Validate lib m = checks
    [must (\<not> blank (mf_id m)) ''plugin id is required'',
     must (validIdentifier (mf_id m)) ''plugin id contains unsupported characters'',
     must (\<not> blank (mf_name m)) ''name is required'',
     must (\<not> blank (mf_version m)) ''version is required'',
     must (\<not> blank (mf_source m)) ''source is required'',
     must (mf_source_kind m \<noteq> []) ''source kind is required'',
     must (mf_source_kind m \<in> {SourceKindKnown, SourceKindManifestURL, SourceKindUploadedFile})
       ''unsupported source kind %q'',
     must (\<not> (blank (mf_discord_application_id m) \<and> blank (mf_discord_bot_user_id m)))
       ''Discord application ID or bot user ID is required'',
     must (blank (mf_discord_application_id m) \<or> validDiscordID (mf_discord_application_id m))
       ''Discord application ID must be a snowflake ID'',
     must (blank (mf_discord_bot_user_id m) \<or> validDiscordID (mf_discord_bot_user_id m))
       ''Discord bot user ID must be a snowflake ID'',
     (if mf_source_kind m = SourceKindManifestURL then validateManifestURL lib (mf_manifest_url m) else Inr ()),
     must (mf_capabilities m \<noteq> []) ''capabilities are required'',
     check_each validateCapability (mf_capabilities m),
     must (\<not> (mf_triggers m = [] \<and> mf_actions m = [])) ''triggers are required'',
     check_each validateTrigger (mf_triggers m),
     must (\<not> (mf_surfaces m = [] \<and> mf_actions m = [])) ''surfaces are required'',
     validateSurfaces (mf_surfaces m),
     validatePermissions (mf_permissions m),
     validateDispatchMode (mf_dispatch m),
     check_each (validateAction lib m) (mf_actions m),
     validateJSONObject lib (mf_config_schema m),
     must (mf_audit_events m \<noteq> []) ''audit events are required'',
     check_each (\<lambda>e. must (\<not> blank e) ''audit event is required'') (mf_audit_events m),
     must (mf_attribution m \<noteq> []) ''attribution is required'',
     check_each validateAttribution (mf_attribution m)]"

subsection \<open>Decoding\<close>

definition maxManifestBytes :: nat where "maxManifestBytes = 2 ^ 20"

text \<open>The decoder reads at most \<^verbatim>\<open>maxManifestBytes\<close> bytes of the reader.\<close>

definition decodeManifest :: "lib \<Rightarrow> string \<Rightarrow> manifest result" where
  "decodeManifest lib body =
     (case lb_manifest lib (take maxManifestBytes body) of
        None \<Rightarrow> Inl (Wrap ''decode manifest'' (Errorf ''invalid JSON''))
      | Some m \<Rightarrow> Inr (m\<lparr>mf_public_dispatch_allowed := False\<rparr>))"

definition validated :: "lib \<Rightarrow> manifest \<Rightarrow> manifest result" where
  "validated lib m = attempt (Validate lib m) (\<lambda>_. Inr m)"

definition DecodeManifest :: "lib \<Rightarrow> string \<Rightarrow> manifest result" where
  "DecodeManifest lib body = attempt (decodeManifest lib body) (validated lib)"

definition DecodeManifestFromURL :: "lib \<Rightarrow> string \<Rightarrow> string \<Rightarrow> manifest result" where
  "DecodeManifestFromURL lib body manifestURL =
     attempt (decodeManifest lib body) (\<lambda>m.
       validated lib (m\<lparr>mf_source_kind := SourceKindManifestURL, mf_manifest_url := trim_space manifestURL\<rparr>))"

definition DecodeManifestFromAttachment :: "lib \<Rightarrow> string \<Rightarrow> manifest result" where
  "DecodeManifestFromAttachment lib body =
     attempt (decodeManifest lib body) (\<lambda>m.
       validated lib (m\<lparr>mf_source_kind := SourceKindUploadedFile, mf_manifest_url := []\<rparr>))"

subsection \<open>Actions in normal form\<close>

definition safetyForPermissions :: "string list \<Rightarrow> safety_class" where
  "safetyForPermissions ps = (if ps = [] then SafetyClassPublic else SafetyClassRestricted)"

definition normalizedDispatchMode :: "dispatch_mode \<Rightarrow> dispatch_mode" where
  "normalizedDispatchMode d = (if d = [] then DispatchModeDryRun else d)"

definition normalizeAction :: "manifest \<Rightarrow> plugin_action \<Rightarrow> string \<Rightarrow> plugin_action" where
  "normalizeAction m a defaultID = a\<lparr>
     ac_id := (if trim_space (ac_id a) = [] then defaultID else trim_space (ac_id a)),
     ac_surfaces := (if ac_surfaces a = [] then mf_surfaces m else ac_surfaces a),
     ac_safety := (if ac_safety a = [] then safetyForPermissions (ac_permissions a) else ac_safety a),
     ac_dispatch := (if ac_dispatch a = [] then normalizedDispatchMode (mf_dispatch m)
       else normalizedDispatchMode (ac_dispatch a)),
     ac_adapter := (if ac_adapter a = [] then DispatchAdapterPrefixCommand else ac_adapter a)\<rparr>"

definition legacy_action :: "manifest \<Rightarrow> nat \<Rightarrow> trigger \<Rightarrow> plugin_action" where
  "legacy_action m i t =
     \<lparr>ac_id = (if length (mf_triggers m) > 1 then ''legacy-'' @ nat_str (i + 1) else ''legacy''),
      ac_name = [], ac_description = [], ac_trigger = t, ac_surfaces = mf_surfaces m,
      ac_permissions = mf_permissions m, ac_safety = safetyForPermissions (mf_permissions m),
      ac_dispatch = normalizedDispatchMode (mf_dispatch m), ac_adapter = DispatchAdapterPrefixCommand,
      ac_arg_schema = []\<rparr>"

definition NormalizedActions :: "manifest \<Rightarrow> plugin_action list" where
  "NormalizedActions m =
     (if mf_actions m \<noteq> [] then map (\<lambda>a. normalizeAction m a []) (mf_actions m)
      else map (\<lambda>(i, t). legacy_action m i t) (enumerate 0 (mf_triggers m)))"

definition public_send :: "plugin_action \<Rightarrow> bool" where
  "public_send a \<longleftrightarrow> ac_dispatch a = DispatchModeSendMessage \<and> ac_safety a = SafetyClassPublic \<and>
     ac_permissions a = []"

definition HasPublicSendMessageAction :: "manifest \<Rightarrow> bool" where
  "HasPublicSendMessageAction m \<longleftrightarrow> list_ex public_send (NormalizedActions m)"

definition PublicDispatchConsentRequired :: "manifest \<Rightarrow> bool" where
  "PublicDispatchConsentRequired m = HasPublicSendMessageAction m"

end
