(* ===== verification/PluginMatcher.thy ===== *)
theory PluginMatcher
  imports PluginManifest
begin

text \<open>
  \<^verbatim>\<open>internal/plugins/matcher.go\<close>: which action of which enabled plugin a message asks for. The action is the first,
  in the order of the manifests, that supports the surface and whose prefix trigger, bare trigger or alias
  begins the message; the plan names the capabilities the action requires.
\<close>

record command_plan =
  cp_manifest :: manifest
  cp_action :: plugin_action
  cp_trigger :: trigger
  cp_command :: string
  cp_arguments :: string
  cp_required_capabilities :: "capability list"

definition CommandDispatchMode :: "command_plan \<Rightarrow> dispatch_mode" where
  "CommandDispatchMode p =
     (if ac_dispatch (cp_action p) \<noteq> [] then ac_dispatch (cp_action p)
      else normalizedDispatchMode (mf_dispatch (cp_manifest p)))"

definition PublicAction :: "command_plan \<Rightarrow> bool" where
  "PublicAction p \<longleftrightarrow> ac_safety (cp_action p) = SafetyClassPublic \<and> cp_required_capabilities p = []"

definition supportsActionSurface :: "plugin_action \<Rightarrow> string \<Rightarrow> bool" where
  "supportsActionSurface a surface \<longleftrightarrow> list_ex (\<lambda>s. trim_space s = surface) (ac_surfaces a)"

text \<open>\<^verbatim>\<open>strings.TrimLeftFunc\<close>.\<close>

function trim_left_func :: "(nat \<Rightarrow> bool) \<Rightarrow> string \<Rightarrow> string" where
  "trim_left_func P s =
     (if s = [] then []
      else case decode_rune s of (r, n) \<Rightarrow> if P r then trim_left_func P (drop (max 1 n) s) else s)"
  by pat_completeness auto
termination
  by (relation "measure (length \<circ> snd)") auto

declare trim_left_func.simps [simp del]

definition bareCommand :: "string \<Rightarrow> string" where
  "bareCommand command =
     trim_left_func (\<lambda>r. \<not> is_letter_rune r \<and> \<not> is_digit_rune r) (trim_space command)"

definition triggerAliases :: "trigger \<Rightarrow> string list" where
  "triggerAliases t =
     (let value = trim_space (tg_value t); bare = bareCommand value in
      (if bare \<noteq> [] \<and> \<not> equal_fold bare value then [bare] else []) @
      filter (\<lambda>alias. \<not> (alias = [] \<or> equal_fold alias value)) (map trim_space (tg_aliases t)))"

definition matchCommand :: "string \<Rightarrow> string \<Rightarrow> string option" where
  "matchCommand text0 command0 =
     (let text = trim_space text0; command = trim_space command0; rest = drop (length command) text in
      if length text < length command then None
      else if \<not> equal_fold (take (length command) text) command then None
      else if length text = length command then Some []
      else if head_seq_len white_space_runes rest = 0 then None
      else Some (trim_space rest))"

definition buildCommand :: "string \<Rightarrow> string \<Rightarrow> string" where
  "buildCommand t0 args0 =
     (let t = trim_space t0; args = trim_space args0 in if args = [] then t else t @ '' '' @ args)"

fun first_match :: "string \<Rightarrow> string list \<Rightarrow> string option" where
  "first_match text [] = None"
| "first_match text (c # cs) = (case matchCommand text c of None \<Rightarrow> first_match text cs | Some args \<Rightarrow> Some args)"

definition matchPrefixTrigger :: "trigger \<Rightarrow> string \<Rightarrow> (string \<times> string) option" where
  "matchPrefixTrigger t text =
     (let value = trim_space (tg_value t) in
      if value = [] then None
      else map_option (\<lambda>args. (buildCommand value args, args)) (first_match text (value # triggerAliases t)))"

definition requiredActionCapabilities :: "plugin_action \<Rightarrow> capability list" where
  "requiredActionCapabilities a =
     List.map_filter (\<lambda>p. case Normalize p of Inl e \<Rightarrow> None | Inr c \<Rightarrow> Some c) (ac_permissions a)"

definition plan_of :: "manifest \<Rightarrow> plugin_action \<Rightarrow> string \<Rightarrow> string \<Rightarrow> command_plan" where
  "plan_of m a command args =
     \<lparr>cp_manifest = m, cp_action = a, cp_trigger = ac_trigger a, cp_command = command,
      cp_arguments = args, cp_required_capabilities = requiredActionCapabilities a\<rparr>"

text \<open>The loops over manifests and actions: the first pair for which \<open>f\<close> gives a plan.\<close>

fun first_plan :: "(manifest \<times> plugin_action \<Rightarrow> command_plan option) \<Rightarrow> (manifest \<times> plugin_action) list \<Rightarrow> command_plan option"
where
  "first_plan f [] = None"
| "first_plan f (x # xs) = (case f x of None \<Rightarrow> first_plan f xs | Some p \<Rightarrow> Some p)"

definition all_actions :: "manifest list \<Rightarrow> (manifest \<times> plugin_action) list" where
  "all_actions ms = concat (map (\<lambda>m. map (\<lambda>a. (m, a)) (NormalizedActions m)) ms)"

definition plan_action :: "string \<Rightarrow> string \<Rightarrow> manifest \<times> plugin_action \<Rightarrow> command_plan option" where
  "plan_action surface text ma =
     (case ma of (m, a) \<Rightarrow>
        if \<not> supportsActionSurface a surface then None
        else if trim_space (tg_kind (ac_trigger a)) \<noteq> ''prefix'' then None
        else map_option (\<lambda>(command, args). plan_of m a command args) (matchPrefixTrigger (ac_trigger a) text))"

definition PlanCommand :: "manifest list \<Rightarrow> string \<Rightarrow> string \<Rightarrow> command_plan option" where
  "PlanCommand manifests surface0 text0 =
     (let surface = trim_space surface0; text = trim_space text0 in
      if surface = [] \<or> text = [] then None
      else first_plan (plan_action surface text) (all_actions manifests))"

definition plan_trigger ::
  "string \<Rightarrow> string \<Rightarrow> string \<Rightarrow> string \<Rightarrow> manifest \<times> plugin_action \<Rightarrow> command_plan option" where
  "plan_trigger surface pluginID triggerValue arguments ma =
     (case ma of (m, a) \<Rightarrow>
        if trim_space (mf_id m) \<noteq> pluginID then None
        else if \<not> supportsActionSurface a surface then None
        else if trim_space (tg_kind (ac_trigger a)) \<noteq> ''prefix'' \<or>
          trim_space (tg_value (ac_trigger a)) \<noteq> triggerValue then None
        else (let args = trim_space arguments in
          Some (plan_of m a (buildCommand (tg_value (ac_trigger a)) args) args)))"

definition PlanCommandFromTrigger ::
  "manifest list \<Rightarrow> string \<Rightarrow> string \<Rightarrow> string \<Rightarrow> string \<Rightarrow> command_plan option" where
  "PlanCommandFromTrigger manifests surface0 pluginID0 triggerValue0 arguments =
     (let surface = trim_space surface0; pluginID = trim_space pluginID0; triggerValue = trim_space triggerValue0 in
      if surface = [] \<or> pluginID = [] \<or> triggerValue = [] then None
      else first_plan (plan_trigger surface pluginID triggerValue arguments) (all_actions manifests))"

subsection \<open>What is planned\<close>

lemma first_plan_SomeD: "first_plan f xs = Some p \<Longrightarrow> \<exists>x\<in>set xs. f x = Some p"
  by (induction xs) (auto split: option.splits)

lemma first_plan_None: "first_plan f xs = None \<longleftrightarrow> (\<forall>x\<in>set xs. f x = None)"
  by (induction xs) (auto split: option.splits)

lemma all_actions_iff [simp]: "(m, a) \<in> set (all_actions ms) \<longleftrightarrow> m \<in> set ms \<and> a \<in> set (NormalizedActions m)"
  by (auto simp: all_actions_def)

lemma plan_fields [simp]:
  "cp_manifest (plan_of m a c g) = m" "cp_action (plan_of m a c g) = a" "cp_arguments (plan_of m a c g) = g"
  "cp_command (plan_of m a c g) = c" "cp_trigger (plan_of m a c g) = ac_trigger a"
  "cp_required_capabilities (plan_of m a c g) = requiredActionCapabilities a"
  by (simp_all add: plan_of_def)

text \<open>In a manifest that validates, the permissions of an action are all capabilities, so none is dropped.\<close>

lemma required_all:
  assumes "validatePermissions (ac_permissions a) = Inr ()"
  shows "requiredActionCapabilities a = map trim_space (ac_permissions a)"
proof -
  have "\<forall>p\<in>set (ac_permissions a). Normalize p = Inr (trim_space p)"
    using assms by (auto simp: validatePermissions_def check_each_Inr Normalize_Inr)
  then show ?thesis
    unfolding requiredActionCapabilities_def by (induction "ac_permissions a") (auto simp: map_filter_def)
qed

lemma normalizeAction_fields [simp]:
  "ac_permissions (normalizeAction m a d) = ac_permissions a" "ac_trigger (normalizeAction m a d) = ac_trigger a"
  by (simp_all add: normalizeAction_def)

lemma Validate_actions:
  assumes "Validate lib m = Inr ()" "a \<in> set (NormalizedActions m)"
  shows "validatePermissions (ac_permissions a) = Inr ()"
    "ac_safety a = (if ac_permissions a = [] then SafetyClassPublic else SafetyClassRestricted)"
    "ac_dispatch a \<in> {DispatchModeDryRun, DispatchModeSendMessage}"
    "ac_adapter a = DispatchAdapterPrefixCommand" "ac_surfaces a \<noteq> []" "ac_id a \<noteq> []"
proof -
  have v: "\<forall>x\<in>set (mf_actions m). validateAction lib m x = Inr ()" "validatePermissions (mf_permissions m) = Inr ()"
    "validateDispatchMode (mf_dispatch m) = Inr ()" "mf_actions m = [] \<Longrightarrow> mf_surfaces m \<noteq> []"
    using assms(1) by (auto simp: Validate_def check_each_Inr)
  have "validatePermissions (ac_permissions a) = Inr () \<and>
    ac_safety a = (if ac_permissions a = [] then SafetyClassPublic else SafetyClassRestricted) \<and>
    ac_dispatch a \<in> {DispatchModeDryRun, DispatchModeSendMessage} \<and>
    ac_adapter a = DispatchAdapterPrefixCommand \<and> ac_surfaces a \<noteq> [] \<and> ac_id a \<noteq> []"
  proof (cases "mf_actions m = []")
    case True
    then obtain i t where "a = legacy_action m i t"
      using assms(2) by (auto simp: NormalizedActions_def)
    then show ?thesis
      using v(2,3) v(4)[OF True]
      by (simp add: legacy_action_def safetyForPermissions_def normalizedDispatchMode_def validateDispatchMode_def)
        blast
  next
    case False
    then obtain x where x: "x \<in> set (mf_actions m)" "a = normalizeAction m x []"
      using assms(2) by (auto simp: NormalizedActions_def)
    have "validateAction lib m x = Inr ()" using v(1) x(1) by blast
    then have "validatePermissions (ac_permissions x) = Inr ()" "trim_space (ac_id x) \<noteq> []"
      "(if ac_surfaces x = [] then mf_surfaces m else ac_surfaces x) \<noteq> []"
      "ac_safety x = (if ac_permissions x = [] then SafetyClassPublic else SafetyClassRestricted)"
      "validateDispatchMode (ac_dispatch x) = Inr ()" "ac_adapter x \<in> {[], DispatchAdapterPrefixCommand}"
      by (auto simp: validateAction_def Let_def)
    then show ?thesis
      using x(2) v(3)
      by (simp add: normalizeAction_def validateDispatchMode_def normalizedDispatchMode_def) blast
  qed
  then show "validatePermissions (ac_permissions a) = Inr ()"
    "ac_safety a = (if ac_permissions a = [] then SafetyClassPublic else SafetyClassRestricted)"
    "ac_dispatch a \<in> {DispatchModeDryRun, DispatchModeSendMessage}"
    "ac_adapter a = DispatchAdapterPrefixCommand" "ac_surfaces a \<noteq> []" "ac_id a \<noteq> []" by simp_all
qed

text \<open>What makes a text ask for a trigger: it begins with it, the bare trigger or an alias, in any case, up to white space.\<close>

definition asks_for :: "string \<Rightarrow> trigger \<Rightarrow> string \<Rightarrow> bool" where
  "asks_for text t args \<longleftrightarrow> (\<exists>c\<in>set (trim_space (tg_value t) # triggerAliases t). matchCommand text c = Some args)"

lemma first_match_SomeD: "first_match text cs = Some args \<Longrightarrow> \<exists>c\<in>set cs. matchCommand text c = Some args"
  by (induction cs) (auto split: option.splits)

lemma first_match_None: "first_match text cs = None \<longleftrightarrow> (\<forall>c\<in>set cs. matchCommand text c = None)"
  by (induction cs) (auto split: option.splits)

text \<open>
  A plan is allowed exactly what its action is. When every manifest validates, then whatever
  \<^verbatim>\<open>PlanCommand\<close> plans is an action of one of the manifests that supports the surface and whose trigger, bare
  trigger or alias begins the message; it requires every permission of that action as a
  capability, none dropped; it counts as public exactly if there are none; and it dispatches as dry run
  or message only. An action with permissions can thus never be planned as a public one.
\<close>

theorem planned_command_is_guarded:
  assumes "PlanCommand ms surface text = Some p" "\<forall>m\<in>set ms. Validate lib m = Inr ()"
  shows "cp_manifest p \<in> set ms \<and> cp_action p \<in> set (NormalizedActions (cp_manifest p)) \<and>
    supportsActionSurface (cp_action p) (trim_space surface) \<and>
    asks_for (trim_space text) (ac_trigger (cp_action p)) (cp_arguments p) \<and>
    cp_required_capabilities p = map trim_space (ac_permissions (cp_action p)) \<and>
    (PublicAction p \<longleftrightarrow> ac_permissions (cp_action p) = []) \<and>
    CommandDispatchMode p \<in> {DispatchModeDryRun, DispatchModeSendMessage}"
proof -
  obtain m a where ma: "m \<in> set ms" "a \<in> set (NormalizedActions m)"
    and plan: "plan_action (trim_space surface) (trim_space text) (m, a) = Some p"
    using assms(1) by (auto simp: PlanCommand_def Let_def split: if_splits dest!: first_plan_SomeD)
  have supports: "supportsActionSurface a (trim_space surface)"
    using plan by (auto simp: plan_action_def split: if_splits)
  obtain args where args: "first_match (trim_space text) (trim_space (tg_value (ac_trigger a)) # triggerAliases (ac_trigger a)) = Some args"
    and p: "p = plan_of m a (buildCommand (trim_space (tg_value (ac_trigger a))) args) args"
    using plan by (auto simp: plan_action_def matchPrefixTrigger_def Let_def split: if_splits option.splits)
  have "asks_for (trim_space text) (ac_trigger a) args"
    unfolding asks_for_def by (rule first_match_SomeD [OF args])
  moreover have "Validate lib m = Inr ()" using assms(2) ma(1) by blast
  note v = Validate_actions [OF this ma(2)]
  moreover have "CommandDispatchMode p = ac_dispatch a" using v(3) p by (auto simp: CommandDispatchMode_def)
  ultimately show ?thesis
    using p ma supports required_all [OF v(1)] v(2) by (auto simp: PublicAction_def)
qed

subsection \<open>A sample plugin\<close>

definition sample_lib :: lib where
  "sample_lib = \<lparr>lb_url = (\<lambda>_. None), lb_json_object = (\<lambda>_. JsonError), lb_manifest = (\<lambda>_. None)\<rparr>"

definition sample_action :: plugin_action where
  "sample_action = \<lparr>ac_id = ''ban'', ac_name = [], ac_description = [],
     ac_trigger = \<lparr>tg_kind = ''prefix'', tg_value = ''!ban'', tg_aliases = [''kick'']\<rparr>,
     ac_surfaces = [''guild''], ac_permissions = [''relay.dispatch''], ac_safety = SafetyClassRestricted,
     ac_dispatch = DispatchModeSendMessage, ac_adapter = [], ac_arg_schema = []\<rparr>"

definition sample_manifest :: manifest where
  "sample_manifest = \<lparr>mf_id = ''mod'', mf_name = ''Mod'', mf_version = ''1'', mf_source = ''s'',
     mf_source_kind = SourceKindKnown, mf_discord_application_id = ''12345'', mf_discord_bot_user_id = [],
     mf_manifest_url = [], mf_capabilities = [\<lparr>pc_name = ''relay.dispatch'', pc_description = ''send''\<rparr>],
     mf_triggers = [], mf_actions = [sample_action], mf_surfaces = [], mf_permissions = [],
     mf_dispatch = [], mf_public_dispatch_allowed = False, mf_config_schema = [], mf_audit_events = [''ban''],
     mf_attribution = [\<lparr>at_name = ''n'', at_use = ''u'', at_source = ''s''\<rparr>]\<rparr>"

lemma sample_manifest_valid: "Validate sample_lib sample_manifest = Inr ()"
  by (simp add: Validate_def sample_manifest_def sample_action_def check_each_Inr validateCapability_def
      validateAction_def validateTrigger_def validateSurfaces_def validatePermissions_def
      validateDispatchMode_def validateJSONObject_def validateAttribution_def validIdentifier_def
      validDiscordID_def Normalize_Inr capability_rune_def identifier_rune_def go_eval
      is_lower_rune_def is_digit_rune_def in_table_def lower_letter_table_def decimal_digit_table_def)

lemma trim_left_func_keep:
  "s \<noteq> [] \<Longrightarrow> \<not> P (fst (decode_rune s)) \<Longrightarrow> trim_left_func P s = s"
  by (simp add: trim_left_func.simps [of P s] case_prod_beta)

lemma sample_trim: "trim_space '' joe'' = ''joe''"
  by (simp add: trim_space_def strip_seqs.simps head_seq_len_def white_space_runes_def)

lemma sample_match: "matchCommand ''!BAN joe'' ''!ban'' = Some ''joe''"
  by (simp add: matchCommand_def equal_fold_def fold_rune_def table_offset_def case_fold_table_def
      head_seq_len_def white_space_runes_def sample_trim go_eval)

lemma sample_plan_command:
  "PlanCommand [sample_manifest] ''guild'' ''!BAN joe'' =
     Some (plan_of sample_manifest (normalizeAction sample_manifest sample_action []) ''!ban joe'' ''joe'')"
  by (simp add: PlanCommand_def all_actions_def NormalizedActions_def sample_manifest_def plan_action_def
      supportsActionSurface_def normalizeAction_def sample_action_def matchPrefixTrigger_def sample_match
      buildCommand_def go_eval)

lemma planned_command_is_guarded_witness:
  "\<not> PublicAction (plan_of sample_manifest (normalizeAction sample_manifest sample_action []) ''!ban joe'' ''joe'')"
  using planned_command_is_guarded [OF sample_plan_command, of sample_lib] sample_manifest_valid
  by (simp add: sample_action_def)

end
