(* ===== verification/PluginCatalog.thy ===== *)
theory PluginCatalog
  imports PluginMatcher SqlTables "HOL-Library.Product_Lexorder" "HOL-Library.List_Lexorder" "HOL-Library.Char_ord"
begin

text \<open>
  \<^verbatim>\<open>internal/plugins/catalog.go\<close> and \<^verbatim>\<open>internal/plugins/store.go\<close>: the static catalog, and the SQL store of
  approved manifests and of the plugins each guild has enabled. How a manifest is written as JSON, kept as
  \<^verbatim>\<open>jsonb\<close> and read again, its SHA-256 and the collation of names are parameters.
\<close>

subsection \<open>The static catalog\<close>

record static_catalog =
  sc_by_application_id :: "(string \<times> manifest) list"
  sc_by_bot_user_id :: "(string \<times> manifest) list"

definition catalog_put :: "string \<Rightarrow> string \<Rightarrow> manifest \<Rightarrow> (string \<times> manifest) list \<Rightarrow> (string \<times> manifest) list result" where
  "catalog_put msg key0 m ms =
     (let key = trim_space key0 in
      if key = [] then Inr ms
      else case map_of ms key of Some _ \<Rightarrow> Inl (Errorf msg) | None \<Rightarrow> Inr (mput key m ms))"

fun add_manifests :: "lib \<Rightarrow> manifest list \<Rightarrow> static_catalog \<Rightarrow> static_catalog result" where
  "add_manifests lib [] c = Inr c"
| "add_manifests lib (m # ms) c =
     attempt (Validate lib m) (\<lambda>_.
     attempt (catalog_put ''duplicate Discord application ID %q for plugins %q and %q''
       (mf_discord_application_id m) m (sc_by_application_id c)) (\<lambda>apps.
     attempt (catalog_put ''duplicate Discord bot user ID %q for plugins %q and %q''
       (mf_discord_bot_user_id m) m (sc_by_bot_user_id c)) (\<lambda>bots.
       add_manifests lib ms \<lparr>sc_by_application_id = apps, sc_by_bot_user_id = bots\<rparr>)))"

definition NewStaticCatalog :: "lib \<Rightarrow> manifest list \<Rightarrow> static_catalog result" where
  "NewStaticCatalog lib ms = add_manifests lib ms \<lparr>sc_by_application_id = [], sc_by_bot_user_id = []\<rparr>"

definition catalog_get :: "string \<Rightarrow> (string \<times> manifest) list \<Rightarrow> manifest option" where
  "catalog_get key0 ms = (let key = trim_space key0 in if key = [] then None else map_of ms key)"

definition FindByDiscordIdentity :: "static_catalog \<Rightarrow> string \<Rightarrow> string \<Rightarrow> manifest option" where
  "FindByDiscordIdentity c applicationID botUserID =
     (case catalog_get applicationID (sc_by_application_id c) of
        Some m \<Rightarrow> Some m
      | None \<Rightarrow> catalog_get botUserID (sc_by_bot_user_id c))"

subsection \<open>The tables\<close>

record plugin_row =
  pl_id :: string
  pl_name :: string
  pl_source :: string
  pl_source_kind :: string
  pl_application_id :: string
  pl_bot_user_id :: string
  pl_manifest_url :: string

record 'j version_row =
  pv_id :: string
  pv_plugin_id :: string
  pv_version :: string
  pv_manifest :: 'j
  pv_sha256 :: string
  pv_source_url :: string
  pv_approved :: bool
  pv_public_dispatch_allowed :: bool
  pv_approved_by :: string

record install_row =
  gi_id :: string
  gi_guild_id :: string
  gi_version_id :: string
  gi_enabled :: bool
  gi_configured_by :: string
  gi_enabled_by :: "string option"

record 'j catalog_tables =
  ct_plugins :: "plugin_row list"
  ct_versions :: "'j version_row list"
  ct_installs :: "install_row list"

type_synonym 'j catalog_db = "'j catalog_tables sqldb"

text \<open>
  The store: the parts of its database (\<open>False\<close> where \<^verbatim>\<open>NewSQLCatalogStore\<close> found none), what its id generator
  returns, and the codec: \<open>cs_json\<close> writes a manifest, \<open>cs_parse\<close> is \<^verbatim>\<open>json.Unmarshal\<close> of the stored value.
\<close>

record 'j catalog_store =
  cs_begin_tx :: bool
  cs_query :: bool
  cs_new_id :: "string option"
  cs_lib :: lib
  cs_json :: "manifest \<Rightarrow> 'j"
  cs_parse :: "'j \<Rightarrow> manifest option"
  cs_sha256 :: "'j \<Rightarrow> string"
  cs_collate :: "string \<Rightarrow> string"

definition NewSQLCatalogStore ::
  "string option \<Rightarrow> lib \<Rightarrow> (manifest \<Rightarrow> 'j) \<Rightarrow> ('j \<Rightarrow> manifest option) \<Rightarrow> ('j \<Rightarrow> string) \<Rightarrow> (string \<Rightarrow> string) \<Rightarrow> 'j catalog_store"
where
  "NewSQLCatalogStore newID lib json parse sha collate =
     \<lparr>cs_begin_tx = True, cs_query = True, cs_new_id = newID, cs_lib = lib, cs_json = json, cs_parse = parse,
      cs_sha256 = sha, cs_collate = collate\<rparr>"

subsection \<open>Approving a manifest\<close>

text \<open>The unique indexes on the Discord ids, and the upsert on the primary key.\<close>

definition identity_taken :: "plugin_row \<Rightarrow> plugin_row list \<Rightarrow> bool" where
  "identity_taken row rows \<longleftrightarrow> list_ex (\<lambda>r. pl_id r \<noteq> pl_id row \<and>
     (pl_application_id row \<noteq> [] \<and> pl_application_id r = pl_application_id row \<or>
      pl_bot_user_id row \<noteq> [] \<and> pl_bot_user_id r = pl_bot_user_id row)) rows"

definition manifest_plugin_row :: "manifest \<Rightarrow> plugin_row" where
  "manifest_plugin_row m =
     \<lparr>pl_id = trim_space (mf_id m), pl_name = trim_space (mf_name m), pl_source = trim_space (mf_source m),
      pl_source_kind = mf_source_kind m, pl_application_id = trim_space (mf_discord_application_id m),
      pl_bot_user_id = trim_space (mf_discord_bot_user_id m), pl_manifest_url = trim_space (mf_manifest_url m)\<rparr>"

definition upsert_plugin :: "plugin_row \<Rightarrow> ('j catalog_tables, unit) statement" where
  "upsert_plugin row now t =
     (if identity_taken row (ct_plugins t) then Inl (Errorf ''duplicate key value violates unique constraint'')
      else Inr ((), t\<lparr>ct_plugins := upsert pl_id row (\<lambda>r. row\<lparr>pl_id := pl_id r\<rparr>) (ct_plugins t)\<rparr>))"

definition manifestPublicDispatchAllowed :: "manifest \<Rightarrow> bool" where
  "manifestPublicDispatchAllowed m \<longleftrightarrow> mf_public_dispatch_allowed m \<and> HasPublicSendMessageAction m"

definition manifest_version_row :: "'j catalog_store \<Rightarrow> string \<Rightarrow> manifest \<Rightarrow> string \<Rightarrow> 'j version_row" where
  "manifest_version_row s versionID m actorID =
     \<lparr>pv_id = versionID, pv_plugin_id = trim_space (mf_id m), pv_version = trim_space (mf_version m),
      pv_manifest = cs_json s m, pv_sha256 = cs_sha256 s (cs_json s m),
      pv_source_url = trim_space (mf_manifest_url m), pv_approved = True,
      pv_public_dispatch_allowed = manifestPublicDispatchAllowed m, pv_approved_by = trim_space actorID\<rparr>"

abbreviation version_key :: "'j version_row \<Rightarrow> string \<times> string" where
  "version_key r \<equiv> (pv_plugin_id r, pv_version r)"

definition upsert_version :: "'j version_row \<Rightarrow> ('j catalog_tables, unit) statement" where
  "upsert_version row now t =
     (if row_of version_key (version_key row) (ct_versions t) = None \<and> pv_id row \<in> pv_id ` set (ct_versions t)
      then Inl (Errorf ''duplicate key value violates unique constraint'')
      else Inr ((), t\<lparr>ct_versions := upsert version_key row
        (\<lambda>r. row\<lparr>pv_id := pv_id r, pv_plugin_id := pv_plugin_id r, pv_version := pv_version r\<rparr>) (ct_versions t)\<rparr>))"

definition UpsertApprovedManifest ::
  "'j catalog_store \<Rightarrow> manifest \<Rightarrow> string \<Rightarrow> 'j catalog_db \<Rightarrow> unit result \<times> 'j catalog_db" where
  "UpsertApprovedManifest s m actorID db =
     (case Validate (cs_lib s) m of
        Inl e \<Rightarrow> (Inl e, db)
      | Inr _ \<Rightarrow>
          if \<not> cs_begin_tx s then (Inl (Errorf ''plugin catalog transaction is required''), db)
          else case cs_new_id s of
              None \<Rightarrow> (Inl (Errorf ''plugin version ID generator is required''), db)
            | Some newID \<Rightarrow>
                if trim_space newID = [] then (Inl (Errorf ''plugin version ID is required''), db)
                else sql_tx ''begin plugin catalog transaction'' ''commit plugin catalog transaction''
                  (\<lambda>db1. db_bind (wrap_err ''upsert plugin'' (sql_exec (upsert_plugin (manifest_plugin_row m)) db1))
                     (\<lambda>_ db2. wrap_err ''upsert plugin version''
                       (sql_exec (upsert_version (manifest_version_row s (trim_space newID) m actorID)) db2))) db)"

subsection \<open>Enabling and disabling\<close>

definition approved_version :: "string \<Rightarrow> string \<Rightarrow> 'j version_row \<Rightarrow> bool" where
  "approved_version pluginID version r \<longleftrightarrow> pv_plugin_id r = pluginID \<and> pv_version r = version \<and> pv_approved r"

abbreviation install_key :: "install_row \<Rightarrow> string \<times> string" where
  "install_key r \<equiv> (gi_guild_id r, gi_version_id r)"

definition enable_install ::
  "string \<Rightarrow> string \<Rightarrow> string \<Rightarrow> string \<Rightarrow> string \<Rightarrow> ('j catalog_tables, nat) statement" where
  "enable_install installID guildID actorID pluginID version now t =
     (case find (approved_version pluginID version) (ct_versions t) of
        None \<Rightarrow> Inr (0, t)
      | Some v \<Rightarrow>
          (let row = \<lparr>gi_id = installID, gi_guild_id = guildID, gi_version_id = pv_id v, gi_enabled = True,
                 gi_configured_by = actorID, gi_enabled_by = Some actorID\<rparr>
           in if row_of install_key (install_key row) (ct_installs t) = None \<and> installID \<in> gi_id ` set (ct_installs t)
              then Inl (Errorf ''duplicate key value violates unique constraint'')
              else Inr (1, t\<lparr>ct_installs := upsert install_key row
                (\<lambda>r. r\<lparr>gi_enabled := True, gi_configured_by := actorID, gi_enabled_by := Some actorID\<rparr>)
                (ct_installs t)\<rparr>)))"

definition requireRowsAffected :: "string \<Rightarrow> nat result \<times> 'd \<Rightarrow> unit result \<times> 'd" where
  "requireRowsAffected msg p =
     db_bind p (\<lambda>n db. if n = 0 then (Inl (Errorf msg), db) else (Inr (), db))"

definition EnableForGuild ::
  "'j catalog_store \<Rightarrow> string \<Rightarrow> string \<Rightarrow> string \<Rightarrow> string \<Rightarrow> 'j catalog_db \<Rightarrow> unit result \<times> 'j catalog_db" where
  "EnableForGuild s guildID0 pluginID0 version0 actorID db =
     (let guildID = trim_space guildID0; pluginID = trim_space pluginID0; version = trim_space version0 in
      if guildID = [] then (Inl (Errorf ''guild ID is required''), db)
      else if pluginID = [] then (Inl (Errorf ''plugin ID is required''), db)
      else if version = [] then (Inl (Errorf ''plugin version is required''), db)
      else if \<not> cs_begin_tx s then (Inl (Errorf ''plugin catalog transaction is required''), db)
      else case cs_new_id s of
          None \<Rightarrow> (Inl (Errorf ''plugin install ID generator is required''), db)
        | Some newID \<Rightarrow>
            if trim_space newID = [] then (Inl (Errorf ''plugin install ID is required''), db)
            else sql_tx ''begin plugin catalog transaction'' ''commit plugin catalog transaction''
              (\<lambda>db1. requireRowsAffected ''approved plugin version was not found''
                 (wrap_err ''enable guild plugin''
                   (sql_exec (enable_install (trim_space newID) guildID (trim_space actorID) pluginID version) db1))) db)"

definition enabled_install :: "'j catalog_tables \<Rightarrow> string \<Rightarrow> string \<Rightarrow> install_row \<Rightarrow> bool" where
  "enabled_install t guildID pluginID r \<longleftrightarrow> gi_guild_id r = guildID \<and> gi_enabled r \<and>
     list_ex (\<lambda>v. pv_id v = gi_version_id r \<and> pv_plugin_id v = pluginID) (ct_versions t)"

definition disable_install :: "string \<Rightarrow> string \<Rightarrow> string \<Rightarrow> ('j catalog_tables, nat) statement" where
  "disable_install guildID pluginID actorID now t =
     Inr (count_where (enabled_install t guildID pluginID) (ct_installs t),
       t\<lparr>ct_installs := update_where (enabled_install t guildID pluginID)
         (\<lambda>r. r\<lparr>gi_enabled := False, gi_configured_by := actorID\<rparr>) (ct_installs t)\<rparr>)"

definition DisableForGuild ::
  "'j catalog_store \<Rightarrow> string \<Rightarrow> string \<Rightarrow> string \<Rightarrow> 'j catalog_db \<Rightarrow> unit result \<times> 'j catalog_db" where
  "DisableForGuild s guildID0 pluginID0 actorID db =
     (let guildID = trim_space guildID0; pluginID = trim_space pluginID0 in
      if guildID = [] then (Inl (Errorf ''guild ID is required''), db)
      else if pluginID = [] then (Inl (Errorf ''plugin ID is required''), db)
      else if \<not> cs_begin_tx s then (Inl (Errorf ''plugin catalog transaction is required''), db)
      else sql_tx ''begin plugin catalog transaction'' ''commit plugin catalog transaction''
        (\<lambda>db1. requireRowsAffected ''enabled plugin was not found''
           (wrap_err ''disable guild plugin''
             (sql_exec (disable_install guildID pluginID (trim_space actorID)) db1))) db)"

subsection \<open>Reading\<close>

text \<open>A version and the name of its plugin: the join both queries use.\<close>

definition joined :: "'j catalog_tables \<Rightarrow> 'j version_row \<Rightarrow> (string \<times> 'j version_row) list" where
  "joined t v = map (\<lambda>p. (pl_name p, v)) (filter (\<lambda>p. pl_id p = pv_plugin_id v) (ct_plugins t))"

definition manifest_order :: "'j catalog_store \<Rightarrow> string \<times> 'j version_row \<Rightarrow> string \<times> string" where
  "manifest_order s x = (cs_collate s (fst x), cs_collate s (pv_version (snd x)))"

abbreviation raw_rows :: "(string \<times> 'j version_row) list \<Rightarrow> ('j \<times> bool) list" where
  "raw_rows xs \<equiv> map (\<lambda>x. (pv_manifest (snd x), pv_public_dispatch_allowed (snd x))) xs"

definition select_approved :: "'j catalog_store \<Rightarrow> ('j catalog_tables, ('j \<times> bool) list) statement" where
  "select_approved s now t =
     Inr (raw_rows (sort_key (manifest_order s) (concat (map (joined t) (filter pv_approved (ct_versions t))))), t)"

definition enabled_versions :: "'j catalog_tables \<Rightarrow> string \<Rightarrow> 'j version_row list" where
  "enabled_versions t guildID =
     concat (map (\<lambda>i. filter (\<lambda>v. pv_id v = gi_version_id i \<and> pv_approved v) (ct_versions t))
       (filter (\<lambda>i. gi_guild_id i = guildID \<and> gi_enabled i) (ct_installs t)))"

definition select_enabled :: "'j catalog_store \<Rightarrow> string \<Rightarrow> ('j catalog_tables, ('j \<times> bool) list) statement" where
  "select_enabled s guildID now t =
     Inr (raw_rows (sort_key (manifest_order s) (concat (map (joined t) (enabled_versions t guildID)))), t)"

fun scanManifests :: "'j catalog_store \<Rightarrow> ('j \<times> bool) list \<Rightarrow> manifest list result" where
  "scanManifests s [] = Inr []"
| "scanManifests s ((raw, consent) # rows) =
     (case cs_parse s raw of
        None \<Rightarrow> Inl (Wrap ''decode stored plugin manifest'' (Errorf ''invalid JSON''))
      | Some m \<Rightarrow>
          (case Validate (cs_lib s) m of
             Inl e \<Rightarrow> Inl (Wrap ''stored plugin manifest is invalid'' e)
           | Inr _ \<Rightarrow> attempt (scanManifests s rows) (\<lambda>ms. Inr (m\<lparr>mf_public_dispatch_allowed := consent\<rparr> # ms))))"

definition ApprovedManifests :: "'j catalog_store \<Rightarrow> 'j catalog_db \<Rightarrow> manifest list result \<times> 'j catalog_db" where
  "ApprovedManifests s db =
     (if \<not> cs_query s then (Inl (Errorf ''plugin catalog query database is required''), db)
      else case sql_exec (select_approved s) db of
          (Inl e, db') \<Rightarrow> (Inl e, db')
        | (Inr rows, db') \<Rightarrow> (scanManifests s rows, db'))"

definition EnabledForGuild ::
  "'j catalog_store \<Rightarrow> string \<Rightarrow> 'j catalog_db \<Rightarrow> manifest list result \<times> 'j catalog_db" where
  "EnabledForGuild s guildID db =
     (if trim_space guildID = [] then (Inl (Errorf ''guild ID is required''), db)
      else if \<not> cs_query s then (Inl (Errorf ''plugin catalog query database is required''), db)
      else case sql_exec (select_enabled s (trim_space guildID)) db of
          (Inl e, db') \<Rightarrow> (Inl e, db')
        | (Inr rows, db') \<Rightarrow> (scanManifests s rows, db'))"

subsection \<open>What the tables hold at any time\<close>

text \<open>The operations on the store, by anyone.\<close>

datatype catalog_op =
    OpApprove manifest string
  | OpEnable string string string string
  | OpDisable string string string
  | OpRead string

text \<open>Each operation comes with the id its call of \<^verbatim>\<open>newID\<close> returns.\<close>

fun run_catalog_op :: "'j catalog_store \<Rightarrow> string \<times> catalog_op \<Rightarrow> 'j catalog_db \<Rightarrow> 'j catalog_db" where
  "run_catalog_op s (i, OpApprove m actor) db = snd (UpsertApprovedManifest (s\<lparr>cs_new_id := Some i\<rparr>) m actor db)"
| "run_catalog_op s (i, OpEnable g p v actor) db = snd (EnableForGuild (s\<lparr>cs_new_id := Some i\<rparr>) g p v actor db)"
| "run_catalog_op s (i, OpDisable g p actor) db = snd (DisableForGuild s g p actor db)"
| "run_catalog_op s (i, OpRead g) db = snd (EnabledForGuild s g db)"

text \<open>
  \<open>H\<close> is the history: the operations that ran. A version row holds a manifest that was approved, filed under
  the id of its plugin; its public dispatch is allowed only if that was consented to for a manifest with a
  public action to dispatch. \<open>stored_as\<close>: what the manifest is written as reads back as the manifest without
  \<^verbatim>\<open>PublicDispatchAllowed\<close>, the one field its JSON does not carry. An enabled install was asked for.
\<close>

definition stored_as :: "'j catalog_store \<Rightarrow> manifest \<Rightarrow> bool" where
  "stored_as s m \<longleftrightarrow> cs_parse s (cs_json s m) = Some (m\<lparr>mf_public_dispatch_allowed := False\<rparr>)"

definition version_ok :: "'j catalog_store \<Rightarrow> (string \<times> catalog_op) set \<Rightarrow> 'j version_row \<Rightarrow> bool" where
  "version_ok s H v \<longleftrightarrow> pv_approved v \<and>
     (\<exists>j m a. (j, OpApprove m a) \<in> H \<and> stored_as s m \<and> pv_manifest v = cs_json s m \<and>
        Validate (cs_lib s) m = Inr () \<and> pv_plugin_id v = trim_space (mf_id m) \<and>
        pv_version v = trim_space (mf_version m) \<and>
        pv_public_dispatch_allowed v = manifestPublicDispatchAllowed m)"

definition asked_for :: "(string \<times> catalog_op) set \<Rightarrow> string \<Rightarrow> string \<Rightarrow> string \<Rightarrow> bool" where
  "asked_for H g p w \<longleftrightarrow> (\<exists>j g' p' w' a. (j, OpEnable g' p' w' a) \<in> H \<and>
     trim_space g' = g \<and> trim_space p' = p \<and> trim_space w' = w)"

definition install_ok :: "(string \<times> catalog_op) set \<Rightarrow> 'j version_row list \<Rightarrow> install_row \<Rightarrow> bool" where
  "install_ok H vs r \<longleftrightarrow> (\<exists>v\<in>set vs. pv_id v = gi_version_id r \<and>
     (gi_enabled r \<longrightarrow> asked_for H (gi_guild_id r) (pv_plugin_id v) (pv_version v)))"

definition catalog_ok :: "'j catalog_store \<Rightarrow> (string \<times> catalog_op) set \<Rightarrow> 'j catalog_tables \<Rightarrow> bool" where
  "catalog_ok s H t \<longleftrightarrow> unique_key pl_id (ct_plugins t) \<and> unique_key version_key (ct_versions t) \<and>
     unique_key pv_id (ct_versions t) \<and> unique_key install_key (ct_installs t) \<and>
     (\<forall>v\<in>set (ct_versions t). version_ok s H v \<and> pv_plugin_id v \<in> pl_id ` set (ct_plugins t)) \<and>
     (\<forall>r\<in>set (ct_installs t). install_ok H (ct_versions t) r)"

lemma catalog_ok_mono: "catalog_ok s H t \<Longrightarrow> H \<subseteq> H' \<Longrightarrow> catalog_ok s H' t"
  unfolding catalog_ok_def version_ok_def install_ok_def asked_for_def by (fast dest: subsetD)

lemma upsert_keeps:
  "r \<in> set rows \<Longrightarrow> \<exists>r'\<in>set (upsert key row f rows). r' = r \<or> r' = f r"
  by (auto simp: upsert_def set_update_where split: option.splits)

lemma upsert_plugin_ok:
  assumes "upsert_plugin row now t = Inr (u, t')" "catalog_ok s H t"
  shows "catalog_ok s H t' \<and> pl_id row \<in> pl_id ` set (ct_plugins t')"
proof -
  let ?ps = "upsert pl_id row (\<lambda>r. row\<lparr>pl_id := pl_id r\<rparr>) (ct_plugins t)"
  have t': "t' = t\<lparr>ct_plugins := ?ps\<rparr>"
    using assms(1) by (simp add: upsert_plugin_def split: if_splits)
  have keys: "pl_id ` set ?ps = insert (pl_id row) (pl_id ` set (ct_plugins t))"
    by (rule key_set_upsert) simp
  have "unique_key pl_id ?ps"
    using assms(2) by (intro unique_key_upsert) (simp_all add: catalog_ok_def)
  then show ?thesis
    using assms(2) by (simp add: catalog_ok_def t' keys)
qed

lemma upsert_version_ok:
  assumes "upsert_version row now t = Inr (u, t')" "catalog_ok s H t" "version_ok s H row"
    "pv_plugin_id row \<in> pl_id ` set (ct_plugins t)"
  shows "catalog_ok s H t'"
proof -
  let ?f = "\<lambda>r. row\<lparr>pv_id := pv_id r, pv_plugin_id := pv_plugin_id r, pv_version := pv_version r\<rparr>"
  let ?vs = "upsert version_key row ?f (ct_versions t)"
  have t': "t' = t\<lparr>ct_versions := ?vs\<rparr>"
    and fresh: "row_of version_key (version_key row) (ct_versions t) = None \<Longrightarrow> pv_id row \<notin> pv_id ` set (ct_versions t)"
    using assms(1) by (auto simp: upsert_version_def split: if_splits)
  have ids: "map pv_id ?vs = map pv_id (ct_versions t) @
      (if row_of version_key (version_key row) (ct_versions t) = None then [pv_id row] else [])"
    by (auto simp: upsert_def update_where_def split: option.splits)
  have uid: "unique_key pv_id ?vs"
    unfolding ids using fresh assms(2)
    by (cases "row_of version_key (version_key row) (ct_versions t)") (simp_all add: catalog_ok_def)
  have uk: "unique_key version_key ?vs"
    using assms(2) by (intro unique_key_upsert) (simp_all add: catalog_ok_def)
  have v: "version_ok s H v \<and> pv_plugin_id v \<in> pl_id ` set (ct_plugins t)" if "v \<in> set ?vs" for v
    using set_upsert_keyD [OF that] assms(2-4)
    by (elim disjE bexE) (simp_all add: catalog_ok_def version_ok_def)
  have i: "install_ok H ?vs r" if "r \<in> set (ct_installs t)" for r
  proof -
    from that assms(2) obtain w where w: "w \<in> set (ct_versions t)" "pv_id w = gi_version_id r"
        "gi_enabled r \<longrightarrow> asked_for H (gi_guild_id r) (pv_plugin_id w) (pv_version w)"
      unfolding catalog_ok_def install_ok_def by blast
    from upsert_keeps [OF w(1), of version_key row ?f] obtain w' where
      "w' \<in> set ?vs" "w' = w \<or> w' = ?f w" by blast
    then show ?thesis
      unfolding install_ok_def using w(2,3) by (intro bexI [of _ w']) auto
  qed
  show ?thesis
    using assms(2) uid uk v i by (simp add: t' catalog_ok_def)
qed

lemma enable_install_cases:
  assumes "enable_install i g actor p v now t = Inr (n, t')"
  obtains "t' = t" "n = 0"
  | w where "find (approved_version p v) (ct_versions t) = Some w" "n = 1"
      "t' = t\<lparr>ct_installs := upsert install_key
         \<lparr>gi_id = i, gi_guild_id = g, gi_version_id = pv_id w, gi_enabled = True,
          gi_configured_by = actor, gi_enabled_by = Some actor\<rparr>
         (\<lambda>r. r\<lparr>gi_enabled := True, gi_configured_by := actor, gi_enabled_by := Some actor\<rparr>) (ct_installs t)\<rparr>"
  using assms by (auto simp: enable_install_def Let_def split: option.splits if_splits)

lemma enable_install_ok:
  assumes "enable_install i g actor p v now t = Inr (n, t')" "catalog_ok s H t" "asked_for H g p v"
  shows "catalog_ok s H t'"
  using assms(1)
proof (cases rule: enable_install_cases)
  case 1
  then show ?thesis using assms(2) by simp
next
  case (2 w)
  let ?row = "\<lparr>gi_id = i, gi_guild_id = g, gi_version_id = pv_id w, gi_enabled = True,
          gi_configured_by = actor, gi_enabled_by = Some actor\<rparr>"
  let ?f = "\<lambda>r. r\<lparr>gi_enabled := True, gi_configured_by := actor, gi_enabled_by := Some actor\<rparr>"
  have w: "w \<in> set (ct_versions t)" "pv_plugin_id w = p" "pv_version w = v"
    using 2(1) by (auto simp: find_Some_iff approved_version_def)
  have row: "install_ok H (ct_versions t) ?row"
    unfolding install_ok_def using w assms(3) by (intro bexI [of _ w]) simp_all
  have "install_ok H (ct_versions t) r" if "r \<in> set (upsert install_key ?row ?f (ct_installs t))" for r
    using set_upsert_keyD [OF that]
  proof (elim disjE bexE)
    fix r' assume r': "install_key r' = install_key ?row \<and> r = ?f r'"
    then show ?thesis
      unfolding install_ok_def using w assms(3) by (intro bexI [of _ w]) simp_all
  qed (use row assms(2) in \<open>simp_all add: catalog_ok_def\<close>)
  moreover have "unique_key install_key (upsert install_key ?row ?f (ct_installs t))"
    using assms(2) by (intro unique_key_upsert) (simp_all add: catalog_ok_def)
  ultimately show ?thesis
    using assms(2) by (simp add: catalog_ok_def 2(3))
qed

lemma disable_install_ok:
  assumes "disable_install g p actor now t = Inr (n, t')" "catalog_ok s H t"
  shows "catalog_ok s H t'"
proof -
  let ?f = "\<lambda>r. r\<lparr>gi_enabled := False, gi_configured_by := actor\<rparr>"
  let ?is = "update_where (enabled_install t g p) ?f (ct_installs t)"
  have t': "t' = t\<lparr>ct_installs := ?is\<rparr>"
    using assms(1) by (simp add: disable_install_def)
  have "map install_key ?is = map install_key (ct_installs t)"
    by (rule map_key_update_where) simp
  moreover have "install_ok H (ct_versions t) r" if "r \<in> set ?is" for r
  proof -
    from that obtain r' where r': "r' \<in> set (ct_installs t)" "r = r' \<or> r = ?f r'"
      by (auto simp: set_update_where split: if_splits)
    then have "install_ok H (ct_versions t) r'"
      using assms(2) by (simp add: catalog_ok_def)
    with r'(2) show ?thesis by (auto simp: install_ok_def)
  qed
  ultimately show ?thesis
    using assms(2) by (simp add: catalog_ok_def t')
qed

lemma version_ok_new_id [simp]:
  "version_ok (s\<lparr>cs_new_id := i\<rparr>) = version_ok s" "catalog_ok (s\<lparr>cs_new_id := i\<rparr>) = catalog_ok s"
  by (simp_all add: version_ok_def catalog_ok_def stored_as_def fun_eq_iff)

lemma manifest_version_row_ok:
  "Validate (cs_lib s) m = Inr () \<Longrightarrow> stored_as s m \<Longrightarrow> (j, OpApprove m a) \<in> H \<Longrightarrow> version_ok s H (manifest_version_row s i m actor)"
  unfolding version_ok_def manifest_version_row_def by (simp, blast)

text \<open>What a successful operation did: each is one or two statements on the tables.\<close>

lemma UpsertApprovedManifest_Inr:
  assumes "UpsertApprovedManifest s m actor db = (Inr u, db')"
  shows "\<exists>i t1. Validate (cs_lib s) m = Inr () \<and>
    upsert_plugin (manifest_plugin_row m) (clock db) (tables db) = Inr ((), t1) \<and>
    upsert_version (manifest_version_row s i m actor) (clock db) t1 = Inr ((), tables db')"
proof -
  let ?body = "\<lambda>i db1. db_bind (wrap_err ''upsert plugin'' (sql_exec (upsert_plugin (manifest_plugin_row m)) db1))
     (\<lambda>_ db2. wrap_err ''upsert plugin version''
        (sql_exec (upsert_version (manifest_version_row s i m actor)) db2))"
  obtain i where v: "Validate (cs_lib s) m = Inr ()"
    and tx: "sql_tx ''begin plugin catalog transaction'' ''commit plugin catalog transaction'' (?body i) db = (Inr u, db')"
    using assms by (auto simp: UpsertApprovedManifest_def split: sum.splits option.splits if_splits)
  from sql_tx_Inr [OF tx] obtain db1 db2 where b: "?body i db1 = (Inr u, db2)" "tables db1 = tables db"
    "clock db1 = clock db" "tables db' = tables db2" by blast
  from db_bind_InrD [OF b(1)] obtain x d where
    "sql_exec (upsert_plugin (manifest_plugin_row m)) db1 = (Inr x, d)"
    "sql_exec (upsert_version (manifest_version_row s i m actor)) d = (Inr u, db2)"
    by auto
  from sql_exec_Inr [OF this(1)] sql_exec_Inr [OF this(2)] b v show ?thesis
    by (cases x; cases u) auto
qed

lemma counted_statement_Inr:
  assumes "sql_tx b c (\<lambda>db1. requireRowsAffected e (wrap_err w (sql_exec stmt db1))) db = (Inr u, db')"
  shows "\<exists>n. stmt (clock db) (tables db) = Inr (n, tables db') \<and> 0 < n"
proof -
  from sql_tx_Inr [OF assms] obtain db1 db2 where
    b: "requireRowsAffected e (wrap_err w (sql_exec stmt db1)) = (Inr u, db2)" "tables db1 = tables db"
      "clock db1 = clock db" "tables db' = tables db2" by blast
  from db_bind_InrD [OF b(1) [unfolded requireRowsAffected_def]] obtain n d where
    n: "sql_exec stmt db1 = (Inr n, d)" "(if n = 0 then (Inl (Errorf e), d) else (Inr (), d)) = (Inr u, db2)"
    by auto
  from n(2) have "0 < n" "d = db2" by (simp_all split: if_splits)
  then show ?thesis
    using sql_exec_Inr [OF n(1)] b by metis
qed

lemma EnableForGuild_Inr:
  assumes "EnableForGuild s g p v actor db = (Inr u, db')"
  shows "\<exists>i n. enable_install i (trim_space g) (trim_space actor) (trim_space p) (trim_space v)
    (clock db) (tables db) = Inr (n, tables db') \<and> 0 < n"
  using assms unfolding EnableForGuild_def Let_def
  by (auto split: if_splits option.splits dest!: counted_statement_Inr)

lemma DisableForGuild_Inr:
  assumes "DisableForGuild s g p actor db = (Inr u, db')"
  shows "\<exists>n. disable_install (trim_space g) (trim_space p) (trim_space actor)
    (clock db) (tables db) = Inr (n, tables db') \<and> 0 < n"
  using assms unfolding DisableForGuild_def Let_def
  by (auto split: if_splits dest!: counted_statement_Inr)

lemma catalog_failed_unchanged:
  "UpsertApprovedManifest s m actor db = (Inl e, db') \<Longrightarrow> tables db' = tables db"
  "EnableForGuild s g p v actor db = (Inl e, db') \<Longrightarrow> tables db' = tables db"
  "DisableForGuild s g p actor db = (Inl e, db') \<Longrightarrow> tables db' = tables db"
  by (auto simp: UpsertApprovedManifest_def EnableForGuild_def DisableForGuild_def Let_def
      split: sum.splits if_splits option.splits dest: sql_tx_Inl)

lemma EnabledForGuild_tables [simp]: "tables (snd (EnabledForGuild s g db)) = tables db"
proof (cases "sql_exec (select_enabled s (trim_space g)) db")
  case (Pair r d)
  then show ?thesis
    by (cases r) (auto simp: EnabledForGuild_def select_enabled_def dest: sql_exec_Inl sql_exec_Inr)
qed

definition codec_ok :: "'j catalog_store \<Rightarrow> string \<times> catalog_op \<Rightarrow> bool" where
  "codec_ok s op = (case snd op of OpApprove m a \<Rightarrow> stored_as s m | _ \<Rightarrow> True)"

lemma run_catalog_op_ok:
  assumes "catalog_ok s H0 (tables db)" "codec_ok s op" "insert op H0 \<subseteq> H"
  shows "catalog_ok s H (tables (run_catalog_op s op db))"
proof (cases "(s, op, db)" rule: run_catalog_op.cases)
  case (1 s' i m actor db')
  have ok: "catalog_ok s H (tables db)" using assms catalog_ok_mono by blast
  obtain r d where r: "UpsertApprovedManifest (s\<lparr>cs_new_id := Some i\<rparr>) m actor db = (r, d)" by force
  have "catalog_ok s H (tables d)"
  proof (cases r)
    case (Inl e)
    then show ?thesis using ok r by (simp add: catalog_failed_unchanged)
  next
    case (Inr u)
    with r UpsertApprovedManifest_Inr obtain i' t1 where
      v: "Validate (cs_lib s) m = Inr ()"
      and p: "upsert_plugin (manifest_plugin_row m) (clock db) (tables db) = Inr ((), t1)"
      and w: "upsert_version (manifest_version_row (s\<lparr>cs_new_id := Some i\<rparr>) i' m actor) (clock db) t1 = Inr ((), tables d)"
      by fastforce
    have "version_ok s H (manifest_version_row (s\<lparr>cs_new_id := Some i\<rparr>) i' m actor)"
      using manifest_version_row_ok [of "s\<lparr>cs_new_id := Some i\<rparr>" m i actor H] v 1 assms(2,3)
      by (simp add: codec_ok_def stored_as_def)
    then show ?thesis
      using upsert_plugin_ok [OF p ok] upsert_version_ok [OF w]
      by (simp add: manifest_version_row_def manifest_plugin_row_def)
  qed
  then show ?thesis using 1 r by simp
next
  case (2 s' i g p v actor db')
  have ok: "catalog_ok s H (tables db)" using assms catalog_ok_mono by blast
  have "asked_for H (trim_space g) (trim_space p) (trim_space v)"
    using 2 assms(3) unfolding asked_for_def by blast
  then have "enable_install j (trim_space g) a (trim_space p) (trim_space v) now (tables db) = Inr (n, t') \<Longrightarrow>
      catalog_ok s H t'" for j a now n t'
    using enable_install_ok ok by blast
  moreover obtain r d where "EnableForGuild (s\<lparr>cs_new_id := Some i\<rparr>) g p v actor db = (r, d)" by force
  ultimately show ?thesis
    using ok 2 by (cases r) (auto simp: catalog_failed_unchanged dest!: EnableForGuild_Inr)
next
  case (3 s' i g p actor db')
  have ok: "catalog_ok s H (tables db)" using assms catalog_ok_mono by blast
  obtain r d where "DisableForGuild s g p actor db = (r, d)" by force
  then show ?thesis
    using ok 3 by (cases r) (auto simp: catalog_failed_unchanged dest!: DisableForGuild_Inr dest: disable_install_ok)
next
  case (4 s' i g db')
  then show ?thesis using assms catalog_ok_mono by (metis EnabledForGuild_tables Pair_inject insert_subset run_catalog_op.simps(4))
qed

abbreviation no_plugins :: "'j catalog_tables" where
  "no_plugins \<equiv> \<lparr>ct_plugins = [], ct_versions = [], ct_installs = []\<rparr>"

definition run_catalog :: "'j catalog_store \<Rightarrow> (string \<times> catalog_op) list \<Rightarrow> 'j catalog_db \<Rightarrow> 'j catalog_db" where
  "run_catalog s ops db = fold (run_catalog_op s) ops db"

lemma run_catalog_ok:
  "catalog_ok s H (tables db) \<Longrightarrow> \<forall>op\<in>set ops. codec_ok s op \<Longrightarrow>
     catalog_ok s (H \<union> set ops) (tables (run_catalog s ops db))"
proof (induction ops arbitrary: db H)
  case (Cons op ops)
  then have "catalog_ok s (insert op H) (tables (run_catalog_op s op db))"
    by (intro run_catalog_op_ok) auto
  with Cons.IH [OF this] Cons.prems(2) show ?case by (simp add: run_catalog_def)
qed (simp add: run_catalog_def)

lemma no_plugins_ok [simp]: "catalog_ok s H no_plugins"
  by (simp add: catalog_ok_def)

subsection \<open>What is read\<close>

lemma scanManifests_Inr:
  "scanManifests s rows = Inr ms \<Longrightarrow>
     list_all2 (\<lambda>r m. \<exists>m0. cs_parse s (fst r) = Some m0 \<and> Validate (cs_lib s) m0 = Inr () \<and>
       m = m0\<lparr>mf_public_dispatch_allowed := snd r\<rparr>) rows ms"
proof (induction s rows arbitrary: ms rule: scanManifests.induct)
  case (2 s raw consent rows)
  then show ?case
    by (auto simp: attempt_def list_all2_Cons1 split: option.splits sum.splits)
qed simp

lemma select_enabled_rows:
  "select_enabled s g now t = Inr (rows, t') \<Longrightarrow> t' = t \<and>
     set rows \<subseteq> (\<lambda>v. (pv_manifest v, pv_public_dispatch_allowed v)) ` set (enabled_versions t g)"
  by (auto simp: select_enabled_def joined_def)

lemma list_all2_set2D: "list_all2 P xs ys \<Longrightarrow> y \<in> set ys \<Longrightarrow> \<exists>x\<in>set xs. P x y"
  by (metis in_set_conv_nth list_all2_conv_all_nth)

lemma EnabledForGuild_Inr:
  assumes "EnabledForGuild s g db = (Inr ms, db')" "m \<in> set ms"
  shows "\<exists>v m0. v \<in> set (enabled_versions (tables db) (trim_space g)) \<and>
    cs_parse s (pv_manifest v) = Some m0 \<and> Validate (cs_lib s) m0 = Inr () \<and>
    m = m0\<lparr>mf_public_dispatch_allowed := pv_public_dispatch_allowed v\<rparr>"
proof -
  from assms(1) obtain rows where
    r: "sql_exec (select_enabled s (trim_space g)) db = (Inr rows, db')" "scanManifests s rows = Inr ms"
    by (auto simp: EnabledForGuild_def split: if_splits prod.splits sum.splits)
  from list_all2_set2D [OF scanManifests_Inr [OF r(2)] assms(2)] obtain row m0 where
    m0: "row \<in> set rows" "cs_parse s (fst row) = Some m0" "Validate (cs_lib s) m0 = Inr ()"
      "m = m0\<lparr>mf_public_dispatch_allowed := snd row\<rparr>"
    by blast
  from sql_exec_Inr [OF r(1)] select_enabled_rows m0(1) obtain v where
    "v \<in> set (enabled_versions (tables db) (trim_space g))" "row = (pv_manifest v, pv_public_dispatch_allowed v)"
    by blast
  then show ?thesis using m0 by auto
qed

lemma enabled_versionsD:
  "v \<in> set (enabled_versions t g) \<Longrightarrow> v \<in> set (ct_versions t) \<and> pv_approved v \<and>
     (\<exists>i\<in>set (ct_installs t). gi_guild_id i = g \<and> gi_enabled i \<and> gi_version_id i = pv_id v)"
  by (auto simp: enabled_versions_def)

text \<open>
  C13: In a catalog that started empty, a manifest that a guild is given was approved as it is and enabled for
  that guild in that version, it validated, and it may be dispatched publicly only if that was consented to
  for a manifest with a public action to dispatch.
\<close>

theorem enabled_manifests_are_approved:
  assumes "tables db = no_plugins" "\<forall>op\<in>set ops. codec_ok s op"
    "EnabledForGuild s g (run_catalog s ops db) = (Inr ms, db')" "m \<in> set ms"
  shows "\<exists>j m0 a. (j, OpApprove m0 a) \<in> set ops \<and> Validate (cs_lib s) m0 = Inr () \<and>
    m = m0\<lparr>mf_public_dispatch_allowed := mf_public_dispatch_allowed m0 \<and> HasPublicSendMessageAction m0\<rparr> \<and>
    (\<exists>j' g' p' v' a'. (j', OpEnable g' p' v' a') \<in> set ops \<and> trim_space g' = trim_space g \<and>
       trim_space p' = trim_space (mf_id m) \<and> trim_space v' = trim_space (mf_version m))"
proof -
  let ?t = "tables (run_catalog s ops db)"
  have ok: "catalog_ok s (set ops) ?t"
    using run_catalog_ok [of s "{}" db ops] assms(1,2) by simp
  from EnabledForGuild_Inr [OF assms(3,4)] obtain v m' where v: "v \<in> set (enabled_versions ?t (trim_space g))"
    and m': "cs_parse s (pv_manifest v) = Some m'" "m = m'\<lparr>mf_public_dispatch_allowed := pv_public_dispatch_allowed v\<rparr>"
    by blast
  from enabled_versionsD [OF v] obtain r where vt: "v \<in> set (ct_versions ?t)"
    and r: "r \<in> set (ct_installs ?t)" "gi_guild_id r = trim_space g" "gi_enabled r" "gi_version_id r = pv_id v" by blast
  from vt ok have "version_ok s (set ops) v" by (simp add: catalog_ok_def)
  then obtain j m0 a where m0: "(j, OpApprove m0 a) \<in> set ops" "stored_as s m0" "pv_manifest v = cs_json s m0"
      "Validate (cs_lib s) m0 = Inr ()" "pv_plugin_id v = trim_space (mf_id m0)"
      "pv_version v = trim_space (mf_version m0)" "pv_public_dispatch_allowed v = manifestPublicDispatchAllowed m0"
    unfolding version_ok_def by blast
  from m0(2,3) m'(1) have "m' = m0\<lparr>mf_public_dispatch_allowed := False\<rparr>" by (simp add: stored_as_def)
  with m'(2) m0(7) have m: "m = m0\<lparr>mf_public_dispatch_allowed := mf_public_dispatch_allowed m0 \<and> HasPublicSendMessageAction m0\<rparr>"
    by (simp add: manifestPublicDispatchAllowed_def)
  from r(1) ok have "install_ok (set ops) (ct_versions ?t) r" by (simp add: catalog_ok_def)
  then obtain w where w: "w \<in> set (ct_versions ?t)" "pv_id w = pv_id v"
      "asked_for (set ops) (trim_space g) (pv_plugin_id w) (pv_version w)"
    unfolding install_ok_def using r by auto
  have "w = v"
    using ok w(1,2) vt by (auto simp: catalog_ok_def distinct_map dest: inj_onD)
  with w(3) m0 m show ?thesis unfolding asked_for_def by fastforce
qed

text \<open>Once a plugin was disabled for a guild, no version of it is among the guild's manifests.\<close>

theorem disabled_plugin_is_gone:
  assumes "tables db = no_plugins" "\<forall>op\<in>set ops. codec_ok s op"
    "DisableForGuild s g p actor (run_catalog s ops db) = (Inr (), db1)"
    "EnabledForGuild s g db1 = (Inr ms, db2)"
  shows "\<forall>m\<in>set ms. trim_space (mf_id m) \<noteq> trim_space p"
proof (intro ballI notI)
  fix m assume m: "m \<in> set ms" and eq: "trim_space (mf_id m) = trim_space p"
  let ?t = "tables (run_catalog s ops db)"
  have ok: "catalog_ok s (set ops) ?t"
    using run_catalog_ok [of s "{}" db ops] assms(1,2) by simp
  from DisableForGuild_Inr [OF assms(3)] obtain n now where
    "disable_install (trim_space g) (trim_space p) (trim_space actor) now ?t = Inr (n, tables db1)" by blast
  then have t1: "tables db1 = ?t\<lparr>ct_installs := update_where (enabled_install ?t (trim_space g) (trim_space p))
      (\<lambda>r. r\<lparr>gi_enabled := False, gi_configured_by := trim_space actor\<rparr>) (ct_installs ?t)\<rparr>"
    by (simp add: disable_install_def)
  from EnabledForGuild_Inr [OF assms(4) m] obtain v m' where v: "v \<in> set (enabled_versions (tables db1) (trim_space g))"
    and m': "cs_parse s (pv_manifest v) = Some m'" "m = m'\<lparr>mf_public_dispatch_allowed := pv_public_dispatch_allowed v\<rparr>"
    by blast
  from enabled_versionsD [OF v] obtain r where vt: "v \<in> set (ct_versions ?t)"
    and r: "r \<in> set (ct_installs (tables db1))" "gi_guild_id r = trim_space g" "gi_enabled r" "gi_version_id r = pv_id v"
    by (auto simp: t1)
  from vt ok have "version_ok s (set ops) v" by (simp add: catalog_ok_def)
  then have "pv_plugin_id v = trim_space p"
    using m' eq by (auto simp: version_ok_def stored_as_def)
  then have "enabled_install ?t (trim_space g) (trim_space p) r"
    using r vt by (auto simp: enabled_install_def list_ex_iff)
  then show False
    using r by (auto simp: t1 set_update_where split: if_splits)
qed

lemma scanManifests_mem:
  "scanManifests s rows = Inr ms \<Longrightarrow> r \<in> set rows \<Longrightarrow> cs_parse s (fst r) = Some m \<Longrightarrow>
     m\<lparr>mf_public_dispatch_allowed := snd r\<rparr> \<in> set ms"
proof (induction s rows arbitrary: ms rule: scanManifests.induct)
  case (2 s raw consent rows)
  then show ?case by (auto simp: attempt_def split: option.splits sum.splits)
qed simp

lemma select_enabled_mem:
  assumes "select_enabled s g now t = Inr (rows, t')" "v \<in> set (enabled_versions t g)"
    "pv_plugin_id v \<in> pl_id ` set (ct_plugins t)"
  shows "(pv_manifest v, pv_public_dispatch_allowed v) \<in> set rows"
proof -
  from assms(3) obtain p where "p \<in> set (ct_plugins t)" "pl_id p = pv_plugin_id v" by force
  then have "(pl_name p, v) \<in> set (joined t v)" by (auto simp: joined_def)
  with assms(1,2) show ?thesis by (force simp: select_enabled_def)
qed

lemma enable_install_enables:
  assumes "enable_install i g actor p v now t = Inr (n, t')" "0 < n" "unique_key pv_id (ct_versions t)"
    "w \<in> set (ct_versions t)" "approved_version p v w" "unique_key version_key (ct_versions t)"
  shows "w \<in> set (enabled_versions t' g) \<and> ct_plugins t' = ct_plugins t"
  using assms(1)
proof (cases rule: enable_install_cases)
  case 1
  then show ?thesis using assms(2) by simp
next
  case (2 w')
  let ?row = "\<lparr>gi_id = i, gi_guild_id = g, gi_version_id = pv_id w', gi_enabled = True,
          gi_configured_by = actor, gi_enabled_by = Some actor\<rparr>"
  let ?f = "\<lambda>r. r\<lparr>gi_enabled := True, gi_configured_by := actor, gi_enabled_by := Some actor\<rparr>"
  have "approved_version p v w'" "w' \<in> set (ct_versions t)"
    using 2(1) by (auto simp: find_Some_iff)
  then have w': "w' = w"
    using assms(4-6) by (auto simp: approved_version_def distinct_map dest: inj_onD)
  have "row_of install_key (install_key ?row) (upsert install_key ?row ?f (ct_installs t)) =
      Some (case row_of install_key (install_key ?row) (ct_installs t) of None \<Rightarrow> ?row | Some r \<Rightarrow> ?f r)"
    by (subst row_of_upsert) simp_all
  then obtain r where r: "r \<in> set (upsert install_key ?row ?f (ct_installs t))" "install_key r = install_key ?row"
      "gi_enabled r"
    by (force dest!: row_of_SomeD split: option.splits)
  show ?thesis
    using assms(4,5) r unfolding 2(3) w' enabled_versions_def approved_version_def by auto
qed

lemma upsert_version_stores:
  assumes "upsert_version row now t = Inr (u, t')" "pv_approved row"
  shows "ct_plugins t' = ct_plugins t \<and> (\<exists>w\<in>set (ct_versions t'). version_key w = version_key row \<and> pv_approved w \<and>
    pv_manifest w = pv_manifest row \<and> pv_public_dispatch_allowed w = pv_public_dispatch_allowed row)"
proof -
  let ?f = "\<lambda>r. row\<lparr>pv_id := pv_id r, pv_plugin_id := pv_plugin_id r, pv_version := pv_version r\<rparr>"
  have t': "t' = t\<lparr>ct_versions := upsert version_key row ?f (ct_versions t)\<rparr>"
    using assms(1) by (simp add: upsert_version_def split: if_splits)
  let ?w = "case row_of version_key (version_key row) (ct_versions t) of None \<Rightarrow> row | Some r \<Rightarrow> ?f r"
  have "row_of version_key (version_key row) (ct_versions t') = Some ?w"
    unfolding t' by (simp, subst row_of_upsert) simp_all
  from row_of_SomeD [OF this] show ?thesis
    using assms(2) by (intro conjI bexI [of _ ?w]) (simp_all add: t' split: option.splits)
qed

text \<open>A manifest that was approved and then enabled for a guild is among the manifests that guild is given.\<close>

theorem approved_then_enabled:
  assumes "tables db = no_plugins" "\<forall>op\<in>set ops. codec_ok s op" "stored_as s m"
    "UpsertApprovedManifest s m actor (run_catalog s ops db) = (Inr (), db1)"
    "EnableForGuild (s\<lparr>cs_new_id := i\<rparr>) g (mf_id m) (mf_version m) actor' db1 = (Inr (), db2)"
    "EnabledForGuild s g db2 = (Inr ms, db3)"
  shows "m\<lparr>mf_public_dispatch_allowed := manifestPublicDispatchAllowed m\<rparr> \<in> set ms"
proof -
  let ?t = "tables (run_catalog s ops db)" and ?H = "insert ([], OpApprove m actor) (set ops)"
  have ok: "catalog_ok s ?H ?t"
    using run_catalog_ok [of s "{}" db ops] assms(1,2) catalog_ok_mono [of s "set ops" ?t ?H] by auto
  from UpsertApprovedManifest_Inr [OF assms(4)] obtain j t1 where
    valid: "Validate (cs_lib s) m = Inr ()"
    and up: "upsert_plugin (manifest_plugin_row m) (clock (run_catalog s ops db)) ?t = Inr ((), t1)"
    and uv: "upsert_version (manifest_version_row s j m actor) (clock (run_catalog s ops db)) t1 = Inr ((), tables db1)"
    by blast
  from upsert_plugin_ok [OF up ok] have ok1: "catalog_ok s ?H t1" "trim_space (mf_id m) \<in> pl_id ` set (ct_plugins t1)"
    by (simp_all add: manifest_plugin_row_def)
  have vok: "version_ok s ?H (manifest_version_row s j m actor)"
    by (rule manifest_version_row_ok [OF valid assms(3), of "[]" actor]) simp
  have ok2: "catalog_ok s ?H (tables db1)"
    by (rule upsert_version_ok [OF uv ok1(1) vok]) (use ok1(2) in \<open>simp add: manifest_version_row_def\<close>)
  have "pv_approved (manifest_version_row s j m actor)" by (simp add: manifest_version_row_def)
  from upsert_version_stores [OF uv this] obtain w where
    w: "w \<in> set (ct_versions (tables db1))" "approved_version (trim_space (mf_id m)) (trim_space (mf_version m)) w"
      "pv_manifest w = cs_json s m" "pv_public_dispatch_allowed w = manifestPublicDispatchAllowed m"
    and pl: "ct_plugins (tables db1) = ct_plugins t1"
    by (auto simp: manifest_version_row_def approved_version_def)
  from EnableForGuild_Inr [OF assms(5)] obtain k n where
    en: "enable_install k (trim_space g) (trim_space actor') (trim_space (mf_id m)) (trim_space (mf_version m))
      (clock db1) (tables db1) = Inr (n, tables db2)" "0 < n"
    by auto
  from ok2 have u: "unique_key pv_id (ct_versions (tables db1))" "unique_key version_key (ct_versions (tables db1))"
    by (simp_all add: catalog_ok_def)
  from enable_install_enables [OF en u(1) w(1,2) u(2)] have
    e: "w \<in> set (enabled_versions (tables db2) (trim_space g))" "ct_plugins (tables db2) = ct_plugins t1"
    using pl by simp_all
  from assms(6) obtain rows where
    r: "sql_exec (select_enabled s (trim_space g)) db2 = (Inr rows, db3)" "scanManifests s rows = Inr ms"
    by (auto simp: EnabledForGuild_def split: if_splits prod.splits sum.splits)
  have "pv_plugin_id w \<in> pl_id ` set (ct_plugins (tables db2))"
    using w(2) ok1(2) e(2) by (simp add: approved_version_def)
  then have "(cs_json s m, manifestPublicDispatchAllowed m) \<in> set rows"
    using select_enabled_mem [OF conjunct1 [OF sql_exec_Inr [OF r(1)]] e(1)] w(3,4) by simp
  from scanManifests_mem [OF r(2) this] assms(3) show ?thesis by (simp add: stored_as_def)
qed

subsection \<open>A catalog with one plugin\<close>

definition sample_store :: "manifest catalog_store" where
  "sample_store = NewSQLCatalogStore (Some ''id1'') sample_lib id
     (\<lambda>m. Some (m\<lparr>mf_public_dispatch_allowed := False\<rparr>)) (\<lambda>_. []) id"

definition sample_ops :: "(string \<times> catalog_op) list" where
  "sample_ops = [(''v1'', OpApprove sample_manifest ''admin''), (''i1'', OpEnable ''g'' ''mod'' ''1'' ''admin'')]"

definition no_db :: "manifest catalog_db" where
  "no_db = \<lparr>tables = no_plugins, clock = zero_time, faults = []\<rparr>"

definition sample_row :: "manifest version_row" where
  "sample_row = \<lparr>pv_id = ''v1'', pv_plugin_id = ''mod'', pv_version = ''1'', pv_manifest = sample_manifest,
     pv_sha256 = [], pv_source_url = [], pv_approved = True, pv_public_dispatch_allowed = False,
     pv_approved_by = ''admin''\<rparr>"

lemma sample_ops_ok: "\<forall>op\<in>set sample_ops. codec_ok sample_store op" "stored_as sample_store m"
  by (simp_all add: sample_ops_def codec_ok_def stored_as_def sample_store_def NewSQLCatalogStore_def)

lemma sample_fields:
  "cs_begin_tx sample_store" "cs_query sample_store" "cs_new_id sample_store = Some ''id1''"
  "cs_lib sample_store = sample_lib" "cs_json sample_store = id"
  "cs_parse sample_store x = Some (x\<lparr>mf_public_dispatch_allowed := False\<rparr>)" "cs_sha256 sample_store x = []"
  "cs_collate sample_store = id"
  by (simp_all add: sample_store_def NewSQLCatalogStore_def)

lemma sample_names:
  "trim_space (mf_id sample_manifest) = ''mod''" "trim_space (mf_version sample_manifest) = ''1''"
  "mf_public_dispatch_allowed sample_manifest = False" "trim_space (mf_manifest_url sample_manifest) = []"
  "mf_id sample_manifest = ''mod''" "mf_version sample_manifest = ''1''"
  by (simp_all add: sample_manifest_def go_eval)

lemma sample_flag [simp]: "sample_manifest\<lparr>mf_public_dispatch_allowed := False\<rparr> = sample_manifest"
  by (simp add: sample_manifest_def)

lemma sample_approve:
  "UpsertApprovedManifest (sample_store\<lparr>cs_new_id := Some ''v1''\<rparr>) sample_manifest ''admin'' no_db =
     (Inr (), no_db\<lparr>tables := \<lparr>ct_plugins = [manifest_plugin_row sample_manifest], ct_versions = [sample_row], ct_installs = []\<rparr>\<rparr>)"
  by (simp add: UpsertApprovedManifest_def sample_fields sample_manifest_valid sql_tx_def no_db_def
      upsert_plugin_def upsert_version_def identity_taken_def upsert_def manifest_version_row_def sample_row_def
      sample_names manifestPublicDispatchAllowed_def go_eval)

lemma sample_enable:
  "EnableForGuild (sample_store\<lparr>cs_new_id := Some ''i1''\<rparr>) ''g'' ''mod'' ''1'' ''admin''
     (no_db\<lparr>tables := \<lparr>ct_plugins = [manifest_plugin_row sample_manifest], ct_versions = [sample_row], ct_installs = []\<rparr>\<rparr>) =
     (Inr (), no_db\<lparr>tables := \<lparr>ct_plugins = [manifest_plugin_row sample_manifest], ct_versions = [sample_row],
       ct_installs = [\<lparr>gi_id = ''i1'', gi_guild_id = ''g'', gi_version_id = ''v1'', gi_enabled = True,
         gi_configured_by = ''admin'', gi_enabled_by = Some ''admin''\<rparr>]\<rparr>\<rparr>)"
  by (simp add: EnableForGuild_def sample_fields sql_tx_def no_db_def requireRowsAffected_def enable_install_def
      approved_version_def sample_row_def upsert_def go_eval)

lemma sample_enabled:
  "EnabledForGuild sample_store ''g'' (run_catalog sample_store sample_ops no_db) =
     (Inr [sample_manifest], run_catalog sample_store sample_ops no_db)"
  by (simp add: run_catalog_def sample_ops_def sample_approve sample_enable,
      simp add: EnabledForGuild_def sample_fields select_enabled_def enabled_versions_def joined_def no_db_def
      sample_row_def manifest_plugin_row_def sample_names sample_manifest_valid sample_flag attempt_def go_eval)

lemma sample_no_plugins: "tables no_db = no_plugins"
  by (simp add: no_db_def)

lemma enabled_manifests_are_approved_witness:
  "\<exists>j m0 a. (j, OpApprove m0 a) \<in> set sample_ops \<and> Validate sample_lib m0 = Inr () \<and>
    sample_manifest = m0\<lparr>mf_public_dispatch_allowed := mf_public_dispatch_allowed m0 \<and> HasPublicSendMessageAction m0\<rparr>"
  using enabled_manifests_are_approved [OF sample_no_plugins sample_ops_ok(1) sample_enabled, of sample_manifest]
  by (simp add: sample_fields) blast

lemma sample_disable:
  "\<exists>db1. DisableForGuild sample_store ''g'' ''mod'' ''admin'' (run_catalog sample_store sample_ops no_db) = (Inr (), db1) \<and>
     EnabledForGuild sample_store ''g'' db1 = (Inr [], db1)"
  by (simp add: run_catalog_def sample_ops_def sample_approve sample_enable,
      simp add: DisableForGuild_def EnabledForGuild_def sample_fields sql_tx_def no_db_def requireRowsAffected_def
      disable_install_def enabled_install_def sample_row_def update_where_def count_where_def
      select_enabled_def enabled_versions_def joined_def go_eval)

lemma disabled_plugin_is_gone_witness:
  "\<exists>db1 (ms :: manifest list). EnabledForGuild sample_store ''g'' db1 = (Inr ms, db1) \<and>
     DisableForGuild sample_store ''g'' ''mod'' ''admin'' (run_catalog sample_store sample_ops no_db) = (Inr (), db1) \<and>
     (\<forall>m\<in>set ms. trim_space (mf_id m) \<noteq> trim_space ''mod'')"
proof -
  obtain db1 where d: "DisableForGuild sample_store ''g'' ''mod'' ''admin'' (run_catalog sample_store sample_ops no_db) = (Inr (), db1)"
    "EnabledForGuild sample_store ''g'' db1 = (Inr [], db1)"
    using sample_disable by blast
  show ?thesis
    using disabled_plugin_is_gone [OF sample_no_plugins sample_ops_ok(1) d] d by blast
qed

lemma scanManifests_new_id [simp]: "scanManifests (s\<lparr>cs_new_id := i\<rparr>) rows = scanManifests s rows"
  by (induction s rows rule: scanManifests.induct) (simp_all split: option.splits sum.splits)

lemma EnabledForGuild_new_id [simp]: "EnabledForGuild (s\<lparr>cs_new_id := i\<rparr>) = EnabledForGuild s"
  by (simp add: EnabledForGuild_def select_enabled_def [abs_def] manifest_order_def [abs_def] fun_eq_iff
      split: prod.splits sum.splits)

lemma approved_then_enabled_witness:
  "\<exists>(ms :: manifest list). EnabledForGuild sample_store ''g'' (run_catalog sample_store sample_ops no_db) =
      (Inr ms, run_catalog sample_store sample_ops no_db) \<and> sample_manifest \<in> set ms"
proof -
  let ?s = "sample_store\<lparr>cs_new_id := Some ''v1''\<rparr>"
  have a: "UpsertApprovedManifest ?s sample_manifest ''admin'' (run_catalog ?s [] no_db) =
      (Inr (), run_catalog sample_store (take 1 sample_ops) no_db)"
    by (simp add: run_catalog_def sample_ops_def sample_approve)
  have e: "EnableForGuild (?s\<lparr>cs_new_id := Some ''i1''\<rparr>) ''g'' (mf_id sample_manifest) (mf_version sample_manifest)
      ''admin'' (run_catalog sample_store (take 1 sample_ops) no_db) = (Inr (), run_catalog sample_store sample_ops no_db)"
    using sample_enable by (simp add: run_catalog_def sample_ops_def sample_approve sample_names(5,6))
  have st: "stored_as ?s sample_manifest"
    using sample_ops_ok(2) by (simp add: stored_as_def)
  have "sample_manifest\<lparr>mf_public_dispatch_allowed := manifestPublicDispatchAllowed sample_manifest\<rparr> \<in> set [sample_manifest]"
    by (rule approved_then_enabled [OF sample_no_plugins _ st a e]) (simp_all add: sample_enabled)
  then show ?thesis using sample_enabled by auto
qed

end
