(* ===== verification/ProviderRegistry.thy ===== *)
theory ProviderRegistry
  imports SqlTables Unicode_Tables
begin

text \<open>
  \<^verbatim>\<open>internal/llm/provider/registry.go\<close> and \<^verbatim>\<open>secret.go\<close>: the providers, the purposes they serve and the default
  models, and the sealing of secrets. AES-GCM itself and SHA-256 are parameters, as is where nonces come from.
\<close>

subsection \<open>Providers, purposes, owners\<close>

type_synonym provider_id = string
type_synonym purpose = string
type_synonym owner_type = string

abbreviation ProviderOpenAI :: provider_id where "ProviderOpenAI \<equiv> ''openai''"
abbreviation ProviderAnthropic :: provider_id where "ProviderAnthropic \<equiv> ''anthropic''"
abbreviation ProviderGemini :: provider_id where "ProviderGemini \<equiv> ''gemini''"
abbreviation ProviderCustom :: provider_id where "ProviderCustom \<equiv> ''custom''"

abbreviation PurposeChat :: purpose where "PurposeChat \<equiv> ''chat''"
abbreviation PurposeReasoning :: purpose where "PurposeReasoning \<equiv> ''reasoning''"
abbreviation PurposeEmbedding :: purpose where "PurposeEmbedding \<equiv> ''embedding''"
abbreviation PurposeRouting :: purpose where "PurposeRouting \<equiv> ''routing''"

abbreviation OwnerGuild :: owner_type where "OwnerGuild \<equiv> ''guild''"
abbreviation OwnerUser :: owner_type where "OwnerUser \<equiv> ''user''"
abbreviation OwnerTenant :: owner_type where "OwnerTenant \<equiv> ''tenant''"

record provider_spec =
  sp_id :: provider_id
  sp_display_name :: string
  sp_purposes :: "purpose list"

text \<open>A registry is its map of specs, \<open>None\<close> when that map is nil.\<close>

type_synonym provider_registry = "(provider_id \<times> provider_spec) list option"

definition defaultModels :: "(provider_id \<times> (purpose \<times> string) list) list" where
  "defaultModels =
    [(ProviderOpenAI, [(PurposeChat, ''gpt-5.4-mini''), (PurposeReasoning, ''gpt-5.5''),
       (PurposeEmbedding, ''text-embedding-3-small''), (PurposeRouting, ''gpt-5.4-mini'')]),
     (ProviderAnthropic, [(PurposeChat, ''claude-sonnet-4-6''), (PurposeReasoning, ''claude-sonnet-4-6''),
       (PurposeRouting, ''claude-haiku-4-5-20251001'')]),
     (ProviderGemini, [(PurposeChat, ''gemini-3.5-flash''), (PurposeReasoning, ''gemini-3.1-pro-preview''),
       (PurposeEmbedding, ''gemini-embedding-2''), (PurposeRouting, ''gemini-3.5-flash'')])]"

definition DefaultRegistry :: provider_registry where
  "DefaultRegistry = Some
    [(ProviderOpenAI, \<lparr>sp_id = ProviderOpenAI, sp_display_name = ''OpenAI'',
       sp_purposes = [PurposeChat, PurposeReasoning, PurposeEmbedding, PurposeRouting]\<rparr>),
     (ProviderAnthropic, \<lparr>sp_id = ProviderAnthropic, sp_display_name = ''Anthropic'',
       sp_purposes = [PurposeChat, PurposeReasoning, PurposeRouting]\<rparr>),
     (ProviderGemini, \<lparr>sp_id = ProviderGemini, sp_display_name = ''Gemini'',
       sp_purposes = [PurposeChat, PurposeReasoning, PurposeEmbedding, PurposeRouting]\<rparr>),
     (ProviderCustom, \<lparr>sp_id = ProviderCustom, sp_display_name = ''Custom'',
       sp_purposes = [PurposeChat, PurposeReasoning, PurposeEmbedding, PurposeRouting]\<rparr>)]"

definition Spec :: "provider_registry \<Rightarrow> provider_id \<Rightarrow> provider_spec option" where
  "Spec r i = (case r of None \<Rightarrow> None | Some specs \<Rightarrow> map_of specs i)"

definition registry_ValidateProvider :: "provider_registry \<Rightarrow> provider_id \<Rightarrow> unit result" where
  "registry_ValidateProvider r i = require (Spec r i \<noteq> None) ''unknown provider'' (Inr ())"

definition ValidateProvider :: "provider_id \<Rightarrow> unit result" where
  "ValidateProvider i = registry_ValidateProvider DefaultRegistry i"

definition ValidatePurpose :: "purpose \<Rightarrow> unit result" where
  "ValidatePurpose p =
     require (p \<in> {PurposeChat, PurposeReasoning, PurposeEmbedding, PurposeRouting}) ''unknown purpose'' (Inr ())"

definition ValidateOwnerType :: "owner_type \<Rightarrow> unit result" where
  "ValidateOwnerType t = require (t \<in> {OwnerGuild, OwnerUser, OwnerTenant}) ''unknown owner type'' (Inr ())"

definition registry_SupportsPurpose :: "provider_registry \<Rightarrow> provider_id \<Rightarrow> purpose \<Rightarrow> bool" where
  "registry_SupportsPurpose r i p =
     (case Spec r i of
        None \<Rightarrow> False
      | Some spec \<Rightarrow> ValidatePurpose p = Inr () \<and> p \<in> set (sp_purposes spec))"

definition SupportsPurpose :: "provider_id \<Rightarrow> purpose \<Rightarrow> bool" where
  "SupportsPurpose i p = registry_SupportsPurpose DefaultRegistry i p"

definition DefaultModel :: "provider_id \<Rightarrow> purpose \<Rightarrow> string option" where
  "DefaultModel i p =
     (case map_of defaultModels i of None \<Rightarrow> None | Some models \<Rightarrow> map_of models p)"

definition ValidateModelID :: "string \<Rightarrow> string result" where
  "ValidateModelID modelID =
     (let trimmed = trim_space modelID in
      require (trimmed \<noteq> []) ''model id is empty'' (
      require (length trimmed \<le> 160) ''model id is too long'' (
      require (\<not> list_ex is_control_rune (runes trimmed)) ''model id contains control characters'' (
        Inr trimmed))))"

lemma Validate_Inr:
  "ValidatePurpose p = Inr u \<longleftrightarrow> p \<in> {PurposeChat, PurposeReasoning, PurposeEmbedding, PurposeRouting}"
  "ValidateOwnerType t = Inr u \<longleftrightarrow> t \<in> {OwnerGuild, OwnerUser, OwnerTenant}"
  "ValidateModelID m = Inr n \<longleftrightarrow> n = trim_space m \<and> n \<noteq> [] \<and> length n \<le> 160 \<and> \<not> list_ex is_control_rune (runes n)"
  by (auto simp: ValidatePurpose_def ValidateOwnerType_def ValidateModelID_def Let_def)

text \<open>A model that is offered by default is one the provider can be asked for, and has a valid id.\<close>

lemma default_models_supported:
  "DefaultModel i p = Some m \<Longrightarrow> SupportsPurpose i p"
  by (auto simp: DefaultModel_def defaultModels_def SupportsPurpose_def registry_SupportsPurpose_def Spec_def
      DefaultRegistry_def Validate_Inr split: if_splits)

subsection \<open>Sealed secrets\<close>

record sealed_secret =
  ss_ciphertext :: string
  ss_nonce :: string
  ss_key_id :: string

text \<open>
  \<^verbatim>\<open>SecretSealer\<close> over a world: each call may read or change it (the state of the context, the random source).
\<close>

record 'w secret_sealer =
  sl_seal :: "string \<Rightarrow> string \<Rightarrow> 'w \<Rightarrow> sealed_secret result \<times> 'w"
  sl_open :: "sealed_secret \<Rightarrow> string \<Rightarrow> 'w \<Rightarrow> string result \<times> 'w"

text \<open>\<^verbatim>\<open>cipher.AEAD\<close>: nonce, plaintext and additional data to ciphertext, and back, if it was sealed so.\<close>

record aead =
  ad_nonce_size :: nat
  ad_seal :: "string \<Rightarrow> string \<Rightarrow> string \<Rightarrow> string"
  ad_open :: "string \<Rightarrow> string \<Rightarrow> string \<Rightarrow> string option"

record aes_gcm_sealer =
  ag_gcm :: aead
  ag_key_id :: string

definition NewAESGCMSealer :: "(string \<Rightarrow> aead) \<Rightarrow> string \<Rightarrow> string \<Rightarrow> aes_gcm_sealer result" where
  "NewAESGCMSealer gcm key keyID0 =
     (let keyID = trim_space keyID0 in
      require (length key = 32) ''aes-gcm key must be 32 bytes'' (
      require (keyID \<noteq> []) ''key id is required'' (
        Inr \<lparr>ag_gcm = gcm key, ag_key_id = keyID\<rparr>)))"

text \<open>\<open>ctx\<close> is \<^verbatim>\<open>ctx.Err()\<close>; \<open>draw n\<close> reads \<open>n\<close> bytes of the random source.\<close>

definition AESGCM_Seal ::
  "('w \<Rightarrow> goerror option) \<Rightarrow> (nat \<Rightarrow> 'w \<Rightarrow> string result \<times> 'w) \<Rightarrow> aes_gcm_sealer \<Rightarrow> string \<Rightarrow> string \<Rightarrow>
   'w \<Rightarrow> sealed_secret result \<times> 'w"
where
  "AESGCM_Seal ctx draw s plaintext aad w =
     (case ctx w of
        Some e \<Rightarrow> (Inl e, w)
      | None \<Rightarrow>
          if plaintext = [] then (Inl (Errorf ''plaintext is required''), w)
          else db_bind (draw (ad_nonce_size (ag_gcm s)) w) (\<lambda>nonce w'.
            (Inr \<lparr>ss_ciphertext = ad_seal (ag_gcm s) nonce plaintext aad, ss_nonce = nonce,
               ss_key_id = ag_key_id s\<rparr>, w')))"

definition AESGCM_Open ::
  "('w \<Rightarrow> goerror option) \<Rightarrow> aes_gcm_sealer \<Rightarrow> sealed_secret \<Rightarrow> string \<Rightarrow> 'w \<Rightarrow> string result \<times> 'w"
where
  "AESGCM_Open ctx s sealed aad w =
     (case ctx w of
        Some e \<Rightarrow> (Inl e, w)
      | None \<Rightarrow>
          (require (ss_key_id sealed = ag_key_id s) ''sealed secret key id mismatch'' (
           require (length (ss_nonce sealed) = ad_nonce_size (ag_gcm s)) ''sealed secret nonce is invalid'' (
           require (ss_ciphertext sealed \<noteq> []) ''sealed secret ciphertext is required'' (
             case ad_open (ag_gcm s) (ss_nonce sealed) (ss_ciphertext sealed) aad of
               None \<Rightarrow> Inl (Errorf ''cipher: message authentication failed'')
             | Some plaintext \<Rightarrow> Inr plaintext))), w))"

definition AESGCMSealer ::
  "('w \<Rightarrow> goerror option) \<Rightarrow> (nat \<Rightarrow> 'w \<Rightarrow> string result \<times> 'w) \<Rightarrow> aes_gcm_sealer \<Rightarrow> 'w secret_sealer"
where
  "AESGCMSealer ctx draw s = \<lparr>sl_seal = AESGCM_Seal ctx draw s, sl_open = AESGCM_Open ctx s\<rparr>"

text \<open>The fingerprint of a secret, given the hex digits of its SHA-256.\<close>

definition secret_Fingerprint :: "(string \<Rightarrow> string) \<Rightarrow> string \<Rightarrow> string result" where
  "secret_Fingerprint sha256_hex secret =
     require (trim_space secret \<noteq> []) ''secret is required'' (Inr (take 16 (sha256_hex secret)))"

text \<open>
  What AES-GCM documents: opening what was sealed under the same nonce and data returns the plaintext, and the
  tag makes a ciphertext longer than the plaintext.
\<close>

definition aead_ok :: "aead \<Rightarrow> bool" where
  "aead_ok a \<longleftrightarrow> (\<forall>n p d. length n = ad_nonce_size a \<longrightarrow>
     ad_open a n (ad_seal a n p d) d = Some p \<and> length p < length (ad_seal a n p d))"

lemma AESGCM_Open_Seal:
  assumes "AESGCM_Seal ctx draw s p aad w = (Inr sealed, w')" "aead_ok (ag_gcm s)" "ag_key_id s = k"
    "\<And>n w x w'. draw n w = (Inr x, w') \<Longrightarrow> length x = n"
  shows "ss_key_id sealed = k \<and> ss_ciphertext sealed \<noteq> [] \<and> length (ss_nonce sealed) = ad_nonce_size (ag_gcm s) \<and>
    AESGCM_Open ctx s sealed aad w2 = (case ctx w2 of None \<Rightarrow> Inr p | Some e \<Rightarrow> Inl e, w2)"
proof -
  from assms(1) obtain n where n: "draw (ad_nonce_size (ag_gcm s)) w = (Inr n, w')"
    and sealed: "sealed = \<lparr>ss_ciphertext = ad_seal (ag_gcm s) n p aad, ss_nonce = n, ss_key_id = ag_key_id s\<rparr>"
    by (auto simp: AESGCM_Seal_def split: option.splits if_splits dest!: db_bind_InrD)
  have l: "length n = ad_nonce_size (ag_gcm s)" using assms(4) n by blast
  then have "ad_open (ag_gcm s) n (ad_seal (ag_gcm s) n p aad) aad = Some p"
    "length p < length (ad_seal (ag_gcm s) n p aad)"
    using assms(2) by (auto simp: aead_ok_def)
  then show ?thesis
    using assms(3) l by (auto simp: sealed AESGCM_Open_def split: option.splits)
qed

end
