(* ===== verification/ProviderStore.thy ===== *)
theory ProviderStore
  imports ProviderRegistry "HOL-Library.Product_Lexorder" "HOL-Library.List_Lexorder" "HOL-Library.Char_ord"
begin

text \<open>
  \<^verbatim>\<open>internal/llm/provider/store.go\<close>: the SQL store of provider credentials and model profiles, over the tables
  \<^verbatim>\<open>llm_credentials\<close> and \<^verbatim>\<open>llm_model_profiles\<close> of migration \<^verbatim>\<open>000003\<close> with their unique indexes and checks.
  PostgreSQL's \<^verbatim>\<open>lower\<close> and its collation, \<^verbatim>\<open>json.Valid\<close> and the text \<^verbatim>\<open>jsonb\<close> gives back are parameters.
\<close>

subsection \<open>Records\<close>

type_synonym credential_status = string
type_synonym test_status = string
type_synonym test_error_code = string

abbreviation CredentialStatusActive :: credential_status where "CredentialStatusActive \<equiv> ''active''"
abbreviation CredentialStatusInvalid :: credential_status where "CredentialStatusInvalid \<equiv> ''invalid''"
abbreviation CredentialStatusRevoked :: credential_status where "CredentialStatusRevoked \<equiv> ''revoked''"

abbreviation TestStatusUntested :: test_status where "TestStatusUntested \<equiv> ''untested''"
abbreviation TestStatusSucceeded :: test_status where "TestStatusSucceeded \<equiv> ''succeeded''"
abbreviation TestStatusFailed :: test_status where "TestStatusFailed \<equiv> ''failed''"

record owner_scope =
  os_owner_type :: owner_type
  os_guild_id :: string
  os_user_id :: string

record credential_record =
  cr_id :: string
  cr_owner_type :: owner_type
  cr_guild_id :: string
  cr_user_id :: string
  cr_provider_id :: provider_id
  cr_label :: string
  cr_ciphertext :: string
  cr_nonce :: string
  cr_key_id :: string
  cr_fingerprint :: string
  cr_status :: credential_status
  cr_last_test_status :: test_status
  cr_last_error_code :: string
  cr_created_by :: string
  cr_updated_by :: string

record credential_input =
  ci_owner :: owner_scope
  ci_provider_id :: provider_id
  ci_label :: string
  ci_ciphertext :: string
  ci_nonce :: string
  ci_key_id :: string
  ci_fingerprint :: string
  ci_created_by :: string
  ci_updated_by :: string

record model_profile =
  mp_id :: string
  mp_owner_type :: owner_type
  mp_guild_id :: string
  mp_user_id :: string
  mp_purpose :: purpose
  mp_credential_id :: string
  mp_provider_id :: provider_id
  mp_model_id :: string
  mp_params_json :: string
  mp_enabled :: bool
  mp_selected_by :: string

record model_profile_input =
  mi_owner :: owner_scope
  mi_purpose :: purpose
  mi_credential_id :: string
  mi_provider_id :: provider_id
  mi_model_id :: string
  mi_params_json :: string
  mi_selected_by :: string

subsection \<open>The tables\<close>

text \<open>The columns \<^verbatim>\<open>owner_type, guild_id, user_id\<close>; \<^verbatim>\<open>is not distinct from\<close> compares them as options.\<close>

type_synonym owner_columns = "owner_type \<times> string option \<times> string option"

record credential_row =
  cw_id :: string
  cw_owner :: owner_columns
  cw_provider_id :: provider_id
  cw_label :: string
  cw_ciphertext :: string
  cw_nonce :: string
  cw_key_id :: string
  cw_fingerprint :: string
  cw_status :: credential_status
  cw_last_test_status :: "test_status option"
  cw_last_error_code :: "string option"
  cw_created_by :: "string option"
  cw_updated_by :: "string option"
  cw_revoked_at :: "gotime option"

record profile_row =
  pw_id :: string
  pw_owner :: owner_columns
  pw_purpose :: purpose
  pw_credential_id :: string
  pw_provider_id :: provider_id
  pw_model_id :: string
  pw_params :: string
  pw_enabled :: bool
  pw_selected_by :: "string option"
  pw_updated_at :: gotime

record llm_tables =
  lt_credentials :: "credential_row list"
  lt_profiles :: "profile_row list"

type_synonym llm_db = "llm_tables sqldb"

text \<open>
  The store: the parts of its database (\<open>False\<close> where \<^verbatim>\<open>NewSQLStore\<close> found none), what its id generator returns,
  and the parameters.
\<close>

record llm_store =
  ls_begin_tx :: bool
  ls_query :: bool
  ls_new_id :: "string option"
  ls_lower :: "string \<Rightarrow> string"
  ls_collate :: "string \<Rightarrow> string"
  ls_json_valid :: "string \<Rightarrow> bool"
  ls_jsonb :: "string \<Rightarrow> string option"

definition nullArg :: "string \<Rightarrow> string option" where
  "nullArg v = (if v = [] then None else Some v)"

definition stringFromNull :: "string option \<Rightarrow> string" where
  "stringFromNull v = (case v of None \<Rightarrow> [] | Some s \<Rightarrow> s)"

definition owner_args :: "owner_scope \<Rightarrow> owner_columns" where
  "owner_args s = (os_owner_type s, nullArg (os_guild_id s), nullArg (os_user_id s))"

lemma stringFromNull_nullArg [simp]: "stringFromNull (nullArg v) = v"
  by (simp add: stringFromNull_def nullArg_def)

lemma nullArg_eq [simp]: "nullArg v = nullArg w \<longleftrightarrow> v = w"
  by (simp add: nullArg_def)

lemma owner_args_eq [simp]: "owner_args a = owner_args b \<longleftrightarrow> a = b"
  by (cases a; cases b) (simp add: owner_args_def)

text \<open>The index expressions \<^verbatim>\<open>coalesce(guild_id, '')\<close> and \<^verbatim>\<open>coalesce(user_id, '')\<close>.\<close>

definition owner_index :: "owner_columns \<Rightarrow> owner_type \<times> string \<times> string" where
  "owner_index c = (case c of (t, g, u) \<Rightarrow> (t, stringFromNull g, stringFromNull u))"

definition owner_check :: "owner_columns \<Rightarrow> bool" where
  "owner_check c = (case c of (t, g, u) \<Rightarrow>
     t = OwnerGuild \<and> g \<noteq> None \<and> u = None \<or> t = OwnerUser \<and> g = None \<and> u \<noteq> None \<or>
     t = OwnerTenant \<and> g = None \<and> u = None)"

subsection \<open>Validation\<close>

definition normalizeScope :: "owner_scope \<Rightarrow> owner_scope result" where
  "normalizeScope s0 =
     (let s = \<lparr>os_owner_type = trim_space (os_owner_type s0), os_guild_id = trim_space (os_guild_id s0),
            os_user_id = trim_space (os_user_id s0)\<rparr>
      in attempt (ValidateOwnerType (os_owner_type s)) (\<lambda>_.
        if os_owner_type s = OwnerGuild then
          require (os_guild_id s \<noteq> []) ''guild ID is required'' (
          require (os_user_id s = []) ''guild credential cannot have user ID'' (Inr s))
        else if os_owner_type s = OwnerUser then
          require (os_user_id s \<noteq> []) ''user ID is required'' (
          require (os_guild_id s = []) ''user credential cannot have guild ID'' (Inr s))
        else if os_owner_type s = OwnerTenant then
          require (os_guild_id s = [] \<and> os_user_id s = []) ''tenant credential cannot have guild or user ID'' (Inr s)
        else Inl (Errorf ''unknown owner type'')))"

definition normalizeCredentialInput :: "credential_input \<Rightarrow> credential_input result" where
  "normalizeCredentialInput i0 =
     attempt (normalizeScope (ci_owner i0)) (\<lambda>scope.
       let i = i0\<lparr>ci_owner := scope, ci_provider_id := trim_space (ci_provider_id i0),
             ci_label := trim_space (ci_label i0), ci_key_id := trim_space (ci_key_id i0),
             ci_fingerprint := trim_space (ci_fingerprint i0), ci_created_by := trim_space (ci_created_by i0),
             ci_updated_by := trim_space (ci_updated_by i0)\<rparr>
       in attempt (ValidateProvider (ci_provider_id i)) (\<lambda>_.
         require (ci_label i \<noteq> []) ''credential label is required'' (
         require (ci_ciphertext i \<noteq> []) ''credential ciphertext is required'' (
         require (ci_nonce i \<noteq> []) ''credential nonce is required'' (
         require (ci_key_id i \<noteq> []) ''credential key ID is required'' (
         require (ci_fingerprint i \<noteq> []) ''credential fingerprint is required'' (
         require (ci_created_by i \<noteq> []) ''actor user ID is required'' (
           Inr (i\<lparr>ci_updated_by := (if ci_updated_by i = [] then ci_created_by i else ci_updated_by i)\<rparr>)))))))))"

definition normalizeModelProfileInput :: "llm_store \<Rightarrow> model_profile_input \<Rightarrow> model_profile_input result" where
  "normalizeModelProfileInput st i0 =
     attempt (normalizeScope (mi_owner i0)) (\<lambda>scope.
       let i = i0\<lparr>mi_owner := scope, mi_provider_id := trim_space (mi_provider_id i0),
             mi_credential_id := trim_space (mi_credential_id i0), mi_selected_by := trim_space (mi_selected_by i0),
             mi_params_json := trim_space (mi_params_json i0)\<rparr>
       in attempt (ValidatePurpose (mi_purpose i)) (\<lambda>_.
          attempt (ValidateProvider (mi_provider_id i)) (\<lambda>_.
          attempt (ValidateModelID (mi_model_id i)) (\<lambda>modelID.
          require (SupportsPurpose (mi_provider_id i) (mi_purpose i)) ''provider does not support purpose'' (
          require (mi_credential_id i \<noteq> []) ''credential ID is required'' (
          require (mi_selected_by i \<noteq> []) ''actor user ID is required'' (
            let params = (if mi_params_json i = [] then ''{}'' else mi_params_json i) in
            require (ls_json_valid st params) ''model profile params must be valid JSON'' (
              Inr (i\<lparr>mi_model_id := modelID, mi_params_json := params\<rparr>)))))))))"

definition ValidateTestStatus :: "test_status \<Rightarrow> unit result" where
  "ValidateTestStatus s =
     require (s \<in> {TestStatusUntested, TestStatusSucceeded, TestStatusFailed}) ''unknown test status'' (Inr ())"

definition requireLLMRowsAffected :: "string \<Rightarrow> nat result \<times> 'd \<Rightarrow> unit result \<times> 'd" where
  "requireLLMRowsAffected msg p =
     db_bind p (\<lambda>n db. if n = 0 then (Inl (Errorf msg), db) else (Inr (), db))"

subsection \<open>Credentials\<close>

definition NewSQLStore ::
  "string option \<Rightarrow> (string \<Rightarrow> string) \<Rightarrow> (string \<Rightarrow> string) \<Rightarrow> (string \<Rightarrow> bool) \<Rightarrow> (string \<Rightarrow> string option) \<Rightarrow> llm_store"
where
  "NewSQLStore newID lower collate valid jsonb =
     \<lparr>ls_begin_tx = True, ls_query = True, ls_new_id = newID, ls_lower = lower, ls_collate = collate,
      ls_json_valid = valid, ls_jsonb = jsonb\<rparr>"

definition scanCredentialRecord :: "credential_row \<Rightarrow> credential_record" where
  "scanCredentialRecord r = (case cw_owner r of (t, g, u) \<Rightarrow>
     \<lparr>cr_id = cw_id r, cr_owner_type = t, cr_guild_id = stringFromNull g, cr_user_id = stringFromNull u,
      cr_provider_id = cw_provider_id r, cr_label = cw_label r, cr_ciphertext = [], cr_nonce = [],
      cr_key_id = cw_key_id r, cr_fingerprint = cw_fingerprint r, cr_status = cw_status r,
      cr_last_test_status = stringFromNull (cw_last_test_status r),
      cr_last_error_code = stringFromNull (cw_last_error_code r),
      cr_created_by = stringFromNull (cw_created_by r), cr_updated_by = stringFromNull (cw_updated_by r)\<rparr>)"

definition scanCredentialRecordWithSecret :: "credential_row \<Rightarrow> credential_record" where
  "scanCredentialRecordWithSecret r =
     (scanCredentialRecord r)\<lparr>cr_ciphertext := cw_ciphertext r, cr_nonce := cw_nonce r\<rparr>"

definition new_credential :: "string \<Rightarrow> credential_input \<Rightarrow> credential_row" where
  "new_credential credentialID i =
     \<lparr>cw_id = credentialID, cw_owner = owner_args (ci_owner i), cw_provider_id = ci_provider_id i,
      cw_label = ci_label i, cw_ciphertext = ci_ciphertext i, cw_nonce = ci_nonce i, cw_key_id = ci_key_id i,
      cw_fingerprint = ci_fingerprint i, cw_status = CredentialStatusActive,
      cw_last_test_status = Some TestStatusUntested, cw_last_error_code = None,
      cw_created_by = Some (ci_created_by i), cw_updated_by = Some (ci_updated_by i), cw_revoked_at = None\<rparr>"

text \<open>\<open>llm_credentials_active_owner_label_idx\<close>: the key of a row, and the row of a table an insert conflicts with.\<close>

definition label_index :: "(string \<Rightarrow> string) \<Rightarrow> credential_row \<Rightarrow> (owner_type \<times> string \<times> string) \<times> string" where
  "label_index low r = (owner_index (cw_owner r), low (cw_label r))"

definition live :: "credential_row \<Rightarrow> bool" where
  "live r \<longleftrightarrow> cw_revoked_at r = None"

definition conflicts :: "(string \<Rightarrow> string) \<Rightarrow> credential_row \<Rightarrow> credential_row \<Rightarrow> bool" where
  "conflicts low row r \<longleftrightarrow> live r \<and> label_index low r = label_index low row"

definition rotate_row :: "credential_row \<Rightarrow> credential_row \<Rightarrow> credential_row" where
  "rotate_row row r = r\<lparr>cw_label := cw_label row, cw_ciphertext := cw_ciphertext row, cw_nonce := cw_nonce row,
     cw_key_id := cw_key_id row, cw_fingerprint := cw_fingerprint row, cw_status := CredentialStatusActive,
     cw_last_test_status := Some TestStatusUntested, cw_last_error_code := None,
     cw_updated_by := cw_updated_by row, cw_revoked_at := None\<rparr>"

definition upsert_credential :: "(string \<Rightarrow> string) \<Rightarrow> credential_row \<Rightarrow> (llm_tables, credential_row option) statement" where
  "upsert_credential low row now t =
     (case find (conflicts low row) (lt_credentials t) of
        Some r \<Rightarrow>
          if cw_provider_id r = cw_provider_id row
          then Inr (Some (rotate_row row r), t\<lparr>lt_credentials :=
                 update_where (conflicts low row) (rotate_row row) (lt_credentials t)\<rparr>)
          else Inr (None, t)
      | None \<Rightarrow>
          if cw_id row \<in> cw_id ` set (lt_credentials t)
          then Inl (Errorf ''duplicate key value violates unique constraint'')
          else if \<not> owner_check (cw_owner row) then Inl (Errorf ''violates check constraint'')
          else Inr (Some row, t\<lparr>lt_credentials := lt_credentials t @ [row]\<rparr>))"

definition UpsertCredential :: "llm_store \<Rightarrow> credential_input \<Rightarrow> llm_db \<Rightarrow> credential_record result \<times> llm_db" where
  "UpsertCredential st input0 db =
     (case normalizeCredentialInput input0 of
        Inl e \<Rightarrow> (Inl e, db)
      | Inr i \<Rightarrow>
          if \<not> ls_begin_tx st then (Inl (Errorf ''llm provider transaction is required''), db)
          else case ls_new_id st of
              None \<Rightarrow> (Inl (Errorf ''credential ID generator is required''), db)
            | Some newID \<Rightarrow>
                if trim_space newID = [] then (Inl (Errorf ''credential ID is required''), db)
                else sql_tx ''begin llm provider transaction'' ''commit llm provider transaction''
                  (\<lambda>db1. db_bind (wrap_err ''upsert llm credential''
                       (sql_exec (upsert_credential (ls_lower st) (new_credential (trim_space newID) i)) db1))
                     (\<lambda>row db2. case row of
                        None \<Rightarrow> (Inl (Errorf ''upsert llm credential returned no row''), db2)
                      | Some r \<Rightarrow> (Inr (scanCredentialRecord r), db2))) db)"

definition labelled :: "(string \<Rightarrow> string) \<Rightarrow> owner_columns \<Rightarrow> string \<Rightarrow> credential_row \<Rightarrow> bool" where
  "labelled low owner label r \<longleftrightarrow> cw_owner r = owner \<and> low (cw_label r) = low label"

definition revoke_rows :: "(string \<Rightarrow> string) \<Rightarrow> owner_columns \<Rightarrow> string \<Rightarrow> string \<Rightarrow> (llm_tables, nat) statement" where
  "revoke_rows low owner label actorID now t =
     (let P = (\<lambda>r. labelled low owner label r \<and> live r) in
      Inr (count_where P (lt_credentials t), t\<lparr>lt_credentials := update_where P
        (\<lambda>r. r\<lparr>cw_revoked_at := Some now, cw_status := CredentialStatusRevoked, cw_updated_by := Some actorID,
            cw_ciphertext := [], cw_nonce := []\<rparr>) (lt_credentials t)\<rparr>))"

definition disable_revoked :: "(string \<Rightarrow> string) \<Rightarrow> owner_columns \<Rightarrow> string \<Rightarrow> string \<Rightarrow> (llm_tables, unit) statement" where
  "disable_revoked low owner label actorID now t =
     (let ids = map cw_id (filter (\<lambda>r. labelled low owner label r \<and> cw_status r = CredentialStatusRevoked)
            (lt_credentials t)) in
      Inr ((), t\<lparr>lt_profiles := update_where (\<lambda>p. pw_enabled p \<and> pw_credential_id p \<in> set ids)
        (\<lambda>p. p\<lparr>pw_enabled := False, pw_selected_by := Some actorID, pw_updated_at := now\<rparr>) (lt_profiles t)\<rparr>))"

definition RevokeCredential :: "llm_store \<Rightarrow> owner_scope \<Rightarrow> string \<Rightarrow> string \<Rightarrow> llm_db \<Rightarrow> unit result \<times> llm_db" where
  "RevokeCredential st owner0 label0 actorID0 db =
     (case normalizeScope owner0 of
        Inl e \<Rightarrow> (Inl e, db)
      | Inr owner \<Rightarrow>
          (let label = trim_space label0; actorID = trim_space actorID0 in
           if label = [] then (Inl (Errorf ''credential label is required''), db)
           else if actorID = [] then (Inl (Errorf ''actor user ID is required''), db)
           else if \<not> ls_begin_tx st then (Inl (Errorf ''llm provider transaction is required''), db)
           else sql_tx ''begin llm provider transaction'' ''commit llm provider transaction''
             (\<lambda>db1. db_bind (requireLLMRowsAffected ''active credential was not found''
                  (wrap_err ''revoke llm credential''
                    (sql_exec (revoke_rows (ls_lower st) (owner_args owner) label actorID) db1)))
                (\<lambda>_ db2. wrap_err ''disable revoked credential model profiles''
                  (sql_exec (disable_revoked (ls_lower st) (owner_args owner) label actorID) db2))) db))"

definition select_credentials :: "llm_store \<Rightarrow> owner_columns \<Rightarrow> (llm_tables, credential_row list) statement" where
  "select_credentials st owner now t =
     Inr (sort_key (\<lambda>r. (ls_collate st (cw_provider_id r), ls_collate st (ls_lower st (cw_label r))))
       (filter (\<lambda>r. cw_owner r = owner \<and> live r) (lt_credentials t)), t)"

definition ListCredentials :: "llm_store \<Rightarrow> owner_scope \<Rightarrow> llm_db \<Rightarrow> credential_record list result \<times> llm_db" where
  "ListCredentials st owner0 db =
     (case normalizeScope owner0 of
        Inl e \<Rightarrow> (Inl e, db)
      | Inr owner \<Rightarrow>
          if \<not> ls_query st then (Inl (Errorf ''llm provider query database is required''), db)
          else db_bind (sql_exec (select_credentials st (owner_args owner)) db)
            (\<lambda>rows db'. (Inr (map scanCredentialRecord rows), db')))"

definition select_credential :: "(credential_row \<Rightarrow> bool) \<Rightarrow> (llm_tables, credential_row option) statement" where
  "select_credential P now t =
     Inr (find (\<lambda>r. P r \<and> cw_status r = CredentialStatusActive \<and> live r) (lt_credentials t), t)"

definition one_credential :: "(credential_row \<Rightarrow> bool) \<Rightarrow> llm_db \<Rightarrow> credential_record result \<times> llm_db" where
  "one_credential P db =
     db_bind (sql_exec (select_credential P) db) (\<lambda>row db'.
       case row of
         None \<Rightarrow> (Inl (Errorf ''active credential was not found''), db')
       | Some r \<Rightarrow> (Inr (scanCredentialRecordWithSecret r), db'))"

definition CredentialForTest ::
  "llm_store \<Rightarrow> owner_scope \<Rightarrow> string \<Rightarrow> llm_db \<Rightarrow> credential_record result \<times> llm_db" where
  "CredentialForTest st owner0 label0 db =
     (case normalizeScope owner0 of
        Inl e \<Rightarrow> (Inl e, db)
      | Inr owner \<Rightarrow>
          (let label = trim_space label0 in
           if label = [] then (Inl (Errorf ''credential label is required''), db)
           else if \<not> ls_query st then (Inl (Errorf ''llm provider query database is required''), db)
           else one_credential (labelled (ls_lower st) (owner_args owner) label) db))"

definition CredentialForResolution ::
  "llm_store \<Rightarrow> owner_scope \<Rightarrow> string \<Rightarrow> provider_id \<Rightarrow> llm_db \<Rightarrow> credential_record result \<times> llm_db" where
  "CredentialForResolution st owner0 credentialID0 providerID0 db =
     (case normalizeScope owner0 of
        Inl e \<Rightarrow> (Inl e, db)
      | Inr owner \<Rightarrow>
          (let credentialID = trim_space credentialID0; providerID = trim_space providerID0 in
           if credentialID = [] then (Inl (Errorf ''credential ID is required''), db)
           else case ValidateProvider providerID of
             Inl e \<Rightarrow> (Inl e, db)
           | Inr _ \<Rightarrow>
               if \<not> ls_query st then (Inl (Errorf ''llm provider query database is required''), db)
               else one_credential (\<lambda>r. cw_id r = credentialID \<and> cw_provider_id r = providerID \<and>
                 cw_owner r = owner_args owner) db))"

definition set_test_result :: "string \<Rightarrow> test_status \<Rightarrow> test_error_code \<Rightarrow> (llm_tables, nat) statement" where
  "set_test_result credentialID status errorCode now t =
     (let P = (\<lambda>r. cw_id r = credentialID \<and> live r) in
      Inr (count_where P (lt_credentials t), t\<lparr>lt_credentials := update_where P
        (\<lambda>r. r\<lparr>cw_last_test_status := Some status, cw_last_error_code := nullArg errorCode\<rparr>) (lt_credentials t)\<rparr>))"

definition UpdateCredentialTestResult ::
  "llm_store \<Rightarrow> string \<Rightarrow> test_status \<Rightarrow> test_error_code \<Rightarrow> llm_db \<Rightarrow> unit result \<times> llm_db" where
  "UpdateCredentialTestResult st credentialID0 status errorCode db =
     (let credentialID = trim_space credentialID0 in
      if credentialID = [] then (Inl (Errorf ''credential ID is required''), db)
      else case ValidateTestStatus status of
        Inl e \<Rightarrow> (Inl e, db)
      | Inr _ \<Rightarrow>
          if \<not> ls_begin_tx st then (Inl (Errorf ''llm provider transaction is required''), db)
          else sql_tx ''begin llm provider transaction'' ''commit llm provider transaction''
            (\<lambda>db1. requireLLMRowsAffected ''active credential was not found''
               (wrap_err ''update credential test result''
                 (sql_exec (set_test_result credentialID status errorCode) db1))) db)"

subsection \<open>Model profiles\<close>

definition selected :: "owner_columns \<Rightarrow> purpose \<Rightarrow> profile_row \<Rightarrow> bool" where
  "selected owner purp p \<longleftrightarrow> pw_owner p = owner \<and> pw_purpose p = purp \<and> pw_enabled p"

definition disable_profiles :: "owner_columns \<Rightarrow> purpose \<Rightarrow> string \<Rightarrow> (llm_tables, unit) statement" where
  "disable_profiles owner purp actorID now t =
     Inr ((), t\<lparr>lt_profiles := update_where (selected owner purp)
       (\<lambda>p. p\<lparr>pw_enabled := False, pw_selected_by := Some actorID, pw_updated_at := now\<rparr>) (lt_profiles t)\<rparr>)"

definition profile_index :: "profile_row \<Rightarrow> (owner_type \<times> string \<times> string) \<times> purpose" where
  "profile_index p = (owner_index (pw_owner p), pw_purpose p)"

definition insert_profile :: "llm_store \<Rightarrow> string \<Rightarrow> model_profile_input \<Rightarrow> (llm_tables, nat) statement" where
  "insert_profile st profileID i now t =
     (case find (\<lambda>c. cw_id c = mi_credential_id i \<and> cw_provider_id c = mi_provider_id i \<and>
            cw_owner c = owner_args (mi_owner i) \<and> cw_status c = CredentialStatusActive \<and> live c) (lt_credentials t) of
        None \<Rightarrow> Inr (0, t)
      | Some c \<Rightarrow>
          (case ls_jsonb st (mi_params_json i) of
             None \<Rightarrow> Inl (Errorf ''invalid input syntax for type json'')
           | Some params \<Rightarrow>
               (let row = \<lparr>pw_id = profileID, pw_owner = owner_args (mi_owner i), pw_purpose = mi_purpose i,
                      pw_credential_id = cw_id c, pw_provider_id = cw_provider_id c, pw_model_id = mi_model_id i,
                      pw_params = params, pw_enabled = True, pw_selected_by = Some (mi_selected_by i),
                      pw_updated_at = now\<rparr> in
                if profileID \<in> pw_id ` set (lt_profiles t) \<or>
                   list_ex (\<lambda>p. pw_enabled p \<and> profile_index p = profile_index row) (lt_profiles t)
                then Inl (Errorf ''duplicate key value violates unique constraint'')
                else Inr (1, t\<lparr>lt_profiles := lt_profiles t @ [row]\<rparr>))))"

definition SelectModelProfile :: "llm_store \<Rightarrow> model_profile_input \<Rightarrow> llm_db \<Rightarrow> unit result \<times> llm_db" where
  "SelectModelProfile st input0 db =
     (case normalizeModelProfileInput st input0 of
        Inl e \<Rightarrow> (Inl e, db)
      | Inr i \<Rightarrow>
          if \<not> ls_begin_tx st then (Inl (Errorf ''llm provider transaction is required''), db)
          else case ls_new_id st of
              None \<Rightarrow> (Inl (Errorf ''model profile ID generator is required''), db)
            | Some newID \<Rightarrow>
                if trim_space newID = [] then (Inl (Errorf ''model profile ID is required''), db)
                else sql_tx ''begin llm provider transaction'' ''commit llm provider transaction''
                  (\<lambda>db1. db_bind (wrap_err ''disable old model profile''
                       (sql_exec (disable_profiles (owner_args (mi_owner i)) (mi_purpose i) (mi_selected_by i)) db1))
                     (\<lambda>_ db2. requireLLMRowsAffected ''active credential was not found''
                       (wrap_err ''select model profile''
                         (sql_exec (insert_profile st (trim_space newID) i) db2)))) db)"

definition scanModelProfile :: "profile_row \<Rightarrow> model_profile" where
  "scanModelProfile p = (case pw_owner p of (t, g, u) \<Rightarrow>
     \<lparr>mp_id = pw_id p, mp_owner_type = t, mp_guild_id = stringFromNull g, mp_user_id = stringFromNull u,
      mp_purpose = pw_purpose p, mp_credential_id = pw_credential_id p, mp_provider_id = pw_provider_id p,
      mp_model_id = pw_model_id p, mp_params_json = pw_params p, mp_enabled = pw_enabled p,
      mp_selected_by = stringFromNull (pw_selected_by p)\<rparr>)"

definition select_profile :: "owner_columns \<Rightarrow> purpose \<Rightarrow> (llm_tables, profile_row option) statement" where
  "select_profile owner purp now t =
     Inr (case sort_key (\<lambda>p. - pw_updated_at p) (filter (selected owner purp) (lt_profiles t)) of
            [] \<Rightarrow> None | p # _ \<Rightarrow> Some p, t)"

definition ActiveModelProfile :: "llm_store \<Rightarrow> owner_scope \<Rightarrow> purpose \<Rightarrow> llm_db \<Rightarrow> model_profile result \<times> llm_db" where
  "ActiveModelProfile st owner0 purp db =
     (case normalizeScope owner0 of
        Inl e \<Rightarrow> (Inl e, db)
      | Inr owner \<Rightarrow>
          case ValidatePurpose purp of
            Inl e \<Rightarrow> (Inl e, db)
          | Inr _ \<Rightarrow>
              if \<not> ls_query st then (Inl (Errorf ''llm provider query database is required''), db)
              else db_bind (sql_exec (select_profile (owner_args owner) purp) db) (\<lambda>row db'.
                case row of
                  None \<Rightarrow> (Inl (Errorf ''active model profile was not found''), db')
                | Some p \<Rightarrow> (Inr (scanModelProfile p), db')))"

subsection \<open>What the tables hold at any time\<close>

text \<open>
  \<open>credential_ok\<close>: a credential is active and holds a secret, or it is revoked and its secret is erased.
  \<open>profile_ok\<close>: an enabled profile rests on a live credential of the same owner and provider, and asks for
  a purpose that provider serves with a valid model id.
\<close>

definition owner_ok :: "owner_columns \<Rightarrow> bool" where
  "owner_ok c \<longleftrightarrow> (\<exists>s. normalizeScope s = Inr s \<and> c = owner_args s)"

definition credential_ok :: "credential_row \<Rightarrow> bool" where
  "credential_ok r \<longleftrightarrow> owner_ok (cw_owner r) \<and> (
     if live r then cw_status r = CredentialStatusActive \<and> cw_ciphertext r \<noteq> [] \<and> cw_nonce r \<noteq> []
     else cw_status r = CredentialStatusRevoked \<and> cw_ciphertext r = [] \<and> cw_nonce r = [])"

definition rests_on :: "profile_row \<Rightarrow> credential_row \<Rightarrow> bool" where
  "rests_on p c \<longleftrightarrow> live c \<and> cw_id c = pw_credential_id p \<and> cw_owner c = pw_owner p \<and>
     cw_provider_id c = pw_provider_id p"

definition profile_ok :: "credential_row list \<Rightarrow> profile_row \<Rightarrow> bool" where
  "profile_ok cs p \<longleftrightarrow> owner_ok (pw_owner p) \<and> SupportsPurpose (pw_provider_id p) (pw_purpose p) \<and>
     ValidateModelID (pw_model_id p) = Inr (pw_model_id p) \<and> (pw_enabled p \<longrightarrow> list_ex (rests_on p) cs)"

definition llm_ok :: "(string \<Rightarrow> string) \<Rightarrow> llm_tables \<Rightarrow> bool" where
  "llm_ok low t \<longleftrightarrow>
     unique_key cw_id (lt_credentials t) \<and> unique_key (label_index low) (filter live (lt_credentials t)) \<and>
     unique_key pw_id (lt_profiles t) \<and> unique_key profile_index (filter pw_enabled (lt_profiles t)) \<and>
     (\<forall>r\<in>set (lt_credentials t). credential_ok r) \<and>
     (\<forall>p\<in>set (lt_profiles t). profile_ok (lt_credentials t) p)"

definition scope_valid :: "owner_scope \<Rightarrow> bool" where
  "scope_valid s \<longleftrightarrow>
     os_owner_type s = OwnerGuild \<and> os_guild_id s \<noteq> [] \<and> os_user_id s = [] \<or>
     os_owner_type s = OwnerUser \<and> os_guild_id s = [] \<and> os_user_id s \<noteq> [] \<or>
     os_owner_type s = OwnerTenant \<and> os_guild_id s = [] \<and> os_user_id s = []"

abbreviation trim_scope :: "owner_scope \<Rightarrow> owner_scope" where
  "trim_scope s \<equiv> \<lparr>os_owner_type = trim_space (os_owner_type s), os_guild_id = trim_space (os_guild_id s),
          os_user_id = trim_space (os_user_id s)\<rparr>"

lemma normalizeScope_Inr_iff: "normalizeScope s0 = Inr s \<longleftrightarrow> s = trim_scope s0 \<and> scope_valid (trim_scope s0)"
proof -
  consider "trim_space (os_owner_type s0) = OwnerGuild" | "trim_space (os_owner_type s0) = OwnerUser"
    | "trim_space (os_owner_type s0) = OwnerTenant"
    | "trim_space (os_owner_type s0) \<notin> {OwnerGuild, OwnerUser, OwnerTenant}" by blast
  then show ?thesis
    by cases (simp_all add: normalizeScope_def Let_def scope_valid_def ValidateOwnerType_def require_def eq_commute)
qed

lemma normalizeScope_Inr:
  assumes "normalizeScope s0 = Inr s"
  shows "normalizeScope s = Inr s \<and> owner_check (owner_args s) \<and> owner_ok (owner_args s)"
proof -
  have s: "s = trim_scope s0" "scope_valid s"
    using assms by (simp_all add: normalizeScope_Inr_iff)
  then have "normalizeScope s = Inr s"
    by (simp add: normalizeScope_Inr_iff)
  moreover have "owner_check (owner_args s)"
    using s(2) unfolding scope_valid_def
    by (elim conjE disjE) (simp_all add: owner_check_def owner_args_def nullArg_def)
  ultimately show ?thesis unfolding owner_ok_def by blast
qed

lemma owner_index_args [simp]: "owner_index (owner_args s) = (os_owner_type s, os_guild_id s, os_user_id s)"
  by (simp add: owner_index_def owner_args_def)

lemma owner_index_inj: "owner_ok a \<Longrightarrow> owner_ok b \<Longrightarrow> owner_index a = owner_index b \<longleftrightarrow> a = b"
  by (auto simp: owner_ok_def)

lemma rotate_row_fields [simp]:
  "cw_id (rotate_row row r) = cw_id r" "cw_owner (rotate_row row r) = cw_owner r"
  "cw_provider_id (rotate_row row r) = cw_provider_id r" "live (rotate_row row r)"
  "cw_label (rotate_row row r) = cw_label row"
  by (simp_all add: rotate_row_def live_def)

lemma conflicts_same: "conflicts low row r \<Longrightarrow> conflicts low row r' \<Longrightarrow> r \<in> set rows \<Longrightarrow> r' \<in> set rows \<Longrightarrow>
    unique_key (label_index low) (filter live rows) \<Longrightarrow> r = r'"
  by (auto simp: conflicts_def distinct_map inj_on_def)

lemma profile_ok_mono:
  "profile_ok cs p \<Longrightarrow> (\<And>c. c \<in> set cs \<Longrightarrow> rests_on p c \<Longrightarrow> \<exists>c'\<in>set cs'. rests_on p c') \<Longrightarrow> profile_ok cs' p"
  by (auto simp: profile_ok_def list_ex_iff)

lemma new_credential_ok:
  assumes "normalizeCredentialInput i0 = Inr i"
  shows "credential_ok (new_credential n i) \<and> live (new_credential n i) \<and> owner_check (cw_owner (new_credential n i)) \<and>
    normalizeScope (ci_owner i0) = Inr (ci_owner i) \<and> ci_provider_id i = trim_space (ci_provider_id i0) \<and>
    ci_label i = trim_space (ci_label i0) \<and> ci_ciphertext i = ci_ciphertext i0 \<and> ci_nonce i = ci_nonce i0 \<and>
    ci_key_id i = trim_space (ci_key_id i0)"
  using assms
  by (auto simp: normalizeCredentialInput_def Let_def credential_ok_def new_credential_def live_def
      dest: normalizeScope_Inr)

lemma upsert_credential_cases:
  assumes "upsert_credential low row now t = Inr (u, t')"
  obtains (kept) "t' = t" "u = None"
  | (rotated) r where "r \<in> set (lt_credentials t)" "conflicts low row r" "cw_provider_id r = cw_provider_id row"
      "u = Some (rotate_row row r)"
      "t' = t\<lparr>lt_credentials := update_where (conflicts low row) (rotate_row row) (lt_credentials t)\<rparr>"
  | (added) "\<forall>r\<in>set (lt_credentials t). \<not> conflicts low row r" "cw_id row \<notin> cw_id ` set (lt_credentials t)"
      "u = Some row" "t' = t\<lparr>lt_credentials := lt_credentials t @ [row]\<rparr>"
proof (cases "find (conflicts low row) (lt_credentials t)")
  case None
  with assms have "cw_id row \<notin> cw_id ` set (lt_credentials t)" "u = Some row"
    "t' = t\<lparr>lt_credentials := lt_credentials t @ [row]\<rparr>"
    by (simp_all add: upsert_credential_def split: if_splits)
  with None show thesis
    by (intro added) (auto simp: find_None_iff)
next
  case (Some r)
  show thesis
  proof (cases "cw_provider_id r = cw_provider_id row")
    case True
    with assms Some have "u = Some (rotate_row row r)"
      "t' = t\<lparr>lt_credentials := update_where (conflicts low row) (rotate_row row) (lt_credentials t)\<rparr>"
      by (simp_all add: upsert_credential_def)
    with find_Some_in [OF Some] True show thesis by (intro rotated) simp_all
  next
    case False
    with assms Some show thesis by (intro kept) (simp_all add: upsert_credential_def)
  qed
qed

lemma upsert_credential_ok:
  assumes "upsert_credential low row now t = Inr (u, t')" "llm_ok low t" "credential_ok row" "live row"
  shows "llm_ok low t'"
  using assms(1)
proof (cases rule: upsert_credential_cases)
  case kept
  then show ?thesis using assms(2) by simp
next
  case (rotated r)
  let ?cs = "update_where (conflicts low row) (rotate_row row) (lt_credentials t)"
  have ids: "map cw_id ?cs = map cw_id (lt_credentials t)"
    by (rule map_key_update_where) simp
  have ix: "unique_key (label_index low) (filter live ?cs)"
  proof (rule partial_index_update)
    show "unique_key (label_index low) (filter live (lt_credentials t))" using assms(2) by (simp add: llm_ok_def)
  qed (simp add: conflicts_def label_index_def)
  have c: "credential_ok x" if "x \<in> set ?cs" for x
    using set_update_whereD [OF that] assms(2-4)
    by (auto simp: llm_ok_def credential_ok_def rotate_row_def live_def conflicts_def)
  have p: "profile_ok ?cs p" if p: "p \<in> set (lt_profiles t)" for p
  proof (rule profile_ok_mono)
    show "profile_ok (lt_credentials t) p" using p assms(2) by (simp add: llm_ok_def)
    fix c assume c: "c \<in> set (lt_credentials t)" "rests_on p c"
    then show "\<exists>c'\<in>set ?cs. rests_on p c'"
      by (intro bexI [of _ "if conflicts low row c then rotate_row row c else c"])
        (auto simp: set_update_where rests_on_def)
  qed
  show ?thesis
    using assms(2) ix c p by (simp add: rotated(5) llm_ok_def ids)
next
  case added
  have "profile_ok (lt_credentials t @ [row]) p" if "p \<in> set (lt_profiles t)" for p
    by (rule profile_ok_mono [of "lt_credentials t"]) (use that assms(2) in \<open>auto simp: llm_ok_def\<close>)
  moreover have "label_index low row \<notin> label_index low ` {r \<in> set (lt_credentials t). live r}"
    using added(1) by (auto simp: conflicts_def)
  ultimately show ?thesis
    using assms(2-4) added(2) by (simp add: added(4) llm_ok_def)
qed

lemma revoke_ok:
  assumes "revoke_rows low owner label actorID now t = Inr (n, t1)"
    "disable_revoked low owner label actorID now t1 = Inr (u, t')" "llm_ok low t"
  shows "llm_ok low t'"
proof -
  let ?P = "\<lambda>r. labelled low owner label r \<and> live r"
  let ?f = "\<lambda>r. r\<lparr>cw_revoked_at := Some now, cw_status := CredentialStatusRevoked, cw_updated_by := Some actorID,
            cw_ciphertext := [], cw_nonce := []\<rparr>"
  let ?cs = "update_where ?P ?f (lt_credentials t)"
  let ?ids = "map cw_id (filter (\<lambda>r. labelled low owner label r \<and> cw_status r = CredentialStatusRevoked) ?cs)"
  let ?Q = "\<lambda>p. pw_enabled p \<and> pw_credential_id p \<in> set ?ids"
  let ?g = "\<lambda>p. p\<lparr>pw_enabled := False, pw_selected_by := Some actorID, pw_updated_at := now\<rparr>"
  let ?ps = "update_where ?Q ?g (lt_profiles t)"
  have t': "t' = t\<lparr>lt_credentials := ?cs, lt_profiles := ?ps\<rparr>"
    using assms(1,2) by (auto simp: revoke_rows_def disable_revoked_def Let_def)
  have ids: "map cw_id ?cs = map cw_id (lt_credentials t)" "unique_key pw_id ?ps"
    using assms(3) map_key_update_where [of pw_id ?g ?Q "lt_profiles t"]
    by (simp_all add: map_key_update_where llm_ok_def)
  have ix: "unique_key (label_index low) (filter live ?cs)" "unique_key profile_index (filter pw_enabled ?ps)"
    using assms(3) by (intro partial_index_update; simp add: llm_ok_def live_def)+
  have c: "credential_ok x" if "x \<in> set ?cs" for x
    using set_update_whereD [OF that] assms(3) by (auto simp: llm_ok_def credential_ok_def live_def)
  have p: "profile_ok ?cs p" if p: "p \<in> set ?ps" for p
  proof (cases "pw_enabled p")
    case False
    then show ?thesis
      using set_update_whereD [OF p] assms(3) by (auto simp: llm_ok_def profile_ok_def)
  next
    case True
    then have old: "p \<in> set (lt_profiles t)" "\<not> ?Q p" using set_update_whereD [OF p] by auto
    show ?thesis
    proof (rule profile_ok_mono)
      show "profile_ok (lt_credentials t) p" using old assms(3) by (simp add: llm_ok_def)
      fix c assume c: "c \<in> set (lt_credentials t)" "rests_on p c"
      have "\<not> ?P c"
      proof
        assume P: "?P c"
        then have "?f c \<in> set ?cs" using c(1) by (force simp: set_update_where)
        then have "cw_id (?f c) \<in> set ?ids" using P by (auto simp: labelled_def intro!: image_eqI [of _ _ "?f c"])
        then show False using old True c(2) by (simp add: rests_on_def)
      qed
      then show "\<exists>c'\<in>set ?cs. rests_on p c'"
        using c by (force simp: set_update_where)
    qed
  qed
  show ?thesis
    using assms(3) ix ids c p unfolding llm_ok_def t' by simp
qed

lemma set_test_result_ok:
  assumes "set_test_result i status code now t = Inr (n, t')" "llm_ok low t"
  shows "llm_ok low t'"
proof -
  let ?P = "\<lambda>r. cw_id r = i \<and> live r"
  let ?f = "\<lambda>r. r\<lparr>cw_last_test_status := Some status, cw_last_error_code := nullArg code\<rparr>"
  let ?cs = "update_where ?P ?f (lt_credentials t)"
  have t': "t' = t\<lparr>lt_credentials := ?cs\<rparr>"
    using assms(1) by (auto simp: set_test_result_def Let_def)
  have ids: "map cw_id ?cs = map cw_id (lt_credentials t)"
    by (rule map_key_update_where) simp
  have ix: "unique_key (label_index low) (filter live ?cs)"
  proof (rule partial_index_update)
    show "unique_key (label_index low) (filter live (lt_credentials t))" using assms(2) by (simp add: llm_ok_def)
  qed (simp add: label_index_def live_def)
  have c: "credential_ok x" if "x \<in> set ?cs" for x
    using set_update_whereD [OF that] assms(2) by (auto simp: llm_ok_def credential_ok_def live_def)
  have p: "profile_ok ?cs p" if p: "p \<in> set (lt_profiles t)" for p
  proof (rule profile_ok_mono)
    show "profile_ok (lt_credentials t) p" using p assms(2) by (simp add: llm_ok_def)
    fix c assume "c \<in> set (lt_credentials t)" "rests_on p c"
    then show "\<exists>c'\<in>set ?cs. rests_on p c'"
      by (intro bexI [of _ "if ?P c then ?f c else c"]) (auto simp: set_update_where rests_on_def live_def)
  qed
  show ?thesis
    using assms(2) ix ids c p unfolding t' llm_ok_def by simp
qed

lemma disable_profiles_ok:
  assumes "disable_profiles owner purp actorID now t = Inr (u, t')" "llm_ok low t"
  shows "llm_ok low t' \<and> (\<forall>p\<in>set (lt_profiles t'). \<not> selected owner purp p) \<and> lt_credentials t' = lt_credentials t"
proof -
  let ?f = "\<lambda>p. p\<lparr>pw_enabled := False, pw_selected_by := Some actorID, pw_updated_at := now\<rparr>"
  let ?ps = "update_where (selected owner purp) ?f (lt_profiles t)"
  have t': "t' = t\<lparr>lt_profiles := ?ps\<rparr>"
    using assms(1) by (auto simp: disable_profiles_def)
  have ids: "map pw_id ?ps = map pw_id (lt_profiles t)"
    by (rule map_key_update_where) simp
  have ix: "unique_key profile_index (filter pw_enabled ?ps)"
    using assms(2) by (intro partial_index_update) (simp_all add: llm_ok_def)
  have p: "profile_ok (lt_credentials t) p \<and> \<not> selected owner purp p" if "p \<in> set ?ps" for p
    using set_update_whereD [OF that] assms(2) by (auto simp: llm_ok_def profile_ok_def selected_def)
  show ?thesis
    using assms(2) ix ids p unfolding t' llm_ok_def by simp
qed

lemma normalizeModelProfileInput_Inr:
  assumes "normalizeModelProfileInput st i0 = Inr i"
  shows "normalizeScope (mi_owner i0) = Inr (mi_owner i) \<and> SupportsPurpose (mi_provider_id i) (mi_purpose i) \<and>
    mi_model_id i = trim_space (mi_model_id i0) \<and> ValidateModelID (mi_model_id i) = Inr (mi_model_id i) \<and>
    mi_purpose i = mi_purpose i0 \<and> mi_provider_id i = trim_space (mi_provider_id i0) \<and>
    mi_credential_id i = trim_space (mi_credential_id i0)"
  using assms by (auto simp: normalizeModelProfileInput_def Let_def Validate_Inr)

lemma insert_profile_cases:
  assumes "insert_profile st profileID i now t = Inr (n, t')"
  obtains "t' = t" "n = 0"
  | c params where "c \<in> set (lt_credentials t)" "cw_id c = mi_credential_id i" "cw_provider_id c = mi_provider_id i"
      "cw_owner c = owner_args (mi_owner i)" "live c" "n = 1" "profileID \<notin> pw_id ` set (lt_profiles t)"
      "\<forall>p\<in>set (lt_profiles t). pw_enabled p \<longrightarrow> profile_index p \<noteq> (owner_index (owner_args (mi_owner i)), mi_purpose i)"
      "ls_jsonb st (mi_params_json i) = Some params"
      "t' = t\<lparr>lt_profiles := lt_profiles t @ [\<lparr>pw_id = profileID, pw_owner = owner_args (mi_owner i),
         pw_purpose = mi_purpose i, pw_credential_id = mi_credential_id i, pw_provider_id = mi_provider_id i,
         pw_model_id = mi_model_id i, pw_params = params, pw_enabled = True, pw_selected_by = Some (mi_selected_by i),
         pw_updated_at = now\<rparr>]\<rparr>"
proof -
  let ?P = "\<lambda>c. cw_id c = mi_credential_id i \<and> cw_provider_id c = mi_provider_id i \<and>
            cw_owner c = owner_args (mi_owner i) \<and> cw_status c = CredentialStatusActive \<and> live c"
  show thesis
  proof (cases "find ?P (lt_credentials t)")
    case None
    then show thesis using assms that(1) by (simp add: insert_profile_def)
  next
    case (Some c)
    with find_Some_in [OF Some] assms obtain params where "ls_jsonb st (mi_params_json i) = Some params"
      by (auto simp: insert_profile_def split: option.splits)
    with Some find_Some_in [OF Some] assms show thesis
      by (intro that(2) [of c params]) (auto simp: insert_profile_def Let_def list_ex_iff profile_index_def split: if_splits)
  qed
qed

lemma insert_profile_ok:
  assumes "insert_profile st profileID i now t = Inr (n, t')" "llm_ok low t"
    "normalizeModelProfileInput st i0 = Inr i"
  shows "llm_ok low t'"
  using assms(1)
proof (cases rule: insert_profile_cases)
  case 1
  then show ?thesis using assms(2) by simp
next
  case (2 c params)
  note i = normalizeModelProfileInput_Inr [OF assms(3)]
  from i normalizeScope_Inr have "owner_ok (owner_args (mi_owner i))" by blast
  with i 2(1-5) have "profile_ok (lt_credentials t) \<lparr>pw_id = profileID, pw_owner = owner_args (mi_owner i),
         pw_purpose = mi_purpose i, pw_credential_id = mi_credential_id i, pw_provider_id = mi_provider_id i,
         pw_model_id = mi_model_id i, pw_params = params, pw_enabled = True, pw_selected_by = Some (mi_selected_by i),
         pw_updated_at = now\<rparr>"
    by (auto simp: profile_ok_def list_ex_iff rests_on_def)
  moreover have "(owner_index (owner_args (mi_owner i)), mi_purpose i) \<notin> profile_index ` {p \<in> set (lt_profiles t). pw_enabled p}"
    using 2(8) by auto
  ultimately show ?thesis
    using assms(2) 2(7) unfolding 2(10) llm_ok_def by (simp add: profile_index_def)
qed

subsection \<open>Every operation\<close>

lemma requireLLMRowsAffected_Inr:
  "requireLLMRowsAffected m p = (Inr u, d) \<Longrightarrow> \<exists>n. p = (Inr n, d) \<and> 0 < n"
  by (auto simp: requireLLMRowsAffected_def split: if_splits dest!: db_bind_InrD)

lemma UpsertCredential_Inr:
  assumes "UpsertCredential st i0 db = (Inr rec, db')"
  shows "\<exists>i n row. normalizeCredentialInput i0 = Inr i \<and> rec = scanCredentialRecord row \<and>
    upsert_credential (ls_lower st) (new_credential n i) (clock db) (tables db) = Inr (Some row, tables db')"
proof -
  let ?body = "\<lambda>n i db1. db_bind (wrap_err ''upsert llm credential''
                       (sql_exec (upsert_credential (ls_lower st) (new_credential n i)) db1))
                     (\<lambda>row db2. case row of
                        None \<Rightarrow> (Inl (Errorf ''upsert llm credential returned no row''), db2)
                      | Some r \<Rightarrow> (Inr (scanCredentialRecord r), db2))"
  obtain i n where i: "normalizeCredentialInput i0 = Inr i"
    and tx: "sql_tx ''begin llm provider transaction'' ''commit llm provider transaction'' (?body n i) db = (Inr rec, db')"
    using assms by (auto simp: UpsertCredential_def split: sum.splits option.splits if_splits)
  from sql_tx_Inr [OF tx] obtain db1 db2 where b: "?body n i db1 = (Inr rec, db2)" "tables db1 = tables db"
    "clock db1 = clock db" "tables db' = tables db2" by blast
  from db_bind_InrD [OF b(1)] obtain row where
    "sql_exec (upsert_credential (ls_lower st) (new_credential n i)) db1 = (Inr (Some row), db2)"
    "rec = scanCredentialRecord row"
    by (auto split: option.splits)
  with sql_exec_Inr [OF this(1)] b i show ?thesis by auto
qed

lemma RevokeCredential_Inr:
  assumes "RevokeCredential st o0 label actor db = (Inr u, db')"
  shows "\<exists>owner n t1. normalizeScope o0 = Inr owner \<and> 0 < n \<and>
    revoke_rows (ls_lower st) (owner_args owner) (trim_space label) (trim_space actor) (clock db) (tables db) = Inr (n, t1) \<and>
    disable_revoked (ls_lower st) (owner_args owner) (trim_space label) (trim_space actor) (clock db) t1 = Inr ((), tables db')"
proof -
  let ?s1 = "\<lambda>owner. revoke_rows (ls_lower st) (owner_args owner) (trim_space label) (trim_space actor)"
  let ?s2 = "\<lambda>owner. disable_revoked (ls_lower st) (owner_args owner) (trim_space label) (trim_space actor)"
  let ?body = "\<lambda>owner db1. db_bind (requireLLMRowsAffected ''active credential was not found''
                  (wrap_err ''revoke llm credential'' (sql_exec (?s1 owner) db1)))
                (\<lambda>_ db2. wrap_err ''disable revoked credential model profiles'' (sql_exec (?s2 owner) db2))"
  obtain owner where owner: "normalizeScope o0 = Inr owner"
    and tx: "sql_tx ''begin llm provider transaction'' ''commit llm provider transaction'' (?body owner) db = (Inr u, db')"
    using assms by (auto simp: RevokeCredential_def Let_def split: sum.splits if_splits)
  from sql_tx_Inr [OF tx] obtain db1 db2 where b: "?body owner db1 = (Inr u, db2)" "tables db1 = tables db"
    "clock db1 = clock db" "tables db' = tables db2" by blast
  from db_bind_InrD [OF b(1)] obtain n d where
    "sql_exec (?s1 owner) db1 = (Inr n, d)" "0 < n" "sql_exec (?s2 owner) d = (Inr u, db2)"
    by (auto dest!: requireLLMRowsAffected_Inr)
  with sql_exec_Inr [OF this(1)] sql_exec_Inr [OF this(3)] b owner show ?thesis by auto
qed

lemma UpdateCredentialTestResult_Inr:
  assumes "UpdateCredentialTestResult st i status code db = (Inr u, db')"
  shows "\<exists>n. set_test_result (trim_space i) status code (clock db) (tables db) = Inr (n, tables db')"
proof -
  let ?body = "\<lambda>db1. requireLLMRowsAffected ''active credential was not found''
     (wrap_err ''update credential test result'' (sql_exec (set_test_result (trim_space i) status code) db1))"
  have tx: "sql_tx ''begin llm provider transaction'' ''commit llm provider transaction'' ?body db = (Inr u, db')"
    using assms by (auto simp: UpdateCredentialTestResult_def Let_def split: sum.splits if_splits)
  from sql_tx_Inr [OF tx] obtain db1 db2 where b: "?body db1 = (Inr u, db2)" "tables db1 = tables db"
    "clock db1 = clock db" "tables db' = tables db2" by blast
  from requireLLMRowsAffected_Inr [OF b(1)] obtain n where
    "sql_exec (set_test_result (trim_space i) status code) db1 = (Inr n, db2)" by auto
  with sql_exec_Inr [OF this] b show ?thesis by auto
qed

lemma SelectModelProfile_Inr:
  assumes "SelectModelProfile st i0 db = (Inr u, db')"
  shows "\<exists>i n k t1. normalizeModelProfileInput st i0 = Inr i \<and> 0 < k \<and>
    disable_profiles (owner_args (mi_owner i)) (mi_purpose i) (mi_selected_by i) (clock db) (tables db) = Inr ((), t1) \<and>
    insert_profile st n i (clock db) t1 = Inr (k, tables db')"
proof -
  let ?s1 = "\<lambda>i. disable_profiles (owner_args (mi_owner i)) (mi_purpose i) (mi_selected_by i)"
  let ?body = "\<lambda>n i db1. db_bind (wrap_err ''disable old model profile'' (sql_exec (?s1 i) db1))
                     (\<lambda>_ db2. requireLLMRowsAffected ''active credential was not found''
                       (wrap_err ''select model profile'' (sql_exec (insert_profile st n i) db2)))"
  obtain i n where i: "normalizeModelProfileInput st i0 = Inr i"
    and tx: "sql_tx ''begin llm provider transaction'' ''commit llm provider transaction'' (?body n i) db = (Inr u, db')"
    using assms by (auto simp: SelectModelProfile_def split: sum.splits option.splits if_splits)
  from sql_tx_Inr [OF tx] obtain db1 db2 where b: "?body n i db1 = (Inr u, db2)" "tables db1 = tables db"
    "clock db1 = clock db" "tables db' = tables db2" by blast
  from db_bind_InrD [OF b(1)] obtain x d k where
    "sql_exec (?s1 i) db1 = (Inr x, d)" "sql_exec (insert_profile st n i) d = (Inr k, db2)" "0 < k"
    by (auto dest!: requireLLMRowsAffected_Inr)
  with sql_exec_Inr [OF this(1)] sql_exec_Inr [OF this(2)] b i show ?thesis by auto
qed

text \<open>The four operations that change something, and the contract they share with every store.\<close>

interpretation upsert_credential_op: atomic_op "UpsertCredential st input"
  by unfold_locales (auto simp: UpsertCredential_def split: sum.splits option.splits if_splits dest: sql_tx_Inl)

interpretation revoke_credential_op: atomic_op "RevokeCredential st owner label actor"
  by unfold_locales (auto simp: RevokeCredential_def Let_def split: sum.splits if_splits dest: sql_tx_Inl)

interpretation test_result_op: atomic_op "UpdateCredentialTestResult st i status code"
  by unfold_locales (auto simp: UpdateCredentialTestResult_def Let_def split: sum.splits if_splits dest: sql_tx_Inl)

interpretation select_profile_op: atomic_op "SelectModelProfile st input"
  by unfold_locales (auto simp: SelectModelProfile_def split: sum.splits option.splits if_splits dest: sql_tx_Inl)

lemma store_keeps_ok:
  assumes "llm_ok (ls_lower st) (tables db)"
  shows "llm_ok (ls_lower st) (tables (snd (UpsertCredential st ci db)))"
    "llm_ok (ls_lower st) (tables (snd (RevokeCredential st owner label actor db)))"
    "llm_ok (ls_lower st) (tables (snd (UpdateCredentialTestResult st i status code db)))"
    "llm_ok (ls_lower st) (tables (snd (SelectModelProfile st mi db)))"
proof -
  show "llm_ok (ls_lower st) (tables (snd (UpsertCredential st ci db)))"
  proof (cases "UpsertCredential st ci db")
    case (Pair r d)
    then show ?thesis
      using assms new_credential_ok
      by (cases r) (auto simp: upsert_credential_op.failed_unchanged dest!: UpsertCredential_Inr intro: upsert_credential_ok)
  qed
  show "llm_ok (ls_lower st) (tables (snd (RevokeCredential st owner label actor db)))"
  proof (cases "RevokeCredential st owner label actor db")
    case (Pair r d)
    then show ?thesis
      using assms by (cases r) (auto simp: revoke_credential_op.failed_unchanged dest!: RevokeCredential_Inr intro: revoke_ok)
  qed
  show "llm_ok (ls_lower st) (tables (snd (UpdateCredentialTestResult st i status code db)))"
  proof (cases "UpdateCredentialTestResult st i status code db")
    case (Pair r d)
    then show ?thesis
      using assms by (cases r) (auto simp: test_result_op.failed_unchanged dest!: UpdateCredentialTestResult_Inr
        intro: set_test_result_ok)
  qed
  show "llm_ok (ls_lower st) (tables (snd (SelectModelProfile st mi db)))"
  proof (cases "SelectModelProfile st mi db")
    case (Pair r d)
    then show ?thesis
      using assms by (cases r) (auto simp: select_profile_op.failed_unchanged dest!: SelectModelProfile_Inr disable_profiles_ok
        intro: insert_profile_ok)
  qed
qed

text \<open>Any calls, by anyone; each comes with the id its call of \<^verbatim>\<open>newID\<close> returns.\<close>

datatype llm_op =
    OpUpsertCredential credential_input
  | OpRevokeCredential owner_scope string string
  | OpTestResult string test_status test_error_code
  | OpSelectProfile model_profile_input

fun run_llm_op :: "llm_store \<Rightarrow> string \<times> llm_op \<Rightarrow> llm_db \<Rightarrow> llm_db" where
  "run_llm_op st (n, OpUpsertCredential i) db = snd (UpsertCredential (st\<lparr>ls_new_id := Some n\<rparr>) i db)"
| "run_llm_op st (n, OpRevokeCredential own label actor) db = snd (RevokeCredential st own label actor db)"
| "run_llm_op st (n, OpTestResult i status code) db = snd (UpdateCredentialTestResult st i status code db)"
| "run_llm_op st (n, OpSelectProfile i) db = snd (SelectModelProfile (st\<lparr>ls_new_id := Some n\<rparr>) i db)"

definition run_llm :: "llm_store \<Rightarrow> (string \<times> llm_op) list \<Rightarrow> llm_db \<Rightarrow> llm_db" where
  "run_llm st ops db = fold (run_llm_op st) ops db"

abbreviation no_llm :: llm_tables where
  "no_llm \<equiv> \<lparr>lt_credentials = [], lt_profiles = []\<rparr>"

lemma run_llm_ok: "llm_ok (ls_lower st) (tables db) \<Longrightarrow> llm_ok (ls_lower st) (tables (run_llm st ops db))"
proof (induction ops arbitrary: db)
  case (Cons op ops)
  have "llm_ok (ls_lower st) (tables (run_llm_op st op db))"
    using store_keeps_ok [OF Cons.prems] store_keeps_ok [of "st\<lparr>ls_new_id := Some (fst op)\<rparr>" db] Cons.prems
    by (cases "(st, op, db)" rule: run_llm_op.cases) simp_all
  with Cons.IH show ?case by (simp add: run_llm_def)
qed (simp add: run_llm_def)

text \<open>
  C16: Whatever is added, rotated, tested, selected and revoked, starting from empty tables: a live credential
  is active and holds a secret, a revoked one holds none; an owner has at most one live credential with a
  label, whatever its case, and at most one enabled profile for a purpose; and an enabled profile rests on a
  live credential of the same owner and the same provider, which serves that purpose.
\<close>

theorem llm_tables_sound:
  assumes "tables db = no_llm"
  shows "(\<forall>r\<in>set (lt_credentials (tables (run_llm st ops db))).
       if live r then cw_status r = CredentialStatusActive \<and> cw_ciphertext r \<noteq> [] \<and> cw_nonce r \<noteq> []
       else cw_status r = CredentialStatusRevoked \<and> cw_ciphertext r = [] \<and> cw_nonce r = []) \<and>
    (\<forall>r\<in>set (lt_credentials (tables (run_llm st ops db))). \<forall>r'\<in>set (lt_credentials (tables (run_llm st ops db))).
       live r \<and> live r' \<and> cw_owner r = cw_owner r' \<and> ls_lower st (cw_label r) = ls_lower st (cw_label r') \<longrightarrow> r = r') \<and>
    (\<forall>p\<in>set (lt_profiles (tables (run_llm st ops db))). \<forall>p'\<in>set (lt_profiles (tables (run_llm st ops db))).
       pw_enabled p \<and> pw_enabled p' \<and> pw_owner p = pw_owner p' \<and> pw_purpose p = pw_purpose p' \<longrightarrow> p = p') \<and>
    (\<forall>p\<in>set (lt_profiles (tables (run_llm st ops db))). pw_enabled p \<longrightarrow>
       (\<exists>c\<in>set (lt_credentials (tables (run_llm st ops db))). live c \<and> cw_id c = pw_credential_id p \<and>
          cw_owner c = pw_owner p \<and> cw_provider_id c = pw_provider_id p \<and>
          SupportsPurpose (cw_provider_id c) (pw_purpose p)))"
proof -
  let ?t = "tables (run_llm st ops db)"
  have "llm_ok (ls_lower st) no_llm" by (simp add: llm_ok_def)
  with assms have ok: "llm_ok (ls_lower st) ?t" using run_llm_ok [of st db] by simp
  have idx: "r = r'" if "r \<in> set (lt_credentials ?t)" "r' \<in> set (lt_credentials ?t)" "live r" "live r'"
      "cw_owner r = cw_owner r'" "ls_lower st (cw_label r) = ls_lower st (cw_label r')" for r r'
    using ok that unfolding llm_ok_def distinct_map inj_on_def label_index_def by simp
  have pidx: "p = p'" if "p \<in> set (lt_profiles ?t)" "p' \<in> set (lt_profiles ?t)" "pw_enabled p" "pw_enabled p'"
      "pw_owner p = pw_owner p'" "pw_purpose p = pw_purpose p'" for p p'
    using ok that unfolding llm_ok_def distinct_map inj_on_def profile_index_def by simp
  have c: "\<forall>r\<in>set (lt_credentials ?t). credential_ok r" and p: "\<forall>p\<in>set (lt_profiles ?t). profile_ok (lt_credentials ?t) p"
    using ok by (simp_all add: llm_ok_def)
  show ?thesis
  proof (intro conjI ballI impI)
    fix r assume "r \<in> set (lt_credentials ?t)"
    with c show "if live r then cw_status r = CredentialStatusActive \<and> cw_ciphertext r \<noteq> [] \<and> cw_nonce r \<noteq> []
       else cw_status r = CredentialStatusRevoked \<and> cw_ciphertext r = [] \<and> cw_nonce r = []"
      by (simp add: credential_ok_def)
  next
    fix x assume "x \<in> set (lt_profiles ?t)" "pw_enabled x"
    with p show "\<exists>c\<in>set (lt_credentials ?t). live c \<and> cw_id c = pw_credential_id x \<and>
          cw_owner c = pw_owner x \<and> cw_provider_id c = pw_provider_id x \<and> SupportsPurpose (cw_provider_id c) (pw_purpose x)"
      by (fastforce simp: profile_ok_def list_ex_iff rests_on_def)
  qed (use idx pidx in blast)+
qed

end
