(* ===== verification/ProviderService.thy ===== *)
theory ProviderService
  imports ProviderStore
begin

text \<open>
  \<^verbatim>\<open>internal/llm/provider/service.go\<close> and \<^verbatim>\<open>tester.go\<close>: credentials are sealed before they are stored and opened
  when a model is resolved or a credential is tested. The service works over any world its store, sealer and tester
  read and change. HTTP, and how \<^verbatim>\<open>net/url\<close> parses and encodes, are parameters.
\<close>

subsection \<open>The interfaces\<close>

record provider_test_request =
  pt_provider_id :: provider_id
  pt_api_key :: string

record test_credential_result =
  tr_provider_id :: provider_id
  tr_label :: string
  tr_status :: test_status
  tr_error_code :: test_error_code

record 'w credential_store =
  st_UpsertCredential :: "credential_input \<Rightarrow> 'w \<Rightarrow> credential_record result \<times> 'w"
  st_RevokeCredential :: "owner_scope \<Rightarrow> string \<Rightarrow> string \<Rightarrow> 'w \<Rightarrow> unit result \<times> 'w"
  st_ListCredentials :: "owner_scope \<Rightarrow> 'w \<Rightarrow> credential_record list result \<times> 'w"
  st_CredentialForTest :: "owner_scope \<Rightarrow> string \<Rightarrow> 'w \<Rightarrow> credential_record result \<times> 'w"
  st_CredentialForResolution :: "owner_scope \<Rightarrow> string \<Rightarrow> provider_id \<Rightarrow> 'w \<Rightarrow> credential_record result \<times> 'w"
  st_UpdateCredentialTestResult :: "string \<Rightarrow> test_status \<Rightarrow> test_error_code \<Rightarrow> 'w \<Rightarrow> unit result \<times> 'w"
  st_SelectModelProfile :: "model_profile_input \<Rightarrow> 'w \<Rightarrow> unit result \<times> 'w"
  st_ActiveModelProfile :: "owner_scope \<Rightarrow> purpose \<Rightarrow> 'w \<Rightarrow> model_profile result \<times> 'w"

type_synonym 'w credential_tester = "provider_test_request \<Rightarrow> 'w \<Rightarrow> test_credential_result result \<times> 'w"

record 'w service =
  sv_store :: "'w credential_store option"
  sv_sealer :: "'w secret_sealer option"
  sv_registry :: provider_registry
  sv_tester :: "'w credential_tester option"
  sv_sha256_hex :: "string \<Rightarrow> string"
  sv_json_valid :: "string \<Rightarrow> bool"

definition NewService ::
  "'w credential_store option \<Rightarrow> 'w secret_sealer option \<Rightarrow> provider_registry \<Rightarrow> (string \<Rightarrow> string) \<Rightarrow> (string \<Rightarrow> bool) \<Rightarrow> 'w service"
where
  "NewService store sealer reg sha valid =
     \<lparr>sv_store = store, sv_sealer = sealer, sv_registry = reg, sv_tester = None, sv_sha256_hex = sha,
      sv_json_valid = valid\<rparr>"

definition NewServiceWithTester ::
  "'w credential_store option \<Rightarrow> 'w secret_sealer option \<Rightarrow> provider_registry \<Rightarrow> 'w credential_tester option \<Rightarrow>
   (string \<Rightarrow> string) \<Rightarrow> (string \<Rightarrow> bool) \<Rightarrow> 'w service"
where
  "NewServiceWithTester store sealer reg tester sha valid =
     (NewService store sealer reg sha valid)\<lparr>sv_tester := tester\<rparr>"

definition service_registry :: "'w service \<Rightarrow> provider_registry" where
  "service_registry s = (case sv_registry s of None \<Rightarrow> DefaultRegistry | Some specs \<Rightarrow> Some specs)"

record add_credential_request =
  ar_owner :: owner_scope
  ar_provider_id :: provider_id
  ar_label :: string
  ar_raw_secret :: string
  ar_actor_id :: string

record select_model_request =
  sr_owner :: owner_scope
  sr_purpose :: purpose
  sr_credential_id :: string
  sr_provider_id :: provider_id
  sr_model_id :: string
  sr_params_json :: string
  sr_actor_id :: string

record test_credential_request =
  tc_owner :: owner_scope
  tc_label :: string
  tc_actor_id :: string

record resolve_model_request =
  rr_owner :: owner_scope
  rr_purpose :: purpose
  rr_actor_id :: string

record resolved_model =
  rm_owner :: owner_scope
  rm_purpose :: purpose
  rm_provider_id :: provider_id
  rm_model_id :: string
  rm_params_json :: string
  rm_credential_id :: string
  rm_credential_label :: string
  rm_api_key :: string
  rm_billing_owner_type :: owner_type
  rm_billing_owner_id :: string

subsection \<open>Adding, revoking, listing\<close>

text \<open>What a ciphertext is bound to.\<close>

definition credentialAAD :: "owner_scope \<Rightarrow> provider_id \<Rightarrow> string \<Rightarrow> string" where
  "credentialAAD s provider label =
     ''owner_type='' @ os_owner_type s @ '';guild_id='' @ os_guild_id s @ '';user_id='' @ os_user_id s @
     '';provider_id='' @ provider @ '';label='' @ label"

definition scrubCredentialRecord :: "credential_record \<Rightarrow> credential_record" where
  "scrubCredentialRecord r = r\<lparr>cr_ciphertext := [], cr_nonce := []\<rparr>"

definition normalizeAddCredentialRequest ::
  "'w service \<Rightarrow> add_credential_request \<Rightarrow> (owner_scope \<times> provider_id \<times> string \<times> string) result" where
  "normalizeAddCredentialRequest s req =
     attempt (normalizeScope (ar_owner req)) (\<lambda>owner.
     let providerID = trim_space (ar_provider_id req) in
     attempt (registry_ValidateProvider (service_registry s) providerID) (\<lambda>_.
     require (trim_space (ar_label req) \<noteq> []) ''credential label is required'' (
     require (trim_space (ar_actor_id req) \<noteq> []) ''actor user ID is required'' (
       Inr (owner, providerID, trim_space (ar_label req), trim_space (ar_actor_id req))))))"

definition AddCredential :: "'w service \<Rightarrow> add_credential_request \<Rightarrow> 'w \<Rightarrow> credential_record result \<times> 'w" where
  "AddCredential s req w =
     (case sv_store s of
        None \<Rightarrow> (Inl (Errorf ''credential store is required''), w)
      | Some store \<Rightarrow>
          (case sv_sealer s of
             None \<Rightarrow> (Inl (Errorf ''secret sealer is required''), w)
           | Some sealer \<Rightarrow>
               (case normalizeAddCredentialRequest s req of
                  Inl e \<Rightarrow> (Inl e, w)
                | Inr (owner, providerID, label, actorID) \<Rightarrow>
                    (let rawSecret = trim_space (ar_raw_secret req) in
                     case secret_Fingerprint (sv_sha256_hex s) rawSecret of
                       Inl e \<Rightarrow> (Inl e, w)
                     | Inr fingerprint \<Rightarrow>
                         db_bind (sl_seal sealer rawSecret (credentialAAD owner providerID label) w) (\<lambda>sealed w1.
                         db_bind (st_UpsertCredential store
                           \<lparr>ci_owner = owner, ci_provider_id = providerID, ci_label = label,
                            ci_ciphertext = ss_ciphertext sealed, ci_nonce = ss_nonce sealed,
                            ci_key_id = trim_space (ss_key_id sealed), ci_fingerprint = fingerprint,
                            ci_created_by = actorID, ci_updated_by = actorID\<rparr> w1) (\<lambda>rec w2.
                           (Inr (scrubCredentialRecord rec), w2)))))))"

definition RotateCredential :: "'w service \<Rightarrow> add_credential_request \<Rightarrow> 'w \<Rightarrow> credential_record result \<times> 'w" where
  "RotateCredential s req = AddCredential s req"

definition service_RevokeCredential ::
  "'w service \<Rightarrow> owner_scope \<Rightarrow> string \<Rightarrow> string \<Rightarrow> 'w \<Rightarrow> unit result \<times> 'w" where
  "service_RevokeCredential s owner0 label0 actorID0 w =
     (case sv_store s of
        None \<Rightarrow> (Inl (Errorf ''credential store is required''), w)
      | Some store \<Rightarrow>
          (case normalizeScope owner0 of
             Inl e \<Rightarrow> (Inl e, w)
           | Inr owner \<Rightarrow>
               if trim_space label0 = [] then (Inl (Errorf ''credential label is required''), w)
               else if trim_space actorID0 = [] then (Inl (Errorf ''actor user ID is required''), w)
               else st_RevokeCredential store owner (trim_space label0) (trim_space actorID0) w))"

definition service_ListCredentials :: "'w service \<Rightarrow> owner_scope \<Rightarrow> 'w \<Rightarrow> credential_record list result \<times> 'w" where
  "service_ListCredentials s owner0 w =
     (case sv_store s of
        None \<Rightarrow> (Inl (Errorf ''credential store is required''), w)
      | Some store \<Rightarrow>
          (case normalizeScope owner0 of
             Inl e \<Rightarrow> (Inl e, w)
           | Inr owner \<Rightarrow>
               db_bind (st_ListCredentials store owner w) (\<lambda>recs w'. (Inr (map scrubCredentialRecord recs), w'))))"

subsection \<open>Model profiles\<close>

definition modelProfileInput :: "'w service \<Rightarrow> select_model_request \<Rightarrow> model_profile_input result" where
  "modelProfileInput s req =
     attempt (normalizeScope (sr_owner req)) (\<lambda>owner.
     attempt (ValidatePurpose (sr_purpose req)) (\<lambda>_.
     let providerID = trim_space (sr_provider_id req) in
     attempt (registry_ValidateProvider (service_registry s) providerID) (\<lambda>_.
     attempt (ValidateModelID (sr_model_id req)) (\<lambda>modelID.
     require (registry_SupportsPurpose (service_registry s) providerID (sr_purpose req))
       ''provider does not support purpose'' (
     require (trim_space (sr_credential_id req) \<noteq> []) ''credential ID is required'' (
     require (trim_space (sr_actor_id req) \<noteq> []) ''actor user ID is required'' (
     let params = (if trim_space (sr_params_json req) = [] then ''{}'' else trim_space (sr_params_json req)) in
     require (sv_json_valid s params) ''model profile params must be valid JSON'' (
       Inr \<lparr>mi_owner = owner, mi_purpose = sr_purpose req, mi_credential_id = trim_space (sr_credential_id req),
            mi_provider_id = providerID, mi_model_id = modelID, mi_params_json = params,
            mi_selected_by = trim_space (sr_actor_id req)\<rparr>))))))))"

definition service_SelectModelProfile :: "'w service \<Rightarrow> select_model_request \<Rightarrow> 'w \<Rightarrow> unit result \<times> 'w" where
  "service_SelectModelProfile s req w =
     (case sv_store s of
        None \<Rightarrow> (Inl (Errorf ''credential store is required''), w)
      | Some store \<Rightarrow>
          (case modelProfileInput s req of
             Inl e \<Rightarrow> (Inl e, w)
           | Inr input \<Rightarrow> st_SelectModelProfile store input w))"

definition service_ActiveModelProfile :: "'w service \<Rightarrow> owner_scope \<Rightarrow> purpose \<Rightarrow> 'w \<Rightarrow> model_profile result \<times> 'w" where
  "service_ActiveModelProfile s owner purp w =
     (case sv_store s of
        None \<Rightarrow> (Inl (Errorf ''credential store is required''), w)
      | Some store \<Rightarrow> st_ActiveModelProfile store owner purp w)"

subsection \<open>Testing a credential\<close>

abbreviation (input) TestErrorNone :: test_error_code where "TestErrorNone \<equiv> []"
abbreviation TestErrorAuthFailed :: test_error_code where "TestErrorAuthFailed \<equiv> ''auth_failed''"
abbreviation TestErrorInvalidResponse :: test_error_code where "TestErrorInvalidResponse \<equiv> ''invalid_response''"
abbreviation TestErrorProviderUnavailable :: test_error_code where "TestErrorProviderUnavailable \<equiv> ''provider_unavailable''"
abbreviation TestErrorRateLimited :: test_error_code where "TestErrorRateLimited \<equiv> ''rate_limited''"
abbreviation TestErrorRequestFailed :: test_error_code where "TestErrorRequestFailed \<equiv> ''request_failed''"
abbreviation TestErrorSecretOpenFailed :: test_error_code where "TestErrorSecretOpenFailed \<equiv> ''secret_open_failed''"
abbreviation TestErrorUnsupportedProvider :: test_error_code where "TestErrorUnsupportedProvider \<equiv> ''unsupported_provider''"

definition normalizeTestCredentialRequest :: "test_credential_request \<Rightarrow> (owner_scope \<times> string) result" where
  "normalizeTestCredentialRequest req =
     attempt (normalizeScope (tc_owner req)) (\<lambda>owner.
     require (trim_space (tc_label req) \<noteq> []) ''credential label is required'' (
     require (trim_space (tc_actor_id req) \<noteq> []) ''actor user ID is required'' (
       Inr (owner, trim_space (tc_label req)))))"

text \<open>Results of \<^verbatim>\<open>UpdateCredentialTestResult\<close> that the code drops.\<close>

abbreviation ignoring :: "'a \<times> 'w \<Rightarrow> 'b result \<Rightarrow> 'b result \<times> 'w" where
  "ignoring p r \<equiv> (r, snd p)"

definition sealed_of :: "credential_record \<Rightarrow> sealed_secret" where
  "sealed_of r = \<lparr>ss_ciphertext = cr_ciphertext r, ss_nonce = cr_nonce r, ss_key_id = cr_key_id r\<rparr>"

definition record_test ::
  "'w credential_store \<Rightarrow> credential_record \<Rightarrow> test_credential_result \<Rightarrow> 'w \<Rightarrow> test_credential_result result \<times> 'w" where
  "record_test store rec res0 w =
     (let status = (if tr_status res0 = [] then TestStatusFailed else tr_status res0);
          res = \<lparr>tr_provider_id = cr_provider_id rec, tr_label = cr_label rec, tr_status = status,
            tr_error_code = (if status = TestStatusSucceeded then TestErrorNone else tr_error_code res0)\<rparr>
      in db_bind (st_UpdateCredentialTestResult store (cr_id rec) (tr_status res) (tr_error_code res) w)
           (\<lambda>_ w'. (Inr res, w')))"

definition TestCredential :: "'w service \<Rightarrow> test_credential_request \<Rightarrow> 'w \<Rightarrow> test_credential_result result \<times> 'w" where
  "TestCredential s req w =
     (case (sv_store s, sv_sealer s, sv_tester s) of
        (None, _, _) \<Rightarrow> (Inl (Errorf ''credential store is required''), w)
      | (Some _, None, _) \<Rightarrow> (Inl (Errorf ''secret sealer is required''), w)
      | (Some _, Some _, None) \<Rightarrow> (Inl (Errorf ''credential tester is required''), w)
      | (Some store, Some sealer, Some tester) \<Rightarrow>
          (case normalizeTestCredentialRequest req of
             Inl e \<Rightarrow> (Inl e, w)
           | Inr (owner, label) \<Rightarrow>
               db_bind (st_CredentialForTest store owner label w) (\<lambda>rec w1.
                 case sl_open sealer (sealed_of rec) (credentialAAD owner (cr_provider_id rec) (cr_label rec)) w1 of
                   (Inl e, w2) \<Rightarrow> ignoring
                     (st_UpdateCredentialTestResult store (cr_id rec) TestStatusFailed TestErrorSecretOpenFailed w2)
                     (Inl (Wrap ''open credential secret'' e))
                 | (Inr secret, w2) \<Rightarrow>
                     (case tester \<lparr>pt_provider_id = cr_provider_id rec, pt_api_key = secret\<rparr> w2 of
                        (Inl e, w3) \<Rightarrow> ignoring
                          (st_UpdateCredentialTestResult store (cr_id rec) TestStatusFailed TestErrorRequestFailed w3)
                          (Inl e)
                      | (Inr res, w3) \<Rightarrow> record_test store rec res w3))))"

subsection \<open>The tester over HTTP\<close>

record http_request =
  hr_url :: string
  hr_headers :: "(string \<times> string) list"

text \<open>
  What the tester uses of the standard library: whether a request for a URL can be made, the URL with a query
  parameter set, and the status a request is answered with, if it is.
\<close>

record 'w http_env =
  he_valid_url :: "string \<Rightarrow> bool"
  he_with_query :: "string \<Rightarrow> string \<Rightarrow> string \<Rightarrow> string option"
  he_do :: "http_request \<Rightarrow> 'w \<Rightarrow> int option \<times> 'w"

record http_tester =
  ht_base_urls :: "(provider_id \<times> string) list option"
  ht_anthropic_version :: string

fun drop_trailing_slashes :: "string \<Rightarrow> string" where
  "drop_trailing_slashes s = rev (dropWhile (\<lambda>c. c = CHR ''/'') (rev s))"

definition tester_baseURL :: "http_tester \<Rightarrow> provider_id \<Rightarrow> string \<Rightarrow> string" where
  "tester_baseURL t providerID fallback =
     (case ht_base_urls t of
        None \<Rightarrow> fallback
      | Some urls \<Rightarrow>
          (let base = drop_trailing_slashes (trim_space (case map_of urls providerID of None \<Rightarrow> [] | Some u \<Rightarrow> u)) in
           if base = [] then fallback else base))"

definition new_request :: "'w http_env \<Rightarrow> string \<Rightarrow> (string \<times> string) list \<Rightarrow> http_request result" where
  "new_request env u headers =
     require (he_valid_url env u) ''parse url'' (Inr \<lparr>hr_url = u, hr_headers = headers\<rparr>)"

definition tester_request :: "'w http_env \<Rightarrow> http_tester \<Rightarrow> provider_id \<Rightarrow> string \<Rightarrow> http_request result" where
  "tester_request env t providerID apiKey =
     (if providerID = ProviderOpenAI then
        new_request env (tester_baseURL t providerID ''https://api.openai.com'' @ ''/v1/models'')
          [(''Authorization'', ''Bearer '' @ apiKey)]
      else if providerID = ProviderAnthropic then
        new_request env (tester_baseURL t providerID ''https://api.anthropic.com'' @ ''/v1/models'')
          [(''x-api-key'', apiKey),
           (''anthropic-version'', if trim_space (ht_anthropic_version t) = [] then ''2023-06-01''
              else trim_space (ht_anthropic_version t))]
      else if providerID = ProviderGemini then
        (case he_with_query env (tester_baseURL t providerID ''https://generativelanguage.googleapis.com'' @
             ''/v1beta/models'') ''key'' apiKey of
           None \<Rightarrow> Inl (Errorf ''parse url'')
         | Some u \<Rightarrow> new_request env u [])
      else Inl (Errorf ''unsupported provider''))"

definition status_result :: "test_credential_result \<Rightarrow> int \<Rightarrow> test_credential_result" where
  "status_result res code =
     (if 200 \<le> code \<and> code < 300 then res\<lparr>tr_status := TestStatusSucceeded, tr_error_code := TestErrorNone\<rparr>
      else if code = 401 \<or> code = 403 then res\<lparr>tr_error_code := TestErrorAuthFailed\<rparr>
      else if code = 429 then res\<lparr>tr_error_code := TestErrorRateLimited\<rparr>
      else if code \<ge> 500 then res\<lparr>tr_error_code := TestErrorProviderUnavailable\<rparr>
      else res\<lparr>tr_error_code := TestErrorInvalidResponse\<rparr>)"

definition http_TestCredential :: "'w http_env \<Rightarrow> http_tester \<Rightarrow> 'w credential_tester" where
  "http_TestCredential env t req w =
     (let providerID = trim_space (pt_provider_id req);
          apiKey = trim_space (pt_api_key req);
          res = \<lparr>tr_provider_id = providerID, tr_label = [], tr_status = TestStatusFailed, tr_error_code = []\<rparr>
      in if apiKey = [] then (Inr (res\<lparr>tr_error_code := TestErrorAuthFailed\<rparr>), w)
         else case tester_request env t providerID apiKey of
             Inl _ \<Rightarrow> (Inr (res\<lparr>tr_error_code := TestErrorUnsupportedProvider\<rparr>), w)
           | Inr r \<Rightarrow>
               (case he_do env r w of
                  (None, w') \<Rightarrow> (Inr (res\<lparr>tr_error_code := TestErrorRequestFailed\<rparr>), w')
                | (Some code, w') \<Rightarrow> (Inr (status_result res code), w')))"

subsection \<open>Resolving the model of an owner\<close>

definition normalizeResolveModelRequest :: "resolve_model_request \<Rightarrow> (owner_scope \<times> purpose) result" where
  "normalizeResolveModelRequest req =
     attempt (normalizeScope (rr_owner req)) (\<lambda>owner.
     attempt (ValidatePurpose (rr_purpose req)) (\<lambda>_.
     require (trim_space (rr_actor_id req) \<noteq> []) ''actor user ID is required'' (
       Inr (owner, rr_purpose req))))"

definition billingOwnerID :: "owner_scope \<Rightarrow> string" where
  "billingOwnerID s =
     (if os_owner_type s = OwnerGuild then os_guild_id s
      else if os_owner_type s = OwnerUser then os_user_id s
      else os_owner_type s)"

definition ResolveActiveModel :: "'w service \<Rightarrow> resolve_model_request \<Rightarrow> 'w \<Rightarrow> resolved_model result \<times> 'w" where
  "ResolveActiveModel s req w =
     (case (sv_store s, sv_sealer s) of
        (None, _) \<Rightarrow> (Inl (Errorf ''credential store is required''), w)
      | (Some _, None) \<Rightarrow> (Inl (Errorf ''secret sealer is required''), w)
      | (Some store, Some sealer) \<Rightarrow>
          (case normalizeResolveModelRequest req of
             Inl e \<Rightarrow> (Inl e, w)
           | Inr (owner, purp) \<Rightarrow>
               db_bind (st_ActiveModelProfile store owner purp w) (\<lambda>profile w1.
               db_bind (st_CredentialForResolution store owner (mp_credential_id profile) (mp_provider_id profile) w1)
                 (\<lambda>cred w2.
               db_bind (wrap_err ''open credential secret''
                   (sl_open sealer (sealed_of cred) (credentialAAD owner (cr_provider_id cred) (cr_label cred)) w2))
                 (\<lambda>secret w3.
                   (Inr \<lparr>rm_owner = owner, rm_purpose = purp, rm_provider_id = mp_provider_id profile,
                      rm_model_id = mp_model_id profile, rm_params_json = mp_params_json profile,
                      rm_credential_id = cr_id cred, rm_credential_label = cr_label cred, rm_api_key = secret,
                      rm_billing_owner_type = os_owner_type owner, rm_billing_owner_id = billingOwnerID owner\<rparr>, w3))))))"

text \<open>What is logged, printed or encoded of a resolved model: its key as \<^verbatim>\<open>SecretValue\<close>, which prints as this.\<close>

definition redacted_secret :: string where
  "redacted_secret = ''[secret redacted]''"

definition redacted :: "resolved_model \<Rightarrow> resolved_model" where
  "redacted m = m\<lparr>rm_api_key := redacted_secret\<rparr>"

subsection \<open>The service on the SQL store and AES-GCM\<close>

text \<open>One world: the database, the error of the context, if any, and the bytes the random source will give.\<close>

record llm_world =
  lw_db :: llm_db
  lw_ctx :: "goerror option"
  lw_rand :: string

definition on_db :: "(llm_db \<Rightarrow> 'a \<times> llm_db) \<Rightarrow> llm_world \<Rightarrow> 'a \<times> llm_world" where
  "on_db f w = (case f (lw_db w) of (r, d) \<Rightarrow> (r, w\<lparr>lw_db := d\<rparr>))"

definition draw_bytes :: "nat \<Rightarrow> llm_world \<Rightarrow> string result \<times> llm_world" where
  "draw_bytes n w =
     (if length (lw_rand w) < n then (Inl (Errorf ''unexpected EOF''), w)
      else (Inr (take n (lw_rand w)), w\<lparr>lw_rand := drop n (lw_rand w)\<rparr>))"

definition sql_credential_store :: "llm_store \<Rightarrow> llm_world credential_store" where
  "sql_credential_store st =
     \<lparr>st_UpsertCredential = (\<lambda>i. on_db (UpsertCredential st i)),
      st_RevokeCredential = (\<lambda>own label actor. on_db (RevokeCredential st own label actor)),
      st_ListCredentials = (\<lambda>own. on_db (ListCredentials st own)),
      st_CredentialForTest = (\<lambda>own label. on_db (CredentialForTest st own label)),
      st_CredentialForResolution = (\<lambda>own i p. on_db (CredentialForResolution st own i p)),
      st_UpdateCredentialTestResult = (\<lambda>i s c. on_db (UpdateCredentialTestResult st i s c)),
      st_SelectModelProfile = (\<lambda>i. on_db (SelectModelProfile st i)),
      st_ActiveModelProfile = (\<lambda>own p. on_db (ActiveModelProfile st own p))\<rparr>"

text \<open>The service as \<^verbatim>\<open>internal/app/app.go\<close> builds it.\<close>

definition app_service ::
  "llm_store \<Rightarrow> aes_gcm_sealer \<Rightarrow> llm_world http_env \<Rightarrow> (string \<Rightarrow> string) \<Rightarrow> llm_world service" where
  "app_service st ag env sha =
     NewServiceWithTester (Some (sql_credential_store st)) (Some (AESGCMSealer lw_ctx draw_bytes ag)) DefaultRegistry
       (Some (http_TestCredential env \<lparr>ht_base_urls = None, ht_anthropic_version = []\<rparr>)) sha (ls_json_valid st)"

subsection \<open>What a resolved model is\<close>

lemmas app_service_defs = app_service_def NewServiceWithTester_def NewService_def sql_credential_store_def AESGCMSealer_def

lemma on_db_Inr: "on_db f w = (Inr x, w') \<Longrightarrow> f (lw_db w) = (Inr x, lw_db w') \<and> lw_ctx w' = lw_ctx w \<and> lw_rand w' = lw_rand w"
  by (auto simp: on_db_def split: prod.splits)

lemma draw_bytes_length: "draw_bytes n w = (Inr x, w') \<Longrightarrow> length x = n \<and> lw_db w' = lw_db w"
  by (auto simp: draw_bytes_def split: if_splits)

lemma draw_bytes_frame: "lw_db (snd (draw_bytes n w)) = lw_db w"
  by (simp add: draw_bytes_def)

lemma AESGCM_Seal_frame: "lw_db (snd (AESGCM_Seal lw_ctx draw_bytes ag p aad w)) = lw_db w"
  using draw_bytes_frame [of "ad_nonce_size (ag_gcm ag)" w]
  by (auto simp: AESGCM_Seal_def db_bind_def split: option.splits sum.splits prod.splits)

text \<open>
  What adding a credential leaves in the table: the one row with the id it returned, live, under the owner,
  the provider and the label asked for, sealed for these.
\<close>

lemma AddCredential_row:
  assumes "AddCredential (app_service st ag env sha) req w = (Inr rec, w')"
    "llm_ok (ls_lower st) (tables (lw_db w))"
  shows "\<exists>owner row sealed wa wb. normalizeScope (ar_owner req) = Inr owner \<and>
    AESGCM_Seal lw_ctx draw_bytes ag (trim_space (ar_raw_secret req))
      (credentialAAD owner (trim_space (ar_provider_id req)) (trim_space (ar_label req))) wa = (Inr sealed, wb) \<and>
    row \<in> set (lt_credentials (tables (lw_db w'))) \<and> cw_id row = cr_id rec \<and> live row \<and>
    cw_owner row = owner_args owner \<and> cw_provider_id row = trim_space (ar_provider_id req) \<and>
    cw_label row = trim_space (ar_label req) \<and> cw_ciphertext row = ss_ciphertext sealed \<and>
    cw_nonce row = ss_nonce sealed \<and> cw_key_id row = trim_space (ss_key_id sealed) \<and>
    llm_ok (ls_lower st) (tables (lw_db w'))"
proof -
  let ?raw = "trim_space (ar_raw_secret req)" and ?prov = "trim_space (ar_provider_id req)" and ?lab = "trim_space (ar_label req)"
  from assms(1) obtain owner sealed fp actor wb rec' where
    owner: "normalizeScope (ar_owner req) = Inr owner"
    and seal: "AESGCM_Seal lw_ctx draw_bytes ag ?raw (credentialAAD owner ?prov ?lab) w = (Inr sealed, wb)"
    and up: "on_db (UpsertCredential st \<lparr>ci_owner = owner, ci_provider_id = ?prov, ci_label = ?lab,
                            ci_ciphertext = ss_ciphertext sealed, ci_nonce = ss_nonce sealed,
                            ci_key_id = trim_space (ss_key_id sealed), ci_fingerprint = fp,
                            ci_created_by = actor, ci_updated_by = actor\<rparr>) wb = (Inr rec', w')"
    and rec: "rec = scrubCredentialRecord rec'"
    by (auto simp: AddCredential_def app_service_defs normalizeAddCredentialRequest_def Let_def
        split: sum.splits dest!: db_bind_InrD)
  let ?in = "\<lparr>ci_owner = owner, ci_provider_id = ?prov, ci_label = ?lab,
                            ci_ciphertext = ss_ciphertext sealed, ci_nonce = ss_nonce sealed,
                            ci_key_id = trim_space (ss_key_id sealed), ci_fingerprint = fp,
                            ci_created_by = actor, ci_updated_by = actor\<rparr>"
  have wb: "lw_db wb = lw_db w"
    using AESGCM_Seal_frame [of ag ?raw "credentialAAD owner ?prov ?lab" w] seal by simp
  from up wb have up': "UpsertCredential st ?in (lw_db w) = (Inr rec', lw_db w')"
    using on_db_Inr by metis
  from UpsertCredential_Inr [OF up'] obtain i n row where
    i: "normalizeCredentialInput ?in = Inr i" and rec': "rec' = scanCredentialRecord row"
    and ins: "upsert_credential (ls_lower st) (new_credential n i) (clock (lw_db w)) (tables (lw_db w)) =
      Inr (Some row, tables (lw_db w'))" by blast
  have ci: "ci_owner i = owner" "ci_provider_id i = ?prov" "ci_label i = ?lab" "ci_ciphertext i = ss_ciphertext sealed"
      "ci_nonce i = ss_nonce sealed" "ci_key_id i = trim_space (ss_key_id sealed)"
    using new_credential_ok [OF i] normalizeScope_Inr [OF owner] by simp_all
  have ok: "llm_ok (ls_lower st) (tables (lw_db w'))"
    using upsert_credential_ok [OF ins assms(2)] new_credential_ok [OF i] by blast
  have "row \<in> set (lt_credentials (tables (lw_db w'))) \<and> live row \<and> cw_owner row = owner_args owner \<and>
    cw_provider_id row = ?prov \<and> cw_label row = ?lab \<and> cw_ciphertext row = ss_ciphertext sealed \<and>
    cw_nonce row = ss_nonce sealed \<and> cw_key_id row = trim_space (ss_key_id sealed)"
    using ins
  proof (cases rule: upsert_credential_cases)
    case (rotated r)
    have "owner_ok (cw_owner r)" using rotated(1) assms(2) by (simp add: llm_ok_def credential_ok_def)
    moreover have "owner_ok (owner_args owner)" using normalizeScope_Inr [OF owner] by blast
    moreover have "owner_index (cw_owner r) = owner_index (owner_args owner)"
      using rotated(2) ci(1) by (simp add: conflicts_def label_index_def new_credential_def)
    ultimately have "cw_owner r = owner_args owner" using owner_index_inj by blast
    moreover have "rotate_row (new_credential n i) r \<in> set (lt_credentials (tables (lw_db w')))"
      using rotated(1,2) by (force simp: rotated(5) set_update_where)
    ultimately show ?thesis
      using rotated(3,4) ci by (simp add: rotate_row_def new_credential_def live_def)
  next
    case added
    then show ?thesis using ci by (simp add: new_credential_def live_def)
  qed simp
  moreover have "cr_id rec = cw_id row"
    by (simp add: rec rec' scrubCredentialRecord_def scanCredentialRecord_def split: prod.splits)
  ultimately show ?thesis using owner seal ok by metis
qed

lemma SelectModelProfile_effect:
  assumes "service_SelectModelProfile (app_service st ag env sha) req w = (Inr u, w')"
    "llm_ok (ls_lower st) (tables (lw_db w))"
  shows "\<exists>owner c p. normalizeScope (sr_owner req) = Inr owner \<and> c \<in> set (lt_credentials (tables (lw_db w))) \<and>
    cw_id c = trim_space (sr_credential_id req) \<and> cw_owner c = owner_args owner \<and> live c \<and>
    cw_provider_id c = trim_space (sr_provider_id req) \<and>
    lt_credentials (tables (lw_db w')) = lt_credentials (tables (lw_db w)) \<and>
    filter (selected (owner_args owner) (sr_purpose req)) (lt_profiles (tables (lw_db w'))) = [p] \<and>
    pw_owner p = owner_args owner \<and> pw_purpose p = sr_purpose req \<and> pw_credential_id p = cw_id c \<and>
    pw_provider_id p = cw_provider_id c \<and> pw_model_id p = trim_space (sr_model_id req) \<and>
    SupportsPurpose (pw_provider_id p) (sr_purpose req) \<and> trim_space (sr_credential_id req) \<noteq> [] \<and>
    llm_ok (ls_lower st) (tables (lw_db w')) \<and> lw_ctx w' = lw_ctx w"
proof -
  from assms(1) obtain in0 where in0: "modelProfileInput (app_service st ag env sha) req = Inr in0"
    and sel: "on_db (SelectModelProfile st in0) w = (Inr u, w')"
    by (auto simp: service_SelectModelProfile_def app_service_defs split: sum.splits)
  then have fields: "mi_purpose in0 = sr_purpose req" "trim_space (mi_credential_id in0) = trim_space (sr_credential_id req)"
      "trim_space (mi_provider_id in0) = trim_space (sr_provider_id req)" "trim_space (sr_credential_id req) \<noteq> []"
      "trim_space (mi_model_id in0) = trim_space (sr_model_id req)"
      "\<exists>o0. normalizeScope (sr_owner req) = Inr o0 \<and> mi_owner in0 = o0"
    by (auto simp: modelProfileInput_def Let_def Validate_Inr)
  from sel have sel': "SelectModelProfile st in0 (lw_db w) = (Inr u, lw_db w')" and ctx: "lw_ctx w' = lw_ctx w"
    using on_db_Inr [OF sel] by simp_all
  from SelectModelProfile_Inr [OF sel'] obtain i n k t1 where
    i: "normalizeModelProfileInput st in0 = Inr i" and k: "0 < k"
    and dis: "disable_profiles (owner_args (mi_owner i)) (mi_purpose i) (mi_selected_by i) (clock (lw_db w)) (tables (lw_db w)) = Inr ((), t1)"
    and ins: "insert_profile st n i (clock (lw_db w)) t1 = Inr (k, tables (lw_db w'))" by blast
  note i' = normalizeModelProfileInput_Inr [OF i]
  have owner: "normalizeScope (sr_owner req) = Inr (mi_owner i)"
    using fields(6) i' normalizeScope_Inr by auto
  from disable_profiles_ok [OF dis assms(2)] have t1: "llm_ok (ls_lower st) t1"
    "\<forall>p\<in>set (lt_profiles t1). \<not> selected (owner_args (mi_owner i)) (mi_purpose i) p"
    "lt_credentials t1 = lt_credentials (tables (lw_db w))" by simp_all
  have none: "filter (selected (owner_args (mi_owner i)) (mi_purpose i)) (lt_profiles t1) = []"
    using t1(2) by (simp add: filter_empty_conv)
  from ins show ?thesis
  proof (cases rule: insert_profile_cases)
    case 1
    then show ?thesis using k by simp
  next
    case (2 c params)
    let ?p = "\<lparr>pw_id = n, pw_owner = owner_args (mi_owner i),
         pw_purpose = mi_purpose i, pw_credential_id = mi_credential_id i, pw_provider_id = mi_provider_id i,
         pw_model_id = mi_model_id i, pw_params = params, pw_enabled = True, pw_selected_by = Some (mi_selected_by i),
         pw_updated_at = clock (lw_db w)\<rparr>"
    have f: "filter (selected (owner_args (mi_owner i)) (mi_purpose i)) (lt_profiles (tables (lw_db w'))) = [?p]"
      using none by (simp add: 2(10) selected_def)
    obtain p where p: "pw_owner p = owner_args (mi_owner i)" "pw_purpose p = mi_purpose i" "pw_credential_id p = mi_credential_id i"
      "pw_provider_id p = mi_provider_id i" "pw_model_id p = mi_model_id i"
      "filter (selected (owner_args (mi_owner i)) (mi_purpose i)) (lt_profiles (tables (lw_db w'))) = [p]"
      using f by force
    have ok: "llm_ok (ls_lower st) (tables (lw_db w'))" by (rule insert_profile_ok [OF ins t1(1) i])
    have eqs: "mi_purpose i = sr_purpose req" "mi_credential_id i = trim_space (sr_credential_id req)"
      "mi_provider_id i = trim_space (sr_provider_id req)" "mi_model_id i = trim_space (sr_model_id req)"
      "lt_credentials (tables (lw_db w')) = lt_credentials (tables (lw_db w))"
      using i' fields t1(3) by (simp_all add: 2(10))
    have sup: "SupportsPurpose (mi_provider_id i) (mi_purpose i)" using i' by (elim conjE)
    have c: "c \<in> set (lt_credentials (tables (lw_db w)))" using 2(1) t1(3) by simp
    have cf: "cw_id c = trim_space (sr_credential_id req)" "cw_provider_id c = trim_space (sr_provider_id req)"
      by (simp_all only: 2(2,3) eqs)
    have pf: "pw_purpose p = sr_purpose req" "pw_credential_id p = cw_id c" "pw_provider_id p = cw_provider_id c"
      "pw_model_id p = trim_space (sr_model_id req)" "SupportsPurpose (pw_provider_id p) (sr_purpose req)"
      "filter (selected (owner_args (mi_owner i)) (sr_purpose req)) (lt_profiles (tables (lw_db w'))) = [p]"
      using sup p(6) by (simp_all only: p(2-5) cf eqs)
    show ?thesis
      by (intro exI [of _ "mi_owner i"] exI [of _ c] exI [of _ p] conjI)
        (fact owner c 2(4,5) p(1) pf cf ok eqs(5) ctx fields(4))+
  qed
qed

lemma find_unique:
  assumes "c \<in> set cs" "P c" "\<And>x. x \<in> set cs \<Longrightarrow> P x \<Longrightarrow> x = c"
  shows "find P cs = Some c"
proof (cases "find P cs")
  case None
  then show ?thesis using assms(1,2) by (auto simp: find_None_iff)
next
  case (Some x)
  from find_Some_in [OF Some] assms(3) have "x = c" by blast
  with Some show ?thesis by simp
qed

lemma one_credential_found:
  assumes "faults db = []" "c \<in> set (lt_credentials (tables db))" "P c" "credential_ok c" "live c"
    "\<And>x. x \<in> set (lt_credentials (tables db)) \<Longrightarrow> P x \<Longrightarrow> live x \<Longrightarrow> x = c"
  shows "one_credential P db = (Inr (scanCredentialRecordWithSecret c), db)"
proof -
  have "find (\<lambda>r. P r \<and> cw_status r = CredentialStatusActive \<and> live r) (lt_credentials (tables db)) = Some c"
  proof (rule find_unique [OF assms(2)])
    show "P c \<and> cw_status c = CredentialStatusActive \<and> live c"
      using assms(3-5) by (simp add: credential_ok_def)
  qed (use assms(6) in blast)
  then show ?thesis
    using assms(1) by (simp add: one_credential_def select_credential_def)
qed

lemma ResolveActiveModel_found:
  assumes "llm_ok (ls_lower st) (tables (lw_db w))" "faults (lw_db w) = []" "lw_ctx w = None" "ls_query st"
    "normalizeScope (rr_owner req) = Inr owner" "ValidatePurpose (rr_purpose req) = Inr ()" "trim_space (rr_actor_id req) \<noteq> []"
    "filter (selected (owner_args owner) (rr_purpose req)) (lt_profiles (tables (lw_db w))) = [p]"
    "c \<in> set (lt_credentials (tables (lw_db w)))" "live c" "cw_owner c = owner_args owner"
    "pw_credential_id p = cw_id c" "pw_provider_id p = cw_provider_id c" "trim_space (cw_id c) = cw_id c" "cw_id c \<noteq> []"
    "trim_space (cw_provider_id c) = cw_provider_id c" "ValidateProvider (cw_provider_id c) = Inr ()"
    "pw_owner p = owner_args owner"
    "AESGCM_Open lw_ctx ag \<lparr>ss_ciphertext = cw_ciphertext c, ss_nonce = cw_nonce c, ss_key_id = cw_key_id c\<rparr>
       (credentialAAD owner (cw_provider_id c) (cw_label c)) w = (Inr secret, w)"
  shows "\<exists>m. ResolveActiveModel (app_service st ag env sha) req w = (Inr m, w) \<and> rm_api_key m = secret \<and>
    rm_owner m = owner \<and> rm_purpose m = rr_purpose req \<and> rm_provider_id m = cw_provider_id c \<and>
    rm_model_id m = pw_model_id p \<and> rm_credential_id m = cw_id c \<and> rm_billing_owner_type m = os_owner_type owner \<and>
    rm_billing_owner_id m = billingOwnerID owner"
proof -
  have idem: "normalizeScope owner = Inr owner" using normalizeScope_Inr [OF assms(5)] by blast
  have prof: "ActiveModelProfile st owner (rr_purpose req) (lw_db w) = (Inr (scanModelProfile p), lw_db w)"
    using assms(2,4,6,8) idem by (simp add: ActiveModelProfile_def select_profile_def)
  have uniq: "x = c" if "x \<in> set (lt_credentials (tables (lw_db w)))" "cw_id x = cw_id c" for x
    using that assms(1,9) by (simp add: llm_ok_def distinct_map inj_on_def)
  have "credential_ok c" using assms(1,9) by (simp add: llm_ok_def)
  then have "one_credential (\<lambda>r. cw_id r = cw_id c \<and> cw_provider_id r = cw_provider_id c \<and> cw_owner r = owner_args owner)
      (lw_db w) = (Inr (scanCredentialRecordWithSecret c), lw_db w)"
    using assms(2,9-11) uniq by (intro one_credential_found) blast+
  then have cred: "CredentialForResolution st owner (cw_id c) (cw_provider_id c) (lw_db w) =
      (Inr (scanCredentialRecordWithSecret c), lw_db w)"
    by (simp add: CredentialForResolution_def idem assms(4,14-17))
  have scan: "mp_credential_id (scanModelProfile p) = cw_id c" "mp_provider_id (scanModelProfile p) = cw_provider_id c"
      "mp_model_id (scanModelProfile p) = pw_model_id p"
    using assms(12,13) by (simp_all add: scanModelProfile_def split: prod.split)
  have csc: "cr_id (scanCredentialRecordWithSecret c) = cw_id c" "cr_label (scanCredentialRecordWithSecret c) = cw_label c"
      "cr_provider_id (scanCredentialRecordWithSecret c) = cw_provider_id c"
      "sealed_of (scanCredentialRecordWithSecret c) =
        \<lparr>ss_ciphertext = cw_ciphertext c, ss_nonce = cw_nonce c, ss_key_id = cw_key_id c\<rparr>"
    by (simp_all add: scanCredentialRecordWithSecret_def scanCredentialRecord_def sealed_of_def split: prod.split)
  show ?thesis
    using assms(5-7,19) by (simp add: ResolveActiveModel_def app_service_defs normalizeResolveModelRequest_def on_db_def
        prof cred scan csc)
qed

text \<open>
  C14: A secret that was added (or rotated in) and whose credential was then selected for a purpose is the key
  the owner's model resolves to for that purpose, with the model, provider and billing owner asked for. The
  two calls may come from anyone, on any tables the store can have reached; resolving returns if no
  driver error and no cancellation comes in between. AES-GCM is assumed to open what it sealed.
\<close>

theorem added_credential_resolves:
  assumes "aead_ok (ag_gcm ag)" "trim_space (ag_key_id ag) = ag_key_id ag" "ls_query st"
    "llm_ok (ls_lower st) (tables (lw_db w))"
    "AddCredential (app_service (st\<lparr>ls_new_id := n1\<rparr>) ag env sha) add w = (Inr rec, w1)"
    "service_SelectModelProfile (app_service (st\<lparr>ls_new_id := n2\<rparr>) ag env sha) sel w1 = (Inr (), w2)"
    "trim_space (sr_credential_id sel) = cr_id rec" "faults (lw_db w2) = []" "lw_ctx w2 = None"
    "rr_owner req = sr_owner sel" "rr_purpose req = sr_purpose sel" "trim_space (rr_actor_id req) \<noteq> []"
  shows "\<exists>m. ResolveActiveModel (app_service st ag env sha) req w2 = (Inr m, w2) \<and>
    rm_api_key m = trim_space (ar_raw_secret add) \<and> rm_credential_id m = cr_id rec \<and>
    rm_provider_id m = trim_space (ar_provider_id add) \<and> rm_model_id m = trim_space (sr_model_id sel) \<and>
    rm_purpose m = sr_purpose sel \<and> rm_owner m = trim_scope (ar_owner add) \<and>
    rm_billing_owner_id m = billingOwnerID (trim_scope (ar_owner add))"
proof -
  from AddCredential_row [OF assms(5)] assms(4) obtain owner row sealed wa wb where
    owner: "normalizeScope (ar_owner add) = Inr owner"
    and seal: "AESGCM_Seal lw_ctx draw_bytes ag (trim_space (ar_raw_secret add))
      (credentialAAD owner (trim_space (ar_provider_id add)) (trim_space (ar_label add))) wa = (Inr sealed, wb)"
    and row: "row \<in> set (lt_credentials (tables (lw_db w1)))" "cw_id row = cr_id rec" "live row"
      "cw_owner row = owner_args owner" "cw_provider_id row = trim_space (ar_provider_id add)"
      "cw_label row = trim_space (ar_label add)" "cw_ciphertext row = ss_ciphertext sealed"
      "cw_nonce row = ss_nonce sealed" "cw_key_id row = trim_space (ss_key_id sealed)"
    and ok1: "llm_ok (ls_lower st) (tables (lw_db w1))"
    by auto
  from SelectModelProfile_effect [OF assms(6)] ok1 obtain owner' c p where
    owner': "normalizeScope (sr_owner sel) = Inr owner'"
    and c: "c \<in> set (lt_credentials (tables (lw_db w1)))" "cw_id c = trim_space (sr_credential_id sel)"
      "cw_owner c = owner_args owner'" "live c"
    and creds: "lt_credentials (tables (lw_db w2)) = lt_credentials (tables (lw_db w1))"
    and p: "filter (selected (owner_args owner') (sr_purpose sel)) (lt_profiles (tables (lw_db w2))) = [p]"
      "pw_owner p = owner_args owner'" "pw_credential_id p = cw_id c" "pw_provider_id p = cw_provider_id c"
      "pw_model_id p = trim_space (sr_model_id sel)" "SupportsPurpose (pw_provider_id p) (sr_purpose sel)"
    and ne: "trim_space (sr_credential_id sel) \<noteq> []"
    and ok2: "llm_ok (ls_lower st) (tables (lw_db w2))"
    by auto
  have "c = row"
    using ok1 c(1,2) row(1,2) assms(7) by (simp add: llm_ok_def distinct_map inj_on_def)
  then have oo: "owner' = owner" using c(3) row(4) by simp
  have tid: "trim_space (cr_id rec) = cr_id rec" by (metis assms(7) trim_space_idem)
  have key: "ss_key_id sealed = ag_key_id ag" "AESGCM_Open lw_ctx ag sealed
      (credentialAAD owner (trim_space (ar_provider_id add)) (trim_space (ar_label add))) w2 = (Inr (trim_space (ar_raw_secret add)), w2)"
    using AESGCM_Open_Seal [OF seal assms(1) refl] draw_bytes_length assms(9) by auto
  then have sealed: "\<lparr>ss_ciphertext = cw_ciphertext c, ss_nonce = cw_nonce c, ss_key_id = cw_key_id c\<rparr> = sealed"
    using row(7-9) assms(2) \<open>c = row\<close> by (cases sealed) simp
  have valid: "ValidatePurpose (sr_purpose sel) = Inr ()" "ValidateProvider (cw_provider_id c) = Inr ()"
    using p(4,6) by (auto simp: SupportsPurpose_def registry_SupportsPurpose_def ValidateProvider_def
        registry_ValidateProvider_def split: option.splits)
  have "\<exists>m. ResolveActiveModel (app_service st ag env sha) req w2 = (Inr m, w2) \<and>
      rm_api_key m = trim_space (ar_raw_secret add) \<and> rm_owner m = owner \<and> rm_purpose m = rr_purpose req \<and>
      rm_provider_id m = cw_provider_id c \<and> rm_model_id m = pw_model_id p \<and> rm_credential_id m = cw_id c \<and>
      rm_billing_owner_type m = os_owner_type owner \<and> rm_billing_owner_id m = billingOwnerID owner"
  proof (rule ResolveActiveModel_found)
    show "AESGCM_Open lw_ctx ag \<lparr>ss_ciphertext = cw_ciphertext c, ss_nonce = cw_nonce c, ss_key_id = cw_key_id c\<rparr>
       (credentialAAD owner (cw_provider_id c) (cw_label c)) w2 = (Inr (trim_space (ar_raw_secret add)), w2)"
      using key(2) row(5,6) \<open>c = row\<close> unfolding sealed by simp
  qed (use tid ok2 assms(3,7-12) owner' oo valid p c creds ne row \<open>c = row\<close> in simp_all)
  then show ?thesis
    using owner p(5) row(5) c(2) assms(7,11) \<open>c = row\<close> by (auto simp: normalizeScope_Inr_iff)
qed

text \<open>What revoking leaves: no live credential, and no secret, under the label.\<close>

lemma disable_revoked_credentials:
  "disable_revoked low own label actor now t = Inr (u, t') \<Longrightarrow> lt_credentials t' = lt_credentials t"
  by (auto simp: disable_revoked_def Let_def)

lemma revoked_rows:
  assumes "service_RevokeCredential (app_service st ag env sha) owner0 label actor w = (Inr (), w1)"
    "llm_ok (ls_lower st) (tables (lw_db w))"
  shows "\<exists>owner. normalizeScope owner0 = Inr owner \<and> llm_ok (ls_lower st) (tables (lw_db w1)) \<and>
    (\<forall>r\<in>set (lt_credentials (tables (lw_db w1))). labelled (ls_lower st) (owner_args owner) (trim_space label) r \<longrightarrow>
       \<not> live r \<and> cw_ciphertext r = [])"
proof -
  from assms(1) obtain owner where owner: "normalizeScope owner0 = Inr owner"
    and rev: "RevokeCredential st owner (trim_space label) (trim_space actor) (lw_db w) = (Inr (), lw_db w1)"
    by (auto simp: service_RevokeCredential_def app_service_defs split: sum.splits if_splits dest: on_db_Inr)
  from RevokeCredential_Inr [OF rev] normalizeScope_Inr [OF owner] obtain n t1 where
    r1: "revoke_rows (ls_lower st) (owner_args owner) (trim_space label) (trim_space actor) (clock (lw_db w)) (tables (lw_db w)) = Inr (n, t1)"
    and r2: "disable_revoked (ls_lower st) (owner_args owner) (trim_space label) (trim_space actor) (clock (lw_db w)) t1 = Inr ((), tables (lw_db w1))"
    by auto
  have ok: "llm_ok (ls_lower st) (tables (lw_db w1))" by (rule revoke_ok [OF r1 r2 assms(2)])
  have creds: "lt_credentials (tables (lw_db w1)) = lt_credentials t1" and t1: "lt_credentials t1 =
      update_where (\<lambda>r. labelled (ls_lower st) (owner_args owner) (trim_space label) r \<and> live r)
        (\<lambda>r. r\<lparr>cw_revoked_at := Some (clock (lw_db w)), cw_status := CredentialStatusRevoked,
            cw_updated_by := Some (trim_space actor), cw_ciphertext := [], cw_nonce := []\<rparr>) (lt_credentials (tables (lw_db w)))"
    using r1 disable_revoked_credentials [OF r2] by (auto simp: revoke_rows_def Let_def)
  have "\<not> live r" if "r \<in> set (lt_credentials t1)" "labelled (ls_lower st) (owner_args owner) (trim_space label) r" for r
    using that unfolding t1 by (auto simp: live_def dest!: set_update_whereD)
  moreover have "cw_ciphertext r = []" if "r \<in> set (lt_credentials t1)" "\<not> live r" for r
    using ok that creds by (auto simp: llm_ok_def credential_ok_def)
  ultimately show ?thesis using owner ok creds by auto
qed

lemma one_credential_Inr:
  assumes "one_credential P db = (Inr rec, db')"
  shows "\<exists>r\<in>set (lt_credentials (tables db)). P r \<and> live r \<and> rec = scanCredentialRecordWithSecret r \<and> tables db' = tables db"
proof -
  from db_bind_InrD [OF assms [unfolded one_credential_def]] obtain r where
    "sql_exec (select_credential P) db = (Inr (Some r), db')" "rec = scanCredentialRecordWithSecret r"
    by (auto split: option.splits)
  with sql_exec_Inr [OF this(1)] show ?thesis
    by (auto simp: select_credential_def dest!: find_Some_in)
qed

lemma ResolveActiveModel_Inr:
  assumes "ResolveActiveModel (app_service st ag env sha) req w = (Inr m, w')"
  shows "\<exists>owner r. normalizeScope (rr_owner req) = Inr owner \<and> r \<in> set (lt_credentials (tables (lw_db w))) \<and> live r \<and>
    cw_owner r = owner_args owner \<and> rm_credential_id m = cw_id r \<and> rm_credential_label m = cw_label r \<and> rm_owner m = owner"
proof -
  from assms obtain owner profile w1 cred w2 where
    owner: "normalizeScope (rr_owner req) = Inr owner"
    and prof: "on_db (ActiveModelProfile st owner (rr_purpose req)) w = (Inr profile, w1)"
    and cred: "on_db (CredentialForResolution st owner (mp_credential_id profile) (mp_provider_id profile)) w1 = (Inr cred, w2)"
    and m: "rm_credential_id m = cr_id cred" "rm_credential_label m = cr_label cred" "rm_owner m = owner"
    by (auto simp: ResolveActiveModel_def app_service_defs normalizeResolveModelRequest_def split: sum.splits
        dest!: db_bind_InrD)
  have "tables (lw_db w1) = tables (lw_db w)"
  proof -
    from on_db_Inr [OF prof] have "ActiveModelProfile st owner (rr_purpose req) (lw_db w) = (Inr profile, lw_db w1)" by blast
    then show ?thesis
      by (auto simp: ActiveModelProfile_def select_profile_def split: sum.splits if_splits option.splits
          dest!: db_bind_InrD sql_exec_Inr)
  qed
  moreover obtain i p where "one_credential (\<lambda>r. cw_id r = i \<and> cw_provider_id r = p \<and> cw_owner r = owner_args owner) (lw_db w1) =
      (Inr cred, lw_db w2)"
    using on_db_Inr [OF cred] normalizeScope_Inr [OF owner]
    by (auto simp: CredentialForResolution_def Let_def split: sum.splits if_splits)
  ultimately show ?thesis
    using one_credential_Inr owner m by (fastforce simp: scanCredentialRecordWithSecret_def scanCredentialRecord_def split: prod.splits)
qed

text \<open>
  C15: Once an owner's credential is revoked, no model of that owner resolves to a credential with that label, in
  whatever case, and no row of that owner with that label holds a secret any more.
\<close>

theorem revoked_credential_unusable:
  assumes "llm_ok (ls_lower st) (tables (lw_db w))"
    "service_RevokeCredential (app_service st ag env sha) owner label actor w = (Inr (), w1)"
  shows "(\<forall>req m w2. ResolveActiveModel (app_service st ag env sha) req w1 = (Inr m, w2) \<longrightarrow>
       rm_owner m = trim_scope owner \<longrightarrow> ls_lower st (rm_credential_label m) \<noteq> ls_lower st (trim_space label)) \<and>
    (\<forall>r\<in>set (lt_credentials (tables (lw_db w1))). cw_owner r = owner_args (trim_scope owner) \<longrightarrow>
       ls_lower st (cw_label r) = ls_lower st (trim_space label) \<longrightarrow> cw_ciphertext r = [])"
proof -
  from revoked_rows [OF assms(2,1)] have "scope_valid (trim_scope owner)" and
    rows: "\<forall>r\<in>set (lt_credentials (tables (lw_db w1))). labelled (ls_lower st) (owner_args (trim_scope owner)) (trim_space label) r \<longrightarrow>
       \<not> live r \<and> cw_ciphertext r = []"
    by (auto simp: normalizeScope_Inr_iff)
  show ?thesis
  proof (intro conjI allI ballI impI notI)
    fix req m w2
    assume "ResolveActiveModel (app_service st ag env sha) req w1 = (Inr m, w2)" "rm_owner m = trim_scope owner"
      and eq: "ls_lower st (rm_credential_label m) = ls_lower st (trim_space label)"
    from ResolveActiveModel_Inr [OF this(1)] this(2) obtain r where
      "r \<in> set (lt_credentials (tables (lw_db w1)))" "live r" "cw_owner r = owner_args (trim_scope owner)"
      "rm_credential_label m = cw_label r" by metis
    with rows eq show False by (simp add: labelled_def)
  qed (use rows in \<open>simp add: labelled_def\<close>)
qed

subsection \<open>A guild with one credential\<close>

text \<open>A cipher that satisfies \<open>aead_ok\<close>: it appends the key data and a tag byte.\<close>

definition sample_aead :: aead where
  "sample_aead = \<lparr>ad_nonce_size = 2, ad_seal = (\<lambda>n p d. p @ ''#''), ad_open = (\<lambda>n c d. Some (butlast c))\<rparr>"

definition sample_sealer :: aes_gcm_sealer where
  "sample_sealer = \<lparr>ag_gcm = sample_aead, ag_key_id = ''k1''\<rparr>"

definition sample_llm_store :: llm_store where
  "sample_llm_store = NewSQLStore (Some ''c1'') id id (\<lambda>_. True) Some"

definition sample_env :: "llm_world http_env" where
  "sample_env = \<lparr>he_valid_url = (\<lambda>_. True), he_with_query = (\<lambda>u k v. Some u), he_do = (\<lambda>r w. (None, w))\<rparr>"

definition sample_svc :: "string \<Rightarrow> llm_world service" where
  "sample_svc n = app_service (sample_llm_store\<lparr>ls_new_id := Some n\<rparr>) sample_sealer sample_env (\<lambda>_. ''abc'')"

definition sample_owner :: owner_scope where
  "sample_owner = \<lparr>os_owner_type = OwnerGuild, os_guild_id = ''g'', os_user_id = []\<rparr>"

definition sample_add :: add_credential_request where
  "sample_add = \<lparr>ar_owner = sample_owner, ar_provider_id = ProviderOpenAI, ar_label = ''main'', ar_raw_secret = ''sk'',
     ar_actor_id = ''u''\<rparr>"

definition sample_select :: select_model_request where
  "sample_select = \<lparr>sr_owner = sample_owner, sr_purpose = PurposeChat, sr_credential_id = ''c1'',
     sr_provider_id = ProviderOpenAI, sr_model_id = ''m'', sr_params_json = [], sr_actor_id = ''u''\<rparr>"

definition sample_resolve :: resolve_model_request where
  "sample_resolve = \<lparr>rr_owner = sample_owner, rr_purpose = PurposeChat, rr_actor_id = ''u''\<rparr>"

definition empty_world :: llm_world where
  "empty_world = \<lparr>lw_db = \<lparr>tables = no_llm, clock = zero_time, faults = []\<rparr>, lw_ctx = None, lw_rand = ''xy''\<rparr>"

definition one_row :: credential_row where
  "one_row = \<lparr>cw_id = ''c1'', cw_owner = (OwnerGuild, Some ''g'', None), cw_provider_id = ProviderOpenAI,
     cw_label = ''main'', cw_ciphertext = ''sk#'', cw_nonce = ''xy'', cw_key_id = ''k1'', cw_fingerprint = ''abc'',
     cw_status = CredentialStatusActive, cw_last_test_status = Some TestStatusUntested, cw_last_error_code = None,
     cw_created_by = Some ''u'', cw_updated_by = Some ''u'', cw_revoked_at = None\<rparr>"

definition one_profile :: profile_row where
  "one_profile = \<lparr>pw_id = ''p1'', pw_owner = (OwnerGuild, Some ''g'', None), pw_purpose = PurposeChat,
     pw_credential_id = ''c1'', pw_provider_id = ProviderOpenAI, pw_model_id = ''m'', pw_params = ''{}'',
     pw_enabled = True, pw_selected_by = Some ''u'', pw_updated_at = zero_time\<rparr>"

definition world_with :: "credential_row list \<Rightarrow> profile_row list \<Rightarrow> llm_world" where
  "world_with cs ps = \<lparr>lw_db = \<lparr>tables = \<lparr>lt_credentials = cs, lt_profiles = ps\<rparr>, clock = zero_time, faults = []\<rparr>,
     lw_ctx = None, lw_rand = []\<rparr>"

lemma sample_scope: "normalizeScope sample_owner = Inr sample_owner" "trim_scope sample_owner = sample_owner"
  "owner_args sample_owner = (OwnerGuild, Some ''g'', None)"
  by (simp_all add: sample_owner_def normalizeScope_Inr_iff scope_valid_def owner_args_def nullArg_def go_eval)

lemma sample_provider: "registry_ValidateProvider DefaultRegistry ProviderOpenAI = Inr ()" "ValidateProvider ProviderOpenAI = Inr ()"
  "SupportsPurpose ProviderOpenAI PurposeChat" "registry_SupportsPurpose DefaultRegistry ProviderOpenAI PurposeChat"
  "ValidatePurpose PurposeChat = Inr ()" "ValidateModelID ''m'' = Inr ''m''"
  by (simp_all add: ValidateProvider_def registry_ValidateProvider_def Spec_def DefaultRegistry_def SupportsPurpose_def
      registry_SupportsPurpose_def Validate_Inr is_control_rune_def go_eval)

lemma sample_new_id: "trim_space ''c1'' = ''c1''" "trim_space ''p1'' = ''p1''" "trim_space ''main'' = ''main''"
  "trim_space ''sk'' = ''sk''" "trim_space ''u'' = ''u''" "trim_space ''k1'' = ''k1''" "trim_space ''abc'' = ''abc''"
  "trim_space ProviderOpenAI = ProviderOpenAI" "trim_space ''{}'' = ''{}''" "trim_space ''m'' = ''m''"
  by (simp_all add: go_eval)

lemma sample_parts:
  "sv_store (sample_svc n) = Some (sql_credential_store (sample_llm_store\<lparr>ls_new_id := Some n\<rparr>))"
  "sv_sealer (sample_svc n) = Some (AESGCMSealer lw_ctx draw_bytes sample_sealer)"
  "service_registry (sample_svc n) = DefaultRegistry" "sv_sha256_hex (sample_svc n) x = ''abc''"
  "sv_json_valid (sample_svc n) x"
  by (simp_all add: sample_svc_def app_service_defs service_registry_def DefaultRegistry_def sample_llm_store_def NewSQLStore_def)

lemma sample_store_parts:
  "ls_begin_tx sample_llm_store" "ls_query sample_llm_store" "ls_lower sample_llm_store = id"
  "ls_json_valid sample_llm_store x" "ls_jsonb sample_llm_store = Some"
  by (simp_all add: sample_llm_store_def NewSQLStore_def)

abbreviation sample_input :: credential_input where
  "sample_input \<equiv> \<lparr>ci_owner = sample_owner, ci_provider_id = ProviderOpenAI, ci_label = ''main'',
      ci_ciphertext = ''sk#'', ci_nonce = ''xy'', ci_key_id = ''k1'', ci_fingerprint = ''abc'', ci_created_by = ''u'',
      ci_updated_by = ''u''\<rparr>"

lemma sample_upsert:
  "UpsertCredential (sample_llm_store\<lparr>ls_new_id := Some ''c1''\<rparr>) sample_input (lw_db (world_with [] [])) =
     (Inr (scanCredentialRecord one_row), lw_db (world_with [one_row] []))"
proof -
  have norm: "normalizeCredentialInput sample_input = Inr sample_input"
    by (simp add: normalizeCredentialInput_def sample_scope sample_new_id sample_provider)
  have row: "new_credential ''c1'' sample_input = one_row"
    by (simp add: new_credential_def one_row_def sample_scope)
  have chk: "owner_check (cw_owner one_row)" by (simp add: owner_check_def one_row_def)
  show ?thesis
    by (simp add: UpsertCredential_def norm sample_store_parts sample_new_id sql_tx_def world_with_def row
        upsert_credential_def chk)
qed

lemma sample_add_run:
  "AddCredential (sample_svc ''c1'') sample_add empty_world =
     (Inr (scrubCredentialRecord (scanCredentialRecord one_row)), world_with [one_row] [])"
proof -
  have norm: "normalizeAddCredentialRequest (sample_svc ''c1'') sample_add = Inr (sample_owner, ProviderOpenAI, ''main'', ''u'')"
    by (simp add: normalizeAddCredentialRequest_def sample_parts sample_add_def sample_scope sample_new_id sample_provider)
  have seal: "AESGCM_Seal lw_ctx draw_bytes sample_sealer ''sk'' a empty_world =
      (Inr \<lparr>ss_ciphertext = ''sk#'', ss_nonce = ''xy'', ss_key_id = ''k1''\<rparr>, world_with [] [])" for a
    by (simp add: AESGCM_Seal_def empty_world_def sample_sealer_def sample_aead_def draw_bytes_def world_with_def)
  have fp: "secret_Fingerprint (sv_sha256_hex (sample_svc ''c1'')) ''sk'' = Inr ''abc''"
    by (simp add: secret_Fingerprint_def sample_parts sample_new_id)
  have raw: "trim_space (ar_raw_secret sample_add) = ''sk''" by (simp add: sample_add_def sample_new_id)
  have up: "on_db (UpsertCredential (sample_llm_store\<lparr>ls_new_id := Some ''c1''\<rparr>) sample_input) (world_with [] []) =
      (Inr (scanCredentialRecord one_row), world_with [one_row] [])"
    using sample_upsert by (simp add: on_db_def) (simp add: world_with_def)
  show ?thesis
    by (simp add: AddCredential_def sample_parts norm raw fp AESGCMSealer_def seal sql_credential_store_def sample_new_id up)
qed

lemma sample_ok: "llm_ok id (tables (lw_db empty_world))" "llm_ok id (tables (lw_db (world_with [one_row] [])))"
  using normalizeScope_Inr [OF sample_scope(1)]
  by (simp_all add: empty_world_def llm_ok_def world_with_def credential_ok_def one_row_def live_def label_index_def sample_scope)

definition revoked_row :: credential_row where
  "revoked_row = one_row\<lparr>cw_revoked_at := Some zero_time, cw_status := CredentialStatusRevoked, cw_updated_by := Some ''u'',
     cw_ciphertext := [], cw_nonce := []\<rparr>"

lemma sample_revoke:
  "service_RevokeCredential (sample_svc ''c1'') sample_owner ''main'' ''u'' (world_with [one_row] []) =
     (Inr (), world_with [revoked_row] [])"
proof -
  have "labelled id (OwnerGuild, Some ''g'', None) ''main'' one_row" "live one_row"
    by (simp_all add: labelled_def one_row_def live_def)
  then have "RevokeCredential (sample_llm_store\<lparr>ls_new_id := Some ''c1''\<rparr>) sample_owner ''main'' ''u'' (lw_db (world_with [one_row] [])) =
      (Inr (), lw_db (world_with [revoked_row] []))"
    by (simp add: RevokeCredential_def sample_scope sample_new_id sample_store_parts world_with_def sql_tx_def
        revoke_rows_def disable_revoked_def requireLLMRowsAffected_def count_where_def update_where_def revoked_row_def)
  then have "on_db (RevokeCredential (sample_llm_store\<lparr>ls_new_id := Some ''c1''\<rparr>) sample_owner ''main'' ''u'') (world_with [one_row] []) =
      (Inr (), world_with [revoked_row] [])"
    by (simp add: on_db_def) (simp add: world_with_def)
  then show ?thesis
    by (simp add: service_RevokeCredential_def sample_parts sql_credential_store_def sample_scope sample_new_id)
qed

lemma revoked_credential_unusable_witness:
  "service_RevokeCredential (sample_svc ''c1'') sample_owner ''main'' ''u'' (world_with [one_row] []) =
     (Inr (), world_with [revoked_row] []) \<and> revoked_row \<in> set (lt_credentials (tables (lw_db (world_with [revoked_row] [])))) \<and>
   cw_ciphertext revoked_row = []"
proof -
  have "llm_ok (ls_lower (sample_llm_store\<lparr>ls_new_id := Some ''c1''\<rparr>)) (tables (lw_db (world_with [one_row] [])))"
    using sample_ok(2) by (simp add: sample_store_parts)
  from conjunct2 [OF revoked_credential_unusable [OF this sample_revoke [unfolded sample_svc_def]]]
  have "\<forall>r\<in>{revoked_row}. cw_owner r = owner_args sample_owner \<longrightarrow> cw_label r = ''main'' \<longrightarrow> cw_ciphertext r = []"
    by (simp add: world_with_def sample_store_parts sample_scope sample_new_id)
  moreover have "cw_owner revoked_row = owner_args sample_owner" "cw_label revoked_row = ''main''"
    by (simp_all add: revoked_row_def one_row_def sample_scope)
  ultimately show ?thesis using sample_revoke by (simp add: world_with_def)
qed

lemma sample_select_run:
  "service_SelectModelProfile (sample_svc ''p1'') sample_select (world_with [one_row] []) = (Inr (), world_with [one_row] [one_profile])"
proof -
  let ?in = "\<lparr>mi_owner = sample_owner, mi_purpose = PurposeChat, mi_credential_id = ''c1'', mi_provider_id = ProviderOpenAI,
      mi_model_id = ''m'', mi_params_json = ''{}'', mi_selected_by = ''u''\<rparr>"
  have norm: "modelProfileInput (sample_svc ''p1'') sample_select = Inr ?in"
    by (simp add: modelProfileInput_def sample_select_def sample_parts sample_scope sample_new_id sample_provider)
  have norm2: "normalizeModelProfileInput (sample_llm_store\<lparr>ls_new_id := Some ''p1''\<rparr>) ?in = Inr ?in"
    by (simp add: normalizeModelProfileInput_def sample_store_parts sample_scope sample_new_id sample_provider)
  have row: "cw_id one_row = ''c1''" "cw_provider_id one_row = ProviderOpenAI" "cw_owner one_row = (OwnerGuild, Some ''g'', None)"
    "cw_status one_row = CredentialStatusActive" "live one_row"
    by (simp_all add: one_row_def live_def)
  have "SelectModelProfile (sample_llm_store\<lparr>ls_new_id := Some ''p1''\<rparr>) ?in (lw_db (world_with [one_row] [])) =
      (Inr (), lw_db (world_with [one_row] [one_profile]))"
    by (simp add: SelectModelProfile_def norm2 sample_store_parts sample_new_id world_with_def sql_tx_def disable_profiles_def
        update_where_def requireLLMRowsAffected_def insert_profile_def row sample_scope one_profile_def)
  then have "on_db (SelectModelProfile (sample_llm_store\<lparr>ls_new_id := Some ''p1''\<rparr>) ?in) (world_with [one_row] []) =
      (Inr (), world_with [one_row] [one_profile])"
    by (simp add: on_db_def) (simp add: world_with_def)
  then show ?thesis
    by (simp add: service_SelectModelProfile_def sample_parts norm sql_credential_store_def)
qed

lemma sample_aead_ok: "aead_ok (ag_gcm sample_sealer)"
  by (simp add: aead_ok_def sample_sealer_def sample_aead_def)

lemma added_credential_resolves_witness:
  "\<exists>m. ResolveActiveModel (sample_svc ''c1'') sample_resolve (world_with [one_row] [one_profile]) =
     (Inr m, world_with [one_row] [one_profile]) \<and> rm_api_key m = ''sk'' \<and> rm_model_id m = ''m''"
proof -
  have "\<exists>m. ResolveActiveModel (app_service (sample_llm_store\<lparr>ls_new_id := Some ''c1''\<rparr>) sample_sealer sample_env (\<lambda>_. ''abc''))
      sample_resolve (world_with [one_row] [one_profile]) = (Inr m, world_with [one_row] [one_profile]) \<and>
    rm_api_key m = trim_space (ar_raw_secret sample_add) \<and>
    rm_credential_id m = cr_id (scrubCredentialRecord (scanCredentialRecord one_row)) \<and>
    rm_provider_id m = trim_space (ar_provider_id sample_add) \<and> rm_model_id m = trim_space (sr_model_id sample_select) \<and>
    rm_purpose m = sr_purpose sample_select \<and> rm_owner m = trim_scope (ar_owner sample_add) \<and>
    rm_billing_owner_id m = billingOwnerID (trim_scope (ar_owner sample_add))"
  proof (rule added_credential_resolves [where ?n1.0 = "Some ''c1''" and ?n2.0 = "Some ''p1''"])
    show "AddCredential (app_service (sample_llm_store\<lparr>ls_new_id := Some ''c1'', ls_new_id := Some ''c1''\<rparr>) sample_sealer
        sample_env (\<lambda>_. ''abc'')) sample_add empty_world =
        (Inr (scrubCredentialRecord (scanCredentialRecord one_row)), world_with [one_row] [])"
      using sample_add_run by (simp add: sample_svc_def)
    show "service_SelectModelProfile (app_service (sample_llm_store\<lparr>ls_new_id := Some ''c1'', ls_new_id := Some ''p1''\<rparr>)
        sample_sealer sample_env (\<lambda>_. ''abc'')) sample_select (world_with [one_row] []) =
        (Inr (), world_with [one_row] [one_profile])"
      using sample_select_run by (simp add: sample_svc_def)
    show "aead_ok (ag_gcm sample_sealer)" by (rule sample_aead_ok)
  qed (use sample_ok(1) in \<open>simp_all add: sample_store_parts sample_sealer_def sample_new_id sample_select_def
      sample_resolve_def world_with_def scrubCredentialRecord_def scanCredentialRecord_def one_row_def\<close>)
  then show ?thesis
    by (auto simp: sample_svc_def sample_add_def sample_select_def sample_new_id)
qed

lemma llm_tables_sound_witness:
  "one_row \<in> set (lt_credentials (tables (run_llm sample_llm_store [(''c1'', OpUpsertCredential sample_input)] (lw_db (world_with [] []))))) \<and>
    (if live one_row then cw_status one_row = CredentialStatusActive \<and> cw_ciphertext one_row \<noteq> [] \<and> cw_nonce one_row \<noteq> []
     else cw_status one_row = CredentialStatusRevoked \<and> cw_ciphertext one_row = [] \<and> cw_nonce one_row = [])"
proof -
  have run: "run_llm sample_llm_store [(''c1'', OpUpsertCredential sample_input)] (lw_db (world_with [] [])) =
      lw_db (world_with [one_row] [])"
    by (simp add: run_llm_def sample_upsert)
  have "tables (lw_db (world_with [] [])) = no_llm" by (simp add: world_with_def)
  from llm_tables_sound [OF this, of sample_llm_store "[(''c1'', OpUpsertCredential sample_input)]", unfolded run]
  show ?thesis unfolding run by (simp add: world_with_def)
qed

end
