(* ===== verification/LlmUsage.thy ===== *)
theory LlmUsage
  imports ProviderService
begin

text \<open>
  \<^verbatim>\<open>internal/llm/provider/usage.go\<close>, the usage events and their SQL recorder, and \<^verbatim>\<open>internal/llm/runtime.go\<close>, which
  resolves a model, calls the provider and records the usage of the call. Token counts are Go's \<^verbatim>\<open>int\<close>, of 64 bits,
  and the column's \<^verbatim>\<open>integer\<close>, of 32.
\<close>

subsection \<open>Usage events\<close>

type_synonym usage_status = string

abbreviation UsageStatusSucceeded :: usage_status where "UsageStatusSucceeded \<equiv> ''succeeded''"
abbreviation UsageStatusFailed :: usage_status where "UsageStatusFailed \<equiv> ''failed''"

record usage_event =
  ue_id :: string
  ue_request_id :: string
  ue_guild_id :: string
  ue_channel_id :: string
  ue_actor_user_id :: string
  ue_billing_owner_type :: owner_type
  ue_billing_owner_id :: string
  ue_provider_id :: provider_id
  ue_model_id :: string
  ue_purpose :: purpose
  ue_input_tokens :: int
  ue_output_tokens :: int
  ue_status :: usage_status
  ue_error_class :: string

record usage_summary =
  us_billing_owner_type :: owner_type
  us_billing_owner_id :: string
  us_input_tokens :: int
  us_output_tokens :: int
  us_total_events :: int
  us_failed_events :: int

text \<open>A row of \<^verbatim>\<open>llm_usage_events\<close>: the event with its columns \<^verbatim>\<open>guild_id\<close> and \<^verbatim>\<open>channel_id\<close>, which may be null.\<close>

record usage_row = usage_event +
  ur_guild_id :: "string option"
  ur_channel_id :: "string option"

type_synonym usage_db = "usage_row list sqldb"

text \<open>The recorder: what its \<^verbatim>\<open>db\<close> can do, and what \<^verbatim>\<open>newID\<close> returns (\<open>None\<close> if it is nil).\<close>

record usage_recorder =
  uc_exec :: bool
  uc_query :: bool
  uc_new_id :: "string option"

definition nullUsageStringArg :: "string \<Rightarrow> string option" where
  "nullUsageStringArg v = (if v = [] then None else Some v)"

definition normalizeUsageEvent :: "usage_event \<Rightarrow> usage_event" where
  "normalizeUsageEvent e = e\<lparr>ue_request_id := trim_space (ue_request_id e), ue_guild_id := trim_space (ue_guild_id e),
     ue_channel_id := trim_space (ue_channel_id e), ue_actor_user_id := trim_space (ue_actor_user_id e),
     ue_billing_owner_type := trim_space (ue_billing_owner_type e),
     ue_billing_owner_id := trim_space (ue_billing_owner_id e), ue_provider_id := trim_space (ue_provider_id e),
     ue_model_id := trim_space (ue_model_id e), ue_purpose := trim_space (ue_purpose e),
     ue_status := trim_space (ue_status e), ue_error_class := trim_space (ue_error_class e)\<rparr>"

definition validateUsageEvent :: "usage_event \<Rightarrow> unit result" where
  "validateUsageEvent e =
     require (ue_request_id e \<noteq> []) ''request ID is required'' (
     require (ue_actor_user_id e \<noteq> []) ''actor user ID is required'' (
     attempt (ValidateOwnerType (ue_billing_owner_type e)) (\<lambda>_.
     require (ue_billing_owner_id e \<noteq> []) ''billing owner ID is required'' (
     attempt (ValidateProvider (ue_provider_id e)) (\<lambda>_.
     attempt (ValidateModelID (ue_model_id e)) (\<lambda>_.
     attempt (ValidatePurpose (ue_purpose e)) (\<lambda>_.
     require (SupportsPurpose (ue_provider_id e) (ue_purpose e)) ''provider does not support purpose'' (
     require (0 \<le> ue_input_tokens e \<and> 0 \<le> ue_output_tokens e) ''usage tokens must be nonnegative'' (
     require (ue_status e \<in> {UsageStatusSucceeded, UsageStatusFailed}) ''unknown usage status'' (Inr ()))))))))))"

definition usage_row_of :: "string \<Rightarrow> usage_event \<Rightarrow> usage_row" where
  "usage_row_of i e = usage_event.extend (e\<lparr>ue_id := i\<rparr>)
     \<lparr>ur_guild_id = nullUsageStringArg (ue_guild_id e), ur_channel_id = nullUsageStringArg (ue_channel_id e)\<rparr>"

definition insert_usage :: "string \<Rightarrow> usage_event \<Rightarrow> (usage_row list, unit) statement" where
  "insert_usage i e now rows =
     (if i \<in> ue_id ` set rows then Inl (Errorf ''duplicate key value violates unique constraint'')
      else if \<not> int4 (ue_input_tokens e) \<or> \<not> int4 (ue_output_tokens e) then Inl (Errorf ''integer out of range'')
      else Inr ((), rows @ [usage_row_of i e]))"

definition RecordUsage :: "usage_recorder \<Rightarrow> usage_event \<Rightarrow> usage_db \<Rightarrow> unit result \<times> usage_db" where
  "RecordUsage r event0 db =
     (if \<not> uc_exec r then (Inl (Errorf ''usage exec database is required''), db)
      else let event = normalizeUsageEvent event0 in
        case validateUsageEvent event of
          Inl e \<Rightarrow> (Inl e, db)
        | Inr _ \<Rightarrow>
            (let i = (case uc_new_id r of None \<Rightarrow> [] | Some n \<Rightarrow> trim_space n) in
             if i = [] then (Inl (Errorf ''usage event ID is required''), db)
             else wrap_err ''insert usage event'' (sql_exec (insert_usage i event) db)))"

definition summarize :: "string \<Rightarrow> usage_row list \<Rightarrow> usage_summary" where
  "summarize guildID rows =
     (let rs = filter (\<lambda>r. ur_guild_id r = Some guildID) rows in
      \<lparr>us_billing_owner_type = OwnerGuild, us_billing_owner_id = guildID,
       us_input_tokens = sum_list (map ue_input_tokens rs), us_output_tokens = sum_list (map ue_output_tokens rs),
       us_total_events = int (length rs),
       us_failed_events = int (length (filter (\<lambda>r. ue_status r = UsageStatusFailed) rs))\<rparr>)"

definition GuildUsageSummary :: "usage_recorder \<Rightarrow> string \<Rightarrow> usage_db \<Rightarrow> usage_summary result \<times> usage_db" where
  "GuildUsageSummary r guildID0 db =
     (let guildID = trim_space guildID0 in
      if guildID = [] then (Inl (Errorf ''guild ID is required''), db)
      else if \<not> uc_query r then (Inl (Errorf ''usage query database is required''), db)
      else wrap_err ''query guild usage summary'' (sql_exec (\<lambda>now rows. Inr (summarize guildID rows, rows)) db))"

subsection \<open>One call of a provider\<close>

record text_answer =
  ta_text :: string
  ta_input_tokens :: int
  ta_output_tokens :: int
  ta_request_id :: string
  ta_provider_id :: string
  ta_model_id :: string

definition no_answer :: text_answer where
  "no_answer = \<lparr>ta_text = [], ta_input_tokens = 0, ta_output_tokens = 0, ta_request_id = [], ta_provider_id = [],
     ta_model_id = []\<rparr>"

record resolved_text_request =
  xr_resolved :: resolved_model
  xr_instructions :: string
  xr_input :: string
  xr_max_output_tokens :: int

record 'w llm_runtime =
  lr_resolver :: "(resolve_model_request \<Rightarrow> 'w \<Rightarrow> resolved_model result \<times> 'w) option"
  lr_client :: "(resolved_text_request \<Rightarrow> 'w \<Rightarrow> text_answer result \<times> 'w) option"
  lr_usage :: "(usage_event \<Rightarrow> 'w \<Rightarrow> unit result \<times> 'w) option"
  lr_new_request_id :: "string option"

record generate_text_request =
  gt_owner :: owner_scope
  gt_purpose :: purpose
  gt_actor_user_id :: string
  gt_guild_id :: string
  gt_channel_id :: string
  gt_request_id :: string
  gt_instructions :: string
  gt_input :: string
  gt_max_output_tokens :: int

definition normalizeGenerateTextRequest :: "'w llm_runtime \<Rightarrow> generate_text_request \<Rightarrow> generate_text_request result" where
  "normalizeGenerateTextRequest r req0 =
     (let req = req0\<lparr>gt_actor_user_id := trim_space (gt_actor_user_id req0), gt_guild_id := trim_space (gt_guild_id req0),
            gt_channel_id := trim_space (gt_channel_id req0), gt_request_id := trim_space (gt_request_id req0),
            gt_instructions := trim_space (gt_instructions req0), gt_input := trim_space (gt_input req0)\<rparr>
      in require (gt_actor_user_id req \<noteq> []) ''actor user ID is required'' (
         attempt (ValidatePurpose (gt_purpose req)) (\<lambda>_.
         require (gt_input req \<noteq> []) ''text input is required'' (
         require (0 \<le> gt_max_output_tokens req) ''max output tokens must be nonnegative'' (
           let rid = (if gt_request_id req = []
                 then (case lr_new_request_id r of None \<Rightarrow> [] | Some n \<Rightarrow> trim_space n) else gt_request_id req)
           in require (\<not> (rid = [] \<and> lr_usage r \<noteq> None)) ''request ID is required'' (
                Inr (req\<lparr>gt_request_id := rid\<rparr>)))))))"

definition classifyUsageError :: "goerror \<Rightarrow> string" where
  "classifyUsageError e =
     (case provider_status e of
        Some code \<Rightarrow>
          if code = 401 \<or> code = 403 then ''provider_auth''
          else if code = 429 then ''provider_rate_limited''
          else if code \<ge> 500 then ''provider_unavailable''
          else ''provider_request_failed''
      | None \<Rightarrow> if errors_is e ErrUnsupportedProvider then ''unsupported_provider'' else ''provider_request_failed'')"

definition call_event :: "generate_text_request \<Rightarrow> resolved_model \<Rightarrow> text_answer result \<Rightarrow> usage_event" where
  "call_event req m answer =
     (let a = (case answer of Inl _ \<Rightarrow> no_answer | Inr a \<Rightarrow> a) in
      \<lparr>ue_id = [], ue_request_id = gt_request_id req, ue_guild_id = gt_guild_id req, ue_channel_id = gt_channel_id req,
       ue_actor_user_id = gt_actor_user_id req, ue_billing_owner_type = rm_billing_owner_type m,
       ue_billing_owner_id = rm_billing_owner_id m, ue_provider_id = rm_provider_id m, ue_model_id = rm_model_id m,
       ue_purpose = rm_purpose m, ue_input_tokens = ta_input_tokens a, ue_output_tokens = ta_output_tokens a,
       ue_status = (case answer of Inl _ \<Rightarrow> UsageStatusFailed | Inr _ \<Rightarrow> UsageStatusSucceeded),
       ue_error_class = (case answer of Inl e \<Rightarrow> classifyUsageError e | Inr _ \<Rightarrow> [])\<rparr>)"

definition recordUsage ::
  "'w llm_runtime \<Rightarrow> generate_text_request \<Rightarrow> resolved_model \<Rightarrow> text_answer result \<Rightarrow> 'w \<Rightarrow> unit result \<times> 'w" where
  "recordUsage r req m answer w =
     (case lr_usage r of None \<Rightarrow> (Inr (), w) | Some record_usage \<Rightarrow> record_usage (call_event req m answer) w)"

definition GenerateText :: "'w llm_runtime \<Rightarrow> generate_text_request \<Rightarrow> 'w \<Rightarrow> text_answer result \<times> 'w" where
  "GenerateText r req0 w =
     (case (lr_resolver r, lr_client r) of
        (None, _) \<Rightarrow> (Inl (Errorf ''llm model resolver is required''), w)
      | (Some _, None) \<Rightarrow> (Inl (Errorf ''llm text client is required''), w)
      | (Some resolve, Some client) \<Rightarrow>
          (case normalizeGenerateTextRequest r req0 of
             Inl e \<Rightarrow> (Inl e, w)
           | Inr req \<Rightarrow>
               db_bind (resolve \<lparr>rr_owner = gt_owner req, rr_purpose = gt_purpose req, rr_actor_id = gt_actor_user_id req\<rparr> w)
                 (\<lambda>m w1.
                   case client \<lparr>xr_resolved = m, xr_instructions = gt_instructions req, xr_input = gt_input req,
                        xr_max_output_tokens = gt_max_output_tokens req\<rparr> w1 of
                     (answer, w2) \<Rightarrow>
                       (case (answer, recordUsage r req m answer w2) of
                          (Inl e, (Inl _, w3)) \<Rightarrow> (Inl (Wrap ''record usage'' e), w3)
                        | (Inl e, (Inr _, w3)) \<Rightarrow> (Inl e, w3)
                        | (Inr _, (Inl e, w3)) \<Rightarrow> (Inl e, w3)
                        | (Inr a, (Inr _, w3)) \<Rightarrow>
                            (Inr (a\<lparr>ta_request_id := gt_request_id req, ta_provider_id := rm_provider_id m,
                               ta_model_id := rm_model_id m\<rparr>), w3)))))"

subsection \<open>Every answer is paid for\<close>

text \<open>A runtime over the usage table and whatever the resolver and the provider's client act on.\<close>

record 'x usage_world =
  uw_db :: usage_db
  uw_env :: 'x

definition on_usage :: "(usage_db \<Rightarrow> 'a \<times> usage_db) \<Rightarrow> 'x usage_world \<Rightarrow> 'a \<times> 'x usage_world" where
  "on_usage f w = (case f (uw_db w) of (r, d) \<Rightarrow> (r, w\<lparr>uw_db := d\<rparr>))"

definition on_env :: "('x \<Rightarrow> 'a \<times> 'x) \<Rightarrow> 'x usage_world \<Rightarrow> 'a \<times> 'x usage_world" where
  "on_env f w = (case f (uw_env w) of (r, x) \<Rightarrow> (r, w\<lparr>uw_env := x\<rparr>))"

definition billed ::
  "(resolve_model_request \<Rightarrow> 'x \<Rightarrow> resolved_model result \<times> 'x) \<Rightarrow>
   (resolved_text_request \<Rightarrow> 'x \<Rightarrow> text_answer result \<times> 'x) \<Rightarrow> usage_recorder \<Rightarrow> string option \<Rightarrow> 'x usage_world llm_runtime"
where
  "billed resolve client rec rid =
     \<lparr>lr_resolver = Some (\<lambda>q. on_env (resolve q)), lr_client = Some (\<lambda>q. on_env (client q)),
      lr_usage = Some (\<lambda>e. on_usage (RecordUsage rec e)), lr_new_request_id = rid\<rparr>"

lemma on_env_db: "on_env f w = (r, w') \<Longrightarrow> uw_db w' = uw_db w"
  by (auto simp: on_env_def split: prod.splits)

interpretation record_usage_op: atomic_op "RecordUsage r e"
  by unfold_locales (auto simp: RecordUsage_def Let_def wrap_err_Inl_iff split: if_splits sum.splits option.splits dest: sql_exec_Inl)

lemma RecordUsage_Inr:
  assumes "RecordUsage r e db = (Inr u, db')"
  shows "\<exists>i. tables db' = tables db @ [usage_row_of i (normalizeUsageEvent e)]"
proof -
  from assms obtain i where "sql_exec (insert_usage i (normalizeUsageEvent e)) db = (Inr u, db')"
    by (auto simp: RecordUsage_def Let_def split: if_splits sum.splits)
  from sql_exec_Inr [OF this] show ?thesis
    by (intro exI [of _ i]) (simp add: insert_usage_def split: if_splits)
qed

text \<open>What a call adds to the summary of a guild.\<close>

definition add_answer :: "text_answer \<Rightarrow> usage_summary \<Rightarrow> usage_summary" where
  "add_answer a s = s\<lparr>us_input_tokens := us_input_tokens s + ta_input_tokens a,
     us_output_tokens := us_output_tokens s + ta_output_tokens a, us_total_events := us_total_events s + 1\<rparr>"

definition add_failure :: "usage_summary \<Rightarrow> usage_summary" where
  "add_failure s = s\<lparr>us_total_events := us_total_events s + 1, us_failed_events := us_failed_events s + 1\<rparr>"

lemma normalized_event [simp]:
  "ue_guild_id (normalizeUsageEvent e) = trim_space (ue_guild_id e)"
  "ue_input_tokens (normalizeUsageEvent e) = ue_input_tokens e"
  "ue_output_tokens (normalizeUsageEvent e) = ue_output_tokens e"
  "ue_status (normalizeUsageEvent e) = trim_space (ue_status e)"
  by (simp_all add: normalizeUsageEvent_def)

lemma usage_row_fields [simp]:
  "ur_guild_id (usage_row_of i e) = nullUsageStringArg (ue_guild_id e)" "ue_status (usage_row_of i e) = ue_status e"
  "ue_input_tokens (usage_row_of i e) = ue_input_tokens e" "ue_output_tokens (usage_row_of i e) = ue_output_tokens e"
  by (simp_all add: usage_row_of_def usage_event.defs)

lemma status_words [simp]: "trim_space UsageStatusSucceeded = UsageStatusSucceeded" "trim_space UsageStatusFailed = UsageStatusFailed"
  by (simp_all add: go_eval)

lemma summarize_answer:
  assumes "trim_space (gt_guild_id req) = g" "g \<noteq> []"
  shows "summarize g (rows @ [usage_row_of i (normalizeUsageEvent (call_event req m (Inr a)))]) = add_answer a (summarize g rows)"
  using assms by (simp add: summarize_def Let_def call_event_def add_answer_def nullUsageStringArg_def)

lemma summarize_failure:
  assumes "trim_space (gt_guild_id req) = g" "g \<noteq> []"
  shows "summarize g (rows @ [usage_row_of i (normalizeUsageEvent (call_event req m (Inl e)))]) = add_failure (summarize g rows)"
  using assms by (simp add: summarize_def Let_def call_event_def add_failure_def nullUsageStringArg_def no_answer_def)

text \<open>When the recorder stores an event: it is valid, it gets an id no row has, and the driver does not fail.\<close>

definition recordable :: "usage_recorder \<Rightarrow> usage_event \<Rightarrow> usage_db \<Rightarrow> bool" where
  "recordable rec e db \<longleftrightarrow>
     uc_exec rec \<and> validateUsageEvent (normalizeUsageEvent e) = Inr () \<and>
     (\<exists>n. uc_new_id rec = Some n \<and> trim_space n \<noteq> [] \<and> trim_space n \<notin> ue_id ` set (tables db)) \<and>
     int4 (ue_input_tokens e) \<and> int4 (ue_output_tokens e) \<and> fst (next_fault db) = None"

lemma RecordUsage_recordable:
  assumes "recordable rec e db"
  shows "fst (RecordUsage rec e db) = Inr ()"
proof -
  obtain n where n: "uc_new_id rec = Some n" "trim_space n \<noteq> []" "trim_space n \<notin> ue_id ` set (tables db)"
    using assms by (auto simp: recordable_def)
  have "insert_usage (trim_space n) (normalizeUsageEvent e) (clock db) (tables db) =
      Inr ((), tables db @ [usage_row_of (trim_space n) (normalizeUsageEvent e)])"
    using assms n(3) by (simp add: insert_usage_def recordable_def)
  with assms have "fst (sql_exec (insert_usage (trim_space n) (normalizeUsageEvent e)) db) = Inr ()"
    by (simp add: recordable_def exec_runs)
  then show ?thesis
    using assms n by (auto simp: RecordUsage_def recordable_def wrap_err_def split: prod.splits sum.splits)
qed

lemma RecordUsage_not_recordable:
  assumes "\<not> recordable rec e db"
  shows "\<exists>err. fst (RecordUsage rec e db) = Inl err"
proof (rule ccontr)
  assume "\<nexists>err. fst (RecordUsage rec e db) = Inl err"
  then obtain db' where R: "RecordUsage rec e db = (Inr (), db')"
    by (cases "RecordUsage rec e db"; cases "fst (RecordUsage rec e db)") auto
  then obtain n where n: "uc_exec rec" "validateUsageEvent (normalizeUsageEvent e) = Inr ()" "uc_new_id rec = Some n"
      "trim_space n \<noteq> []" "sql_exec (insert_usage (trim_space n) (normalizeUsageEvent e)) db = (Inr (), db')"
    by (auto simp: RecordUsage_def Let_def split: if_splits sum.splits option.splits)
  from sql_exec_Inr [OF n(5)] have "trim_space n \<notin> ue_id ` set (tables db)" "int4 (ue_input_tokens e)" "int4 (ue_output_tokens e)"
    by (simp_all add: insert_usage_def split: if_splits)
  moreover have "fst (next_fault db) = None"
    using n(5) by (auto simp: sql_exec_def split: prod.splits option.splits)
  ultimately show False using assms n by (auto simp: recordable_def)
qed

lemma RecordUsage_cases:
  "RecordUsage rec e db = (x, db') \<Longrightarrow>
     (if recordable rec e db
      then x = Inr () \<and> (\<exists>i. tables db' = tables db @ [usage_row_of i (normalizeUsageEvent e)])
      else (\<exists>err. x = Inl err) \<and> tables db' = tables db)"
  using RecordUsage_recordable [of rec e db] RecordUsage_not_recordable [of rec e db] RecordUsage_Inr [of rec e db]
    record_usage_op.failed_unchanged [of rec e db] by auto

lemma normalizeGenerateTextRequest_guild:
  "normalizeGenerateTextRequest r req0 = Inr req \<Longrightarrow> gt_guild_id req = trim_space (gt_guild_id req0)"
  by (auto simp: normalizeGenerateTextRequest_def Let_def)

text \<open>
  Whether a call gets as far as the provider, and what it answers: the normalized request, the model and the answer, with
  what the resolver and the client have left of what they act on.
\<close>

definition asked ::
  "(resolve_model_request \<Rightarrow> 'x \<Rightarrow> resolved_model result \<times> 'x) \<Rightarrow>
   (resolved_text_request \<Rightarrow> 'x \<Rightarrow> text_answer result \<times> 'x) \<Rightarrow> generate_text_request result \<Rightarrow> 'x \<Rightarrow>
   (generate_text_request \<times> resolved_model \<times> text_answer result) option \<times> 'x"
where
  "asked resolve client normalized x =
     (case normalized of
        Inl e \<Rightarrow> (None, x)
      | Inr req \<Rightarrow>
          (case resolve \<lparr>rr_owner = gt_owner req, rr_purpose = gt_purpose req, rr_actor_id = gt_actor_user_id req\<rparr> x of
             (Inl e, y) \<Rightarrow> (None, y)
           | (Inr m, y) \<Rightarrow>
               (case client \<lparr>xr_resolved = m, xr_instructions = gt_instructions req, xr_input = gt_input req,
                    xr_max_output_tokens = gt_max_output_tokens req\<rparr> y of
                  (answer, z) \<Rightarrow> (Some (req, m, answer), z))))"

lemma GenerateText_asked:
  assumes "GenerateText (billed resolve client rec rid) req0 w = (r, w')"
    and "asked resolve client (normalizeGenerateTextRequest (billed resolve client rec rid) req0) (uw_env w) = (call, x)"
  shows "uw_env w' = x \<and>
    (case call of
       None \<Rightarrow> (\<exists>e. r = Inl e) \<and> uw_db w' = uw_db w
     | Some (req, m, answer) \<Rightarrow>
         normalizeGenerateTextRequest (billed resolve client rec rid) req0 = Inr req \<and>
         uw_db w' = snd (RecordUsage rec (call_event req m answer) (uw_db w)) \<and>
         r = (case (answer, fst (RecordUsage rec (call_event req m answer) (uw_db w))) of
               (Inl e, Inl _) \<Rightarrow> Inl (Wrap ''record usage'' e)
             | (Inl e, Inr _) \<Rightarrow> Inl e
             | (Inr _, Inl e) \<Rightarrow> Inl e
             | (Inr a, Inr _) \<Rightarrow> Inr (a\<lparr>ta_request_id := gt_request_id req, ta_provider_id := rm_provider_id m,
                  ta_model_id := rm_model_id m\<rparr>)))"
  using assms
  by (auto simp: asked_def GenerateText_def billed_def recordUsage_def on_env_def on_usage_def db_bind_def
      split: sum.splits prod.splits)

text \<open>
  C17: every answer is counted, whatever the resolver and the client do. A call that is refused before the
  provider is asked, by the checks of the request or by the resolver, is an error and leaves the usage table alone. When the
  provider was asked and the recorder can store the event, a text is returned and the guild's summary has grown by exactly
  its tokens and one event, or the provider's error is returned and the summary has grown by one failed event and
  no tokens. When the recorder cannot store the event, the call is an error, even if the provider gave a text, and the table is left alone.
\<close>

theorem every_answer_is_counted:
  assumes "GenerateText (billed resolve client rec rid) req0 w = (r, w')"
    and "trim_space (gt_guild_id req0) = g" "g \<noteq> []"
    and "asked resolve client (normalizeGenerateTextRequest (billed resolve client rec rid) req0) (uw_env w) = (call, x)"
  shows "uw_env w' = x \<and>
    (case call of
       None \<Rightarrow> (\<exists>e. r = Inl e) \<and> uw_db w' = uw_db w
     | Some (req, m, answer) \<Rightarrow>
         if recordable rec (call_event req m answer) (uw_db w)
         then (case answer of
                 Inl e \<Rightarrow> r = Inl e \<and> summarize g (tables (uw_db w')) = add_failure (summarize g (tables (uw_db w)))
               | Inr a \<Rightarrow> (\<exists>a'. r = Inr a' \<and> ta_text a' = ta_text a) \<and>
                   summarize g (tables (uw_db w')) = add_answer a (summarize g (tables (uw_db w))))
         else (\<exists>e. r = Inl e) \<and> tables (uw_db w') = tables (uw_db w))"
proof (cases call)
  case None
  then show ?thesis using GenerateText_asked [OF assms(1,4)] by simp
next
  case (Some c)
  obtain req m answer where c: "call = Some (req, m, answer)" using Some by (cases c) auto
  let ?rec = "RecordUsage rec (call_event req m answer) (uw_db w)"
  have n: "normalizeGenerateTextRequest (billed resolve client rec rid) req0 = Inr req"
    and db: "uw_db w' = snd ?rec" and env: "uw_env w' = x"
    and r: "r = (case (answer, fst ?rec) of (Inl e, Inl _) \<Rightarrow> Inl (Wrap ''record usage'' e) | (Inl e, Inr _) \<Rightarrow> Inl e
          | (Inr _, Inl e) \<Rightarrow> Inl e
          | (Inr a, Inr _) \<Rightarrow> Inr (a\<lparr>ta_request_id := gt_request_id req, ta_provider_id := rm_provider_id m,
               ta_model_id := rm_model_id m\<rparr>))"
    using GenerateText_asked [OF assms(1,4)] c by auto
  have g: "trim_space (gt_guild_id req) = g"
    by (simp add: normalizeGenerateTextRequest_guild [OF n] assms(2)) (use assms(2) in auto)
  show ?thesis
    using RecordUsage_cases [OF surjective_pairing, of rec "call_event req m answer" "uw_db w"] r db env c g assms(3)
    by (cases answer) (auto simp: summarize_answer summarize_failure split: if_splits sum.splits)
qed

subsection \<open>One call\<close>

definition paid_model :: resolved_model where
  "paid_model = \<lparr>rm_owner = sample_owner, rm_purpose = PurposeChat, rm_provider_id = ProviderOpenAI, rm_model_id = ''m'',
     rm_params_json = ''{}'', rm_credential_id = ''c1'', rm_credential_label = ''main'', rm_api_key = ''sk'',
     rm_billing_owner_type = OwnerGuild, rm_billing_owner_id = ''g''\<rparr>"

definition paid_answer :: text_answer where
  "paid_answer = no_answer\<lparr>ta_text := ''hi'', ta_input_tokens := 7, ta_output_tokens := 2\<rparr>"

definition paid_runtime :: "unit usage_world llm_runtime" where
  "paid_runtime = billed (\<lambda>_ w. (Inr paid_model, w)) (\<lambda>_ w. (Inr paid_answer, w))
     \<lparr>uc_exec = True, uc_query = True, uc_new_id = Some ''e1''\<rparr> None"

definition paid_request :: generate_text_request where
  "paid_request = \<lparr>gt_owner = sample_owner, gt_purpose = PurposeChat, gt_actor_user_id = ''u'', gt_guild_id = ''g'',
     gt_channel_id = [], gt_request_id = ''r1'', gt_instructions = [], gt_input = ''q'', gt_max_output_tokens = 0\<rparr>"

definition no_usage :: "unit usage_world" where
  "no_usage = \<lparr>uw_db = \<lparr>tables = [], clock = zero_time, faults = []\<rparr>, uw_env = ()\<rparr>"

definition failing_runtime :: "unit usage_world llm_runtime" where
  "failing_runtime = billed (\<lambda>_ w. (Inr paid_model, w)) (\<lambda>_ w. (Inl (Errorf ''timeout''), w))
     \<lparr>uc_exec = True, uc_query = True, uc_new_id = Some ''e1''\<rparr> None"

lemma paid_request_normal: "normalizeGenerateTextRequest (billed resolve client rec None) paid_request = Inr paid_request"
  by (simp add: normalizeGenerateTextRequest_def paid_request_def billed_def sample_provider go_eval)

lemma failure_recordable:
  "recordable \<lparr>uc_exec = True, uc_query = True, uc_new_id = Some ''e1''\<rparr>
     (call_event paid_request paid_model (Inl (Errorf ''timeout''))) (uw_db no_usage)"
proof -
  have ev: "normalizeUsageEvent (call_event paid_request paid_model (Inl (Errorf ''timeout''))) =
      call_event paid_request paid_model (Inl (Errorf ''timeout''))"
    by (simp add: normalizeUsageEvent_def call_event_def paid_request_def paid_model_def classifyUsageError_def go_eval)
  show ?thesis
    unfolding recordable_def ev
    by (simp add: validateUsageEvent_def call_event_def paid_request_def paid_model_def no_answer_def no_usage_def
        ValidateOwnerType_def sample_provider sample_scope int4_def go_eval)
qed

text \<open>A call the provider fails is counted as one failed event.\<close>

lemma every_answer_is_counted_witness:
  "\<exists>w'. GenerateText failing_runtime paid_request no_usage = (Inl (Errorf ''timeout''), w') \<and>
     us_failed_events (summarize ''g'' (tables (uw_db w'))) = 1"
proof -
  obtain r w' where c: "GenerateText failing_runtime paid_request no_usage = (r, w')" by fastforce
  have asked: "asked (\<lambda>_ w. (Inr paid_model, w)) (\<lambda>_ w. (Inl (Errorf ''timeout''), w)) (Inr paid_request) (uw_env no_usage) =
      (Some (paid_request, paid_model, Inl (Errorf ''timeout'')), uw_env no_usage)"
    by (simp add: asked_def)
  from every_answer_is_counted [OF c [unfolded failing_runtime_def], of "''g''", unfolded paid_request_normal, OF _ _ asked]
    failure_recordable c show ?thesis
    by (auto simp: paid_request_def no_usage_def summarize_def add_failure_def go_eval)
qed

end
