(* ===== verification/TextNormal.thy ===== *)
theory TextNormal
  imports Utf8
begin

text \<open>
  The text functions the guild memory rests on: \<^verbatim>\<open>NormalizeText\<close> of \<^verbatim>\<open>internal/memory/store.go\<close>, and the functions
  \<^verbatim>\<open>length\<close> and \<^verbatim>\<open>replace\<close> of the database on UTF-8 text, with the number of occurrences of a text in another.
\<close>

definition NormalizeText :: "string \<Rightarrow> string" where
  "NormalizeText value = join '' '' (fields (to_lower (trim_space value)))"

text \<open>\<^verbatim>\<open>length(text)\<close> counts characters: the bytes that begin one.\<close>

definition pg_length :: "string \<Rightarrow> nat" where
  "pg_length s = length (filter (\<lambda>c. \<not> is_cont 128 191 (byte c)) s)"

text \<open>\<^verbatim>\<open>replace(s, sub, '')\<close>: the occurrences of \<open>sub\<close> removed from the left; an empty \<open>sub\<close> removes nothing.\<close>

function remove_all :: "string \<Rightarrow> string \<Rightarrow> string" where
  "remove_all sub s =
     (if s = [] \<or> sub = [] then s
      else if prefix sub s then remove_all sub (drop (length sub) s) else hd s # remove_all sub (tl s))"
  by pat_completeness auto
termination
  by (relation "measure (length \<circ> snd)") auto

declare remove_all.simps [simp del]

subsection \<open>Occurrences\<close>

text \<open>How many times \<open>replace\<close> finds \<open>sub\<close>.\<close>

function occurrences :: "string \<Rightarrow> string \<Rightarrow> nat" where
  "occurrences sub s =
     (if s = [] \<or> sub = [] then 0
      else if prefix sub s then Suc (occurrences sub (drop (length sub) s)) else occurrences sub (tl s))"
  by pat_completeness auto
termination
  by (relation "measure (length \<circ> snd)") auto

declare occurrences.simps [simp del]

lemma pg_length_append [simp]: "pg_length (s @ t) = pg_length s + pg_length t"
  by (simp add: pg_length_def)

lemma pg_length_remove_all:
  "pg_length s = pg_length (remove_all sub s) + occurrences sub s * pg_length sub"
proof (induction sub s rule: remove_all.induct)
  case (1 sub s)
  consider "s = [] \<or> sub = []" | "s \<noteq> []" "sub \<noteq> []" "prefix sub s" | "s \<noteq> []" "sub \<noteq> []" "\<not> prefix sub s"
    by blast
  then show ?case
  proof cases
    case 2
    then obtain v where "s = sub @ v" by (auto simp: prefix_def)
    with "1.IH"(1) 2 show ?thesis
      by (simp add: remove_all.simps [of sub "sub @ v"] occurrences.simps [of sub "sub @ v"])
  next
    case 3
    then obtain c v where "s = c # v" by (cases s) auto
    with "1.IH"(2) 3 show ?thesis
      by (simp add: remove_all.simps [of sub "c # v"] occurrences.simps [of sub "c # v"] pg_length_def)
  qed (auto simp: remove_all.simps [of sub s] occurrences.simps [of sub s])
qed

text \<open>The search from the left finds as many disjoint occurrences as there can be.\<close>

lemma occurrences_split:
  "0 < occurrences sub s \<Longrightarrow> \<exists>u v. s = u @ sub @ v \<and> occurrences sub s = Suc (occurrences sub v)"
proof (induction sub s rule: occurrences.induct)
  case (1 sub s)
  then have s: "s \<noteq> []" "sub \<noteq> []" by (auto simp: occurrences.simps [of sub s])
  show ?case
  proof (cases "prefix sub s")
    case True
    then have "s = [] @ sub @ drop (length sub) s" by (auto simp: prefix_def)
    moreover have "occurrences sub s = Suc (occurrences sub (drop (length sub) s))"
      using s True by (simp add: occurrences.simps [of sub s])
    ultimately show ?thesis by blast
  next
    case False
    then have e: "occurrences sub s = occurrences sub (tl s)" using s by (simp add: occurrences.simps [of sub s])
    then obtain u v where "tl s = u @ sub @ v" "occurrences sub (tl s) = Suc (occurrences sub v)"
      using "1.IH"(2) "1.prems" s False by auto
    then have "s = (hd s # u) @ sub @ v" using s by (metis append_Cons list.collapse)
    then show ?thesis using e \<open>occurrences sub (tl s) = _\<close> by metis
  qed
qed

lemma occurrences_suffix: "suffix t s \<Longrightarrow> occurrences sub t \<le> occurrences sub s"
proof (induction "length s" arbitrary: s t rule: less_induct)
  case less
  consider "t = s" | "s = [] \<or> sub = []" | "t \<noteq> s" "s \<noteq> []" "sub \<noteq> []" "prefix sub s"
    | "t \<noteq> s" "s \<noteq> []" "sub \<noteq> []" "\<not> prefix sub s"
    by blast
  then show ?case
  proof cases
    case 2
    then show ?thesis using less.prems by (auto simp: occurrences.simps [of sub t])
  next
    case 3
    show ?thesis
    proof (cases "occurrences sub t")
      case (Suc n)
      then obtain u v where t: "t = u @ sub @ v" "occurrences sub t = Suc (occurrences sub v)"
        using occurrences_split [of sub t] by auto
      have "suffix v s" using less.prems t(1) by (auto simp: suffix_def)
      moreover have "length v \<le> length s - length sub"
        using less.prems t(1) suffix_length_le [of t s] by simp
      ultimately have "suffix v (drop (length sub) s)"
        by (metis diff_le_self length_drop suffix_drop suffix_length_suffix)
      then show ?thesis
        using less.hyps [of "drop (length sub) s" v] 3 t(2) by (simp add: occurrences.simps [of sub s])
    qed simp
  next
    case 4
    then have "suffix t (tl s)" using less.prems by (cases s) (auto simp: suffix_Cons)
    then show ?thesis
      using less.hyps [of "tl s" t] 4 by (simp add: occurrences.simps [of sub s])
  qed simp
qed

lemma occurrences_append: "sub \<noteq> [] \<Longrightarrow> Suc (occurrences sub v) \<le> occurrences sub (u @ sub @ v)"
proof -
  assume "sub \<noteq> []"
  then have "occurrences sub (sub @ v) = Suc (occurrences sub v)"
    by (simp add: occurrences.simps [of sub "sub @ v"])
  moreover have "occurrences sub (sub @ v) \<le> occurrences sub (u @ sub @ v)"
    by (rule occurrences_suffix) (simp add: suffix_def)
  ultimately show ?thesis by simp
qed

lemma join_occurrences: "sub \<noteq> [] \<Longrightarrow> length us = Suc k \<Longrightarrow> k \<le> occurrences sub (join sub us)"
proof (induction k arbitrary: us)
  case (Suc k)
  then obtain u v ws where us: "us = u # v # ws" by (cases us; cases "tl us") auto
  have "k \<le> occurrences sub (join sub (v # ws))" using Suc us by simp
  then show ?case using occurrences_append [OF Suc.prems(1), of "join sub (v # ws)" u] us by simp
qed simp

lemma occurrences_join: "\<exists>us. length us = Suc (occurrences sub s) \<and> join sub us = s"
proof (induction "length s" arbitrary: s rule: less_induct)
  case less
  show ?case
  proof (cases "occurrences sub s")
    case 0
    then show ?thesis by (intro exI [of _ "[s]"]) simp
  next
    case (Suc n)
    then obtain u v where s: "s = u @ sub @ v" "occurrences sub s = Suc (occurrences sub v)"
      using occurrences_split [of sub s] by auto
    moreover have "sub \<noteq> []" using Suc by (auto simp: occurrences.simps [of sub s] split: if_splits)
    ultimately obtain us where us: "length us = Suc (occurrences sub v)" "join sub us = v"
      using less.hyps [of v] by auto
    then obtain x xs where "us = x # xs" by (cases us) auto
    then show ?thesis using s us by (intro exI [of _ "u # us"]) simp
  qed
qed

text \<open>The reference: the largest number of disjoint occurrences, \<open>sub\<close> put between one text more.\<close>

definition max_occurrences :: "string \<Rightarrow> string \<Rightarrow> nat" where
  "max_occurrences sub s = Max {k. \<exists>us. length us = Suc k \<and> join sub us = s}"

lemma occurrences_max: "sub \<noteq> [] \<Longrightarrow> occurrences sub s = max_occurrences sub s"
proof -
  assume sub: "sub \<noteq> []"
  let ?K = "{k. \<exists>us. length us = Suc k \<and> join sub us = s}"
  have le: "k \<le> occurrences sub s" if "k \<in> ?K" for k
    using that join_occurrences [OF sub] by auto
  then have "?K \<subseteq> {..occurrences sub s}" by auto
  then have "finite ?K" by (rule finite_subset) simp
  moreover have "occurrences sub s \<in> ?K" using occurrences_join [of sub s] by auto
  ultimately have "Max ?K = occurrences sub s" using le by (intro Max_eqI) auto
  then show ?thesis by (simp add: max_occurrences_def)
qed

subsection \<open>A normalised text begins with a character\<close>

lemma decode_white_space:
  "p \<in> set white_space_runes \<Longrightarrow> snd (decode_rune (p @ v)) = length p"
  by (auto simp: white_space_runes_def decode_rune_def byte_def is_cont_def second_range.simps Let_def)

lemma encode_rune_valid: "\<exists>r'. valid_rune r' \<and> encode_rune r = encode_rune r'"
proof (cases "valid_rune r")
  case False
  then have "encode_rune r = encode_rune rune_error"
    by (auto simp: encode_rune_def valid_rune_def rune_error_def Let_def)
  then show ?thesis by (intro exI [of _ rune_error]) (simp add: valid_rune_def rune_error_def)
qed blast

lemma string_of_runes_start: "rune_start (string_of_runes rs)"
  by (cases rs) (auto simp: string_of_runes_def rune_start_Nil encode_rune_start)

lemma cont_byte: "is_cont 128 191 (byte (char_of (128 + m mod (64::nat))))"
proof -
  have "m mod 64 < 64" by simp
  then have "128 + m mod 64 < 256" "128 + m mod 64 \<le> 191" by linarith+
  then show ?thesis by (simp add: is_cont_def byte_char_of)
qed

lemma encode_rune_tail: "list_all (\<lambda>c. is_cont 128 191 (byte c)) (tl (encode_rune r))"
  unfolding encode_rune_def Let_def by (auto simp: cont_byte)

lemma white_space_ends:
  assumes "string_of_runes rs = u @ p @ v" "p \<in> set white_space_runes"
  shows "rune_start v"
  using assms(1)
proof (induction rs arbitrary: u)
  case Nil
  then show ?case using assms(2) by (auto simp: string_of_runes_def white_space_runes_def)
next
  case (Cons r rs)
  let ?e = "encode_rune r" and ?rest = "string_of_runes rs"
  have eq: "?e @ ?rest = u @ p @ v" using Cons.prems by (simp add: string_of_runes_def)
  obtain p0 ps where p: "p = p0 # ps" "\<not> is_cont 128 191 (byte p0)"
    using white_space_start [OF assms(2), of "[]"] assms(2)
    by (cases p) (auto simp: rune_start_def white_space_runes_def)
  show ?case
  proof (cases "length u < length ?e")
    case True
    show ?thesis
    proof (cases u)
      case Nil
      obtain r' where r': "valid_rune r'" "?e = encode_rune r'" using encode_rune_valid by blast
      have "decode_rune (?e @ ?rest) = decode_rune ?e"
        by (rule decode_rune_append) (use encode_rune_length [of r] in \<open>auto simp: string_of_runes_start\<close>)
      moreover have "take 4 ?e = ?e" using encode_rune_length [of r] by simp
      ultimately have "snd (decode_rune (?e @ ?rest)) = length ?e"
        using encode_width [OF r'(1)] r'(2) by (simp add: decode_rune_def)
      then have "length p = length ?e" using decode_white_space [OF assms(2), of v] eq Nil by simp
      then show ?thesis using eq Nil string_of_runes_start [of rs] by simp
    next
      case (Cons c u')
      have "?e ! length u = p0"
        using eq True p(1) by (metis append_Cons nth_append nth_append_length)
      moreover have "?e ! length u = tl ?e ! length u'" using True Cons by (cases ?e) auto
      moreover have "length u' < length (tl ?e)" using True Cons by (cases ?e) auto
      ultimately show ?thesis
        using encode_rune_tail [of r] p(2) by (metis list_all_length)
    qed
  next
    case False
    then obtain u' where "u = ?e @ u'" using eq by (metis append_eq_append_conv_if append_eq_conv_conj append_take_drop_id linorder_not_less)
    then show ?thesis using eq Cons.IH [of u'] by simp
  qed
qed

lemma to_lower_runes: "\<exists>rs. to_lower s = string_of_runes rs"
proof (cases "is_ascii s")
  case True
  have "is_ascii (map lower_char s)"
    using True by (auto simp: is_ascii_def list_all_iff lower_char_ascii byte_char_of)
  from ascii_of_runes [OF this] have "to_lower s = string_of_runes (map byte (map lower_char s))"
    using True by (simp add: to_lower_def)
  then show ?thesis by blast
qed (auto simp: to_lower_def)

lemma fields_from_start:
  assumes "suffix s (string_of_runes rs)" "w = [] \<Longrightarrow> rune_start s" "w \<noteq> [] \<Longrightarrow> rune_start (rev w)"
  shows "\<forall>x\<in>set (fields_from w s). x \<noteq> [] \<and> rune_start x"
  using assms
proof (induction w s rule: fields_from.induct)
  case (1 w s)
  let ?k = "head_seq_len white_space_runes s"
  consider "s = []" | "s \<noteq> []" "?k > 0" | "s \<noteq> []" "?k = 0" by blast
  then show ?case
  proof cases
    case 1
    then show ?thesis using "1.prems"(3) by (simp add: fields_from.simps [of w "[]"])
  next
    case 2
    then obtain p where p: "p \<in> set white_space_runes" "s = p @ drop ?k s"
      using head_seq_len_split [of white_space_runes s] by (metis less_numeral_extra(3))
    have suf: "suffix (drop ?k s) (string_of_runes rs)"
      using "1.prems"(1) suffix_drop suffix_order.trans by blast
    obtain u where "string_of_runes rs = u @ p @ drop ?k s"
      using "1.prems"(1) p(2) by (auto simp: suffix_def)
    then have "rune_start (drop ?k s)" by (rule white_space_ends [OF _ p(1)])
    then have "\<forall>x\<in>set (fields_from [] (drop ?k s)). x \<noteq> [] \<and> rune_start x"
      by (intro "1.IH"(1) [OF refl 2 suf]) simp_all
    moreover have "fields_from w s = (if w = [] then [] else [rev w]) @ fields_from [] (drop ?k s)"
      using 2 by (subst fields_from.simps) (simp only: Let_def if_False if_True)
    ultimately show ?thesis using "1.prems"(3) by auto
  next
    case 3
    have suf: "suffix (tl s) (string_of_runes rs)"
      using "1.prems"(1) suffix_tl suffix_order.trans by blast
    have start: "rune_start (rev (hd s # w))"
      using "1.prems"(2,3) 3 by (cases w) (auto simp: rune_start_def hd_append)
    have "\<not> 0 < ?k" using 3(2) by simp
    then have "\<forall>x\<in>set (fields_from (hd s # w) (tl s)). x \<noteq> [] \<and> rune_start x"
      by (intro "1.IH"(2) [OF refl 3(1) _ suf]) (simp_all only: start, simp_all)
    moreover have "fields_from w s = fields_from (hd s # w) (tl s)"
      using 3 by (subst fields_from.simps) (simp only: Let_def if_False less_irrefl)
    ultimately show ?thesis by simp
  qed
qed

lemma NormalizeText_start: "rune_start (NormalizeText s)"
proof -
  obtain rs where rs: "to_lower (trim_space s) = string_of_runes rs" using to_lower_runes by blast
  have "\<forall>x\<in>set (fields (string_of_runes rs)). x \<noteq> [] \<and> rune_start x"
    unfolding fields_def by (rule fields_from_start) (auto simp: string_of_runes_start)
  then show ?thesis
    by (cases "fields (string_of_runes rs)"; cases "tl (fields (string_of_runes rs))")
      (auto simp: NormalizeText_def rs rune_start_Nil rune_start_def hd_append)
qed

lemma pg_length_NormalizeText: "NormalizeText s \<noteq> [] \<Longrightarrow> 0 < pg_length (NormalizeText s)"
  using NormalizeText_start [of s]
  by (cases "NormalizeText s") (auto simp: pg_length_def rune_start_def)

text \<open>A single word of lower-case visible ASCII is its own normal form.\<close>

definition plain_word :: "string \<Rightarrow> bool" where
  "plain_word s \<longleftrightarrow> list_all (\<lambda>c. visible c \<and> \<not> (65 \<le> byte c \<and> byte c \<le> 90)) s"

lemma fields_from_visible:
  "list_all visible s \<Longrightarrow> fields_from w s = (if w = [] \<and> s = [] then [] else [rev w @ s])"
proof (induction s arbitrary: w)
  case Nil
  then show ?case by (simp add: fields_from.simps [of w "[]"])
next
  case (Cons c s)
  have "head_seq_len white_space_runes (c # s) = 0"
    using Cons.prems by (intro head_seq_len_visible) auto
  then show ?case
    using Cons.IH [of "c # w"] Cons.prems by (subst fields_from.simps) simp
qed

lemma NormalizeText_plain:
  assumes "plain_word s"
  shows "NormalizeText s = s"
proof -
  have v: "list_all visible s" using assms by (auto simp: plain_word_def list_all_iff)
  have "trim_space s = s"
    using v by (intro trim_space_visible) (cases s, auto simp: visible_ends_def list_all_iff)
  moreover have "to_lower s = s"
    using assms by (intro to_lower_plain) (auto simp: plain_word_def list_all_iff visible_def)
  ultimately show ?thesis
    using fields_from_visible [OF v, of "[]"] by (simp add: NormalizeText_def fields_def)
qed

end
