(* ===== verification/MemoryStore.thy ===== *)
theory MemoryStore
  imports SqlTables TextNormal "HOL-Library.List_Lexorder" "HOL-Library.Char_ord"
begin

text \<open>
  \<^verbatim>\<open>internal/memory/store.go\<close>: what the bot remembers of a guild's messages, over the tables of migration
  \<^verbatim>\<open>000006\<close>. A channel has a mode (nothing, metadata, or the text too), a message row keeps the normalised text or
  none, and a deletion leaves a tombstone that no later write revives. The SHA-256 of a text in hexadecimal is the parameter
  \<open>sha\<close>; \<open>today\<close> is what \<^verbatim>\<open>time.Now\<close> gives in a call. Rows of equal age come in the table's order.
\<close>

type_synonym memory_mode = string

abbreviation ModeOff :: memory_mode where "ModeOff \<equiv> ''off''"
abbreviation ModeMetadata :: memory_mode where "ModeMetadata \<equiv> ''metadata''"
abbreviation ModeFull :: memory_mode where "ModeFull \<equiv> ''full''"

definition DefaultRetentionDays :: int where
  "DefaultRetentionDays = 90"

record memory_policy =
  mp_guild_id :: string
  mp_default_retention_days :: int
  mp_raw_storage_mode :: memory_mode
  mp_embeddings_enabled :: bool
  mp_updated_by :: string

record channel_policy =
  cp_guild_id :: string
  cp_channel_id :: string
  cp_mode :: memory_mode
  cp_retention_days :: int
  cp_updated_by :: string

record memory_status =
  my_policy :: memory_policy
  my_channels :: "channel_policy list"

record upsert_channel_request =
  uq_guild_id :: string
  uq_channel_id :: string
  uq_mode :: memory_mode
  uq_retention_days :: int
  uq_actor_id :: string

record message_record =
  mr_message_id :: string
  mr_guild_id :: string
  mr_channel_id :: string
  mr_author_id :: string
  mr_text :: string
  mr_hash :: string
  mr_created_at :: gotime
  mr_retention_until :: gotime

record count_request =
  cq_guild_id :: string
  cq_channel_id :: string
  cq_author_id :: string
  cq_text :: string
  cq_start :: gotime
  cq_end :: gotime

record recent_request =
  mq_guild_id :: string
  mq_channel_id :: string
  mq_author_id :: string
  mq_limit :: int
  mq_start :: gotime
  mq_end :: gotime

record search_request = recent_request +
  mq_query :: string

record search_result =
  sr_message_id :: string
  sr_guild_id :: string
  sr_channel_id :: string
  sr_author_id :: string
  sr_text :: string
  sr_created_at :: gotime
  sr_retention_until :: gotime
  sr_retrieved_at :: gotime

subsection \<open>The tables\<close>

record guild_memory_row =
  gr_guild_id :: string
  gr_default_days :: int
  gr_raw_mode :: memory_mode
  gr_embeddings :: bool
  gr_updated_by :: "string option"

record channel_row =
  hr_guild_id :: string
  hr_channel_id :: string
  hr_mode :: memory_mode
  hr_days :: "int option"
  hr_updated_by :: "string option"
  hr_updated_at :: gotime

record message_row =
  ar_id :: string
  ar_guild_id :: string
  ar_channel_id :: string
  ar_author_id :: string
  ar_text :: "string option"
  ar_ciphertext :: "string option"
  ar_hash :: "string option"
  ar_created_at :: gotime
  ar_deleted_at :: "gotime option"
  ar_retention_until :: gotime
  ar_indexed_at :: gotime

record segment_row =
  er_id :: string
  er_message_id :: string
  er_guild_id :: string

record memory_tables =
  mt_policies :: "guild_memory_row list"
  mt_channels :: "channel_row list"
  mt_messages :: "message_row list"
  mt_segments :: "segment_row list"

type_synonym memory_db = "memory_tables sqldb"

definition channel_key :: "channel_row \<Rightarrow> string \<times> string" where
  "channel_key r = (hr_guild_id r, hr_channel_id r)"

text \<open>A store: which of its functions \<^verbatim>\<open>db\<close> provides, the order of the database's text, and the time of day.\<close>

record memory_store =
  me_query :: bool
  me_exec :: bool
  me_collate :: "string \<Rightarrow> nat"
  me_today :: gotime

subsection \<open>Normal forms of the requests\<close>

definition HashText :: "(string \<Rightarrow> string) \<Rightarrow> string \<Rightarrow> string" where
  "HashText sha value = sha (NormalizeText value)"

definition DefaultPolicy :: "string \<Rightarrow> memory_policy" where
  "DefaultPolicy guildID = \<lparr>mp_guild_id = trim_space guildID, mp_default_retention_days = DefaultRetentionDays,
     mp_raw_storage_mode = ModeMetadata, mp_embeddings_enabled = False, mp_updated_by = []\<rparr>"

definition ValidateMode :: "memory_mode \<Rightarrow> unit result" where
  "ValidateMode mode = must (mode \<in> {ModeOff, ModeMetadata, ModeFull}) ''Unsupported memory mode.''"

definition normalizeChannelPolicyRequest :: "upsert_channel_request \<Rightarrow> upsert_channel_request result" where
  "normalizeChannelPolicyRequest req0 =
     (let req = req0\<lparr>uq_guild_id := trim_space (uq_guild_id req0), uq_channel_id := trim_space (uq_channel_id req0),
            uq_actor_id := trim_space (uq_actor_id req0), uq_mode := trim_space (uq_mode req0)\<rparr>
      in attempt (checks
           [must (uq_guild_id req \<noteq> []) ''guild ID is required'',
            must (uq_channel_id req \<noteq> []) ''channel ID is required'',
            must (uq_actor_id req \<noteq> []) ''actor ID is required'',
            ValidateMode (uq_mode req),
            must (\<not> (uq_retention_days req < 0 \<or> uq_retention_days req > 365)) ''retention days must be between 1 and 365'',
            must (uq_retention_days req = 0 \<or> \<not> uq_retention_days req < 1) ''retention days must be between 1 and 365''])
           (\<lambda>_. Inr req))"

definition normalizeMessageRecord :: "(string \<Rightarrow> string) \<Rightarrow> message_record \<Rightarrow> message_record result" where
  "normalizeMessageRecord sha record0 =
     (let r = record0\<lparr>mr_message_id := trim_space (mr_message_id record0), mr_guild_id := trim_space (mr_guild_id record0),
            mr_channel_id := trim_space (mr_channel_id record0), mr_author_id := trim_space (mr_author_id record0),
            mr_text := NormalizeText (mr_text record0), mr_hash := trim_space (mr_hash record0)\<rparr>
      in attempt (checks
           [must (mr_message_id r \<noteq> []) ''message ID is required'',
            must (mr_guild_id r \<noteq> []) ''guild ID is required'',
            must (mr_channel_id r \<noteq> []) ''channel ID is required'',
            must (mr_author_id r \<noteq> []) ''author user ID is required'',
            must (mr_created_at r \<noteq> zero_time) ''message created time is required'',
            must (\<not> (mr_retention_until r = zero_time \<or> \<not> mr_retention_until r > mr_created_at r))
              ''retention time must be after message creation''])
           (\<lambda>_. Inr (if mr_hash r = [] then r\<lparr>mr_hash := HashText sha (mr_text r)\<rparr> else r)))"

definition normalizeCountRequest :: "count_request \<Rightarrow> count_request" where
  "normalizeCountRequest req = req\<lparr>cq_guild_id := trim_space (cq_guild_id req),
     cq_channel_id := trim_space (cq_channel_id req), cq_author_id := trim_space (cq_author_id req),
     cq_text := NormalizeText (cq_text req)\<rparr>"

definition normalizeSearchRequest :: "search_request \<Rightarrow> search_request" where
  "normalizeSearchRequest req =
     (let l1 = (if mq_limit req = 0 then 5 else mq_limit req);
          l2 = (if l1 < 1 then 1 else l1);
          l3 = (if l2 > 25 then 25 else l2)
      in req\<lparr>mq_guild_id := trim_space (mq_guild_id req), mq_channel_id := trim_space (mq_channel_id req),
           mq_author_id := trim_space (mq_author_id req), mq_query := NormalizeText (mq_query req), mq_limit := l3\<rparr>)"

definition normalizeRecentRequest :: "recent_request \<Rightarrow> recent_request" where
  "normalizeRecentRequest req =
     (let l1 = (if mq_limit req < 1 then 5 else mq_limit req);
          l2 = (if l1 > 25 then 25 else l1)
      in req\<lparr>mq_guild_id := trim_space (mq_guild_id req), mq_channel_id := trim_space (mq_channel_id req),
           mq_author_id := trim_space (mq_author_id req), mq_limit := l2\<rparr>)"

subsection \<open>Policies\<close>

definition null_text :: "string option \<Rightarrow> string" where
  "null_text v = (case v of None \<Rightarrow> [] | Some s \<Rightarrow> s)"

definition policy_of_row :: "guild_memory_row \<Rightarrow> memory_policy" where
  "policy_of_row r = \<lparr>mp_guild_id = gr_guild_id r, mp_default_retention_days = gr_default_days r,
     mp_raw_storage_mode = gr_raw_mode r, mp_embeddings_enabled = gr_embeddings r,
     mp_updated_by = null_text (gr_updated_by r)\<rparr>"

definition channel_of_row :: "channel_row \<Rightarrow> channel_policy" where
  "channel_of_row r = \<lparr>cp_guild_id = hr_guild_id r, cp_channel_id = hr_channel_id r, cp_mode = hr_mode r,
     cp_retention_days = (case hr_days r of None \<Rightarrow> 0 | Some d \<Rightarrow> d), cp_updated_by = null_text (hr_updated_by r)\<rparr>"

definition GuildPolicy :: "memory_store \<Rightarrow> string \<Rightarrow> memory_db \<Rightarrow> memory_policy result \<times> memory_db" where
  "GuildPolicy s guildID0 db =
     (let guildID = trim_space guildID0 in
      if guildID = [] then (Inl (Errorf ''guild ID is required''), db)
      else if \<not> me_query s then (Inl (Errorf ''memory query database is required''), db)
      else sql_exec (\<lambda>now t. Inr (case row_of gr_guild_id guildID (mt_policies t) of
             None \<Rightarrow> DefaultPolicy guildID | Some r \<Rightarrow> policy_of_row r, t)) db)"

definition ChannelPolicies :: "memory_store \<Rightarrow> string \<Rightarrow> memory_db \<Rightarrow> channel_policy list result \<times> memory_db" where
  "ChannelPolicies s guildID0 db =
     (let guildID = trim_space guildID0 in
      if guildID = [] then (Inl (Errorf ''guild ID is required''), db)
      else if \<not> me_query s then (Inl (Errorf ''memory query database is required''), db)
      else db_bind (sql_exec (\<lambda>now t. Inr (sort_key (\<lambda>r. me_collate s (hr_channel_id r))
               (filter (\<lambda>r. hr_guild_id r = guildID) (mt_channels t)), t)) db)
             (\<lambda>rows db1. (Inr (sort_key cp_channel_id (map channel_of_row rows)), db1)))"

definition ChannelPolicy ::
  "memory_store \<Rightarrow> string \<Rightarrow> string \<Rightarrow> memory_db \<Rightarrow> channel_policy option result \<times> memory_db" where
  "ChannelPolicy s guildID0 channelID0 db =
     (let guildID = trim_space guildID0; channelID = trim_space channelID0 in
      if guildID = [] then (Inl (Errorf ''guild ID is required''), db)
      else if channelID = [] then (Inl (Errorf ''channel ID is required''), db)
      else if \<not> me_query s then (Inl (Errorf ''memory query database is required''), db)
      else sql_exec (\<lambda>now t. Inr (map_option channel_of_row (row_of channel_key (guildID, channelID) (mt_channels t)), t)) db)"

definition GuildStatus :: "memory_store \<Rightarrow> string \<Rightarrow> memory_db \<Rightarrow> memory_status result \<times> memory_db" where
  "GuildStatus s guildID0 db =
     (let guildID = trim_space guildID0 in
      if guildID = [] then (Inl (Errorf ''guild ID is required''), db)
      else db_bind (GuildPolicy s guildID db) (\<lambda>policy db1.
           db_bind (ChannelPolicies s guildID db1) (\<lambda>channels db2.
             (Inr \<lparr>my_policy = policy, my_channels = channels\<rparr>, db2))))"

definition upsert_channel :: "upsert_channel_request \<Rightarrow> (memory_tables, unit) statement" where
  "upsert_channel req now t =
     (let days = (if uq_retention_days req = 0 then None else Some (uq_retention_days req));
          row = \<lparr>hr_guild_id = uq_guild_id req, hr_channel_id = uq_channel_id req, hr_mode = uq_mode req,
            hr_days = days, hr_updated_by = Some (uq_actor_id req), hr_updated_at = now\<rparr>
      in if uq_mode req \<notin> {ModeOff, ModeMetadata, ModeFull} then Inl (Errorf ''guild_memory_channels_mode_check'')
         else if \<not> (case days of None \<Rightarrow> True | Some d \<Rightarrow> 1 \<le> d \<and> d \<le> 365)
         then Inl (Errorf ''guild_memory_channels_retention_check'')
         else Inr ((), t\<lparr>mt_channels := upsert channel_key row
           (\<lambda>r. r\<lparr>hr_mode := uq_mode req, hr_days := days, hr_updated_by := Some (uq_actor_id req), hr_updated_at := now\<rparr>)
           (mt_channels t)\<rparr>))"

definition UpsertChannelPolicy ::
  "memory_store \<Rightarrow> upsert_channel_request \<Rightarrow> memory_db \<Rightarrow> channel_policy result \<times> memory_db" where
  "UpsertChannelPolicy s req0 db =
     (case normalizeChannelPolicyRequest req0 of
        Inl e \<Rightarrow> (Inl e, db)
      | Inr req \<Rightarrow>
          if \<not> me_exec s then (Inl (Errorf ''memory exec database is required''), db)
          else db_bind (sql_exec (upsert_channel req) db) (\<lambda>_ db1.
            (Inr \<lparr>cp_guild_id = uq_guild_id req, cp_channel_id = uq_channel_id req, cp_mode = uq_mode req,
               cp_retention_days = uq_retention_days req, cp_updated_by = uq_actor_id req\<rparr>, db1)))"

subsection \<open>Messages\<close>

definition nullif_empty :: "string \<Rightarrow> string option" where
  "nullif_empty v = (if v = [] then None else Some v)"

definition write_message :: "message_record \<Rightarrow> gotime \<Rightarrow> message_row \<Rightarrow> message_row" where
  "write_message m now r = r\<lparr>ar_guild_id := mr_guild_id m, ar_channel_id := mr_channel_id m,
     ar_author_id := mr_author_id m, ar_text := nullif_empty (mr_text m), ar_hash := Some (mr_hash m),
     ar_created_at := timestamptz (mr_created_at m), ar_retention_until := timestamptz (mr_retention_until m),
     ar_indexed_at := now\<rparr>"

definition new_message_row :: "message_record \<Rightarrow> gotime \<Rightarrow> message_row" where
  "new_message_row m now = \<lparr>ar_id = mr_message_id m, ar_guild_id = mr_guild_id m, ar_channel_id = mr_channel_id m,
     ar_author_id = mr_author_id m, ar_text = nullif_empty (mr_text m), ar_ciphertext = None,
     ar_hash = Some (mr_hash m), ar_created_at = timestamptz (mr_created_at m), ar_deleted_at = None,
     ar_retention_until = timestamptz (mr_retention_until m), ar_indexed_at = now\<rparr>"

text \<open>\<^verbatim>\<open>on conflict ... where deleted_at is null\<close>: a tombstone stays as it is.\<close>

definition record_message :: "message_record \<Rightarrow> (memory_tables, unit) statement" where
  "record_message m now t =
     (let rows = upsert ar_id (new_message_row m now)
            (\<lambda>r. if ar_deleted_at r = None then write_message m now r else r) (mt_messages t)
      in if \<exists>r\<in>set rows. ar_id r = mr_message_id m \<and> ar_text r \<noteq> None \<and> ar_ciphertext r \<noteq> None
         then Inl (Errorf ''guild_memory_messages_content_check'')
         else Inr ((), t\<lparr>mt_messages := rows\<rparr>))"

definition RecordMessage ::
  "(string \<Rightarrow> string) \<Rightarrow> memory_store \<Rightarrow> message_record \<Rightarrow> memory_db \<Rightarrow> unit result \<times> memory_db" where
  "RecordMessage sha s record0 db =
     (case normalizeMessageRecord sha record0 of
        Inl e \<Rightarrow> (Inl e, db)
      | Inr m \<Rightarrow>
          if \<not> me_exec s then (Inl (Errorf ''memory exec database is required''), db)
          else wrap_err ''record memory message'' (sql_exec (record_message m) db))"

definition tombstone :: "gotime \<Rightarrow> gotime \<Rightarrow> message_row \<Rightarrow> message_row" where
  "tombstone deletedAt now r = r\<lparr>ar_deleted_at := Some (timestamptz deletedAt), ar_text := None, ar_ciphertext := None,
     ar_hash := Some [], ar_indexed_at := now\<rparr>"

definition delete_message :: "string \<Rightarrow> string \<Rightarrow> gotime \<Rightarrow> (memory_tables, unit) statement" where
  "delete_message guildID messageID deletedAt now t =
     Inr ((), t\<lparr>mt_segments := delete_where (\<lambda>g. er_guild_id g = guildID \<and> er_message_id g = messageID) (mt_segments t),
        mt_messages := update_where (\<lambda>r. ar_guild_id r = guildID \<and> ar_id r = messageID)
          (tombstone deletedAt now) (mt_messages t)\<rparr>)"

definition DeleteMessage ::
  "memory_store \<Rightarrow> string \<Rightarrow> string \<Rightarrow> gotime \<Rightarrow> memory_db \<Rightarrow> unit result \<times> memory_db" where
  "DeleteMessage s guildID0 messageID0 deletedAt0 db =
     (let guildID = trim_space guildID0; messageID = trim_space messageID0 in
      if guildID = [] then (Inl (Errorf ''guild ID is required''), db)
      else if messageID = [] then (Inl (Errorf ''message ID is required''), db)
      else let deletedAt = (if deletedAt0 = zero_time then me_today s else deletedAt0) in
        if \<not> me_exec s then (Inl (Errorf ''memory exec database is required''), db)
        else wrap_err ''delete memory message'' (sql_exec (delete_message guildID messageID deletedAt) db))"

text \<open>A purged message takes its segments with it (\<^verbatim>\<open>on delete cascade\<close>).\<close>

definition purge_messages :: "gotime \<Rightarrow> (memory_tables, nat) statement" where
  "purge_messages cutoff now t =
     (let gone = (\<lambda>r. ar_retention_until r \<le> timestamptz cutoff);
          kept = delete_where gone (mt_messages t)
      in Inr (count_where gone (mt_messages t),
           t\<lparr>mt_messages := kept, mt_segments := filter (\<lambda>g. er_message_id g \<in> ar_id ` set kept) (mt_segments t)\<rparr>))"

definition PurgeExpiredMessages :: "memory_store \<Rightarrow> gotime \<Rightarrow> memory_db \<Rightarrow> nat result \<times> memory_db" where
  "PurgeExpiredMessages s now0 db =
     (let cutoff = (if now0 = zero_time then me_today s else now0) in
      if \<not> me_exec s then (Inl (Errorf ''memory exec database is required''), db)
      else wrap_err ''purge expired memory messages'' (sql_exec (purge_messages cutoff) db))"

subsection \<open>Queries over the messages\<close>

definition null_time :: "gotime \<Rightarrow> gotime option" where
  "null_time t = (if t = zero_time then None else Some (timestamptz t))"

definition in_dates :: "gotime option \<Rightarrow> gotime option \<Rightarrow> message_row \<Rightarrow> bool" where
  "in_dates lo hi r \<longleftrightarrow> (case lo of None \<Rightarrow> True | Some t \<Rightarrow> ar_created_at r \<ge> t) \<and>
     (case hi of None \<Rightarrow> True | Some t \<Rightarrow> ar_created_at r \<le> t)"

text \<open>The conditions the three queries share: text kept, not deleted, not past its retention.\<close>

definition readable :: "gotime \<Rightarrow> message_row \<Rightarrow> bool" where
  "readable now r \<longleftrightarrow> ar_text r \<noteq> None \<and> ar_deleted_at r = None \<and> ar_retention_until r > now"

definition counted :: "count_request \<Rightarrow> gotime \<Rightarrow> message_row \<Rightarrow> bool" where
  "counted q now r \<longleftrightarrow> ar_guild_id r = cq_guild_id q \<and> (cq_channel_id q = [] \<or> ar_channel_id r = cq_channel_id q) \<and>
     (cq_author_id q = [] \<or> ar_author_id r = cq_author_id q) \<and> readable now r \<and>
     contains_sub (null_text (ar_text r)) (cq_text q) \<and> in_dates (null_time (cq_start q)) (null_time (cq_end q)) r"

definition mentions :: "string \<Rightarrow> string \<Rightarrow> nat" where
  "mentions needle v = (pg_length v - pg_length (remove_all needle v)) div pg_length needle"

definition count_mentions :: "count_request \<Rightarrow> (memory_tables, nat) statement" where
  "count_mentions q now t =
     (let rows = filter (counted q now) (mt_messages t) in
      if rows \<noteq> [] \<and> pg_length (cq_text q) = 0 then Inl (Errorf ''division by zero'')
      else Inr (sum_list (map (\<lambda>r. mentions (cq_text q) (null_text (ar_text r))) rows), t))"

definition CountMentions :: "memory_store \<Rightarrow> count_request \<Rightarrow> memory_db \<Rightarrow> nat result \<times> memory_db" where
  "CountMentions s req0 db =
     (let req = normalizeCountRequest req0 in
      if cq_guild_id req = [] then (Inl (Errorf ''guild ID is required''), db)
      else if cq_text req = [] then (Inl (Errorf ''Text is required.''), db)
      else if \<not> me_query s then (Inl (Errorf ''memory query database is required''), db)
      else sql_exec (count_mentions req) db)"

definition selected_recent :: "('a) recent_request_scheme \<Rightarrow> gotime \<Rightarrow> message_row \<Rightarrow> bool" where
  "selected_recent q now r \<longleftrightarrow> ar_guild_id r = mq_guild_id q \<and> ar_channel_id r = mq_channel_id q \<and>
     (mq_author_id q = [] \<or> ar_author_id r = mq_author_id q) \<and> readable now r \<and>
     in_dates (null_time (mq_start q)) (null_time (mq_end q)) r"

definition result_of_row :: "gotime \<Rightarrow> message_row \<Rightarrow> search_result" where
  "result_of_row now r = \<lparr>sr_message_id = ar_id r, sr_guild_id = ar_guild_id r, sr_channel_id = ar_channel_id r,
     sr_author_id = ar_author_id r, sr_text = null_text (ar_text r), sr_created_at = ar_created_at r,
     sr_retention_until = ar_retention_until r, sr_retrieved_at = now\<rparr>"

definition newest :: "int \<Rightarrow> (message_row \<Rightarrow> bool) \<Rightarrow> message_row list \<Rightarrow> message_row list" where
  "newest limit P rows = take (nat limit) (sort_key (\<lambda>r. - ar_created_at r) (filter P rows))"

definition SearchMessages ::
  "memory_store \<Rightarrow> search_request \<Rightarrow> memory_db \<Rightarrow> search_result list result \<times> memory_db" where
  "SearchMessages s req0 db =
     (let req = normalizeSearchRequest req0 in
      if mq_guild_id req = [] then (Inl (Errorf ''guild ID is required''), db)
      else if mq_channel_id req = [] then (Inl (Errorf ''channel ID is required''), db)
      else if mq_query req = [] then (Inl (Errorf ''Query is required.''), db)
      else if \<not> me_query s then (Inl (Errorf ''memory query database is required''), db)
      else sql_exec (\<lambda>now t. Inr (map (result_of_row now) (newest (mq_limit req)
             (\<lambda>r. selected_recent req now r \<and> contains_sub (null_text (ar_text r)) (mq_query req)) (mt_messages t)), t)) db)"

definition RecentMessages ::
  "memory_store \<Rightarrow> recent_request \<Rightarrow> memory_db \<Rightarrow> search_result list result \<times> memory_db" where
  "RecentMessages s req0 db =
     (let req = normalizeRecentRequest req0 in
      if mq_guild_id req = [] then (Inl (Errorf ''guild ID is required''), db)
      else if mq_channel_id req = [] then (Inl (Errorf ''channel ID is required''), db)
      else if \<not> me_query s then (Inl (Errorf ''memory query database is required''), db)
      else sql_exec (\<lambda>now t. Inr (map (result_of_row now)
             (newest (mq_limit req) (selected_recent req now) (mt_messages t)), t)) db)"


subsection \<open>What the three queries return\<close>

lemma readable_write: "readable now r \<Longrightarrow> ar_text r \<noteq> None \<and> ar_deleted_at r = None"
  by (simp add: readable_def)

lemma set_newest: "r \<in> set (newest n P rows) \<Longrightarrow> r \<in> set rows \<and> P r"
  by (auto simp: newest_def dest: in_set_takeD)

lemma sorted_newest: "sorted (map (\<lambda>r. - ar_created_at r) (newest n P rows))"
  by (simp add: newest_def take_map [symmetric] sorted_wrt_take)

lemma length_newest: "length (newest n P rows) = min (nat n) (count_where P rows)"
  by (simp add: newest_def count_where_def)

lemma newest_before:
  assumes "r \<in> set rows" "P r" "r \<notin> set (newest n P rows)" "r' \<in> set (newest n P rows)"
  shows "ar_created_at r \<le> ar_created_at r'"
proof -
  let ?f = "\<lambda>r. - ar_created_at r" and ?s = "sort_key (\<lambda>r. - ar_created_at r) (filter P rows)"
  have "r \<in> set ?s" using assms(1,2) by simp
  then have "r \<in> set (drop (nat n) ?s)"
    using assms(3) by (metis Un_iff append_take_drop_id newest_def set_append)
  moreover have "sorted (map ?f (take (nat n) ?s) @ map ?f (drop (nat n) ?s))"
    by (metis append_take_drop_id map_append sorted_sort_key)
  ultimately show ?thesis using assms(4) by (force simp: sorted_append newest_def)
qed

lemma SearchMessages_ok:
  assumes "SearchMessages s req db = (Inr rs, db')" "q = normalizeSearchRequest req"
  shows "rs = map (result_of_row (clock db)) (newest (mq_limit q)
      (\<lambda>r. selected_recent q (clock db) r \<and> contains_sub (null_text (ar_text r)) (mq_query q)) (mt_messages (tables db)))"
    and "tables db' = tables db"
  using assms by (auto simp: SearchMessages_def Let_def split: if_splits dest!: sql_exec_Inr)

lemma RecentMessages_ok:
  assumes "RecentMessages s req db = (Inr rs, db')" "q = normalizeRecentRequest req"
  shows "rs = map (result_of_row (clock db)) (newest (mq_limit q) (selected_recent q (clock db)) (mt_messages (tables db)))"
    and "tables db' = tables db"
  using assms by (auto simp: RecentMessages_def Let_def split: if_splits dest!: sql_exec_Inr)

lemma search_limit: "1 \<le> mq_limit (normalizeSearchRequest q) \<and> mq_limit (normalizeSearchRequest q) \<le> 25"
  by (simp add: normalizeSearchRequest_def Let_def)

lemma recent_limit: "1 \<le> mq_limit (normalizeRecentRequest q) \<and> mq_limit (normalizeRecentRequest q) \<le> 25"
  by (simp add: normalizeRecentRequest_def Let_def)

lemma mentions_occurrences:
  assumes "0 < pg_length needle"
  shows "mentions needle v = occurrences needle v"
  using pg_length_remove_all [of v needle] assms by (simp add: mentions_def)

lemma counted_text: "cq_text (normalizeCountRequest q) = NormalizeText (cq_text q)"
  by (simp add: normalizeCountRequest_def)

text \<open>The count: over the rows it looks at, the largest number of disjoint occurrences of the normalised text.\<close>

lemma CountMentions_ok:
  assumes "CountMentions s req db = (Inr n, db')" "q = normalizeCountRequest req"
  shows "n = sum_list (map (\<lambda>r. max_occurrences (cq_text q) (null_text (ar_text r)))
      (filter (counted q (clock db)) (mt_messages (tables db))))"
proof -
  have ne: "cq_text q \<noteq> []" and ex: "sql_exec (count_mentions q) db = (Inr n, db')"
    using assms by (auto simp: CountMentions_def Let_def split: if_splits)
  have "0 < pg_length (cq_text q)"
    using ne pg_length_NormalizeText assms(2) by (simp add: counted_text)
  then have "mentions (cq_text q) v = max_occurrences (cq_text q) v" for v
    by (simp add: mentions_occurrences occurrences_max ne)
  then show ?thesis
    using sql_exec_Inr [OF ex] by (auto simp: count_mentions_def Let_def split: if_splits)
qed

lemma CountMentions_succeeds:
  assumes "faults db = []" "me_query s" "trim_space (cq_guild_id req) \<noteq> []" "NormalizeText (cq_text req) \<noteq> []"
  shows "\<exists>n. CountMentions s req db = (Inr n, db)"
  using assms pg_length_NormalizeText [OF assms(4)]
  by (simp add: CountMentions_def Let_def normalizeCountRequest_def count_mentions_def)

subsection \<open>Tombstones\<close>

text \<open>A deleted row keeps nothing of the message's text.\<close>

definition erased :: "message_row \<Rightarrow> bool" where
  "erased r \<longleftrightarrow> ar_deleted_at r \<noteq> None \<and> ar_text r = None \<and> ar_ciphertext r = None \<and> ar_hash r = Some []"

definition erased_message :: "string \<Rightarrow> memory_tables \<Rightarrow> bool" where
  "erased_message i t \<longleftrightarrow> i \<in> ar_id ` set (mt_messages t) \<and> (\<forall>r\<in>set (mt_messages t). ar_id r = i \<longrightarrow> erased r)"

lemma write_message_id [simp]: "ar_id (write_message m now r) = ar_id r"
  by (simp add: write_message_def)

lemma tombstone_id [simp]: "ar_id (tombstone d now r) = ar_id r"
  by (simp add: tombstone_def)

lemma erased_tombstone: "erased (tombstone d now r)"
  by (simp add: erased_def tombstone_def)

lemma record_message_erased:
  assumes "erased_message i t" "record_message m now t = Inr (u, t')"
  shows "erased_message i t'"
proof -
  let ?f = "\<lambda>r. if ar_deleted_at r = None then write_message m now r else r"
  let ?rows = "upsert ar_id (new_message_row m now) ?f (mt_messages t)"
  have t': "mt_messages t' = ?rows" using assms(2) by (auto simp: record_message_def Let_def split: if_splits)
  have key: "ar_id (?f r) = ar_id r" for r by simp
  have "i \<in> ar_id ` set ?rows" using assms(1) key_set_upsert [of ar_id ?f, OF key] by (auto simp: erased_message_def)
  moreover have "ar_id r = i \<longrightarrow> erased r" if "r \<in> set ?rows" for r
  proof (rule ball_upsert [where Q = "\<lambda>r. ar_id r = i \<longrightarrow> erased r", OF _ _ _ that])
    show "ar_id (new_message_row m now) \<notin> ar_id ` set (mt_messages t) \<Longrightarrow>
        ar_id (new_message_row m now) = i \<longrightarrow> erased (new_message_row m now)"
      using assms(1) by (auto simp: erased_message_def)
  qed (use assms(1) in \<open>auto simp: erased_message_def erased_def\<close>)
  ultimately show ?thesis unfolding erased_message_def t' by blast
qed

lemma delete_message_rows:
  assumes "delete_message g j d now t = Inr (u, t')"
  shows "ar_id ` set (mt_messages t') = ar_id ` set (mt_messages t)"
    and "r' \<in> set (mt_messages t') \<Longrightarrow> erased r' \<or> r' \<in> set (mt_messages t) \<and> \<not> (ar_guild_id r' = g \<and> ar_id r' = j)"
proof -
  have t': "mt_messages t' = update_where (\<lambda>r. ar_guild_id r = g \<and> ar_id r = j) (tombstone d now) (mt_messages t)"
    using assms by (auto simp: delete_message_def)
  show "ar_id ` set (mt_messages t') = ar_id ` set (mt_messages t)"
    unfolding t' by (rule key_set_update_where) simp
  show "r' \<in> set (mt_messages t') \<Longrightarrow> erased r' \<or> r' \<in> set (mt_messages t) \<and> \<not> (ar_guild_id r' = g \<and> ar_id r' = j)"
    unfolding t' using erased_tombstone by (blast dest!: set_update_whereD)
qed

lemma delete_message_erased:
  "erased_message i t \<Longrightarrow> delete_message g j d now t = Inr (u, t') \<Longrightarrow> erased_message i t'"
  unfolding erased_message_def using delete_message_rows by metis

lemma delete_message_erases:
  assumes "unique_key ar_id (mt_messages t)" "row_of ar_id i (mt_messages t) = Some r" "ar_guild_id r = g"
    and del: "delete_message g i d now t = Inr (u, t')"
  shows "erased_message i t'"
proof -
  have r: "x = r" if "x \<in> set (mt_messages t)" "ar_id x = i" for x
    using row_of_unique [OF assms(1) that(1)] that(2) assms(2) by simp
  have "i \<in> ar_id ` set (mt_messages t')"
    using row_of_SomeD [OF assms(2)] delete_message_rows(1) [OF del] by force
  moreover have "erased x" if "x \<in> set (mt_messages t')" "ar_id x = i" for x
    using delete_message_rows(2) [OF del that(1)] r [of x] that(2) assms(3) by metis
  ultimately show ?thesis unfolding erased_message_def by blast
qed

lemma upsert_channel_messages:
  "upsert_channel req now t = Inr (u, t') \<Longrightarrow> mt_messages t' = mt_messages t \<and> mt_policies t' = mt_policies t"
  by (auto simp: upsert_channel_def Let_def split: if_splits)

end
