(* ===== verification/MemoryIngestor.thy ===== *)
theory MemoryIngestor
  imports MemoryStore
begin

text \<open>
  \<^verbatim>\<open>internal/memory/ingestor.go\<close>: Discord's message events go through a bounded channel to one goroutine, which
  writes what the channel's policy allows. The store behind it is the interface \<^verbatim>\<open>IngestStore\<close>, over a world \<open>'w\<close>. A
  day is 24 hours, as \<^verbatim>\<open>AddDate\<close> counts in UTC, the zone of Discord's timestamps.
\<close>

record message_event =
  mv_message_id :: string
  mv_guild_id :: string
  mv_channel_id :: string
  mv_author_id :: string
  mv_content :: string
  mv_created_at :: gotime
  mv_deleted :: bool
  mv_deleted_at :: gotime

record 'w ingest_store =
  is_guild_policy :: "string \<Rightarrow> 'w \<Rightarrow> memory_policy result \<times> 'w"
  is_channel_policy :: "string \<Rightarrow> string \<Rightarrow> 'w \<Rightarrow> channel_policy option result \<times> 'w"
  is_record :: "message_record \<Rightarrow> 'w \<Rightarrow> unit result \<times> 'w"
  is_delete :: "string \<Rightarrow> string \<Rightarrow> gotime \<Rightarrow> 'w \<Rightarrow> unit result \<times> 'w"

definition add_days :: "gotime \<Rightarrow> int \<Rightarrow> gotime" where
  "add_days t days = t + days * 86400000000000"

definition retention_days :: "channel_policy \<Rightarrow> memory_policy \<Rightarrow> int" where
  "retention_days channel policy =
     (let d1 = (if cp_retention_days channel = 0 then mp_default_retention_days policy else cp_retention_days channel)
      in if d1 \<le> 0 then DefaultRetentionDays else d1)"

definition event_record ::
  "(string \<Rightarrow> string) \<Rightarrow> gotime \<Rightarrow> channel_policy \<Rightarrow> memory_policy \<Rightarrow> message_event \<Rightarrow> message_record" where
  "event_record sha currentTime channel policy event =
     (let createdAt = (if mv_created_at event = zero_time then currentTime else mv_created_at event) in
      \<lparr>mr_message_id = mv_message_id event, mr_guild_id = mv_guild_id event, mr_channel_id = mv_channel_id event,
       mr_author_id = mv_author_id event,
       mr_text = (if cp_mode channel = ModeFull then mv_content event else []),
       mr_hash = HashText sha (mv_content event), mr_created_at = createdAt,
       mr_retention_until = add_days createdAt (retention_days channel policy)\<rparr>)"

definition ingest ::
  "(string \<Rightarrow> string) \<Rightarrow> gotime \<Rightarrow> 'w ingest_store \<Rightarrow> message_event \<Rightarrow> 'w \<Rightarrow> unit result \<times> 'w" where
  "ingest sha currentTime s event0 w =
     (if mv_deleted event0 then
        (if mv_guild_id event0 = [] \<or> mv_message_id event0 = [] then (Inr (), w)
         else is_delete s (mv_guild_id event0) (mv_message_id event0)
           (if mv_deleted_at event0 = zero_time then currentTime else mv_deleted_at event0) w)
      else let event = event0\<lparr>mv_content := NormalizeText (mv_content event0)\<rparr> in
        if mv_guild_id event = [] \<or> mv_channel_id event = [] \<or> mv_message_id event = [] \<or> mv_author_id event = []
           \<or> mv_content event = [] then (Inr (), w)
        else db_bind (is_channel_policy s (mv_guild_id event) (mv_channel_id event) w) (\<lambda>found w1.
          case found of
            None \<Rightarrow> (Inr (), w1)
          | Some channel \<Rightarrow>
              if cp_mode channel = ModeOff then (Inr (), w1)
              else db_bind (is_guild_policy s (mv_guild_id event) w1) (\<lambda>policy w2.
                is_record s (event_record sha currentTime channel policy event) w2)))"

subsection \<open>The queue and its goroutine\<close>

text \<open>
  \<^verbatim>\<open>busy\<close> is the event \<^verbatim>\<open>run\<close> has received and not finished with; an error of \<^verbatim>\<open>ingest\<close> is dropped. A nil ingestor and one without
  a store refuse every event.
\<close>

record 'w live_ingestor =
  lv_store :: "'w ingest_store option"
  lv_queue :: "message_event list"
  lv_size :: nat
  lv_busy :: "message_event option"
  lv_world :: 'w

definition NewLiveIngestor :: "'w ingest_store option \<Rightarrow> int \<Rightarrow> 'w \<Rightarrow> 'w live_ingestor" where
  "NewLiveIngestor s queueSize w =
     \<lparr>lv_store = s, lv_queue = [], lv_size = nat (if queueSize \<le> 0 then 256 else queueSize), lv_busy = None, lv_world = w\<rparr>"

definition TryEnqueueMessage :: "message_event \<Rightarrow> 'w live_ingestor \<Rightarrow> bool \<times> 'w live_ingestor" where
  "TryEnqueueMessage event i =
     (if lv_store i = None then (False, i)
      else if length (lv_queue i) < lv_size i then (True, i\<lparr>lv_queue := lv_queue i @ [event]\<rparr>)
      else (False, i))"

datatype ingest_label = Offered message_event bool | Received | Ingested

inductive ingest_step ::
  "(string \<Rightarrow> string) \<Rightarrow> (nat \<Rightarrow> gotime) \<Rightarrow> nat \<Rightarrow> 'w live_ingestor \<Rightarrow> ingest_label \<Rightarrow> 'w live_ingestor \<Rightarrow> bool"
  for sha now n
where
  offer: "TryEnqueueMessage event i = (ok, i') \<Longrightarrow> ingest_step sha now n i (Offered event ok) i'"
| receive: "lv_busy i = None \<Longrightarrow> lv_queue i = event # rest \<Longrightarrow>
    ingest_step sha now n i Received (i\<lparr>lv_busy := Some event, lv_queue := rest\<rparr>)"
| finish: "lv_busy i = Some event \<Longrightarrow> lv_store i = Some s \<Longrightarrow> ingest sha (now n) s event (lv_world i) = (r, w) \<Longrightarrow>
    ingest_step sha now n i Ingested (i\<lparr>lv_busy := None, lv_world := w\<rparr>)"

text \<open>An execution: step \<open>n\<close> sees the time \<open>now n\<close>.\<close>

inductive ingest_run ::
  "(string \<Rightarrow> string) \<Rightarrow> (nat \<Rightarrow> gotime) \<Rightarrow> 'w live_ingestor \<Rightarrow> ingest_label list \<Rightarrow> 'w live_ingestor \<Rightarrow> bool"
  for sha now i0
where
  start: "ingest_run sha now i0 [] i0"
| step: "ingest_run sha now i0 tr i \<Longrightarrow> ingest_step sha now (length tr) i l i' \<Longrightarrow> ingest_run sha now i0 (tr @ [l]) i'"

inductive_simps offered_step: "ingest_step sha now n i (Offered event ok) i'"
inductive_simps received_step: "ingest_step sha now n i Received i'"
inductive_simps ingested_step: "ingest_step sha now n i Ingested i'"

subsection \<open>The goroutine serves the accepted events in order\<close>

text \<open>
  The abstract machine has no queue: it is the list of the events the caller was told were accepted, each written at the time
  it is served. The times of the services are those of the \<open>Ingested\<close> labels.
\<close>

fun accepted :: "ingest_label list \<Rightarrow> message_event list" where
  "accepted [] = []"
| "accepted (Offered event ok # tr) = (if ok then event # accepted tr else accepted tr)"
| "accepted (_ # tr) = accepted tr"

definition service_times :: "(nat \<Rightarrow> gotime) \<Rightarrow> ingest_label list \<Rightarrow> gotime list" where
  "service_times now tr = map now (filter (\<lambda>n. tr ! n = Ingested) [0..<length tr])"

fun ingest_all ::
  "(string \<Rightarrow> string) \<Rightarrow> 'w ingest_store \<Rightarrow> (gotime \<times> message_event) list \<Rightarrow> 'w \<Rightarrow> 'w" where
  "ingest_all sha s [] w = w"
| "ingest_all sha s ((t, event) # es) w = ingest_all sha s es (snd (ingest sha t s event w))"

lemma ingest_all_append: "ingest_all sha s (xs @ ys) w = ingest_all sha s ys (ingest_all sha s xs w)"
  by (induction xs arbitrary: w) auto

lemma accepted_append: "accepted (xs @ ys) = accepted xs @ accepted ys"
  by (induction xs rule: accepted.induct) auto

lemma service_times_snoc:
  "service_times now (tr @ [l]) = service_times now tr @ (if l = Ingested then [now (length tr)] else [])"
proof -
  have "filter (\<lambda>n. (tr @ [l]) ! n = Ingested) [0..<length tr] = filter (\<lambda>n. tr ! n = Ingested) [0..<length tr]"
    by (rule filter_cong) (auto simp: nth_append)
  then show ?thesis by (simp add: service_times_def nth_append)
qed

definition waiting :: "'w live_ingestor \<Rightarrow> message_event list" where
  "waiting i = (case lv_busy i of None \<Rightarrow> [] | Some event \<Rightarrow> [event]) @ lv_queue i"

text \<open>What every execution keeps: the served prefix of the accepted events has made the world what it is.\<close>

definition served :: "(string \<Rightarrow> string) \<Rightarrow> (nat \<Rightarrow> gotime) \<Rightarrow> 'w ingest_store \<Rightarrow> 'w \<Rightarrow> ingest_label list \<Rightarrow> 'w live_ingestor \<Rightarrow> bool"
where
  "served sha now s w0 tr i \<longleftrightarrow> lv_store i = Some s \<and> length (lv_queue i) \<le> lv_size i \<and>
     (\<exists>xs. accepted tr = xs @ waiting i \<and> length xs = length (service_times now tr) \<and>
        lv_world i = ingest_all sha s (zip (service_times now tr) xs) w0)"

lemma served_step:
  assumes "served sha now s w0 tr i" "ingest_step sha now (length tr) i l i'"
  shows "served sha now s w0 (tr @ [l]) i'"
proof -
  obtain xs where s: "lv_store i = Some s" "length (lv_queue i) \<le> lv_size i" "accepted tr = xs @ waiting i"
    and len: "length xs = length (service_times now tr)"
    and w: "lv_world i = ingest_all sha s (zip (service_times now tr) xs) w0"
    using assms(1) by (auto simp: served_def)
  show ?thesis
  proof (cases l)
    case (Offered event ok)
    then show ?thesis
      using assms(2) s len w unfolding served_def Offered
      by (auto simp: offered_step TryEnqueueMessage_def accepted_append service_times_snoc waiting_def split: if_splits)
  next
    case Received
    then show ?thesis
      using assms(2) s len w unfolding served_def Received
      by (auto simp: received_step accepted_append service_times_snoc waiting_def)
  next
    case Ingested
    then obtain event r w' where e: "lv_busy i = Some event" "ingest sha (now (length tr)) s event (lv_world i) = (r, w')"
      "i' = i\<lparr>lv_busy := None, lv_world := w'\<rparr>"
      using assms(2) s(1) by (auto simp: ingested_step)
    have "accepted (tr @ [l]) = (xs @ [event]) @ waiting i'"
      using s(3) e Ingested by (simp add: accepted_append waiting_def)
    moreover have "lv_world i' = ingest_all sha s (zip (service_times now (tr @ [l])) (xs @ [event])) w0"
      using e w len Ingested by (simp add: service_times_snoc ingest_all_append)
    moreover have "lv_store i' = Some s" "length (lv_queue i') \<le> lv_size i'" using s e by simp_all
    moreover have "length (xs @ [event]) = length (service_times now (tr @ [l]))"
      using len Ingested by (simp add: service_times_snoc)
    ultimately show ?thesis unfolding served_def by blast
  qed
qed

lemma served_run:
  assumes "ingest_run sha now i0 tr i" "i0 = NewLiveIngestor (Some s) n w0"
  shows "served sha now s w0 tr i"
  using assms
proof (induction rule: ingest_run.induct)
  case start
  then show ?case by (simp add: served_def NewLiveIngestor_def waiting_def service_times_def)
qed (rule served_step)

text \<open>The goroutine can always finish what is waiting.\<close>

lemma drain:
  assumes "ingest_run sha now i0 tr i" "lv_store i = Some s"
  shows "\<exists>tr' i'. ingest_run sha now i0 (tr @ tr') i' \<and> accepted tr' = [] \<and> waiting i' = []"
  using assms
proof (induction "2 * length (lv_queue i) + (if lv_busy i = None then 0 else 1)" arbitrary: tr i rule: less_induct)
  case less
  show ?case
  proof (cases "lv_busy i")
    case (Some event)
    obtain r w where "ingest sha (now (length tr)) s event (lv_world i) = (r, w)" by fastforce
    then have "ingest_step sha now (length tr) i Ingested (i\<lparr>lv_busy := None, lv_world := w\<rparr>)"
      by (rule finish [where now = now and n = "length tr", OF Some less.prems(2)])
    from ingest_run.step [OF less.prems(1) this]
    have "ingest_run sha now i0 (tr @ [Ingested]) (i\<lparr>lv_busy := None, lv_world := w\<rparr>)" .
    from less.hyps [OF _ this] obtain tr' i' where
      "ingest_run sha now i0 ((tr @ [Ingested]) @ tr') i'" "accepted tr' = []" "waiting i' = []"
      using less.prems(2) Some by auto
    then show ?thesis by (intro exI [of _ "Ingested # tr'"] exI [of _ i']) simp
  next
    case None
    show ?thesis
    proof (cases "lv_queue i")
      case Nil
      then show ?thesis using less.prems(1) None by (intro exI [of _ "[]"] exI [of _ i]) (simp add: waiting_def)
    next
      case (Cons event rest)
      from ingest_run.step [OF less.prems(1) receive [OF None this]]
      have "ingest_run sha now i0 (tr @ [Received]) (i\<lparr>lv_busy := Some event, lv_queue := rest\<rparr>)" .
      from less.hyps [OF _ this] obtain tr' i' where
        "ingest_run sha now i0 ((tr @ [Received]) @ tr') i'" "accepted tr' = []" "waiting i' = []"
        using less.prems(2) None Cons by auto
      then show ?thesis by (intro exI [of _ "Received # tr'"] exI [of _ i']) simp
    qed
  qed
qed


subsection \<open>What the ingestor relies on, and the SQL store\<close>

text \<open>A property of the world that reading a policy, recording and deleting keep is kept by every event.\<close>

locale keeping_store =
  fixes s :: "'w ingest_store" and I :: "'w \<Rightarrow> bool"
  assumes keeps_guild_policy: "I w \<Longrightarrow> I (snd (is_guild_policy s g w))"
    and keeps_channel_policy: "I w \<Longrightarrow> I (snd (is_channel_policy s g c w))"
    and keeps_record: "I w \<Longrightarrow> I (snd (is_record s m w))"
    and keeps_delete: "I w \<Longrightarrow> I (snd (is_delete s g i d w))"
begin

lemma keeps_bind: "I (snd p) \<Longrightarrow> (\<And>x d. I d \<Longrightarrow> I (snd (f x d))) \<Longrightarrow> I (snd (db_bind p f))"
  by (auto simp: db_bind_def split: prod.splits sum.splits)

lemma keeps_ingest: "I w \<Longrightarrow> I (snd (ingest sha now s event w))"
  by (auto simp: ingest_def Let_def intro!: keeps_delete keeps_bind keeps_channel_policy keeps_guild_policy keeps_record
      split: option.split)

lemma keeps_ingest_all: "I w \<Longrightarrow> I (ingest_all sha s es w)"
proof (induction es arbitrary: w)
  case (Cons e es)
  then show ?case by (cases e) (simp add: keeps_ingest)
qed simp

end

definition sql_ingest_store :: "(string \<Rightarrow> string) \<Rightarrow> memory_store \<Rightarrow> memory_db ingest_store" where
  "sql_ingest_store sha s = \<lparr>is_guild_policy = GuildPolicy s, is_channel_policy = ChannelPolicy s,
     is_record = RecordMessage sha s, is_delete = DeleteMessage s\<rparr>"

lemma GuildPolicy_frame: "tables (snd (GuildPolicy s g db)) = tables db"
  by (auto simp: GuildPolicy_def Let_def intro!: sql_query_frame)

lemma ChannelPolicy_frame: "tables (snd (ChannelPolicy s g c db)) = tables db"
  by (auto simp: ChannelPolicy_def Let_def intro!: sql_query_frame)

lemma wrap_exec_unit:
  "tables (snd (wrap_err m (sql_exec stmt db))) = tables db \<or>
   stmt (clock db) (tables db) = Inr ((), tables (snd (wrap_err m (sql_exec stmt db))))"
proof -
  obtain x db' where p: "wrap_err m (sql_exec stmt db) = (x, db')" by fastforce
  from wrap_exec_tables [OF this] show ?thesis unfolding p by simp
qed

lemma RecordMessage_tables:
  assumes "tables (snd (RecordMessage sha s m db)) \<noteq> tables db"
  obtains q where "normalizeMessageRecord sha m = Inr q"
    "record_message q (clock db) (tables db) = Inr ((), tables (snd (RecordMessage sha s m db)))"
proof -
  obtain q where q: "normalizeMessageRecord sha m = Inr q" and "me_exec s"
    using assms by (cases "normalizeMessageRecord sha m") (auto simp: RecordMessage_def split: if_splits)
  then have e: "RecordMessage sha s m db = wrap_err ''record memory message'' (sql_exec (record_message q) db)"
    by (simp add: RecordMessage_def)
  show thesis using that [OF q] wrap_exec_unit [of "''record memory message''" "record_message q" db] assms
    unfolding e by blast
qed

lemma DeleteMessage_tables:
  assumes "tables (snd (DeleteMessage s g i d db)) \<noteq> tables db"
  obtains d' where "delete_message (trim_space g) (trim_space i) d' (clock db) (tables db) =
      Inr ((), tables (snd (DeleteMessage s g i d db)))"
proof -
  let ?d = "if d = zero_time then me_today s else d"
  let ?stmt = "delete_message (trim_space g) (trim_space i) ?d"
  have e: "DeleteMessage s g i d db = wrap_err ''delete memory message'' (sql_exec ?stmt db)"
    using assms by (simp add: DeleteMessage_def Let_def split: if_splits)
  show thesis using that [of ?d] wrap_exec_unit [of "''delete memory message''" ?stmt db] assms unfolding e by blast
qed

interpretation erased_kept: keeping_store "sql_ingest_store sha s" "\<lambda>db. erased_message i (tables db)"
proof (unfold_locales, goal_cases)
  case (1 w g)
  then show ?case by (simp add: sql_ingest_store_def GuildPolicy_frame)
next
  case (2 w g c)
  then show ?case by (simp add: sql_ingest_store_def ChannelPolicy_frame)
next
  case (3 w m)
  have "erased_message i (tables (snd (RecordMessage sha s m w)))"
  proof (cases "tables (snd (RecordMessage sha s m w)) = tables w")
    case False
    from RecordMessage_tables [OF this] show ?thesis using record_message_erased [OF 3] by metis
  qed (use 3 in simp)
  then show ?case by (simp add: sql_ingest_store_def)
next
  case (4 w g j d)
  have "erased_message i (tables (snd (DeleteMessage s g j d w)))"
  proof (cases "tables (snd (DeleteMessage s g j d w)) = tables w")
    case False
    from DeleteMessage_tables [OF this] show ?thesis using delete_message_erased [OF 4] by metis
  qed (use 4 in simp)
  then show ?case by (simp add: sql_ingest_store_def)
qed

lemma unreadable_not_found:
  assumes "erased_message i (tables db)"
  shows "RecentMessages s q db = (Inr rs, db') \<Longrightarrow> i \<notin> sr_message_id ` set rs"
    and "SearchMessages s q' db = (Inr rs, db') \<Longrightarrow> i \<notin> sr_message_id ` set rs"
  using assms
  by (auto simp: erased_message_def erased_def result_of_row_def selected_recent_def readable_def
      dest!: RecentMessages_ok(1) [OF _ refl] SearchMessages_ok(1) [OF _ refl] set_newest)

text \<open>The writes of one event.\<close>

definition stored_text :: "memory_mode \<Rightarrow> string \<Rightarrow> string option" where
  "stored_text mode content =
     (if mode = ModeFull then nullif_empty (NormalizeText (NormalizeText content)) else None)"

lemma record_message_new:
  assumes "record_message m now t = Inr (u, t')" "r \<in> set (mt_messages t')" "r \<notin> set (mt_messages t)"
  shows "ar_guild_id r = mr_guild_id m \<and> ar_channel_id r = mr_channel_id m \<and> ar_text r = nullif_empty (mr_text m)"
proof -
  have "r \<in> set (upsert ar_id (new_message_row m now) (\<lambda>r. if ar_deleted_at r = None then write_message m now r else r)
      (mt_messages t))"
    using assms(1,2) by (auto simp: record_message_def Let_def split: if_splits)
  from set_upsertD [OF this] assms(3) show ?thesis
    by (auto simp: new_message_row_def write_message_def split: if_splits)
qed

lemma normalizeMessageRecord_ok:
  assumes "normalizeMessageRecord sha m = Inr q"
  shows "mr_guild_id q = trim_space (mr_guild_id m) \<and> mr_channel_id q = trim_space (mr_channel_id m) \<and>
    mr_text q = NormalizeText (mr_text m)"
  using assms by (auto simp: normalizeMessageRecord_def Let_def split: if_splits)

lemma NormalizeText_Nil [simp]: "NormalizeText [] = []"
  by (simp add: NormalizeText_def to_lower_def is_ascii_def GoPrelude.fields_def fields_from.simps)

lemma ChannelPolicy_found:
  assumes "ChannelPolicy s g c db = (Inr (Some p), db')"
  shows "\<exists>h. row_of channel_key (trim_space g, trim_space c) (mt_channels (tables db)) = Some h \<and> p = channel_of_row h"
  using assms by (auto simp: ChannelPolicy_def Let_def split: if_splits dest!: sql_exec_Inr)


lemma ingest_sql_new_rows:
  assumes "ingest sha now (sql_ingest_store sha s) event db = (res, db')" "\<not> mv_deleted event"
    and "r \<in> set (mt_messages (tables db'))" "r \<notin> set (mt_messages (tables db))"
  shows "\<exists>h. row_of channel_key (trim_space (mv_guild_id event), trim_space (mv_channel_id event)) (mt_channels (tables db)) = Some h
    \<and> hr_mode h \<noteq> ModeOff \<and> ar_guild_id r = trim_space (mv_guild_id event) \<and> ar_channel_id r = trim_space (mv_channel_id event)
    \<and> ar_text r = stored_text (hr_mode h) (mv_content event)"
proof -
  let ?ev = "event\<lparr>mv_content := NormalizeText (mv_content event)\<rparr>"
  obtain found db1 where c: "ChannelPolicy s (mv_guild_id event) (mv_channel_id event) db = (found, db1)" by fastforce
  have t1: "tables db1 = tables db" using ChannelPolicy_frame [of s "mv_guild_id event" "mv_channel_id event" db] c by simp
  obtain channel where f: "found = Inr (Some channel)" "cp_mode channel \<noteq> ModeOff"
    using assms c t1 by (auto simp: ingest_def Let_def sql_ingest_store_def split: if_splits sum.splits option.splits)
      (cases found; auto split: option.splits if_splits)+
  obtain policy db2 where g: "GuildPolicy s (mv_guild_id event) db1 = (policy, db2)" by fastforce
  have t2: "tables db2 = tables db" using GuildPolicy_frame [of s "mv_guild_id event" db1] g t1 by simp
  obtain p where p: "policy = Inr p"
    using assms c t2 f g by (cases policy) (auto simp: ingest_def Let_def sql_ingest_store_def split: if_splits)
  let ?m = "event_record sha now channel p ?ev"
  have "db' = snd (RecordMessage sha s ?m db2) \<or> db' = db"
    using assms(1,2) c f g p by (auto simp: ingest_def Let_def sql_ingest_store_def split: if_splits)
  then have db': "db' = snd (RecordMessage sha s ?m db2)" using assms(3,4) by auto
  then have "tables (snd (RecordMessage sha s ?m db2)) \<noteq> tables db2" using assms(3,4) t2 by auto
  then obtain q where q: "normalizeMessageRecord sha ?m = Inr q" "record_message q (clock db2) (tables db2) = Inr ((), tables db')"
    unfolding db' by (rule RecordMessage_tables)
  have new: "ar_guild_id r = mr_guild_id q \<and> ar_channel_id r = mr_channel_id q \<and> ar_text r = nullif_empty (mr_text q)"
    using record_message_new [OF q(2)] assms(3,4) t2 by simp
  obtain h where h: "row_of channel_key (trim_space (mv_guild_id event), trim_space (mv_channel_id event)) (mt_channels (tables db)) = Some h"
    "channel = channel_of_row h"
    using ChannelPolicy_found [of s "mv_guild_id event" "mv_channel_id event" db channel db1] c f by auto
  show ?thesis
    using new normalizeMessageRecord_ok [OF q(1)] h f(2)
    by (intro exI [of _ h])
      (auto simp: event_record_def Let_def stored_text_def nullif_empty_def channel_of_row_def)
qed


subsection \<open>Properties of the guild memory\<close>

text \<open>C18: Once a stored message has been deleted, no later sequence of events, not even further events for the same message,
  makes a search or a look at the recent messages return it, whatever faults the database has.\<close>

theorem deleted_message_stays_gone:
  assumes "unique_key ar_id (mt_messages (tables db))"
    and "row_of ar_id (trim_space i) (mt_messages (tables db)) = Some r" "ar_guild_id r = trim_space g"
    and del: "DeleteMessage s g i d db = (Inr u, db1)"
    and later: "db2 = ingest_all sha (sql_ingest_store sha s') events db1"
  shows "(fst (RecentMessages s2 q db2) = Inr rs \<longrightarrow> trim_space i \<notin> sr_message_id ` set rs) \<and>
    (fst (SearchMessages s2 q' db2) = Inr rs' \<longrightarrow> trim_space i \<notin> sr_message_id ` set rs')"
proof -
  have "\<exists>d'. delete_message (trim_space g) (trim_space i) d' (clock db) (tables db) = Inr ((), tables db1)"
    using del by (auto simp: DeleteMessage_def Let_def split: if_splits dest!: sql_exec_Inr)
  then have "erased_message (trim_space i) (tables db1)"
    using delete_message_erases [OF assms(1,2,3)] by blast
  then have "erased_message (trim_space i) (tables db2)"
    unfolding later by (rule erased_kept.keeps_ingest_all)
  note gone = unreadable_not_found [OF this]
  show ?thesis using gone(1) [of s2 q rs] gone(2) [of s2 q' rs'] by (metis prod.collapse)
qed

text \<open>C19: A message event that is not a deletion writes a row only into a channel whose policy exists and is not off, and the
  row holds the normalised text only if the policy is full; under metadata it holds no text.\<close>

theorem ingest_writes_what_the_channel_allows:
  assumes "ingest sha now (sql_ingest_store sha s) event db = (res, db')" "\<not> mv_deleted event"
    and "r \<in> set (mt_messages (tables db'))" "r \<notin> set (mt_messages (tables db))"
  shows "\<exists>h. row_of channel_key (trim_space (mv_guild_id event), trim_space (mv_channel_id event)) (mt_channels (tables db)) = Some h
    \<and> hr_mode h \<noteq> ModeOff \<and> ar_guild_id r = trim_space (mv_guild_id event) \<and> ar_channel_id r = trim_space (mv_channel_id event)
    \<and> (hr_mode h \<noteq> ModeFull \<longrightarrow> ar_text r = None)
    \<and> (hr_mode h = ModeFull \<longrightarrow> ar_text r = nullif_empty (NormalizeText (NormalizeText (mv_content event))))"
  using ingest_sql_new_rows [OF assms] unfolding stored_text_def by metis

text \<open>C20: The ingestor refines the sequential writing of the events it accepted: in every execution the queue stays within its
  size, the world is what the served prefix of the accepted events makes of it, in order, and the goroutine can always serve the
  rest, after which no accepted event is missing.\<close>

theorem ingestor_serves_accepted_in_order:
  assumes "ingest_run sha now (NewLiveIngestor (Some s) n w0) tr i"
  shows "length (lv_queue i) \<le> lv_size i \<and>
    (\<exists>xs. accepted tr = xs @ waiting i \<and> lv_world i = ingest_all sha s (zip (service_times now tr) xs) w0 \<and>
      length xs = length (service_times now tr)) \<and>
    (\<exists>tr' i'. ingest_run sha now (NewLiveIngestor (Some s) n w0) (tr @ tr') i' \<and> accepted tr' = [] \<and>
      lv_world i' = ingest_all sha s (zip (service_times now (tr @ tr')) (accepted tr)) w0)"
proof (intro conjI)
  note v = served_run [OF assms refl]
  then show "length (lv_queue i) \<le> lv_size i"
    and "\<exists>xs. accepted tr = xs @ waiting i \<and> lv_world i = ingest_all sha s (zip (service_times now tr) xs) w0 \<and>
      length xs = length (service_times now tr)"
    unfolding served_def by blast+
  from v have "lv_store i = Some s" unfolding served_def by blast
  from drain [OF assms this] obtain tr' i' where d: "ingest_run sha now (NewLiveIngestor (Some s) n w0) (tr @ tr') i'"
    "accepted tr' = []" "waiting i' = []" by blast
  then show "\<exists>tr' i'. ingest_run sha now (NewLiveIngestor (Some s) n w0) (tr @ tr') i' \<and> accepted tr' = [] \<and>
      lv_world i' = ingest_all sha s (zip (service_times now (tr @ tr')) (accepted tr)) w0"
    using served_run [OF d(1) refl] by (auto simp: served_def accepted_append)
qed

text \<open>C21: The count of mentions, computed by the database from lengths and a replacement, is over the readable rows of the request
  the largest number of disjoint occurrences of the normalised text; without faults every valid request is answered.\<close>

theorem mentions_are_disjoint_occurrences:
  assumes "faults db = []" "me_query s" "trim_space (cq_guild_id req) \<noteq> []" "NormalizeText (cq_text req) \<noteq> []"
  shows "fst (CountMentions s req db) = Inr (sum_list
    (map (\<lambda>r. max_occurrences (NormalizeText (cq_text req)) (null_text (ar_text r)))
      (filter (counted (normalizeCountRequest req) (clock db)) (mt_messages (tables db)))))"
  using CountMentions_succeeds [OF assms] CountMentions_ok [OF _ refl] by (fastforce simp: counted_text)

text \<open>A search returns, of the readable messages of its guild and channel that contain the normalised query, at most 25, the
  newest first, and leaves one out only for newer ones.\<close>

theorem search_returns_the_newest:
  assumes "SearchMessages s req db = (Inr rs, db')" "q = normalizeSearchRequest req"
    "P = (\<lambda>r. selected_recent q (clock db) r \<and> contains_sub (null_text (ar_text r)) (mq_query q))"
  shows "length rs = min (nat (mq_limit q)) (count_where P (mt_messages (tables db))) \<and> length rs \<le> 25
    \<and> sorted (map (\<lambda>x. - sr_created_at x) rs)
    \<and> (\<forall>x\<in>set rs. \<exists>r\<in>set (mt_messages (tables db)). P r \<and> x = result_of_row (clock db) r)
    \<and> (\<forall>r\<in>set (mt_messages (tables db)). P r \<and> result_of_row (clock db) r \<notin> set rs \<longrightarrow>
        (\<forall>x\<in>set rs. ar_created_at r \<le> sr_created_at x))"
proof -
  let ?new = "newest (mq_limit q) P (mt_messages (tables db))"
  have rs: "rs = map (result_of_row (clock db)) ?new" using SearchMessages_ok(1) [OF assms(1,2)] assms(3) by simp
  have created: "sr_created_at (result_of_row n r) = ar_created_at r" for n r by (simp add: result_of_row_def)
  have "\<forall>r\<in>set (mt_messages (tables db)). P r \<and> result_of_row (clock db) r \<notin> set rs \<longrightarrow>
        (\<forall>x\<in>set rs. ar_created_at r \<le> sr_created_at x)"
  proof (intro ballI impI, elim conjE)
    fix r x
    assume r: "r \<in> set (mt_messages (tables db))" "P r" "result_of_row (clock db) r \<notin> set rs" and "x \<in> set rs"
    then obtain r' where r': "r' \<in> set ?new" "x = result_of_row (clock db) r'" by (auto simp: rs)
    have "r \<notin> set ?new" using r(3) by (auto simp: rs)
    from newest_before [where P = P, OF r(1,2) this r'(1)] show "ar_created_at r \<le> sr_created_at x"
      by (simp add: r'(2) created)
  qed
  moreover have "\<forall>x\<in>set rs. \<exists>r\<in>set (mt_messages (tables db)). P r \<and> x = result_of_row (clock db) r"
    unfolding rs by (auto dest: set_newest)
  moreover have "sorted (map (\<lambda>x. - sr_created_at x) rs)"
    using sorted_newest [of "mq_limit q" P "mt_messages (tables db)"] by (simp add: rs created o_def)
  moreover have "length rs \<le> 25"
    using search_limit [of req] assms(2) by (simp add: rs length_newest) linarith
  ultimately show ?thesis by (simp add: rs length_newest)
qed


subsection \<open>Witnesses\<close>

definition sample_memory :: memory_store where
  "sample_memory = \<lparr>me_query = True, me_exec = True, me_collate = length, me_today = 5\<rparr>"

definition sample_message_row :: message_row where
  "sample_message_row = \<lparr>ar_id = ''m'', ar_guild_id = ''g'', ar_channel_id = ''c'', ar_author_id = ''u'', ar_text = Some ''aaa'',
     ar_ciphertext = None, ar_hash = Some ''h'', ar_created_at = 1000, ar_deleted_at = None, ar_retention_until = 9000000,
     ar_indexed_at = 1000\<rparr>"

definition memory_sample :: "message_row list \<Rightarrow> memory_db" where
  "memory_sample rows = \<lparr>tables = \<lparr>mt_policies = [],
     mt_channels = [\<lparr>hr_guild_id = ''g'', hr_channel_id = ''c'', hr_mode = ModeFull, hr_days = Some 1, hr_updated_by = None, hr_updated_at = 0\<rparr>],
     mt_messages = rows, mt_segments = []\<rparr>, clock = 2000, faults = []\<rparr>"

definition sample_event :: message_event where
  "sample_event = \<lparr>mv_message_id = ''m'', mv_guild_id = ''g'', mv_channel_id = ''c'', mv_author_id = ''u'', mv_content = ''aaa'',
     mv_created_at = 1000, mv_deleted = False, mv_deleted_at = zero_time\<rparr>"

definition sample_recent :: recent_request where
  "sample_recent = \<lparr>mq_guild_id = ''g'', mq_channel_id = ''c'', mq_author_id = [], mq_limit = 3, mq_start = zero_time, mq_end = zero_time\<rparr>"

definition sample_search :: search_request where
  "sample_search = recent_request.extend sample_recent \<lparr>mq_query = ''aa''\<rparr>"

definition sample_count :: count_request where
  "sample_count = \<lparr>cq_guild_id = ''g'', cq_channel_id = [], cq_author_id = [], cq_text = ''aa'', cq_start = zero_time, cq_end = zero_time\<rparr>"

lemma normalize_samples [simp]: "NormalizeText ''aaa'' = ''aaa''" "NormalizeText ''aa'' = ''aa''"
  by (rule NormalizeText_plain, simp add: plain_word_def go_eval)+

lemma trim_samples [simp]:
  "trim_space ''m'' = ''m''" "trim_space ''g'' = ''g''" "trim_space ''c'' = ''c''" "trim_space ''u'' = ''u''" "trim_space ''h'' = ''h''"
  by (simp_all add: go_eval)

lemmas memory_samples = sample_memory_def sample_message_row_def memory_sample_def sample_event_def sample_recent_def
  sample_search_def sample_count_def recent_request.defs zero_time_def Let_def

lemma sample_delete:
  "DeleteMessage sample_memory ''g'' ''m'' 3000 (memory_sample [sample_message_row]) =
     (Inr (), memory_sample [tombstone 3000 2000 sample_message_row])"
  by (simp add: DeleteMessage_def delete_message_def update_where_def delete_where_def memory_samples)

lemma sample_ingest:
  "ingest (\<lambda>_. ''h'') 5 (sql_ingest_store (\<lambda>_. ''h'') sample_memory) sample_event (memory_sample []) =
     (Inr (), memory_sample [\<lparr>ar_id = ''m'', ar_guild_id = ''g'', ar_channel_id = ''c'', ar_author_id = ''u'', ar_text = Some ''aaa'',
     ar_ciphertext = None, ar_hash = Some ''h'', ar_created_at = 1000, ar_deleted_at = None, ar_retention_until = 86400000001000,
     ar_indexed_at = 2000\<rparr>])"
  by (simp add: ingest_def Let_def sql_ingest_store_def ChannelPolicy_def GuildPolicy_def RecordMessage_def normalizeMessageRecord_def
      event_record_def retention_days_def add_days_def channel_of_row_def channel_key_def HashText_def record_message_def
      new_message_row_def nullif_empty_def timestamptz_def upsert_def DefaultPolicy_def null_text_def checks_def must_def memory_samples)

lemma deleted_message_stays_gone_witness:
  "fst (RecentMessages sample_memory sample_recent (ingest_all (\<lambda>_. ''h'') (sql_ingest_store (\<lambda>_. ''h'') sample_memory) []
       (memory_sample [tombstone 3000 2000 sample_message_row]))) = Inr [] \<and>
   ''m'' \<notin> sr_message_id ` set ([] :: search_result list)"
proof -
  let ?db = "memory_sample [sample_message_row]" and ?db1 = "memory_sample [tombstone 3000 2000 sample_message_row]"
  have none: "fst (RecentMessages sample_memory sample_recent
      (ingest_all (\<lambda>_. ''h'') (sql_ingest_store (\<lambda>_. ''h'') sample_memory) [] ?db1)) = Inr []"
    by (simp add: RecentMessages_def normalizeRecentRequest_def newest_def selected_recent_def readable_def tombstone_def memory_samples)
  have "unique_key ar_id (mt_messages (tables ?db))"
    "row_of ar_id (trim_space ''m'') (mt_messages (tables ?db)) = Some sample_message_row"
    "ar_guild_id sample_message_row = trim_space ''g''"
    by (simp_all add: memory_samples)
  from deleted_message_stays_gone [OF this sample_delete refl] none show ?thesis by (simp add: trim_samples)
qed

lemma ingest_writes_what_the_channel_allows_witness:
  "\<exists>h. row_of channel_key (''g'', ''c'') (mt_channels (tables (memory_sample []))) = Some h \<and> hr_mode h \<noteq> ModeOff"
proof -
  have "\<not> mv_deleted sample_event" by (simp add: sample_event_def)
  from ingest_writes_what_the_channel_allows [OF sample_ingest this, of
      "\<lparr>ar_id = ''m'', ar_guild_id = ''g'', ar_channel_id = ''c'', ar_author_id = ''u'', ar_text = Some ''aaa'',
       ar_ciphertext = None, ar_hash = Some ''h'', ar_created_at = 1000, ar_deleted_at = None, ar_retention_until = 86400000001000,
       ar_indexed_at = 2000\<rparr>"]
  show ?thesis by (simp add: sample_event_def memory_sample_def channel_key_def)
qed

lemma ingestor_serves_accepted_in_order_witness:
  "length (lv_queue (NewLiveIngestor (Some (sql_ingest_store (\<lambda>_. ''h'') sample_memory)) 1 (memory_sample []))) \<le>
     lv_size (NewLiveIngestor (Some (sql_ingest_store (\<lambda>_. ''h'') sample_memory)) 1 (memory_sample []))"
  using ingestor_serves_accepted_in_order [OF ingest_run.start [of "\<lambda>_. ''h''" "\<lambda>_. 0"
      "NewLiveIngestor (Some (sql_ingest_store (\<lambda>_. ''h'') sample_memory)) 1 (memory_sample [])"]] by (rule conjunct1)

lemma mentions_are_disjoint_occurrences_witness:
  "max_occurrences ''aa'' ''aaa'' = 1 \<and> fst (CountMentions sample_memory sample_count (memory_sample [sample_message_row])) = Inr 1"
proof -
  have "max_occurrences ''aa'' ''aaa'' = occurrences ''aa'' ''aaa''" by (simp add: occurrences_max)
  also have "\<dots> = 1"
    by (simp add: occurrences.simps [of _ "''aaa''"] occurrences.simps [of _ "''a''"] occurrences.simps [of _ "[]"])
  finally have m: "max_occurrences ''aa'' ''aaa'' = 1" .
  have "counted (normalizeCountRequest sample_count) 2000 sample_message_row"
    by (simp add: counted_def normalizeCountRequest_def readable_def in_dates_def null_time_def null_text_def memory_samples)
  then show ?thesis
    using mentions_are_disjoint_occurrences [of "memory_sample [sample_message_row]" sample_memory sample_count] m
    by (simp add: memory_sample_def sample_memory_def) (simp add: sample_count_def sample_message_row_def null_text_def)
qed

lemma search_returns_the_newest_witness:
  "length [result_of_row 2000 sample_message_row] \<le> 25"
proof -
  have "SearchMessages sample_memory sample_search (memory_sample [sample_message_row]) =
      (Inr [result_of_row 2000 sample_message_row], memory_sample [sample_message_row])"
    by (simp add: SearchMessages_def normalizeSearchRequest_def newest_def selected_recent_def readable_def in_dates_def null_time_def
        null_text_def memory_samples)
  from search_returns_the_newest [OF this refl refl] show ?thesis by blast
qed

end
