(* ===== verification/GoText.thy ===== *)
theory GoText
  imports Utf8
begin

text \<open>
  Parts of \<^verbatim>\<open>strconv\<close>, \<^verbatim>\<open>strings\<close> and \<^verbatim>\<open>time\<close> the agent's tools and the Discord commands use: \<^verbatim>\<open>Atoi\<close>,
  \<^verbatim>\<open>ReplaceAll\<close>, \<^verbatim>\<open>HasPrefix\<close> and the calendar behind \<^verbatim>\<open>Format(time.RFC3339)\<close> and \<^verbatim>\<open>Parse("2006-01-02")\<close>. Times
  are formatted in UTC.
\<close>

subsection \<open>Numbers\<close>

definition is_digit_char :: "char \<Rightarrow> bool" where
  "is_digit_char c \<longleftrightarrow> 48 \<le> byte c \<and> byte c \<le> 57"

text \<open>\<^verbatim>\<open>strconv.Atoi\<close>: an optional sign and digits, within 64 bits.\<close>

definition digits_value :: "string \<Rightarrow> int option" where
  "digits_value s = (if s = [] \<or> \<not> list_all is_digit_char s then None else Some (int (str_nat s)))"

definition atoi :: "string \<Rightarrow> int option" where
  "atoi s =
     (let v = (case s of [] \<Rightarrow> None
        | c # t \<Rightarrow> if c = CHR ''-'' then map_option uminus (digits_value t)
                  else if c = CHR ''+'' then digits_value t else digits_value s)
      in case v of None \<Rightarrow> None
         | Some i \<Rightarrow> if - 9223372036854775808 \<le> i \<and> i \<le> 9223372036854775807 then Some i else None)"

lemma nat_str_digits: "list_all is_digit_char (nat_str n) \<and> nat_str n \<noteq> []"
proof (induction n rule: nat_str.induct)
  case (1 n)
  have "is_digit_char (char_of (48 + k))" if "k < 10" for k :: nat
    using that by (simp add: is_digit_char_def byte_char_of)
  then show ?case using 1 by (cases "n < 10") (simp_all add: nat_str.simps [of n])
qed

lemma digits_value_nat_str: "digits_value (nat_str n) = Some (int n)"
  using nat_str_digits by (simp add: digits_value_def)

lemma atoi_int_str:
  assumes "- 9223372036854775808 \<le> i" "i \<le> 9223372036854775807"
  shows "atoi (int_str i) = Some i"
proof (cases "i < 0")
  case True
  then show ?thesis using assms by (simp add: atoi_def int_str_def digits_value_nat_str)
next
  case False
  obtain c t where c: "nat_str (nat i) = c # t" using nat_str_digits [of "nat i"] by (cases "nat_str (nat i)") auto
  then have "is_digit_char c" using nat_str_digits [of "nat i"] by simp
  then have "c \<noteq> CHR ''-''" "c \<noteq> CHR ''+''" by (auto simp: is_digit_char_def byte_def)
  then show ?thesis using assms False c digits_value_nat_str [of "nat i"] by (simp add: atoi_def int_str_def)
qed

subsection \<open>Replacing and joining\<close>

text \<open>\<^verbatim>\<open>strings.ReplaceAll(s, old, new)\<close> for a non-empty \<open>old\<close>.\<close>

function replace_all :: "string \<Rightarrow> string \<Rightarrow> string \<Rightarrow> string" where
  "replace_all old new s =
     (if s = [] \<or> old = [] then s
      else if prefix old s then new @ replace_all old new (drop (length old) s)
      else hd s # replace_all old new (tl s))"
  by pat_completeness auto
termination
  by (relation "measure (\<lambda>(old, new, s). length s)") auto

declare replace_all.simps [simp del]

text \<open>Replacing one byte.\<close>

definition replace_char :: "char \<Rightarrow> char \<Rightarrow> string \<Rightarrow> string" where
  "replace_char a b s = map (\<lambda>c. if c = a then b else c) s"

lemma replace_all_char: "replace_all [a] [b] s = replace_char a b s"
  by (induction s) (auto simp: replace_all.simps [of _ _ "_ # _"] replace_all.simps [of _ _ "[]"] replace_char_def)

definition trim_prefix :: "string \<Rightarrow> string \<Rightarrow> string" where
  "trim_prefix p s = (if prefix p s then drop (length p) s else s)"

definition trim_suffix :: "string \<Rightarrow> string \<Rightarrow> string" where
  "trim_suffix p s = (if suffix p s then take (length s - length p) s else s)"

text \<open>\<^verbatim>\<open>strings.Split(s, sep)\<close> for a non-empty \<open>sep\<close>.\<close>

function split_from :: "string \<Rightarrow> string \<Rightarrow> string \<Rightarrow> string list" where
  "split_from sep w s =
     (if s = [] \<or> sep = [] then [rev w @ s]
      else if prefix sep s then rev w # split_from sep [] (drop (length sep) s)
      else split_from sep (hd s # w) (tl s))"
  by pat_completeness auto
termination
  by (relation "measure (\<lambda>(sep, w, s). length s)") auto

declare split_from.simps [simp del]

definition split_on :: "string \<Rightarrow> string \<Rightarrow> string list" where
  "split_on sep s = split_from sep [] s"

lemma split_from_nonempty: "split_from sep w s \<noteq> []"
proof (induction sep w s rule: split_from.induct)
  case (1 sep w s)
  then show ?case by (subst split_from.simps) auto
qed

lemma join_Cons: "xs \<noteq> [] \<Longrightarrow> join sep (x # xs) = x @ sep @ join sep xs"
  by (cases xs) simp_all

lemma join_split_from: "join sep (split_from sep w s) = rev w @ s"
proof (induction sep w s rule: split_from.induct)
  case (1 sep w s)
  consider "s = [] \<or> sep = []" | "s \<noteq> []" "sep \<noteq> []" "prefix sep s" | "s \<noteq> []" "sep \<noteq> []" "\<not> prefix sep s" by blast
  then show ?case
  proof cases
    case 2
    have "split_from sep w s = rev w # split_from sep [] (drop (length sep) s)"
      using 2 by (subst split_from.simps) simp
    then show ?thesis using "1.IH"(1) 2 by (auto simp: join_Cons split_from_nonempty prefix_def)
  next
    case 3
    have "split_from sep w s = split_from sep (hd s # w) (tl s)"
      using 3 by (subst split_from.simps) simp
    then show ?thesis using "1.IH"(2) 3 by simp
  qed (auto simp: split_from.simps [of sep w s])
qed

lemma join_split_on: "join sep (split_on sep s) = s"
  by (simp add: split_on_def join_split_from)

subsection \<open>The calendar\<close>

text \<open>The proleptic Gregorian date of a day, counted from 1 January 1970.\<close>

definition civil :: "int \<Rightarrow> int \<times> int \<times> int" where
  "civil day =
     (let z = day + 719468; era = z div 146097; doe = z mod 146097;
          yoe = (doe - doe div 1460 + doe div 36524 - doe div 146096) div 365;
          doy = doe - (365 * yoe + yoe div 4 - yoe div 100);
          mp = (5 * doy + 2) div 153;
          d = doy - (153 * mp + 2) div 5 + 1;
          m = (if mp < 10 then mp + 3 else mp - 9)
      in (yoe + era * 400 + (if m \<le> 2 then 1 else 0), m, d))"

definition day_of :: "int \<Rightarrow> int \<Rightarrow> int \<Rightarrow> int" where
  "day_of y0 m d =
     (let y = (if m \<le> 2 then y0 - 1 else y0); era = y div 400; yoe = y mod 400;
          mp = (if m > 2 then m - 3 else m + 9);
          doy = (153 * mp + 2) div 5 + d - 1;
          doe = yoe * 365 + yoe div 4 - yoe div 100 + doy
      in era * 146097 + doe - 719468)"

definition leap :: "int \<Rightarrow> bool" where
  "leap y \<longleftrightarrow> y mod 4 = 0 \<and> (y mod 100 \<noteq> 0 \<or> y mod 400 = 0)"

definition days_in :: "int \<Rightarrow> int \<Rightarrow> int" where
  "days_in y m = (if m = 2 then (if leap y then 29 else 28) else if m \<in> {4, 6, 9, 11} then 30 else 31)"

text \<open>A number with leading zeros, as \<^verbatim>\<open>appendInt\<close> writes it.\<close>

definition padded :: "nat \<Rightarrow> int \<Rightarrow> string" where
  "padded w i =
     (let s = nat_str (nat (abs i)) in (if i < 0 then ''-'' else []) @ replicate (w - length s) CHR ''0'' @ s)"

definition second :: gotime where "second = 1000000000"

definition rfc3339 :: "gotime \<Rightarrow> string" where
  "rfc3339 t =
     (let s = t div second; day = s div 86400; r = s mod 86400 in
      case civil day of (y, m, d) \<Rightarrow>
        padded 4 y @ ''-'' @ padded 2 m @ ''-'' @ padded 2 d @ ''T'' @ padded 2 (r div 3600) @ '':'' @
        padded 2 (r div 60 mod 60) @ '':'' @ padded 2 (r mod 60) @ ''Z'')"

text \<open>\<^verbatim>\<open>time.Parse("2006-01-02", s)\<close>: four digits, two and two, a date of the calendar, nothing after it.\<close>

definition parse_date :: "string \<Rightarrow> gotime option" where
  "parse_date s =
     (if length s = 10 \<and> s ! 4 = CHR ''-'' \<and> s ! 7 = CHR ''-''
      then case (digits_value (take 4 s), digits_value (take 2 (drop 5 s)), digits_value (drop 8 s)) of
          (Some y, Some m, Some d) \<Rightarrow>
            if 1 \<le> m \<and> m \<le> 12 \<and> 1 \<le> d \<and> d \<le> days_in y m then Some (day_of y m d * 86400 * second) else None
        | _ \<Rightarrow> None
      else None)"

end
