(* ===== verification/Assistant.thy ===== *)
theory Assistant
  imports LlmUsage PluginMatcher GoText
begin

text \<open>
  \<^verbatim>\<open>internal/assistant\<close>: the chat handler that asks a guild's model and records the turns of the conversation without their
  text, and the two planners that ask the model for a JSON proposal, of a memory question or of a plugin command, and let through
  only what the message itself or the enabled manifests justify. The decoding of the proposals by \<^verbatim>\<open>encoding/json\<close>
  is a parameter.
\<close>

subsection \<open>Conversation turns\<close>

type_synonym turn_role = string

abbreviation ContentStorageMetadataOnly :: string where "ContentStorageMetadataOnly \<equiv> ''metadata_only''"
abbreviation AssistantSurfaceDM :: string where "AssistantSurfaceDM \<equiv> ''dm''"
abbreviation AssistantSurfaceGuildMention :: string where "AssistantSurfaceGuildMention \<equiv> ''guild_mention''"
abbreviation TurnRoleUser :: turn_role where "TurnRoleUser \<equiv> ''user''"
abbreviation TurnRoleAssistant :: turn_role where "TurnRoleAssistant \<equiv> ''assistant''"

record conversation_turn =
  ct_request_id :: string
  ct_surface :: string
  ct_guild_id :: string
  ct_channel_id :: string
  ct_actor_user_id :: string
  ct_role :: turn_role
  ct_content_storage :: string
  ct_content_chars :: int
  ct_provider_id :: string
  ct_model_id :: string

text \<open>A row of \<^verbatim>\<open>assistant_conversation_turns\<close>; it has no column for the text.\<close>

record turn_row =
  tw_id :: string
  tw_request_id :: string
  tw_surface :: string
  tw_guild_id :: "string option"
  tw_channel_id :: "string option"
  tw_actor_user_id :: string
  tw_role :: turn_role
  tw_content_storage :: string
  tw_content_chars :: int
  tw_provider_id :: "string option"
  tw_model_id :: "string option"

type_synonym turn_db = "turn_row list sqldb"

text \<open>The store: whether it has a \<^verbatim>\<open>db\<close>, and what \<^verbatim>\<open>newID\<close> returns in the call that records a turn (\<open>None\<close> if it is nil).\<close>

record conversation_store =
  cs_exec :: bool
  cs_new_id :: "(conversation_turn \<Rightarrow> string) option"

definition nullConversationStringArg :: "string \<Rightarrow> string option" where
  "nullConversationStringArg v = (if v = [] then None else Some v)"

definition normalizeConversationTurn :: "conversation_turn \<Rightarrow> conversation_turn" where
  "normalizeConversationTurn t = \<lparr>ct_request_id = trim_space (ct_request_id t), ct_surface = trim_space (ct_surface t),
     ct_guild_id = trim_space (ct_guild_id t), ct_channel_id = trim_space (ct_channel_id t),
     ct_actor_user_id = trim_space (ct_actor_user_id t), ct_role = trim_space (ct_role t),
     ct_content_storage = (let s = trim_space (ct_content_storage t) in if s = [] then ContentStorageMetadataOnly else s),
     ct_content_chars = ct_content_chars t, ct_provider_id = trim_space (ct_provider_id t),
     ct_model_id = trim_space (ct_model_id t)\<rparr>"

definition validateConversationTurn :: "conversation_turn \<Rightarrow> unit result" where
  "validateConversationTurn t = checks
     [must (ct_request_id t \<noteq> []) ''request ID is required'',
      must (ct_surface t \<in> {AssistantSurfaceDM, AssistantSurfaceGuildMention}) ''unknown conversation surface'',
      must (ct_actor_user_id t \<noteq> []) ''actor user ID is required'',
      must (ct_role t \<in> {TurnRoleUser, TurnRoleAssistant}) ''unknown conversation role'',
      must (ct_content_storage t = ContentStorageMetadataOnly) ''conversation content storage must be metadata_only'',
      must (\<not> ct_content_chars t < 0) ''content chars must be nonnegative'']"

definition turn_row_of :: "string \<Rightarrow> conversation_turn \<Rightarrow> turn_row" where
  "turn_row_of i t = \<lparr>tw_id = i, tw_request_id = ct_request_id t, tw_surface = ct_surface t,
     tw_guild_id = nullConversationStringArg (ct_guild_id t), tw_channel_id = nullConversationStringArg (ct_channel_id t),
     tw_actor_user_id = ct_actor_user_id t, tw_role = ct_role t, tw_content_storage = ct_content_storage t,
     tw_content_chars = ct_content_chars t, tw_provider_id = nullConversationStringArg (ct_provider_id t),
     tw_model_id = nullConversationStringArg (ct_model_id t)\<rparr>"

definition turn_checks :: "turn_row \<Rightarrow> bool" where
  "turn_checks r \<longleftrightarrow> tw_surface r \<in> {''dm'', ''guild_mention''} \<and> tw_role r \<in> {''user'', ''assistant''} \<and>
     tw_content_storage r = ''metadata_only'' \<and> 0 \<le> tw_content_chars r"

definition insert_turn :: "turn_row \<Rightarrow> (turn_row list, unit) statement" where
  "insert_turn row now rows =
     (if tw_id row \<in> tw_id ` set rows then Inl (Errorf ''duplicate key value violates unique constraint'')
      else if \<not> int4 (tw_content_chars row) then Inl (Errorf ''integer out of range'')
      else if \<not> turn_checks row then Inl (Errorf ''violates check constraint'')
      else Inr ((), rows @ [row]))"

definition RecordTurn :: "conversation_store \<Rightarrow> conversation_turn \<Rightarrow> turn_db \<Rightarrow> unit result \<times> turn_db" where
  "RecordTurn s turn0 db =
     (if \<not> cs_exec s then (Inl (Errorf ''conversation database is required''), db)
      else let turn = normalizeConversationTurn turn0 in
        case validateConversationTurn turn of
          Inl e \<Rightarrow> (Inl e, db)
        | Inr _ \<Rightarrow>
            (let i = (case cs_new_id s of None \<Rightarrow> [] | Some newID \<Rightarrow> trim_space (newID turn)) in
             if i = [] then (Inl (Errorf ''conversation turn ID is required''), db)
             else wrap_err ''insert conversation turn'' (sql_exec (insert_turn (turn_row_of i turn)) db)))"

subsection \<open>The chat handler\<close>

record chat_message =
  ms_surface :: string
  ms_guild_id :: string
  ms_channel_id :: string
  ms_actor_user_id :: string
  ms_text :: string

type_synonym 'w text_runtime = "generate_text_request \<Rightarrow> 'w \<Rightarrow> text_answer result \<times> 'w"

record 'w chat_handler =
  ch_runtime :: "'w text_runtime option"
  ch_recorder :: "(conversation_turn \<Rightarrow> 'w \<Rightarrow> unit result \<times> 'w) option"
  ch_instructions :: string
  ch_max_output_tokens :: int
  ch_max_response_runes :: int

definition NewHandler :: "'w text_runtime option \<Rightarrow> 'w chat_handler" where
  "NewHandler runtime = \<lparr>ch_runtime = runtime, ch_recorder = None, ch_instructions = [], ch_max_output_tokens = 0,
     ch_max_response_runes = 0\<rparr>"

definition defaultInstructions :: string where
  "defaultInstructions = (''You are Gigi, a concise Discord assistant. Answer the user's message directly. Do not claim you ran tools '' @
      ''or changed server state.'')"

definition normalizeMessage :: "chat_message \<Rightarrow> chat_message" where
  "normalizeMessage m = \<lparr>ms_surface = trim_space (ms_surface m), ms_guild_id = trim_space (ms_guild_id m),
     ms_channel_id = trim_space (ms_channel_id m), ms_actor_user_id = trim_space (ms_actor_user_id m),
     ms_text = trim_space (ms_text m)\<rparr>"

definition instructions :: "'w chat_handler \<Rightarrow> string" where
  "instructions h = (let i = trim_space (ch_instructions h) in if i = [] then defaultInstructions else i)"

definition maxResponseRunes :: "'w chat_handler \<Rightarrow> int" where
  "maxResponseRunes h = (if ch_max_response_runes h > 0 then ch_max_response_runes h else 1800)"

definition truncate_reply :: "string \<Rightarrow> int \<Rightarrow> string" where
  "truncate_reply value limit =
     (if limit \<le> 0 \<or> int (rune_count value) \<le> limit then value
      else trim_space (string_of_runes (take (nat limit) (runes value))) @ ''...'')"

definition turn_of :: "chat_message \<Rightarrow> text_answer \<Rightarrow> turn_role \<Rightarrow> string \<Rightarrow> conversation_turn" where
  "turn_of m a role content = \<lparr>ct_request_id = ta_request_id a, ct_surface = ms_surface m, ct_guild_id = ms_guild_id m,
     ct_channel_id = ms_channel_id m, ct_actor_user_id = ms_actor_user_id m, ct_role = role, ct_content_storage = [],
     ct_content_chars = int (rune_count content), ct_provider_id = ta_provider_id a, ct_model_id = ta_model_id a\<rparr>"

definition recordConversation ::
  "'w chat_handler \<Rightarrow> chat_message \<Rightarrow> text_answer \<Rightarrow> string \<Rightarrow> 'w \<Rightarrow> unit result \<times> 'w" where
  "recordConversation h m generated responseText w =
     (case ch_recorder h of
        None \<Rightarrow> (Inr (), w)
      | Some record_turn \<Rightarrow>
          db_bind (record_turn (turn_of m generated TurnRoleUser (ms_text m)) w)
            (\<lambda>_ w1. record_turn (turn_of m generated TurnRoleAssistant responseText) w1))"

definition guild_scope :: "string \<Rightarrow> owner_scope" where
  "guild_scope guildID = \<lparr>os_owner_type = OwnerGuild, os_guild_id = guildID, os_user_id = []\<rparr>"

definition chat_request :: "'w chat_handler \<Rightarrow> chat_message \<Rightarrow> generate_text_request" where
  "chat_request h m = \<lparr>gt_owner = guild_scope (ms_guild_id m), gt_purpose = PurposeChat, gt_actor_user_id = ms_actor_user_id m,
     gt_guild_id = ms_guild_id m, gt_channel_id = ms_channel_id m, gt_request_id = [], gt_instructions = instructions h,
     gt_input = ms_text m, gt_max_output_tokens = ch_max_output_tokens h\<rparr>"

definition Reply :: "'w chat_handler \<Rightarrow> chat_message \<Rightarrow> 'w \<Rightarrow> string result \<times> 'w" where
  "Reply h message0 w =
     (let m = normalizeMessage message0 in
      if ms_text m = [] then (Inr ''Say a little more and I can help.'', w)
      else if ms_surface m \<noteq> AssistantSurfaceGuildMention \<or> ms_guild_id m = []
      then (Inr ''Rich chat needs a server LLM profile first. Personal keys and DM reasoning are not enabled yet.'', w)
      else case ch_runtime h of
          None \<Rightarrow> (Inl (Errorf ''assistant runtime is required''), w)
        | Some generate \<Rightarrow>
            db_bind (generate (chat_request h m) w) (\<lambda>generated w1.
              let text = trim_space (ta_text generated) in
              if text = [] then (Inr ''I did not get a text response from the model.'', w1)
              else let reply = truncate_reply text (maxResponseRunes h) in
                db_bind (recordConversation h m generated reply w1) (\<lambda>_ w2. (Inr reply, w2))))"

subsection \<open>JSON proposals and mentions\<close>

fun first_index :: "char \<Rightarrow> string \<Rightarrow> nat option" where
  "first_index c [] = None"
| "first_index c (x # xs) = (if x = c then Some 0 else map_option Suc (first_index c xs))"

definition last_index :: "char \<Rightarrow> string \<Rightarrow> nat option" where
  "last_index c s = map_option (\<lambda>k. length s - 1 - k) (first_index c (rev s))"

text \<open>The part of a model's answer from the first brace to the last, if there is one.\<close>

definition json_part :: "string \<Rightarrow> string option" where
  "json_part value0 =
     (let value = trim_space value0 in
      if value = [] then None
      else case (first_index (CHR 0x7B) value, last_index (CHR 0x7D) value) of
          (Some start, Some stop) \<Rightarrow> if stop < start then None else Some (drop start (take (stop + 1) value))
        | _ \<Rightarrow> None)"

record memory_proposal =
  mpr_intent :: string
  mpr_target_user_id :: string
  mpr_text :: string
  mpr_query :: string
  mpr_scope :: string
  mpr_limit :: int

record plugin_proposal =
  ppr_intent :: string
  ppr_plugin_id :: string
  ppr_trigger :: string
  ppr_arguments :: string

text \<open>\<^verbatim>\<open>json.Unmarshal\<close> into the two proposals; \<open>None\<close> is an error.\<close>

record proposal_json =
  pj_memory :: "string \<Rightarrow> memory_proposal option"
  pj_plugin :: "string \<Rightarrow> plugin_proposal option"

text \<open>The pattern \<^verbatim>\<open><@!?([0-9]+)>\<close> at the beginning of a text: the digits and the rest.\<close>

definition mention_at :: "string \<Rightarrow> (string \<times> string) option" where
  "mention_at s =
     (if \<not> prefix ''<@'' s then None
      else let t = drop 2 s; t' = (if prefix ''!'' t then tl t else t);
               ds = takeWhile is_digit_char t'; rest = dropWhile is_digit_char t'
           in if ds \<noteq> [] \<and> prefix ''>'' rest then Some (ds, tl rest) else None)"

lemma mention_at_shorter: "mention_at s = Some (ds, rest) \<Longrightarrow> length rest < length s"
proof -
  assume a: "mention_at s = Some (ds, rest)"
  let ?t = "drop 2 s" let ?t' = "if prefix ''!'' ?t then tl ?t else ?t"
  from a have r: "rest = tl (dropWhile is_digit_char ?t')" and p: "prefix ''>'' (dropWhile is_digit_char ?t')"
    by (auto simp: mention_at_def Let_def split: if_splits)
  have "length (dropWhile is_digit_char ?t') \<le> length ?t'" by (rule length_dropWhile_le)
  also have "\<dots> \<le> length s" by simp
  finally show "length rest < length s" using r p by (cases "dropWhile is_digit_char ?t'") auto
qed

function mentions_in :: "string \<Rightarrow> string list" where
  "mentions_in s =
     (if s = [] then [] else case mention_at s of
        Some (ds, rest) \<Rightarrow> ds # mentions_in rest
      | None \<Rightarrow> mentions_in (tl s))"
  by pat_completeness auto
termination
  by (relation "measure length") (auto dest: mention_at_shorter)

declare mentions_in.simps [simp del]

definition first_occurrences :: "'a list \<Rightarrow> 'a list" where
  "first_occurrences xs = foldl (\<lambda>acc x. if x \<in> set acc then acc else acc @ [x]) [] xs"

definition extractMentionedUserIDs :: "string \<Rightarrow> string list" where
  "extractMentionedUserIDs text = first_occurrences (mentions_in text)"

definition validMentionedTarget :: "string \<Rightarrow> string \<Rightarrow> string" where
  "validMentionedTarget targetUserID0 text =
     (let targetUserID = trim_space targetUserID0 in
      if targetUserID = [] then []
      else if targetUserID \<in> set (extractMentionedUserIDs text) then targetUserID else [])"

subsection \<open>The planner of memory questions\<close>

abbreviation MemoryIntentCount :: string where "MemoryIntentCount \<equiv> ''count''"
abbreviation MemoryIntentSearch :: string where "MemoryIntentSearch \<equiv> ''search''"

record planner_input =
  in_guild_id :: string
  in_channel_id :: string
  in_actor_user_id :: string
  in_text :: string

record memory_plan =
  mn_intent :: string
  mn_target_user_id :: string
  mn_text :: string
  mn_query :: string
  mn_scope :: string
  mn_limit :: int

record 'w semantic_planner =
  se_runtime :: "'w text_runtime option"
  se_max_output_tokens :: int

definition normalizeSemanticMemoryInput :: "planner_input \<Rightarrow> planner_input" where
  "normalizeSemanticMemoryInput i = \<lparr>in_guild_id = trim_space (in_guild_id i), in_channel_id = trim_space (in_channel_id i),
     in_actor_user_id = trim_space (in_actor_user_id i), in_text = trim_space (in_text i)\<rparr>"

definition memory_output_tokens :: "'w semantic_planner \<Rightarrow> int" where
  "memory_output_tokens p = (if se_max_output_tokens p > 0 then se_max_output_tokens p else 192)"

definition semanticMemoryInstructions :: string where
  "semanticMemoryInstructions = (''You plan Gigi memory tools for one Discord guild mention. Return only JSON. Allowed intents: count, search. '' @
      ''Use only this-channel scope. For count, text is required. Include target_user_id only when the user asks '' @
      ''about a specific mentioned user, and only use an ID from Mentioned user IDs. Omit target_user_id for '' @
      ''channel-wide counts. For search, query is required. If message is not a memory count/search request, return '' @
      ''{}. Do not answer the user.'')"

definition semanticMemoryPrompt :: "planner_input \<Rightarrow> string" where
  "semanticMemoryPrompt i =
     (let mentioned = extractMentionedUserIDs (in_text i);
          mentionList = (if mentioned = [] then ''none'' else join '', '' mentioned)
      in (''User message:'' @ [CHR 0x0A]) @ in_text i @ ([CHR 0x0A] @ [CHR 0x0A] @ ''Mentioned user IDs: '') @ mentionList @
      ([CHR 0x0A] @ [CHR 0x0A] @ ''Return one JSON object like {'' @ [CHR 0x22] @ ''intent'' @ [CHR 0x22] @ '':'' @
      [CHR 0x22] @ ''count'' @ [CHR 0x22] @ '','' @ [CHR 0x22] @ ''target_user_id'' @ [CHR 0x22] @ '':'' @ [CHR 0x22] @
      ''123'' @ [CHR 0x22] @ '','' @ [CHR 0x22] @ ''text'' @ [CHR 0x22] @ '':'' @ [CHR 0x22] @ ''postgres'' @
      [CHR 0x22] @ '','' @ [CHR 0x22] @ ''scope'' @ [CHR 0x22] @ '':'' @ [CHR 0x22] @ ''this-channel'' @ [CHR 0x22] @
      ''}, {'' @ [CHR 0x22] @ ''intent'' @ [CHR 0x22] @ '':'' @ [CHR 0x22] @ ''count'' @ [CHR 0x22] @ '','' @
      [CHR 0x22] @ ''text'' @ [CHR 0x22] @ '':'' @ [CHR 0x22] @ ''postgres'' @ [CHR 0x22] @ '','' @ [CHR 0x22] @
      ''scope'' @ [CHR 0x22] @ '':'' @ [CHR 0x22] @ ''this-channel'' @ [CHR 0x22] @ ''}, or {'' @ [CHR 0x22] @
      ''intent'' @ [CHR 0x22] @ '':'' @ [CHR 0x22] @ ''search'' @ [CHR 0x22] @ '','' @ [CHR 0x22] @ ''query'' @
      [CHR 0x22] @ '':'' @ [CHR 0x22] @ ''postgres'' @ [CHR 0x22] @ '','' @ [CHR 0x22] @ ''limit'' @ [CHR 0x22] @
      '':5,'' @ [CHR 0x22] @ ''scope'' @ [CHR 0x22] @ '':'' @ [CHR 0x22] @ ''this-channel'' @ [CHR 0x22] @ ''}.''))"

definition clamp_limit :: "int \<Rightarrow> int" where
  "clamp_limit l0 =
     (let l1 = (if l0 = 0 then 5 else l0); l2 = (if l1 < 1 then 1 else l1) in if l2 > 25 then 25 else l2)"

definition parseSemanticMemoryPlanForInput :: "proposal_json \<Rightarrow> string \<Rightarrow> planner_input \<Rightarrow> memory_plan option" where
  "parseSemanticMemoryPlanForInput json value i =
     (case Option.bind (json_part value) (pj_memory json) of
        None \<Rightarrow> None
      | Some q \<Rightarrow>
          (let scope = trim_space (mpr_scope q);
               plan = \<lparr>mn_intent = trim_space (mpr_intent q), mn_target_user_id = trim_space (mpr_target_user_id q),
                 mn_text = trim_space (mpr_text q), mn_query = trim_space (mpr_query q),
                 mn_scope = (if scope = [] then ''this-channel'' else scope), mn_limit = clamp_limit (mpr_limit q)\<rparr>
           in if mn_scope plan \<noteq> ''this-channel'' then None
              else if mn_intent plan = MemoryIntentCount then
                (if trim_space (mn_text plan) = [] then None
                 else Some (plan\<lparr>mn_target_user_id := validMentionedTarget (mn_target_user_id plan) (in_text i)\<rparr>))
              else if mn_intent plan = MemoryIntentSearch then
                (if trim_space (mn_query plan) = [] then None else Some plan)
              else None))"

definition routing_request :: "planner_input \<Rightarrow> string \<Rightarrow> string \<Rightarrow> int \<Rightarrow> generate_text_request" where
  "routing_request i instr prompt tokens =
     \<lparr>gt_owner = guild_scope (in_guild_id i), gt_purpose = PurposeRouting, gt_actor_user_id = in_actor_user_id i,
      gt_guild_id = in_guild_id i, gt_channel_id = in_channel_id i, gt_request_id = [], gt_instructions = instr,
      gt_input = prompt, gt_max_output_tokens = tokens\<rparr>"

definition plan_memory ::
  "proposal_json \<Rightarrow> 'w semantic_planner \<Rightarrow> planner_input \<Rightarrow> 'w \<Rightarrow> memory_plan option result \<times> 'w" where
  "plan_memory json p input0 w =
     (let i = normalizeSemanticMemoryInput input0 in
      if in_guild_id i = [] \<or> in_channel_id i = [] \<or> in_actor_user_id i = [] \<or> in_text i = [] then (Inr None, w)
      else case se_runtime p of
          None \<Rightarrow> (Inl (Errorf ''semantic memory runtime is required''), w)
        | Some generate \<Rightarrow>
            db_bind (generate (routing_request i semanticMemoryInstructions (semanticMemoryPrompt i) (memory_output_tokens p)) w)
              (\<lambda>generated w1. (Inr (parseSemanticMemoryPlanForInput json (ta_text generated) i), w1)))"

subsection \<open>The planner of plugin commands\<close>

definition plugin_output_tokens :: "'w semantic_planner \<Rightarrow> int" where
  "plugin_output_tokens p = (if se_max_output_tokens p > 0 then se_max_output_tokens p else 256)"

definition semanticPluginInstructions :: string where
  "semanticPluginInstructions = (''You map a Discord message to one enabled external app prefix trigger only when the user's primary intent is '' @
      ''to operate that external app. Return only JSON with intent, plugin_id, trigger, and arguments. Use intent '' @
      [CHR 0x22] @ ''plugin_command'' @ [CHR 0x22] @
      '' for a valid external app command. Return {} for Gigi meta questions, tool/capability questions, general '' @
      ''chat, memory questions, or web/public fact lookup requests. Do not invent plugin IDs or triggers.'')"

definition trigger_lines :: "trigger \<Rightarrow> string" where
  "trigger_lines t =
     (if trim_space (tg_kind t) \<noteq> ''prefix'' then []
      else ''    - '' @ trim_space (tg_value t) @
        (if tg_aliases t \<noteq> [] then '' aliases: '' @ join '', '' (tg_aliases t) else []) @ [CHR 0x0A])"

definition manifest_lines :: "manifest \<Rightarrow> string" where
  "manifest_lines m = ''- plugin_id: '' @ trim_space (mf_id m) @ ([CHR 0x0A] @ ''  name: '') @ trim_space (mf_name m) @
     ([CHR 0x0A] @ ''  triggers:'' @ [CHR 0x0A]) @ concat (map trigger_lines (mf_triggers m))"

definition semanticPluginPrompt :: "planner_input \<Rightarrow> manifest list \<Rightarrow> string" where
  "semanticPluginPrompt i manifests = (''User message:'' @ [CHR 0x0A]) @ in_text i @ ([CHR 0x0A] @ [CHR 0x0A] @ ''Enabled plugins:'' @ [CHR 0x0A]) @
     concat (map manifest_lines manifests) @
     ([CHR 0x0A] @ ''Return JSON like {'' @ [CHR 0x22] @ ''intent'' @ [CHR 0x22] @ '':'' @ [CHR 0x22] @
      ''plugin_command'' @ [CHR 0x22] @ '','' @ [CHR 0x22] @ ''plugin_id'' @ [CHR 0x22] @ '':'' @ [CHR 0x22] @
      ''example'' @ [CHR 0x22] @ '','' @ [CHR 0x22] @ ''trigger'' @ [CHR 0x22] @ '':'' @ [CHR 0x22] @ ''!play'' @
      [CHR 0x22] @ '','' @ [CHR 0x22] @ ''arguments'' @ [CHR 0x22] @ '':'' @ [CHR 0x22] @ ''song'' @ [CHR 0x22] @
      ''}. Return {} when the message is not asking to operate one enabled external app.'')"

definition polite_prefixes :: "string list" where
  "polite_prefixes = [''please '', ''pls '', ''can you '', ''could you '', ''would you '', ''gigi please '', ''gigi '']"

definition semanticTextCandidates :: "string \<Rightarrow> string list" where
  "semanticTextCandidates text0 =
     (let text = trim_space text0; lower = to_lower text in
      if text = [] then []
      else foldl (\<lambda>candidates p.
             if prefix p lower
             then let trimmed = trim_space (drop (length p) text) in
               if trimmed \<noteq> [] \<and> trimmed \<notin> set candidates then candidates @ [trimmed] else candidates
             else candidates) [text] polite_prefixes)"

definition parseSemanticPluginProposal :: "proposal_json \<Rightarrow> string \<Rightarrow> plugin_proposal option" where
  "parseSemanticPluginProposal json value =
     (case Option.bind (json_part value) (pj_plugin json) of
        None \<Rightarrow> None
      | Some q0 \<Rightarrow>
          (let q = \<lparr>ppr_intent = trim_space (ppr_intent q0), ppr_plugin_id = trim_space (ppr_plugin_id q0),
             ppr_trigger = trim_space (ppr_trigger q0), ppr_arguments = trim_space (ppr_arguments q0)\<rparr>
           in if ppr_intent q \<noteq> ''plugin_command'' \<or> ppr_plugin_id q = [] \<or> ppr_trigger q = [] then None else Some q))"

fun first_candidate :: "manifest list \<Rightarrow> string list \<Rightarrow> command_plan option" where
  "first_candidate ms [] = None"
| "first_candidate ms (c # cs) =
     (case PlanCommand ms ''guild_text'' c of None \<Rightarrow> first_candidate ms cs | Some p \<Rightarrow> Some p)"

definition plan_plugin ::
  "proposal_json \<Rightarrow> 'w semantic_planner \<Rightarrow> planner_input \<Rightarrow> manifest list \<Rightarrow> 'w \<Rightarrow> command_plan option result \<times> 'w" where
  "plan_plugin json p input0 manifests w =
     (let i = normalizeSemanticMemoryInput input0 in
      if in_guild_id i = [] \<or> in_actor_user_id i = [] \<or> in_text i = [] \<or> manifests = [] then (Inr None, w)
      else case first_candidate manifests (semanticTextCandidates (in_text i)) of
          Some plan \<Rightarrow> (Inr (Some plan), w)
        | None \<Rightarrow>
            (case se_runtime p of
               None \<Rightarrow> (Inl (Errorf ''semantic plugin runtime is required''), w)
             | Some generate \<Rightarrow>
                 db_bind (generate (routing_request i semanticPluginInstructions (semanticPluginPrompt i manifests)
                     (plugin_output_tokens p)) w)
                   (\<lambda>generated w1.
                     case parseSemanticPluginProposal json (ta_text generated) of
                       None \<Rightarrow> (Inr None, w1)
                     | Some q \<Rightarrow> (Inr (PlanCommandFromTrigger manifests ''guild_text'' (ppr_plugin_id q)
                         (ppr_trigger q) (ppr_arguments q)), w1))))"

subsection \<open>A plan is justified by the message\<close>

lemma mention_atD: "mention_at s = Some (ds, rest) \<Longrightarrow> s = ''<@'' @ ds @ ''>'' @ rest \<or> s = ''<@!'' @ ds @ ''>'' @ rest"
proof -
  assume a: "mention_at s = Some (ds, rest)"
  then obtain t where s: "s = ''<@'' @ t" by (auto simp: mention_at_def prefix_def split: if_splits)
  define t' where "t' = (if prefix ''!'' t then tl t else t)"
  have t: "t = (if prefix ''!'' t then ''!'' else []) @ t'" by (auto simp: t'_def prefix_def)
  have m: "ds = takeWhile is_digit_char t'" "prefix ''>'' (dropWhile is_digit_char t')" "rest = tl (dropWhile is_digit_char t')"
    using a by (auto simp: mention_at_def s t'_def Let_def split: if_splits)
  then have "dropWhile is_digit_char t' = ''>'' @ rest" by (auto simp: prefix_def)
  then have "t' = ds @ ''>'' @ rest" using m(1) by (metis takeWhile_dropWhile_id)
  then show ?thesis using s t by (auto split: if_splits)
qed

lemma mentions_inD:
  "ds \<in> set (mentions_in s) \<Longrightarrow> contains_sub s (''<@'' @ ds @ ''>'') \<or> contains_sub s (''<@!'' @ ds @ ''>'')"
proof (induction s rule: mentions_in.induct)
  case (1 s)
  then have ne: "s \<noteq> []" by (auto simp: mentions_in.simps [of s])
  show ?case
  proof (cases "mention_at s")
    case None
    then have "ds \<in> set (mentions_in (tl s))" using "1.prems" ne by (simp add: mentions_in.simps [of s])
    from "1.IH"(1) [OF ne None this] show ?thesis
      using ne by (cases s) (auto split: if_splits)
  next
    case (Some p)
    obtain ds' rest where p: "p = (ds', rest)" by (cases p)
    note at = mention_atD [OF Some [unfolded p]]
    show ?thesis
    proof (cases "ds = ds'")
      case True
      then show ?thesis using at unfolding contains_sub_iff by (metis append.assoc append_Nil)
    next
      case False
      then have "ds \<in> set (mentions_in rest)" using "1.prems" ne Some p by (simp add: mentions_in.simps [of s])
      from "1.IH"(2) [OF ne Some p [symmetric] this] show ?thesis
        using at unfolding contains_sub_iff by (metis append.assoc)
    qed
  qed
qed

lemma set_first_occurrences: "set (first_occurrences xs) = set xs"
proof -
  have "set (foldl (\<lambda>acc x. if x \<in> set acc then acc else acc @ [x]) ys xs) = set ys \<union> set xs" for ys
    by (induction xs arbitrary: ys) auto
  then show ?thesis by (simp add: first_occurrences_def)
qed

lemma clamp_limit_bounds: "1 \<le> clamp_limit l \<and> clamp_limit l \<le> 25"
  by (simp add: clamp_limit_def Let_def)

text \<open>
  Whatever the model answers, a memory plan that is let through asks to count or to search, stays in the channel, asks for 1
  to 25 messages and for some text, and a count is about a user only if the message itself mentions that user.
\<close>

theorem memory_plan_is_justified:
  assumes "plan_memory json p i w = (Inr (Some m), w')"
  shows "mn_intent m \<in> {MemoryIntentCount, MemoryIntentSearch} \<and> mn_scope m = ''this-channel'' \<and>
    1 \<le> mn_limit m \<and> mn_limit m \<le> 25 \<and>
    (mn_intent m = MemoryIntentSearch \<longrightarrow> mn_query m \<noteq> []) \<and>
    (mn_intent m = MemoryIntentCount \<longrightarrow> mn_text m \<noteq> [] \<and>
       (mn_target_user_id m = [] \<or> contains_sub (in_text i) (''<@'' @ mn_target_user_id m @ ''>'')
          \<or> contains_sub (in_text i) (''<@!'' @ mn_target_user_id m @ ''>'')))"
proof -
  let ?i = "normalizeSemanticMemoryInput i"
  obtain v where v: "parseSemanticMemoryPlanForInput json v ?i = Some m"
    using assms by (auto simp: plan_memory_def Let_def split: if_splits option.splits dest!: db_bind_InrD)
  then obtain q where q: "Option.bind (json_part v) (pj_memory json) = Some q"
    by (auto simp: parseSemanticMemoryPlanForInput_def split: option.splits)
  have trim: "contains_sub (trim_space s) x \<Longrightarrow> contains_sub s x" for s x
  proof -
    have "\<exists>u v. s = u @ trim_space s @ v"
      using suffix_strip_seqs [of white_space_runes s]
        suffix_strip_seqs [of "map rev white_space_runes" "rev (strip_seqs white_space_runes s)"]
      by (auto simp: trim_space_def suffix_def) (metis rev_append rev_rev_ident)
    then show "contains_sub (trim_space s) x \<Longrightarrow> contains_sub s x"
      unfolding contains_sub_iff by (metis append.assoc)
  qed
  have target: "t = [] \<or> contains_sub (in_text i) (''<@'' @ t @ ''>'') \<or> contains_sub (in_text i) (''<@!'' @ t @ ''>'')"
    if "t = validMentionedTarget t0 (in_text ?i)" for t t0
    using that mentions_inD [of t "in_text ?i"] trim [of "in_text i"]
    by (auto simp: validMentionedTarget_def Let_def extractMentionedUserIDs_def set_first_occurrences
        normalizeSemanticMemoryInput_def split: if_splits)
  have "mn_scope m = ''this-channel'' \<and> mn_limit m = clamp_limit (mpr_limit q) \<and>
    (mn_intent m = MemoryIntentSearch \<and> mn_query m \<noteq> [] \<or> mn_intent m = MemoryIntentCount \<and> mn_text m \<noteq> [] \<and>
      mn_target_user_id m = validMentionedTarget (trim_space (mpr_target_user_id q)) (in_text ?i))"
    using v q by (auto simp: parseSemanticMemoryPlanForInput_def Let_def split: if_splits)
  then show ?thesis using clamp_limit_bounds target [of "mn_target_user_id m"] by (elim conjE disjE) simp_all
qed

subsection \<open>A conversation leaves no text\<close>

text \<open>A chat over the table of turns and whatever else the runtime acts on.\<close>

definition recorded_chat ::
  "(generate_text_request \<Rightarrow> 'x \<Rightarrow> text_answer result \<times> 'x) \<Rightarrow> conversation_store \<Rightarrow> string \<Rightarrow> int \<Rightarrow> int
     \<Rightarrow> (turn_db \<times> 'x) chat_handler" where
  "recorded_chat generate s instr tokens max_runes =
     \<lparr>ch_runtime = Some (\<lambda>q. on_right (generate q)), ch_recorder = Some (\<lambda>t. on_left (RecordTurn s t)),
      ch_instructions = instr, ch_max_output_tokens = tokens, ch_max_response_runes = max_runes\<rparr>"

lemma RecordTurn_Inr:
  assumes "RecordTurn s t db = (Inr u, db')"
  shows "\<exists>i. tables db' = tables db @ [turn_row_of i (normalizeConversationTurn t)]"
proof -
  from assms obtain i where "sql_exec (insert_turn (turn_row_of i (normalizeConversationTurn t))) db = (Inr u, db')"
    by (auto simp: RecordTurn_def Let_def split: if_splits sum.splits)
  from sql_exec_Inr [OF this] show ?thesis by (intro exI [of _ i]) (auto simp: insert_turn_def split: if_splits)
qed

lemma on_left_RecordTurn:
  assumes "on_left (RecordTurn s t) w = (Inr u, w')"
  shows "\<exists>i. tables (fst w') = tables (fst w) @ [turn_row_of i (normalizeConversationTurn t)]"
  using on_leftD [OF assms] RecordTurn_Inr [of s t "fst w" u] by blast

text \<open>What is asked of the model, and the row a turn of the conversation leaves: everything in it is given here, and no text.\<close>

definition asks_model :: "chat_message \<Rightarrow> bool" where
  "asks_model m \<longleftrightarrow> trim_space (ms_text m) \<noteq> [] \<and> trim_space (ms_surface m) = ''guild_mention'' \<and> trim_space (ms_guild_id m) \<noteq> []"

definition metadata_row :: "string \<Rightarrow> chat_message \<Rightarrow> text_answer \<Rightarrow> turn_role \<Rightarrow> nat \<Rightarrow> turn_row" where
  "metadata_row i m answer role chars = (let known = (\<lambda>v. if trim_space v = [] then None else Some (trim_space v)) in
     \<lparr>tw_id = i, tw_request_id = trim_space (ta_request_id answer), tw_surface = ''guild_mention'',
      tw_guild_id = Some (trim_space (ms_guild_id m)), tw_channel_id = known (ms_channel_id m),
      tw_actor_user_id = trim_space (ms_actor_user_id m), tw_role = role, tw_content_storage = ''metadata_only'',
      tw_content_chars = int chars, tw_provider_id = known (ta_provider_id answer), tw_model_id = known (ta_model_id answer)\<rparr>)"

lemma turn_row_of_turn:
  assumes "asks_model m" "role \<in> {''user'', ''assistant''}"
  shows "turn_row_of i (normalizeConversationTurn (turn_of (normalizeMessage m) answer role content)) =
    metadata_row i m answer role (rune_count content)"
proof -
  have "trim_space role = role" "trim_space ''guild_mention'' = ''guild_mention''" using assms(2) by (auto simp: go_eval)
  then show ?thesis
    using assms(1)
    by (simp add: turn_row_of_def normalizeConversationTurn_def turn_of_def normalizeMessage_def metadata_row_def asks_model_def
        nullConversationStringArg_def Let_def)
qed

lemma Reply_asks:
  assumes "asks_model message" "Reply (recorded_chat generate s instr tokens max_runes) message w = (Inr reply, w')"
  obtains answer x where
    "generate (chat_request (recorded_chat generate s instr tokens max_runes) (normalizeMessage message)) (snd w) = (Inr answer, x)"
    "(let h = recorded_chat generate s instr tokens max_runes; text = trim_space (ta_text answer);
          shown = truncate_reply text (maxResponseRunes h) in
      if text = [] then (Inr ''I did not get a text response from the model.'', (fst w, x))
      else db_bind (recordConversation h (normalizeMessage message) answer shown (fst w, x)) (\<lambda>_ w2. (Inr shown, w2))) = (Inr reply, w')"
proof -
  let ?h = "recorded_chat generate s instr tokens max_runes" and ?m = "normalizeMessage message"
  have m: "ms_text ?m \<noteq> []" "ms_surface ?m = ''guild_mention''" "ms_guild_id ?m \<noteq> []"
    using assms(1) by (simp_all add: normalizeMessage_def asks_model_def)
  have h: "ch_runtime ?h = Some (\<lambda>q. on_right (generate q))" by (simp add: recorded_chat_def)
  obtain answer w1 where g: "on_right (generate (chat_request ?h ?m)) w = (Inr answer, w1)"
    and k: "(let text = trim_space (ta_text answer) in
        if text = [] then (Inr ''I did not get a text response from the model.'', w1)
        else let reply = truncate_reply text (maxResponseRunes ?h) in
          db_bind (recordConversation ?h ?m answer reply w1) (\<lambda>_ w2. (Inr reply, w2))) = (Inr reply, w')"
    using assms(2) m by (auto simp: Reply_def Let_def h dest!: db_bind_InrD)
  from on_rightD [OF g] have "generate (chat_request ?h ?m) (snd w) = (Inr answer, snd w1)" "w1 = (fst w, snd w1)"
    by (simp_all add: prod_eq_iff)
  then show thesis using k by (intro that [of answer "snd w1"]) (simp_all add: Let_def split: if_splits)
qed

lemma rune_count_reply: "0 < l \<Longrightarrow> int (rune_count (truncate_reply t l)) \<le> l + 3"
proof -
  assume l: "0 < l"
  have "rune_count (x @ ''...'') = rune_count x + 3" for x
    by (subst rune_count_append)
      (simp_all add: rune_start_def is_cont_def byte_def rune_count_ascii is_ascii_def)
  moreover have "rune_count (trim_space (string_of_runes (take (nat l) (runes t)))) \<le> nat l"
    using rune_count_trim_space rune_count_take_runes order_trans by blast
  ultimately show ?thesis using l by (auto simp: truncate_reply_def)
qed

text \<open>
  C40: a reply to a message with a text, from a mention in a guild, asked the model once, and only such a reply did. If the model's
  text is not blank, two rows were added to the conversation table, the user's turn and the assistant's, in this order; they hold
  the number of characters of the message and of the reply, the IDs, and nothing of the text, and the reply has at most three
  characters more than its limit. If the model's text is blank, or the model was not asked, the table is as it was.
\<close>

theorem chat_records_metadata_only:
  assumes "Reply (recorded_chat generate s instr tokens max_runes) message w = (Inr reply, w')"
  shows "if asks_model message
    then \<exists>answer. generate (chat_request (recorded_chat generate s instr tokens max_runes) (normalizeMessage message)) (snd w) =
          (Inr answer, snd w') \<and>
        (if trim_space (ta_text answer) = [] then fst w' = fst w
         else int (rune_count reply) \<le> maxResponseRunes (recorded_chat generate s instr tokens max_runes) + 3 \<and>
           (\<exists>i j. tables (fst w') = tables (fst w) @
              [metadata_row i message answer ''user'' (rune_count (trim_space (ms_text message))),
               metadata_row j message answer ''assistant'' (rune_count reply)]))
    else w' = w"
proof (cases "asks_model message")
  case False
  then show ?thesis
    using assms by (auto simp: Reply_def Let_def normalizeMessage_def asks_model_def split: if_splits)
next
  case True
  let ?h = "recorded_chat generate s instr tokens max_runes" and ?m = "normalizeMessage message"
  from True assms obtain answer x where g: "generate (chat_request ?h ?m) (snd w) = (Inr answer, x)"
    and k: "(let h = ?h; text = trim_space (ta_text answer); shown = truncate_reply text (maxResponseRunes h) in
      if text = [] then (Inr ''I did not get a text response from the model.'', (fst w, x))
      else db_bind (recordConversation h ?m answer shown (fst w, x)) (\<lambda>_ w2. (Inr shown, w2))) = (Inr reply, w')"
    by (rule Reply_asks)
  show ?thesis
  proof (cases "trim_space (ta_text answer) = []")
    case True
    then show ?thesis using g k \<open>asks_model message\<close> by (auto simp: Let_def)
  next
    case False
    then obtain u where r: "recordConversation ?h ?m answer reply (fst w, x) = (Inr u, w')"
      and reply: "reply = truncate_reply (trim_space (ta_text answer)) (maxResponseRunes ?h)"
      using k by (auto simp: Let_def dest!: db_bind_InrD)
    obtain u' w2 where r1: "on_left (RecordTurn s (turn_of ?m answer ''user'' (ms_text ?m))) (fst w, x) = (Inr u', w2)"
      and r2: "on_left (RecordTurn s (turn_of ?m answer ''assistant'' reply)) w2 = (Inr u, w')"
      using r by (auto simp: recordConversation_def recorded_chat_def dest!: db_bind_InrD)
    have "int (rune_count reply) \<le> maxResponseRunes ?h + 3"
      unfolding reply by (rule rune_count_reply) (simp add: maxResponseRunes_def)
    moreover have "ms_text ?m = trim_space (ms_text message)" by (simp add: normalizeMessage_def)
    moreover have "snd w' = x" using on_leftD [OF r1] on_leftD [OF r2] by simp
    ultimately show ?thesis
      using on_left_RecordTurn [OF r1] on_left_RecordTurn [OF r2] g False True turn_row_of_turn [OF True] by auto
  qed
qed

subsection \<open>Witnesses\<close>

definition sample_proposal :: proposal_json where
  "sample_proposal = \<lparr>pj_memory = (\<lambda>_. Some \<lparr>mpr_intent = ''count'', mpr_target_user_id = ''7'', mpr_text = ''tea'', mpr_query = [],
     mpr_scope = [], mpr_limit = 99\<rparr>), pj_plugin = (\<lambda>_. None)\<rparr>"

definition sample_answer :: text_answer where
  "sample_answer = \<lparr>ta_text = ''{}'', ta_input_tokens = 1, ta_output_tokens = 1, ta_request_id = ''r'', ta_provider_id = ''p'',
     ta_model_id = ''m''\<rparr>"

lemma sample_mentions: "extractMentionedUserIDs ''<@7>'' = [''7'']"
proof -
  have "mention_at ''<@7>'' = Some (''7'', [])" by (simp add: mention_at_def is_digit_char_def byte_def)
  then have "mentions_in ''<@7>'' = [''7'']" by (simp add: mentions_in.simps [of "''<@7>''"] mentions_in.simps [of "[]"])
  then show ?thesis by (simp add: extractMentionedUserIDs_def first_occurrences_def)
qed

lemma memory_plan_is_justified_witness:
  "contains_sub ''<@7>'' (''<@'' @ ''7'' @ ''>'')"
proof -
  let ?i = "\<lparr>in_guild_id = ''g'', in_channel_id = ''c'', in_actor_user_id = ''u'', in_text = ''<@7>''\<rparr>"
  let ?m = "\<lparr>mn_intent = ''count'', mn_target_user_id = ''7'', mn_text = ''tea'', mn_query = [], mn_scope = ''this-channel'',
     mn_limit = 25\<rparr>"
  have n: "normalizeSemanticMemoryInput ?i = ?i" by (simp add: normalizeSemanticMemoryInput_def go_eval)
  have j: "json_part ''{}'' = Some ''{}''" by (simp add: json_part_def last_index_def go_eval)
  have "parseSemanticMemoryPlanForInput sample_proposal ''{}'' ?i = Some ?m"
    by (simp add: parseSemanticMemoryPlanForInput_def j sample_proposal_def Let_def clamp_limit_def validMentionedTarget_def
        sample_mentions trim_space_visible visible_ends_def visible_def byte_def)
  then have "plan_memory sample_proposal \<lparr>se_runtime = Some (\<lambda>_ w. (Inr sample_answer, w)), se_max_output_tokens = 0\<rparr> ?i () =
      (Inr (Some ?m), ())"
    by (simp add: plan_memory_def n sample_answer_def)
  from memory_plan_is_justified [OF this] show ?thesis by auto
qed

definition no_turns :: "turn_db \<times> unit" where
  "no_turns = (\<lparr>tables = [], clock = zero_time, faults = []\<rparr>, ())"

definition sample_chat :: "(turn_db \<times> unit) chat_handler" where
  "sample_chat = recorded_chat (\<lambda>_ w. (Inr sample_answer, w)) \<lparr>cs_exec = True, cs_new_id = Some ct_role\<rparr> ''i'' 0 0"

definition sample_message :: chat_message where
  "sample_message = \<lparr>ms_surface = AssistantSurfaceGuildMention, ms_guild_id = ''g'', ms_channel_id = ''c'', ms_actor_user_id = ''u'',
     ms_text = ''hi''\<rparr>"

definition sample_turns :: "turn_db \<times> unit" where
  "sample_turns = ((fst no_turns)\<lparr>tables :=
     [turn_row_of ''user'' (normalizeConversationTurn (turn_of sample_message sample_answer TurnRoleUser ''hi'')),
      turn_row_of ''assistant'' (normalizeConversationTurn (turn_of sample_message sample_answer TurnRoleAssistant ''{}''))]\<rparr>, ())"

lemmas chat_samples = sample_chat_def sample_message_def no_turns_def sample_answer_def recorded_chat_def

lemma sample_normal: "normalizeMessage sample_message = sample_message"
  by (simp add: normalizeMessage_def sample_message_def go_eval)

lemma sample_counts: "rune_count ''hi'' = 2" "rune_count ''{}'' = 2"
  by (simp_all add: rune_count_ascii is_ascii_def byte_def)

lemma sample_turn:
  assumes "role \<in> {TurnRoleUser, TurnRoleAssistant}" "role \<notin> tw_id ` set rows" "content \<in> {''hi'', ''{}''}"
  shows "RecordTurn \<lparr>cs_exec = True, cs_new_id = Some ct_role\<rparr> (turn_of sample_message sample_answer role content)
      \<lparr>tables = rows, clock = zero_time, faults = []\<rparr> =
    (Inr (), \<lparr>tables = rows @ [turn_row_of role (normalizeConversationTurn (turn_of sample_message sample_answer role content))],
       clock = zero_time, faults = []\<rparr>)"
  using assms
  by (auto simp: RecordTurn_def Let_def normalizeConversationTurn_def turn_of_def sample_message_def sample_answer_def
      validateConversationTurn_def checks_def must_def insert_turn_def turn_row_of_def turn_checks_def int4_def sample_counts
      trim_space_visible visible_ends_def visible_def byte_def)

lemma sample_reply: "Reply sample_chat sample_message no_turns = (Inr ''{}'', sample_turns)"
proof -
  have t: "trim_space ''{}'' = ''{}''" by (simp add: go_eval)
  have r: "truncate_reply ''{}'' 1800 = ''{}''" by (simp add: truncate_reply_def sample_counts)
  have ch: "ch_runtime sample_chat = Some (\<lambda>q. on_right (\<lambda>w. (Inr sample_answer, w)))"
    "ch_recorder sample_chat = Some (\<lambda>t. on_left (RecordTurn \<lparr>cs_exec = True, cs_new_id = Some ct_role\<rparr> t))"
    "maxResponseRunes sample_chat = 1800"
    by (simp_all add: sample_chat_def recorded_chat_def maxResponseRunes_def)
  have m: "ms_text sample_message = ''hi''" "ms_surface sample_message = AssistantSurfaceGuildMention" "ms_guild_id sample_message = ''g''"
    "ta_text sample_answer = ''{}''"
    by (simp_all add: sample_message_def sample_answer_def)
  have id: "tw_id (turn_row_of i x) = i" for i x by (simp add: turn_row_of_def)
  show ?thesis
    by (simp add: Reply_def Let_def sample_normal m ch t r on_right_def recordConversation_def on_left_def no_turns_def sample_turn
        sample_turns_def id)
qed

lemma chat_records_metadata_only_witness:
  "\<exists>i j. tables (fst sample_turns) = [metadata_row i sample_message sample_answer ''user'' 2,
     metadata_row j sample_message sample_answer ''assistant'' 2]"
proof -
  have "asks_model sample_message" by (simp add: asks_model_def sample_message_def go_eval)
  moreover have "trim_space (ms_text sample_message) = ''hi''" "trim_space (ta_text sample_answer) = ''{}''"
    by (simp_all add: sample_message_def sample_answer_def go_eval)
  ultimately show ?thesis
    using chat_records_metadata_only [OF sample_reply [unfolded sample_chat_def]]
    by (auto simp: sample_counts no_turns_def split: if_splits)
qed

end
