(* ===== verification/AgentMemory.thy ===== *)
theory AgentMemory
  imports AgentRunner MemoryIngestor Assistant
begin

text \<open>
  What the agent reads of the guild memory: the tools of \<^verbatim>\<open>internal/agent/memory_tools.go\<close>, the context of
  \<^verbatim>\<open>memory_context.go\<close> and \<^verbatim>\<open>context.go\<close> with the fetcher of \<^verbatim>\<open>internal/contextbroker/fetcher.go\<close>, and the adapter of
  \<^verbatim>\<open>memory_planner.go\<close>. The store and the capability checker are interfaces over a world \<open>'w\<close>. SHA-256 and
  \<^verbatim>\<open>time.Parse(time.RFC3339, ...)\<close> are parameters; times are written in UTC.
\<close>

abbreviation ToolMemoryCount :: string where "ToolMemoryCount \<equiv> ''memory.count''"
abbreviation ToolMemorySearch :: string where "ToolMemorySearch \<equiv> ''memory.search''"
abbreviation ToolMemoryRecent :: string where "ToolMemoryRecent \<equiv> ''memory.recent''"
abbreviation SourceMemoryCurrentChannel :: string where "SourceMemoryCurrentChannel \<equiv> ''memory.current_channel''"
abbreviation MemoryReadGuild :: capability where "MemoryReadGuild \<equiv> ''memory.read.guild''"

record 'w memory_reader =
  mo_count :: "count_request \<Rightarrow> 'w \<Rightarrow> nat result \<times> 'w"
  mo_search :: "search_request \<Rightarrow> 'w \<Rightarrow> search_result list result \<times> 'w"
  mo_recent :: "recent_request \<Rightarrow> 'w \<Rightarrow> search_result list result \<times> 'w"

record tool_lib =
  tb_sha :: "string \<Rightarrow> string"
  tb_parse_rfc3339 :: "string \<Rightarrow> gotime option"

subsection \<open>Text that is quoted in a summary\<close>

definition safeInline :: "string \<Rightarrow> string" where
  "safeInline value = replace_char (CHR 0x0D) (CHR 0x20) (replace_char (CHR 0x0A) (CHR 0x20)
     (replace_char (CHR 0x60) (CHR 0x27) (trim_space value)))"

definition safeInlineLimit :: "string \<Rightarrow> nat \<Rightarrow> string" where
  "safeInlineLimit value0 limit =
     (let value = safeInline value0 in
      if limit > 0 \<and> length value > limit then take limit value @ ''...'' else value)"

definition quoted :: "string \<Rightarrow> string" where
  "quoted s = [CHR 0x60] @ safeInline s @ [CHR 0x60]"

subsection \<open>Arguments\<close>

definition parseLimit :: "string \<Rightarrow> int \<Rightarrow> int \<Rightarrow> int" where
  "parseLimit value fallback most =
     (case atoi (trim_space value) of
        None \<Rightarrow> fallback
      | Some limit \<Rightarrow> if limit < 1 then fallback else if limit > most then most else limit)"

definition parseStartDate :: "tool_lib \<Rightarrow> string \<Rightarrow> gotime result" where
  "parseStartDate lib value0 =
     (let value = trim_space value0 in
      if value = [] then Inr zero_time
      else case tb_parse_rfc3339 lib value of
          Some t \<Rightarrow> Inr t
        | None \<Rightarrow> (case parse_date value of
            Some t \<Rightarrow> Inr t
          | None \<Rightarrow> Inl (Errorf ''invalid start date format: %s'')))"

definition parseEndDate :: "tool_lib \<Rightarrow> string \<Rightarrow> gotime result" where
  "parseEndDate lib value0 =
     (let value = trim_space value0 in
      if value = [] then Inr zero_time
      else case tb_parse_rfc3339 lib value of
          Some t \<Rightarrow> Inr t
        | None \<Rightarrow> (case parse_date value of
            Some t \<Rightarrow> Inr (t + 86400 * second - second)
          | None \<Rightarrow> Inl (Errorf ''invalid end date format: %s'')))"

fun first_arg :: "gomap \<Rightarrow> string list \<Rightarrow> string option" where
  "first_arg args [] = None"
| "first_arg args (k # ks) =
     (case map_of args k of
        None \<Rightarrow> first_arg args ks
      | Some v \<Rightarrow> if trim_space v \<noteq> [] then Some v else first_arg args ks)"

definition extractStartDate :: "tool_lib \<Rightarrow> gomap \<Rightarrow> gotime result" where
  "extractStartDate lib args =
     (case first_arg args [''start_date'', ''after_date'', ''since''] of
        None \<Rightarrow> Inr zero_time | Some v \<Rightarrow> parseStartDate lib v)"

definition extractEndDate :: "tool_lib \<Rightarrow> gomap \<Rightarrow> gotime result" where
  "extractEndDate lib args =
     (case first_arg args [''end_date'', ''before_date'', ''until''] of
        None \<Rightarrow> Inr zero_time | Some v \<Rightarrow> parseEndDate lib v)"

subsection \<open>Evidence\<close>

definition formatMemoryContextText :: "string \<Rightarrow> string \<Rightarrow> string" where
  "formatMemoryContextText authorID0 text0 =
     (let authorID = trim_space authorID0; text = trim_space text0 in
      if authorID = [] then text else ''<@'' @ safeInline authorID @ ''>: '' @ text)"

definition time_text :: "gotime \<Rightarrow> string" where
  "time_text t = (if t = zero_time then [] else rfc3339 t)"

definition memory_snippet :: "nat \<Rightarrow> search_result \<Rightarrow> snippet option" where
  "memory_snippet index r =
     (let text = trim_space (sr_text r);
          messageID = (if trim_space (sr_message_id r) = [] then ''memory-'' @ nat_str (index + 1)
            else trim_space (sr_message_id r))
      in if text = [] then None
         else Some \<lparr>sn_id = ''message:'' @ messageID, sn_source = ''discord:channel:'' @ trim_space (sr_channel_id r),
           sn_channel_id = [], sn_author_id = trim_space (sr_author_id r),
           sn_text = formatMemoryContextText (sr_author_id r) text, sn_score = 0, sn_created_at = time_text (sr_created_at r),
           sn_pinned = False, sn_stale = False\<rparr>)"

definition memoryResultsContextSnippets :: "search_result list \<Rightarrow> snippet list" where
  "memoryResultsContextSnippets results =
     List.map_filter (\<lambda>(i, r). memory_snippet i r) (zip [0..<length results] results)"

definition memoryEvidencePack :: "tool_lib \<Rightarrow> search_result list \<Rightarrow> pack" where
  "memoryEvidencePack lib results = BuildPack (tb_sha lib)
     \<lparr>br_snippets = memoryResultsContextSnippets results, br_previous = [], br_max_chars = 2400\<rparr>"

definition formatMemoryResultsSummary :: "tool_lib \<Rightarrow> string \<Rightarrow> search_result list \<Rightarrow> string" where
  "formatMemoryResultsSummary lib title results =
     (if results = [] then title @ '': no retained full-mode matches.''
      else let p = memoryEvidencePack lib results in
        join [CHR 0x0A] ((title @ '' ('' @ nat_str (length (pk_items p)) @ ''):'') #
          map (\<lambda>it. ''- ['' @ citation.ci_label (it_citation it) @ ''] '' @ safeInlineLimit (sn_text (it_snippet it)) 180) (pk_items p)))"

definition formatMemoryCountSummary :: "string \<Rightarrow> string \<Rightarrow> nat \<Rightarrow> string" where
  "formatMemoryCountSummary targetUserID text n =
     (if trim_space targetUserID = []
      then ''Messages mentioned '' @ quoted text @ '' '' @ nat_str n @ '' times in this channel.''
      else ''<@'' @ safeInline targetUserID @ ''> mentioned '' @ quoted text @ '' '' @ nat_str n @
        '' times in this channel.'')"

definition joined_entry :: "string \<Rightarrow> string list \<Rightarrow> gomap" where
  "joined_entry key values = (if values = [] then [] else [(key, join '','' values)])"

definition filled :: "string list \<Rightarrow> string list" where
  "filled values = filter (\<lambda>v. v \<noteq> []) values"

text \<open>The running maximum and minimum of the creation times; the zero time stands for none yet.\<close>

definition later_of :: "gotime \<Rightarrow> gotime \<Rightarrow> gotime" where
  "later_of acc t = (if t = zero_time then acc else if acc = zero_time \<or> t > acc then t else acc)"

definition earlier_of :: "gotime \<Rightarrow> gotime \<Rightarrow> gotime" where
  "earlier_of acc t = (if t = zero_time then acc else if acc = zero_time \<or> t < acc then t else acc)"

definition memoryResultsData :: "tool_lib \<Rightarrow> search_result list \<Rightarrow> gomap" where
  "memoryResultsData lib results =
     (let items = pk_items (memoryEvidencePack lib results);
          latest = foldl later_of zero_time (map sr_created_at results);
          earliest = foldl earlier_of zero_time (map sr_created_at results)
      in joined_entry ''message_ids'' (filled (map sr_message_id results)) @
         joined_entry ''author_user_ids'' (filled (map sr_author_id results)) @
         joined_entry ''citation_labels'' (filled (map (\<lambda>it. citation.ci_label (it_citation it)) items)) @
         joined_entry ''source_ids'' (filled (map it_source_id items)) @
         joined_entry ''restore_handles'' (filled (map it_restore_handle items)) @
         joined_entry ''retention_untils'' (filled (map (\<lambda>r. time_text (sr_retention_until r)) results)) @
         joined_entry ''retrieved_at'' (filled (map (\<lambda>r. time_text (sr_retrieved_at r)) results)) @
         (if latest = zero_time then [] else [(''newest_created_at'', rfc3339 latest)]) @
         (if earliest = zero_time then [] else [(''oldest_created_at'', rfc3339 earliest)]))"

definition mergeToolData :: "gomap \<Rightarrow> gomap \<Rightarrow> gomap" where
  "mergeToolData base extra = mput_all extra base"

subsection \<open>The tools\<close>

definition checkMemoryToolAccess :: "'w capability_checker option \<Rightarrow> request \<Rightarrow> 'w \<Rightarrow> unit result \<times> 'w" where
  "checkMemoryToolAccess checker request w =
     (if rq_surface request \<noteq> SurfaceGuildMention \<or> rq_guild_id request = [] \<or> rq_channel_id request = []
      then (Inl (Errorf ''guild channel memory context is required''), w)
      else case checker of
          None \<Rightarrow> (Inl (Errorf ''capability checker is required''), w)
        | Some check \<Rightarrow>
            (case check (subject_of request) MemoryReadGuild w of
               ((decision, Some e), w1) \<Rightarrow> (Inl e, w1)
             | ((decision, None), w1) \<Rightarrow>
                 if allowed decision then (Inr (), w1) else (Inl (Errorf ''permission denied for memory''), w1)))"

definition memory_tool_spec :: "string \<Rightarrow> string \<Rightarrow> tool_spec" where
  "memory_tool_spec name description =
     \<lparr>sp_name = name, sp_description = description, sp_kind = ToolKindRead, sp_capability = MemoryReadGuild\<rparr>"

text \<open>The date arguments a request of the store gets, or the first that cannot be parsed.\<close>

definition date_args :: "tool_lib \<Rightarrow> gomap \<Rightarrow> (gotime \<times> gotime) result" where
  "date_args lib args =
     attempt (extractStartDate lib args) (\<lambda>s. attempt (extractEndDate lib args) (\<lambda>e. Inr (s, e)))"

definition recent_query :: "request \<Rightarrow> tool_call \<Rightarrow> gotime \<times> gotime \<Rightarrow> recent_request" where
  "recent_query request call dates =
     \<lparr>mq_guild_id = rq_guild_id request, mq_channel_id = rq_channel_id request,
      mq_author_id = trim_space (mget (tc_args call) ''target_user_id''),
      mq_limit = parseLimit (mget (tc_args call) ''limit'') 5 25, mq_start = fst dates, mq_end = snd dates\<rparr>"

definition MemoryCountTool ::
  "tool_lib \<Rightarrow> 'w memory_reader option \<Rightarrow> 'w capability_checker option \<Rightarrow> 'w tool" where
  "MemoryCountTool lib store checker = \<lparr>
     tl_spec = memory_tool_spec ToolMemoryCount
       (''Count exact text mentions in retained current-channel guild memory. Optional arguments: target_user_id, '' @
      ''start_date (YYYY-MM-DD), end_date (YYYY-MM-DD).''),
     tl_execute = (\<lambda>request call w.
       db_bind (checkMemoryToolAccess checker request w) (\<lambda>_ w1.
         case store of
           None \<Rightarrow> (Inl (Errorf ''memory store is required''), w1)
         | Some s \<Rightarrow>
             (let text = NormalizeText (mget (tc_args call) ''text'');
                  target = trim_space (mget (tc_args call) ''target_user_id'') in
              if text = [] then (Inl (Errorf ''memory count text is required''), w1)
              else case date_args lib (tc_args call) of
                  Inl e \<Rightarrow> (Inl e, w1)
                | Inr (startDate, endDate) \<Rightarrow>
                    db_bind (mo_count s \<lparr>cq_guild_id = rq_guild_id request, cq_channel_id = rq_channel_id request,
                        cq_author_id = target, cq_text = text, cq_start = startDate, cq_end = endDate\<rparr> w1)
                      (\<lambda>n w2. (Inr \<lparr>tr_name = ToolMemoryCount, tr_summary = formatMemoryCountSummary target text n,
                         tr_data = Some [(''count'', nat_str n), (''scope'', ''this-channel'')]\<rparr>, w2)))))\<rparr>"

definition MemorySearchTool ::
  "tool_lib \<Rightarrow> 'w memory_reader option \<Rightarrow> 'w capability_checker option \<Rightarrow> 'w tool" where
  "MemorySearchTool lib store checker = \<lparr>
     tl_spec = memory_tool_spec ToolMemorySearch
       (''Search retained current-channel guild memory for exact normalized text. Optional arguments: target_user_id, '' @
      ''start_date (YYYY-MM-DD), end_date (YYYY-MM-DD), limit.''),
     tl_execute = (\<lambda>request call w.
       db_bind (checkMemoryToolAccess checker request w) (\<lambda>_ w1.
         case store of
           None \<Rightarrow> (Inl (Errorf ''memory store is required''), w1)
         | Some s \<Rightarrow>
             (let query = NormalizeText (mget (tc_args call) ''query'') in
              if query = [] then (Inl (Errorf ''memory search query is required''), w1)
              else case date_args lib (tc_args call) of
                  Inl e \<Rightarrow> (Inl e, w1)
                | Inr dates \<Rightarrow>
                    db_bind (mo_search s (recent_request.extend (recent_query request call dates) \<lparr>mq_query = query\<rparr>) w1)
                      (\<lambda>results w2. (Inr \<lparr>tr_name = ToolMemorySearch,
                         tr_summary = formatMemoryResultsSummary lib (''Memory search for '' @ quoted query) results,
                         tr_data = Some (mergeToolData [(''matches'', nat_str (length results)), (''scope'', ''this-channel'')]
                           (memoryResultsData lib results))\<rparr>, w2)))))\<rparr>"

definition MemoryRecentTool ::
  "tool_lib \<Rightarrow> 'w memory_reader option \<Rightarrow> 'w capability_checker option \<Rightarrow> 'w tool" where
  "MemoryRecentTool lib store checker = \<lparr>
     tl_spec = memory_tool_spec ToolMemoryRecent
       (''Fetch recent retained current-channel guild memory messages. Optional arguments: target_user_id, start_date '' @
      ''(YYYY-MM-DD), end_date (YYYY-MM-DD), limit.''),
     tl_execute = (\<lambda>request call w.
       db_bind (checkMemoryToolAccess checker request w) (\<lambda>_ w1.
         case store of
           None \<Rightarrow> (Inl (Errorf ''memory store is required''), w1)
         | Some s \<Rightarrow>
             (case date_args lib (tc_args call) of
                Inl e \<Rightarrow> (Inl e, w1)
              | Inr dates \<Rightarrow>
                  db_bind (mo_recent s (recent_query request call dates) w1)
                    (\<lambda>results w2. (Inr \<lparr>tr_name = ToolMemoryRecent,
                       tr_summary = formatMemoryResultsSummary lib ''Recent retained full-mode messages in this channel'' results,
                       tr_data = Some (mergeToolData [(''messages'', nat_str (length results)), (''scope'', ''this-channel'')]
                         (memoryResultsData lib results))\<rparr>, w2)))))\<rparr>"

subsection \<open>Context for the answer\<close>

record 'w memory_context =
  mx_store :: "'w memory_reader option"
  mx_checker :: "'w capability_checker option"
  mx_limit :: int

definition memory_context_limit :: "'w memory_context \<Rightarrow> int" where
  "memory_context_limit p = (if mx_limit p \<le> 0 then 8 else if mx_limit p > 20 then 20 else mx_limit p)"

text \<open>A nil slice of snippets and an empty one are the same to every caller.\<close>

definition LoadContextSnippets :: "'w memory_context \<Rightarrow> request \<Rightarrow> 'w \<Rightarrow> snippet list result \<times> 'w" where
  "LoadContextSnippets p request w =
     (if rq_surface request \<noteq> SurfaceGuildMention \<or> rq_guild_id request = [] \<or> rq_channel_id request = [] \<or>
         rq_context_scope request \<noteq> ''channel'' then (Inr [], w)
      else case (mx_store p, mx_checker p) of
          (Some s, Some check) \<Rightarrow>
            (case check (subject_of request) MemoryReadGuild w of
               ((decision, Some e), w1) \<Rightarrow> (Inl e, w1)
             | ((decision, None), w1) \<Rightarrow>
                 if \<not> allowed decision then (Inr [], w1)
                 else db_bind (mo_recent s \<lparr>mq_guild_id = rq_guild_id request, mq_channel_id = rq_channel_id request,
                     mq_author_id = [], mq_limit = memory_context_limit p, mq_start = zero_time, mq_end = zero_time\<rparr> w1)
                   (\<lambda>results w2. (Inr (memoryResultsContextSnippets results), w2)))
        | _ \<Rightarrow> (Inr [], w))"

record channel_recent_request =
  cc_guild_id :: string
  cc_channel_id :: string
  cc_author_id :: string
  cc_limit :: int
  cc_max_chars :: int

definition normalizeChannelRecentRequest :: "channel_recent_request \<Rightarrow> channel_recent_request" where
  "normalizeChannelRecentRequest r =
     (let l1 = (if cc_limit r \<le> 0 then 10 else cc_limit r); l2 = (if l1 > 25 then 25 else l1)
      in r\<lparr>cc_guild_id := trim_space (cc_guild_id r), cc_channel_id := trim_space (cc_channel_id r),
           cc_author_id := trim_space (cc_author_id r), cc_limit := l2\<rparr>)"

definition recent_snippet :: "search_result \<Rightarrow> snippet" where
  "recent_snippet r = \<lparr>sn_id = sr_message_id r, sn_source = SourceMemoryCurrentChannel, sn_channel_id = sr_channel_id r,
     sn_author_id = sr_author_id r, sn_text = sr_text r, sn_score = 0, sn_created_at = time_text (sr_created_at r),
     sn_pinned = False, sn_stale = False\<rparr>"

text \<open>\<^verbatim>\<open>ChannelRecentFetcher.Fetch\<close>.\<close>

definition Fetch ::
  "tool_lib \<Rightarrow> (recent_request \<Rightarrow> 'w \<Rightarrow> search_result list result \<times> 'w) option \<Rightarrow> channel_recent_request \<Rightarrow> 'w \<Rightarrow> pack result \<times> 'w"
where
  "Fetch lib store request0 w =
     (let request = normalizeChannelRecentRequest request0 in
      if cc_guild_id request = [] then (Inl (Errorf ''guild ID is required''), w)
      else if cc_channel_id request = [] then (Inl (Errorf ''channel ID is required''), w)
      else case store of
          None \<Rightarrow> (Inl (Errorf ''memory store is required''), w)
        | Some recent \<Rightarrow>
            db_bind (recent \<lparr>mq_guild_id = cc_guild_id request, mq_channel_id = cc_channel_id request,
                mq_author_id = cc_author_id request, mq_limit = cc_limit request, mq_start = zero_time, mq_end = zero_time\<rparr> w)
              (\<lambda>results w1. (Inr (PackSnippets (tb_sha lib) (map recent_snippet results) (cc_max_chars request)), w1)))"

record 'w channel_context =
  cf_source :: "(channel_recent_request \<Rightarrow> 'w \<Rightarrow> pack result \<times> 'w) option"
  cf_checker :: "'w capability_checker option"
  cf_limit :: int
  cf_max_chars :: int

definition FetchContext :: "'w channel_context \<Rightarrow> request \<Rightarrow> 'w \<Rightarrow> pack result \<times> 'w" where
  "FetchContext f request w =
     (if \<not> isChannelContextScope (rq_context_scope request) then (Inr (empty_pack []), w)
      else if rq_surface request \<noteq> SurfaceGuildMention \<or> rq_guild_id request = [] \<or> rq_channel_id request = []
      then (Inl (Errorf ''guild channel context is required''), w)
      else case (cf_source f, cf_checker f) of
          (None, _) \<Rightarrow> (Inl (Errorf ''context source is required''), w)
        | (Some _, None) \<Rightarrow> (Inl (Errorf ''capability checker is required''), w)
        | (Some fetch, Some check) \<Rightarrow>
            (case check (subject_of request) MemoryReadGuild w of
               ((decision, Some e), w1) \<Rightarrow> (Inl e, w1)
             | ((decision, None), w1) \<Rightarrow>
                 if \<not> allowed decision then (Inl ErrContextPermissionDenied, w1)
                 else fetch \<lparr>cc_guild_id = rq_guild_id request, cc_channel_id = rq_channel_id request, cc_author_id = [],
                   cc_limit = (if cf_limit f > 0 then cf_limit f else 10),
                   cc_max_chars = (if cf_max_chars f > 0 then cf_max_chars f else 2500)\<rparr> w1))"

subsection \<open>The adapter of the memory planner\<close>

definition no_plan :: plan where
  "no_plan = \<lparr>pl_intent = [], pl_context_scopes = [], pl_tool_calls = [], pl_clarifying_question = [],
     pl_requires_confirmation = False, pl_trace = []\<rparr>"

definition memory_tool_plan :: "memory_plan \<Rightarrow> plan option" where
  "memory_tool_plan m =
     (let call = (\<lambda>intent tool args. \<lparr>pl_intent = intent, pl_context_scopes = [], pl_tool_calls = [\<lparr>tc_name = tool, tc_args = args\<rparr>],
            pl_clarifying_question = [], pl_requires_confirmation = False, pl_trace = []\<rparr>)
      in if mn_intent m = MemoryIntentCount
         then Some (call ''memory.count'' ToolMemoryCount [(''target_user_id'', mn_target_user_id m), (''text'', mn_text m)])
         else if mn_intent m = MemoryIntentSearch
         then Some (call ''memory.search'' ToolMemorySearch [(''query'', mn_query m), (''limit'', int_str (mn_limit m))])
         else None)"

definition SemanticMemoryPlannerAdapter ::
  "(planner_input \<Rightarrow> 'w \<Rightarrow> memory_plan option result \<times> 'w) option \<Rightarrow> 'w planner" where
  "SemanticMemoryPlannerAdapter planner request specs w =
     (case planner of
        None \<Rightarrow> (Inr (no_plan, False), w)
      | Some plan \<Rightarrow>
          db_bind (plan \<lparr>in_guild_id = rq_guild_id request, in_channel_id = rq_channel_id request,
              in_actor_user_id = rq_actor_user_id request, in_text = rq_text request\<rparr> w)
            (\<lambda>found w1.
              case Option.bind found memory_tool_plan of
                None \<Rightarrow> (Inr (no_plan, False), w1)
              | Some p \<Rightarrow> (Inr (p, True), w1)))"

subsection \<open>What a pack is made of\<close>

lemma appendItem_snippets: "pk_snippets (appendItem sha s i f pr n p) = pk_snippets p @ [s]"
  by (simp add: appendItem_def Let_def)

lemma omit_snippets: "pk_snippets (omit sha st i f r p) = pk_snippets p"
  by (simp add: omit_def)

text \<open>A snippet of a pack is a snippet of the request, up to white space and the shortening of its text.\<close>

definition comes_from :: "snippet \<Rightarrow> snippet \<Rightarrow> bool" where
  "comes_from sn s \<longleftrightarrow> sn = (normalizeSnippet s)\<lparr>sn_text := sn_text sn\<rparr>"

lemma comes_from_id: "comes_from sn s \<Longrightarrow> sn_id sn = trim_space (sn_id s)"
  unfolding comes_from_def by (drule arg_cong [where f = sn_id]) (simp add: normalizeSnippet_def)

lemma pack_loop_snippets:
  "sn \<in> set (pk_snippets (pack_loop sha m ss p)) \<Longrightarrow> sn \<in> set (pk_snippets p) \<or> (\<exists>s\<in>set ss. comes_from sn s)"
proof (induction ss arbitrary: p)
  case (Cons s ss)
  have self: "comes_from (normalizeSnippet s) s" by (simp add: comes_from_def)
  have cut: "comes_from ((normalizeSnippet s)\<lparr>sn_text := t\<rparr>) s" for t by (simp add: comes_from_def)
  show ?case
  proof (cases rule: pack_loop_cases [of s sha m ss p])
    case Empty
    then show ?thesis using Cons by fastforce
  next
    case Unchanged
    then show ?thesis using Cons.prems Cons.IH by (fastforce simp: omit_snippets)
  next
    case Last
    show ?thesis
      using Cons.prems self cut
      unfolding Last(4) by (auto simp: pack_last_def Let_def appendItem_snippets omit_snippets split: if_splits)
  next
    case Append
    then show ?thesis using Cons.prems Cons.IH self by (fastforce simp: appendItem_snippets)
  qed
qed simp

lemma PackSnippets_from:
  assumes "sn \<in> set (pk_snippets (PackSnippets sha ss m))"
  shows "\<exists>s\<in>set ss. comes_from sn s"
proof -
  have "sn \<in> set (pk_snippets (empty_pack [])) \<or> (\<exists>s\<in>set (prioritizeSnippets ss). comes_from sn s)"
    using pack_loop_snippets assms unfolding PackSnippets_def BuildPack_def by (fastforce simp: copySeen_def empty_pack_def)
  then show ?thesis by (auto simp: empty_pack_def prioritizeSnippets_def)
qed

subsection \<open>Reading needs the permission\<close>

lemma checkMemoryToolAccess_denied:
  assumes "check (subject_of request) MemoryReadGuild w = ((d, e), w1)" "e \<noteq> None \<or> \<not> allowed d"
  shows "\<exists>err. checkMemoryToolAccess (Some check) request w \<in> {(Inl err, w), (Inl err, w1)}"
  using assms by (auto simp: checkMemoryToolAccess_def split: option.splits)

lemma checkMemoryToolAccess_Inr:
  assumes "checkMemoryToolAccess checker request w = (Inr u, w1)"
  shows "\<exists>check d. checker = Some check \<and> check (subject_of request) MemoryReadGuild w = ((d, None), w1) \<and> allowed d \<and>
    rq_surface request = SurfaceGuildMention \<and> rq_guild_id request \<noteq> [] \<and> rq_channel_id request \<noteq> []"
  using assms by (auto simp: checkMemoryToolAccess_def split: if_splits option.splits prod.splits)

text \<open>
  C38: without the capability \<^verbatim>\<open>memory.read.guild\<close>, or when its check fails, none of the three memory tools and neither
  provider of context reads the store: a tool and the channel context answer with an error, the context provider with
  nothing or the error of the check, and the world is as the check left it, whatever the store would have done.
\<close>

theorem memory_reads_are_authorised:
  assumes "check (subject_of request) MemoryReadGuild w = ((d, e), w1)" "e \<noteq> None \<or> \<not> allowed d"
    and "tool \<in> {MemoryCountTool lib store (Some check), MemorySearchTool lib store (Some check),
      MemoryRecentTool lib store (Some check)}"
    and "cf_checker f = Some check" "mx_checker p = Some check" "isChannelContextScope (rq_context_scope request)"
  shows "(\<exists>err. tl_execute tool request call w \<in> {(Inl err, w), (Inl err, w1)}) \<and>
    (\<exists>err. FetchContext f request w \<in> {(Inl err, w), (Inl err, w1)}) \<and>
    LoadContextSnippets p request w \<in> {(Inr [], w), (Inr [], w1), (Inl (the e), w1)}"
proof (intro conjI)
  obtain err where "checkMemoryToolAccess (Some check) request w \<in> {(Inl err, w), (Inl err, w1)}"
    using checkMemoryToolAccess_denied [of check request w d e w1] assms(1,2) by blast
  then show "\<exists>err. tl_execute tool request call w \<in> {(Inl err, w), (Inl err, w1)}"
    using assms(3) by (intro exI [of _ err]) (auto simp: MemoryCountTool_def MemorySearchTool_def MemoryRecentTool_def)
  show "\<exists>err. FetchContext f request w \<in> {(Inl err, w), (Inl err, w1)}"
    using assms(1,2,4,6) by (auto simp: FetchContext_def split: option.splits)
  show "LoadContextSnippets p request w \<in> {(Inr [], w), (Inr [], w1), (Inl (the e), w1)}"
    using assms(1,2,5) by (auto simp: LoadContextSnippets_def split: option.splits)
qed

subsection \<open>The channel context of the SQL store\<close>

definition sql_channel_context ::
  "tool_lib \<Rightarrow> memory_store \<Rightarrow> (subject \<Rightarrow> capability \<Rightarrow> 'x \<Rightarrow> (decision \<times> goerror option) \<times> 'x) \<Rightarrow> int \<Rightarrow> int
     \<Rightarrow> (memory_db \<times> 'x) channel_context" where
  "sql_channel_context lib s check limit maxChars =
     \<lparr>cf_source = Some (Fetch lib (Some (\<lambda>q. on_left (RecentMessages s q)))),
      cf_checker = Some (\<lambda>subject c. on_right (check subject c)), cf_limit = limit, cf_max_chars = maxChars\<rparr>"

lemma Fetch_snippets:
  assumes "Fetch lib (Some (\<lambda>q. on_left (RecentMessages s q))) r w = (Inr p, w')" "sn \<in> set (pk_snippets p)"
  shows "\<exists>row\<in>set (mt_messages (tables (fst w))). ar_guild_id row = trim_space (cc_guild_id r) \<and>
    ar_channel_id row = trim_space (cc_channel_id r) \<and> readable (clock (fst w)) row \<and> sn_id sn = trim_space (ar_id row)"
proof -
  let ?r = "normalizeChannelRecentRequest r"
  obtain rs d where q: "RecentMessages s \<lparr>mq_guild_id = cc_guild_id ?r, mq_channel_id = cc_channel_id ?r,
      mq_author_id = cc_author_id ?r, mq_limit = cc_limit ?r, mq_start = zero_time, mq_end = zero_time\<rparr> (fst w) = (Inr rs, d)"
    and p: "p = PackSnippets (tb_sha lib) (map recent_snippet rs) (cc_max_chars ?r)"
    using assms(1) by (auto simp: Fetch_def Let_def split: if_splits dest!: db_bind_InrD on_leftD)
  obtain x where x: "x \<in> set rs" "comes_from sn (recent_snippet x)"
    using PackSnippets_from assms(2) unfolding p by fastforce
  have n: "cc_guild_id ?r = trim_space (cc_guild_id r)" "cc_channel_id ?r = trim_space (cc_channel_id r)"
    by (simp_all add: normalizeChannelRecentRequest_def Let_def)
  obtain row where row: "row \<in> set (mt_messages (tables (fst w)))" "x = result_of_row (clock (fst w)) row"
    "ar_guild_id row = trim_space (cc_guild_id r)" "ar_channel_id row = trim_space (cc_channel_id r)"
    "readable (clock (fst w)) row"
    using x(1) n RecentMessages_ok(1) [OF q refl]
    by (auto simp: selected_recent_def normalizeRecentRequest_def Let_def dest!: set_newest)
  have "sn_id sn = trim_space (ar_id row)"
    using comes_from_id [OF x(2)] row(2) by (simp add: recent_snippet_def result_of_row_def)
  then show ?thesis using row by blast
qed

text \<open>
  C39: the channel context of the SQL store, asked for by a user who may read the memory, is made only of messages of the
  request's own guild and channel that are neither deleted nor past their retention, and of no more than its budget of characters;
  asking leaves the memory as it was.
\<close>

theorem channel_context_stays_in_the_channel:
  assumes "FetchContext (sql_channel_context lib s check limit maxChars) request w = (Inr p, w')"
  shows "tables (fst w') = tables (fst w) \<and> int (pk_chars p) \<le> (if maxChars > 0 then maxChars else 2500) \<and>
    (pk_snippets p \<noteq> [] \<longrightarrow> (\<exists>d. fst (check (subject_of request) MemoryReadGuild (snd w)) = (d, None) \<and> allowed d)) \<and>
    (\<forall>sn\<in>set (pk_snippets p). \<exists>row\<in>set (mt_messages (tables (fst w))).
       ar_guild_id row = trim_space (rq_guild_id request) \<and> ar_channel_id row = trim_space (rq_channel_id request) \<and>
       ar_deleted_at row = None \<and> ar_retention_until row > clock (fst w) \<and> sn_id sn = trim_space (ar_id row))"
proof (cases "isChannelContextScope (rq_context_scope request)")
  case False
  then show ?thesis using assms by (auto simp: FetchContext_def empty_pack_def)
next
  case True
  let ?mc = "if maxChars > 0 then maxChars else 2500"
  let ?r = "\<lparr>cc_guild_id = rq_guild_id request, cc_channel_id = rq_channel_id request, cc_author_id = [],
      cc_limit = (if limit > 0 then limit else 10), cc_max_chars = ?mc\<rparr>"
  obtain d w1 where c: "on_right (check (subject_of request) MemoryReadGuild) w = ((d, None), w1)" "allowed d"
    and f: "Fetch lib (Some (\<lambda>q. on_left (RecentMessages s q))) ?r w1 = (Inr p, w')"
    using assms True
    by (auto simp: FetchContext_def sql_channel_context_def split: if_splits prod.splits option.splits)
  have w1: "fst w1 = fst w" "check (subject_of request) MemoryReadGuild (snd w) = ((d, None), snd w1)"
    using on_rightD [OF c(1)] by auto
  obtain q rs where r: "on_left (RecentMessages s q) w1 = (Inr rs, w')"
    and p: "p = PackSnippets (tb_sha lib) (map recent_snippet rs) ?mc"
    using f by (auto simp: Fetch_def Let_def normalizeChannelRecentRequest_def split: if_splits dest!: db_bind_InrD)
  have "tables (fst w') = tables (fst w)"
    using RecentMessages_ok(2) [of s q "fst w1" rs "fst w'", OF _ refl] on_leftD [OF r] w1(1) by simp
  moreover have "int (pk_chars p) \<le> ?mc"
    using BuildPack_ok [of "tb_sha lib" "\<lparr>br_snippets = map recent_snippet rs, br_previous = [], br_max_chars = ?mc\<rparr>"]
    by (auto simp: p PackSnippets_def max_chars_def split: if_splits)
  ultimately show ?thesis
    using Fetch_snippets [OF f] c w1 by (auto simp: readable_def)
qed

subsection \<open>Witnesses\<close>

definition memory_decision :: "bool \<Rightarrow> decision" where
  "memory_decision b = \<lparr>allowed = b, dec_capability = MemoryReadGuild, dec_reason = ReasonUserGrant\<rparr>"

definition memory_request :: request where
  "memory_request = \<lparr>rq_surface = SurfaceGuildMention, rq_guild_id = ''g'', rq_channel_id = ''c'', rq_actor_user_id = ''u'',
     rq_role_ids = [], rq_has_administrator = False, rq_context_scope = ''channel'', rq_text = ''hi'', rq_raw_text = ''hi'',
     rq_prior_run = None, rq_context_pack = None\<rparr>"

definition memory_lib :: tool_lib where
  "memory_lib = \<lparr>tb_sha = (\<lambda>s. s), tb_parse_rfc3339 = (\<lambda>_. None)\<rparr>"

lemma memory_reads_are_authorised_witness:
  "\<exists>err. tl_execute (MemoryRecentTool memory_lib None (Some (\<lambda>_ _ w :: unit. ((memory_decision False, None), w))))
     memory_request \<lparr>tc_name = ToolMemoryRecent, tc_args = []\<rparr> () = (Inl err, ())"
proof -
  let ?check = "\<lambda>_ _ w :: unit. ((memory_decision False, None :: goerror option), w)"
  have denied: "?check (subject_of memory_request) MemoryReadGuild () = ((memory_decision False, None), ())"
    "None \<noteq> (None :: goerror option) \<or> \<not> allowed (memory_decision False)"
    by (simp_all add: memory_decision_def)
  have checked: "cf_checker \<lparr>cf_source = None, cf_checker = Some ?check, cf_limit = 0, cf_max_chars = 0\<rparr> = Some ?check"
    "mx_checker \<lparr>mx_store = None, mx_checker = Some ?check, mx_limit = 0\<rparr> = Some ?check"
    "isChannelContextScope (rq_context_scope memory_request)"
    by (simp_all add: memory_request_def isChannelContextScope_def go_eval)
  from memory_reads_are_authorised [of ?check memory_request "()" "memory_decision False" None "()"
      "MemoryRecentTool memory_lib None (Some ?check)" memory_lib None, OF denied _ checked]
  show ?thesis by auto
qed

lemma sample_context:
  "\<exists>p w'. FetchContext (sql_channel_context memory_lib sample_memory (\<lambda>_ _ w :: unit. ((memory_decision True, None), w)) 3 100)
     memory_request (memory_sample [sample_message_row], ()) = (Inr p, w')"
  by (simp add: FetchContext_def sql_channel_context_def memory_request_def isChannelContextScope_def go_eval memory_decision_def
      on_right_def on_left_def Fetch_def normalizeChannelRecentRequest_def RecentMessages_def normalizeRecentRequest_def memory_samples)

lemma channel_context_stays_in_the_channel_witness:
  "\<exists>p. fst (FetchContext (sql_channel_context memory_lib sample_memory (\<lambda>_ _ w :: unit. ((memory_decision True, None), w)) 3 100)
     memory_request (memory_sample [sample_message_row], ())) = Inr p \<and> int (pk_chars p) \<le> 100"
proof -
  obtain p w' where f: "FetchContext (sql_channel_context memory_lib sample_memory
      (\<lambda>_ _ w :: unit. ((memory_decision True, None), w)) 3 100) memory_request (memory_sample [sample_message_row], ()) = (Inr p, w')"
    using sample_context by blast
  from channel_context_stays_in_the_channel [OF this] f show ?thesis by simp
qed

end
