(* ===== verification/WebTools.thy ===== *)
theory WebTools
  imports AgentMemory "HOL-Library.Word"
begin

unbundle bit_operations_syntax

text \<open>
  \<^verbatim>\<open>internal/agent/web_tools.go\<close>: the search and fetch tools, and the screen that keeps them from addresses inside the
  operator's network. \<^verbatim>\<open>net.IP\<close> is a list of bytes, 4 or 16 of them, nil the empty list. A network \<open>'w net\<close> holds what the
  tools use of \<^verbatim>\<open>net\<close>, \<^verbatim>\<open>net/url\<close>, \<^verbatim>\<open>net/http\<close>, \<^verbatim>\<open>encoding/json\<close>, \<^verbatim>\<open>mime\<close> and \<^verbatim>\<open>golang.org/x/net/html\<close> as
  parameters; the following of redirects by \<^verbatim>\<open>http.Client\<close>, which calls the code's checks, is modelled. Each provider and
  tool has the nil base client and resolver it is built with in \<^verbatim>\<open>internal/app\<close>.
\<close>

abbreviation ToolWebSearch :: string where "ToolWebSearch \<equiv> ''web.search''"
abbreviation ToolWebFetch :: string where "ToolWebFetch \<equiv> ''web.fetch''"

definition maxWebSearchResults :: int where "maxWebSearchResults = 10"
definition defaultWebFetchChars :: nat where "defaultWebFetchChars = 10000"
definition maxWebResponseBytes :: nat where "maxWebResponseBytes = 1048576"

subsection \<open>Addresses\<close>

type_synonym ip = "8 word list"

text \<open>\<^verbatim>\<open>To4\<close>: the four bytes of an IPv4 address, also of one written in the 16 bytes of IPv6.\<close>

definition to4 :: "ip \<Rightarrow> ip option" where
  "to4 ip =
     (if length ip = 4 then Some ip
      else if length ip = 16 \<and> take 12 ip = replicate 10 0 @ [0xFF, 0xFF] then Some (drop 12 ip)
      else None)"

definition IsLoopback :: "ip \<Rightarrow> bool" where
  "IsLoopback ip = (case to4 ip of Some a \<Rightarrow> a ! 0 = 127 | None \<Rightarrow> ip = replicate 15 0 @ [1])"

definition IsPrivate :: "ip \<Rightarrow> bool" where
  "IsPrivate ip =
     (case to4 ip of
        Some a \<Rightarrow> a ! 0 = 10 \<or> (a ! 0 = 172 \<and> a ! 1 AND 0xF0 = 16) \<or> (a ! 0 = 192 \<and> a ! 1 = 168)
      | None \<Rightarrow> length ip = 16 \<and> ip ! 0 AND 0xFE = 0xFC)"

definition IsLinkLocalUnicast :: "ip \<Rightarrow> bool" where
  "IsLinkLocalUnicast ip =
     (case to4 ip of
        Some a \<Rightarrow> a ! 0 = 169 \<and> a ! 1 = 254
      | None \<Rightarrow> length ip = 16 \<and> ip ! 0 = 0xFE \<and> ip ! 1 AND 0xC0 = 0x80)"

definition IsLinkLocalMulticast :: "ip \<Rightarrow> bool" where
  "IsLinkLocalMulticast ip =
     (case to4 ip of
        Some a \<Rightarrow> a ! 0 = 224 \<and> a ! 1 = 0 \<and> a ! 2 = 0
      | None \<Rightarrow> length ip = 16 \<and> ip ! 0 = 0xFF \<and> ip ! 1 AND 0x0F = 2)"

definition IsMulticast :: "ip \<Rightarrow> bool" where
  "IsMulticast ip =
     (case to4 ip of Some a \<Rightarrow> a ! 0 AND 0xF0 = 0xE0 | None \<Rightarrow> length ip = 16 \<and> ip ! 0 = 0xFF)"

definition IsUnspecified :: "ip \<Rightarrow> bool" where
  "IsUnspecified ip = (case to4 ip of Some a \<Rightarrow> a = replicate 4 0 | None \<Rightarrow> ip = replicate 16 0)"

definition isBlockedIP :: "ip \<Rightarrow> bool" where
  "isBlockedIP ip \<longleftrightarrow> ip = [] \<or> IsLoopback ip \<or> IsPrivate ip \<or> IsLinkLocalUnicast ip \<or> IsLinkLocalMulticast ip \<or>
     IsMulticast ip \<or> IsUnspecified ip"

subsection \<open>The network\<close>

record web_url =
  wu_scheme :: string
  wu_host :: string
  wu_hostname :: string
  wu_path :: string
  wu_query :: string
  wu_has_user :: bool

record http_response =
  hr_status :: int
  hr_content_type :: string
  hr_body :: string
  hr_body_error :: "goerror option"

datatype html = Element string "(string \<times> string) list" "html list" | TextNode string | OtherNode "html list"

record web_hit =
  wh_title :: string
  wh_url :: string
  wh_body :: string

text \<open>
  \<open>hr_body\<close> are the bytes the body gives before its end or its error. \<open>nt_exchange ip url\<close> connects to the address and sends the request for the URL over the connection; \<open>nt_direct\<close> is
  \<^verbatim>\<open>http.DefaultTransport\<close>, which chooses the address itself; \<open>nt_redirect\<close> is the URL a redirect answer to a request leads to.
  Every request opens a connection of its own, and no proxy is set in the environment.
\<close>

record 'w net =
  nt_parse_url :: "string \<Rightarrow> web_url option"
  nt_url_text :: "web_url \<Rightarrow> string"
  nt_parse_ip :: "string \<Rightarrow> ip option"
  nt_lookup :: "string \<Rightarrow> 'w \<Rightarrow> ip list result \<times> 'w"
  nt_exchange :: "ip \<Rightarrow> web_url \<Rightarrow> 'w \<Rightarrow> http_response result \<times> 'w"
  nt_direct :: "web_url \<Rightarrow> 'w \<Rightarrow> http_response result \<times> 'w"
  nt_redirect :: "web_url \<Rightarrow> http_response \<Rightarrow> web_url option"
  nt_query_escape :: "string \<Rightarrow> string"
  nt_set_query :: "(string \<times> string) list \<Rightarrow> web_url \<Rightarrow> web_url"
  nt_query_get :: "web_url \<Rightarrow> string \<Rightarrow> string"
  nt_html :: "string \<Rightarrow> html option"
  nt_media_type :: "string \<Rightarrow> string option"
  nt_brave_json :: "string \<Rightarrow> web_hit list option"
  nt_searxng_json :: "string \<Rightarrow> web_hit list option"

subsection \<open>The screen\<close>

definition trim_brackets :: "string \<Rightarrow> string" where
  "trim_brackets s =
     (let cut = dropWhile (\<lambda>c. c \<in> {CHR 0x5B, CHR 0x5D}) in rev (cut (rev (cut s))))"

definition blocked_host :: goerror where
  "blocked_host = Wrap ''%w %q'' ErrBlockedHost"

definition validatePublicHost :: "'w net \<Rightarrow> string \<Rightarrow> 'w \<Rightarrow> unit result \<times> 'w" where
  "validatePublicHost net host w =
     (let normalized = trim_brackets (to_lower host) in
      if normalized = ''localhost'' \<or> suffix ''.localhost'' normalized \<or> suffix ''.local'' normalized
      then (Inl blocked_host, w)
      else case nt_parse_ip net normalized of
          Some ip \<Rightarrow> if isBlockedIP ip then (Inl blocked_host, w) else (Inr (), w)
        | None \<Rightarrow>
            db_bind (wrap_err ''resolve host'' (nt_lookup net host w)) (\<lambda>ips w1.
              if ips = [] then (Inl (Errorf ''resolve host: no addresses''), w1)
              else if list_ex isBlockedIP ips then (Inl blocked_host, w1)
              else (Inr (), w1)))"

definition parseTrustedSearchURL :: "'w net \<Rightarrow> string \<Rightarrow> web_url result" where
  "parseTrustedSearchURL net raw =
     (case nt_parse_url net (trim_space raw) of
        None \<Rightarrow> Inl (Errorf ''parse'')
      | Some u \<Rightarrow> attempt (checks
          [must (wu_scheme u = ''http'' \<or> wu_scheme u = ''https'') ''unsupported scheme %q'',
           must (\<not> wu_has_user u) ''userinfo is not allowed'',
           must (wu_hostname u \<noteq> []) ''host is required'']) (\<lambda>_. Inr u))"

definition parseSafeWebURL :: "'w net \<Rightarrow> string \<Rightarrow> 'w \<Rightarrow> web_url result \<times> 'w" where
  "parseSafeWebURL net raw w =
     (case nt_parse_url net (trim_space raw) of
        None \<Rightarrow> (Inl (Errorf ''parse''), w)
      | Some u \<Rightarrow>
          (case checks
             [must (wu_scheme u = ''http'' \<or> wu_scheme u = ''https'') ''unsupported scheme %q'',
              must (\<not> wu_has_user u) ''userinfo is not allowed'',
              must (wu_hostname u \<noteq> []) ''host is required''] of
             Inl e \<Rightarrow> (Inl e, w)
           | Inr _ \<Rightarrow> db_bind (validatePublicHost net (wu_hostname u) w) (\<lambda>_ w1. (Inr u, w1))))"

text \<open>\<^verbatim>\<open>safeWebTransport\<close>: the host is screened again when the connection is opened, and the address dialled is one that passes.\<close>

definition safe_dial :: "'w net \<Rightarrow> web_url \<Rightarrow> 'w \<Rightarrow> http_response result \<times> 'w" where
  "safe_dial net u w =
     db_bind (validatePublicHost net (wu_hostname u) w) (\<lambda>_ w1.
     db_bind (nt_lookup net (wu_hostname u) w1) (\<lambda>ips w2.
       case find (\<lambda>ip. \<not> isBlockedIP ip) ips of
         None \<Rightarrow> (Inl blocked_host, w2)
       | Some ip \<Rightarrow> nt_exchange net ip u w2))"

text \<open>\<^verbatim>\<open>http.Client.Do\<close>: send, and follow redirects that the client's \<^verbatim>\<open>CheckRedirect\<close> lets pass; \<open>via\<close> requests went before.\<close>

function follow ::
  "'w net \<Rightarrow> (web_url \<Rightarrow> 'w \<Rightarrow> http_response result \<times> 'w) \<Rightarrow> (web_url \<Rightarrow> 'w \<Rightarrow> unit result \<times> 'w) \<Rightarrow> nat \<Rightarrow> web_url \<Rightarrow> 'w
     \<Rightarrow> http_response result \<times> 'w" where
  "follow net send check via u w =
     (case send u w of
        (Inl e, w1) \<Rightarrow> (Inl e, w1)
      | (Inr resp, w1) \<Rightarrow>
          (case nt_redirect net u resp of
             None \<Rightarrow> (Inr resp, w1)
           | Some u' \<Rightarrow>
               if via + 1 \<ge> 5 then (Inl (Errorf ''too many redirects''), w1)
               else (case check u' w1 of
                   (Inl e, w2) \<Rightarrow> (Inl e, w2)
                 | (Inr _, w2) \<Rightarrow> follow net send check (via + 1) u' w2)))"
  by pat_completeness auto
termination
  by (relation "measure (\<lambda>(net, send, check, via, u, w). 5 - via)") auto

declare follow.simps [simp del]

text \<open>\<^verbatim>\<open>http.NewRequestWithContext\<close>, which parses the text of the URL again.\<close>

definition new_request :: "'w net \<Rightarrow> web_url \<Rightarrow> web_url result" where
  "new_request net target =
     (case nt_parse_url net (nt_url_text net target) of None \<Rightarrow> Inl (Errorf ''parse'') | Some u \<Rightarrow> Inr u)"

definition check_safe_redirect :: "'w net \<Rightarrow> web_url \<Rightarrow> 'w \<Rightarrow> unit result \<times> 'w" where
  "check_safe_redirect net u w = db_bind (parseSafeWebURL net (nt_url_text net u) w) (\<lambda>_ w1. (Inr (), w1))"

definition safe_get :: "'w net \<Rightarrow> web_url \<Rightarrow> 'w \<Rightarrow> http_response result \<times> 'w" where
  "safe_get net u w = wrap_err ''Get'' (follow net (safe_dial net) (check_safe_redirect net) 0 u w)"

definition check_trusted_redirect :: "'w net \<Rightarrow> string \<Rightarrow> web_url \<Rightarrow> 'w \<Rightarrow> unit result \<times> 'w" where
  "check_trusted_redirect net allowedHost u w =
     (attempt (parseTrustedSearchURL net (nt_url_text net u)) (\<lambda>_.
        must (equal_fold (wu_hostname u) allowedHost) ''redirect host %q is not allowed''), w)"

definition trusted_get :: "'w net \<Rightarrow> string \<Rightarrow> web_url \<Rightarrow> 'w \<Rightarrow> http_response result \<times> 'w" where
  "trusted_get net allowedHost u w =
     wrap_err ''Get'' (follow net (nt_direct net) (check_trusted_redirect net allowedHost) 0 u w)"

subsection \<open>Reading a page\<close>

definition allowedWebContentType :: "'w net \<Rightarrow> string \<Rightarrow> bool" where
  "allowedWebContentType net value \<longleftrightarrow> trim_space value = [] \<or>
     (case nt_media_type net value of
        None \<Rightarrow> False
      | Some m \<Rightarrow> to_lower m \<in> {''text/html'', ''text/plain'', ''application/xhtml+xml'', ''application/xml'', ''text/xml''})"

fun readable_text :: "html \<Rightarrow> string" and readable_texts :: "html list \<Rightarrow> string" where
  "readable_text (Element tag attrs children) =
     (if tag \<in> {''script'', ''style'', ''head'', ''noscript''} then [] else readable_texts children)"
| "readable_text (TextNode t) = (let text = trim_space t in if text = [] then [] else text @ [CHR 0x0A])"
| "readable_text (OtherNode children) = readable_texts children"
| "readable_texts [] = []"
| "readable_texts (n # ns) = readable_text n @ readable_texts ns"

text \<open>\<^verbatim>\<open>ReplaceAllString\<close> with two newlines for the pattern of two or more.\<close>

fun squeeze_newlines :: "nat \<Rightarrow> string \<Rightarrow> string" where
  "squeeze_newlines seen [] = []"
| "squeeze_newlines seen (c # s) =
     (if c = CHR 0x0A then (if seen < 2 then c # squeeze_newlines (seen + 1) s else squeeze_newlines seen s)
      else c # squeeze_newlines 0 s)"

definition htmlToText :: "'w net \<Rightarrow> string \<Rightarrow> string result" where
  "htmlToText net body =
     (case nt_html net body of
        None \<Rightarrow> Inl (Errorf ''html'')
      | Some doc \<Rightarrow> Inr (squeeze_newlines 0 (readable_text doc)))"

text \<open>\<^verbatim>\<open>io.LimitReader\<close>: what reading at most \<open>n\<close> bytes of the body gives.\<close>

definition read_limited :: "nat \<Rightarrow> http_response \<Rightarrow> string result" where
  "read_limited n resp =
     (if length (hr_body resp) < n
      then case hr_body_error resp of Some e \<Rightarrow> Inl e | None \<Rightarrow> Inr (hr_body resp)
      else Inr (take n (hr_body resp)))"

definition web_fetch :: "'w net \<Rightarrow> web_url \<Rightarrow> 'w \<Rightarrow> (string \<times> bool) result \<times> 'w" where
  "web_fetch net target w =
     db_bind (new_request net target, w) (\<lambda>u w0.
     db_bind (safe_get net u w0) (\<lambda>resp w1.
       if hr_status resp \<noteq> 200 then (Inl (Errorf ''fetch returned status %d''), w1)
       else if \<not> allowedWebContentType net (hr_content_type resp) then (Inl (Errorf ''unsupported content type''), w1)
       else (attempt (read_limited (maxWebResponseBytes + 1) resp) (\<lambda>body.
         let cut = length body > maxWebResponseBytes in
         attempt (htmlToText net (if cut then take maxWebResponseBytes body else body)) (\<lambda>text.
         if length text > defaultWebFetchChars
         then Inr (take defaultWebFetchChars text @ ([CHR 0x0A] @ ''... [TRUNCATED] ...''), True)
         else Inr (text, cut))), w1)))"

definition web_fetch_execute :: "'w net \<Rightarrow> request \<Rightarrow> tool_call \<Rightarrow> 'w \<Rightarrow> tool_result result \<times> 'w" where
  "web_fetch_execute net request call w =
     (let url0 = trim_space (mget (tc_args call) ''url'');
          url = (if contains_sub url0 ''://'' then url0 else ''https://'' @ url0) in
      if url0 = [] then (Inl (Errorf ''url is required''), w)
      else db_bind (wrap_err ''web fetch failed'' (parseSafeWebURL net url w)) (\<lambda>target w1.
           db_bind (wrap_err ''web fetch failed'' (web_fetch net target w1)) (\<lambda>(text, truncated) w2.
             (Inr \<lparr>tr_name = ToolWebFetch, tr_summary = ''Fetched public content from '' @ nt_url_text net target,
                tr_data = Some [(''url'', nt_url_text net target), (''content'', text), (''truncated'', bool_str truncated)]\<rparr>,
              w2))))"

definition WebFetchTool :: "'w net \<Rightarrow> 'w tool" where
  "WebFetchTool net = \<lparr>
     tl_spec = \<lparr>sp_name = ToolWebFetch, sp_description = ''Fetch public text/HTML content from a URL. Arguments: url.'',
       sp_kind = ToolKindRead, sp_capability = ''web.fetch''\<rparr>,
     tl_execute = web_fetch_execute net\<rparr>"

subsection \<open>Searching\<close>

definition parseWebLimit :: "string \<Rightarrow> int \<Rightarrow> int \<Rightarrow> int" where
  "parseWebLimit raw fallback most =
     (let limit = (case atoi (trim_space raw) of Some v \<Rightarrow> if v > 0 then v else fallback | None \<Rightarrow> fallback) in
      if limit > most then most else if limit \<le> 0 then fallback else limit)"

text \<open>A search answers with its results or an error, and with the name of the provider.\<close>

type_synonym 'w search_provider = "string \<Rightarrow> int \<Rightarrow> 'w \<Rightarrow> (web_hit list result \<times> string) \<times> 'w"

definition named :: "string \<Rightarrow> 'a result \<times> 'w \<Rightarrow> ('a result \<times> string) \<times> 'w" where
  "named name r = ((fst r, name), snd r)"

definition isHTTPResultURL :: "'w net \<Rightarrow> string \<Rightarrow> bool" where
  "isHTTPResultURL net raw =
     (case nt_parse_url net raw of
        None \<Rightarrow> False
      | Some u \<Rightarrow> (wu_scheme u = ''http'' \<or> wu_scheme u = ''https'') \<and> wu_host u \<noteq> [])"

fun attr :: "(string \<times> string) list \<Rightarrow> string \<Rightarrow> string" where
  "attr [] key = []"
| "attr ((k, v) # as) key = (if k = key then v else attr as key)"

definition isDuckDuckGoChallengeNode :: "(string \<times> string) list \<Rightarrow> bool" where
  "isDuckDuckGoChallengeNode as \<longleftrightarrow> attr as ''id'' = ''challenge-form'' \<or> attr as ''id'' = ''img-form'' \<or>
     contains_sub (attr as ''action'') ''/anomaly.js'' \<or> contains_sub (attr as ''src'') ''/anomaly.js''"

definition cleanDuckDuckGoURL :: "'w net \<Rightarrow> string \<Rightarrow> string" where
  "cleanDuckDuckGoURL net href0 =
     (let href = (if prefix ''//duckduckgo.com/l/?'' href0 then ''https:'' @ href0 else href0) in
      case nt_parse_url net href of
        None \<Rightarrow> href
      | Some u \<Rightarrow>
          let target = nt_query_get net u ''uddg'' in
          if contains_sub (wu_host u) ''duckduckgo.com'' \<and> target \<noteq> [] then target else href)"

fun text_content :: "html \<Rightarrow> string" and text_contents :: "html list \<Rightarrow> string" where
  "text_content (Element tag as children) = text_contents children"
| "text_content (TextNode t) = t"
| "text_content (OtherNode children) = text_contents children"
| "text_contents [] = []"
| "text_contents (n # ns) = text_content n @ text_contents ns"

definition getTextContent :: "html \<Rightarrow> string" where
  "getTextContent n = trim_space (text_content n)"

text \<open>The walk over the result page: the results so far, the one being read, and whether a challenge was seen.\<close>

record ddg_state =
  dg_results :: "web_hit list"
  dg_current :: "web_hit option"
  dg_challenged :: bool

definition ddg_element :: "'w net \<Rightarrow> string \<Rightarrow> (string \<times> string) list \<Rightarrow> html \<Rightarrow> ddg_state \<Rightarrow> ddg_state" where
  "ddg_element net tag as n s0 =
     (let s1 = (if isDuckDuckGoChallengeNode as then s0\<lparr>dg_challenged := True\<rparr> else s0);
          s2 = (if tag = ''div'' \<and> contains_sub (attr as ''class'') ''result body''
            then s1\<lparr>dg_results := dg_results s1 @ (case dg_current s1 of None \<Rightarrow> [] | Some c \<Rightarrow> [c]),
                    dg_current := Some \<lparr>wh_title = [], wh_url = [], wh_body = []\<rparr>\<rparr> else s1)
      in case dg_current s2 of
           None \<Rightarrow> s2
         | Some c \<Rightarrow>
             if tag \<noteq> ''a'' then s2
             else let c1 = (if contains_sub (attr as ''class'') ''result__a''
                        then c\<lparr>wh_title := getTextContent n, wh_url := cleanDuckDuckGoURL net (attr as ''href'')\<rparr> else c);
                      c2 = (if contains_sub (attr as ''class'') ''result__snippet''
                        then c1\<lparr>wh_body := getTextContent n\<rparr> else c1)
                  in s2\<lparr>dg_current := Some c2\<rparr>)"

fun ddg_walk :: "'w net \<Rightarrow> int \<Rightarrow> html \<Rightarrow> ddg_state \<Rightarrow> ddg_state"
  and ddg_walks :: "'w net \<Rightarrow> int \<Rightarrow> html list \<Rightarrow> ddg_state \<Rightarrow> ddg_state" where
  "ddg_walk net limit (Element tag as children) s =
     (if int (length (dg_results s)) \<ge> limit then s
      else ddg_walks net limit children (ddg_element net tag as (Element tag as children) s))"
| "ddg_walk net limit (TextNode t) s = s"
| "ddg_walk net limit (OtherNode children) s =
     (if int (length (dg_results s)) \<ge> limit then s else ddg_walks net limit children s)"
| "ddg_walks net limit [] s = s"
| "ddg_walks net limit (n # ns) s = ddg_walks net limit ns (ddg_walk net limit n s)"

definition parseDuckDuckGoHTML :: "'w net \<Rightarrow> string \<Rightarrow> int \<Rightarrow> web_hit list result" where
  "parseDuckDuckGoHTML net body limit0 =
     (let limit = parseWebLimit (int_str limit0) 5 maxWebSearchResults in
      case nt_html net body of
        None \<Rightarrow> Inl (Errorf ''html'')
      | Some doc \<Rightarrow>
          let s = ddg_walk net limit doc \<lparr>dg_results = [], dg_current = None, dg_challenged = False\<rparr>;
              results = dg_results s @ (case dg_current s of
                  None \<Rightarrow> [] | Some c \<Rightarrow> if int (length (dg_results s)) < limit then [c] else []);
              filtered = filter (\<lambda>r. wh_title r \<noteq> [] \<and> wh_url r \<noteq> []) results
          in if dg_challenged s \<and> filtered = [] then Inl ErrSearchProviderChallenge else Inr filtered)"

text \<open>The loop over the results of a JSON answer.\<close>

fun json_hits :: "'w net \<Rightarrow> int \<Rightarrow> web_hit list \<Rightarrow> web_hit list \<Rightarrow> web_hit list" where
  "json_hits net limit acc [] = acc"
| "json_hits net limit acc (r # rs) =
     (let title = trim_space (wh_title r); url = trim_space (wh_url r) in
      if title = [] \<or> \<not> isHTTPResultURL net url then json_hits net limit acc rs
      else let acc1 = acc @ [\<lparr>wh_title = title, wh_url = url, wh_body = trim_space (wh_body r)\<rparr>] in
           if int (length acc1) \<ge> limit then acc1 else json_hits net limit acc1 rs)"

definition DuckDuckGoSearchProvider :: "'w net \<Rightarrow> 'w search_provider" where
  "DuckDuckGoSearchProvider net query limit w =
     named ''duckduckgo''
      (db_bind (parseSafeWebURL net (''https://html.duckduckgo.com/html/?q='' @ nt_query_escape net query) w) (\<lambda>target w1.
       db_bind (new_request net target, w1) (\<lambda>u w2.
       db_bind (safe_get net u w2) (\<lambda>resp w3.
         if hr_status resp \<noteq> 200 then (Inl (Errorf ''search request returned status %d''), w3)
         else (attempt (read_limited maxWebResponseBytes resp) (\<lambda>body. parseDuckDuckGoHTML net body limit), w3)))))"

definition BraveSearchProvider :: "string \<Rightarrow> 'w net \<Rightarrow> 'w search_provider" where
  "BraveSearchProvider key net query limit w =
     named ''brave''
      (if trim_space key = [] then (Inl (Errorf ''brave search api key is required''), w)
       else db_bind (parseSafeWebURL net ''https://api.search.brave.com/res/v1/web/search'' w) (\<lambda>target w1.
         db_bind (new_request net (nt_set_query net [(''q'', query),
             (''count'', int_str (parseWebLimit (int_str limit) 5 maxWebSearchResults))] target), w1) (\<lambda>u w2.
         db_bind (safe_get net u w2) (\<lambda>resp w3.
           if hr_status resp \<noteq> 200 then (Inl (Errorf ''brave search returned status %d''), w3)
           else case nt_brave_json net (take maxWebResponseBytes (hr_body resp)) of
               None \<Rightarrow> (Inl (Errorf ''json''), w3)
             | Some hits \<Rightarrow> (Inr (json_hits net maxWebSearchResults [] hits), w3)))))"

definition searxngSearchURL :: "'w net \<Rightarrow> string \<Rightarrow> web_url result" where
  "searxngSearchURL net baseURL =
     attempt (parseTrustedSearchURL net (if contains_sub baseURL ''://'' then baseURL else ''https://'' @ baseURL))
       (\<lambda>target. let cleanPath = rev (dropWhile (\<lambda>c. c = CHR 0x2F) (rev (wu_path target))) in
         Inr (if cleanPath = [] then target\<lparr>wu_path := ''/search''\<rparr>
              else if \<not> suffix ''/search'' cleanPath then target\<lparr>wu_path := cleanPath @ ''/search''\<rparr>
              else target\<lparr>wu_path := cleanPath\<rparr>))"

definition SearXNGSearchProvider :: "string \<Rightarrow> 'w net \<Rightarrow> 'w search_provider" where
  "SearXNGSearchProvider base net query limit w =
     named ''searxng''
      (if trim_space base = [] then (Inl (Errorf ''searxng base url is required''), w)
       else db_bind (searxngSearchURL net (trim_space base), w) (\<lambda>target w0.
         db_bind (new_request net (nt_set_query net [(''q'', query), (''format'', ''json'')] target), w0) (\<lambda>u w1.
         db_bind (trusted_get net (wu_hostname target) u w1) (\<lambda>resp w2.
           if hr_status resp \<noteq> 200 then (Inl (Errorf ''searxng search returned status %d''), w2)
           else case nt_searxng_json net (take maxWebResponseBytes (hr_body resp)) of
               None \<Rightarrow> (Inl (Errorf ''json''), w2)
             | Some hits \<Rightarrow> (Inr (json_hits net (parseWebLimit (int_str limit) 5 maxWebSearchResults) [] hits), w2)))))"

definition FallbackSearchProvider :: "'w search_provider option \<Rightarrow> 'w search_provider option \<Rightarrow> 'w search_provider" where
  "FallbackSearchProvider primary fallback query limit w =
     (case primary of
        None \<Rightarrow> (case fallback of
            None \<Rightarrow> ((Inl (Errorf ''web search provider is required''), []), w)
          | Some f \<Rightarrow> f query limit w)
      | Some p \<Rightarrow>
          (case p query limit w of
             ((Inr results, name), w1) \<Rightarrow> ((Inr results, name), w1)
           | ((Inl e, name), w1) \<Rightarrow> (case fallback of None \<Rightarrow> ((Inl e, name), w1) | Some f \<Rightarrow> f query limit w1)))"

text \<open>The providers by their configured names, as \<^verbatim>\<open>internal/app/app.go\<close> picks them.\<close>

record search_config =
  sc_provider :: string
  sc_fallback :: string
  sc_brave_key :: string
  sc_searxng_url :: string

definition webSearchProviderByName :: "string \<Rightarrow> search_config \<Rightarrow> 'w net \<Rightarrow> 'w search_provider" where
  "webSearchProviderByName name cfg net =
     (if name = ''brave'' then BraveSearchProvider (sc_brave_key cfg) net
      else if name = ''searxng'' then SearXNGSearchProvider (sc_searxng_url cfg) net
      else DuckDuckGoSearchProvider net)"

definition webSearchProvider :: "search_config \<Rightarrow> 'w net \<Rightarrow> 'w search_provider" where
  "webSearchProvider cfg net =
     (if sc_fallback cfg \<noteq> [] \<and> sc_fallback cfg \<noteq> sc_provider cfg
      then FallbackSearchProvider (Some (webSearchProviderByName (sc_provider cfg) cfg net))
        (Some (webSearchProviderByName (sc_fallback cfg) cfg net))
      else webSearchProviderByName (sc_provider cfg) cfg net)"

definition hit_line :: "nat \<Rightarrow> web_hit \<Rightarrow> string" where
  "hit_line i r = nat_str i @ ''. ['' @ wh_title r @ '']('' @ wh_url r @ '') - '' @ wh_body r @ [CHR 0x0A]"

definition hit_entries :: "nat \<Rightarrow> web_hit \<Rightarrow> gomap" where
  "hit_entries i r = [(''title_'' @ nat_str i, wh_title r), (''url_'' @ nat_str i, wh_url r),
     (''snippet_'' @ nat_str i, wh_body r)]"

definition web_search_execute ::
  "(string \<Rightarrow> string) \<Rightarrow> 'w search_provider \<Rightarrow> request \<Rightarrow> tool_call \<Rightarrow> 'w \<Rightarrow> tool_result result \<times> 'w" where
  "web_search_execute quote search request call w =
     (let query = trim_space (mget (tc_args call) ''query'');
          limit = parseWebLimit (mget (tc_args call) ''limit'') 5 maxWebSearchResults in
      if query = [] then (Inl (Errorf ''search query is required''), w)
      else (case search query limit w of
          ((Inl e, name), w1) \<Rightarrow> (Inl (WebSearchError name e), w1)
        | ((Inr results, name), w1) \<Rightarrow>
            (Inr (if results = []
               then \<lparr>tr_name = ToolWebSearch, tr_summary = ''No search results found for query: '' @ quote query,
                 tr_data = Some [(''count'', ''0''), (''provider'', name)]\<rparr>
               else \<lparr>tr_name = ToolWebSearch,
                 tr_summary = ''Search results for '' @ quote query @ '':'' @ [CHR 0x0A] @
                   concat (map (\<lambda>(i, r). hit_line i r) (zip [1..<Suc (length results)] results)),
                 tr_data = Some (concat (map (\<lambda>(i, r). hit_entries i r) (zip [1..<Suc (length results)] results)) @
                   [(''count'', nat_str (length results)), (''provider'', name)])\<rparr>), w1)))"

definition WebSearchTool :: "(string \<Rightarrow> string) \<Rightarrow> 'w search_provider \<Rightarrow> 'w tool" where
  "WebSearchTool quote search = \<lparr>
     tl_spec = \<lparr>sp_name = ToolWebSearch,
       sp_description = ''Search the web for a query. Arguments: query, limit (optional).'',
       sp_kind = ToolKindRead, sp_capability = ''web.search''\<rparr>,
     tl_execute = web_search_execute quote search\<rparr>"

end
