(* ===== verification/ManifestFetcher.thy ===== *)
theory ManifestFetcher
  imports PluginManifest WebTools
begin

text \<open>
  \<^verbatim>\<open>internal/plugins/fetcher.go\<close>: fetching a manifest from an HTTPS URL or an attachment. A network \<open>'w manifest_net\<close> holds
  what the fetcher uses of \<^verbatim>\<open>net\<close>, \<^verbatim>\<open>net/netip\<close>, \<^verbatim>\<open>net/url\<close> and \<^verbatim>\<open>mime\<close>. The fetcher has the nil client and the limit
  it is built with in \<^verbatim>\<open>internal/app\<close>; every request opens a connection of its own.
\<close>

subsection \<open>Unsafe addresses\<close>

text \<open>An address is the list of its 4 or 16 bytes, without a zone.\<close>

definition unmap :: "ip \<Rightarrow> ip" where
  "unmap a = (case to4 a of Some b \<Rightarrow> b | None \<Rightarrow> a)"

definition isUnsafeManifestAddr :: "ip \<Rightarrow> bool" where
  "isUnsafeManifestAddr a0 \<longleftrightarrow> (let a = unmap a0 in
     IsLoopback a \<or> IsPrivate a \<or> IsLinkLocalUnicast a \<or> IsLinkLocalMulticast a \<or> IsUnspecified a \<or> IsMulticast a)"

text \<open>The address at the other end of a connection: nil, of TCP, or another with its text.\<close>

datatype remote_addr = NoAddr | TcpAddr ip | OtherAddr string

record 'w manifest_net =
  mn_lib :: lib
  mn_url_text :: "url \<Rightarrow> string"
  mn_parse_addr :: "string \<Rightarrow> ip option"
  mn_split_host_port :: "string \<Rightarrow> string option"
  mn_media_type :: "string \<Rightarrow> string option"
  mn_dial :: "url \<Rightarrow> 'w \<Rightarrow> remote_addr result \<times> 'w"
  mn_exchange :: "remote_addr \<Rightarrow> url \<Rightarrow> 'w \<Rightarrow> http_response result \<times> 'w"
  mn_redirect :: "url \<Rightarrow> http_response \<Rightarrow> url option"

definition until_last_percent :: "string \<Rightarrow> string" where
  "until_last_percent host = (case last_index (CHR ''%'') host of None \<Rightarrow> host | Some i \<Rightarrow> take i host)"

definition unsafe_host :: goerror where
  "unsafe_host = Errorf ''%s host must not be localhost, loopback, private, link-local, or unspecified IP''"

definition validatePublicLiteralHost :: "'w manifest_net \<Rightarrow> string \<Rightarrow> unit result" where
  "validatePublicLiteralHost net host0 =
     (let host = trim_space host0 in
      if trim_suffix ''.'' (to_lower host) = ''localhost'' then Inl unsafe_host
      else case mn_parse_addr net (until_last_percent host) of
          None \<Rightarrow> Inr ()
        | Some addr \<Rightarrow> if isUnsafeManifestAddr addr then Inl unsafe_host else Inr ())"

definition unsafe_remote :: goerror where
  "unsafe_remote = Errorf ''manifest URL resolved to localhost, loopback, private, link-local, or unspecified IP''"

definition validatePublicRemoteAddr :: "'w manifest_net \<Rightarrow> remote_addr \<Rightarrow> unit result" where
  "validatePublicRemoteAddr net remote =
     (case remote of
        NoAddr \<Rightarrow> Inl (Errorf ''manifest URL resolved address could not be verified'')
      | TcpAddr ip \<Rightarrow>
          if length ip \<noteq> 4 \<and> length ip \<noteq> 16 \<or> isUnsafeManifestAddr ip then Inl unsafe_remote else Inr ()
      | OtherAddr text \<Rightarrow>
          (case mn_parse_addr net (case mn_split_host_port net text of None \<Rightarrow> text | Some host \<Rightarrow> host) of
             None \<Rightarrow> Inl unsafe_remote
           | Some addr \<Rightarrow> if isUnsafeManifestAddr addr then Inl unsafe_remote else Inr ()))"

subsection \<open>URLs and attachments\<close>

definition validateJSONContentType :: "'w manifest_net \<Rightarrow> string \<Rightarrow> unit result" where
  "validateJSONContentType net value0 =
     (let value = trim_space value0 in
      if value = [] then Inr ()
      else case mn_media_type net value of
          None \<Rightarrow> Inl (Errorf ''%s must be JSON'')
        | Some m0 \<Rightarrow>
            (let m = to_lower m0 in
             must (m = ''application/json'' \<or> m = ''text/json'' \<or> suffix ''+json'' m) ''%s must be JSON''))"

record attachment_source =
  at_id :: string
  at_url :: string
  at_filename :: string
  at_content_type :: string
  at_size :: int

definition validateAttachmentSource :: "'w manifest_net \<Rightarrow> attachment_source \<Rightarrow> int \<Rightarrow> unit result" where
  "validateAttachmentSource net a maxBytes =
     (if trim_space (at_url a) = [] then Inl (Errorf ''attachment URL is required'')
      else case lb_url (mn_lib net) (trim_space (at_url a)) of
          None \<Rightarrow> Inl (Errorf ''attachment URL must be HTTPS'')
        | Some parsed \<Rightarrow> checks
            [must (ur_scheme parsed = ''https'' \<and> ur_host parsed \<noteq> []) ''attachment URL must be HTTPS'',
             must (\<not> ur_has_user parsed) ''attachment URL must not include user info'',
             validateJSONContentType net (at_content_type a),
             must (\<not> (at_size a > 0 \<and> at_size a > maxBytes)) ''manifest exceeds %d byte limit'',
             must (suffix ''.json'' (to_lower (trim_space (at_filename a)))) ''manifest attachment must be a JSON file''])"

definition validateFetchAttachmentURL :: "'w manifest_net \<Rightarrow> string \<Rightarrow> unit result" where
  "validateFetchAttachmentURL net value0 =
     (let value = trim_space value0 in
      if value = [] then Inl (Errorf ''attachment URL is required'')
      else case lb_url (mn_lib net) value of
          None \<Rightarrow> Inl (Errorf ''attachment URL must be an HTTPS URL'')
        | Some parsed \<Rightarrow> checks
            [must (ur_scheme parsed = ''https'' \<and> ur_host parsed \<noteq> []) ''attachment URL must be an HTTPS URL'',
             must (\<not> ur_has_user parsed \<and> ur_fragment parsed = []) ''attachment URL must not include user info or fragment'',
             validatePublicLiteralHost net (ur_hostname parsed)])"

definition validateFetchManifestURL :: "'w manifest_net \<Rightarrow> string \<Rightarrow> unit result" where
  "validateFetchManifestURL net value =
     attempt (validateManifestURL (mn_lib net) value) (\<lambda>_.
       case lb_url (mn_lib net) (trim_space value) of
         None \<Rightarrow> Inl (Errorf ''manifest URL must be an HTTPS URL'')
       | Some parsed \<Rightarrow> validatePublicLiteralHost net (ur_hostname parsed))"

subsection \<open>Fetching\<close>

text \<open>\<^verbatim>\<open>safeManifestTransport\<close>: a connection is given up when the address at its other end is unsafe.\<close>

definition manifest_send :: "'w manifest_net \<Rightarrow> url \<Rightarrow> 'w \<Rightarrow> http_response result \<times> 'w" where
  "manifest_send net u w =
     db_bind (mn_dial net u w) (\<lambda>remote w1.
       case validatePublicRemoteAddr net remote of
         Inl e \<Rightarrow> (Inl e, w1)
       | Inr _ \<Rightarrow> mn_exchange net remote u w1)"

text \<open>\<^verbatim>\<open>http.Client.Do\<close> with the redirect check of \<^verbatim>\<open>client\<close>; \<open>via\<close> requests went before.\<close>

function follow_manifest :: "'w manifest_net \<Rightarrow> (string \<Rightarrow> unit result) \<Rightarrow> nat \<Rightarrow> url \<Rightarrow> 'w \<Rightarrow> http_response result \<times> 'w" where
  "follow_manifest net check via u w =
     (case manifest_send net u w of
        (Inl e, w1) \<Rightarrow> (Inl e, w1)
      | (Inr resp, w1) \<Rightarrow>
          (case mn_redirect net u resp of
             None \<Rightarrow> (Inr resp, w1)
           | Some u' \<Rightarrow>
               (case check (mn_url_text net u') of
                  Inl e \<Rightarrow> (Inl (Wrap ''redirect target rejected'' e), w1)
                | Inr _ \<Rightarrow>
                    if via + 1 \<ge> 10 then (Inl (Errorf ''stopped after 10 redirects''), w1)
                    else follow_manifest net check (via + 1) u' w1)))"
  by pat_completeness auto
termination
  by (relation "measure (\<lambda>(net, check, via, u, w). 10 - via)") auto

declare follow_manifest.simps [simp del]

definition fetchBytes ::
  "'w manifest_net \<Rightarrow> string \<Rightarrow> nat \<Rightarrow> (string \<Rightarrow> unit result) \<Rightarrow> bool \<Rightarrow> 'w \<Rightarrow> string result \<times> 'w" where
  "fetchBytes net sourceURL maxBytes check requireJSON w =
     (case lb_url (mn_lib net) sourceURL of
        None \<Rightarrow> (Inl (Wrap ''create manifest request'' (Errorf ''parse'')), w)
      | Some u \<Rightarrow>
          db_bind (wrap_err ''fetch manifest'' (follow_manifest net check 0 u w)) (\<lambda>resp w1.
            if hr_status resp < 200 \<or> hr_status resp \<ge> 300 then (Inl (Errorf ''manifest URL returned status %d''), w1)
            else (attempt (if requireJSON then validateJSONContentType net (hr_content_type resp) else Inr ()) (\<lambda>_.
              case read_limited (maxBytes + 1) resp of
                Inl e \<Rightarrow> Inl (Wrap ''read manifest'' e)
              | Inr body \<Rightarrow> require (length body \<le> maxBytes) ''manifest exceeds %d byte limit'' (Inr body)), w1)))"

definition Fetch :: "'w manifest_net \<Rightarrow> string \<Rightarrow> 'w \<Rightarrow> manifest result \<times> 'w" where
  "Fetch net manifestURL0 w =
     (let manifestURL = trim_space manifestURL0 in
      case validateFetchManifestURL net manifestURL of
        Inl e \<Rightarrow> (Inl e, w)
      | Inr _ \<Rightarrow>
          db_bind (fetchBytes net manifestURL maxManifestBytes (validateFetchManifestURL net) True w) (\<lambda>body w1.
            (DecodeManifestFromURL (mn_lib net) body manifestURL, w1)))"

definition FetchAttachment :: "'w manifest_net \<Rightarrow> attachment_source \<Rightarrow> 'w \<Rightarrow> manifest result \<times> 'w" where
  "FetchAttachment net a w =
     (case validateAttachmentSource net a (int maxManifestBytes) of
        Inl e \<Rightarrow> (Inl e, w)
      | Inr _ \<Rightarrow>
          db_bind (fetchBytes net (trim_space (at_url a)) maxManifestBytes (validateFetchAttachmentURL net) False w) (\<lambda>body w1.
            (DecodeManifestFromAttachment (mn_lib net) body, w1)))"

end
