(* ===== verification/WebSafety.thy ===== *)
theory WebSafety
  imports WebTools
begin

text \<open>
  What the web tools may reach. \<open>watched\<close> keeps the list of the connections a network opens, so that the lemmas below are
  about every network: the addresses the screen lets pass are the public ones, a redirect is followed only to a URL that
  was checked, and at most five requests answer one.
\<close>

subsection \<open>The addresses that are blocked\<close>

definition ipv4_value :: "8 word \<Rightarrow> 8 word \<Rightarrow> 8 word \<Rightarrow> 8 word \<Rightarrow> nat" where
  "ipv4_value a b c d = 16777216 * unat a + 65536 * unat b + 256 * unat c + unat d"

text \<open>Networks in CIDR form: the four bytes of the base and the length of the prefix.\<close>

definition in_cidr :: "nat \<Rightarrow> nat \<times> nat \<times> nat \<times> nat \<times> nat \<Rightarrow> bool" where
  "in_cidr v net = (case net of (a, b, c, d, len) \<Rightarrow>
     v div 2 ^ (32 - len) = (16777216 * a + 65536 * b + 256 * c + d) div 2 ^ (32 - len))"

definition blocked_networks :: "(nat \<times> nat \<times> nat \<times> nat \<times> nat) list" where
  "blocked_networks = [(127, 0, 0, 0, 8), (10, 0, 0, 0, 8), (172, 16, 0, 0, 12), (192, 168, 0, 0, 16),
     (169, 254, 0, 0, 16), (224, 0, 0, 0, 4), (0, 0, 0, 0, 32)]"

lemma byte_less [simp]: "unat (a :: 8 word) < 256"
proof -
  have "unat a < 2 ^ LENGTH(8)" by (rule unsigned_less)
  then show ?thesis by simp
qed

lemma high_nibble:
  fixes a :: "8 word"
  shows "a AND 0xF0 = push_bit 4 (drop_bit 4 a)"
proof -
  have "(0xF0 :: 8 word) = push_bit 4 (mask 4)" by (simp add: mask_eq_exp_minus_1 push_bit_eq_mult)
  then show ?thesis by (simp add: bit_eq_iff bit_simps) auto
qed

lemma unat_high_nibble: "unat ((a :: 8 word) AND 0xF0) = 16 * (unat a div 16)"
proof -
  have "unat a div 16 < 16" using byte_less [of a] by (simp add: less_mult_imp_div_less)
  moreover have "unat (a AND 0xF0) = take_bit LENGTH(8) (push_bit 4 (drop_bit 4 (unat a)))"
    unfolding high_nibble unsigned_push_bit_eq unsigned_drop_bit_eq by (simp add: take_bit_eq_mod)
  ultimately show ?thesis by (simp add: push_bit_eq_mult drop_bit_eq_div take_bit_eq_mod)
qed

lemma byte_eq: "(a :: 8 word) = b \<longleftrightarrow> unat a = unat b"
  by (simp add: word_unat_eq_iff)

lemma high_nibble_16: "(a :: 8 word) AND 0xF0 = 16 \<longleftrightarrow> unat a div 16 = 1"
  by (simp add: byte_eq unat_high_nibble)

lemma high_nibble_224: "(a :: 8 word) AND 0xF0 = 0xE0 \<longleftrightarrow> unat a div 16 = 14"
  by (simp add: byte_eq unat_high_nibble)

lemma to4_forms [simp]:
  "to4 [a, b, c, d] = Some [a, b, c, d]"
  "to4 (replicate 10 0 @ [0xFF, 0xFF, a, b, c, d]) = Some [a, b, c, d]"
  by (simp_all add: to4_def numeral_eq_Suc)

lemma blocked_by_bytes:
  fixes a b c d :: "8 word"
  shows "isBlockedIP [a, b, c, d] \<longleftrightarrow> unat a = 127 \<or> unat a = 10 \<or> (unat a = 172 \<and> unat b div 16 = 1) \<or>
      (unat a = 192 \<and> unat b = 168) \<or> (unat a = 169 \<and> unat b = 254) \<or> unat a div 16 = 14 \<or>
      (unat a = 0 \<and> unat b = 0 \<and> unat c = 0 \<and> unat d = 0)"
proof -
  have z: "replicate 4 (0 :: 8 word) = [0, 0, 0, 0]" by (simp add: numeral_eq_Suc)
  have "IsLoopback [a, b, c, d] \<longleftrightarrow> unat a = 127" by (simp add: IsLoopback_def byte_eq)
  moreover have "IsPrivate [a, b, c, d] \<longleftrightarrow> unat a = 10 \<or> (unat a = 172 \<and> unat b div 16 = 1) \<or>
      (unat a = 192 \<and> unat b = 168)" by (simp add: IsPrivate_def byte_eq unat_high_nibble)
  moreover have "IsLinkLocalUnicast [a, b, c, d] \<longleftrightarrow> unat a = 169 \<and> unat b = 254"
    by (simp add: IsLinkLocalUnicast_def byte_eq)
  moreover have "IsLinkLocalMulticast [a, b, c, d] \<longleftrightarrow> unat a = 224 \<and> unat b = 0 \<and> unat c = 0"
    by (simp add: IsLinkLocalMulticast_def byte_eq)
  moreover have "IsMulticast [a, b, c, d] \<longleftrightarrow> unat a div 16 = 14" by (simp add: IsMulticast_def high_nibble_224)
  moreover have "IsUnspecified [a, b, c, d] \<longleftrightarrow> unat a = 0 \<and> unat b = 0 \<and> unat c = 0 \<and> unat d = 0"
    by (simp add: IsUnspecified_def z byte_eq)
  moreover have "unat a = 224 \<Longrightarrow> unat a div 16 = 14" by simp
  ultimately show ?thesis unfolding isBlockedIP_def by blast
qed

text \<open>The leading digits of a number in base 256.\<close>

lemma base_256:
  fixes a b c d :: nat
  assumes "b < 256" "c < 256" "d < 256"
  shows "(16777216 * a + 65536 * b + 256 * c + d) div 16777216 = a"
    "(16777216 * a + 65536 * b + 256 * c + d) div 65536 = 256 * a + b"
    "(16777216 * a + 65536 * b + 256 * c + d) div 1048576 = 16 * a + b div 16"
    "(16777216 * a + 65536 * b + 256 * c + d) div 268435456 = a div 16"
proof -
  let ?v = "16777216 * a + 65536 * b + 256 * c + d"
  show *: "?v div 16777216 = a" using assms by (intro div_nat_eqI) simp_all
  show **: "?v div 65536 = 256 * a + b" using assms by (intro div_nat_eqI) simp_all
  have "?v div 268435456 = ?v div 16777216 div 16" by (simp add: div_mult2_eq [symmetric])
  then show "?v div 268435456 = a div 16" by (simp only: *)
  have "?v div 1048576 = ?v div 65536 div 16" by (simp add: div_mult2_eq [symmetric])
  also have "\<dots> = (16 * a * 16 + b) div 16" by (simp add: **)
  also have "\<dots> = 16 * a + b div 16" by simp
  finally show "?v div 1048576 = 16 * a + b div 16" .
qed

lemma digits_eq: "b < k \<Longrightarrow> k * a + b = n \<longleftrightarrow> a = n div k \<and> b = n mod (k :: nat)"
  by (metis div_less div_mult_self4 mod_less mod_mult_self4 mult_div_mod_eq add.right_neutral less_nat_zero_code)

lemma blocked_by_networks:
  fixes a b c d :: "8 word"
  shows "list_ex (in_cidr (ipv4_value a b c d)) blocked_networks \<longleftrightarrow>
      unat a = 127 \<or> unat a = 10 \<or> (unat a = 172 \<and> unat b div 16 = 1) \<or>
      (unat a = 192 \<and> unat b = 168) \<or> (unat a = 169 \<and> unat b = 254) \<or> unat a div 16 = 14 \<or>
      (unat a = 0 \<and> unat b = 0 \<and> unat c = 0 \<and> unat d = 0)"
proof -
  have lt: "unat b div 16 < 16" "unat b < 256" by (simp_all add: less_mult_imp_div_less)
  note v = base_256 [of "unat b" "unat c" "unat d" "unat a", folded ipv4_value_def, OF byte_less byte_less byte_less]
  have z: "ipv4_value a b c d = 0 \<longleftrightarrow> unat a = 0 \<and> unat b = 0 \<and> unat c = 0 \<and> unat d = 0"
    by (auto simp: ipv4_value_def)
  have m1: "16 * unat a + unat b div 16 = 2753 \<longleftrightarrow> unat a = 172 \<and> unat b div 16 = 1"
    using digits_eq [of "unat b div 16" 16 "unat a" 2753] lt by simp
  have m2: "256 * unat a + unat b = 49320 \<longleftrightarrow> unat a = 192 \<and> unat b = 168"
    using digits_eq [of "unat b" 256 "unat a" 49320] lt by simp
  have m3: "256 * unat a + unat b = 43518 \<longleftrightarrow> unat a = 169 \<and> unat b = 254"
    using digits_eq [of "unat b" 256 "unat a" 43518] lt by simp
  show ?thesis
    unfolding blocked_networks_def in_cidr_def by (simp add: v z m1 m2 m3)
qed

text \<open>C33: an IPv4 address is blocked, in its own four bytes and in its IPv6 form alike, exactly when its 32-bit value is in one
  of 127.0.0.0/8, 10.0.0.0/8, 172.16.0.0/12, 192.168.0.0/16, 169.254.0.0/16, 224.0.0.0/4 and 0.0.0.0/32.\<close>

theorem blocked_ipv4_are_these_networks:
  "isBlockedIP [a, b, c, d] = list_ex (in_cidr (ipv4_value a b c d)) blocked_networks \<and>
   isBlockedIP (replicate 10 0 @ [0xFF, 0xFF, a, b, c, d]) = isBlockedIP [a, b, c, d]"
proof
  show "isBlockedIP [a, b, c, d] = list_ex (in_cidr (ipv4_value a b c d)) blocked_networks"
    by (simp only: blocked_by_bytes blocked_by_networks)
  show "isBlockedIP (replicate 10 0 @ [0xFF, 0xFF, a, b, c, d]) = isBlockedIP [a, b, c, d]"
    unfolding isBlockedIP_def IsLoopback_def IsPrivate_def IsLinkLocalUnicast_def IsLinkLocalMulticast_def
      IsMulticast_def IsUnspecified_def by simp
qed

subsection \<open>The connections a network opens\<close>

datatype connection = Dialled ip web_url | Direct web_url

type_synonym 'w log = "'w \<times> connection list"

definition watched :: "'w net \<Rightarrow> 'w log net" where
  "watched net = \<lparr>
     nt_parse_url = nt_parse_url net, nt_url_text = nt_url_text net, nt_parse_ip = nt_parse_ip net,
     nt_lookup = (\<lambda>host s. case nt_lookup net host (fst s) of (r, w) \<Rightarrow> (r, (w, snd s))),
     nt_exchange = (\<lambda>ip u s. case nt_exchange net ip u (fst s) of (r, w) \<Rightarrow> (r, (w, snd s @ [Dialled ip u]))),
     nt_direct = (\<lambda>u s. case nt_direct net u (fst s) of (r, w) \<Rightarrow> (r, (w, snd s @ [Direct u]))),
     nt_redirect = nt_redirect net, nt_query_escape = nt_query_escape net, nt_set_query = nt_set_query net,
     nt_query_get = nt_query_get net, nt_html = nt_html net, nt_media_type = nt_media_type net,
     nt_brave_json = nt_brave_json net, nt_searxng_json = nt_searxng_json net\<rparr>"

text \<open>\<open>opens n ok s s'\<close>: from \<open>s\<close> to \<open>s'\<close> at most \<open>n\<close> connections were opened, all of them \<open>ok\<close>.\<close>

definition opens :: "nat \<Rightarrow> (connection \<Rightarrow> bool) \<Rightarrow> 'w log \<Rightarrow> 'w log \<Rightarrow> bool" where
  "opens n ok s s' \<longleftrightarrow> (\<exists>new. snd s' = snd s @ new \<and> length new \<le> n \<and> list_all ok new)"

lemma opens_refl [simp, intro]: "opens n ok s s"
  by (simp add: opens_def)

lemma opens_trans: "opens m ok s s1 \<Longrightarrow> opens n ok s1 s2 \<Longrightarrow> m + n \<le> k \<Longrightarrow> opens k ok s s2"
  unfolding opens_def by (elim exE conjE) (rule exI [where x = "new @ newa" for new newa], auto)

lemma opens_le: "opens m ok s s' \<Longrightarrow> m \<le> n \<Longrightarrow> opens n ok s s'"
  by (auto simp: opens_def)

lemma opens_mono: "opens n ok s s' \<Longrightarrow> (\<And>c. ok c \<Longrightarrow> ok' c) \<Longrightarrow> opens n ok' s s'"
  by (auto simp: opens_def list_all_iff)

lemma opens_bind:
  assumes "opens m ok s (snd r)" "\<And>y. fst r = Inr y \<Longrightarrow> opens n ok (snd r) (snd (f y (snd r)))" "m + n \<le> k"
  shows "opens k ok s (snd (db_bind r f))"
  using assms by (cases r; cases "fst r") (auto simp: db_bind_def intro: opens_trans opens_le)

text \<open>What opens nothing may come first or last.\<close>

lemma opens_quiet_first:
  assumes "opens 0 ok s (snd r)" "\<And>y. fst r = Inr y \<Longrightarrow> opens n ok (snd r) (snd (f y (snd r)))"
  shows "opens n ok s (snd (db_bind r f))"
  by (rule opens_bind [where m = 0 and n = n]) (simp_all add: assms)

lemma opens_quiet_rest:
  assumes "opens n ok s (snd r)" "\<And>y w. opens 0 ok w (snd (f y w))"
  shows "opens n ok s (snd (db_bind r f))"
  by (rule opens_bind [where m = n and n = 0]) (simp_all add: assms)

lemma opens_wrap [simp]: "opens n ok s (snd (wrap_err m r)) \<longleftrightarrow> opens n ok s (snd r)"
  by (cases r; cases "fst r") (auto simp: wrap_err_def)

lemma fst_wrap_Inr [simp]: "fst (wrap_err m r) = Inr x \<longleftrightarrow> fst r = Inr x"
  by (cases r; cases "fst r") (auto simp: wrap_err_def)

lemma watched_pure [simp]:
  "nt_parse_url (watched net) = nt_parse_url net" "nt_url_text (watched net) = nt_url_text net"
  "nt_redirect (watched net) = nt_redirect net" "nt_set_query (watched net) = nt_set_query net"
  by (simp_all add: watched_def)

lemma opens_lookup [simp]: "opens n ok s (snd (nt_lookup (watched net) host s))"
  by (simp add: watched_def opens_def split: prod.split)

lemma opens_exchange: "ok (Dialled ip u) \<Longrightarrow> opens (Suc 0) ok s (snd (nt_exchange (watched net) ip u s))"
  by (simp add: watched_def opens_def split: prod.split)

lemma opens_direct: "ok (Direct u) \<Longrightarrow> opens (Suc 0) ok s (snd (nt_direct (watched net) u s))"
  by (simp add: watched_def opens_def split: prod.split)

lemma opens_validate [simp]: "opens n ok s (snd (validatePublicHost (watched net) host s))"
proof -
  have "opens 0 ok s (snd (validatePublicHost (watched net) host s))"
    by (auto simp: validatePublicHost_def Let_def split: option.split intro!: opens_quiet_first)
  then show ?thesis by (rule opens_le) simp
qed

lemma opens_parse_safe [simp]: "opens n ok s (snd (parseSafeWebURL (watched net) raw s))"
proof -
  have "opens 0 ok s (snd (parseSafeWebURL (watched net) raw s))"
    by (auto simp: parseSafeWebURL_def split: option.split sum.split intro!: opens_quiet_first)
  then show ?thesis by (rule opens_le) simp
qed

text \<open>A connection the screen made: to an address that is not blocked.\<close>

definition screened :: "connection \<Rightarrow> bool" where
  "screened c = (case c of Dialled ip u \<Rightarrow> \<not> isBlockedIP ip | Direct u \<Rightarrow> False)"

lemma opens_safe_dial: "opens (Suc 0) screened s (snd (safe_dial (watched net) u s))"
  unfolding safe_dial_def
proof (rule opens_bind [where m = 0 and n = "Suc 0"], simp, rule opens_bind [where m = 0 and n = "Suc 0"], simp)
  fix ips s2
  show "opens (Suc 0) screened s2 (snd (case find (\<lambda>ip. \<not> isBlockedIP ip) ips of
      None \<Rightarrow> (Inl blocked_host, s2) | Some ip \<Rightarrow> nt_exchange (watched net) ip u s2))"
    by (auto simp: screened_def find_Some_iff split: option.split intro!: opens_exchange)
qed simp_all

subsection \<open>Following redirects\<close>

text \<open>
  A client that follows redirects on a watched network: a URL that is \<open>fit\<close> is sent over at most one connection, an \<open>ok\<close>
  one, and the check of a redirect opens none and lets only fit URLs pass.
\<close>

locale redirect_client =
  fixes net :: "'w log net"
    and send :: "web_url \<Rightarrow> 'w log \<Rightarrow> http_response result \<times> 'w log"
    and check :: "web_url \<Rightarrow> 'w log \<Rightarrow> unit result \<times> 'w log"
    and fit :: "web_url \<Rightarrow> bool"
    and ok :: "connection \<Rightarrow> bool"
  assumes sends: "fit u \<Longrightarrow> opens (Suc 0) ok s (snd (send u s))"
    and checks_quietly: "opens 0 ok s (snd (check u s))"
    and passes: "fst (check u s) = Inr x \<Longrightarrow> fit u"
begin

lemma follow_opens: "fit u \<Longrightarrow> via < 5 \<Longrightarrow> opens (5 - via) ok s (snd (follow net send check via u s))"
proof (induction "5 - via" arbitrary: via u s)
  case (Suc n)
  obtain r s1 where sent: "send u s = (r, s1)" by (meson surj_pair)
  have s1: "opens (Suc 0) ok s s1" using sends [OF Suc.prems(1), of s] sent by simp
  then have s1': "opens (5 - via) ok s s1" using Suc.prems(2) by (auto intro: opens_le)
  note unfolded = follow.simps [of net send check via u s] sent
  show ?case
  proof (cases "\<exists>resp u'. r = Inr resp \<and> nt_redirect net u resp = Some u' \<and> via + 1 < 5")
    case True
    then obtain resp u' where r: "r = Inr resp" "nt_redirect net u resp = Some u'" "via + 1 < 5" by blast
    obtain c s2 where c: "check u' s1 = (c, s2)" by (meson surj_pair)
    have s2: "opens (Suc 0) ok s s2" using opens_trans [OF s1 checks_quietly [of s1 u']] c by simp
    show ?thesis
    proof (cases c)
      case (Inl e)
      then show ?thesis using unfolded r c s2 Suc.prems(2) by (auto intro: opens_le)
    next
      case (Inr x)
      have "opens (5 - (via + 1)) ok s2 (snd (follow net send check (via + 1) u' s2))"
        using Suc.hyps(1) [of "via + 1" u' s2] Suc.hyps(2) r(3) passes [of u' s1 x] c Inr by simp
      then have "opens (5 - via) ok s (snd (follow net send check (via + 1) u' s2))"
        by (rule opens_trans [OF s2]) (use r(3) in simp)
      then show ?thesis using unfolded r c Inr by simp
    qed
  next
    case False
    then show ?thesis using s1' unfolded by (auto split: sum.split option.split)
  qed
qed simp

end

interpretation safe_client: redirect_client "watched net" "safe_dial (watched net)" "check_safe_redirect (watched net)"
    "\<lambda>u. True" screened for net :: "'w net"
  by unfold_locales
    (auto simp: check_safe_redirect_def opens_safe_dial intro!: opens_quiet_first)

lemma opens_safe_get: "opens 5 screened s (snd (safe_get (watched net) u s))"
  using safe_client.follow_opens [of 0] by (simp add: safe_get_def)

lemma opens_web_fetch: "opens 5 screened s (snd (web_fetch (watched net) u s))"
  unfolding web_fetch_def
  by (rule opens_quiet_first, simp, rule opens_quiet_rest) (simp_all add: opens_safe_get)

lemma opens_web_fetch_execute: "opens 5 screened s (snd (web_fetch_execute (watched net) request call s))"
proof -
  have *: "opens 5 screened s (snd (db_bind (wrap_err m (parseSafeWebURL (watched net) url s)) (\<lambda>target w1.
      db_bind (wrap_err m (web_fetch (watched net) target w1)) (\<lambda>(text, cut) w2. (result target text cut, w2)))))"
    for m url result
    by (rule opens_quiet_first, simp, rule opens_quiet_rest) (simp_all add: opens_web_fetch split: prod.split)
  show ?thesis
    unfolding web_fetch_execute_def Let_def by (simp add: *)
qed

text \<open>C32: whatever the resolver, the servers and their redirects answer, and however the name resolution changes between the
  check and the connection, fetching a page opens at most five connections, each of them dialled to an address that is not
  blocked.\<close>

theorem fetch_reaches_public_addresses_only:
  "\<exists>opened. snd (snd (web_fetch_execute (watched net) request call (w, past))) = past @ opened \<and>
     length opened \<le> 5 \<and> list_all screened opened"
  using opens_web_fetch_execute [of "(w, past)" net request call] by (simp add: opens_def)

subsection \<open>Searching\<close>

text \<open>The SearXNG client is for one host, that of the configured URL.\<close>

definition on_host :: "string \<Rightarrow> connection \<Rightarrow> bool" where
  "on_host host c = (case c of Dialled ip u \<Rightarrow> False | Direct u \<Rightarrow> equal_fold (wu_hostname u) host)"

interpretation trusted_client: redirect_client "watched net" "nt_direct (watched net)"
    "check_trusted_redirect (watched net) host" "\<lambda>u. equal_fold (wu_hostname u) host" "on_host host"
  for net :: "'w net" and host
  by unfold_locales (auto simp: check_trusted_redirect_def attempt_def must_def on_host_def
      intro: opens_direct split: sum.splits if_splits)

lemma opens_trusted_get:
  "equal_fold (wu_hostname u) host \<Longrightarrow> opens 5 (on_host host) s (snd (trusted_get (watched net) host u s))"
  using trusted_client.follow_opens [of u host 0] by (simp add: trusted_get_def)

lemma opens_named [simp]: "opens n ok s (snd (named name r)) \<longleftrightarrow> opens n ok s (snd r)"
  by (simp add: named_def)

text \<open>What a search may connect to: an address that passed the screen, or the host of the configured SearXNG URL.\<close>

definition searchable :: "'w net \<Rightarrow> search_config \<Rightarrow> connection \<Rightarrow> bool" where
  "searchable net cfg c \<longleftrightarrow> screened c \<or>
     (case searxngSearchURL net (trim_space (sc_searxng_url cfg)) of
        Inl e \<Rightarrow> False | Inr target \<Rightarrow> on_host (wu_hostname target) c)"

lemma opens_duckduckgo: "opens 5 screened s (snd (DuckDuckGoSearchProvider (watched net) query limit s))"
  unfolding DuckDuckGoSearchProvider_def opens_named
  by (rule opens_quiet_first, simp, rule opens_quiet_first, simp, rule opens_quiet_rest)
    (simp_all add: opens_safe_get)

lemma opens_brave: "opens 5 screened s (snd (BraveSearchProvider key (watched net) query limit s))"
proof (cases "trim_space key = []")
  case True
  then show ?thesis by (simp add: BraveSearchProvider_def)
next
  case False
  then show ?thesis
    unfolding BraveSearchProvider_def opens_named if_not_P [OF False]
    by - (rule opens_quiet_first, simp, rule opens_quiet_first, simp, rule opens_quiet_rest,
      simp_all add: opens_safe_get split: option.split)
qed

lemma searxngSearchURL_watched [simp]: "searxngSearchURL (watched net) base = searxngSearchURL net base"
  by (simp add: searxngSearchURL_def parseTrustedSearchURL_def)

lemma new_request_watched [simp]: "new_request (watched net) u = new_request net u"
  by (simp add: new_request_def)

lemma opens_searxng:
  assumes "\<And>target q u. searxngSearchURL net (trim_space base) = Inr target \<Longrightarrow>
      new_request net (nt_set_query net q target) = Inr u \<Longrightarrow> wu_hostname u = wu_hostname target"
  shows "opens 5 (\<lambda>c. \<exists>target. searxngSearchURL net (trim_space base) = Inr target \<and> on_host (wu_hostname target) c) s
    (snd (SearXNGSearchProvider base (watched net) query limit s))" (is "opens 5 ?ok s _")
proof (cases "trim_space base = []")
  case True
  then show ?thesis by (simp add: SearXNGSearchProvider_def)
next
  case False
  have "opens 5 ?ok w (snd (trusted_get (watched net) (wu_hostname target) u w))"
    if "searxngSearchURL net (trim_space base) = Inr target" "new_request net (nt_set_query net q target) = Inr u"
    for target q u w
    by (rule opens_mono [OF opens_trusted_get]) (use that assms [OF that] in auto)
  then show ?thesis
    unfolding SearXNGSearchProvider_def opens_named if_not_P [OF False]
    by - (rule opens_quiet_first, simp, rule opens_quiet_first, simp, rule opens_quiet_rest,
      simp_all split: option.split)
qed

lemma opens_by_name:
  assumes "\<And>target q u. searxngSearchURL net (trim_space (sc_searxng_url cfg)) = Inr target \<Longrightarrow>
      new_request net (nt_set_query net q target) = Inr u \<Longrightarrow> wu_hostname u = wu_hostname target"
  shows "opens 5 (searchable net cfg) s (snd (webSearchProviderByName name cfg (watched net) query limit s))"
proof -
  note searxng = opens_mono [OF opens_searxng [OF assms], where ok' = "searchable net cfg"]
  show ?thesis
    by (auto simp: webSearchProviderByName_def searchable_def intro!: searxng
        intro: opens_mono [OF opens_brave] opens_mono [OF opens_duckduckgo])
qed

lemma searxng_keeps_host:
  assumes keeps: "\<And>raw u p q v. nt_parse_url net raw = Some u \<Longrightarrow>
      nt_parse_url net (nt_url_text net (nt_set_query net q (u\<lparr>wu_path := p\<rparr>))) = Some v \<Longrightarrow> wu_hostname v = wu_hostname u"
    and "searxngSearchURL net base = Inr target" "new_request net (nt_set_query net q target) = Inr u"
  shows "wu_hostname u = wu_hostname target"
proof -
  obtain raw parsed p where "nt_parse_url net raw = Some parsed" "target = parsed\<lparr>wu_path := p\<rparr>"
    using assms(2) by (auto simp: searxngSearchURL_def parseTrustedSearchURL_def attempt_def Let_def
        split: sum.splits option.splits if_splits)
  then show ?thesis
    using assms(3) keeps [of raw parsed q p] by (auto simp: new_request_def split: option.splits)
qed

lemma web_search_world:
  "snd (web_search_execute quote search request call s) =
     (if trim_space (mget (tc_args call) ''query'') = [] then s
      else snd (search (trim_space (mget (tc_args call) ''query''))
        (parseWebLimit (mget (tc_args call) ''limit'') 5 maxWebSearchResults) s))"
  by (simp add: web_search_execute_def Let_def split: prod.split sum.split)

text \<open>A search with the configured provider and its fallback opens at most ten connections, each to an address that is
  not blocked or to the host of the configured SearXNG URL, wherever redirects lead. The hypothesis is what \<^verbatim>\<open>net/url\<close>
  documents of a parsed URL: with another path and query, written out and parsed again, its host is the same.\<close>

theorem search_reaches_public_or_configured_hosts:
  assumes keeps_host: "\<And>raw u p q v. nt_parse_url net raw = Some u \<Longrightarrow>
      nt_parse_url net (nt_url_text net (nt_set_query net q (u\<lparr>wu_path := p\<rparr>))) = Some v \<Longrightarrow> wu_hostname v = wu_hostname u"
  shows "\<exists>opened. snd (snd (web_search_execute quote (webSearchProvider cfg (watched net)) request call (w, past))) =
      past @ opened \<and> length opened \<le> 10 \<and> list_all (searchable net cfg) opened"
proof -
  have single: "opens 5 (searchable net cfg) s (snd (webSearchProviderByName name cfg (watched net) query limit s))"
    for s name query limit
    by (rule opens_by_name) (rule searxng_keeps_host [OF keeps_host])
  have "opens 10 (searchable net cfg) s (snd (webSearchProvider cfg (watched net) query limit s))" for s query limit
  proof (cases "sc_fallback cfg \<noteq> [] \<and> sc_fallback cfg \<noteq> sc_provider cfg")
    case True
    obtain r name s1 where first: "webSearchProviderByName (sc_provider cfg) cfg (watched net) query limit s = ((r, name), s1)"
      by (metis surj_pair)
    have "opens 5 (searchable net cfg) s s1" using single [of s "sc_provider cfg" query limit] first by simp
    then show ?thesis
      using True first single [of s1 "sc_fallback cfg" query limit]
      by (cases r) (auto simp: webSearchProvider_def FallbackSearchProvider_def intro: opens_le opens_trans)
  next
    case False
    then show ?thesis
      using single [of s "sc_provider cfg" query limit] by (auto simp: webSearchProvider_def intro: opens_le)
  qed
  then have "opens 10 (searchable net cfg) (w, past)
      (snd (web_search_execute quote (webSearchProvider cfg (watched net)) request call (w, past)))"
    by (simp add: web_search_world)
  then show ?thesis by (simp add: opens_def)
qed

subsection \<open>Redirects end\<close>

lemma checks_eval [simp]:
  "checks [] = Inr ()" "checks (Inr u # cs) = checks cs" "checks (Inl e # cs) = Inl e" "must True msg = Inr ()"
  "must False msg = Inl (Errorf msg)"
  by (simp_all add: checks_def must_def require_def attempt_def)

text \<open>
  Pages that redirect to each other without end: each can be asked for, its host is a public one, which the screen lets pass, every
  request for it is answered, and every answer redirects to one of them.
\<close>

definition public_host :: "'w net \<Rightarrow> string \<Rightarrow> bool" where
  "public_host net host \<longleftrightarrow>
     (let name = trim_brackets (to_lower host) in
      name \<noteq> ''localhost'' \<and> \<not> suffix ''.localhost'' name \<and> \<not> suffix ''.local'' name \<and>
      (\<forall>ip. nt_parse_ip net name = Some ip \<longrightarrow> \<not> isBlockedIP ip)) \<and>
     (\<forall>w. \<exists>ips. fst (nt_lookup net host w) = Inr ips \<and> ips \<noteq> [] \<and> list_all (\<lambda>ip. \<not> isBlockedIP ip) ips)"

definition endless :: "'w net \<Rightarrow> web_url set \<Rightarrow> bool" where
  "endless net pages \<longleftrightarrow> (\<forall>u\<in>pages.
     wu_scheme u \<in> {''http'', ''https''} \<and> \<not> wu_has_user u \<and> wu_hostname u \<noteq> [] \<and>
     nt_parse_url net (trim_space (nt_url_text net u)) = Some u \<and> public_host net (wu_hostname u) \<and>
     (\<forall>ip w. \<exists>resp. fst (nt_exchange net ip u w) = Inr resp) \<and>
     (\<forall>resp. \<exists>u'\<in>pages. nt_redirect net u resp = Some u'))"

lemma endless_follow:
  assumes "\<And>u s. u \<in> pages \<Longrightarrow> \<exists>resp c. fst (send u s) = Inr resp \<and> snd (snd (send u s)) = snd s @ [c]"
    and "\<And>u s. u \<in> pages \<Longrightarrow> fst (check u s) = Inr () \<and> snd (snd (check u s)) = snd s"
    and "\<And>u resp. u \<in> pages \<Longrightarrow> \<exists>u'\<in>pages. nt_redirect net u resp = Some u'"
    and "u \<in> pages" "via < 5"
  shows "fst (follow net send check via u s) = Inl (Errorf ''too many redirects'') \<and>
    (\<exists>opened. snd (snd (follow net send check via u s)) = snd s @ opened \<and> length opened = 5 - via)"
  using assms(4,5)
proof (induction "5 - via" arbitrary: via u s rule: less_induct)
  case less
  obtain resp c s1 where sent: "send u s = (Inr resp, s1)" "snd s1 = snd s @ [c]"
    using assms(1) [OF less.prems(1), of s] by (metis prod.collapse)
  obtain u' where u': "u' \<in> pages" "nt_redirect net u resp = Some u'" using assms(3) [OF less.prems(1)] by blast
  obtain s2 where checked: "check u' s1 = (Inr (), s2)" "snd s2 = snd s1"
    using assms(2) [OF u'(1), of s1] by (metis prod.collapse)
  show ?case
  proof (cases "via + 1 < 5")
    case True
    then have "fst (follow net send check (via + 1) u' s2) = Inl (Errorf ''too many redirects'') \<and>
        (\<exists>opened. snd (snd (follow net send check (via + 1) u' s2)) = snd s2 @ opened \<and> length opened = 5 - (via + 1))"
      using less.prems(2) by (intro less.hyps [OF _ u'(1)]) simp_all
    then obtain opened where rest: "fst (follow net send check (via + 1) u' s2) = Inl (Errorf ''too many redirects'')"
        "snd (snd (follow net send check (via + 1) u' s2)) = snd s2 @ opened" "length opened = 5 - (via + 1)"
      by blast
    have "follow net send check via u s = follow net send check (via + 1) u' s2"
      using True sent(1) checked(1) u'(2) by (subst follow.simps) simp
    moreover have "snd s2 @ opened = snd s @ (c # opened)" "length (c # opened) = 5 - via"
      using sent(2) checked(2) rest(3) True by simp_all
    ultimately show ?thesis using rest(1,2) by metis
  next
    case False
    then have "via = 4" using less.prems(2) by simp
    then show ?thesis using sent u'(2) by (subst (1 2) follow.simps) simp
  qed
qed

lemma public_host_passes:
  assumes "public_host net host"
  shows "fst (validatePublicHost (watched net) host s) = Inr ()" "snd (snd (validatePublicHost (watched net) host s)) = snd s"
proof -
  let ?name = "trim_brackets (to_lower host)"
  have name: "?name \<noteq> ''localhost''" "\<not> suffix ''.localhost'' ?name" "\<not> suffix ''.local'' ?name"
    "\<And>ip. nt_parse_ip net ?name = Some ip \<Longrightarrow> \<not> isBlockedIP ip"
    using assms by (simp_all add: public_host_def Let_def)
  obtain ips where "fst (nt_lookup net host (fst s)) = Inr ips" "ips \<noteq> []" "list_all (\<lambda>ip. \<not> isBlockedIP ip) ips"
    using assms by (auto simp: public_host_def)
  then show "fst (validatePublicHost (watched net) host s) = Inr ()"
    using name by (auto simp: validatePublicHost_def Let_def watched_def wrap_err_def db_bind_def list_ex_iff list_all_iff
        split: option.split prod.splits)
  show "snd (snd (validatePublicHost (watched net) host s)) = snd s"
    using opens_validate [where n = 0 and ok = "\<lambda>_. True" and net = net and host = host and s = s] by (simp add: opens_def)
qed

lemma public_host_dialled:
  assumes "public_host net (wu_hostname u)" "\<And>ip w. \<exists>resp. fst (nt_exchange net ip u w) = Inr resp"
  shows "\<exists>resp c. fst (safe_dial (watched net) u s) = Inr resp \<and> snd (snd (safe_dial (watched net) u s)) = snd s @ [c]"
proof -
  obtain s1 where v: "validatePublicHost (watched net) (wu_hostname u) s = (Inr (), s1)" "snd s1 = snd s"
    using public_host_passes [OF assms(1), of s] by (metis prod.collapse)
  obtain ips where ips: "fst (nt_lookup net (wu_hostname u) (fst s1)) = Inr ips" "ips \<noteq> []" "list_all (\<lambda>ip. \<not> isBlockedIP ip) ips"
    using assms(1) by (auto simp: public_host_def)
  obtain w2 where l: "nt_lookup (watched net) (wu_hostname u) s1 = (Inr ips, (w2, snd s1))"
    using ips(1) by (cases s1; cases "nt_lookup net (wu_hostname u) (fst s1)") (auto simp: watched_def)
  have "\<exists>ip. find (\<lambda>ip. \<not> isBlockedIP ip) ips = Some ip" using ips(2,3) by (cases ips) auto
  then obtain ip where ip: "find (\<lambda>ip. \<not> isBlockedIP ip) ips = Some ip" ..
  obtain resp w3 where "nt_exchange net ip u w2 = (Inr resp, w3)" using assms(2) [of ip w2] by (metis prod.collapse)
  then have "nt_exchange (watched net) ip u (w2, snd s1) = (Inr resp, (w3, snd s1 @ [Dialled ip u]))"
    by (simp add: watched_def)
  then show ?thesis using v l ip by (simp add: safe_dial_def db_bind_def)
qed

lemma endless_passes:
  assumes "endless net pages" "u \<in> pages"
  shows "fst (check_safe_redirect (watched net) u s) = Inr () \<and> snd (snd (check_safe_redirect (watched net) u s)) = snd s"
proof -
  have u: "wu_scheme u \<in> {''http'', ''https''}" "\<not> wu_has_user u" "wu_hostname u \<noteq> []"
    "nt_parse_url net (trim_space (nt_url_text net u)) = Some u" "public_host net (wu_hostname u)"
    using assms by (auto simp: endless_def)
  obtain s1 where v: "validatePublicHost (watched net) (wu_hostname u) s = (Inr (), s1)" "snd s1 = snd s"
    using public_host_passes [OF u(5), of s] by (metis prod.collapse)
  show ?thesis using u(1-4) v by (auto simp: check_safe_redirect_def parseSafeWebURL_def db_bind_def)
qed

text \<open>
  C34: redirects end. Getting a page opens at most five connections, whatever the servers answer. And a chain of redirects without end,
  of one page to itself or through any pages on public hosts, is cut: exactly five requests are sent, and the answer is the error of
  too many redirects.
\<close>

theorem redirect_loop_ends:
  "\<exists>opened. snd (snd (safe_get (watched net) u (w, past))) = past @ opened \<and> length opened \<le> 5 \<and>
     (u \<in> pages \<and> endless net pages \<longrightarrow>
      fst (safe_get (watched net) u (w, past)) = Inl (Wrap ''Get'' (Errorf ''too many redirects'')) \<and> length opened = 5)"
proof (cases "u \<in> pages \<and> endless net pages")
  case True
  have send: "\<exists>resp c. fst (safe_dial (watched net) v s) = Inr resp \<and> snd (snd (safe_dial (watched net) v s)) = snd s @ [c]"
    if "v \<in> pages" for v s
    using True that by (intro public_host_dialled) (auto simp: endless_def)
  have more: "\<exists>u'\<in>pages. nt_redirect (watched net) v resp = Some u'" if "v \<in> pages" for v resp
    using True that by (auto simp: endless_def)
  let ?run = "follow (watched net) (safe_dial (watched net)) (check_safe_redirect (watched net)) 0 u (w, past)"
  have "fst ?run = Inl (Errorf ''too many redirects'') \<and> (\<exists>opened. snd (snd ?run) = snd (w, past) @ opened \<and> length opened = 5 - 0)"
    using True by (intro endless_follow [where pages = pages] send more endless_passes) simp_all
  then obtain opened where "fst ?run = Inl (Errorf ''too many redirects'')" "snd (snd ?run) = past @ opened" "length opened = 5"
    by auto
  then show ?thesis
    by (intro exI [of _ opened]) (cases ?run, simp add: safe_get_def wrap_err_def)
next
  case False
  then show ?thesis using opens_safe_get [of "(w, past)" net u] by (auto simp: opens_def)
qed

definition loop_url :: "string \<Rightarrow> web_url" where
  "loop_url host = \<lparr>wu_scheme = ''https'', wu_host = host, wu_hostname = host, wu_path = [], wu_query = [], wu_has_user = False\<rparr>"

text \<open>Two pages that redirect to each other.\<close>

definition loop_net :: "unit net" where
  "loop_net = \<lparr>nt_parse_url = (\<lambda>raw. Some (loop_url raw)), nt_url_text = wu_hostname,
    nt_parse_ip = (\<lambda>host. None), nt_lookup = (\<lambda>host w. (Inr [[93, 184, 216, 34]], w)),
    nt_exchange = (\<lambda>ip u w. (Inr \<lparr>hr_status = 302, hr_content_type = [], hr_body = [], hr_body_error = None\<rparr>, w)),
    nt_direct = (\<lambda>u w. (Inl (Errorf ''offline''), w)),
    nt_redirect = (\<lambda>u resp. Some (loop_url (if wu_hostname u = ''a.example'' then ''b.example'' else ''a.example''))),
    nt_query_escape = id, nt_set_query = (\<lambda>q u. u), nt_query_get = (\<lambda>u k. []), nt_html = (\<lambda>s. None), nt_media_type = (\<lambda>s. None),
    nt_brave_json = (\<lambda>s. None), nt_searxng_json = (\<lambda>s. None)\<rparr>"

lemma redirect_loop_ends_witness:
  "\<exists>opened. snd (snd (safe_get (watched loop_net) (loop_url ''a.example'') ((), []))) = [] @ opened \<and> length opened = 5 \<and>
     fst (safe_get (watched loop_net) (loop_url ''a.example'') ((), [])) = Inl (Wrap ''Get'' (Errorf ''too many redirects''))"
proof -
  have public: "\<not> isBlockedIP [93, 184, 216, 34]" by (simp add: blocked_by_bytes)
  have trim: "trim_space ''a.example'' = ''a.example''" "trim_space ''b.example'' = ''b.example''" by (simp_all add: go_eval)
  have "public_host loop_net host" if "host \<in> {''a.example'', ''b.example''}" for host
    using that public by (auto simp: public_host_def loop_net_def trim_brackets_def Let_def suffix_to_prefix go_eval)
  moreover have "wu_scheme (loop_url h) = ''https''" "\<not> wu_has_user (loop_url h)" "wu_hostname (loop_url h) = h" for h
    by (simp_all add: loop_url_def)
  moreover have "nt_parse_url loop_net x = Some (loop_url x)" "nt_url_text loop_net u = wu_hostname u"
    "\<exists>resp. fst (nt_exchange loop_net ip u w) = Inr resp"
    "nt_redirect loop_net u resp = Some (loop_url (if wu_hostname u = ''a.example'' then ''b.example'' else ''a.example''))" for x u ip w resp
    by (simp_all add: loop_net_def)
  ultimately have "endless loop_net {loop_url ''a.example'', loop_url ''b.example''}"
    unfolding endless_def by (simp add: trim)
  then show ?thesis
    using redirect_loop_ends [of loop_net "loop_url ''a.example''" "()" "[]" "{loop_url ''a.example'', loop_url ''b.example''}"]
    by auto
qed

definition host_url :: "string \<Rightarrow> web_url" where
  "host_url host = \<lparr>wu_scheme = ''https'', wu_host = host, wu_hostname = host, wu_path = [], wu_query = [], wu_has_user = False\<rparr>"

text \<open>A SearXNG server that redirects the search to another host: the search ends there, with one connection opened.\<close>

definition luring_net :: "unit net" where
  "luring_net = \<lparr>nt_parse_url = (\<lambda>raw. Some (host_url (if raw = ''https://evil'' then ''evil'' else ''s.example''))),
    nt_url_text = (\<lambda>u. if wu_hostname u = ''evil'' then ''https://evil'' else ''https://s.example''),
    nt_parse_ip = (\<lambda>host. None), nt_lookup = (\<lambda>host w. (Inr [[93, 184, 216, 34]], w)),
    nt_exchange = (\<lambda>ip u w. (Inl (Errorf ''offline''), w)),
    nt_direct = (\<lambda>u w. (Inr \<lparr>hr_status = 302, hr_content_type = [], hr_body = [], hr_body_error = None\<rparr>, w)),
    nt_redirect = (\<lambda>u resp. Some (host_url ''evil'')), nt_query_escape = id,
    nt_set_query = (\<lambda>q u. u), nt_query_get = (\<lambda>u k. []), nt_html = (\<lambda>s. None), nt_media_type = (\<lambda>s. None),
    nt_brave_json = (\<lambda>s. None), nt_searxng_json = (\<lambda>s. None)\<rparr>"

definition searxng_only :: search_config where
  "searxng_only = \<lparr>sc_provider = ''searxng'', sc_fallback = [], sc_brave_key = [], sc_searxng_url = ''https://s.example''\<rparr>"

definition search_call :: tool_call where
  "search_call = \<lparr>tc_name = ''web.search'', tc_args = [(''query'', ''go'')]\<rparr>"

lemma search_reaches_public_or_configured_hosts_witness:
  "\<forall>request. \<exists>u opened. snd (snd (web_search_execute id (webSearchProvider searxng_only (watched luring_net)) request search_call ((), []))) =
     [] @ opened \<and> length opened \<le> 10 \<and> list_all (searchable luring_net searxng_only) opened \<and> opened = [Direct u]"
proof
  fix request :: request
  have *: "\<exists>opened. snd (snd (web_search_execute id (webSearchProvider searxng_only (watched luring_net)) request search_call
      ((), []))) = [] @ opened \<and> length opened \<le> 10 \<and> list_all (searchable luring_net searxng_only) opened"
    by (rule search_reaches_public_or_configured_hosts) (auto simp: luring_net_def host_url_def split: if_splits)
  have cmp: "\<not> equal_fold ''evil'' ''s.example''" by (simp add: equal_fold_def go_eval)
  have args: "trim_space ''go'' = ''go''" "trim_space [] = []" "trim_space ''https://s.example'' = ''https://s.example''"
    "contains_sub ''https://s.example'' ''://''" by (simp_all add: go_eval)
  have url: "searxngSearchURL luring_net ''https://s.example'' = Inr (host_url ''s.example''\<lparr>wu_path := ''/search''\<rparr>)"
    by (simp add: searxngSearchURL_def parseTrustedSearchURL_def args luring_net_def host_url_def attempt_def)
  have refused: "check_trusted_redirect (watched luring_net) ''s.example'' (host_url ''evil'') w =
      (Inl (Errorf ''redirect host %q is not allowed''), w)" for w
    by (simp add: check_trusted_redirect_def parseTrustedSearchURL_def luring_net_def host_url_def attempt_def cmp)
  have sent: "nt_direct (watched luring_net) u ((), []) =
      (Inr \<lparr>hr_status = 302, hr_content_type = [], hr_body = [], hr_body_error = None\<rparr>, ((), [Direct u]))" for u
    by (simp add: watched_def luring_net_def)
  have evil: "nt_redirect luring_net u resp = Some (host_url ''evil'')" for u resp
    by (simp add: luring_net_def)
  have get: "trusted_get (watched luring_net) ''s.example'' (host_url ''s.example'') ((), []) =
      (Inl (Wrap ''Get'' (Errorf ''redirect host %q is not allowed'')), ((), [Direct (host_url ''s.example'')]))"
    by (simp add: trusted_get_def follow.simps [of _ _ _ 0] refused wrap_err_def sent evil)
  have again: "new_request luring_net (nt_set_query luring_net q (host_url ''s.example''\<lparr>wu_path := p\<rparr>)) = Inr (host_url ''s.example'')"
    for q p by (simp add: new_request_def luring_net_def host_url_def)
  have logged: "snd (snd (SearXNGSearchProvider ''https://s.example'' (watched luring_net) ''go'' 5 ((), []))) =
      [Direct (host_url ''s.example'')]"
    using get by (simp add: SearXNGSearchProvider_def args url named_def again db_bind_def) (simp add: host_url_def)
  have "snd (snd (web_search_execute id (webSearchProvider searxng_only (watched luring_net)) request search_call ((), []))) =
      [Direct (host_url ''s.example'')]"
    using logged by (simp add: web_search_world webSearchProvider_def webSearchProviderByName_def searxng_only_def
      search_call_def mget_def args parseWebLimit_def maxWebSearchResults_def atoi_def digits_value_def)
  with * show "\<exists>u opened. snd (snd (web_search_execute id (webSearchProvider searxng_only (watched luring_net)) request search_call ((), []))) =
     [] @ opened \<and> length opened \<le> 10 \<and> list_all (searchable luring_net searxng_only) opened \<and> opened = [Direct u]"
    by (auto intro!: exI [of _ "host_url ''s.example''"])
qed

end
