(* ===== verification/ProviderClient.thy ===== *)
theory ProviderClient
  imports LlmUsage
begin

text \<open>
  \<^verbatim>\<open>internal/llm/provider_client.go\<close>: the client that asks a provider over HTTP. A body is the JSON value the code marshals.
  Of the standard library it uses the parser of URLs, the exchange of a request and the decoder, which are the parameter
  \<open>provider_http\<close>: \<open>ph_with_key\<close> parses a URL and sets its query parameter \<^verbatim>\<open>key\<close>, \<open>ph_do\<close> gives the status and the body of
  the answer, and the decoders give the fields of an answer that the code reads, an absent one empty.
\<close>

datatype json =
  JString string
| JNumber int
| JBool bool
| JArray "json list"
| JObject "(string \<times> json) list"

record json_request =
  jq_url :: string
  jq_headers :: "(string \<times> string) list"
  jq_body :: json

text \<open>The items of an output, with their types and the types and texts of their contents.\<close>

record openai_response =
  oa_output_text :: string
  oa_input_tokens :: int
  oa_output_tokens :: int
  oa_output :: "(string \<times> (string \<times> string) list) list"

record anthropic_response =
  an_content :: "(string \<times> string) list"
  an_input_tokens :: int
  an_output_tokens :: int

record gemini_response =
  gm_candidates :: "string list list"
  gm_prompt_tokens :: int
  gm_candidates_tokens :: int

record 'w provider_http =
  ph_valid_url :: "string \<Rightarrow> bool"
  ph_path_escape :: "string \<Rightarrow> string"
  ph_with_key :: "string \<Rightarrow> string \<Rightarrow> string option"
  ph_do :: "json_request \<Rightarrow> 'w \<Rightarrow> (int \<times> string) result \<times> 'w"
  ph_openai :: "string \<Rightarrow> openai_response option"
  ph_anthropic :: "string \<Rightarrow> anthropic_response option"
  ph_gemini :: "string \<Rightarrow> gemini_response option"

record provider_client =
  pv_base_urls :: "(provider_id \<times> string) list option"
  pv_anthropic_version :: string
  pv_default_max_tokens :: int

subsection \<open>The text of an answer\<close>

definition texts :: "string list \<Rightarrow> string" where
  "texts ts = join [CHR 0x0A] (filter (\<lambda>t. trim_space t \<noteq> []) ts)"

definition textFromOutput :: "openai_response \<Rightarrow> string" where
  "textFromOutput r = texts (concat (map (\<lambda>(kind, contents). if kind = ''message''
     then map snd (filter (\<lambda>(t, _). t = ''output_text'') contents) else []) (oa_output r)))"

definition anthropic_text :: "anthropic_response \<Rightarrow> string" where
  "anthropic_text r = texts (map snd (filter (\<lambda>(t, _). t = ''text'') (an_content r)))"

definition gemini_text :: "gemini_response \<Rightarrow> string" where
  "gemini_text r = texts (concat (gm_candidates r))"

definition answer_of :: "string \<Rightarrow> int \<Rightarrow> int \<Rightarrow> text_answer result" where
  "answer_of text0 input output =
     (let text = trim_space text0 in
      require (text \<noteq> []) ''provider response contained no text''
        (Inr (no_answer\<lparr>ta_text := text, ta_input_tokens := input, ta_output_tokens := output\<rparr>)))"

subsection \<open>Requests\<close>

definition normalizeResolvedTextRequest :: "resolved_text_request \<Rightarrow> resolved_text_request result" where
  "normalizeResolvedTextRequest q0 =
     (let m = xr_resolved q0;
          q = q0\<lparr>xr_instructions := trim_space (xr_instructions q0), xr_input := trim_space (xr_input q0),
            xr_resolved := m\<lparr>rm_api_key := trim_space (rm_api_key m), rm_model_id := trim_space (rm_model_id m)\<rparr>\<rparr>
      in attempt (checks
        [must (rm_api_key (xr_resolved q) \<noteq> []) ''provider API key is required'',
         must (rm_model_id (xr_resolved q) \<noteq> []) ''model ID is required'',
         must (xr_input q \<noteq> []) ''text input is required'',
         must (0 \<le> xr_max_output_tokens q) ''max output tokens must be nonnegative'']) (\<lambda>_. Inr q))"

definition maxOutputTokens :: "provider_client \<Rightarrow> int \<Rightarrow> int" where
  "maxOutputTokens c requested =
     (if requested > 0 then requested else if pv_default_max_tokens c > 0 then pv_default_max_tokens c else 1024)"

definition baseURL :: "provider_client \<Rightarrow> provider_id \<Rightarrow> string \<Rightarrow> string" where
  "baseURL c providerID fallback =
     (case pv_base_urls c of
        None \<Rightarrow> fallback
      | Some urls \<Rightarrow>
          (let base = drop_trailing_slashes (trim_space (case map_of urls providerID of None \<Rightarrow> [] | Some u \<Rightarrow> u)) in
           if base = [] then fallback else base))"

definition newJSONRequest :: "'w provider_http \<Rightarrow> string \<Rightarrow> (string \<times> string) list \<Rightarrow> json \<Rightarrow> json_request result" where
  "newJSONRequest env u headers body =
     require (ph_valid_url env u) ''parse url''
       (Inr \<lparr>jq_url = u, jq_headers = (''Content-Type'', ''application/json'') # headers, jq_body = body\<rparr>)"

definition openai_request :: "'w provider_http \<Rightarrow> provider_client \<Rightarrow> resolved_text_request \<Rightarrow> json_request result" where
  "openai_request env c q = newJSONRequest env (baseURL c ProviderOpenAI ''https://api.openai.com'' @ ''/v1/responses'')
     [(''Authorization'', ''Bearer '' @ rm_api_key (xr_resolved q))]
     (JObject ([(''model'', JString (rm_model_id (xr_resolved q))), (''input'', JString (xr_input q)),
        (''max_output_tokens'', JNumber (maxOutputTokens c (xr_max_output_tokens q))), (''store'', JBool False)] @
        (if xr_instructions q \<noteq> [] then [(''instructions'', JString (xr_instructions q))] else [])))"

definition anthropic_request :: "'w provider_http \<Rightarrow> provider_client \<Rightarrow> resolved_text_request \<Rightarrow> json_request result" where
  "anthropic_request env c q = newJSONRequest env (baseURL c ProviderAnthropic ''https://api.anthropic.com'' @ ''/v1/messages'')
     [(''x-api-key'', rm_api_key (xr_resolved q)),
      (''anthropic-version'', if trim_space (pv_anthropic_version c) = [] then ''2023-06-01'' else trim_space (pv_anthropic_version c))]
     (JObject ([(''model'', JString (rm_model_id (xr_resolved q))),
        (''max_tokens'', JNumber (maxOutputTokens c (xr_max_output_tokens q))),
        (''messages'', JArray [JObject [(''role'', JString ''user''), (''content'', JString (xr_input q))]])] @
        (if xr_instructions q \<noteq> [] then [(''system'', JString (xr_instructions q))] else [])))"

definition gemini_request :: "'w provider_http \<Rightarrow> provider_client \<Rightarrow> resolved_text_request \<Rightarrow> json_request result" where
  "gemini_request env c q =
     (let model = rm_model_id (xr_resolved q);
          bare = (if prefix ''models/'' model then drop (length ''models/'') model else model);
          endpoint = baseURL c ProviderGemini ''https://generativelanguage.googleapis.com'' @ ''/v1beta/models/'' @
            ph_path_escape env bare @ '':generateContent'';
          parts = (\<lambda>t. (''parts'', JArray [JObject [(''text'', JString t)]]))
      in case ph_with_key env endpoint (rm_api_key (xr_resolved q)) of
           None \<Rightarrow> Inl (Errorf ''parse url'')
         | Some u \<Rightarrow> newJSONRequest env u []
             (JObject ([(''contents'', JArray [JObject [(''role'', JString ''user''), parts (xr_input q)]]),
                (''generationConfig'', JObject [(''maxOutputTokens'', JNumber (maxOutputTokens c (xr_max_output_tokens q)))])] @
                (if xr_instructions q \<noteq> [] then [(''systemInstruction'', JObject [parts (xr_instructions q)])] else []))))"

subsection \<open>One exchange\<close>

definition doJSON ::
  "'w provider_http \<Rightarrow> provider_id \<Rightarrow> (string \<Rightarrow> 'a option) \<Rightarrow> json_request \<Rightarrow> 'w \<Rightarrow> 'a result \<times> 'w" where
  "doJSON env providerID decode q w =
     db_bind (wrap_err ''call %s provider'' (ph_do env q w)) (\<lambda>(status, body) w1.
       (if status < 200 \<or> status \<ge> 300 then Inl (ProviderHTTPError providerID status)
        else case decode body of
          None \<Rightarrow> Inl (Wrap ''decode %s provider response'' (Errorf ''json''))
        | Some r \<Rightarrow> Inr r, w1))"

definition ask ::
  "'w provider_http \<Rightarrow> provider_id \<Rightarrow> (string \<Rightarrow> 'a option) \<Rightarrow> json_request result \<Rightarrow> ('a \<Rightarrow> text_answer result) \<Rightarrow> 'w \<Rightarrow>
     text_answer result \<times> 'w" where
  "ask env providerID decode q read w =
     (case q of
        Inl e \<Rightarrow> (Inl e, w)
      | Inr req \<Rightarrow> db_bind (doJSON env providerID decode req w) (\<lambda>r w1. (read r, w1)))"

definition createOpenAIText :: "'w provider_http \<Rightarrow> provider_client \<Rightarrow> resolved_text_request \<Rightarrow> 'w \<Rightarrow> text_answer result \<times> 'w" where
  "createOpenAIText env c q = ask env ProviderOpenAI (ph_openai env) (openai_request env c q)
     (\<lambda>r. answer_of (if trim_space (oa_output_text r) = [] then textFromOutput r else oa_output_text r)
        (oa_input_tokens r) (oa_output_tokens r))"

definition createAnthropicText :: "'w provider_http \<Rightarrow> provider_client \<Rightarrow> resolved_text_request \<Rightarrow> 'w \<Rightarrow> text_answer result \<times> 'w" where
  "createAnthropicText env c q = ask env ProviderAnthropic (ph_anthropic env) (anthropic_request env c q)
     (\<lambda>r. answer_of (anthropic_text r) (an_input_tokens r) (an_output_tokens r))"

definition createGeminiText :: "'w provider_http \<Rightarrow> provider_client \<Rightarrow> resolved_text_request \<Rightarrow> 'w \<Rightarrow> text_answer result \<times> 'w" where
  "createGeminiText env c q = ask env ProviderGemini (ph_gemini env) (gemini_request env c q)
     (\<lambda>r. answer_of (gemini_text r) (gm_prompt_tokens r) (gm_candidates_tokens r))"

definition CreateResolvedText :: "'w provider_http \<Rightarrow> provider_client \<Rightarrow> resolved_text_request \<Rightarrow> 'w \<Rightarrow> text_answer result \<times> 'w" where
  "CreateResolvedText env c q0 w =
     (case normalizeResolvedTextRequest q0 of
        Inl e \<Rightarrow> (Inl e, w)
      | Inr q \<Rightarrow>
          (let p = rm_provider_id (xr_resolved q) in
           if p = ProviderOpenAI then createOpenAIText env c q w
           else if p = ProviderAnthropic then createAnthropicText env c q w
           else if p = ProviderGemini then createGeminiText env c q w
           else (Inl ErrUnsupportedProvider, w)))"

subsection \<open>Where a request goes\<close>

definition provider_url :: "'w provider_http \<Rightarrow> provider_client \<Rightarrow> resolved_model \<Rightarrow> string \<Rightarrow> bool" where
  "provider_url env c m u \<longleftrightarrow>
     rm_provider_id m = ProviderOpenAI \<and> u = baseURL c ProviderOpenAI ''https://api.openai.com'' @ ''/v1/responses'' \<or>
     rm_provider_id m = ProviderAnthropic \<and> u = baseURL c ProviderAnthropic ''https://api.anthropic.com'' @ ''/v1/messages'' \<or>
     rm_provider_id m = ProviderGemini \<and> (\<exists>path. ph_with_key env
       (baseURL c ProviderGemini ''https://generativelanguage.googleapis.com'' @ ''/v1beta/models/'' @ path @ '':generateContent'')
       (trim_space (rm_api_key m)) = Some u)"

lemma answer_of_Inr: "answer_of t i n = Inr a \<Longrightarrow> ta_text a \<noteq> [] \<and> ta_text a = trim_space t"
  by (auto simp: answer_of_def Let_def)

lemma doJSON_Inr:
  "doJSON env p decode req w = (Inr r, w1) \<Longrightarrow>
     \<exists>status body. ph_do env req w = (Inr (status, body), w1) \<and> 200 \<le> status \<and> status < 300 \<and> decode body = Some r"
  by (auto simp: doJSON_def wrap_err_def split: prod.splits sum.splits if_splits option.splits dest!: db_bind_InrD)

lemma ask_Inr:
  "ask env p decode q read w = (Inr a, w1) \<Longrightarrow>
     \<exists>req status body r. q = Inr req \<and> ph_do env req w = (Inr (status, body), w1) \<and> 200 \<le> status \<and> status < 300 \<and>
       read r = Inr a"
  by (cases q) (auto simp: ask_def dest!: db_bind_InrD doJSON_Inr)

lemma newJSONRequest_url: "newJSONRequest env u hs b = Inr req \<Longrightarrow> jq_url req = u"
  by (auto simp: newJSONRequest_def)

lemma request_url:
  "openai_request env c q = Inr req \<Longrightarrow> jq_url req = baseURL c ProviderOpenAI ''https://api.openai.com'' @ ''/v1/responses''"
  "anthropic_request env c q = Inr req \<Longrightarrow> jq_url req = baseURL c ProviderAnthropic ''https://api.anthropic.com'' @ ''/v1/messages''"
  "gemini_request env c q = Inr req \<Longrightarrow> \<exists>path. ph_with_key env
     (baseURL c ProviderGemini ''https://generativelanguage.googleapis.com'' @ ''/v1beta/models/'' @ path @ '':generateContent'')
     (rm_api_key (xr_resolved q)) = Some (jq_url req)"
  by (auto simp: openai_request_def anthropic_request_def gemini_request_def Let_def dest!: newJSONRequest_url
      split: option.splits)

lemma normalizeResolvedTextRequest_Inr:
  "normalizeResolvedTextRequest q0 = Inr q \<Longrightarrow> rm_provider_id (xr_resolved q) = rm_provider_id (xr_resolved q0) \<and>
     rm_api_key (xr_resolved q) = trim_space (rm_api_key (xr_resolved q0))"
  by (auto simp: normalizeResolvedTextRequest_def Let_def attempt_def split: sum.splits)

text \<open>Text comes back only from one exchange that ended with a status of success, of a request to the URL of the provider that
  was resolved, and it is never blank.\<close>

theorem provider_text_is_from_its_provider:
  assumes "CreateResolvedText env c q w = (Inr a, w1)"
  shows "ta_text a \<noteq> [] \<and> (\<exists>req status body. provider_url env c (xr_resolved q) (jq_url req) \<and>
    ph_do env req w = (Inr (status, body), w1) \<and> 200 \<le> status \<and> status < 300)"
proof -
  obtain q1 where q1: "normalizeResolvedTextRequest q = Inr q1" using assms by (auto simp: CreateResolvedText_def split: sum.splits)
  note n = normalizeResolvedTextRequest_Inr [OF q1]
  consider (openai) "rm_provider_id (xr_resolved q) = ProviderOpenAI" "createOpenAIText env c q1 w = (Inr a, w1)"
    | (anthropic) "rm_provider_id (xr_resolved q) = ProviderAnthropic" "createAnthropicText env c q1 w = (Inr a, w1)"
    | (gemini) "rm_provider_id (xr_resolved q) = ProviderGemini" "createGeminiText env c q1 w = (Inr a, w1)"
    using assms n q1 by (auto simp: CreateResolvedText_def Let_def split: if_splits)
  then show ?thesis
  proof cases
    case openai
    then show ?thesis
      by (auto simp: createOpenAIText_def provider_url_def dest!: ask_Inr answer_of_Inr request_url(1) intro!: exI)
  next
    case anthropic
    then show ?thesis
      by (auto simp: createAnthropicText_def provider_url_def dest!: ask_Inr answer_of_Inr request_url(2) intro!: exI)
  next
    case gemini
    then show ?thesis
      using n by (fastforce simp: createGeminiText_def provider_url_def dest!: ask_Inr answer_of_Inr request_url(3))
  qed
qed

definition hello_http :: "unit provider_http" where
  "hello_http = \<lparr>ph_valid_url = (\<lambda>_. True), ph_path_escape = (\<lambda>s. s), ph_with_key = (\<lambda>_ _. None),
     ph_do = (\<lambda>q w. (Inr (200, ''answer''), w)),
     ph_openai = (\<lambda>b. Some \<lparr>oa_output_text = [], oa_input_tokens = 3, oa_output_tokens = 1,
       oa_output = [(''reasoning'', [(''output_text'', ''no'')]), (''message'', [(''output_text'', ''hi'')])]\<rparr>),
     ph_anthropic = (\<lambda>_. None), ph_gemini = (\<lambda>_. None)\<rparr>"

definition hello_request :: resolved_text_request where
  "hello_request = \<lparr>xr_resolved = \<lparr>rm_owner = \<lparr>os_owner_type = OwnerGuild, os_guild_id = ''g'', os_user_id = []\<rparr>, rm_purpose = PurposeChat,
       rm_provider_id = ProviderOpenAI, rm_model_id = ''m'', rm_params_json = ''{}'', rm_credential_id = ''c'',
       rm_credential_label = ''l'', rm_api_key = ''k'', rm_billing_owner_type = OwnerGuild, rm_billing_owner_id = ''g''\<rparr>,
     xr_instructions = [], xr_input = ''hello'', xr_max_output_tokens = 0\<rparr>"

definition plain_client :: provider_client where
  "plain_client = \<lparr>pv_base_urls = None, pv_anthropic_version = [], pv_default_max_tokens = 0\<rparr>"

lemma hello_answer:
  "CreateResolvedText hello_http plain_client hello_request () = (Inr (no_answer\<lparr>ta_text := ''hi'', ta_input_tokens := 3, ta_output_tokens := 1\<rparr>), ())"
  by (simp add: CreateResolvedText_def normalizeResolvedTextRequest_def hello_request_def checks_def must_def require_def go_eval
      createOpenAIText_def ask_def openai_request_def newJSONRequest_def hello_http_def doJSON_def db_bind_def wrap_err_def
      textFromOutput_def texts_def answer_of_def)

lemma provider_text_is_from_its_provider_witness:
  "\<exists>req status body. provider_url hello_http plain_client (xr_resolved hello_request) (jq_url req) \<and>
    ph_do hello_http req () = (Inr (status, body), ()) \<and> 200 \<le> status \<and> status < 300"
  using provider_text_is_from_its_provider [OF hello_answer] by simp

end
