(* ===== verification/EvalHarness.thy ===== *)
theory EvalHarness
  imports AgentRunner
begin

text \<open>
  \<^verbatim>\<open>internal/evalharness/agent.go\<close>: the run of one case through the agent's runner over a recorder and a run store in memory. The
  store is the other implementation of the interface the runner works over; its maps have the order of their lists.
\<close>

subsection \<open>The run store in memory\<close>

record memory_runs =
  my_started :: "run_record list"
  my_completed :: "(string \<times> run_status \<times> termination_reason) list"
  my_steps :: "step_record list"
  my_confirmations :: "confirmation_record list"
  my_cancelled :: "string list"

definition NewMemoryRunStore :: memory_runs where
  "NewMemoryRunStore = \<lparr>my_started = [], my_completed = [], my_steps = [], my_confirmations = [], my_cancelled = []\<rparr>"

definition mem_StartRun :: "run_record \<Rightarrow> memory_runs \<Rightarrow> unit result \<times> memory_runs" where
  "mem_StartRun r s = (Inr (), s\<lparr>my_started := my_started s @ [r]\<rparr>)"

definition mem_CompleteRun :: "string \<Rightarrow> run_status \<Rightarrow> termination_reason \<Rightarrow> memory_runs \<Rightarrow> unit result \<times> memory_runs" where
  "mem_CompleteRun runID status reason s =
     (Inr (), s\<lparr>my_completed := my_completed s @ [(trim_space runID, status, reason)]\<rparr>)"

definition mem_RecordStep :: "step_record \<Rightarrow> memory_runs \<Rightarrow> unit result \<times> memory_runs" where
  "mem_RecordStep st s = (Inr (), s\<lparr>my_steps := my_steps s @ [st]\<rparr>)"

definition mem_IsRunCanceled :: "string \<Rightarrow> memory_runs \<Rightarrow> bool result \<times> memory_runs" where
  "mem_IsRunCanceled runID s = (Inr (trim_space runID \<in> set (my_cancelled s)), s)"

definition mem_RequestCancelRun :: "string \<Rightarrow> string \<Rightarrow> memory_runs \<Rightarrow> unit result \<times> memory_runs" where
  "mem_RequestCancelRun runID0 actorID s =
     (let runID = trim_space runID0 in
      if runID = [] then (Inl ErrNoRows, s) else (Inr (), s\<lparr>my_cancelled := List.insert runID (my_cancelled s)\<rparr>))"

definition mem_CreateConfirmation :: "confirmation_record \<Rightarrow> memory_runs \<Rightarrow> unit result \<times> memory_runs" where
  "mem_CreateConfirmation c s = (Inr (), s\<lparr>my_confirmations := my_confirmations s @ [c]\<rparr>)"

text \<open>The newest pending one.\<close>

definition mem_PendingConfirmation :: "string \<Rightarrow> memory_runs \<Rightarrow> confirmation_record option result \<times> memory_runs" where
  "mem_PendingConfirmation runID s =
     (Inr (find (\<lambda>c. co_run_id c = trim_space runID \<and> co_status c = ConfirmationStatusPending) (rev (my_confirmations s))), s)"

text \<open>The first row that satisfies the predicate is changed; \<open>None\<close> if there is none.\<close>

fun update_first :: "('a \<Rightarrow> bool) \<Rightarrow> ('a \<Rightarrow> 'a) \<Rightarrow> 'a list \<Rightarrow> 'a list option" where
  "update_first P f [] = None"
| "update_first P f (x # xs) = (if P x then Some (f x # xs) else map_option ((#) x) (update_first P f xs))"

definition mem_ResolveConfirmation ::
  "string \<Rightarrow> confirmation_status \<Rightarrow> string \<Rightarrow> memory_runs \<Rightarrow> unit result \<times> memory_runs" where
  "mem_ResolveConfirmation confirmationID status actorID s =
     (case update_first (\<lambda>c. co_id c = trim_space confirmationID \<and> co_status c = ConfirmationStatusPending)
         (\<lambda>c. c\<lparr>co_status := status, co_resolved_by := trim_space actorID\<rparr>) (my_confirmations s) of
        None \<Rightarrow> (Inl ErrNoRows, s)
      | Some cs \<Rightarrow> (Inr (), s\<lparr>my_confirmations := cs\<rparr>))"

definition MemoryRunStore :: "memory_runs run_store" where
  "MemoryRunStore = \<lparr>StartRun = mem_StartRun, CompleteRun = mem_CompleteRun, RecordStep = mem_RecordStep,
     IsRunCanceled = mem_IsRunCanceled, RequestCancelRun = mem_RequestCancelRun, CreateConfirmation = mem_CreateConfirmation,
     PendingConfirmation = mem_PendingConfirmation, ResolveConfirmation = mem_ResolveConfirmation\<rparr>"

lemmas memory_store_defs = MemoryRunStore_def mem_StartRun_def mem_CompleteRun_def mem_RecordStep_def mem_IsRunCanceled_def
  mem_RequestCancelRun_def mem_CreateConfirmation_def mem_PendingConfirmation_def mem_ResolveConfirmation_def Let_def

text \<open>The store in memory keeps the contract for cancellation that the runner relies on.\<close>

interpretation memory_cancel: cancel_store MemoryRunStore "\<lambda>s i. i \<in> set (my_cancelled s)"
proof
  show "store_step MemoryRunStore w w' \<Longrightarrow> i \<in> set (my_cancelled w) \<Longrightarrow> i \<in> set (my_cancelled w')" for w w' i
    by (erule store_step.cases) (auto simp: memory_store_defs split: if_splits option.splits)
  show "IsRunCanceled MemoryRunStore i w = (Inr b, w') \<Longrightarrow> trim_space i \<noteq> [] \<Longrightarrow> b \<longleftrightarrow> trim_space i \<in> set (my_cancelled w)"
    for i w b w'
    by (auto simp: memory_store_defs)
qed

subsection \<open>One case\<close>

text \<open>The world of a case: its store and its recorded events, and what the runner's other parts act on.\<close>

type_synonym 'd case_world = "(memory_runs \<times> audit_event list) \<times> 'd"

definition left_store :: "'a run_store \<Rightarrow> ('a \<times> 'b) run_store" where
  "left_store s = \<lparr>StartRun = (\<lambda>r. on_left (StartRun s r)), CompleteRun = (\<lambda>i st re. on_left (CompleteRun s i st re)),
     RecordStep = (\<lambda>r. on_left (RecordStep s r)), IsRunCanceled = (\<lambda>i. on_left (IsRunCanceled s i)),
     RequestCancelRun = (\<lambda>i a. on_left (RequestCancelRun s i a)), CreateConfirmation = (\<lambda>c. on_left (CreateConfirmation s c)),
     PendingConfirmation = (\<lambda>i. on_left (PendingConfirmation s i)),
     ResolveConfirmation = (\<lambda>i st a. on_left (ResolveConfirmation s i st a))\<rparr>"

definition mem_Record :: "audit_event \<Rightarrow> 'a \<times> audit_event list \<Rightarrow> unit result \<times> 'a \<times> audit_event list" where
  "mem_Record e w = (Inr (), fst w, snd w @ [e])"

record 'd agent_case =
  ec_name :: string
  ec_runner :: "'d case_world runner"
  ec_request :: request
  ec_want_handled :: bool
  ec_want_texts :: "string list"
  ec_want_status :: run_status
  ec_want_reason :: termination_reason
  ec_forbidden :: "string list"

record case_result =
  ek_name :: string
  ek_response :: response
  ek_handled :: bool
  ek_events :: "audit_event list"
  ek_runs :: memory_runs
  ek_failures :: "string list"

definition pairs_text :: "gomap \<Rightarrow> string" where
  "pairs_text m = concat (map (\<lambda>(k, v). k @ ''='' @ v @ '' '') m)"

definition observabilityText :: "case_result \<Rightarrow> string" where
  "observabilityText r =
     concat (map (\<lambda>e. ev_kind e @ '' '' @ ev_reason e @ '' '' @ pairs_text (ev_metadata e)) (ek_events r)) @
     concat (map (\<lambda>s. st_kind s @ '' '' @ st_reason s @ '' '' @ pairs_text (st_observation s)) (my_steps (ek_runs r))) @
     concat (map (\<lambda>c. co_tool_name c @ '' '' @ pairs_text (co_payload c)) (my_confirmations (ek_runs r)))"

text \<open>The runner of the model returns no error, which the first check would report.\<close>

definition evaluateAgentCase :: "'d agent_case \<Rightarrow> case_result \<Rightarrow> string list" where
  "evaluateAgentCase e r =
     (if ek_handled r \<noteq> ec_want_handled e then [''handled=%v want %v''] else []) @
     map (\<lambda>_. ''response text missing %q'') (filter (\<lambda>t. \<not> contains_sub (rs_text (ek_response r)) t) (ec_want_texts e)) @
     (if ec_want_status e \<noteq> [] \<and> rs_run_status (ek_response r) \<noteq> ec_want_status e then [''run status=%q want %q''] else []) @
     (if ec_want_reason e \<noteq> [] \<and> rs_termination_reason (ek_response r) \<noteq> ec_want_reason e
      then [''termination reason=%q want %q''] else []) @
     map (\<lambda>_. ''observability leaked %q'')
       (filter (\<lambda>f. f \<noteq> [] \<and> contains_sub (observabilityText r) f) (map trim_space (ec_forbidden e)))"

definition RunAgentCase :: "'d agent_case \<Rightarrow> 'd \<Rightarrow> case_result \<times> 'd" where
  "RunAgentCase e d =
     (let runner = (ec_runner e)\<lparr>rr_trace := (rr_trace (ec_runner e))\<lparr>tx_recorder := Some (\<lambda>ev. on_left (mem_Record ev))\<rparr>,
            rr_run_store := Some (left_store (left_store MemoryRunStore))\<rparr>
      in case run_state (Run runner (ec_request e)) \<lparr>env = ((NewMemoryRunStore, []), d), trail = []\<rparr> of
           ((response, handled), s) \<Rightarrow>
             (let r = \<lparr>ek_name = trim_space (ec_name e), ek_response = response, ek_handled = handled,
                    ek_events = snd (fst (env s)), ek_runs = fst (fst (env s)), ek_failures = []\<rparr>
              in (r\<lparr>ek_failures := evaluateAgentCase e r\<rparr>, snd (env s))))"

subsection \<open>A case that passes\<close>

lemma contains_sub_part: "contains_sub s f \<Longrightarrow> contains_sub (p @ s @ q) f"
  unfolding contains_sub_iff by (metis append.assoc)

lemma contains_sub_concat: "x \<in> set xs \<Longrightarrow> contains_sub x f \<Longrightarrow> contains_sub (p @ concat xs @ q) f"
  using contains_sub_part [of x f] by (auto simp: in_set_conv_decomp) (metis append.assoc)

lemma pairs_value: "(k, v) \<in> set m \<Longrightarrow> contains_sub v f \<Longrightarrow> contains_sub (pairs_text m) f"
  using contains_sub_concat [of "k @ ''='' @ v @ '' ''" "map (\<lambda>(k, v). k @ ''='' @ v @ '' '') m" f "[]" "[]"]
    contains_sub_part [of v f "k @ ''=''" "'' ''"]
  by (force simp: pairs_text_def)

text \<open>In a case that passes no forbidden value is in the metadata of a recorded event or in what a step observed.\<close>

lemma passing_case_keeps_secrets:
  assumes "evaluateAgentCase e r = []" "f \<in> set (ec_forbidden e)" "trim_space f \<noteq> []"
  shows "(\<forall>ev\<in>set (ek_events r). \<forall>(k, v)\<in>set (ev_metadata ev). \<not> contains_sub v (trim_space f)) \<and>
    (\<forall>st\<in>set (my_steps (ek_runs r)). \<forall>(k, v)\<in>set (st_observation st). \<not> contains_sub v (trim_space f))"
proof -
  have clean: "\<not> contains_sub (observabilityText r) (trim_space f)"
    using assms by (auto simp: evaluateAgentCase_def filter_empty_conv)
  have "contains_sub (observabilityText r) (trim_space f)"
    if "ev \<in> set (ek_events r)" "(k, v) \<in> set (ev_metadata ev)" "contains_sub v (trim_space f)" for ev k v
  proof -
    have "contains_sub (ev_kind ev @ '' '' @ ev_reason ev @ '' '' @ pairs_text (ev_metadata ev)) (trim_space f)"
      using contains_sub_part [OF pairs_value [OF that(2,3)], of "ev_kind ev @ '' '' @ ev_reason ev @ '' ''" "[]"] by simp
    then show ?thesis
      unfolding observabilityText_def using that(1)
      by (intro contains_sub_concat [where p = "[]", simplified]) auto
  qed
  moreover have "contains_sub (observabilityText r) (trim_space f)"
    if "st \<in> set (my_steps (ek_runs r))" "(k, v) \<in> set (st_observation st)" "contains_sub v (trim_space f)" for st k v
  proof -
    have "contains_sub (st_kind st @ '' '' @ st_reason st @ '' '' @ pairs_text (st_observation st)) (trim_space f)"
      using contains_sub_part [OF pairs_value [OF that(2,3)], of "st_kind st @ '' '' @ st_reason st @ '' ''" "[]"] by simp
    then show ?thesis
      unfolding observabilityText_def using that(1) by (intro contains_sub_concat) auto
  qed
  ultimately show ?thesis using clean by blast
qed

end
