(* ===== verification/AppConfig.thy ===== *)
theory AppConfig
  imports WebTools
begin

text \<open>
  \<^verbatim>\<open>internal/config\<close>: the configuration read from the environment, a function from names to values that is empty where a name
  is not set, and the decoding of the key that seals credentials.
\<close>

record config =
  cfg_env :: string
  cfg_http_addr :: string
  cfg_database_url :: string
  cfg_migrations_dir :: string
  cfg_discord_enabled :: bool
  cfg_discord_sync_commands :: bool
  cfg_discord_guild_id :: string
  cfg_discord_token :: string
  cfg_discord_client_id :: string
  cfg_openai_api_key :: string
  cfg_llm_secret_key_base64 :: string
  cfg_llm_secret_key_id :: string
  cfg_web_search_provider :: string
  cfg_web_search_fallback :: string
  cfg_brave_key :: string
  cfg_searxng_url :: string

subsection \<open>The environment\<close>

definition envOrDefault :: "(string \<Rightarrow> string) \<Rightarrow> string \<Rightarrow> string \<Rightarrow> string" where
  "envOrDefault vars key fallback = (if trim_space (vars key) = [] then fallback else trim_space (vars key))"

definition boolEnv :: "(string \<Rightarrow> string) \<Rightarrow> string \<Rightarrow> bool" where
  "boolEnv vars key = (to_lower (trim_space (vars key)) \<in> {''1'', ''true'', ''yes'', ''on''})"

text \<open>The provider that is named, or else the first whose key or address is set.\<close>

definition chosen_provider :: "(string \<Rightarrow> string) \<Rightarrow> string" where
  "chosen_provider vars =
     (let named = to_lower (trim_space (vars ''GIGI_WEB_SEARCH_PROVIDER'')) in
      if named \<noteq> [] then named
      else if trim_space (vars ''BRAVE_SEARCH_API_KEY'') \<noteq> [] then ''brave''
      else if trim_space (vars ''SEARXNG_BASE_URL'') \<noteq> [] then ''searxng''
      else ''duckduckgo'')"

definition config_of :: "(string \<Rightarrow> string) \<Rightarrow> config" where
  "config_of vars = (let get = (\<lambda>key. trim_space (vars key)) in
     \<lparr>cfg_env = envOrDefault vars ''GIGI_ENV'' ''development'', cfg_http_addr = envOrDefault vars ''GIGI_HTTP_ADDR'' '':8080'',
      cfg_database_url = get ''GIGI_DATABASE_URL'', cfg_migrations_dir = envOrDefault vars ''GIGI_MIGRATIONS_DIR'' ''db/migrations'',
      cfg_discord_enabled = boolEnv vars ''GIGI_DISCORD_ENABLED'',
      cfg_discord_sync_commands = boolEnv vars ''GIGI_DISCORD_SYNC_COMMANDS'', cfg_discord_guild_id = get ''GIGI_DISCORD_GUILD_ID'',
      cfg_discord_token = get ''DISCORD_TOKEN'', cfg_discord_client_id = get ''DISCORD_CLIENT_ID'',
      cfg_openai_api_key = get ''OPENAI_API_KEY'', cfg_llm_secret_key_base64 = get ''GIGI_LLM_SECRET_KEY_BASE64'',
      cfg_llm_secret_key_id = envOrDefault vars ''GIGI_LLM_SECRET_KEY_ID'' ''local-v1'',
      cfg_web_search_provider = chosen_provider vars,
      cfg_web_search_fallback = to_lower (get ''GIGI_WEB_SEARCH_FALLBACK''), cfg_brave_key = get ''BRAVE_SEARCH_API_KEY'',
      cfg_searxng_url = get ''SEARXNG_BASE_URL''\<rparr>)"

definition check_search :: "config \<Rightarrow> unit result" where
  "check_search cfg =
     (let provider = cfg_web_search_provider cfg; fallback = cfg_web_search_fallback cfg in checks
       [must (provider \<in> {''duckduckgo'', ''brave'', ''searxng''})
          ''GIGI_WEB_SEARCH_PROVIDER must be duckduckgo, brave, or searxng, got %q'',
        must (fallback \<in> {[], ''duckduckgo'', ''searxng''})
          ''GIGI_WEB_SEARCH_FALLBACK must be blank, duckduckgo, or searxng, got %q'',
        must (\<not> (provider = ''brave'' \<and> cfg_brave_key cfg = [] \<and> fallback \<noteq> ''duckduckgo'' \<and> fallback \<noteq> ''searxng''))
          ''BRAVE_SEARCH_API_KEY is required when GIGI_WEB_SEARCH_PROVIDER is brave without search fallback'',
        must (\<not> (provider = ''searxng'' \<and> cfg_searxng_url cfg = [] \<and> fallback \<noteq> ''duckduckgo''))
          ''SEARXNG_BASE_URL is required when GIGI_WEB_SEARCH_PROVIDER is searxng without duckduckgo fallback'',
        must (\<not> (fallback = ''searxng'' \<and> cfg_searxng_url cfg = []))
          ''SEARXNG_BASE_URL is required when GIGI_WEB_SEARCH_FALLBACK is searxng''])"

definition Load :: "(string \<Rightarrow> string) \<Rightarrow> config result" where
  "Load vars =
     (let cfg = config_of vars in
      attempt (checks
        [must (cfg_database_url cfg \<noteq> []) ''GIGI_DATABASE_URL is required'',
         check_search cfg,
         must (CHR '':'' \<in> set (cfg_http_addr cfg)) ''GIGI_HTTP_ADDR must include a port, got %q'',
         must (cfg_discord_enabled cfg \<longrightarrow> cfg_discord_token cfg \<noteq> []) ''DISCORD_TOKEN is required when GIGI_DISCORD_ENABLED is true'',
         must (cfg_discord_enabled cfg \<longrightarrow> cfg_discord_client_id cfg \<noteq> [])
           ''DISCORD_CLIENT_ID is required when GIGI_DISCORD_ENABLED is true''])
      (\<lambda>_. Inr cfg))"

definition search_config_of :: "config \<Rightarrow> search_config" where
  "search_config_of cfg = \<lparr>sc_provider = cfg_web_search_provider cfg, sc_fallback = cfg_web_search_fallback cfg,
     sc_brave_key = cfg_brave_key cfg, sc_searxng_url = cfg_searxng_url cfg\<rparr>"

subsection \<open>The key\<close>

text \<open>\<^verbatim>\<open>base64.StdEncoding\<close>: line ends are skipped, and the last quantum may be padded.\<close>

definition base64_value :: "char \<Rightarrow> nat option" where
  "base64_value c =
     (let b = byte c in
      if 65 \<le> b \<and> b \<le> 90 then Some (b - 65)
      else if 97 \<le> b \<and> b \<le> 122 then Some (b - 71)
      else if 48 \<le> b \<and> b \<le> 57 then Some (b + 4)
      else if b = 43 then Some 62
      else if b = 47 then Some 63 else None)"

definition quantum :: "nat \<Rightarrow> nat \<Rightarrow> nat \<Rightarrow> nat \<Rightarrow> string" where
  "quantum a b c d = map char_of
     [(a * 4 + b div 16) mod 256, (b mod 16 * 16 + c div 4) mod 256, (c mod 4 * 64 + d) mod 256]"

fun base64_quanta :: "string \<Rightarrow> string option" where
  "base64_quanta [] = Some []"
| "base64_quanta (c1 # c2 # c3 # c4 # cs) =
     (case (base64_value c1, base64_value c2) of
        (Some a, Some b) \<Rightarrow>
          if c3 = CHR ''='' then (if c4 = CHR ''='' \<and> cs = [] then Some (take 1 (quantum a b 0 0)) else None)
          else (case base64_value c3 of
              None \<Rightarrow> None
            | Some c \<Rightarrow>
                if c4 = CHR ''='' then (if cs = [] then Some (take 2 (quantum a b c 0)) else None)
                else (case (base64_value c4, base64_quanta cs) of
                    (Some d, Some rest) \<Rightarrow> Some (quantum a b c d @ rest)
                  | _ \<Rightarrow> None))
      | _ \<Rightarrow> None)"
| "base64_quanta _ = None"

definition base64_decode :: "string \<Rightarrow> string option" where
  "base64_decode s = base64_quanta (filter (\<lambda>c. c \<notin> {CHR 0x0A, CHR 0x0D}) s)"

text \<open>\<open>None\<close> when no key is configured.\<close>

definition DecodedLLMSecretKey :: "config \<Rightarrow> string option result" where
  "DecodedLLMSecretKey cfg =
     (let v = trim_space (cfg_llm_secret_key_base64 cfg) in
      if v = [] then Inr None
      else case base64_decode v of
          None \<Rightarrow> Inl (Wrap ''GIGI_LLM_SECRET_KEY_BASE64 must be standard base64'' (Errorf ''illegal base64 data at input byte %d''))
        | Some key \<Rightarrow>
            if length key \<noteq> 32
            then Inl (Errorf ''GIGI_LLM_SECRET_KEY_BASE64 must decode to exactly 32 bytes, got %d'')
            else Inr (Some key))"

subsection \<open>A configuration that was loaded\<close>

text \<open>What a provider of a given name needs to answer at all.\<close>

definition usable_provider :: "config \<Rightarrow> string \<Rightarrow> bool" where
  "usable_provider cfg name \<longleftrightarrow> (name = ''brave'' \<longrightarrow> cfg_brave_key cfg \<noteq> []) \<and> (name = ''searxng'' \<longrightarrow> cfg_searxng_url cfg \<noteq> [])"

lemma Load_search:
  assumes "Load vars = Inr cfg"
  shows "cfg_web_search_provider cfg \<in> {''duckduckgo'', ''brave'', ''searxng''} \<and>
    usable_provider cfg (if usable_provider cfg (cfg_web_search_provider cfg) then cfg_web_search_provider cfg
      else cfg_web_search_fallback cfg) \<and>
    (cfg_web_search_fallback cfg \<noteq> [] \<longrightarrow> usable_provider cfg (cfg_web_search_fallback cfg))"
proof -
  have "check_search cfg = Inr ()" using assms by (auto simp: Load_def Let_def attempt_def split: sum.splits)
  then have "cfg_web_search_provider cfg \<in> {''duckduckgo'', ''brave'', ''searxng''}"
      "cfg_web_search_fallback cfg \<in> {[], ''duckduckgo'', ''searxng''}"
      "cfg_web_search_provider cfg = ''brave'' \<Longrightarrow> cfg_brave_key cfg = [] \<Longrightarrow> cfg_web_search_fallback cfg \<in> {''duckduckgo'', ''searxng''}"
      "cfg_web_search_provider cfg = ''searxng'' \<Longrightarrow> cfg_searxng_url cfg = [] \<Longrightarrow> cfg_web_search_fallback cfg = ''duckduckgo''"
      "cfg_web_search_fallback cfg = ''searxng'' \<Longrightarrow> cfg_searxng_url cfg \<noteq> []"
    by (simp_all add: check_search_def Let_def must_def)
  then show ?thesis by (auto simp: usable_provider_def)
qed

lemma DecodedLLMSecretKey_length: "DecodedLLMSecretKey cfg = Inr (Some key) \<Longrightarrow> length key = 32"
  by (auto simp: DecodedLLMSecretKey_def Let_def split: if_splits option.splits)

lemma base64_decode_sample:
  "base64_decode ''R2ln aQ=='' = None \<and> base64_decode (''R2ln'' @ [CHR 0x0A] @ ''aQ=='') = Some ''Gigi''"
  by code_simp

end
