(* ===== verification/Identity.thy ===== *)
theory Identity
  imports Capability
begin

text \<open>
  \<^verbatim>\<open>internal/identity/resolver.go\<close>: who a Discord event comes from, as the subject capabilities are checked for. The
  member source asks Discord for the roles of a member when the event does not say them.
\<close>

abbreviation SourceEvent :: string where "SourceEvent \<equiv> ''event''"
abbreviation SourceFetched :: string where "SourceFetched \<equiv> ''fetched''"
abbreviation ReasonGuildRequired :: string where "ReasonGuildRequired \<equiv> ''guild_required''"
abbreviation ReasonMemberLookupFailed :: string where "ReasonMemberLookupFailed \<equiv> ''member_lookup_failed''"
abbreviation ReasonUserRequired :: string where "ReasonUserRequired \<equiv> ''user_required''"

record identity_event =
  ie_guild_id :: string
  ie_channel_id :: string
  ie_user_id :: string
  ie_role_ids :: "string list"
  ie_is_owner :: bool
  ie_is_admin :: bool
  ie_require_guild :: bool

record guild_member =
  gm_user_id :: string
  gm_role_ids :: "string list"
  gm_is_owner :: bool
  gm_is_admin :: bool

record identity_result =
  ir_resolved :: bool
  ir_ambiguous :: bool
  ir_reason :: string
  ir_source :: string
  ir_subject :: subject
  ir_channel_id :: string

type_synonym 'w member_source = "string \<Rightarrow> string \<Rightarrow> 'w \<Rightarrow> guild_member result \<times> 'w"

definition no_subject :: subject where
  "no_subject = \<lparr>sub_guild_id = [], sub_user_id = [], sub_role_ids = [], sub_is_owner = False, sub_is_admin = False\<rparr>"

definition no_identity :: "string \<Rightarrow> identity_result" where
  "no_identity channelID = \<lparr>ir_resolved = False, ir_ambiguous = False, ir_reason = [], ir_source = [], ir_subject = no_subject,
     ir_channel_id = channelID\<rparr>"

definition cleanRoleIDs :: "string list \<Rightarrow> string list" where
  "cleanRoleIDs roleIDs =
     foldl (\<lambda>cleaned r. if trim_space r = [] \<or> trim_space r \<in> set cleaned then cleaned else cleaned @ [trim_space r]) [] roleIDs"

definition ambiguous :: "string \<Rightarrow> string \<Rightarrow> identity_result" where
  "ambiguous channelID reason = (no_identity channelID)\<lparr>ir_ambiguous := True, ir_reason := reason\<rparr>"

definition resolved_as :: "string \<Rightarrow> string \<Rightarrow> subject \<Rightarrow> identity_result" where
  "resolved_as channelID source sub =
     (no_identity channelID)\<lparr>ir_resolved := True, ir_source := source, ir_subject := sub\<rparr>"

definition Resolve ::
  "'w member_source option \<Rightarrow> identity_event \<Rightarrow> 'w \<Rightarrow> (identity_result \<times> goerror option) \<times> 'w" where
  "Resolve source e w =
     (let guildID = trim_space (ie_guild_id e); channelID = trim_space (ie_channel_id e); userID = trim_space (ie_user_id e);
          sub = \<lparr>sub_guild_id = guildID, sub_user_id = userID, sub_role_ids = cleanRoleIDs (ie_role_ids e),
            sub_is_owner = ie_is_owner e, sub_is_admin = ie_is_admin e\<rparr>
      in if userID = []
         then ((ambiguous channelID ReasonUserRequired, Some (Errorf ''identity user ID is required'')), w)
         else if ie_require_guild e \<and> guildID = []
         then ((ambiguous channelID ReasonGuildRequired, Some (Errorf ''guild identity is required'')), w)
         else if guildID = [] \<or> sub_role_ids sub \<noteq> [] \<or> sub_is_owner sub \<or> sub_is_admin sub \<or> source = None
         then ((resolved_as channelID SourceEvent sub, None), w)
         else case the source guildID userID w of
             (Inl err, w1) \<Rightarrow>
               ((ambiguous channelID ReasonMemberLookupFailed, Some (Wrap ''lookup guild member'' err)), w1)
           | (Inr member, w1) \<Rightarrow>
               ((resolved_as channelID SourceFetched (sub\<lparr>sub_role_ids := cleanRoleIDs (gm_role_ids member),
                   sub_is_owner := gm_is_owner member, sub_is_admin := gm_is_admin member\<rparr>), None), w1))"

subsection \<open>What a resolution may say\<close>

lemma cleanRoleIDs_set: "set (cleanRoleIDs rs) = trim_space ` set rs - {[]} \<and> distinct (cleanRoleIDs rs)"
proof -
  have "set (foldl f acc rs) = set acc \<union> (trim_space ` set rs - {[]}) \<and> distinct (foldl f acc rs)"
    if "distinct acc" and f: "f = (\<lambda>cleaned r. if trim_space r = [] \<or> trim_space r \<in> set cleaned then cleaned else cleaned @ [trim_space r])"
    for acc f using that(1)
  proof (induction rs arbitrary: acc)
    case (Cons r rs)
    then show ?case using Cons.IH [of "f acc r"] by (auto simp: f)
  qed simp
  from this [OF _ refl, of "[]"] show ?thesis by (simp add: cleanRoleIDs_def)
qed

lemma Resolve_unresolved:
  "Resolve source e w = ((r, err), w') \<Longrightarrow> ir_resolved r = (err = None) \<and> (ir_resolved r \<or> ir_subject r = no_subject)"
  by (auto simp: Resolve_def Let_def ambiguous_def resolved_as_def no_identity_def split: if_splits prod.splits sum.splits)

end
