(* ===== verification/DiscordRouter.thy ===== *)
theory DiscordRouter
  imports AuditLog Identity "HOL-Library.Word" "HOL-Library.List_Lexorder" "HOL-Library.Char_ord"
begin

unbundle bit_operations_syntax

text \<open>
  The way of an interaction through \<^verbatim>\<open>internal/discord\<close>: the gate of \<^verbatim>\<open>authorization.go\<close>, which resolves who asks and
  checks a capability, and the router of \<^verbatim>\<open>commands.go\<close>. The records of \<^verbatim>\<open>discordgo\<close> have the fields the code reads. What a
  handler and the reply to Discord do happens in a world \<open>'w\<close>; the goroutine of \<^verbatim>\<open>AfterRespond\<close> runs when the reply is sent.
\<close>

subsection \<open>Interactions and responses\<close>

datatype interaction_option =
  IntOption (io_name: string) (io_type: nat) (io_value: string) (io_options: "interaction_option list")

record interaction_attachment =
  ia_id :: string
  ia_url :: string
  ia_filename :: string
  ia_content_type :: string
  ia_size :: int

text \<open>The methods of a Discord session that manage roles; a created role is its ID and name.\<close>

record 'w role_service =
  GuildRoleCreate :: "string \<Rightarrow> string \<Rightarrow> 'w \<Rightarrow> (string \<times> string) result \<times> 'w"
  GuildMemberRoleAdd :: "string \<Rightarrow> string \<Rightarrow> string \<Rightarrow> 'w \<Rightarrow> unit result \<times> 'w"
  GuildMemberRoleRemove :: "string \<Rightarrow> string \<Rightarrow> string \<Rightarrow> 'w \<Rightarrow> unit result \<times> 'w"

record 'w interaction =
  ix_guild_id :: string
  ix_channel_id :: string
  ix_user_id :: string
  ix_role_ids :: "string list"
  ix_has_administrator :: bool
  ix_name :: string
  ix_text :: string
  ix_options :: "interaction_option list"
  ix_attachments :: "(string \<times> interaction_attachment) list"
  ix_role_service :: "'w role_service option"

record modal_interaction =
  mi_guild_id :: string
  mi_channel_id :: string
  mi_user_id :: string
  mi_role_ids :: "string list"
  mi_has_administrator :: bool
  mi_name :: string
  mi_custom_id :: string
  mi_values :: gomap

record embed =
  em_title :: string
  em_description :: string
  em_color :: int
  em_fields :: "(string \<times> string) list"

text \<open>A modal: its ID, its title and the fields with their labels and whether they are required.\<close>

record modal_response =
  mo_custom_id :: string
  mo_title :: string
  mo_inputs :: "(string \<times> string \<times> bool) list"

type_synonym 'w editor = "string \<Rightarrow> embed list \<Rightarrow> 'w \<Rightarrow> unit result \<times> 'w"

record 'w command_response =
  cr_content :: string
  cr_ephemeral :: bool
  cr_embeds :: "embed list"
  cr_modal :: "modal_response option"
  cr_deferred :: bool
  cr_after :: "('w editor option \<Rightarrow> 'w \<Rightarrow> 'w) option"

definition empty_reply :: "'w command_response" where
  "empty_reply = \<lparr>cr_content = [], cr_ephemeral = False, cr_embeds = [], cr_modal = None, cr_deferred = False, cr_after = None\<rparr>"

definition reply_text :: "string \<Rightarrow> 'w command_response" where
  "reply_text s = empty_reply\<lparr>cr_content := s\<rparr>"

definition private_text :: "string \<Rightarrow> 'w command_response" where
  "private_text s = empty_reply\<lparr>cr_content := s, cr_ephemeral := True\<rparr>"

definition optionByName :: "interaction_option list \<Rightarrow> string \<Rightarrow> string" where
  "optionByName os name = (case find (\<lambda>o'. io_name o' = name) os of None \<Rightarrow> [] | Some o' \<Rightarrow> trim_space (io_value o'))"

subsection \<open>The authorizer\<close>

type_synonym 'w audit_recorder = "audit_event \<Rightarrow> 'w \<Rightarrow> unit result \<times> 'w"
type_synonym 'w decision_maker = "subject \<Rightarrow> capability \<Rightarrow> 'w \<Rightarrow> (decision \<times> goerror option) \<times> 'w"
type_synonym 'w command_authorizer = "'w interaction \<Rightarrow> capability \<Rightarrow> 'w \<Rightarrow> (decision \<times> goerror option) \<times> 'w"

record 'w capability_authorizer =
  ca_resolver :: "'w member_source option"
  ca_checker :: "'w decision_maker option"
  ca_audit :: "'w audit_recorder option"

definition NewCapabilityAuthorizer :: "'w decision_maker option \<Rightarrow> 'w audit_recorder option \<Rightarrow> 'w capability_authorizer" where
  "NewCapabilityAuthorizer checker recorder = \<lparr>ca_resolver = None, ca_checker = checker, ca_audit = recorder\<rparr>"

definition permission_event :: "'w interaction \<Rightarrow> capability \<Rightarrow> decision \<Rightarrow> goerror option \<Rightarrow> audit_event" where
  "permission_event i required d err =
     \<lparr>ev_kind = ''discord.permission.check'', ev_guild_id = ix_guild_id i, ev_actor_id = ix_user_id i,
      ev_status = (if err \<noteq> None then StatusFailed else if allowed d then StatusAllowed else StatusDenied),
      ev_reason = dec_reason d, ev_metadata = [(''capability'', required), (''command'', ix_name i)], ev_request_id = []\<rparr>"

definition record_check ::
  "'w capability_authorizer \<Rightarrow> 'w interaction \<Rightarrow> capability \<Rightarrow> decision \<Rightarrow> goerror option \<Rightarrow> 'w \<Rightarrow> goerror option \<times> 'w" where
  "record_check a i required d err w =
     (case ca_audit a of
        None \<Rightarrow> (err, w)
      | Some rec \<Rightarrow>
          (case rec (permission_event i required d err) w of
             (Inr _, w1) \<Rightarrow> (err, w1)
           | (Inl e, w1) \<Rightarrow>
               (Some (case err of
                  Some c \<Rightarrow> Wrap ''%w; record permission audit: %v'' c
                | None \<Rightarrow> Wrap ''record permission audit'' e), w1)))"

definition authorizer_Check :: "'w capability_authorizer \<Rightarrow> 'w command_authorizer" where
  "authorizer_Check a i required w =
     (let finish = (\<lambda>d err w'. case record_check a i required d err w' of (e, w2) \<Rightarrow> ((d, e), w2)) in
      case Resolve (ca_resolver a) \<lparr>ie_guild_id = ix_guild_id i, ie_channel_id = ix_channel_id i, ie_user_id = ix_user_id i,
             ie_role_ids = ix_role_ids i, ie_is_owner = False, ie_is_admin = ix_has_administrator i, ie_require_guild = True\<rparr> w of
        ((r, Some e), w1) \<Rightarrow>
          finish \<lparr>allowed = False, dec_capability = required, dec_reason = ReasonUnknownIdentity\<rparr> (Some e) w1
      | ((r, None), w1) \<Rightarrow>
          (case ca_checker a of
             None \<Rightarrow> finish \<lparr>allowed = False, dec_capability = required, dec_reason = ReasonStoreError\<rparr>
               (Some (Errorf ''capability checker is required'')) w1
           | Some check \<Rightarrow> (case check (ir_subject r) required w1 of ((d, err), w2) \<Rightarrow> finish d err w2)))"

subsection \<open>The router\<close>

datatype command_option =
  CmdOption (op_type: nat) (op_name: string) (op_description: string) (op_required: bool) (op_choices: "string list")
    (op_options: "command_option list")

type_synonym 'w command_handler = "'w interaction \<Rightarrow> 'w \<Rightarrow> 'w command_response result \<times> 'w"
type_synonym 'w modal_handler = "modal_interaction \<Rightarrow> 'w \<Rightarrow> 'w command_response result \<times> 'w"

record 'w command =
  co_name :: string
  co_description :: string
  co_required :: capability
  co_required_for :: "('w interaction \<Rightarrow> capability) option"
  co_required_for_modal :: "(modal_interaction \<Rightarrow> capability) option"
  co_modal_prefixes :: "string list"
  co_options :: "command_option list"
  co_handle :: "'w command_handler option"
  co_handle_modal :: "'w modal_handler option"

record 'w command_router =
  rt_commands :: "(string \<times> 'w command) list"
  rt_authorizer :: "'w command_authorizer option"

fun add_commands :: "'w command list \<Rightarrow> (string \<times> 'w command) list \<Rightarrow> (string \<times> 'w command) list result" where
  "add_commands [] m = Inr m"
| "add_commands (c # cs) m =
     (let name = trim_space (co_name c) in
      attempt (checks [must (name \<noteq> []) ''command name is required'',
          must (co_description c \<noteq> []) ''command %q description is required'',
          must (co_handle c \<noteq> None) ''command %q handler is required'',
          must (map_of m name = None) ''duplicate command %q''])
        (\<lambda>_. add_commands cs (mput name (c\<lparr>co_name := name\<rparr>) m)))"

definition NewCommandRouter :: "'w command list \<Rightarrow> 'w command_router result" where
  "NewCommandRouter cs = attempt (add_commands cs []) (\<lambda>m. Inr \<lparr>rt_commands = m, rt_authorizer = None\<rparr>)"

definition SetAuthorizer :: "'w command_router \<Rightarrow> 'w command_authorizer option \<Rightarrow> 'w command_router" where
  "SetAuthorizer r a = r\<lparr>rt_authorizer := a\<rparr>"

definition CoreCommands :: "'w command list" where
  "CoreCommands = [\<lparr>co_name = ''ping'', co_description = ''Check whether Gigi is online.'', co_required = [],
     co_required_for = None, co_required_for_modal = None, co_modal_prefixes = [], co_options = [],
     co_handle = Some (\<lambda>_ w. (Inr (reply_text ''pong''), w)), co_handle_modal = None\<rparr>]"

definition ApplicationCommands :: "'w command_router \<Rightarrow> (string \<times> string \<times> command_option list) list" where
  "ApplicationCommands r =
     map (\<lambda>(n, c). (co_name c, co_description c, co_options c)) (sort_key fst (rt_commands r))"

text \<open>The members of a session: replying, editing the reply, and managing roles if it can.\<close>

datatype discord_reply =
  ModalReply modal_response
| MessageReply string "embed list" bool bool

record 'w responder =
  rp_respond :: "discord_reply \<Rightarrow> 'w \<Rightarrow> unit result \<times> 'w"
  rp_edit :: "'w editor option"
  rp_roles :: "'w role_service option"

text \<open>An option of Discord's data carries text or another value, written out by \<^verbatim>\<open>fmt.Sprint\<close>.\<close>

datatype option_value = NoValue | TextValue string | OtherValue string

datatype discord_option = DiscordOption string nat option_value "discord_option option list"

record discord_member =
  dm_user_id :: "string option"
  dm_roles :: "string list"
  dm_permissions :: "64 word"

datatype modal_component = ActionsRow "modal_component list" | TextInput string string | OtherComponent

datatype interaction_data =
  CommandData string "discord_option option list" "(string \<times> interaction_attachment option) list"
| ModalData string "modal_component list"
| OtherData

record interaction_event =
  ic_guild_id :: string
  ic_channel_id :: string
  ic_member :: "discord_member option"
  ic_user_id :: "string option"
  ic_data :: interaction_data

definition interactionUserID :: "interaction_event \<Rightarrow> string" where
  "interactionUserID e =
     (case Option.bind (ic_member e) dm_user_id of
        Some u \<Rightarrow> u | None \<Rightarrow> (case ic_user_id e of Some u \<Rightarrow> u | None \<Rightarrow> []))"

definition interactionRoleIDs :: "interaction_event \<Rightarrow> string list" where
  "interactionRoleIDs e = (case ic_member e of None \<Rightarrow> [] | Some m \<Rightarrow> dm_roles m)"

definition interactionHasAdministrator :: "interaction_event \<Rightarrow> bool" where
  "interactionHasAdministrator e = (case ic_member e of None \<Rightarrow> False | Some m \<Rightarrow> dm_permissions m AND 8 \<noteq> 0)"

definition optionValue :: "option_value \<Rightarrow> string" where
  "optionValue v = (case v of NoValue \<Rightarrow> [] | TextValue s \<Rightarrow> s | OtherValue s \<Rightarrow> s)"

fun interactionOptions :: "discord_option option list \<Rightarrow> interaction_option list" where
  "interactionOptions [] = []"
| "interactionOptions (None # os) = interactionOptions os"
| "interactionOptions (Some (DiscordOption name t v sub) # os) =
     IntOption name t (optionValue v) (interactionOptions sub) # interactionOptions os"

definition interactionAttachments :: "(string \<times> interaction_attachment option) list \<Rightarrow> (string \<times> interaction_attachment) list" where
  "interactionAttachments m = List.map_filter (\<lambda>(k, a). map_option (Pair k) a) m"

fun row_values :: "modal_component list \<Rightarrow> gomap \<Rightarrow> gomap" where
  "row_values [] m = m"
| "row_values (TextInput i v # cs) m = row_values cs (mput i (trim_space v) m)"
| "row_values (_ # cs) m = row_values cs m"

fun modal_values :: "modal_component list \<Rightarrow> gomap \<Rightarrow> gomap" where
  "modal_values [] m = m"
| "modal_values (ActionsRow cs # rows) m = modal_values rows (row_values cs m)"
| "modal_values (_ # rows) m = modal_values rows m"

definition respond :: "'w responder \<Rightarrow> 'w command_response \<Rightarrow> 'w \<Rightarrow> unit result \<times> 'w" where
  "respond resp r w =
     (case cr_modal r of
        Some m \<Rightarrow> rp_respond resp (ModalReply m) w
      | None \<Rightarrow>
          db_bind (rp_respond resp (MessageReply (cr_content r) (cr_embeds r) (cr_ephemeral r) (cr_deferred r)) w) (\<lambda>_ w1.
            (Inr (), case cr_after r of None \<Rightarrow> w1 | Some after \<Rightarrow> after (rp_edit resp) w1)))"

definition filled :: "'w command_response \<Rightarrow> 'w command_response" where
  "filled r =
     (if trim_space (cr_content r) = [] \<and> cr_embeds r = [] \<and> \<not> cr_deferred r then r\<lparr>cr_content := ''ok''\<rparr> else r)"

text \<open>The capability a call needs: the one the command computes, else its fixed one; \<open>None\<close> if it computes none and has none.\<close>

definition needed_capability :: "capability \<Rightarrow> capability option \<Rightarrow> capability option" where
  "needed_capability fixed dynamic =
     (case dynamic of
        None \<Rightarrow> Some fixed
      | Some c \<Rightarrow> if c \<noteq> [] then Some c else if fixed = [] then None else Some fixed)"

text \<open>The gate before a handler: \<open>None\<close> lets it run, and otherwise the reply it gives is sent.\<close>

definition gate ::
  "'w command_authorizer option \<Rightarrow> 'w interaction \<Rightarrow> capability option \<Rightarrow> 'w \<Rightarrow> 'w command_response option \<times> 'w" where
  "gate authorizer i needed w =
     (case needed of
        None \<Rightarrow> (Some (private_text ''Permission denied.''), w)
      | Some c \<Rightarrow>
          if c = [] then (None, w)
          else case authorizer of
              None \<Rightarrow> (Some (private_text ''Permission denied.''), w)
            | Some check \<Rightarrow>
                (case check i c w of
                   ((d, Some e), w1) \<Rightarrow> (Some (private_text ''Permission check failed.''), w1)
                 | ((d, None), w1) \<Rightarrow> (if allowed d then None else Some (private_text ''Permission denied.''), w1)))"

definition run_handler ::
  "'w responder \<Rightarrow> bool \<Rightarrow> ('w \<Rightarrow> 'w command_response result \<times> 'w) \<Rightarrow> 'w \<Rightarrow> unit result \<times> 'w" where
  "run_handler resp guarded handle w =
     (case handle w of
        (Inl e, w1) \<Rightarrow> respond resp ((reply_text ''Command failed.'')\<lparr>cr_ephemeral := guarded\<rparr>) w1
      | (Inr r, w1) \<Rightarrow> respond resp (filled r) w1)"

text \<open>The command a modal belongs to, with its handler; the code goes through a map, here in the order of the list.\<close>

definition commandForModal :: "'w command_router \<Rightarrow> string \<Rightarrow> 'w command option" where
  "commandForModal r customID =
     find (\<lambda>c. co_handle_modal c \<noteq> None \<and> list_ex (\<lambda>p. prefix p customID) (co_modal_prefixes c)) (map snd (rt_commands r))"

definition modal_interaction_of :: "interaction_event \<Rightarrow> 'w command \<Rightarrow> string \<Rightarrow> modal_component list \<Rightarrow> modal_interaction" where
  "modal_interaction_of e c customID comps =
     \<lparr>mi_guild_id = ic_guild_id e, mi_channel_id = ic_channel_id e, mi_user_id = interactionUserID e,
      mi_role_ids = interactionRoleIDs e, mi_has_administrator = interactionHasAdministrator e, mi_name = co_name c,
      mi_custom_id = customID, mi_values = modal_values comps []\<rparr>"

definition interaction_of_modal :: "modal_interaction \<Rightarrow> 'w interaction" where
  "interaction_of_modal m =
     \<lparr>ix_guild_id = mi_guild_id m, ix_channel_id = mi_channel_id m, ix_user_id = mi_user_id m, ix_role_ids = mi_role_ids m,
      ix_has_administrator = mi_has_administrator m, ix_name = mi_name m, ix_text = [], ix_options = [], ix_attachments = [],
      ix_role_service = None\<rparr>"

definition handleModalInteraction ::
  "'w command_router \<Rightarrow> 'w responder \<Rightarrow> interaction_event \<Rightarrow> string \<Rightarrow> modal_component list \<Rightarrow> 'w \<Rightarrow> unit result \<times> 'w" where
  "handleModalInteraction r resp e customID comps w =
     (case commandForModal r customID of
        None \<Rightarrow> respond resp (private_text ''Interaction not supported yet.'') w
      | Some c \<Rightarrow>
          (let m = modal_interaction_of e c customID comps;
               needed = needed_capability (co_required c) (map_option (\<lambda>f. f m) (co_required_for_modal c)) in
           case gate (rt_authorizer r) (interaction_of_modal m) needed w of
             (Some refusal, w1) \<Rightarrow> respond resp refusal w1
           | (None, w1) \<Rightarrow> run_handler resp (needed \<noteq> Some []) (the (co_handle_modal c) m) w1))"

definition interaction_of :: "interaction_event \<Rightarrow> 'w responder \<Rightarrow> string \<Rightarrow> discord_option option list \<Rightarrow>
    (string \<times> interaction_attachment option) list \<Rightarrow> 'w interaction" where
  "interaction_of e resp name opts atts =
     \<lparr>ix_guild_id = ic_guild_id e, ix_channel_id = ic_channel_id e, ix_user_id = interactionUserID e,
      ix_role_ids = interactionRoleIDs e, ix_has_administrator = interactionHasAdministrator e, ix_name = name, ix_text = [],
      ix_options = interactionOptions opts, ix_attachments = interactionAttachments atts, ix_role_service = rp_roles resp\<rparr>"

definition HandleInteraction :: "'w command_router \<Rightarrow> 'w responder \<Rightarrow> interaction_event option \<Rightarrow> 'w \<Rightarrow> unit result \<times> 'w" where
  "HandleInteraction r resp event w =
     (case event of
        None \<Rightarrow> (Inr (), w)
      | Some e \<Rightarrow>
          (case ic_data e of
             ModalData customID comps \<Rightarrow> handleModalInteraction r resp e customID comps w
           | OtherData \<Rightarrow> (Inr (), w)
           | CommandData name opts atts \<Rightarrow>
               (case map_of (rt_commands r) name of
                  None \<Rightarrow> respond resp (reply_text ''Command not supported yet.'') w
                | Some c \<Rightarrow>
                    (let i = interaction_of e resp name opts atts;
                         needed = needed_capability (co_required c) (map_option (\<lambda>f. f i) (co_required_for c)) in
                     case gate (rt_authorizer r) i needed w of
                       (Some refusal, w1) \<Rightarrow> respond resp refusal w1
                     | (None, w1) \<Rightarrow> run_handler resp (needed \<noteq> Some []) (the (co_handle c) i) w1))))"

subsection \<open>The gate over the stored grants\<close>

text \<open>The authorizer of \<^verbatim>\<open>internal/app\<close>: the evaluator over the SQL grants, and a recorder over the rest of the world.\<close>

definition sql_authorizer :: "'d audit_recorder option \<Rightarrow> (grant_db \<times> 'd) command_authorizer" where
  "sql_authorizer rec = authorizer_Check (NewCapabilityAuthorizer
     (Some (\<lambda>s c. on_left (Check (Some SQLGrantStore) s c))) (map_option (\<lambda>r e. on_right (r e)) rec))"

definition entitled_caller :: "grant_tables \<Rightarrow> 'w interaction \<Rightarrow> capability \<Rightarrow> bool" where
  "entitled_caller t i c \<longleftrightarrow> ix_has_administrator i \<or>
     granted UserGrants t (trim_space (ix_guild_id i)) (trim_space (ix_user_id i)) (trim_space c) \<or>
     list_ex (\<lambda>r. granted RoleGrants t (trim_space (ix_guild_id i)) (trim_space r) (trim_space c)) (ix_role_ids i)"

lemma queryCapabilities_tables: "tables (snd (queryCapabilities (select_capabilities tb g xs) db)) = tables db"
  by (auto simp: queryCapabilities_def db_bind_def select_capabilities_def sql_exec_def split: prod.splits sum.splits option.splits
      dest: next_faultD)

lemma Check_tables: "tables (snd (Check (Some SQLGrantStore) s c db)) = tables db"
proof -
  have u: "tables (snd (UserCapabilities SQLGrantStore g u db)) = tables db" for g u and db :: grant_db
    by (simp add: SQLGrantStore_def sql_user_capabilities_def queryCapabilities_tables)
  have r: "tables (snd (RoleCapabilities SQLGrantStore g rs db)) = tables db" for g rs and db :: grant_db
    by (simp add: SQLGrantStore_def sql_role_capabilities_def queryCapabilities_tables Let_def)
  show ?thesis
    using u [of "sub_guild_id s" "sub_user_id s" db] r [of "sub_guild_id s" "sub_role_ids s"]
    by (auto simp: Check_def check_roles_def Let_def split: prod.split sum.split) (metis snd_conv)+
qed

lemma Resolve_event:
  assumes "Resolve None e w = ((r, None), w1)"
  shows "w1 = w \<and> sub_guild_id (ir_subject r) = trim_space (ie_guild_id e) \<and> sub_user_id (ir_subject r) = trim_space (ie_user_id e) \<and>
    sub_role_ids (ir_subject r) = cleanRoleIDs (ie_role_ids e) \<and> sub_is_owner (ir_subject r) = ie_is_owner e \<and>
    sub_is_admin (ir_subject r) = ie_is_admin e"
  using assms by (auto simp: Resolve_def Let_def resolved_as_def no_identity_def split: if_splits)

lemma record_check_tables:
  "record_check (NewCapabilityAuthorizer ch (map_option (\<lambda>r e. on_right (r e)) rec)) i c d err w = (e, w1) \<Longrightarrow>
     fst w1 = fst w \<and> (err \<noteq> None \<longrightarrow> e \<noteq> None)"
  by (cases rec) (auto simp: record_check_def NewCapabilityAuthorizer_def split: prod.splits sum.splits option.splits dest!: on_rightD)

lemma sql_authorizer_refuses:
  assumes run: "sql_authorizer rec i c w = ((d, err), w1)" and not: "\<not> entitled_caller (tables (fst w)) i c"
  shows "tables (fst w1) = tables (fst w) \<and> (err \<noteq> None \<or> \<not> allowed d)"
proof -
  let ?e = "\<lparr>ie_guild_id = ix_guild_id i, ie_channel_id = ix_channel_id i, ie_user_id = ix_user_id i, ie_role_ids = ix_role_ids i,
      ie_is_owner = False, ie_is_admin = ix_has_administrator i, ie_require_guild = True\<rparr>"
  let ?a = "NewCapabilityAuthorizer (Some (\<lambda>s c. on_left (Check (Some SQLGrantStore) s c))) (map_option (\<lambda>r e. on_right (r e)) rec)"
  have resolver: "ca_resolver ?a = None" and checker: "ca_checker ?a = Some (\<lambda>s c. on_left (Check (Some SQLGrantStore) s c))"
    by (simp_all add: NewCapabilityAuthorizer_def)
  obtain r re w0 where res: "Resolve None ?e w = ((r, re), w0)" by (metis surj_pair)
  show ?thesis
  proof (cases re)
    case (Some e)
    have "w0 = w" using res Some by (auto simp: Resolve_def Let_def split: if_splits)
    then show ?thesis
      using run res Some record_check_tables [of _ rec i c _ _ w]
      by (auto simp: sql_authorizer_def authorizer_Check_def resolver Let_def split: prod.splits)
  next
    case None
    note e = Resolve_event [OF res [unfolded None]]
    obtain d0 err0 db where check: "Check (Some SQLGrantStore) (ir_subject r) c (fst w) = ((d0, err0), db)" by (metis surj_pair)
    have db: "tables db = tables (fst w)" using Check_tables [of "ir_subject r" c "fst w"] check by simp
    have denied: "\<not> allowed d0"
    proof (cases err0)
      case (Some x)
      then show ?thesis using Check_error_denied [of "Some SQLGrantStore" "ir_subject r" c "fst w" d0 x db] check by simp
    next
      case None
      have "role \<in> set (cleanRoleIDs (ix_role_ids i)) \<Longrightarrow> \<exists>r0\<in>set (ix_role_ids i). role = trim_space r0" for role
        using cleanRoleIDs_set [of "ix_role_ids i"] by auto
      then show ?thesis
        using sql_grants.Check_exact [OF check [unfolded None]] not e
        unfolding sql_grants.entitled_def entitled_caller_def list_ex_iff by fastforce
    qed
    have "on_left (Check (Some SQLGrantStore) (ir_subject r) c) w = ((d0, err0), db, snd w)"
      using check by (simp add: on_left_def)
    then obtain e2 where fin: "record_check ?a i c d0 err0 (db, snd w) = (e2, w1)" "err = e2" "d = d0"
      using run res None e
      by (auto simp: sql_authorizer_def authorizer_Check_def resolver checker Let_def split: prod.splits)
    then show ?thesis using record_check_tables [OF fin(1)] denied db by simp
  qed
qed

text \<open>C24: a command that needs a capability does not run for a caller who is no administrator and to whom no stored grant
  gives it, directly or through a role: the caller gets a private refusal, and up to that reply the grants are as before.\<close>

theorem ungranted_commands_do_not_run:
  assumes router: "map_of (rt_commands r) name = Some c" "rt_authorizer r = Some (sql_authorizer rec)"
    and needs: "co_required c \<noteq> []" "co_required_for c = None"
    and event: "ic_data e = CommandData name opts atts"
    and not: "\<not> entitled_caller (tables (fst w)) (interaction_of e resp name opts atts) (co_required c)"
  shows "\<exists>refusal w1. HandleInteraction r resp (Some e) w = respond resp (private_text refusal) w1 \<and>
    refusal \<in> {''Permission denied.'', ''Permission check failed.''} \<and> tables (fst w1) = tables (fst w)"
proof -
  let ?i = "interaction_of e resp name opts atts"
  obtain d err w1 where check: "sql_authorizer rec ?i (co_required c) w = ((d, err), w1)" by (metis surj_pair)
  note refused = sql_authorizer_refuses [OF check not]
  obtain refusal where "gate (rt_authorizer r) ?i (needed_capability (co_required c) None) w = (Some (private_text refusal), w1)"
      "refusal \<in> {''Permission denied.'', ''Permission check failed.''}"
    using refused check needs(1) router(2) by (cases err) (auto simp: gate_def needed_capability_def)
  then show ?thesis
    using refused by (intro exI [of _ refusal] exI [of _ w1]) (simp add: HandleInteraction_def event router(1) needs(2) Let_def)
qed

definition guarded_command :: "(grant_db \<times> unit) command" where
  "guarded_command = \<lparr>co_name = ''permissions'', co_description = ''Manage.'', co_required = CapabilityManage,
     co_required_for = None, co_required_for_modal = None, co_modal_prefixes = [], co_options = [],
     co_handle = Some (\<lambda>_ w. (Inr (reply_text ''done''), w)), co_handle_modal = None\<rparr>"

definition guarded_router :: "(grant_db \<times> unit) command_router" where
  "guarded_router = \<lparr>rt_commands = [(''permissions'', guarded_command)], rt_authorizer = Some (sql_authorizer None)\<rparr>"

definition mute_responder :: "(grant_db \<times> unit) responder" where
  "mute_responder = \<lparr>rp_respond = (\<lambda>_ w. (Inr (), w)), rp_edit = None, rp_roles = None\<rparr>"

definition stranger_event :: interaction_event where
  "stranger_event = \<lparr>ic_guild_id = ''g'', ic_channel_id = ''c'', ic_member = Some \<lparr>dm_user_id = Some ''u'', dm_roles = [''r''],
     dm_permissions = 1024\<rparr>, ic_user_id = None, ic_data = CommandData ''permissions'' [] []\<rparr>"

definition other_grants :: grant_tables where
  "other_grants = \<lparr>guilds = [''g''], role_grants = [\<lparr>grant_id = ''1'', grant_guild = ''g'', grant_target = ''r'',
     grant_cap = ''web.search'', granted_by = ''o''\<rparr>], user_grants = []\<rparr>"

lemma ungranted_commands_do_not_run_witness:
  "\<exists>refusal w1. HandleInteraction guarded_router mute_responder (Some stranger_event)
      (\<lparr>tables = other_grants, clock = 0, faults = []\<rparr>, ()) = respond mute_responder (private_text refusal) w1 \<and>
    refusal \<in> {''Permission denied.'', ''Permission check failed.''} \<and> tables (fst w1) = other_grants"
proof -
  have "\<not> entitled_caller other_grants (interaction_of stranger_event mute_responder ''permissions'' [] []) CapabilityManage"
    by (simp add: entitled_caller_def interaction_of_def stranger_event_def interactionHasAdministrator_def other_grants_def
        interactionRoleIDs_def granted_def go_eval)
  then have "\<exists>refusal w1. HandleInteraction guarded_router mute_responder (Some stranger_event)
      (\<lparr>tables = other_grants, clock = 0, faults = []\<rparr>, ()) = respond mute_responder (private_text refusal) w1 \<and>
    refusal \<in> {''Permission denied.'', ''Permission check failed.''} \<and>
    tables (fst w1) = tables (fst (\<lparr>tables = other_grants, clock = 0, faults = []\<rparr>, ()))"
    by (intro ungranted_commands_do_not_run [where c = guarded_command and name = "''permissions''" and rec = None and opts = "[]" and atts = "[]"])
      (simp_all add: guarded_router_def guarded_command_def stranger_event_def)
  then show ?thesis by simp
qed

end
