(* ===== verification/DiscordText.thy ===== *)
theory DiscordText
  imports AgentTrace GoText DiscordRouter
begin

text \<open>
  What \<^verbatim>\<open>internal/discord\<close> shows: text made safe for a message, and the embeds of \<^verbatim>\<open>agent_trace.go\<close> that show the trace of
  an agent's run. The details of an event are gone through in the order of the list, where the code's map has none.
\<close>

subsection \<open>Text\<close>

definition safe_inline :: "string \<Rightarrow> string" where
  "safe_inline value = replace_char (CHR 0x60) (CHR 0x27) (trim_space value)"

definition safe_inline_limit :: "string \<Rightarrow> nat \<Rightarrow> string" where
  "safe_inline_limit value0 limit =
     (let value = safe_inline value0 in
      if limit = 0 \<or> rune_count value \<le> limit then value
      else string_of_runes (take limit (runes value)) @ ''...'')"

definition ticked :: "string \<Rightarrow> string" where
  "ticked s = [CHR 0x60] @ s @ [CHR 0x60]"

definition ticked_inline :: "string \<Rightarrow> string" where
  "ticked_inline s = ticked (safe_inline s)"

definition boundEmbedValue :: "string \<Rightarrow> string" where
  "boundEmbedValue value0 =
     (let value = trim_space value0 in if length value > 1000 then take 997 value @ ''...'' else value)"

definition safeBlockLine :: "string \<Rightarrow> string" where
  "safeBlockLine value0 =
     (let value = trim_space (replace_char (CHR 0x60) (CHR 0x27) (replace_char (CHR 0x0D) (CHR 0x20)
            (replace_char (CHR 0x0A) (CHR 0x20) value0)))
      in if length value > 220 then take 217 value @ ''...'' else value)"

text \<open>\<open>tenths\<close> is \<^verbatim>\<open>%.1f\<close> of thousandths.\<close>

definition formatMillis :: "(int \<Rightarrow> string) \<Rightarrow> int \<Rightarrow> string" where
  "formatMillis tenths v = (if v \<le> 0 then ''0ms'' else if v \<ge> 1000 then tenths v @ ''s'' else int_str v @ ''ms'')"

lemma safe_inline_no_tick: "CHR 0x60 \<notin> set (safe_inline s)"
  by (auto simp: safe_inline_def replace_char_def)

subsection \<open>The trace of a run\<close>

definition agentTraceColor :: "string \<Rightarrow> int" where
  "agentTraceColor status =
     (let s = trim_space status in
      if s \<in> {''failed'', ''denied'', ''canceled''} then 0xD83A34 else if s = ''succeeded'' then 0x2E7D32 else 0x5865F2)"

definition detail :: "trace_event \<Rightarrow> string \<Rightarrow> string" where
  "detail e k = mget (te_details e) k"

definition noted :: "string \<Rightarrow> string \<Rightarrow> string" where
  "noted label v = (if v \<noteq> [] then label @ ticked_inline v else [])"

definition formatAgentTraceEvent :: "trace_event \<Rightarrow> string" where
  "formatAgentTraceEvent e = join '' '' ([''-''] @
     (if te_step_index e > 0 then [ticked (int_str (te_step_index e))] else []) @
     (if te_phase e \<noteq> [] then [ticked_inline (te_phase e)] else []) @
     (if te_status e \<noteq> [] then [safe_inline (te_status e)] else []) @
     (if te_reason e \<noteq> [] then [''reason='' @ ticked_inline (te_reason e)] else []) @
     (if te_tool_name e \<noteq> [] then [''tool='' @ ticked_inline (te_tool_name e)] else []) @
     (if te_tool_kind e \<noteq> [] then [''kind='' @ ticked_inline (te_tool_kind e)] else []) @
     (if te_capability e \<noteq> [] then [''capability='' @ ticked_inline (te_capability e)] else []) @
     (if te_routing_mode e \<noteq> [] then [''routing='' @ ticked_inline (te_routing_mode e)] else []))"

text \<open>The first line and the status, and events until there are twelve lines; one event is always shown.\<close>

definition formatAgentTrace :: "trace_run \<Rightarrow> string" where
  "formatAgentTrace r =
     (let head = [''Last agent run '' @ ticked_inline (tn_run_id r) @ '':''] @
            (if tn_status r \<noteq> [] then [''status: '' @ ticked_inline (tn_status r)] else [])
      in join [CHR 0x0A] (head @ take (12 - length head) (map formatAgentTraceEvent (tn_events r))))"

definition timeline_line :: "trace_event \<Rightarrow> string" where
  "timeline_line e = ticked_inline (te_phase e) @ '' '' @ safe_inline (te_status e) @
     noted '' reason='' (te_reason e) @ noted '' tool='' (te_tool_name e)"

definition formatAgentTraceTimeline :: "trace_event list \<Rightarrow> string" where
  "formatAgentTraceTimeline es = boundEmbedValue (join [CHR 0x0A] (take 8 (map timeline_line es)))"

definition phase_line :: "string \<Rightarrow> trace_event \<Rightarrow> string list" where
  "phase_line phase e =
     (if phase = ''plan''
      then [''intent='' @ ticked_inline (te_intent e) @ '' routing='' @ ticked_inline (te_routing_mode e) @
        (if detail e ''llm_provider'' \<noteq> []
         then '' model='' @ ticked_inline (detail e ''llm_model'') @ '' provider='' @ ticked_inline (detail e ''llm_provider'') else []) @
        noted '' attempt='' (detail e ''llm_attempt'')]
      else if phase = ''tool''
      then [ticked_inline (te_tool_name e) @ '' '' @ safe_inline (te_status e) @ noted '' query='' (detail e ''arg_query'') @
        noted '' results='' (detail e ''result_count'') @ noted '' provider='' (detail e ''error_provider'') @
        noted '' error='' (detail e ''error_kind'')]
      else if phase = ''answer''
      then [''mode='' @ ticked_inline (detail e ''answer_mode'') @ noted '' fallback='' (detail e ''fallback_reason'') @
        noted '' model='' (detail e ''llm_model'')]
      else [])"

definition block_line :: "string \<Rightarrow> string \<Rightarrow> string list" where
  "block_line label v = (if v \<noteq> [] then [label @ safeBlockLine v] else [])"

definition formatAgentTracePhase :: "trace_event list \<Rightarrow> string \<Rightarrow> string \<Rightarrow> string" where
  "formatAgentTracePhase es phase view = boundEmbedValue (join [CHR 0x0A] (concat (map (\<lambda>e.
     phase_line phase e @
     (if view = ''debug''
      then block_line ''llm_preview: '' (detail e ''llm_output_preview'') @ block_line ''result: '' (detail e ''result_summary'') @
        block_line ''error: '' (detail e ''error_message'') @ block_line ''answer: '' (detail e ''answer_preview'')
      else [])) (filter (\<lambda>e. te_phase e = phase) es))))"

definition formatAgentTraceDebugDetails :: "trace_event list \<Rightarrow> string" where
  "formatAgentTraceDebugDetails es = boundEmbedValue (join [CHR 0x0A] (take 14 (concat (map (\<lambda>e.
     map (\<lambda>(k, v). ticked (safe_inline (te_phase e) @ ''.'' @ safe_inline k) @ ''='' @ ticked_inline v)
       (filter (\<lambda>(k, v). k \<notin> {''llm_output_preview'', ''result_summary'', ''error_message'', ''answer_preview''}) (te_details e)))
     es))))"

definition embed_field :: "string \<Rightarrow> string \<Rightarrow> (string \<times> string) list" where
  "embed_field name v = (if v \<noteq> [] then [(name, v)] else [])"

definition formatAgentTraceEmbed :: "trace_run \<Rightarrow> string \<Rightarrow> embed" where
  "formatAgentTraceEmbed r view = \<lparr>em_title = ''Gigi Agent Trace'',
     em_description = ''run '' @ ticked_inline (tn_run_id r) @ '' status '' @ ticked_inline (tn_status r),
     em_color = agentTraceColor (tn_status r),
     em_fields = embed_field ''Timeline'' (formatAgentTraceTimeline (tn_events r)) @
       embed_field ''LLM planning'' (formatAgentTracePhase (tn_events r) ''plan'' view) @
       embed_field ''Tools'' (formatAgentTracePhase (tn_events r) ''tool'' view) @
       embed_field ''Answer'' (formatAgentTracePhase (tn_events r) ''answer'' view) @
       (if view = ''debug'' then embed_field ''Debug details'' (formatAgentTraceDebugDetails (tn_events r)) else [])\<rparr>"

text \<open>What a sink that shows a run keeps of an event.\<close>

definition sink_event :: "trace_run \<Rightarrow> request \<Rightarrow> trace_event \<Rightarrow> trace_run" where
  "sink_event run request e = run\<lparr>tn_run_id := (if tn_run_id run = [] then te_run_id e else tn_run_id run),
     tn_guild_id := rq_guild_id request, tn_channel_id := rq_channel_id request, tn_actor_user_id := rq_actor_user_id request,
     tn_surface := rq_surface request, tn_status := te_status e, tn_events := tn_events run @ [e]\<rparr>"

definition empty_run :: trace_run where
  "empty_run = \<lparr>tn_run_id = [], tn_guild_id = [], tn_channel_id = [], tn_actor_user_id = [], tn_surface = [], tn_status = [],
     tn_updated_at = zero_time, tn_events = []\<rparr>"

definition debug_embed :: "trace_run \<Rightarrow> string \<Rightarrow> embed" where
  "debug_embed run answer =
     (let e = formatAgentTraceEmbed run ''debug'' in
      if trim_space answer \<noteq> [] then e\<lparr>em_fields := em_fields e @ [(''Final answer'', boundEmbedValue answer)]\<rparr> else e)"

end
