(* ===== verification/DiscordMessages.thy ===== *)
theory DiscordMessages
  imports DiscordText MemoryIngestor Assistant
begin

text \<open>
  \<^verbatim>\<open>internal/discord/messages.go\<close>: the router of messages, with the handlers of \<^verbatim>\<open>agent.go\<close> and \<^verbatim>\<open>assistant.go\<close>, the
  latency shown with a reply (\<^verbatim>\<open>reply_latency.go\<close>), the switch of the live debug card (\<^verbatim>\<open>agent_live_debug.go\<close>) and the
  \<^verbatim>\<open>ask\<close> command (\<^verbatim>\<open>ask.go\<close>). Everything acts on a world \<open>'w\<close>; the run a live sink collects is a cell of it.
\<close>

subsection \<open>Reply latency\<close>

record 'w latency_store =
  ly_enabled :: "string \<Rightarrow> 'w \<Rightarrow> bool result \<times> 'w"
  ly_set :: "string \<Rightarrow> bool \<Rightarrow> 'w \<Rightarrow> unit result \<times> 'w"

text \<open>The store in memory: the guilds for which it is on.\<close>

definition mem_latency_enabled :: "string \<Rightarrow> string list \<Rightarrow> bool result \<times> string list" where
  "mem_latency_enabled guildID on = (Inr (trim_space guildID \<noteq> [] \<and> trim_space guildID \<in> set on), on)"

definition mem_latency_set :: "string \<Rightarrow> bool \<Rightarrow> string list \<Rightarrow> unit result \<times> string list" where
  "mem_latency_set guildID0 enabled on =
     (let guildID = trim_space guildID0 in
      if guildID = [] then (Inl (Errorf ''guild ID is required''), on)
      else (Inr (), if enabled then List.insert guildID on else removeAll guildID on))"

definition MemoryGuildReplyLatencyStore :: "string list latency_store" where
  "MemoryGuildReplyLatencyStore = \<lparr>ly_enabled = mem_latency_enabled, ly_set = mem_latency_set\<rparr>"

text \<open>The store in SQL: the column \<^verbatim>\<open>reply_latency_enabled\<close> of \<^verbatim>\<open>discord_guild_settings\<close>, whose key is the guild.\<close>

type_synonym latency_db = "(string \<times> bool) list sqldb"

definition sql_latency_enabled :: "bool \<Rightarrow> string \<Rightarrow> latency_db \<Rightarrow> bool result \<times> latency_db" where
  "sql_latency_enabled has_query guildID0 db =
     (let guildID = trim_space guildID0 in
      if guildID = [] then (Inr False, db)
      else if \<not> has_query then (Inl (Errorf ''guild reply latency query database is required''), db)
      else (case sql_exec (\<lambda>now t. case map_of t guildID of None \<Rightarrow> Inl ErrNoRows | Some b \<Rightarrow> Inr (b, t)) db of
          (Inr b, db1) \<Rightarrow> (Inr b, db1)
        | (Inl e, db1) \<Rightarrow>
            (if e = ErrNoRows then Inr False else Inl (Wrap ''load guild reply latency setting'' e), db1)))"

definition sql_latency_set :: "bool \<Rightarrow> string \<Rightarrow> bool \<Rightarrow> latency_db \<Rightarrow> unit result \<times> latency_db" where
  "sql_latency_set has_exec guildID0 enabled db =
     (let guildID = trim_space guildID0 in
      if guildID = [] then (Inl (Errorf ''guild ID is required''), db)
      else if \<not> has_exec then (Inl (Errorf ''guild reply latency exec database is required''), db)
      else wrap_err ''set guild reply latency setting'' (sql_exec (\<lambda>now t. Inr ((), mput guildID enabled t)) db))"

record 'w latency_config =
  lc_store :: "'w latency_store option"
  lc_now :: "'w \<Rightarrow> gotime \<times> 'w"
  lc_tenths :: "int \<Rightarrow> string"

definition latency_on :: "'w latency_config \<Rightarrow> string \<Rightarrow> 'w \<Rightarrow> bool \<times> 'w" where
  "latency_on cfg guildID w =
     (case lc_store cfg of
        None \<Rightarrow> (False, w)
      | Some s \<Rightarrow>
          if trim_space guildID = [] then (False, w)
          else (case ly_enabled s guildID w of (Inl e, w1) \<Rightarrow> (False, w1) | (Inr b, w1) \<Rightarrow> (b, w1)))"

definition durationMillis :: "int \<Rightarrow> int" where
  "durationMillis elapsed = (if elapsed \<le> 0 then 0 else elapsed div 1000000)"

definition appendReplyLatencySuffix :: "(int \<Rightarrow> string) \<Rightarrow> string \<Rightarrow> int \<Rightarrow> string" where
  "appendReplyLatencySuffix tenths content0 elapsed =
     (let content = trim_space content0; sfx = ticked (formatMillis tenths (durationMillis elapsed)) in
      if content = [] then sfx else content @ '' '' @ sfx)"

definition with_latency :: "'w latency_config \<Rightarrow> string \<Rightarrow> string \<Rightarrow> int \<Rightarrow> 'w \<Rightarrow> string \<times> 'w" where
  "with_latency cfg guildID content elapsed w =
     (case latency_on cfg guildID w of (b, w1) \<Rightarrow>
        (if b then appendReplyLatencySuffix (lc_tenths cfg) content elapsed else content, w1))"

subsection \<open>The live debug switch\<close>

definition agentLiveDebugKey :: "string \<Rightarrow> string \<Rightarrow> string" where
  "agentLiveDebugKey guildID userID =
     (if trim_space guildID = [] \<or> trim_space userID = [] then [] else trim_space guildID @ '':'' @ trim_space userID)"

definition LiveDebugEnabled :: "string \<Rightarrow> string \<Rightarrow> string list \<Rightarrow> bool result \<times> string list" where
  "LiveDebugEnabled guildID userID on =
     (let key = agentLiveDebugKey guildID userID in (Inr (key \<noteq> [] \<and> key \<in> set on), on))"

definition SetLiveDebugEnabled :: "string \<Rightarrow> string \<Rightarrow> bool \<Rightarrow> string list \<Rightarrow> unit result \<times> string list" where
  "SetLiveDebugEnabled guildID userID enabled on =
     (let key = agentLiveDebugKey guildID userID in
      (Inr (), if key = [] then on else if enabled then List.insert key on else removeAll key on))"

subsection \<open>Messages\<close>

record 'w message =
  msg_surface :: surface
  msg_guild_id :: string
  msg_channel_id :: string
  msg_user_id :: string
  msg_role_ids :: "string list"
  msg_has_administrator :: bool
  msg_text :: string
  msg_raw_content :: string
  msg_trace_sink :: "'w trace_sink option"

type_synonym 'w message_handler = "'w message \<Rightarrow> 'w \<Rightarrow> string result \<times> 'w"

definition CoreMessageHandler :: "'w message_handler" where
  "CoreMessageHandler m w =
     (Inr (if to_lower (trim_space (msg_text m)) \<in> {''ping'', ''!ping''} then ''pong''
        else ''Gigi is online. Rich chat is not wired yet.''), w)"

definition fallback_handler :: "'w message_handler option \<Rightarrow> 'w message_handler" where
  "fallback_handler f = (case f of None \<Rightarrow> CoreMessageHandler | Some h \<Rightarrow> h)"

text \<open>The agent's runtime is given the sink of the request beside the request.\<close>

type_synonym 'w agent_runtime = "'w trace_sink option \<Rightarrow> request \<Rightarrow> 'w \<Rightarrow> (response \<times> goerror option) \<times> 'w"

definition agent_run_hint :: "string \<Rightarrow> response \<Rightarrow> string" where
  "agent_run_hint content0 r =
     (let content = trim_space content0; run = safe_inline (rs_run_id r); nl2 = [CHR 0x0A, CHR 0x0A] in
      if trim_space (rs_run_id r) = [] then content
      else if rs_run_status r = RunStatusConfirmationRequired
      then (if trim_space (rs_confirmation_id r) \<noteq> []
        then content @ nl2 @ ''Pending action: '' @ ticked (''/agent pending run:'' @ run) @ '' then '' @
          ticked (''/agent confirm run:'' @ run) @ '' or '' @ ticked (''/agent reject run:'' @ run) @ ''.''
        else content @ nl2 @ ''Run: '' @ ticked run @ ''.'')
      else if rs_run_status r = RunStatusCanceled then content @ nl2 @ ''Run: '' @ ticked run @ '' canceled.''
      else if rs_run_status r = RunStatusRunning
      then content @ nl2 @ ''Run: '' @ ticked run @ ''. Cancel with '' @ ticked (''/agent cancel run:'' @ run) @ ''.''
      else content)"

definition message_request :: "'w message \<Rightarrow> request" where
  "message_request m = \<lparr>rq_surface = msg_surface m, rq_guild_id = msg_guild_id m, rq_channel_id = msg_channel_id m,
     rq_actor_user_id = msg_user_id m, rq_role_ids = msg_role_ids m, rq_has_administrator = msg_has_administrator m,
     rq_context_scope = (if msg_surface m = SurfaceGuildMention then ''channel-auto'' else []), rq_text = msg_text m,
     rq_raw_text = msg_raw_content m, rq_prior_run = None, rq_context_pack = None\<rparr>"

definition AgentMessageHandler :: "'w agent_runtime option \<Rightarrow> 'w message_handler option \<Rightarrow> 'w message_handler" where
  "AgentMessageHandler runtime fallback m w =
     (case runtime of
        None \<Rightarrow> fallback_handler fallback m w
      | Some run \<Rightarrow>
          (case run (msg_trace_sink m) (message_request m) w of
             ((r, Some e), w1) \<Rightarrow> (Inl e, w1)
           | ((r, None), w1) \<Rightarrow>
               if trim_space (rs_text r) = [] then fallback_handler fallback m w1
               else (Inr (agent_run_hint (rs_text r) r), w1)))"

definition AssistantFallbackHandler ::
  "(chat_message \<Rightarrow> 'w \<Rightarrow> string result \<times> 'w) option \<Rightarrow> 'w message_handler option \<Rightarrow> 'w message_handler" where
  "AssistantFallbackHandler responder fallback m w =
     (case responder of
        None \<Rightarrow> fallback_handler fallback m w
      | Some reply \<Rightarrow>
          db_bind (reply \<lparr>ms_surface = msg_surface m, ms_guild_id = msg_guild_id m, ms_channel_id = msg_channel_id m,
              ms_actor_user_id = msg_user_id m, ms_text = msg_text m\<rparr> w) (\<lambda>text w1.
            if trim_space text = [] then fallback_handler fallback m w1 else (Inr text, w1)))"

subsection \<open>The router\<close>

record discord_message =
  dc_id :: string
  dc_guild_id :: string
  dc_channel_id :: string
  dc_author :: "(string \<times> bool) option"
  dc_member :: "discord_member option"
  dc_content :: string
  dc_timestamp :: gotime

text \<open>Sending a message, sending an embed (with the ID of the message, if any) and editing one.\<close>

record 'w message_sender =
  sd_send :: "string \<Rightarrow> string \<Rightarrow> 'w \<Rightarrow> unit result \<times> 'w"
  sd_send_embed :: "(string \<Rightarrow> embed \<Rightarrow> 'w \<Rightarrow> string option result \<times> 'w) option"
  sd_edit_embed :: "(string \<Rightarrow> string \<Rightarrow> embed \<Rightarrow> 'w \<Rightarrow> unit result \<times> 'w) option"

record message_audit =
  mu_kind :: string
  mu_surface :: surface
  mu_guild_id :: string
  mu_channel_id :: string
  mu_user_id :: string
  mu_status :: string
  mu_last_error :: string

record 'w message_router =
  mx_bot_user_id :: string
  mx_handler :: "'w message_handler"
  mx_audit :: "message_audit \<Rightarrow> 'w \<Rightarrow> unit result \<times> 'w"
  mx_ingest :: "(message_event \<Rightarrow> 'w \<Rightarrow> bool \<times> 'w) option"
  mx_latency :: "'w latency_config"
  mx_live_debug :: "(string \<Rightarrow> string \<Rightarrow> 'w \<Rightarrow> bool result \<times> 'w) option"
  mx_get_run :: "'w \<Rightarrow> trace_run"
  mx_put_run :: "trace_run \<Rightarrow> 'w \<Rightarrow> 'w"

definition enqueueMemory :: "'w message_router \<Rightarrow> discord_message \<Rightarrow> 'w \<Rightarrow> 'w" where
  "enqueueMemory r m w =
     (case (mx_ingest r, dc_author m) of
        (Some enqueue, Some (author, _)) \<Rightarrow>
          if trim_space (dc_guild_id m) = [] then w
          else snd (enqueue \<lparr>mv_message_id = dc_id m, mv_guild_id = dc_guild_id m, mv_channel_id = dc_channel_id m,
            mv_author_id = author, mv_content = dc_content m, mv_created_at = dc_timestamp m, mv_deleted = False, mv_deleted_at = zero_time\<rparr> w)
      | _ \<Rightarrow> w)"

definition enqueueMemoryDelete :: "'w message_router \<Rightarrow> string \<Rightarrow> string \<Rightarrow> string \<Rightarrow> 'w \<Rightarrow> 'w" where
  "enqueueMemoryDelete r messageID guildID channelID w =
     (case mx_ingest r of
        None \<Rightarrow> w
      | Some enqueue \<Rightarrow>
          if trim_space guildID = [] \<or> trim_space messageID = [] then w
          else snd (enqueue \<lparr>mv_message_id = messageID, mv_guild_id = guildID, mv_channel_id = channelID,
            mv_author_id = [], mv_content = [], mv_created_at = zero_time, mv_deleted = True, mv_deleted_at = zero_time\<rparr> w))"

definition HandleMessageDelete :: "'w message_router \<Rightarrow> discord_message option \<Rightarrow> 'w \<Rightarrow> 'w" where
  "HandleMessageDelete r m w =
     (case m of None \<Rightarrow> w | Some d \<Rightarrow> enqueueMemoryDelete r (dc_id d) (dc_guild_id d) (dc_channel_id d) w)"

definition HandleMessageDeleteBulk :: "'w message_router \<Rightarrow> string \<Rightarrow> string \<Rightarrow> string list \<Rightarrow> 'w \<Rightarrow> 'w" where
  "HandleMessageDeleteBulk r guildID channelID ids w =
     (if trim_space guildID = [] then w else fold (\<lambda>i. enqueueMemoryDelete r i guildID channelID) ids w)"

text \<open>\<^verbatim>\<open>strings.NewReplacer\<close> with two strings replaced by nothing: one pass from the left.\<close>

function erase_two :: "string \<Rightarrow> string \<Rightarrow> string \<Rightarrow> string" where
  "erase_two p q s =
     (if s = [] then []
      else if p \<noteq> [] \<and> prefix p s then erase_two p q (drop (length p) s)
      else if q \<noteq> [] \<and> prefix q s then erase_two p q (drop (length q) s)
      else hd s # erase_two p q (tl s))"
  by pat_completeness auto
termination
  by (relation "measure (\<lambda>(p, q, s). length s)") auto

declare erase_two.simps [simp del]

definition stripMention :: "string \<Rightarrow> string \<Rightarrow> string option" where
  "stripMention botID content =
     (let plain = ''<@'' @ botID @ ''>''; nick = ''<@!'' @ botID @ ''>'' in
      if \<not> contains_sub content plain \<and> \<not> contains_sub content nick then None
      else Some (trim_space (erase_two plain nick content)))"

definition route_message :: "string \<Rightarrow> discord_message \<Rightarrow> 'w message option" where
  "route_message botID m =
     (let base = \<lparr>msg_surface = SurfaceDM, msg_guild_id = dc_guild_id m, msg_channel_id = dc_channel_id m,
            msg_user_id = (case dc_author m of None \<Rightarrow> [] | Some a \<Rightarrow> fst a),
            msg_role_ids = (case dc_member m of None \<Rightarrow> [] | Some mem \<Rightarrow> dm_roles mem),
            msg_has_administrator = (case dc_member m of None \<Rightarrow> False | Some mem \<Rightarrow> dm_permissions mem AND 8 \<noteq> 0),
            msg_text = trim_space (dc_content m), msg_raw_content = dc_content m, msg_trace_sink = None\<rparr>
      in if dc_guild_id m = [] then Some base
         else map_option (\<lambda>text. base\<lparr>msg_surface := SurfaceGuildMention, msg_text := text\<rparr>) (stripMention botID (dc_content m)))"

text \<open>The card of a live run in the channel: the ID of its message, when one could be sent.\<close>

definition startLiveDebug :: "'w message_router \<Rightarrow> 'w message_sender \<Rightarrow> 'w message \<Rightarrow> 'w \<Rightarrow> string option \<times> 'w" where
  "startLiveDebug r s m w =
     (case mx_live_debug r of
        None \<Rightarrow> (None, w)
      | Some enabled \<Rightarrow>
          if msg_surface m \<noteq> SurfaceGuildMention \<or> trim_space (msg_guild_id m) = [] then (None, w)
          else (case enabled (msg_guild_id m) (msg_user_id m) w of
              (Inl e, w1) \<Rightarrow> (None, w1)
            | (Inr b, w1) \<Rightarrow>
                (case (b, sd_send_embed s, sd_edit_embed s) of
                   (True, Some send, Some edit) \<Rightarrow>
                     (case send (msg_channel_id m) (formatAgentTraceEmbed (empty_run\<lparr>tn_status := ''running''\<rparr>) ''debug'') w1 of
                        (Inr (Some messageID), w2) \<Rightarrow> (Some messageID, mx_put_run r empty_run w2)
                      | (_, w2) \<Rightarrow> (None, w2))
                 | _ \<Rightarrow> (None, w1))))"

definition update_card :: "'w message_router \<Rightarrow> 'w message_sender \<Rightarrow> string \<Rightarrow> string \<Rightarrow> string \<Rightarrow> 'w \<Rightarrow> 'w" where
  "update_card r s channelID messageID answer w =
     (case sd_edit_embed s of
        None \<Rightarrow> w
      | Some edit \<Rightarrow>
          if trim_space channelID = [] \<or> trim_space messageID = [] then w
          else snd (edit channelID messageID (debug_embed (mx_get_run r w) answer) w))"

definition channel_sink :: "'w message_router \<Rightarrow> 'w message_sender \<Rightarrow> string \<Rightarrow> string \<Rightarrow> 'w trace_sink" where
  "channel_sink r s channelID messageID request e w =
     (Inr (), update_card r s channelID messageID [] (mx_put_run r (sink_event (mx_get_run r w) request e) w))"

definition finish_card :: "'w message_router \<Rightarrow> 'w message_sender \<Rightarrow> string \<Rightarrow> string \<Rightarrow> string \<Rightarrow> 'w \<Rightarrow> 'w" where
  "finish_card r s channelID messageID answer w =
     (let run = mx_get_run r w;
          run1 = (if tn_status run \<in> {[], ''running''} then run\<lparr>tn_status := ''succeeded''\<rparr> else run)
      in update_card r s channelID messageID answer (mx_put_run r run1 w))"

definition HandleMessage :: "'w message_router \<Rightarrow> 'w message_sender \<Rightarrow> discord_message option \<Rightarrow> 'w \<Rightarrow> unit result \<times> 'w" where
  "HandleMessage r s event w =
     (case event of
        None \<Rightarrow> (Inr (), w)
      | Some d \<Rightarrow>
          if (case dc_author d of None \<Rightarrow> True | Some (i, isBot) \<Rightarrow> isBot) then (Inr (), w)
          else let w0 = enqueueMemory r d w in
            (case route_message (mx_bot_user_id r) d of
               None \<Rightarrow> (Inr (), w0)
             | Some m \<Rightarrow>
                 (let (card, w1) = startLiveDebug r s m w0;
                      (startedAt, w2) = lc_now (mx_latency r) w1;
                      (answer, w3) = mx_handler r (m\<lparr>msg_trace_sink := map_option (channel_sink r s (msg_channel_id m)) card\<rparr>) w2;
                      (endedAt, w4) = lc_now (mx_latency r) w3;
                      content0 = (case answer of Inl e \<Rightarrow> ''Message handling failed.'' | Inr c \<Rightarrow> trim_space c);
                      content1 = (if content0 = [] then ''ok'' else content0);
                      (content, w5) = (if msg_surface m = SurfaceGuildMention
                        then with_latency (mx_latency r) (msg_guild_id m) content1 (endedAt - startedAt) w4 else (content1, w4));
                      w6 = (case card of None \<Rightarrow> w5 | Some i \<Rightarrow> finish_card r s (msg_channel_id m) i content w5);
                      (audited, w7) = mx_audit r \<lparr>mu_kind = ''discord.message.routed'', mu_surface = msg_surface m,
                        mu_guild_id = msg_guild_id m, mu_channel_id = msg_channel_id m, mu_user_id = msg_user_id m,
                        mu_status = (case answer of Inl _ \<Rightarrow> ''failed'' | Inr _ \<Rightarrow> ''succeeded''),
                        mu_last_error = (case answer of Inl e \<Rightarrow> error_text e | Inr _ \<Rightarrow> [])\<rparr> w6
                  in db_bind (wrap_err ''send discord message'' (sd_send s (msg_channel_id m) content w7)) (\<lambda>_ w8.
                       (case audited of Inl e \<Rightarrow> Inl (Wrap ''record discord audit event'' e) | Inr _ \<Rightarrow> Inr (), w8)))))"

subsection \<open>The ask command\<close>

definition normalizeAskContext :: "string \<Rightarrow> string" where
  "normalizeAskContext v = (if trim_space v = ''channel'' then ''channel'' else ''none'')"

definition normalizeAskVisibility :: "string \<Rightarrow> string \<Rightarrow> string" where
  "normalizeAskVisibility v scope =
     (if trim_space v = [] then (if scope = ''channel'' then ''private'' else ''public'')
      else if trim_space v = ''private'' then ''private'' else ''public'')"

definition askHandler :: "'w agent_runtime option \<Rightarrow> 'w latency_config \<Rightarrow> 'w command_handler" where
  "askHandler runtime latency i w =
     (case runtime of
        None \<Rightarrow> (Inr (private_text ''Ask is not configured yet.''), w)
      | Some run \<Rightarrow>
          (let question = optionByName (ix_options i) ''question'';
               scope = normalizeAskContext (optionByName (ix_options i) ''context'');
               visible = normalizeAskVisibility (optionByName (ix_options i) ''visibility'') scope in
           if question = [] then (Inr (private_text ''Question is required.''), w)
           else let (startedAt, w1) = lc_now latency w;
                    ((r, err), w2) = run None \<lparr>rq_surface = SurfaceGuildMention, rq_guild_id = ix_guild_id i,
                      rq_channel_id = ix_channel_id i, rq_actor_user_id = ix_user_id i, rq_role_ids = ix_role_ids i,
                      rq_has_administrator = ix_has_administrator i, rq_context_scope = scope, rq_text = question,
                      rq_raw_text = question, rq_prior_run = None, rq_context_pack = None\<rparr> w1;
                    (endedAt, w3) = lc_now latency w2;
                    content0 = (if err \<noteq> None then ''Ask failed.''
                      else agent_run_hint (if trim_space (rs_text r) = [] then ''I could not answer that.'' else rs_text r) r);
                    (content, w4) = with_latency latency (ix_guild_id i) content0 (endedAt - startedAt) w3
                in (Inr ((reply_text content)\<lparr>cr_ephemeral :=
                      visible = ''private'' \<or> (err = None \<and> rs_visibility r = VisibilityPrivate)\<rparr>), w4)))"

definition AskCommand :: "'w agent_runtime option \<Rightarrow> 'w latency_config \<Rightarrow> 'w command" where
  "AskCommand runtime latency = \<lparr>co_name = ''ask'', co_description = ''Ask Gigi through the agent runtime.'',
     co_required = [], co_required_for = None, co_required_for_modal = None, co_modal_prefixes = [],
     co_options = [CmdOption 3 ''question'' ''Question for Gigi.'' True [] [],
       CmdOption 3 ''context'' ''Context scope.'' False [''none'', ''channel''] [],
       CmdOption 3 ''visibility'' ''Response visibility.'' False [''public'', ''private''] []],
     co_handle = Some (askHandler runtime latency), co_handle_modal = None\<rparr>"

end
