(* ===== verification/DiscordGateway.thy ===== *)
theory DiscordGateway
  imports DiscordMessages
begin

text \<open>
  The gateway of \<^verbatim>\<open>internal/discord/client.go\<close>: opening a session, giving the commands to Discord, handing events to the
  routers and closing. The session is a parameter; \<open>late\<close> says what a \<^verbatim>\<open>select\<close> sees of the context, an error if it is done.
  The flag \<^verbatim>\<open>started\<close> is the left half of the world.
\<close>

type_synonym app_command = "string \<times> string \<times> command_option list"

record 'w session =
  ss_open :: "'w \<Rightarrow> unit result \<times> 'w"
  ss_close :: "'w \<Rightarrow> unit result \<times> 'w"
  ss_overwrite :: "string \<Rightarrow> string \<Rightarrow> app_command list \<Rightarrow> 'w \<Rightarrow> unit result \<times> 'w"

record 'w gateway_options =
  gw_token :: string
  gw_client_id :: string
  gw_guild_id :: string
  gw_sync_commands :: bool
  gw_intents :: nat
  gw_command_router :: "'w command_router option"
  gw_message_router :: "'w message_router option"

record 'w gateway =
  gt_session :: "'w session"
  gt_client_id :: string
  gt_guild_id :: string
  gt_sync_commands :: bool
  gt_command_router :: "'w command_router option"
  gt_message_router :: "'w message_router option"

subsection \<open>Making a gateway\<close>

text \<open>The bits of \<^verbatim>\<open>discordgo\<close> for guilds, guild messages, direct messages and message content.\<close>

definition DefaultIntents :: nat where
  "DefaultIntents = 2 ^ 0 + 2 ^ 9 + 2 ^ 12 + 2 ^ 15"

definition botToken :: "string \<Rightarrow> string" where
  "botToken token =
     (let trimmed = trim_space token in if prefix ''bot '' (to_lower trimmed) then trimmed else ''Bot '' @ trimmed)"

definition newGatewayWithFactory ::
  "'w gateway_options \<Rightarrow> (string \<Rightarrow> nat \<Rightarrow> 'w session result) \<Rightarrow> 'w gateway result" where
  "newGatewayWithFactory opts factory =
     attempt (checks
       [must (trim_space (gw_token opts) \<noteq> []) ''discord token is required'',
        must (gw_sync_commands opts \<longrightarrow> trim_space (gw_client_id opts) \<noteq> [])
          ''discord client ID is required when command sync is enabled''])
     (\<lambda>_. case factory (botToken (gw_token opts)) (if gw_intents opts = 0 then DefaultIntents else gw_intents opts) of
        Inl e \<Rightarrow> Inl (Wrap ''create discord session'' e)
      | Inr s \<Rightarrow> Inr \<lparr>gt_session = s, gt_client_id = trim_space (gw_client_id opts), gt_guild_id = trim_space (gw_guild_id opts),
          gt_sync_commands = gw_sync_commands opts, gt_command_router = gw_command_router opts,
          gt_message_router = gw_message_router opts\<rparr>)"

text \<open>The handlers it adds to the session; what they return is only logged.\<close>

datatype 'w gateway_event =
  InteractionCreate "'w responder" "interaction_event option"
| MessageCreate "'w message_sender" "discord_message option"
| MessageDelete "discord_message option"
| MessageDeleteBulk string string "string list"

definition deliver :: "'w gateway \<Rightarrow> 'w gateway_event \<Rightarrow> 'w \<Rightarrow> 'w" where
  "deliver g e w =
     (case e of
        InteractionCreate resp event \<Rightarrow>
          (case gt_command_router g of None \<Rightarrow> w | Some r \<Rightarrow> snd (HandleInteraction r resp event w))
      | MessageCreate sender m \<Rightarrow> (case gt_message_router g of None \<Rightarrow> w | Some r \<Rightarrow> snd (HandleMessage r sender m w))
      | MessageDelete m \<Rightarrow> (case gt_message_router g of None \<Rightarrow> w | Some r \<Rightarrow> HandleMessageDelete r m w)
      | MessageDeleteBulk guildID channelID ids \<Rightarrow>
          (case gt_message_router g of None \<Rightarrow> w | Some r \<Rightarrow> HandleMessageDeleteBulk r guildID channelID ids w))"

subsection \<open>Starting and closing\<close>

definition syncApplicationCommands :: "'w gateway \<Rightarrow> ('w \<Rightarrow> goerror option) \<Rightarrow> 'w \<Rightarrow> unit result \<times> 'w" where
  "syncApplicationCommands g late w =
     (case (gt_sync_commands g, gt_command_router g) of
        (True, Some r) \<Rightarrow>
          (case late w of
             Some e \<Rightarrow> (Inl e, w)
           | None \<Rightarrow> wrap_err ''sync discord application commands''
               (ss_overwrite (gt_session g) (gt_client_id g) (gt_guild_id g) (ApplicationCommands r) w))
      | _ \<Rightarrow> (Inr (), w))"

definition gateway_Close :: "'w gateway \<Rightarrow> ('w \<Rightarrow> goerror option) \<Rightarrow> bool \<times> 'w \<Rightarrow> unit result \<times> bool \<times> 'w" where
  "gateway_Close g late s =
     (case s of (started, w) \<Rightarrow>
        if \<not> started then (Inr (), s)
        else case ss_close (gt_session g) w of (closed, w1) \<Rightarrow>
          (case late w1 of
             Some e \<Rightarrow> (Inl e, True, w1)
           | None \<Rightarrow>
               (case closed of
                  Inl e \<Rightarrow> (Inl (Wrap ''close discord gateway'' e), True, w1)
                | Inr _ \<Rightarrow> (Inr (), False, w1))))"

definition gateway_Start :: "'w gateway \<Rightarrow> ('w \<Rightarrow> goerror option) \<Rightarrow> bool \<times> 'w \<Rightarrow> unit result \<times> bool \<times> 'w" where
  "gateway_Start g late s =
     (case s of (started, w) \<Rightarrow>
        case late w of
          Some e \<Rightarrow> (Inl e, s)
        | None \<Rightarrow>
            if started then (Inr (), s)
            else case ss_open (gt_session g) w of
                (Inl e, w1) \<Rightarrow> (Inl (Wrap ''open discord gateway'' e), False, w1)
              | (Inr _, w1) \<Rightarrow>
                  (case syncApplicationCommands g late w1 of
                     (Inr _, w2) \<Rightarrow> (Inr (), True, w2)
                   | (Inl e, w2) \<Rightarrow>
                       (case gateway_Close g late (True, w2) of
                          (Inl c, s') \<Rightarrow> (Inl (Wrap ''%w; close discord gateway: %v'' e), s')
                        | (Inr _, s') \<Rightarrow> (Inl e, s'))))"

subsection \<open>A gateway that fails to start\<close>

text \<open>Closing a closed gateway and starting a started one change nothing.\<close>

lemma gateway_Close_idle: "gateway_Close g late (False, w) = (Inr (), False, w)"
  by (simp add: gateway_Close_def)

lemma gateway_Close_flag: "gateway_Close g late s = (x, started, w) \<Longrightarrow> x = Inr () \<longleftrightarrow> \<not> started"
  by (auto simp: gateway_Close_def split: prod.splits if_splits option.splits sum.splits)

lemma gateway_Start_flag:
  assumes "gateway_Start g late (False, w) = (x, started, w')"
  shows "x = Inr () \<Longrightarrow> started" and "started \<Longrightarrow> x = Inr () \<or> (\<exists>w1 e. gateway_Close g late (True, w1) = (Inl e, started, w'))"
  using assms
  by (auto simp: gateway_Start_def split: prod.splits if_splits option.splits sum.splits dest: gateway_Close_flag)

end
