(* ===== verification/DiscordPermissions.thy ===== *)
theory DiscordPermissions
  imports DiscordRouter AgentMemory
begin

text \<open>
  \<^verbatim>\<open>internal/discord/permissions.go\<close>: the command that creates and assigns roles and changes capability grants. The
  grant manager and the role service are interfaces over a world \<open>'w\<close>.
\<close>

record 'w grant_service =
  gs_GrantRole :: "string \<Rightarrow> string \<Rightarrow> capability \<Rightarrow> string \<Rightarrow> 'w \<Rightarrow> unit result \<times> 'w"
  gs_RevokeRole :: "string \<Rightarrow> string \<Rightarrow> capability \<Rightarrow> 'w \<Rightarrow> unit result \<times> 'w"
  gs_GrantRoleCapabilities :: "string \<Rightarrow> string \<Rightarrow> capability list \<Rightarrow> string \<Rightarrow> 'w \<Rightarrow> unit result \<times> 'w"
  gs_RevokeRoleCapabilities :: "string \<Rightarrow> string \<Rightarrow> capability list \<Rightarrow> 'w \<Rightarrow> unit result \<times> 'w"
  gs_GrantUser :: "string \<Rightarrow> string \<Rightarrow> capability \<Rightarrow> string \<Rightarrow> 'w \<Rightarrow> unit result \<times> 'w"
  gs_RevokeUser :: "string \<Rightarrow> string \<Rightarrow> capability \<Rightarrow> 'w \<Rightarrow> unit result \<times> 'w"

subsection \<open>The options of the command\<close>

text \<open>The option types of Discord: sub-command 1, group 2, string 3, user 6, role 8.\<close>

definition stringOption :: "string \<Rightarrow> string \<Rightarrow> string list \<Rightarrow> command_option" where
  "stringOption name description choices = CmdOption 3 name description True choices []"

definition roleOption :: command_option where
  "roleOption = CmdOption 8 ''role'' ''Discord role.'' True [] []"

definition userOption :: command_option where
  "userOption = CmdOption 6 ''user'' ''Discord user.'' True [] []"

definition capabilityOption :: command_option where
  "capabilityOption = stringOption ''capability'' ''Gigi capability.'' KnownCapabilities"

definition presetOption :: command_option where
  "presetOption = stringOption ''preset'' ''Gigi capability preset.'' (map fst KnownPresets)"

definition roleUserSubcommand :: "string \<Rightarrow> string \<Rightarrow> command_option" where
  "roleUserSubcommand name description = CmdOption 1 name description False [] [roleOption, userOption]"

definition roleCapabilitySubcommand :: "string \<Rightarrow> string \<Rightarrow> command_option" where
  "roleCapabilitySubcommand name description = CmdOption 1 name description False [] [roleOption, capabilityOption]"

definition rolePresetSubcommand :: "string \<Rightarrow> string \<Rightarrow> command_option" where
  "rolePresetSubcommand name description = CmdOption 1 name description False [] [roleOption, presetOption]"

definition userCapabilitySubcommand :: "string \<Rightarrow> string \<Rightarrow> command_option" where
  "userCapabilitySubcommand name description = CmdOption 1 name description False [] [userOption, capabilityOption]"

definition permissionRoleGroup :: command_option where
  "permissionRoleGroup = CmdOption 2 ''role'' ''Create, assign, and grant Gigi capabilities to Discord roles.'' False []
     [CmdOption 1 ''create'' ''Create a Discord role and grant a Gigi preset.'' False []
        [stringOption ''name'' ''Role name.'' [], presetOption],
      roleUserSubcommand ''assign'' ''Assign a Discord role to a user.'',
      roleUserSubcommand ''unassign'' ''Remove a Discord role from a user.'',
      roleCapabilitySubcommand ''grant'' ''Grant a capability to a Discord role.'',
      roleCapabilitySubcommand ''revoke'' ''Revoke a capability from a Discord role.'',
      rolePresetSubcommand ''grant-preset'' ''Grant a preset to a Discord role.'',
      rolePresetSubcommand ''revoke-preset'' ''Revoke a preset from a Discord role.'']"

definition permissionUserGroup :: command_option where
  "permissionUserGroup = CmdOption 2 ''user'' ''Manage direct user capability exceptions.'' False []
     [userCapabilitySubcommand ''grant'' ''Grant a direct capability exception to a user.'',
      userCapabilitySubcommand ''revoke'' ''Revoke a direct capability exception from a user.'']"

subsection \<open>The request\<close>

record permission_request =
  pq_group :: string
  pq_action :: string
  pq_role_id :: string
  pq_role_name :: string
  pq_user_id :: string
  pq_preset :: string
  pq_capability :: capability
  pq_capabilities :: "capability list"

definition no_permission_request :: permission_request where
  "no_permission_request = \<lparr>pq_group = [], pq_action = [], pq_role_id = [], pq_role_name = [], pq_user_id = [], pq_preset = [],
     pq_capability = [], pq_capabilities = []\<rparr>"

text \<open>A parser returns the request as far as it came, with the error if there is one.\<close>

definition refuse :: "permission_request \<Rightarrow> string \<Rightarrow> permission_request \<times> goerror option" where
  "refuse r msg = (r, Some (Errorf msg))"

definition parseCapability :: "permission_request \<Rightarrow> interaction_option list \<Rightarrow> permission_request \<times> goerror option" where
  "parseCapability r options =
     (case Normalize (optionByName options ''capability'') of
        Inl e \<Rightarrow> (r, Some e)
      | Inr c \<Rightarrow> (r\<lparr>pq_capability := c\<rparr>, None))"

definition parsePreset :: "permission_request \<Rightarrow> interaction_option list \<Rightarrow> permission_request \<times> goerror option" where
  "parsePreset r options =
     (let preset = optionByName options ''preset'' in
      case PresetCapabilities preset of
        None \<Rightarrow> refuse r ''Unknown permission preset.''
      | Some caps \<Rightarrow> (r\<lparr>pq_preset := preset, pq_capabilities := caps\<rparr>, None))"

definition validateRoleUserTargets :: "permission_request \<Rightarrow> permission_request \<times> goerror option" where
  "validateRoleUserTargets r =
     (if trim_space (pq_role_id r) = [] then refuse r ''Role is required.''
      else if trim_space (pq_user_id r) = [] then refuse r ''User is required.''
      else (r, None))"

definition parseRolePermissionRequest :: "permission_request \<Rightarrow> interaction_option list \<Rightarrow> permission_request \<times> goerror option" where
  "parseRolePermissionRequest r0 options =
     (if pq_action r0 = ''create''
      then (let r = r0\<lparr>pq_role_name := trim_space (optionByName options ''name'')\<rparr> in
        if pq_role_name r = [] then refuse r ''Role name is required.''
        else if length (pq_role_name r) > 100 then refuse r ''Role name is too long.''
        else parsePreset r options)
      else if pq_action r0 \<in> {''assign'', ''unassign''}
      then validateRoleUserTargets (r0\<lparr>pq_role_id := optionByName options ''role'', pq_user_id := optionByName options ''user''\<rparr>)
      else if pq_action r0 \<in> {''grant'', ''revoke''}
      then (let r = r0\<lparr>pq_role_id := optionByName options ''role''\<rparr> in
        if trim_space (pq_role_id r) = [] then refuse r ''Role is required.'' else parseCapability r options)
      else if pq_action r0 \<in> {''grant-preset'', ''revoke-preset''}
      then (let r = r0\<lparr>pq_role_id := optionByName options ''role''\<rparr> in
        if trim_space (pq_role_id r) = [] then refuse r ''Role is required.'' else parsePreset r options)
      else refuse r0 ''Unsupported role permissions action.'')"

definition parseUserPermissionRequest :: "permission_request \<Rightarrow> interaction_option list \<Rightarrow> permission_request \<times> goerror option" where
  "parseUserPermissionRequest r0 options =
     (if pq_action r0 \<in> {''grant'', ''revoke''}
      then (let r = r0\<lparr>pq_user_id := optionByName options ''user''\<rparr> in
        if trim_space (pq_user_id r) = [] then refuse r ''User is required.'' else parseCapability r options)
      else refuse r0 ''Unsupported user permissions action.'')"

definition parsePermissionRequest :: "'w interaction \<Rightarrow> permission_request \<times> goerror option" where
  "parsePermissionRequest i =
     (if trim_space (ix_guild_id i) = []
      then refuse no_permission_request ''Permissions can only be changed inside a Discord server.''
      else case ix_options i of
          [grp] \<Rightarrow>
            (case io_options grp of
               [action] \<Rightarrow>
                 (let r = no_permission_request\<lparr>pq_group := io_name grp, pq_action := io_name action\<rparr> in
                  if pq_group r = ''role'' then parseRolePermissionRequest r (io_options action)
                  else if pq_group r = ''user'' then parseUserPermissionRequest r (io_options action)
                  else refuse r ''Unsupported permissions group.'')
             | _ \<Rightarrow> refuse (no_permission_request\<lparr>pq_group := io_name grp\<rparr>) ''Choose one permissions action.'')
        | _ \<Rightarrow> refuse no_permission_request ''Choose one permissions group.'')"

subsection \<open>Carrying it out\<close>

definition roleLabel :: "string \<Rightarrow> string \<Rightarrow> string" where
  "roleLabel roleID fallbackName =
     (if trim_space roleID \<noteq> [] then ''<@&'' @ trim_space roleID @ ''>''
      else if trim_space fallbackName \<noteq> []
      then [CHR 0x60] @ replace_char (CHR 0x60) (CHR 0x27) (trim_space fallbackName) @ [CHR 0x60]
      else [CHR 0x60] @ ''role'' @ [CHR 0x60])"

definition userLabel :: "string \<Rightarrow> string" where
  "userLabel userID =
     (if trim_space userID = [] then [CHR 0x60] @ ''user'' @ [CHR 0x60] else ''<@'' @ trim_space userID @ ''>'')"

definition code_text :: "string \<Rightarrow> string" where
  "code_text s = [CHR 0x60] @ s @ [CHR 0x60]"

text \<open>The change, and the sentence said of it.\<close>

definition said :: "string \<Rightarrow> 'a result \<times> 'w \<Rightarrow> string result \<times> 'w" where
  "said sentence r = db_bind r (\<lambda>_ w. (Inr sentence, w))"

definition executePermissionRequest ::
  "'w grant_service \<Rightarrow> 'w role_service option \<Rightarrow> 'w interaction \<Rightarrow> permission_request \<Rightarrow> 'w \<Rightarrow> string result \<times> 'w" where
  "executePermissionRequest m roles i r w =
     (let guildID = ix_guild_id i;
          with_roles = (\<lambda>f. case roles of None \<Rightarrow> (Inl (Errorf ''discord role service is required''), w) | Some s \<Rightarrow> f s) in
      if pq_group r = ''role'' \<and> pq_action r = ''create''
      then with_roles (\<lambda>s. db_bind (wrap_err ''discord role operation'' (GuildRoleCreate s guildID (pq_role_name r) w)) (\<lambda>role w1.
        said (''Created role '' @ roleLabel (fst role) (snd role) @ '' and granted preset '' @ code_text (pq_preset r) @ ''.'')
          (gs_GrantRoleCapabilities m guildID (fst role) (pq_capabilities r) (ix_user_id i) w1)))
      else if pq_group r = ''role'' \<and> pq_action r = ''assign''
      then with_roles (\<lambda>s. said (''Assigned role '' @ roleLabel (pq_role_id r) [] @ '' to user '' @ userLabel (pq_user_id r) @ ''.'')
        (wrap_err ''discord role operation'' (GuildMemberRoleAdd s guildID (pq_user_id r) (pq_role_id r) w)))
      else if pq_group r = ''role'' \<and> pq_action r = ''unassign''
      then with_roles (\<lambda>s. said (''Unassigned role '' @ roleLabel (pq_role_id r) [] @ '' from user '' @ userLabel (pq_user_id r) @ ''.'')
        (wrap_err ''discord role operation'' (GuildMemberRoleRemove s guildID (pq_user_id r) (pq_role_id r) w)))
      else if pq_group r = ''role'' \<and> pq_action r = ''grant''
      then said (''Granted '' @ code_text (pq_capability r) @ '' for role '' @ roleLabel (pq_role_id r) [] @ ''.'')
        (gs_GrantRole m guildID (pq_role_id r) (pq_capability r) (ix_user_id i) w)
      else if pq_group r = ''role'' \<and> pq_action r = ''revoke''
      then said (''Revoked '' @ code_text (pq_capability r) @ '' for role '' @ roleLabel (pq_role_id r) [] @ ''.'')
        (gs_RevokeRole m guildID (pq_role_id r) (pq_capability r) w)
      else if pq_group r = ''role'' \<and> pq_action r = ''grant-preset''
      then said (''Granted preset '' @ code_text (pq_preset r) @ '' for role '' @ roleLabel (pq_role_id r) [] @ ''.'')
        (gs_GrantRoleCapabilities m guildID (pq_role_id r) (pq_capabilities r) (ix_user_id i) w)
      else if pq_group r = ''role'' \<and> pq_action r = ''revoke-preset''
      then said (''Revoked preset '' @ code_text (pq_preset r) @ '' for role '' @ roleLabel (pq_role_id r) [] @ ''.'')
        (gs_RevokeRoleCapabilities m guildID (pq_role_id r) (pq_capabilities r) w)
      else if pq_group r = ''user'' \<and> pq_action r = ''grant''
      then said (''Granted '' @ code_text (pq_capability r) @ '' for user '' @ userLabel (pq_user_id r) @ ''.'')
        (gs_GrantUser m guildID (pq_user_id r) (pq_capability r) (ix_user_id i) w)
      else if pq_group r = ''user'' \<and> pq_action r = ''revoke''
      then said (''Revoked '' @ code_text (pq_capability r) @ '' for user '' @ userLabel (pq_user_id r) @ ''.'')
        (gs_RevokeUser m guildID (pq_user_id r) (pq_capability r) w)
      else (Inl (Errorf ''unsupported permissions action''), w))"

definition cleanPermissionError :: "permission_request \<Rightarrow> string" where
  "cleanPermissionError r =
     (if pq_group r = ''role'' \<and> pq_action r \<in> {''create'', ''assign'', ''unassign''}
      then ''Could not update Discord role. Check Gigi has Manage Roles and role hierarchy is high enough.''
      else ''Permission change failed.'')"

definition permission_change :: "'w interaction \<Rightarrow> permission_request \<Rightarrow> audit_status \<Rightarrow> bool \<Rightarrow> audit_event" where
  "permission_change i r status ok =
     \<lparr>ev_kind = ''discord.permissions.change'', ev_guild_id = ix_guild_id i, ev_actor_id = ix_user_id i, ev_status = status,
      ev_reason = (if ok then [] else ''permission_change_failed''),
      ev_metadata = [(''command'', ix_name i), (''group'', pq_group r), (''action'', pq_action r)] @
        (if pq_capability r \<noteq> [] then [(''capability'', pq_capability r)] else []) @
        (if pq_preset r \<noteq> [] then [(''preset'', pq_preset r)] else []),
      ev_request_id = []\<rparr>"

definition recordPermissionChange ::
  "'w audit_recorder option \<Rightarrow> 'w interaction \<Rightarrow> permission_request \<Rightarrow> audit_status \<Rightarrow> bool \<Rightarrow> 'w \<Rightarrow> unit result \<times> 'w" where
  "recordPermissionChange recorder i r status ok w =
     (case recorder of
        None \<Rightarrow> (Inr (), w)
      | Some rec \<Rightarrow> if trim_space (ix_user_id i) = [] then (Inr (), w) else rec (permission_change i r status ok) w)"

definition permissionHandler ::
  "'w grant_service option \<Rightarrow> 'w role_service option \<Rightarrow> 'w audit_recorder option \<Rightarrow> 'w command_handler" where
  "permissionHandler manager roles recorder i w =
     (case manager of
        None \<Rightarrow> (Inl (Errorf ''capability grant manager is required''), w)
      | Some m \<Rightarrow>
          (case parsePermissionRequest i of
             (r, Some e) \<Rightarrow>
               (Inr (private_text (error_text e)), snd (recordPermissionChange recorder i r StatusFailed False w))
           | (r, None) \<Rightarrow>
               (case executePermissionRequest m (case ix_role_service i of Some s \<Rightarrow> Some s | None \<Rightarrow> roles) i r w of
                  (Inl e, w1) \<Rightarrow>
                    (Inr (private_text (cleanPermissionError r)), snd (recordPermissionChange recorder i r StatusFailed False w1))
                | (Inr response, w1) \<Rightarrow>
                    db_bind (recordPermissionChange recorder i r StatusSucceeded True w1) (\<lambda>_ w2.
                      (Inr (private_text response), w2)))))"

definition PermissionCommands ::
  "'w grant_service option \<Rightarrow> 'w role_service option \<Rightarrow> 'w audit_recorder option \<Rightarrow> 'w command list" where
  "PermissionCommands manager roles recorder =
     [\<lparr>co_name = ''permissions'', co_description = ''Manage Gigi capability grants.'', co_required = CapabilityManage,
       co_required_for = None, co_required_for_modal = None, co_modal_prefixes = [],
       co_options = [permissionRoleGroup, permissionUserGroup],
       co_handle = Some (permissionHandler manager roles recorder), co_handle_modal = None\<rparr>]"

end
