(* ===== verification/AgentTools.thy ===== *)
theory AgentTools
  imports AgentMemory PluginCatalog JobWorker
begin

text \<open>
  The other tools of \<^verbatim>\<open>internal/agent\<close>: \<^verbatim>\<open>permission_tools.go\<close>, \<^verbatim>\<open>usage_tools.go\<close>, \<^verbatim>\<open>job_tools.go\<close> and
  \<^verbatim>\<open>plugin_tools.go\<close>, with the chat handler of \<^verbatim>\<open>chat.go\<close> and the chain of planners of \<^verbatim>\<open>tool_planner.go\<close>. JSON
  validation is a parameter; times are written in UTC.
\<close>

abbreviation ToolPermissionsCheck :: string where "ToolPermissionsCheck \<equiv> ''permissions.check''"
abbreviation ToolLLMUsageGuild :: string where "ToolLLMUsageGuild \<equiv> ''llm.usage.guild''"
abbreviation ToolJobsSchedule :: string where "ToolJobsSchedule \<equiv> ''jobs.schedule''"
abbreviation ToolJobsList :: string where "ToolJobsList \<equiv> ''jobs.list''"
abbreviation ToolJobsCancel :: string where "ToolJobsCancel \<equiv> ''jobs.cancel''"
abbreviation ToolPluginsEnabled :: string where "ToolPluginsEnabled \<equiv> ''plugins.enabled''"
abbreviation ToolPluginsPlan :: string where "ToolPluginsPlan \<equiv> ''plugins.plan''"

subsection \<open>Permissions and usage\<close>

definition permissions_check_execute ::
  "'w capability_checker option \<Rightarrow> request \<Rightarrow> tool_call \<Rightarrow> 'w \<Rightarrow> tool_result result \<times> 'w" where
  "permissions_check_execute checker request call w =
     (if rq_surface request \<noteq> SurfaceGuildMention \<or> rq_guild_id request = []
      then (Inl (Errorf ''guild permission context is required''), w)
      else case checker of
          None \<Rightarrow> (Inl (Errorf ''capability checker is required''), w)
        | Some check \<Rightarrow>
            (case Normalize (mget (tc_args call) ''capability'') of
               Inl e \<Rightarrow> (Inl e, w)
             | Inr required \<Rightarrow>
                 (case check (subject_of request) required w of
                    ((decision, Some e), w1) \<Rightarrow> (Inl e, w1)
                  | ((decision, None), w1) \<Rightarrow>
                      (Inr \<lparr>tr_name = ToolPermissionsCheck,
                         tr_summary = ''You '' @ (if allowed decision then ''has'' else ''does not have'') @ '' '' @
                           quoted required @ '' in this server.'',
                         tr_data = Some [(''capability'', required), (''allowed'', bool_str (allowed decision)),
                           (''reason'', trim_space (dec_reason decision))]\<rparr>, w1))))"

definition PermissionsCheckTool :: "'w capability_checker option \<Rightarrow> 'w tool" where
  "PermissionsCheckTool checker = \<lparr>
     tl_spec = \<lparr>sp_name = ToolPermissionsCheck,
       sp_description = ''Check whether the requesting user has a named Gigi capability in this guild.'',
       sp_kind = ToolKindRead, sp_capability = []\<rparr>,
     tl_execute = permissions_check_execute checker\<rparr>"

definition formatLLMUsageSummary :: "usage_summary \<Rightarrow> string" where
  "formatLLMUsageSummary s =
     (if us_total_events s = 0 then ''LLM usage for this server: no recorded usage.''
      else ''LLM usage for this server: '' @ int_str (us_input_tokens s + us_output_tokens s) @ '' tokens ('' @
        int_str (us_input_tokens s) @ '' input, '' @ int_str (us_output_tokens s) @ '' output) across '' @
        int_str (us_total_events s) @ '' '' @ (if us_total_events s = 1 then ''request'' else ''requests'') @
        (if us_failed_events s > 0 then ''; '' @ int_str (us_failed_events s) @ '' failed'' else []) @ ''.'')"

definition llm_usage_execute ::
  "(string \<Rightarrow> 'w \<Rightarrow> usage_summary result \<times> 'w) option \<Rightarrow> request \<Rightarrow> tool_call \<Rightarrow> 'w \<Rightarrow> tool_result result \<times> 'w" where
  "llm_usage_execute reporter request call w =
     (if rq_surface request \<noteq> SurfaceGuildMention \<or> rq_guild_id request = []
      then (Inl (Errorf ''guild usage context is required''), w)
      else case reporter of
          None \<Rightarrow> (Inl (Errorf ''usage reporter is required''), w)
        | Some usage \<Rightarrow>
            db_bind (usage (rq_guild_id request) w) (\<lambda>s w1.
              (Inr \<lparr>tr_name = ToolLLMUsageGuild, tr_summary = formatLLMUsageSummary s,
                 tr_data = Some [(''input_tokens'', int_str (us_input_tokens s)),
                   (''output_tokens'', int_str (us_output_tokens s)),
                   (''total_tokens'', int_str (us_input_tokens s + us_output_tokens s)),
                   (''total_events'', int_str (us_total_events s)),
                   (''failed_events'', int_str (us_failed_events s))]\<rparr>, w1)))"

definition LLMUsageGuildTool :: "(string \<Rightarrow> 'w \<Rightarrow> usage_summary result \<times> 'w) option \<Rightarrow> 'w tool" where
  "LLMUsageGuildTool reporter = \<lparr>
     tl_spec = \<lparr>sp_name = ToolLLMUsageGuild, sp_description = ''Summarize recorded LLM token usage for this guild.'',
       sp_kind = ToolKindRead, sp_capability = ''llm.provider.select''\<rparr>,
     tl_execute = llm_usage_execute reporter\<rparr>"

subsection \<open>Jobs\<close>

text \<open>
  \<open>sj_json_object\<close>: \<^verbatim>\<open>json.Valid\<close> and the decoding into a non-nil map, \<open>None\<close> if the text is no JSON, \<open>Some False\<close> if it
  is another value than an object; \<open>sj_quote\<close>: the verb \<^verbatim>\<open>%q\<close>. A \<^verbatim>\<open>time.Duration\<close> is 64 bits of nanoseconds: the product with \<^verbatim>\<open>time.Second\<close> wraps around.
\<close>

record 'w schedule_tool =
  sj_enqueue :: "(job \<Rightarrow> 'w \<Rightarrow> unit result \<times> 'w) option"
  sj_new_job_id :: "string option"
  sj_allowed_kinds :: "string list"
  sj_now :: gotime
  sj_json_object :: "string \<Rightarrow> bool option"
  sj_quote :: "string \<Rightarrow> string"

definition allowedJobKind :: "string \<Rightarrow> string list \<Rightarrow> bool" where
  "allowedJobKind kind kinds \<longleftrightarrow> list_ex (\<lambda>c. trim_space c = kind) kinds"

definition wrap64 :: "int \<Rightarrow> int" where
  "wrap64 i = (i + 9223372036854775808) mod 18446744073709551616 - 9223372036854775808"

definition run_after :: "gotime \<Rightarrow> gomap \<Rightarrow> gotime" where
  "run_after now args =
     (case map_of args ''run_after_seconds'' of
        None \<Rightarrow> now
      | Some s \<Rightarrow> (case atoi s of
            None \<Rightarrow> now
          | Some seconds \<Rightarrow> if seconds > 0 then now + wrap64 (seconds * 1000000000) else now))"

definition jobs_schedule_execute ::
  "'w schedule_tool \<Rightarrow> request \<Rightarrow> tool_call \<Rightarrow> 'w \<Rightarrow> tool_result result \<times> 'w" where
  "jobs_schedule_execute t request call w =
     (let taskName = trim_space (mget (tc_args call) ''task_name'');
          payload0 = trim_space (mget (tc_args call) ''payload'');
          payload = (if payload0 = [] then ''{}'' else payload0);
          runAfter = run_after (sj_now t) (tc_args call);
          jobID = (case sj_new_job_id t of None \<Rightarrow> [] | Some i \<Rightarrow> trim_space i) in
      case sj_enqueue t of
        None \<Rightarrow> (Inl (Errorf ''jobs queue is required''), w)
      | Some enqueue \<Rightarrow>
          (case checks
             [must (taskName \<noteq> []) ''task_name is required'',
              must (allowedJobKind taskName (sj_allowed_kinds t)) ''unsupported task_name %q'',
              must (sj_json_object t payload \<noteq> None) ''payload must be valid JSON'',
              must (sj_json_object t payload = Some True) ''payload must be a JSON object'',
              must (sj_new_job_id t \<noteq> None) ''job ID generator is required'',
              must (jobID \<noteq> []) ''job ID is required''] of
             Inl e \<Rightarrow> (Inl e, w)
           | Inr _ \<Rightarrow>
               db_bind (wrap_err ''failed to enqueue job'' (enqueue
                   \<lparr>jo_id = jobID, jo_kind = taskName, jo_payload = payload, jo_status = StatusQueued, jo_attempts = 0,
                    jo_max_attempts = 3, jo_run_after = runAfter, jo_locked_by = [], jo_locked_at = zero_time,
                    jo_last_error = []\<rparr> w))
                 (\<lambda>_ w1. (Inr \<lparr>tr_name = ToolJobsSchedule,
                    tr_summary = ''Scheduled background task '' @ sj_quote t taskName @ '' (ID: '' @ jobID @ '') for '' @ rfc3339 runAfter @ ''.'',
                    tr_data = Some [(''job_id'', jobID), (''task_name'', taskName), (''run_after'', rfc3339 runAfter),
                      (''status'', StatusQueued)]\<rparr>, w1))))"

definition JobsScheduleTool :: "'w schedule_tool \<Rightarrow> 'w tool" where
  "JobsScheduleTool t = \<lparr>
     tl_spec = \<lparr>sp_name = ToolJobsSchedule,
       sp_description = (''Schedule an allowed background job. Arguments: task_name, payload (JSON object), run_after_seconds '' @
      ''(optional).''),
       sp_kind = ToolKindWrite, sp_capability = ''job.schedule''\<rparr>,
     tl_execute = jobs_schedule_execute t\<rparr>"

definition validJobStatus :: "string \<Rightarrow> bool" where
  "validJobStatus s \<longleftrightarrow> s \<in> {StatusQueued, StatusRunning, JobSucceeded, JobFailed, StatusCancelled}"

text \<open>The rows a listing shows, the one to run last first.\<close>

definition list_jobs :: "string \<Rightarrow> int \<Rightarrow> (jobs_table, job_row list) statement" where
  "list_jobs status limit now t =
     Inr (take (nat limit) (sort_key (\<lambda>r. - jr_run_after r)
       (filter (\<lambda>r. status = [] \<or> jr_status r = status) (jt_rows t))), t)"

definition job_line :: "job_row \<Rightarrow> string" where
  "job_line r = ''- ID: '' @ jr_id r @ '' | Task: '' @ jr_kind r @ '' | Status: '' @ jr_status r @ '' | Attempts: '' @
     int_str (jr_attempts r) @ '' | RunAfter: '' @ rfc3339 (jr_run_after r) @
     (if jr_last_error r \<noteq> None then '' (error recorded)'' else [])"

definition job_entries :: "nat \<Rightarrow> job_row \<Rightarrow> gomap" where
  "job_entries n r =
     (let i = nat_str n in
      [(''job_id_'' @ i, jr_id r), (''kind_'' @ i, jr_kind r), (''status_'' @ i, jr_status r),
       (''has_error_'' @ i, bool_str (jr_last_error r \<noteq> None))])"

definition jobs_list_execute :: "bool \<Rightarrow> request \<Rightarrow> tool_call \<Rightarrow> jobs_db \<Rightarrow> tool_result result \<times> jobs_db" where
  "jobs_list_execute has_db request call db =
     (let status = trim_space (mget (tc_args call) ''status'');
          limit = parseLimit (mget (tc_args call) ''limit'') 10 25 in
      if \<not> has_db then (Inl (Errorf ''database access is required''), db)
      else if status \<noteq> [] \<and> \<not> validJobStatus status then (Inl (Errorf ''invalid job status %q''), db)
      else db_bind (wrap_err ''failed to query jobs'' (sql_exec (list_jobs status limit) db)) (\<lambda>rows db1.
        (Inr \<lparr>tr_name = ToolJobsList,
           tr_summary = (if rows = [] then ''No background jobs found.''
             else ''Background jobs:'' @ [CHR 0x0A] @ join [CHR 0x0A] (map job_line rows)),
           tr_data = Some (concat (map (\<lambda>(n, r). job_entries n r) (zip [1..<Suc (length rows)] rows)) @
             [(''count'', nat_str (length rows))])\<rparr>, db1)))"

definition JobsListTool :: "bool \<Rightarrow> jobs_db tool" where
  "JobsListTool has_db = \<lparr>
     tl_spec = \<lparr>sp_name = ToolJobsList,
       sp_description = (''List background jobs. Arguments: status (optional: queued, running, succeeded, failed, cancelled), limit '' @
      ''(optional).''),
       sp_kind = ToolKindRead, sp_capability = ''job.read''\<rparr>,
     tl_execute = jobs_list_execute has_db\<rparr>"

definition jobs_cancel_execute :: "bool \<Rightarrow> request \<Rightarrow> tool_call \<Rightarrow> jobs_db \<Rightarrow> tool_result result \<times> jobs_db" where
  "jobs_cancel_execute has_db request call db =
     (let jobID = trim_space (mget (tc_args call) ''job_id'') in
      if \<not> has_db then (Inl (Errorf ''database access is required''), db)
      else if jobID = [] then (Inl (Errorf ''job_id is required''), db)
      else db_bind (wrap_err ''failed to cancel job'' (sql_exec (cancel_job jobID) db)) (\<lambda>affected db1.
        (Inr \<lparr>tr_name = ToolJobsCancel,
           tr_summary = (if affected = 0
             then ''Job '' @ jobID @ '' could not be cancelled (either not found or currently running/succeeded).''
             else ''Successfully cancelled background job '' @ jobID @ ''.''),
           tr_data = Some [(''job_id'', jobID), (''cancelled'', bool_str (affected \<noteq> 0))]\<rparr>, db1)))"

definition JobsCancelTool :: "bool \<Rightarrow> jobs_db tool" where
  "JobsCancelTool has_db = \<lparr>
     tl_spec = \<lparr>sp_name = ToolJobsCancel, sp_description = ''Cancel a queued or failed background job. Arguments: job_id.'',
       sp_kind = ToolKindWrite, sp_capability = ''job.write''\<rparr>,
     tl_execute = jobs_cancel_execute has_db\<rparr>"

subsection \<open>Plugins\<close>

type_synonym 'w plugin_registry = "string \<Rightarrow> 'w \<Rightarrow> manifest list result \<times> 'w"

definition plugins_enabled_execute ::
  "'w plugin_registry option \<Rightarrow> request \<Rightarrow> tool_call \<Rightarrow> 'w \<Rightarrow> tool_result result \<times> 'w" where
  "plugins_enabled_execute reg request call w =
     (if rq_surface request \<noteq> SurfaceGuildMention \<or> rq_guild_id request = []
      then (Inl (Errorf ''guild plugin context is required''), w)
      else case reg of
          None \<Rightarrow> (Inl (Errorf ''plugin registry is required''), w)
        | Some enabled \<Rightarrow>
            db_bind (enabled (rq_guild_id request) w) (\<lambda>manifests w1.
              (Inr (if manifests = []
                 then \<lparr>tr_name = ToolPluginsEnabled, tr_summary = ''No external app plugins are enabled for this server.'',
                   tr_data = Some [(''count'', ''0'')]\<rparr>
                 else \<lparr>tr_name = ToolPluginsEnabled,
                   tr_summary = ''Enabled external app plugins: '' @ join '', ''
                     (map (\<lambda>m. safeInline (mf_name m)) (filter (\<lambda>m. trim_space (mf_name m) \<noteq> []) manifests)) @ ''.'',
                   tr_data = Some [(''count'', nat_str (length manifests)),
                     (''plugin_ids'', join '','' (map mf_id (filter (\<lambda>m. trim_space (mf_id m) \<noteq> []) manifests)))]\<rparr>), w1)))"

definition PluginsEnabledTool :: "'w plugin_registry option \<Rightarrow> 'w tool" where
  "PluginsEnabledTool reg = \<lparr>
     tl_spec = \<lparr>sp_name = ToolPluginsEnabled, sp_description = ''List enabled external Discord app manifests for this guild.'',
       sp_kind = ToolKindRead, sp_capability = ''plugin.install''\<rparr>,
     tl_execute = plugins_enabled_execute reg\<rparr>"

definition joinCapabilities :: "capability list \<Rightarrow> string" where
  "joinCapabilities values = join '','' (filter (\<lambda>v. v \<noteq> []) (map trim_space values))"

text \<open>The loop of \<^verbatim>\<open>authorize\<close> over the required capabilities: the first that is not allowed decides.\<close>

fun authorize_all ::
  "'w capability_checker \<Rightarrow> subject \<Rightarrow> capability list \<Rightarrow> 'w \<Rightarrow> (decision \<times> goerror option) \<times> 'w" where
  "authorize_all check sub [] w = ((\<lparr>allowed = True, dec_capability = [], dec_reason = []\<rparr>, None), w)"
| "authorize_all check sub (c # cs) w =
     (case check sub c w of
        ((d, Some e), w1) \<Rightarrow> ((d\<lparr>allowed := False\<rparr>, Some e), w1)
      | ((d, None), w1) \<Rightarrow> if \<not> allowed d then ((d\<lparr>allowed := False\<rparr>, None), w1) else authorize_all check sub cs w1)"

definition authorize ::
  "'w capability_checker option \<Rightarrow> request \<Rightarrow> capability list \<Rightarrow> 'w \<Rightarrow> (decision \<times> goerror option) \<times> 'w" where
  "authorize checker request required w =
     (case checker of
        None \<Rightarrow> ((\<lparr>allowed = False, dec_capability = hd required, dec_reason = ReasonStoreError\<rparr>,
            Some (Errorf ''capability checker is required'')), w)
      | Some check \<Rightarrow> authorize_all check (subject_of request) required w)"

definition planned_result :: "command_plan \<Rightarrow> tool_result" where
  "planned_result p = \<lparr>tr_name = ToolPluginsPlan,
     tr_summary = ''Matched external app '' @ quoted (mf_name (cp_manifest p)) @ ''; planned command '' @
       quoted (cp_command p) @ ''.'',
     tr_data = Some [(''matched'', ''true''), (''allowed'', ''true''), (''plugin_id'', mf_id (cp_manifest p)),
       (''plugin_name'', mf_name (cp_manifest p)), (''plugin_version'', mf_version (cp_manifest p)),
       (''action_id'', ac_id (cp_action p)), (''action_safety'', ac_safety (cp_action p)),
       (''dispatch_adapter'', ac_adapter (cp_action p)), (''trigger'', tg_value (cp_trigger p)), (''command'', cp_command p),
       (''arguments'', cp_arguments p), (''dispatch'', CommandDispatchMode p),
       (''required_capabilities'', joinCapabilities (cp_required_capabilities p))]\<rparr>"

definition denied_result :: "command_plan \<Rightarrow> decision \<Rightarrow> tool_result" where
  "denied_result p d = \<lparr>tr_name = ToolPluginsPlan, tr_summary = ''Permission denied for external app action.'',
     tr_data = Some [(''matched'', ''true''), (''allowed'', ''false''),
       (''required_capabilities'', joinCapabilities (cp_required_capabilities p)),
       (''denied_capability'', dec_capability d), (''decision_reason'', dec_reason d)]\<rparr>"

definition plugin_plan_execute ::
  "'w plugin_registry option \<Rightarrow> 'w capability_checker option \<Rightarrow> request \<Rightarrow> tool_call \<Rightarrow> 'w \<Rightarrow> tool_result result \<times> 'w"
where
  "plugin_plan_execute reg checker request call w =
     (let text0 = trim_space (mget (tc_args call) ''text'');
          text = (if text0 = [] then rq_text request else text0) in
      if rq_surface request \<noteq> SurfaceGuildMention \<or> rq_guild_id request = []
      then (Inl (Errorf ''guild plugin context is required''), w)
      else case reg of
          None \<Rightarrow> (Inl (Errorf ''plugin registry is required''), w)
        | Some enabled \<Rightarrow>
            if text = [] then (Inl (Errorf ''plugin plan text is required''), w)
            else db_bind (enabled (rq_guild_id request) w) (\<lambda>manifests w1.
              case PlanCommand manifests ''guild_text'' text of
                None \<Rightarrow> (Inr \<lparr>tr_name = ToolPluginsPlan,
                  tr_summary = ''No enabled external app manifest matched that text.'',
                  tr_data = Some [(''matched'', ''false'')]\<rparr>, w1)
              | Some p \<Rightarrow>
                  if cp_required_capabilities p = [] then (Inr (planned_result p), w1)
                  else (case authorize checker request (cp_required_capabilities p) w1 of
                      ((d, Some e), w2) \<Rightarrow> (Inl e, w2)
                    | ((d, None), w2) \<Rightarrow>
                        if \<not> allowed d then (Inr (denied_result p d), w2) else (Inr (planned_result p), w2))))"

definition PluginPlanTool :: "'w plugin_registry option \<Rightarrow> 'w capability_checker option \<Rightarrow> 'w tool" where
  "PluginPlanTool reg checker = \<lparr>
     tl_spec = \<lparr>sp_name = ToolPluginsPlan,
       sp_description = ''Plan which enabled external Discord app command would match text without dispatching it.'',
       sp_kind = ToolKindRead, sp_capability = []\<rparr>,
     tl_execute = plugin_plan_execute reg checker\<rparr>"

subsection \<open>Chat and the chain of planners\<close>

definition ChatHandler :: "(chat_message \<Rightarrow> 'w \<Rightarrow> string result \<times> 'w) option \<Rightarrow> 'w handler" where
  "ChatHandler responder request w =
     (case responder of
        None \<Rightarrow> ((empty_response, False, None), w)
      | Some reply \<Rightarrow>
          (case reply \<lparr>ms_surface = rq_surface request, ms_guild_id = rq_guild_id request,
               ms_channel_id = rq_channel_id request, ms_actor_user_id = rq_actor_user_id request, ms_text = rq_text request\<rparr> w of
             (Inl e, w1) \<Rightarrow> ((empty_response, False, Some e), w1)
           | (Inr text, w1) \<Rightarrow>
               if trim_space text = [] then ((empty_response, False, None), w1)
               else (((text_response text)\<lparr>rs_visibility := VisibilityPublic\<rparr>, True, None), w1)))"

fun multi_planner ::
  "'w planner option list \<Rightarrow> request \<Rightarrow> tool_spec list \<Rightarrow> plan \<Rightarrow> 'w \<Rightarrow> (plan \<times> bool) result \<times> 'w" where
  "multi_planner [] request specs last_trace w = (Inr (last_trace, False), w)"
| "multi_planner (None # ps) request specs last_trace w = multi_planner ps request specs last_trace w"
| "multi_planner (Some p # ps) request specs last_trace w =
     (case p request specs w of
        (Inl e, w1) \<Rightarrow> (Inl e, w1)
      | (Inr (pl, ok), w1) \<Rightarrow>
          if ok then (Inr (pl, True), w1)
          else multi_planner ps request specs (if pl_trace pl \<noteq> [] then pl else last_trace) w1)"

definition MultiPlanner :: "'w planner option list \<Rightarrow> 'w planner" where
  "MultiPlanner ps request specs w = multi_planner ps request specs no_plan w"

end
