(* ===== verification/DiscordMemory.thy ===== *)
theory DiscordMemory
  imports DiscordPermissions DiscordMessages LlmAnswerer GuildPolicy
begin

text \<open>
  The guild memory in \<^verbatim>\<open>internal/discord\<close>: the \<^verbatim>\<open>memory\<close> command of \<^verbatim>\<open>memory.go\<close>, the handler of \<^verbatim>\<open>memory_questions.go\<close>
  that knows one question by its pattern, and the handler of \<^verbatim>\<open>memory_semantic.go\<close> that asks a model for a plan. The store
  is an interface over a world \<open>'w\<close>.
\<close>

record 'w memory_manager =
  mm_status :: "string \<Rightarrow> 'w \<Rightarrow> memory_status result \<times> 'w"
  mm_upsert :: "upsert_channel_request \<Rightarrow> 'w \<Rightarrow> channel_policy result \<times> 'w"
  mm_count :: "count_request \<Rightarrow> 'w \<Rightarrow> nat result \<times> 'w"
  mm_search :: "search_request \<Rightarrow> 'w \<Rightarrow> search_result list result \<times> 'w"

subsection \<open>The options of the command\<close>

text \<open>The option types of Discord used here: sub-command 1, group 2, string 3, integer 4, user 6, channel 7.\<close>

definition optionalStringOption :: "string \<Rightarrow> string \<Rightarrow> string list \<Rightarrow> command_option" where
  "optionalStringOption name description choices = CmdOption 3 name description False choices []"

definition integerOption :: "string \<Rightarrow> string \<Rightarrow> bool \<Rightarrow> command_option" where
  "integerOption name description needed = CmdOption 4 name description needed [] []"

definition channelOption :: "string \<Rightarrow> string \<Rightarrow> command_option" where
  "channelOption name description = CmdOption 7 name description True [] []"

definition memoryModeOption :: command_option where
  "memoryModeOption = stringOption ''mode'' ''Memory mode.'' [ModeOff, ModeMetadata, ModeFull]"

definition memoryScopeOption :: command_option where
  "memoryScopeOption = optionalStringOption ''scope'' ''Memory scope.'' [''this-channel'', ''server'']"

definition memory_options :: "command_option list" where
  "memory_options =
     [CmdOption 1 ''status'' ''Show guild memory status.'' False [] [],
      CmdOption 1 ''count'' ''Count exact text mentions in readable memory.'' False []
        [stringOption ''text'' ''Text to count.'' [], CmdOption 6 ''user'' ''Discord user.'' False [] [], memoryScopeOption],
      CmdOption 1 ''search'' ''Search retained memory in this channel.'' False []
        [stringOption ''query'' ''Search query.'' [], CmdOption 6 ''user'' ''Discord user.'' False [] [],
         integerOption ''limit'' ''Result limit, 1-25.'' False],
      CmdOption 2 ''settings'' ''Manage guild memory settings.'' False []
        [CmdOption 1 ''show'' ''Show guild memory settings.'' False [] [],
         CmdOption 1 ''set'' ''Set channel memory mode.'' False []
           [channelOption ''channel'' ''Discord channel.'', memoryModeOption,
            integerOption ''retention-days'' ''Retention days, 1-365. Omit to use default.'' False]]]"

subsection \<open>The request\<close>

abbreviation MemoryManageGuild :: capability where "MemoryManageGuild \<equiv> ''memory.manage.guild''"

text \<open>The group and the action an interaction names, if it names one.\<close>

definition memoryPath :: "'w interaction \<Rightarrow> (string \<times> string) option" where
  "memoryPath i =
     (case ix_options i of
        [f] \<Rightarrow>
          if io_name f \<in> {''status'', ''count'', ''search''} then Some (io_name f, [])
          else (case io_options f of [a] \<Rightarrow> Some (io_name f, io_name a) | _ \<Rightarrow> None)
      | _ \<Rightarrow> None)"

definition memoryRequiredCapability :: "'w interaction \<Rightarrow> capability" where
  "memoryRequiredCapability i =
     (case memoryPath i of
        None \<Rightarrow> []
      | Some (grp, action) \<Rightarrow>
          if grp \<in> {''status'', ''count'', ''search''} then MemoryReadGuild
          else if grp = ''settings'' \<and> action \<in> {''show'', ''set''} then MemoryManageGuild else [])"

record memory_command =
  mz_group :: string
  mz_action :: string
  mz_channel_id :: string
  mz_mode :: memory_mode
  mz_retention_days :: int
  mz_user_id :: string
  mz_text :: string
  mz_scope :: string
  mz_query :: string
  mz_limit :: int

definition no_memory_command :: memory_command where
  "no_memory_command = \<lparr>mz_group = [], mz_action = [], mz_channel_id = [], mz_mode = [], mz_retention_days = 0, mz_user_id = [],
     mz_text = [], mz_scope = [], mz_query = [], mz_limit = 0\<rparr>"

type_synonym parsed_memory = "memory_command \<times> goerror option"

abbreviation (input) unfit :: "memory_command \<Rightarrow> string \<Rightarrow> parsed_memory" where
  "unfit r msg \<equiv> (r, Some (Errorf msg))"

definition parseMemorySearchRequest :: "memory_command \<Rightarrow> interaction_option list \<Rightarrow> parsed_memory" where
  "parseMemorySearchRequest r0 options =
     (let r1 = r0\<lparr>mz_query := trim_space (optionByName options ''query'')\<rparr>;
          r = r1\<lparr>mz_user_id := optionByName options ''user''\<rparr>; limitValue = optionByName options ''limit'' in
      if mz_query r1 = [] then unfit r1 ''Query is required.''
      else if limitValue = [] then (r\<lparr>mz_limit := 5\<rparr>, None)
      else case atoi limitValue of
          None \<Rightarrow> unfit r ''Limit must be a whole number.''
        | Some limit \<Rightarrow>
            if limit < 1 \<or> limit > 25 then unfit r ''Limit must be between 1 and 25.'' else (r\<lparr>mz_limit := limit\<rparr>, None))"

definition parseMemoryCountRequest :: "memory_command \<Rightarrow> interaction_option list \<Rightarrow> parsed_memory" where
  "parseMemoryCountRequest r0 options =
     (let r1 = r0\<lparr>mz_text := trim_space (optionByName options ''text'')\<rparr>;
          scope = (if optionByName options ''scope'' = [] then ''this-channel'' else optionByName options ''scope'');
          r = r1\<lparr>mz_user_id := optionByName options ''user'', mz_scope := scope\<rparr> in
      if mz_text r1 = [] then unfit r1 ''Text is required.''
      else if scope \<in> {''this-channel'', ''server''} then (r, None) else unfit r ''Unsupported memory scope.'')"

definition parseMemorySettingsSet :: "memory_command \<Rightarrow> interaction_option list \<Rightarrow> parsed_memory" where
  "parseMemorySettingsSet r0 options =
     (let r1 = r0\<lparr>mz_channel_id := optionByName options ''channel''\<rparr>; r = r1\<lparr>mz_mode := optionByName options ''mode''\<rparr>;
          retentionValue = optionByName options ''retention-days'' in
      if mz_channel_id r1 = [] then unfit r1 ''Channel is required.''
      else case ValidateMode (mz_mode r) of
          Inl e \<Rightarrow> (r, Some e)
        | Inr _ \<Rightarrow>
            if retentionValue = [] then (r, None)
            else case atoi retentionValue of
                None \<Rightarrow> unfit r ''Retention days must be a whole number.''
              | Some days \<Rightarrow>
                  if days < 1 \<or> days > 365 then unfit r ''Retention days must be between 1 and 365.''
                  else (r\<lparr>mz_retention_days := days\<rparr>, None))"

definition parseMemoryRequest :: "'w interaction \<Rightarrow> parsed_memory" where
  "parseMemoryRequest i =
     (if trim_space (ix_guild_id i) = [] then unfit no_memory_command ''Memory can only be managed inside a Discord server.''
      else case ix_options i of
          [f] \<Rightarrow>
            (let named = no_memory_command\<lparr>mz_group := io_name f\<rparr> in
             if io_name f = ''status'' then (named, None)
             else if io_name f = ''count'' then parseMemoryCountRequest named (io_options f)
             else if io_name f = ''search'' then parseMemorySearchRequest named (io_options f)
             else case io_options f of
                 [action] \<Rightarrow>
                   (let r = named\<lparr>mz_action := io_name action\<rparr> in
                    if mz_group r \<noteq> ''settings'' then unfit r ''Unsupported memory action.''
                    else if mz_action r = ''show'' then (r, None)
                    else if mz_action r = ''set'' then parseMemorySettingsSet r (io_options action)
                    else unfit r ''Unsupported memory settings action.'')
               | _ \<Rightarrow> unfit named ''Choose one memory settings action.'')
        | _ \<Rightarrow> unfit no_memory_command ''Choose one memory action.'')"

subsection \<open>What it shows\<close>

definition formatEnabled :: "bool \<Rightarrow> string" where
  "formatEnabled b = (if b then ''on'' else ''off'')"

definition retention_text :: "channel_policy \<Rightarrow> string" where
  "retention_text c = (if cp_retention_days c > 0 then int_str (cp_retention_days c) @ '' days'' else ''default'')"

definition formatMemoryChannelSet :: "channel_policy \<Rightarrow> string" where
  "formatMemoryChannelSet c = ''Set memory for <#'' @ safe_inline (cp_channel_id c) @ ''> to '' @ ticked_inline (cp_mode c) @
     '' (retention: '' @ retention_text c @ '').''"

definition channel_line :: "channel_policy \<Rightarrow> string" where
  "channel_line c = ''- <#'' @ safe_inline (cp_channel_id c) @ ''> - '' @ ticked_inline (cp_mode c) @
     '' (retention: '' @ retention_text c @ '')''"

definition formatMemoryStatus :: "memory_status \<Rightarrow> string" where
  "formatMemoryStatus s =
     (let p = my_policy s; channels = my_channels s;
          head = ''Guild memory: default '' @ ticked_inline (mp_raw_storage_mode p) @ '', retention '' @
            int_str (mp_default_retention_days p) @ '' days, embeddings '' @ formatEnabled (mp_embeddings_enabled p) @ ''.''
      in join [CHR 0x0A] (head #
        (if channels = [] then [''Configured channels: none.'']
         else [''Configured channels:''] @ map channel_line (take 10 channels) @
           (if length channels > 10 then [''...and '' @ nat_str (length channels - 10) @ '' more.''] else []))))"

definition formatMemorySearch :: "search_result list \<Rightarrow> string \<Rightarrow> string" where
  "formatMemorySearch results query =
     (if results = [] then ''Memory search found no retained full-mode matches in this channel.''
      else join [CHR 0x0A] ((''Memory search for '' @ ticked_inline (NormalizeText query) @ '':'') #
        map (\<lambda>r. ''- <@'' @ safe_inline (sr_author_id r) @ ''>: '' @ safe_inline_limit (sr_text r) 140) results))"

definition formatMemoryCount :: "nat \<Rightarrow> memory_command \<Rightarrow> string" where
  "formatMemoryCount n r =
     (if mz_user_id r \<noteq> [] then ''<@'' @ safe_inline (mz_user_id r) @ ''>'' else ''Messages'') @ '' mentioned '' @
     ticked_inline (NormalizeText (mz_text r)) @ '' '' @ nat_str n @ '' times in this channel.''"

subsection \<open>The command\<close>

definition shouldAuditMemoryAction :: "memory_command \<Rightarrow> bool" where
  "shouldAuditMemoryAction r \<longleftrightarrow> mz_group r = ''settings'' \<and> mz_action r = ''set''"

definition memory_change :: "'w interaction \<Rightarrow> memory_command \<Rightarrow> audit_status \<Rightarrow> bool \<Rightarrow> audit_event" where
  "memory_change i r status ok =
     \<lparr>ev_kind = ''discord.memory.settings.change'', ev_guild_id = ix_guild_id i, ev_actor_id = ix_user_id i, ev_status = status,
      ev_reason = (if ok then [] else ''memory_action_failed''),
      ev_metadata = [(''command'', ix_name i), (''group'', mz_group r), (''action'', mz_action r)] @
        (if mz_channel_id r \<noteq> [] then [(''channel_id'', mz_channel_id r)] else []) @
        (if mz_mode r \<noteq> [] then [(''mode'', mz_mode r)] else []) @
        (if mz_retention_days r > 0 then [(''retention_days'', int_str (mz_retention_days r))] else []),
      ev_request_id = []\<rparr>"

definition recordMemoryAction ::
  "'w audit_recorder option \<Rightarrow> 'w interaction \<Rightarrow> memory_command \<Rightarrow> audit_status \<Rightarrow> bool \<Rightarrow> 'w \<Rightarrow> unit result \<times> 'w" where
  "recordMemoryAction recorder i r status ok w =
     (case recorder of
        None \<Rightarrow> (Inr (), w)
      | Some rec \<Rightarrow>
          if trim_space (ix_user_id i) = [] \<or> \<not> shouldAuditMemoryAction r then (Inr (), w)
          else rec (memory_change i r status ok) w)"

definition executeMemoryRequest ::
  "'w memory_manager \<Rightarrow> 'w interaction \<Rightarrow> memory_command \<Rightarrow> 'w \<Rightarrow> string result \<times> 'w" where
  "executeMemoryRequest m i r w =
     (let show_status = db_bind (mm_status m (ix_guild_id i) w) (\<lambda>s w1. (Inr (formatMemoryStatus s), w1)) in
      if mz_group r = ''status'' then show_status
      else if mz_group r = ''count''
      then (if mz_scope r = ''server''
        then (Inr (''Server-wide memory counts are not available yet. Use '' @ ticked ''this-channel'' @ '' scope.''), w)
        else db_bind (mm_count m \<lparr>cq_guild_id = ix_guild_id i, cq_channel_id = ix_channel_id i, cq_author_id = mz_user_id r,
            cq_text = mz_text r, cq_start = zero_time, cq_end = zero_time\<rparr> w)
          (\<lambda>n w1. (Inr (formatMemoryCount n r), w1)))
      else if mz_group r = ''search''
      then db_bind (mm_search m \<lparr>mq_guild_id = ix_guild_id i, mq_channel_id = ix_channel_id i, mq_author_id = mz_user_id r,
            mq_limit = mz_limit r, mq_start = zero_time, mq_end = zero_time, mq_query = mz_query r\<rparr> w)
          (\<lambda>rs w1. (Inr (formatMemorySearch rs (mz_query r)), w1))
      else if mz_group r = ''settings'' \<and> mz_action r = ''show'' then show_status
      else if mz_group r = ''settings'' \<and> mz_action r = ''set''
      then db_bind (mm_upsert m \<lparr>uq_guild_id = ix_guild_id i, uq_channel_id = mz_channel_id r, uq_mode = mz_mode r,
            uq_retention_days = mz_retention_days r, uq_actor_id = ix_user_id i\<rparr> w)
          (\<lambda>c w1. (Inr (formatMemoryChannelSet c), w1))
      else (Inl (Errorf ''unsupported memory action''), w))"

definition memoryHandler :: "'w memory_manager option \<Rightarrow> 'w audit_recorder option \<Rightarrow> 'w command_handler" where
  "memoryHandler manager recorder i w =
     (case manager of
        None \<Rightarrow> (Inl (Errorf ''memory manager is required''), w)
      | Some m \<Rightarrow>
          (case parseMemoryRequest i of
             (r, Some e) \<Rightarrow> (Inr (private_text (error_text e)), snd (recordMemoryAction recorder i r StatusFailed False w))
           | (r, None) \<Rightarrow>
               (case executeMemoryRequest m i r w of
                  (Inl e, w1) \<Rightarrow>
                    (Inr (private_text ''Memory command failed.''), snd (recordMemoryAction recorder i r StatusFailed False w1))
                | (Inr answer, w1) \<Rightarrow>
                    db_bind (if shouldAuditMemoryAction r then recordMemoryAction recorder i r StatusSucceeded True w1
                        else (Inr (), w1))
                      (\<lambda>_ w2. (Inr (private_text answer), w2)))))"

definition MemoryCommands :: "'w memory_manager option \<Rightarrow> 'w audit_recorder option \<Rightarrow> 'w command list" where
  "MemoryCommands manager recorder = [\<lparr>co_name = ''memory'', co_description = ''Manage Gigi guild memory settings.'',
     co_required = [], co_required_for = Some memoryRequiredCapability, co_required_for_modal = None, co_modal_prefixes = [],
     co_options = memory_options, co_handle = Some (memoryHandler manager recorder), co_handle_modal = None\<rparr>]"

subsection \<open>A question with a pattern\<close>

text \<open>
  The pattern \<^verbatim>\<open>(?i)\bhow many times did\s+<@!?([0-9]+)>\s+mention\s+["']?(.+?)["']?\s*\??$\<close>, written out as the match that
  \<^verbatim>\<open>FindStringSubmatch\<close> gives: the leftmost one, with the shortest text before the tail. The letter s also matches U+017F.
  The text has no white space at its end, so that the greedy \<^verbatim>\<open>\s+\<close> always takes all of it.
\<close>

definition word_char :: "char \<Rightarrow> bool" where
  "word_char c \<longleftrightarrow> is_digit_char c \<or> (97 \<le> byte (lower_char c) \<and> byte (lower_char c) \<le> 122) \<or> c = CHR 0x5F"

fun fold_literal :: "string \<Rightarrow> string \<Rightarrow> string option" where
  "fold_literal [] s = Some s"
| "fold_literal (p # ps) [] = None"
| "fold_literal (p # ps) (c # cs) =
     (if lower_char c = p then fold_literal ps cs
      else if p = CHR ''s'' \<and> prefix [CHR 0xC5, CHR 0xBF] (c # cs) then fold_literal ps (tl cs)
      else None)"

definition some_spaces :: "string \<Rightarrow> string option" where
  "some_spaces s = (case s of [] \<Rightarrow> None | c # cs \<Rightarrow> if re_space c then Some (dropWhile re_space cs) else None)"

definition is_quote :: "char \<Rightarrow> bool" where
  "is_quote c \<longleftrightarrow> c = CHR 0x22 \<or> c = CHR 0x27"

definition drop_quote :: "string \<Rightarrow> string" where
  "drop_quote s = (case s of [] \<Rightarrow> [] | c # cs \<Rightarrow> if is_quote c then cs else s)"

definition question_tail :: "string \<Rightarrow> bool" where
  "question_tail s \<longleftrightarrow> dropWhile re_space (drop_quote s) \<in> {[], ''?''}"

fun shortest_text :: "string \<Rightarrow> string \<Rightarrow> string option" where
  "shortest_text acc [] = None"
| "shortest_text acc (c # cs) =
     (if c = CHR 0x0A then None else if question_tail cs then Some (acc @ [c]) else shortest_text (acc @ [c]) cs)"

definition quoted_text :: "string \<Rightarrow> string option" where
  "quoted_text s = (case shortest_text [] (drop_quote s) of None \<Rightarrow> shortest_text [] s | Some t \<Rightarrow> Some t)"

definition asked_user :: "string \<Rightarrow> (string \<times> string) option" where
  "asked_user s0 =
     (if \<not> prefix ''<@'' s0 then None
      else let s = trim_prefix ''!'' (drop 2 s0); digits = takeWhile is_digit_char s; rest = dropWhile is_digit_char s in
        if digits = [] \<or> \<not> prefix ''>'' rest then None else Some (digits, tl rest))"

definition question_here :: "string \<Rightarrow> (string \<times> string) option" where
  "question_here s =
     Option.bind (Option.bind (fold_literal ''how many times did'' s) some_spaces) (\<lambda>s1.
       Option.bind (asked_user s1) (\<lambda>(user, s2).
         Option.bind (Option.bind (Option.bind (some_spaces s2) (fold_literal ''mention'')) some_spaces) (\<lambda>s3.
           map_option (Pair user) (quoted_text s3))))"

fun question_from :: "char \<Rightarrow> string \<Rightarrow> (string \<times> string) option" where
  "question_from before [] = None"
| "question_from before (c # cs) =
     (case (if word_char before then None else question_here (c # cs)) of
        Some q \<Rightarrow> Some q
      | None \<Rightarrow> question_from c cs)"

definition trim_quotes :: "string \<Rightarrow> string" where
  "trim_quotes s = rev (dropWhile is_quote (rev (dropWhile is_quote s)))"

definition parseMemoryCountQuestion :: "string \<Rightarrow> (string \<times> string) option" where
  "parseMemoryCountQuestion text =
     (case question_from (CHR 0x20) (trim_space text) of
        None \<Rightarrow> None
      | Some (user, t) \<Rightarrow>
          (let q = (trim_space user, trim_quotes (trim_space t)) in
           if fst q = [] \<or> NormalizeText (snd q) = [] then None else Some q))"

definition message_subject :: "'w message \<Rightarrow> subject" where
  "message_subject m = \<lparr>sub_guild_id = msg_guild_id m, sub_user_id = msg_user_id m, sub_role_ids = msg_role_ids m,
     sub_is_owner = False, sub_is_admin = msg_has_administrator m\<rparr>"

definition record_of_message ::
  "'w audit_recorder option \<Rightarrow> 'w message \<Rightarrow> string \<Rightarrow> gomap \<Rightarrow> audit_status \<Rightarrow> string \<Rightarrow> 'w \<Rightarrow> unit result \<times> 'w" where
  "record_of_message recorder m kind metadata status reason w =
     (case recorder of
        None \<Rightarrow> (Inr (), w)
      | Some rec \<Rightarrow>
          if trim_space (msg_user_id m) = [] then (Inr (), w)
          else rec \<lparr>ev_kind = kind, ev_guild_id = msg_guild_id m, ev_actor_id = msg_user_id m, ev_status = status,
            ev_reason = reason, ev_metadata = metadata, ev_request_id = []\<rparr> w)"

definition record_question ::
  "'w audit_recorder option \<Rightarrow> 'w message \<Rightarrow> string \<times> string \<Rightarrow> audit_status \<Rightarrow> string \<Rightarrow> 'w \<Rightarrow> unit result \<times> 'w" where
  "record_question recorder m q = record_of_message recorder m ''discord.memory.count''
     [(''question'', ''count''), (''target_user_id'', fst q), (''scope'', ''this-channel'')]"

text \<open>The check before memory is read: \<open>None\<close> lets it be read, and otherwise the answer it gives is sent.\<close>

definition memory_check ::
  "'w decision_maker option \<Rightarrow> (audit_status \<Rightarrow> string \<Rightarrow> 'w \<Rightarrow> unit result \<times> 'w) \<Rightarrow> 'w message \<Rightarrow> 'w \<Rightarrow> string option \<times> 'w" where
  "memory_check checker record m w =
     (case checker of
        None \<Rightarrow> (Some ''Permission check failed.'', snd (record StatusFailed ''memory_checker_missing'' w))
      | Some check \<Rightarrow>
          (case check (message_subject m) MemoryReadGuild w of
             ((d, Some e), w1) \<Rightarrow> (Some ''Permission check failed.'', snd (record StatusFailed (dec_reason d) w1))
           | ((d, None), w1) \<Rightarrow>
               if allowed d then (None, w1)
               else (Some ''Permission denied for memory.'', snd (record StatusDenied (dec_reason d) w1))))"

definition MemoryQuestionHandler ::
  "(count_request \<Rightarrow> 'w \<Rightarrow> nat result \<times> 'w) option \<Rightarrow> 'w decision_maker option \<Rightarrow> 'w audit_recorder option \<Rightarrow>
     'w message_handler option \<Rightarrow> 'w message_handler" where
  "MemoryQuestionHandler counter checker recorder fallback m w =
     (case parseMemoryCountQuestion (msg_text m) of
        None \<Rightarrow> fallback_handler fallback m w
      | Some q \<Rightarrow>
          if msg_surface m \<noteq> SurfaceGuildMention \<or> trim_space (msg_guild_id m) = [] then fallback_handler fallback m w
          else case counter of
              None \<Rightarrow> (Inr ''Memory is not configured yet.'', w)
            | Some counts \<Rightarrow>
                (case memory_check checker (record_question recorder m q) m w of
                   (Some refusal, w1) \<Rightarrow> (Inr refusal, w1)
                 | (None, w1) \<Rightarrow>
                     (case counts \<lparr>cq_guild_id = msg_guild_id m, cq_channel_id = msg_channel_id m, cq_author_id = fst q,
                          cq_text = snd q, cq_start = zero_time, cq_end = zero_time\<rparr> w1 of
                        (Inl e, w2) \<Rightarrow>
                          (Inr ''Memory lookup failed.'', snd (record_question recorder m q StatusFailed ''memory_count_failed'' w2))
                      | (Inr n, w2) \<Rightarrow>
                          db_bind (record_question recorder m q StatusSucceeded [] w2) (\<lambda>_ w3.
                            (Inr (''<@'' @ safe_inline (fst q) @ ''> mentioned '' @ ticked_inline (NormalizeText (snd q)) @ '' '' @
                               nat_str n @ '' times in this channel.''), w3)))))"

subsection \<open>A question a model plans\<close>

type_synonym 'w policy_reader = "string \<Rightarrow> 'w \<Rightarrow> guild_policy result \<times> 'w"

definition routing_mode :: "'w policy_reader option \<Rightarrow> string \<Rightarrow> 'w \<Rightarrow> tool_routing_mode result \<times> 'w" where
  "routing_mode policy guildID w =
     (case policy of
        None \<Rightarrow> (Inr ToolRoutingOff, w)
      | Some read \<Rightarrow> db_bind (read guildID w) (\<lambda>p w1. (Inr (gp_tool_routing_mode p), w1)))"

definition no_memory_plan :: memory_plan where
  "no_memory_plan = \<lparr>mn_intent = [], mn_target_user_id = [], mn_text = [], mn_query = [], mn_scope = [], mn_limit = 0\<rparr>"

definition planned_in_dry_run :: string where
  "planned_in_dry_run = '' LLM tool routing is in '' @ ticked ''dry-run'' @ '' mode.''"

definition formatSemanticMemoryDryRun :: "memory_plan \<Rightarrow> string" where
  "formatSemanticMemoryDryRun p =
     (if mn_intent p = MemoryIntentCount
      then (if trim_space (mn_target_user_id p) = []
        then ''Planned channel memory count for '' @ ticked_inline (NormalizeText (mn_text p)) @ ''.'' @ planned_in_dry_run
        else ''Planned memory count for <@'' @ safe_inline (mn_target_user_id p) @ ''> mentioning '' @
          ticked_inline (NormalizeText (mn_text p)) @ ''.'' @ planned_in_dry_run)
      else if mn_intent p = MemoryIntentSearch
      then ''Planned memory search for '' @ ticked_inline (NormalizeText (mn_query p)) @ ''.'' @ planned_in_dry_run
      else ''Planned memory tool call.'' @ planned_in_dry_run)"

definition formatSemanticMemoryCount :: "nat \<Rightarrow> memory_plan \<Rightarrow> string" where
  "formatSemanticMemoryCount n p =
     (let target = trim_space (mn_target_user_id p) in
      (if target = [] then ''Messages'' else ''<@'' @ safe_inline target @ ''>'') @ '' mentioned '' @
        ticked_inline (NormalizeText (mn_text p)) @ '' '' @ nat_str n @ '' times in this channel.'')"

definition record_plan ::
  "'w audit_recorder option \<Rightarrow> 'w message \<Rightarrow> memory_plan \<Rightarrow> audit_status \<Rightarrow> string \<Rightarrow> 'w \<Rightarrow> unit result \<times> 'w" where
  "record_plan recorder m p = record_of_message recorder m ''discord.memory.semantic''
     ([(''source'', ''semantic_memory'')] @ (if mn_intent p \<noteq> [] then [(''intent'', mn_intent p)] else []) @
      (if mn_target_user_id p \<noteq> [] then [(''target_user_id'', mn_target_user_id p)] else []) @
      (if mn_scope p \<noteq> [] then [(''scope'', mn_scope p)] else []))"

definition execute_memory_plan :: "'w memory_manager \<Rightarrow> 'w message \<Rightarrow> memory_plan \<Rightarrow> 'w \<Rightarrow> string result \<times> 'w" where
  "execute_memory_plan g m p w =
     (if mn_intent p = MemoryIntentCount
      then db_bind (mm_count g \<lparr>cq_guild_id = msg_guild_id m, cq_channel_id = msg_channel_id m, cq_author_id = mn_target_user_id p,
          cq_text = mn_text p, cq_start = zero_time, cq_end = zero_time\<rparr> w)
        (\<lambda>n w1. (Inr (formatSemanticMemoryCount n p), w1))
      else if mn_intent p = MemoryIntentSearch
      then db_bind (mm_search g \<lparr>mq_guild_id = msg_guild_id m, mq_channel_id = msg_channel_id m, mq_author_id = [],
          mq_limit = mn_limit p, mq_start = zero_time, mq_end = zero_time, mq_query = mn_query p\<rparr> w)
        (\<lambda>rs w1. (Inr (formatMemorySearch rs (mn_query p)), w1))
      else (Inl (Errorf ''unsupported memory intent''), w))"

definition SemanticMemoryHandler ::
  "'w memory_manager option \<Rightarrow> 'w decision_maker option \<Rightarrow> 'w audit_recorder option \<Rightarrow> 'w policy_reader option \<Rightarrow>
     (planner_input \<Rightarrow> 'w \<Rightarrow> memory_plan option result \<times> 'w) option \<Rightarrow> 'w message_handler option \<Rightarrow> 'w message_handler" where
  "SemanticMemoryHandler manager checker recorder policy planner fallback m w =
     (if msg_surface m \<noteq> SurfaceGuildMention \<or> trim_space (msg_guild_id m) = [] \<or> planner = None
      then fallback_handler fallback m w
      else case routing_mode policy (msg_guild_id m) w of
          (Inl e, w1) \<Rightarrow>
            (Inr ''Memory routing failed.'', snd (record_plan recorder m no_memory_plan StatusFailed ''routing_policy_failed'' w1))
        | (Inr mode, w1) \<Rightarrow>
            if mode = ToolRoutingOff then fallback_handler fallback m w1
            else case the planner \<lparr>in_guild_id = msg_guild_id m, in_channel_id = msg_channel_id m, in_actor_user_id = msg_user_id m,
                  in_text = msg_text m\<rparr> w1 of
                (Inl e, w2) \<Rightarrow>
                  (Inr ''Memory routing failed.'', snd (record_plan recorder m no_memory_plan StatusFailed ''semantic_memory_failed'' w2))
              | (Inr None, w2) \<Rightarrow> fallback_handler fallback m w2
              | (Inr (Some p), w2) \<Rightarrow>
                  if mode = ToolRoutingDryRun
                  then (Inr (formatSemanticMemoryDryRun p), snd (record_plan recorder m p StatusSucceeded ''dry_run'' w2))
                  else case manager of
                      None \<Rightarrow>
                        (Inr ''Memory is not configured yet.'',
                         snd (record_plan recorder m p StatusFailed ''memory_manager_missing'' w2))
                    | Some g \<Rightarrow>
                        (case memory_check checker (record_plan recorder m p) m w2 of
                           (Some refusal, w3) \<Rightarrow> (Inr refusal, w3)
                         | (None, w3) \<Rightarrow>
                             (case execute_memory_plan g m p w3 of
                                (Inl e, w4) \<Rightarrow>
                                  (Inr ''Memory lookup failed.'',
                                   snd (record_plan recorder m p StatusFailed ''memory_execute_failed'' w4))
                              | (Inr answer, w4) \<Rightarrow>
                                  db_bind (record_plan recorder m p StatusSucceeded [] w4) (\<lambda>_ w5. (Inr answer, w5)))))"

end
