(* ===== verification/DiscordPlugins.thy ===== *)
theory DiscordPlugins
  imports DiscordMemory ManifestFetcher PluginCatalog
begin

text \<open>
  Plugins in \<^verbatim>\<open>internal/discord\<close>: the \<^verbatim>\<open>plugins\<close> command of \<^verbatim>\<open>plugins.go\<close>, and the handler of \<^verbatim>\<open>external_apps.go\<close> that
  answers a message with the command of an external app. The text of an error, which the command looks into, is the parameter
  \<open>shown\<close>.
\<close>

subsection \<open>The plugins command\<close>

record 'w plugin_manager =
  pm_approved :: "'w \<Rightarrow> manifest list result \<times> 'w"
  pm_upsert :: "manifest \<Rightarrow> string \<Rightarrow> 'w \<Rightarrow> unit result \<times> 'w"
  pm_enable :: "string \<Rightarrow> string \<Rightarrow> string \<Rightarrow> string \<Rightarrow> 'w \<Rightarrow> unit result \<times> 'w"
  pm_disable :: "string \<Rightarrow> string \<Rightarrow> string \<Rightarrow> 'w \<Rightarrow> unit result \<times> 'w"
  pm_enabled :: "string \<Rightarrow> 'w \<Rightarrow> manifest list result \<times> 'w"

record 'w manifest_fetcher =
  fe_Fetch :: "string \<Rightarrow> 'w \<Rightarrow> manifest result \<times> 'w"
  fe_FetchAttachment :: "attachment_source \<Rightarrow> 'w \<Rightarrow> manifest result \<times> 'w"

text \<open>The option types of Discord used here: sub-command 1, string 3, boolean 5, attachment 11.\<close>

definition publicDispatchConsentOption :: command_option where
  "publicDispatchConsentOption = CmdOption 5 ''allow-public-dispatch''
     ''Explicitly allow public send_message imports with no permissions.'' False [] []"

definition plugin_options :: "command_option list" where
  "plugin_options =
     [CmdOption 1 ''list'' ''List approved plugin manifests.'' False [] [],
      CmdOption 1 ''import-manifest'' ''Import and approve a plugin manifest from HTTPS.'' False []
        [stringOption ''url'' ''HTTPS URL for gigi-plugin.json.'' [], publicDispatchConsentOption],
      CmdOption 1 ''import-file'' ''Import and approve an uploaded plugin manifest JSON file.'' False []
        [CmdOption 11 ''attachment'' ''gigi-plugin.json file.'' True [] [], publicDispatchConsentOption],
      CmdOption 1 ''enable'' ''Enable an approved plugin for this server.'' False []
        [stringOption ''plugin'' ''Plugin id.'' [], stringOption ''version'' ''Plugin version.'' []],
      CmdOption 1 ''disable'' ''Disable a plugin for this server.'' False [] [stringOption ''plugin'' ''Plugin id.'' []],
      CmdOption 1 ''enabled'' ''List plugins enabled for this server.'' False [] [],
      CmdOption 1 ''dry-run'' ''Test enabled external app trigger matching without dispatch.'' False []
        [stringOption ''text'' ''Text to match against enabled manifest triggers.'' []]]"

record plugin_request =
  pg_action :: string
  pg_url :: string
  pg_attachment_id :: string
  pg_attachment :: "interaction_attachment option"
  pg_allow_public_dispatch :: bool
  pg_plugin :: string
  pg_version :: string
  pg_text :: string

definition no_plugin_request :: plugin_request where
  "no_plugin_request = \<lparr>pg_action = [], pg_url = [], pg_attachment_id = [], pg_attachment = None,
     pg_allow_public_dispatch = False, pg_plugin = [], pg_version = [], pg_text = []\<rparr>"

abbreviation (input) unmet :: "plugin_request \<Rightarrow> string \<Rightarrow> plugin_request \<times> goerror option" where
  "unmet r msg \<equiv> (r, Some (Errorf msg))"

definition boolByName :: "interaction_option list \<Rightarrow> string \<Rightarrow> bool" where
  "boolByName options name \<longleftrightarrow> to_lower (trim_space (optionByName options name)) \<in> {''true'', ''1'', ''yes'', ''on''}"

definition parsePluginRequest :: "'w interaction \<Rightarrow> plugin_request \<times> goerror option" where
  "parsePluginRequest i =
     (if trim_space (ix_guild_id i) = [] then unmet no_plugin_request ''Plugins can only be managed inside a Discord server.''
      else case ix_options i of
          [action] \<Rightarrow>
            (let r = no_plugin_request\<lparr>pg_action := io_name action\<rparr>;
                 arg = (\<lambda>name. trim_space (optionByName (io_options action) name));
                 allow = boolByName (io_options action) ''allow-public-dispatch'' in
             if pg_action r \<in> {''list'', ''enabled''} then (r, None)
             else if pg_action r = ''dry-run''
             then (let r1 = r\<lparr>pg_text := arg ''text''\<rparr> in
               if pg_text r1 = [] then unmet r1 ''Dry-run text is required.'' else (r1, None))
             else if pg_action r = ''import-manifest''
             then (let r1 = r\<lparr>pg_url := arg ''url''\<rparr> in
               if pg_url r1 = [] then unmet r1 ''Manifest URL is required.''
               else (r1\<lparr>pg_allow_public_dispatch := allow\<rparr>, None))
             else if pg_action r = ''import-file''
             then (let r1 = r\<lparr>pg_attachment_id := arg ''attachment''\<rparr> in
               if pg_attachment_id r1 = [] then unmet r1 ''Manifest attachment is required.''
               else case map_of (ix_attachments i) (pg_attachment_id r1) of
                   None \<Rightarrow> unmet r1 ''Manifest attachment could not be resolved.''
                 | Some a \<Rightarrow> (r1\<lparr>pg_attachment := Some a, pg_allow_public_dispatch := allow\<rparr>, None))
             else if pg_action r = ''enable''
             then (let r1 = r\<lparr>pg_plugin := arg ''plugin'', pg_version := arg ''version''\<rparr> in
               if pg_plugin r1 = [] \<or> pg_version r1 = [] then unmet r1 ''Plugin id and version are required.'' else (r1, None))
             else if pg_action r = ''disable''
             then (let r1 = r\<lparr>pg_plugin := arg ''plugin''\<rparr> in
               if pg_plugin r1 = [] then unmet r1 ''Plugin id is required.'' else (r1, None))
             else unmet r ''Unsupported plugins action.'')
        | _ \<Rightarrow> unmet no_plugin_request ''Choose one plugins action.'')"

definition plugin_line :: "manifest \<Rightarrow> string" where
  "plugin_line m = ''- '' @ ticked (safe_inline (mf_id m) @ ''@'' @ safe_inline (mf_version m)) @ '' - '' @ safe_inline (mf_name m)"

definition formatPluginList :: "string \<Rightarrow> manifest list \<Rightarrow> string" where
  "formatPluginList title manifests =
     (if manifests = [] then title @ '': none.''
      else join [CHR 0x0A] ([title @ '':''] @ map plugin_line (take 10 manifests) @
        (if length manifests > 10 then [''...and '' @ nat_str (length manifests - 10) @ '' more.''] else [])))"

definition requirePublicDispatchConsent :: "manifest \<Rightarrow> bool \<Rightarrow> unit result" where
  "requirePublicDispatchConsent m allow =
     (if PublicDispatchConsentRequired m \<and> \<not> allow then Inl (Errorf ''public dispatch needs explicit consent'') else Inr ())"

definition publicDispatchAllowed :: "manifest \<Rightarrow> bool \<Rightarrow> bool" where
  "publicDispatchAllowed m allow \<longleftrightarrow> allow \<and> HasPublicSendMessageAction m"

definition cleanPluginError :: "string \<Rightarrow> string" where
  "cleanPluginError message =
     (if contains_sub message ''public dispatch''
      then ''Public dispatch needs explicit consent: re-run with allow-public-dispatch=true.''
      else if contains_sub message ''HTTPS'' then ''Manifest URL must be HTTPS.''
      else if contains_sub message ''user info'' \<or> contains_sub message ''query'' \<or> contains_sub message ''fragment''
      then ''Manifest URL must not include user info, query, or fragment data.''
      else if contains_sub message ''byte limit'' then ''Manifest is too large.''
      else if contains_sub message ''JSON file'' then ''Manifest attachment must be a JSON file.''
      else if contains_sub message ''attachment'' then ''Manifest attachment could not be imported.''
      else if contains_sub message ''not found'' then ''Plugin or version was not found.''
      else ''Plugin command failed.'')"

definition formatDryRunPlan :: "command_plan \<Rightarrow> string" where
  "formatDryRunPlan p = ''Matched external app: '' @ ticked (safe_inline_limit (mf_name (cp_manifest p)) 80) @ ''.'' @ [CHR 0x0A] @
     ''Planned command: '' @ ticked (safe_inline_limit (cp_command p) 180) @ ''.'' @ [CHR 0x0A] @
     ''Dry-run only; no command sent.''"

definition formatPluginDryRunPlan :: "command_plan \<Rightarrow> string" where
  "formatPluginDryRunPlan p = formatDryRunPlan p"

definition imported_text :: "manifest \<Rightarrow> string" where
  "imported_text m = ''Imported plugin '' @ ticked_inline (mf_name m) @ '' ('' @
     ticked (safe_inline (mf_id m) @ ''@'' @ safe_inline (mf_version m)) @ '')''"

text \<open>The request comes back with the plugin and the version that were found.\<close>

definition import_fetched ::
  "'w plugin_manager \<Rightarrow> 'w interaction \<Rightarrow> plugin_request \<Rightarrow> string \<Rightarrow> manifest result \<times> 'w \<Rightarrow> (plugin_request \<times> string result) \<times> 'w" where
  "import_fetched g i r ending fetched =
     (case fetched of
        (Inl e, w) \<Rightarrow> ((r, Inl e), w)
      | (Inr m, w) \<Rightarrow>
          (case requirePublicDispatchConsent m (pg_allow_public_dispatch r) of
             Inl e \<Rightarrow> ((r, Inl e), w)
           | Inr _ \<Rightarrow>
               (case pm_upsert g (m\<lparr>mf_public_dispatch_allowed := publicDispatchAllowed m (pg_allow_public_dispatch r)\<rparr>)
                   (ix_user_id i) w of
                  (Inl e, w1) \<Rightarrow> ((r, Inl e), w1)
                | (Inr _, w1) \<Rightarrow>
                    ((r\<lparr>pg_plugin := mf_id m, pg_version := mf_version m\<rparr>, Inr (imported_text m @ ending)), w1))))"

definition source_of_attachment :: "interaction_attachment option \<Rightarrow> attachment_source" where
  "source_of_attachment a =
     (case a of
        None \<Rightarrow> \<lparr>at_id = [], at_url = [], at_filename = [], at_content_type = [], at_size = 0\<rparr>
      | Some x \<Rightarrow> \<lparr>at_id = ia_id x, at_url = ia_url x, at_filename = ia_filename x, at_content_type = ia_content_type x,
          at_size = ia_size x\<rparr>)"

definition answered :: "'r \<Rightarrow> ('a \<Rightarrow> 'b) \<Rightarrow> 'a result \<times> 'w \<Rightarrow> ('r \<times> 'b result) \<times> 'w" where
  "answered r f res = (case res of (Inl e, w) \<Rightarrow> ((r, Inl e), w) | (Inr x, w) \<Rightarrow> ((r, Inr (f x)), w))"

definition executePluginRequest ::
  "'w plugin_manager \<Rightarrow> 'w manifest_fetcher option \<Rightarrow> 'w interaction \<Rightarrow> plugin_request \<Rightarrow> 'w \<Rightarrow>
     (plugin_request \<times> string result) \<times> 'w" where
  "executePluginRequest g fetcher i r w =
     (let fetching = (\<lambda>f. case fetcher of
            None \<Rightarrow> ((r, Inl (Errorf ''plugin manifest fetcher is required'')), w) | Some fe \<Rightarrow> f fe) in
      if pg_action r = ''list'' then answered r (formatPluginList ''Approved plugins'') (pm_approved g w)
      else if pg_action r = ''enabled'' then answered r (formatPluginList ''Enabled plugins'') (pm_enabled g (ix_guild_id i) w)
      else if pg_action r = ''dry-run''
      then (case pm_enabled g (ix_guild_id i) w of
          (Inl e, w1) \<Rightarrow> ((r, Inl e), w1)
        | (Inr manifests, w1) \<Rightarrow>
            (case PlanCommand manifests ''guild_text'' (pg_text r) of
               None \<Rightarrow> ((r, Inr ''No enabled external app manifest matched that text.''), w1)
             | Some p \<Rightarrow> ((r\<lparr>pg_plugin := mf_id (cp_manifest p), pg_version := mf_version (cp_manifest p)\<rparr>,
                 Inr (formatPluginDryRunPlan p)), w1)))
      else if pg_action r = ''import-manifest''
      then fetching (\<lambda>fe. import_fetched g i r ''.'' (fe_Fetch fe (pg_url r) w))
      else if pg_action r = ''import-file''
      then fetching (\<lambda>fe. import_fetched g i r '' from uploaded file.''
        (fe_FetchAttachment fe (source_of_attachment (pg_attachment r)) w))
      else if pg_action r = ''enable''
      then answered r (\<lambda>_. ''Enabled plugin '' @ ticked (safe_inline (pg_plugin r) @ ''@'' @ safe_inline (pg_version r)) @
          '' for this server.'')
        (pm_enable g (ix_guild_id i) (pg_plugin r) (pg_version r) (ix_user_id i) w)
      else if pg_action r = ''disable''
      then answered r (\<lambda>_. ''Disabled plugin '' @ ticked_inline (pg_plugin r) @ '' for this server.'')
        (pm_disable g (ix_guild_id i) (pg_plugin r) (ix_user_id i) w)
      else ((r, Inl (Errorf ''unsupported plugins action'')), w))"

definition shouldAuditPluginAction :: "string \<Rightarrow> bool" where
  "shouldAuditPluginAction action \<longleftrightarrow> action \<in> {''import-manifest'', ''import-file'', ''enable'', ''disable''}"

definition plugin_change :: "'w interaction \<Rightarrow> plugin_request \<Rightarrow> audit_status \<Rightarrow> bool \<Rightarrow> audit_event" where
  "plugin_change i r status ok =
     \<lparr>ev_kind = ''discord.plugins.change'', ev_guild_id = ix_guild_id i, ev_actor_id = ix_user_id i, ev_status = status,
      ev_reason = (if ok then [] else ''plugin_action_failed''),
      ev_metadata = [(''command'', ix_name i), (''action'', pg_action r)] @
        (if pg_plugin r \<noteq> [] then [(''plugin_id'', pg_plugin r)] else []) @
        (if pg_version r \<noteq> [] then [(''version'', pg_version r)] else []),
      ev_request_id = []\<rparr>"

definition recordPluginAction ::
  "'w audit_recorder option \<Rightarrow> 'w interaction \<Rightarrow> plugin_request \<Rightarrow> audit_status \<Rightarrow> bool \<Rightarrow> 'w \<Rightarrow> unit result \<times> 'w" where
  "recordPluginAction recorder i r status ok w =
     (case recorder of
        None \<Rightarrow> (Inr (), w)
      | Some rec \<Rightarrow>
          if trim_space (ix_user_id i) = [] \<or> \<not> shouldAuditPluginAction (pg_action r) then (Inr (), w)
          else rec (plugin_change i r status ok) w)"

definition pluginHandler ::
  "(goerror \<Rightarrow> string) \<Rightarrow> 'w plugin_manager option \<Rightarrow> 'w manifest_fetcher option \<Rightarrow> 'w audit_recorder option \<Rightarrow> 'w command_handler" where
  "pluginHandler shown manager fetcher recorder i w =
     (case manager of
        None \<Rightarrow> (Inl (Errorf ''plugin catalog manager is required''), w)
      | Some g \<Rightarrow>
          (case parsePluginRequest i of
             (r, Some e) \<Rightarrow> (Inr (private_text (shown e)), snd (recordPluginAction recorder i r StatusFailed False w))
           | (r, None) \<Rightarrow>
               (case executePluginRequest g fetcher i r w of
                  ((r1, Inl e), w1) \<Rightarrow>
                    (Inr (private_text (cleanPluginError (shown e))), snd (recordPluginAction recorder i r1 StatusFailed False w1))
                | ((r1, Inr answer), w1) \<Rightarrow>
                    db_bind (if shouldAuditPluginAction (pg_action r1) then recordPluginAction recorder i r1 StatusSucceeded True w1
                        else (Inr (), w1))
                      (\<lambda>_ w2. (Inr (private_text answer), w2)))))"

definition PluginCommands ::
  "(goerror \<Rightarrow> string) \<Rightarrow> 'w plugin_manager option \<Rightarrow> 'w manifest_fetcher option \<Rightarrow> 'w audit_recorder option \<Rightarrow> 'w command list" where
  "PluginCommands shown manager fetcher recorder = [\<lparr>co_name = ''plugins'',
     co_description = ''Manage approved Gigi plugin manifests.'', co_required = ''plugin.install'', co_required_for = None,
     co_required_for_modal = None, co_modal_prefixes = [], co_options = plugin_options,
     co_handle = Some (pluginHandler shown manager fetcher recorder), co_handle_modal = None\<rparr>]"

subsection \<open>The commands of external apps\<close>

record 'w app_handler =
  xa_registry :: "(string \<Rightarrow> 'w \<Rightarrow> manifest list result \<times> 'w) option"
  xa_checker :: "'w decision_maker option"
  xa_recorder :: "'w audit_recorder option"
  xa_fallback :: "'w message_handler option"
  xa_semantic :: "'w semantic_planner"
  xa_policy :: "'w policy_reader option"

definition shouldDispatch :: "command_plan \<Rightarrow> bool" where
  "shouldDispatch p \<longleftrightarrow> CommandDispatchMode p = DispatchModeSendMessage \<and> mf_public_dispatch_allowed (cp_manifest p) \<and>
     PublicAction p"

text \<open>Every capability the plan requires, in order, up to the first that is not given.\<close>

fun check_required :: "'w decision_maker \<Rightarrow> subject \<Rightarrow> decision \<Rightarrow> capability list \<Rightarrow> 'w \<Rightarrow> (decision \<times> goerror option) \<times> 'w" where
  "check_required check sub last_decision [] w = ((last_decision, None), w)"
| "check_required check sub last_decision (c # cs) w =
     (case check sub c w of
        ((d, err), w1) \<Rightarrow>
          if err \<noteq> None \<or> \<not> allowed d then ((d, err), w1) else check_required check sub d cs w1)"

definition authorize_app :: "'w decision_maker option \<Rightarrow> 'w message \<Rightarrow> command_plan \<Rightarrow> 'w \<Rightarrow> (decision \<times> goerror option) \<times> 'w" where
  "authorize_app checker m p w =
     (if cp_required_capabilities p = [] then ((\<lparr>allowed = True, dec_capability = [], dec_reason = ReasonPublicAction\<rparr>, None), w)
      else case checker of
          None \<Rightarrow> ((\<lparr>allowed = False, dec_capability = [], dec_reason = ReasonStoreError\<rparr>,
              Some (Errorf ''capability checker is required'')), w)
        | Some check \<Rightarrow> check_required check (message_subject m) \<lparr>allowed = False, dec_capability = [], dec_reason = []\<rparr>
            (cp_required_capabilities p) w)"

definition capabilityList :: "capability list \<Rightarrow> string" where
  "capabilityList cs = join '','' cs"

text \<open>\<open>None\<close> stands for the empty plan.\<close>

definition app_metadata :: "command_plan option \<Rightarrow> string \<Rightarrow> gomap" where
  "app_metadata plan cap =
     (case plan of
        None \<Rightarrow> []
      | Some p \<Rightarrow>
          if mf_id (cp_manifest p) = [] then []
          else [(''plugin_id'', mf_id (cp_manifest p)), (''version'', mf_version (cp_manifest p))] @
            (if trim_space (ac_id (cp_action p)) \<noteq> [] then [(''action_id'', ac_id (cp_action p))] else []) @
            [(''trigger_kind'', tg_kind (cp_trigger p)), (''trigger'', tg_value (cp_trigger p))]) @
     (if cap \<noteq> [] then [(''capability'', cap)] else [])"

definition record_app ::
  "'w app_handler \<Rightarrow> string \<Rightarrow> 'w message \<Rightarrow> command_plan option \<Rightarrow> audit_status \<Rightarrow> string \<Rightarrow> string \<Rightarrow> 'w \<Rightarrow> unit result \<times> 'w" where
  "record_app h kind m plan status reason cap w =
     record_of_message (xa_recorder h) m kind (app_metadata plan cap) status reason w"

definition app_routing_mode :: "'w app_handler \<Rightarrow> string \<Rightarrow> 'w \<Rightarrow> tool_routing_mode result \<times> 'w" where
  "app_routing_mode h guildID w =
     (case xa_policy h of
        None \<Rightarrow> (Inr ToolRoutingDryRun, w)
      | Some read \<Rightarrow> db_bind (read guildID w) (\<lambda>p w1. (Inr (gp_tool_routing_mode p), w1)))"

text \<open>
  What is done with a plan, whether a trigger or a model gave it: \<open>dry\<close> and \<open>sent\<close> are the kinds of the events, and
  \<open>may_send\<close> says whether a command may be sent at all.
\<close>

definition answer_plan ::
  "'w app_handler \<Rightarrow> string \<Rightarrow> string \<Rightarrow> bool \<Rightarrow> 'w message \<Rightarrow> command_plan \<Rightarrow> 'w \<Rightarrow> string result \<times> 'w" where
  "answer_plan h dry sent may_send m p w =
     (case authorize_app (xa_checker h) m p w of
        ((d, Some e), w1) \<Rightarrow>
          (Inr ''Permission check failed.'', snd (record_app h dry m (Some p) StatusFailed (dec_reason d) (dec_capability d) w1))
      | ((d, None), w1) \<Rightarrow>
          if \<not> allowed d
          then (Inr ''Permission denied for external app action.'',
            snd (record_app h dry m (Some p) StatusDenied (dec_reason d) (dec_capability d) w1))
          else if may_send \<and> shouldDispatch p
          then db_bind (record_app h sent m (Some p) StatusSucceeded [] [] w1) (\<lambda>_ w2. (Inr (cp_command p), w2))
          else db_bind (record_app h dry m (Some p) StatusSucceeded [] (capabilityList (cp_required_capabilities p)) w1)
            (\<lambda>_ w2. (Inr (formatDryRunPlan p), w2)))"

definition semantic_dry_run :: string where
  "semantic_dry_run = ''discord.external_app.semantic_dry_run''"

text \<open>\<open>None\<close> as the answer leaves the message to the fallback.\<close>

definition handleSemantic ::
  "proposal_json \<Rightarrow> 'w app_handler \<Rightarrow> 'w message \<Rightarrow> manifest list \<Rightarrow> 'w \<Rightarrow> string result option \<times> 'w" where
  "handleSemantic json h m manifests w =
     (let failed = (\<lambda>reason w'. (Some (Inr ''External app semantic routing failed.''),
            snd (record_app h semantic_dry_run m None StatusFailed reason [] w'))) in
      if se_runtime (xa_semantic h) = None then (None, w)
      else case app_routing_mode h (msg_guild_id m) w of
          (Inl e, w1) \<Rightarrow> failed ''routing_policy_failed'' w1
        | (Inr mode, w1) \<Rightarrow>
            if mode = ToolRoutingOff then (None, w1)
            else case plan_plugin json (xa_semantic h) \<lparr>in_guild_id = msg_guild_id m, in_channel_id = msg_channel_id m,
                  in_actor_user_id = msg_user_id m, in_text = msg_text m\<rparr> manifests w1 of
                (Inl e, w2) \<Rightarrow> failed ''semantic_routing_failed'' w2
              | (Inr None, w2) \<Rightarrow> (None, w2)
              | (Inr (Some p), w2) \<Rightarrow>
                  (case answer_plan h semantic_dry_run ''discord.external_app.semantic_dispatch'' (mode = ToolRoutingEnabled) m p w2 of
                     (res, w3) \<Rightarrow> (Some res, w3)))"

definition ExternalAppDryRunHandler :: "proposal_json \<Rightarrow> 'w app_handler \<Rightarrow> 'w message_handler" where
  "ExternalAppDryRunHandler json h m w =
     (case xa_registry h of
        None \<Rightarrow> fallback_handler (xa_fallback h) m w
      | Some enabled_for \<Rightarrow>
          if msg_surface m \<noteq> SurfaceGuildMention \<or> trim_space (msg_guild_id m) = [] then fallback_handler (xa_fallback h) m w
          else case enabled_for (msg_guild_id m) w of
              (Inl e, w1) \<Rightarrow>
                (Inr ''External app lookup failed.'',
                 snd (record_app h ''discord.external_app.dry_run'' m None StatusFailed ''registry_error'' [] w1))
            | (Inr manifests, w1) \<Rightarrow>
                (case PlanCommand manifests ''guild_text'' (msg_text m) of
                   Some p \<Rightarrow> answer_plan h ''discord.external_app.dry_run'' ''discord.external_app.dispatch'' True m p w1
                 | None \<Rightarrow>
                     (case handleSemantic json h m manifests w1 of
                        (Some res, w2) \<Rightarrow> (res, w2)
                      | (None, w2) \<Rightarrow> fallback_handler (xa_fallback h) m w2)))"

subsection \<open>What is sent\<close>

text \<open>The checker, asked in some world, gives the capability.\<close>

definition gives :: "'w decision_maker option \<Rightarrow> subject \<Rightarrow> capability \<Rightarrow> bool" where
  "gives checker sub c \<longleftrightarrow> (\<exists>check w d w1. checker = Some check \<and> check sub c w = ((d, None), w1) \<and> allowed d)"

lemma check_required_gives:
  assumes "check_required check sub d0 cs w = ((d, None), w1)" "allowed d"
  shows "list_all (gives (Some check) sub) cs"
  using assms
proof (induction cs arbitrary: d0 w)
  case (Cons c cs)
  obtain d1 err w2 where c: "check sub c w = ((d1, err), w2)" by (metis surj_pair)
  then have ok: "err = None" "allowed d1" "check_required check sub d1 cs w2 = ((d, None), w1)"
    using Cons.prems by (auto split: if_splits)
  then show ?case using Cons.IH [OF ok(3)] Cons.prems(2) c by (auto simp: gives_def)
qed simp

lemma authorize_app_gives:
  "authorize_app checker m p w = ((d, None), w1) \<Longrightarrow> allowed d \<Longrightarrow>
     list_all (gives checker (message_subject m)) (cp_required_capabilities p)"
  by (auto simp: authorize_app_def split: if_splits option.splits dest: check_required_gives)

text \<open>What the handler may say: a plan, shown to one who may carry it out, and its command only if it may be sent.\<close>

definition app_refusals :: "string list" where
  "app_refusals = [''Permission check failed.'', ''Permission denied for external app action.'',
     ''External app semantic routing failed.'', ''External app lookup failed.'']"

definition says_plan :: "'w app_handler \<Rightarrow> 'w message \<Rightarrow> command_plan \<Rightarrow> string \<Rightarrow> bool" where
  "says_plan h m p answer \<longleftrightarrow> list_all (gives (xa_checker h) (message_subject m)) (cp_required_capabilities p) \<and>
     (answer = formatDryRunPlan p \<or> answer = cp_command p \<and> shouldDispatch p)"

lemma answer_plan_says:
  assumes "answer_plan h dry sent may_send m p w = (Inr answer, w1)"
  shows "answer \<in> set app_refusals \<or> says_plan h m p answer"
proof -
  obtain d err w2 where a: "authorize_app (xa_checker h) m p w = ((d, err), w2)" by (metis surj_pair)
  show ?thesis
  proof (cases "err = None \<and> allowed d")
    case True
    then show ?thesis
      using assms a authorize_app_gives [of "xa_checker h" m p w d w2]
      by (auto simp: answer_plan_def says_plan_def split: if_splits dest!: db_bind_InrD)
  next
    case False
    then show ?thesis using assms a by (auto simp: answer_plan_def app_refusals_def split: option.splits)
  qed
qed

lemma first_candidate_plan:
  "first_candidate manifests cs = Some p \<Longrightarrow> \<exists>text. PlanCommand manifests ''guild_text'' text = Some p"
  by (induction cs) (auto split: option.splits)

definition planned_from :: "manifest list \<Rightarrow> command_plan \<Rightarrow> bool" where
  "planned_from manifests p \<longleftrightarrow> (\<exists>text. PlanCommand manifests ''guild_text'' text = Some p) \<or>
     (\<exists>plugin trig arguments. PlanCommandFromTrigger manifests ''guild_text'' plugin trig arguments = Some p)"

lemma plan_plugin_planned: "plan_plugin json s input manifests w = (Inr (Some p), w1) \<Longrightarrow> planned_from manifests p"
  by (auto simp: plan_plugin_def planned_from_def Let_def split: if_splits option.splits dest!: db_bind_InrD first_candidate_plan)

lemma handleSemantic_says:
  assumes "handleSemantic json h m manifests w = (Some (Inr answer), w1)"
  shows "answer \<in> set app_refusals \<or> (\<exists>p. planned_from manifests p \<and> says_plan h m p answer)"
  using assms
  by (auto simp: handleSemantic_def Let_def app_refusals_def split: if_splits sum.splits prod.splits option.splits
      dest: plan_plugin_planned dest!: answer_plan_says)

text \<open>C29: to a mention in a guild whose enabled manifests were read, the handler answers with what the fallback says, with one of
  four refusals, or with a plan made of those manifests, every required capability of which the checker gave to the member; the
  plan's command itself is said only if the plan is public and its plugin may be dispatched to.\<close>

theorem app_answers_are_authorized:
  assumes registry: "xa_registry h = Some enabled_for" "enabled_for (msg_guild_id m) w = (Inr manifests, w0)"
    and mention: "msg_surface m = SurfaceGuildMention" "trim_space (msg_guild_id m) \<noteq> []"
    and answer: "ExternalAppDryRunHandler json h m w = (Inr answer, w1)"
  shows "(\<exists>w2. fallback_handler (xa_fallback h) m w2 = (Inr answer, w1)) \<or> answer \<in> set app_refusals \<or>
    (\<exists>p. planned_from manifests p \<and> says_plan h m p answer)"
proof (cases "PlanCommand manifests ''guild_text'' (msg_text m)")
  case (Some p)
  then have "answer_plan h ''discord.external_app.dry_run'' ''discord.external_app.dispatch'' True m p w0 = (Inr answer, w1)"
    using registry mention answer by (simp add: ExternalAppDryRunHandler_def)
  from answer_plan_says [OF this] show ?thesis using Some by (auto simp: planned_from_def)
next
  case None
  then show ?thesis
    using registry mention answer by (auto simp: ExternalAppDryRunHandler_def split: prod.splits option.splits dest: handleSemantic_says)
qed

definition text_manifest :: manifest where
  "text_manifest = sample_manifest\<lparr>mf_actions := [sample_action\<lparr>ac_surfaces := [''guild_text'']\<rparr>]\<rparr>"

definition ban_message :: "unit message" where
  "ban_message = \<lparr>msg_surface = SurfaceGuildMention, msg_guild_id = ''g'', msg_channel_id = ''c'', msg_user_id = ''u'',
     msg_role_ids = [], msg_has_administrator = False, msg_text = ''!BAN joe'', msg_raw_content = [], msg_trace_sink = None\<rparr>"

definition mod_apps :: "unit app_handler" where
  "mod_apps = \<lparr>xa_registry = Some (\<lambda>_ w. (Inr [text_manifest], w)),
     xa_checker = Some (\<lambda>s c w. ((\<lparr>allowed = sub_user_id s = ''u'', dec_capability = c, dec_reason = []\<rparr>, None), w)),
     xa_recorder = None, xa_fallback = Some (\<lambda>_ w. (Inl ErrNoRows, w)),
     xa_semantic = \<lparr>se_runtime = None, se_max_output_tokens = 0\<rparr>, xa_policy = None\<rparr>"

lemma check_required_all:
  assumes "\<And>c w. \<exists>d. check sub c w = ((d, None), w) \<and> allowed d"
  shows "cs \<noteq> [] \<or> allowed d0 \<Longrightarrow> \<exists>d. check_required check sub d0 cs w = ((d, None), w) \<and> allowed d"
proof (induction cs arbitrary: d0)
  case (Cons c cs)
  obtain d where "check sub c w = ((d, None), w)" "allowed d" using assms by blast
  then show ?case using Cons.IH [of d] by simp
qed simp

lemma mod_apps_authorize: "\<exists>d. authorize_app (xa_checker mod_apps) ban_message p () = ((d, None), ()) \<and> allowed d"
  unfolding authorize_app_def mod_apps_def
  by (auto simp del: check_required.simps intro!: check_required_all) (simp_all add: ban_message_def message_subject_def)

lemma mod_apps_answers: "\<exists>answer. ExternalAppDryRunHandler json mod_apps ban_message () = (Inr answer, ()) \<and>
    answer \<notin> set app_refusals"
proof -
  let ?p = "plan_of text_manifest (normalizeAction text_manifest (sample_action\<lparr>ac_surfaces := [''guild_text'']\<rparr>) []) ''!ban joe'' ''joe''"
  have plan: "PlanCommand [text_manifest] ''guild_text'' ''!BAN joe'' = Some ?p"
    by (simp add: PlanCommand_def all_actions_def NormalizedActions_def text_manifest_def sample_manifest_def plan_action_def
        supportsActionSurface_def normalizeAction_def sample_action_def matchPrefixTrigger_def sample_match buildCommand_def go_eval)
  obtain d where d: "authorize_app (xa_checker mod_apps) ban_message ?p () = ((d, None), ())" "allowed d"
    using mod_apps_authorize by blast
  have "\<not> shouldDispatch ?p" by (simp add: shouldDispatch_def text_manifest_def sample_manifest_def plan_of_def)
  then have "answer_plan mod_apps dry sent ok ban_message ?p () = (Inr (formatDryRunPlan ?p), ())" for dry sent ok
    using d by (simp add: answer_plan_def record_app_def record_of_message_def db_bind_def) (simp add: mod_apps_def)
  moreover have "formatDryRunPlan ?p \<notin> set app_refusals" by (simp add: formatDryRunPlan_def app_refusals_def)
  ultimately show ?thesis
    using plan by (intro exI [of _ "formatDryRunPlan ?p"])
      (simp add: ExternalAppDryRunHandler_def mod_apps_def ban_message_def go_eval)
qed

lemma app_answers_are_authorized_witness:
  "\<forall>json. \<exists>answer p. ExternalAppDryRunHandler json mod_apps ban_message () = (Inr answer, ()) \<and>
     planned_from [text_manifest] p \<and> says_plan mod_apps ban_message p answer"
proof
  fix json
  obtain answer where a: "ExternalAppDryRunHandler json mod_apps ban_message () = (Inr answer, ())" "answer \<notin> set app_refusals"
    using mod_apps_answers by blast
  have "fallback_handler (xa_fallback mod_apps) ban_message w \<noteq> (Inr answer, ())" for w
    by (simp add: fallback_handler_def mod_apps_def)
  then show "\<exists>answer p. ExternalAppDryRunHandler json mod_apps ban_message () = (Inr answer, ()) \<and>
     planned_from [text_manifest] p \<and> says_plan mod_apps ban_message p answer"
    using app_answers_are_authorized [of mod_apps "\<lambda>_ w. (Inr [text_manifest], w)" ban_message "()" "[text_manifest]" "()"
        json answer "()"] a
    by (auto simp: mod_apps_def ban_message_def go_eval)
qed

end
