(* ===== verification/DiscordLlm.thy ===== *)
theory DiscordLlm
  imports DiscordPlugins ProviderService LlmUsage AgentTools
begin

text \<open>
  \<^verbatim>\<open>internal/discord/llm.go\<close>: the \<^verbatim>\<open>llm\<close> command, which manages the credentials and models of a guild, and the modal through
  which a key is entered. The modals that wait for an answer are the left half of the world; the manager, the clock and the
  random source act on the right half \<open>'d\<close>. The text of an error, which the command looks into, is the parameter \<open>shown\<close>.
\<close>

subsection \<open>The options of the command\<close>

definition boolOption :: "string \<Rightarrow> string \<Rightarrow> command_option" where
  "boolOption name description = CmdOption 5 name description True [] []"

definition providerOption :: command_option where
  "providerOption = stringOption ''provider'' ''LLM provider.'' [ProviderOpenAI, ProviderAnthropic, ProviderGemini, ProviderCustom]"

definition purposeOption :: command_option where
  "purposeOption = stringOption ''purpose'' ''LLM purpose.'' [PurposeChat, PurposeReasoning, PurposeEmbedding, PurposeRouting]"

definition routingModeOption :: command_option where
  "routingModeOption = stringOption ''mode'' ''LLM tool routing mode.'' [ToolRoutingOff, ToolRoutingDryRun, ToolRoutingEnabled]"

definition llmRoutingGroup :: command_option where
  "llmRoutingGroup = CmdOption 2 ''routing'' ''Manage LLM tool routing policy.'' False []
     [CmdOption 1 ''show'' ''Show guild LLM tool routing mode.'' False [] [],
      CmdOption 1 ''set'' ''Set guild LLM tool routing mode.'' False [] [routingModeOption]]"

definition llmProviderGroup :: command_option where
  "llmProviderGroup = CmdOption 2 ''provider'' ''Manage guild-owned LLM provider credentials.'' False []
     [CmdOption 1 ''list'' ''List configured provider credentials.'' False [] [],
      CmdOption 1 ''add'' ''Start credential entry for a provider.'' False []
        [providerOption, stringOption ''label'' ''Credential label.'' []],
      CmdOption 1 ''test'' ''Test a configured provider credential.'' False [] [stringOption ''label'' ''Credential label.'' []],
      CmdOption 1 ''rotate'' ''Start credential rotation for a provider.'' False [] [stringOption ''label'' ''Credential label.'' []],
      CmdOption 1 ''delete'' ''Revoke a configured provider credential.'' False []
        [stringOption ''label'' ''Credential label.'' [], boolOption ''confirm'' ''Confirm credential revocation.'']]"

definition llmModelGroup :: command_option where
  "llmModelGroup = CmdOption 2 ''model'' ''Manage guild LLM model profiles.'' False []
     [CmdOption 1 ''show'' ''Show the active model for a purpose.'' False [] [purposeOption],
      CmdOption 1 ''set'' ''Select a model for a purpose.'' False []
        [purposeOption, stringOption ''label'' ''Credential label.'' [],
         optionalStringOption ''model'' ''Provider model id. Use auto for the provider default.'' []]]"

definition llmUsageGroup :: command_option where
  "llmUsageGroup = CmdOption 2 ''usage'' ''Show guild LLM usage.'' False []
     [CmdOption 1 ''guild'' ''Show this server's LLM usage.'' False [] []]"

subsection \<open>The capability a request needs\<close>

definition llmPath :: "'w interaction \<Rightarrow> (string \<times> string) option" where
  "llmPath i =
     (case ix_options i of
        [grp] \<Rightarrow> (case io_options grp of [action] \<Rightarrow> Some (io_name grp, io_name action) | _ \<Rightarrow> None)
      | _ \<Rightarrow> None)"

definition llmRequiredCapability :: "'w interaction \<Rightarrow> capability" where
  "llmRequiredCapability i =
     (case llmPath i of
        None \<Rightarrow> []
      | Some (grp, action) \<Rightarrow>
          if grp = ''provider'' \<and> action \<in> {''add'', ''rotate'', ''delete'', ''list''} then ''llm.provider.write''
          else if grp = ''provider'' \<and> action = ''test'' then ''llm.provider.test''
          else if grp = ''model'' \<and> action \<in> {''show'', ''set''} then ''llm.provider.select''
          else if grp = ''usage'' \<and> action = ''guild'' then ''llm.provider.select''
          else if grp = ''routing'' \<and> action = ''show'' then ''llm.provider.select''
          else if grp = ''routing'' \<and> action = ''set'' then ''llm.provider.write''
          else [])"

definition llmCredentialModalPrefix :: string where
  "llmCredentialModalPrefix = ''gigi:llmcred:v1:''"

definition llmRequiredCapabilityForModal :: "modal_interaction \<Rightarrow> capability" where
  "llmRequiredCapabilityForModal m = (if prefix llmCredentialModalPrefix (mi_custom_id m) then ''llm.provider.write'' else [])"

subsection \<open>The request\<close>

record llm_request =
  lq_group :: string
  lq_action :: string
  lq_provider_id :: provider_id
  lq_label :: string
  lq_purpose :: purpose
  lq_model_id :: string
  lq_auto_model :: bool
  lq_confirm :: bool
  lq_routing_mode :: tool_routing_mode

definition no_llm_request :: llm_request where
  "no_llm_request = \<lparr>lq_group = [], lq_action = [], lq_provider_id = [], lq_label = [], lq_purpose = [], lq_model_id = [],
     lq_auto_model = False, lq_confirm = False, lq_routing_mode = []\<rparr>"

type_synonym parsed_llm = "llm_request \<times> goerror option"

abbreviation (input) invalid :: "llm_request \<Rightarrow> string \<Rightarrow> parsed_llm" where
  "invalid r msg \<equiv> (r, Some (Errorf msg))"

definition sensitive_words :: "string list" where
  "sensitive_words = [''api_key'', ''apikey'', ''authorization'', ''bearer '', ''client_secret'', ''private_key'', ''refresh_token'',
     ''secret'', ''sk-'', ''token'', ''x-api-key'']"

definition looksSensitive :: "string \<Rightarrow> bool" where
  "looksSensitive v0 = (let v = to_lower (trim_space v0) in v \<noteq> [] \<and> list_ex (contains_sub v) sensitive_words)"

definition parseLLMLabel :: "llm_request \<Rightarrow> interaction_option list \<Rightarrow> parsed_llm" where
  "parseLLMLabel r0 options =
     (let r = r0\<lparr>lq_label := trim_space (optionByName options ''label'')\<rparr> in
      if lq_label r = [] then invalid r ''Credential label is required.''
      else if looksSensitive (lq_label r) then invalid r ''Credential label looks sensitive.''
      else if length (lq_label r) > 80 then invalid r ''Credential label is too long.''
      else (r, None))"

definition parseLLMRoutingRequest :: "llm_request \<Rightarrow> interaction_option list \<Rightarrow> parsed_llm" where
  "parseLLMRoutingRequest r0 options =
     (if lq_action r0 = ''show'' then (r0, None)
      else if lq_action r0 = ''set''
      then (let r = r0\<lparr>lq_routing_mode := optionByName options ''mode''\<rparr> in
        case ValidateToolRoutingMode (lq_routing_mode r) of Inl e \<Rightarrow> (r, Some e) | Inr _ \<Rightarrow> (r, None))
      else invalid r0 ''Unsupported llm routing action.'')"

definition parseLLMProviderRequest :: "llm_request \<Rightarrow> interaction_option list \<Rightarrow> parsed_llm" where
  "parseLLMProviderRequest r0 options =
     (if lq_action r0 = ''list'' then (r0, None)
      else if lq_action r0 = ''add''
      then (let r = r0\<lparr>lq_provider_id := optionByName options ''provider''\<rparr> in
        case ValidateProvider (lq_provider_id r) of Inl e \<Rightarrow> (r, Some e) | Inr _ \<Rightarrow> parseLLMLabel r options)
      else if lq_action r0 \<in> {''test'', ''rotate''} then parseLLMLabel r0 options
      else if lq_action r0 = ''delete''
      then (case parseLLMLabel r0 options of
          (r, Some e) \<Rightarrow> (r, Some e)
        | (r, None) \<Rightarrow>
            (let r1 = r\<lparr>lq_confirm := boolByName options ''confirm''\<rparr> in
             if \<not> lq_confirm r1 then invalid r1 ''Confirm must be true to revoke a credential.'' else (r1, None)))
      else invalid r0 ''Unsupported llm provider action.'')"

definition parseLLMModelRequest :: "llm_request \<Rightarrow> interaction_option list \<Rightarrow> parsed_llm" where
  "parseLLMModelRequest r00 options =
     (case ValidatePurpose (optionByName options ''purpose'') of
        Inl e \<Rightarrow> (r00, Some e)
      | Inr _ \<Rightarrow>
          (let r0 = r00\<lparr>lq_purpose := optionByName options ''purpose''\<rparr> in
           if lq_action r0 = ''show'' then (r0, None)
           else if lq_action r0 = ''set''
           then (case parseLLMLabel r0 options of
               (r, Some e) \<Rightarrow> (r, Some e)
             | (r, None) \<Rightarrow>
                 (let modelValue = trim_space (optionByName options ''model'') in
                  if modelValue = [] \<or> equal_fold modelValue ''auto'' then (r\<lparr>lq_auto_model := True\<rparr>, None)
                  else case ValidateModelID modelValue of
                      Inl e \<Rightarrow> (r, Some e)
                    | Inr modelID \<Rightarrow> (r\<lparr>lq_model_id := modelID\<rparr>, None)))
           else invalid r0 ''Unsupported llm model action.''))"

definition parseLLMUsageRequest :: "llm_request \<Rightarrow> parsed_llm" where
  "parseLLMUsageRequest r = (if lq_action r = ''guild'' then (r, None) else invalid r ''Unsupported llm usage action.'')"

definition parseLLMRequest :: "'w interaction \<Rightarrow> parsed_llm" where
  "parseLLMRequest i =
     (if trim_space (ix_guild_id i) = []
      then invalid no_llm_request ''LLM providers can only be managed inside a Discord server.''
      else case ix_options i of
          [grp] \<Rightarrow>
            (case io_options grp of
               [action] \<Rightarrow>
                 (let r = no_llm_request\<lparr>lq_group := io_name grp, lq_action := io_name action\<rparr> in
                  if lq_group r = ''provider'' then parseLLMProviderRequest r (io_options action)
                  else if lq_group r = ''model'' then parseLLMModelRequest r (io_options action)
                  else if lq_group r = ''usage'' then parseLLMUsageRequest r
                  else if lq_group r = ''routing'' then parseLLMRoutingRequest r (io_options action)
                  else invalid r ''Unsupported llm group.'')
             | _ \<Rightarrow> invalid (no_llm_request\<lparr>lq_group := io_name grp\<rparr>) ''Choose one llm action.'')
        | _ \<Rightarrow> invalid no_llm_request ''Choose one llm group.'')"

subsection \<open>What it shows\<close>

definition providerDisplayName :: "provider_id \<Rightarrow> string" where
  "providerDisplayName p = (case Spec DefaultRegistry p of None \<Rightarrow> p | Some spec \<Rightarrow> sp_display_name spec)"

definition formatLLMCredentialSaved :: "credential_record \<Rightarrow> string" where
  "formatLLMCredentialSaved r =
     (let label = safe_inline (cr_label r) in join [CHR 0x0A]
       [''Saved '' @ ticked_inline (cr_provider_id r) @ '' credential '' @ ticked label @ ''.'', ''Next:'',
        ticked (''/llm provider test label:'' @ label),
        ticked (''/llm model set purpose:chat label:'' @ label @ '' model:auto''),
        ticked (''/llm model set purpose:routing label:'' @ label @ '' model:auto'')])"

definition credential_line :: "credential_record \<Rightarrow> string" where
  "credential_line r = ''- '' @ ticked_inline (cr_label r) @ '' - '' @ ticked_inline (cr_provider_id r) @ '' ('' @ cr_status r @
     '', test: '' @ (if cr_last_test_status r = [] then TestStatusUntested else cr_last_test_status r) @ '')''"

definition formatLLMCredentialList :: "credential_record list \<Rightarrow> string" where
  "formatLLMCredentialList rs =
     (if rs = [] then ''LLM provider credentials: none.''
      else join [CHR 0x0A] ([''LLM provider credentials:''] @ map credential_line (take 10 rs) @
        (if length rs > 10 then [''...and '' @ nat_str (length rs - 10) @ '' more.''] else [])))"

text \<open>Word for word the summary that the tool of the agent gives.\<close>

definition guild_usage_text :: "usage_summary \<Rightarrow> string" where
  "guild_usage_text s = formatLLMUsageSummary s"

definition tested_text :: "test_credential_result \<Rightarrow> string" where
  "tested_text t = ''Tested '' @ ticked_inline (tr_provider_id t) @ '' credential '' @ ticked_inline (tr_label t) @ '': '' @
     ProviderService.tr_status t @
     (if ProviderService.tr_status t = TestStatusFailed \<and> tr_error_code t \<noteq> [] then '' ('' @ tr_error_code t @ '')'' else []) @ ''.''"

definition cleanLLMError :: "string \<Rightarrow> string" where
  "cleanLLMError message =
     (if contains_sub message ''not found'' then ''LLM provider credential or model profile was not found.''
      else if contains_sub message ''does not support purpose'' then ''Provider does not support that LLM purpose.''
      else if contains_sub message ''usage'' then ''LLM usage reporting failed.''
      else if contains_sub message ''model'' then ''Model selection is invalid.''
      else ''LLM command failed.'')"

subsection \<open>Modals that wait for a key\<close>

record pending_credential =
  pc_guild_id :: string
  pc_actor_id :: string
  pc_action :: string
  pc_provider_id :: provider_id
  pc_label :: string
  pc_expires_at :: gotime

definition no_pending :: pending_credential where
  "no_pending = \<lparr>pc_guild_id = [], pc_actor_id = [], pc_action = [], pc_provider_id = [], pc_label = [], pc_expires_at = zero_time\<rparr>"

type_synonym modals = "(string \<times> pending_credential) list"

record 'd llm_config =
  lx_entry_enabled :: bool
  lx_modal_ttl :: int
  lx_usage :: "(string \<Rightarrow> 'd \<Rightarrow> usage_summary result \<times> 'd) option"
  lx_policy :: "('d policy_reader \<times> (guild_policy_input \<Rightarrow> 'd \<Rightarrow> unit result \<times> 'd)) option"
  lx_random16 :: "'d \<Rightarrow> string result \<times> 'd"
  lx_now :: "'d \<Rightarrow> gotime \<times> 'd"

text \<open>Ten minutes, when no positive time is configured.\<close>

definition modal_ttl :: "'d llm_config \<Rightarrow> int" where
  "modal_ttl cfg = (if lx_modal_ttl cfg \<le> 0 then 600 * 1000000000 else lx_modal_ttl cfg)"

definition hex_encode :: "string \<Rightarrow> string" where
  "hex_encode s = concat (map (\<lambda>c. [hex_char (byte c div 16), hex_char (byte c mod 16)]) s)"

definition create_modal :: "'d llm_config \<Rightarrow> pending_credential \<Rightarrow> modals \<times> 'd \<Rightarrow> string result \<times> modals \<times> 'd" where
  "create_modal cfg p w =
     (case lx_random16 cfg (snd w) of
        (Inl e, d) \<Rightarrow> (Inl (Wrap ''create credential modal nonce'' e), fst w, d)
      | (Inr nonce, d) \<Rightarrow>
          (let customID = llmCredentialModalPrefix @ hex_encode nonce; (now, d1) = lx_now cfg d in
           (Inr customID, mput customID (p\<lparr>pc_expires_at := now + modal_ttl cfg\<rparr>) (fst w), d1)))"

text \<open>The modal found, if any, with the error if it may not be answered; found or not, it is not there after that.\<close>

definition take_modal :: "string \<Rightarrow> string \<Rightarrow> string \<Rightarrow> gotime \<Rightarrow> modals \<Rightarrow> (pending_credential \<times> goerror option) \<times> modals" where
  "take_modal customID0 guildID actorID now ms =
     (let customID = trim_space customID0 in
      case map_of ms customID of
        None \<Rightarrow> ((no_pending, Some (Errorf ''credential modal was not found'')), ms)
      | Some p \<Rightarrow>
          ((p, if now > pc_expires_at p then Some (Errorf ''credential modal expired'')
               else if pc_guild_id p \<noteq> trim_space guildID \<or> pc_actor_id p \<noteq> trim_space actorID
               then Some (Errorf ''credential modal was not found'') else None),
           filter (\<lambda>(k, _). k \<noteq> customID) ms))"

definition consume_modal ::
  "'d llm_config \<Rightarrow> string \<Rightarrow> string \<Rightarrow> string \<Rightarrow> modals \<times> 'd \<Rightarrow> (pending_credential \<times> goerror option) \<times> modals \<times> 'd" where
  "consume_modal cfg customID guildID actorID w =
     (case map_of (fst w) (trim_space customID) of
        None \<Rightarrow> (fst (take_modal customID guildID actorID zero_time (fst w)), w)
      | Some _ \<Rightarrow>
          (case lx_now cfg (snd w) of (now, d) \<Rightarrow>
             (case take_modal customID guildID actorID now (fst w) of (res, ms) \<Rightarrow> (res, ms, d))))"

definition credentialModal :: "string \<Rightarrow> string \<Rightarrow> modal_response" where
  "credentialModal action customID = \<lparr>mo_custom_id = customID,
     mo_title = (if action = ''rotate'' then ''Rotate LLM Credential'' else ''Add LLM Credential''),
     mo_inputs = [(''credential'', ''API key'', True)]\<rparr>"

subsection \<open>The command\<close>

record 'd llm_manager =
  lm_AddCredential :: "add_credential_request \<Rightarrow> 'd \<Rightarrow> credential_record result \<times> 'd"
  lm_RotateCredential :: "add_credential_request \<Rightarrow> 'd \<Rightarrow> credential_record result \<times> 'd"
  lm_ListCredentials :: "owner_scope \<Rightarrow> 'd \<Rightarrow> credential_record list result \<times> 'd"
  lm_TestCredential :: "test_credential_request \<Rightarrow> 'd \<Rightarrow> test_credential_result result \<times> 'd"
  lm_RevokeCredential :: "owner_scope \<Rightarrow> string \<Rightarrow> string \<Rightarrow> 'd \<Rightarrow> unit result \<times> 'd"
  lm_SelectModelProfile :: "select_model_request \<Rightarrow> 'd \<Rightarrow> unit result \<times> 'd"
  lm_ActiveModelProfile :: "owner_scope \<Rightarrow> purpose \<Rightarrow> 'd \<Rightarrow> model_profile result \<times> 'd"

definition credentialByLabel :: "'d llm_manager \<Rightarrow> owner_scope \<Rightarrow> string \<Rightarrow> 'd \<Rightarrow> credential_record result \<times> 'd" where
  "credentialByLabel g owner label d =
     db_bind (lm_ListCredentials g owner d) (\<lambda>rs d1.
       case find (\<lambda>r. equal_fold (trim_space (cr_label r)) (trim_space label) \<and> cr_status r = CredentialStatusActive) rs of
         None \<Rightarrow> (Inl (Errorf ''credential label was not found''), d1)
       | Some r \<Rightarrow> (Inr r, d1))"

definition guild_owner :: "string \<Rightarrow> owner_scope" where
  "guild_owner guildID = \<lparr>os_owner_type = OwnerGuild, os_guild_id = guildID, os_user_id = []\<rparr>"

type_synonym 'd llm_step = "modals \<times> 'd \<Rightarrow> (llm_request \<times> (modals \<times> 'd) command_response result) \<times> modals \<times> 'd"

text \<open>The modal of an add or a rotation; a rotation takes the provider of the credential it finds.\<close>

definition enter_credential ::
  "'d llm_config \<Rightarrow> 'd llm_manager \<Rightarrow> (modals \<times> 'd) interaction \<Rightarrow> llm_request \<Rightarrow> 'd llm_step" where
  "enter_credential cfg g i r w =
     (if \<not> lx_entry_enabled cfg then ((r, Inr (reply_text ''LLM credential entry is not configured.'')), w)
      else case (if lq_action r = ''rotate''
              then db_bind (on_right (credentialByLabel g (guild_owner (ix_guild_id i)) (lq_label r)) w)
                (\<lambda>credential w'. (Inr (cr_provider_id credential), w'))
              else (Inr (lq_provider_id r), w)) of
          (Inl e, w1) \<Rightarrow> ((r, Inl e), w1)
        | (Inr providerID, w1) \<Rightarrow>
            (let r1 = r\<lparr>lq_provider_id := providerID\<rparr> in
             answered r1 (\<lambda>nonce. empty_reply\<lparr>cr_modal := Some (credentialModal (lq_action r1) nonce)\<rparr>)
               (create_modal cfg \<lparr>pc_guild_id = ix_guild_id i, pc_actor_id = ix_user_id i, pc_action = lq_action r1,
                  pc_provider_id = lq_provider_id r1, pc_label = lq_label r1, pc_expires_at = zero_time\<rparr> w1)))"

definition select_model ::
  "'d llm_manager \<Rightarrow> (modals \<times> 'd) interaction \<Rightarrow> llm_request \<Rightarrow> 'd llm_step" where
  "select_model g i r w =
     (case on_right (credentialByLabel g (guild_owner (ix_guild_id i)) (lq_label r)) w of
        (Inl e, w1) \<Rightarrow> ((r, Inl e), w1)
      | (Inr c, w1) \<Rightarrow>
          (case (if lq_auto_model r then DefaultModel (cr_provider_id c) (lq_purpose r) else Some (lq_model_id r)) of
             None \<Rightarrow> ((r, Inr (reply_text (''No default model for '' @ safe_inline (cr_provider_id c) @ ''/'' @ lq_purpose r @
               ''. Pass model:<id> explicitly.''))), w1)
           | Some modelID \<Rightarrow>
               (let r1 = r\<lparr>lq_model_id := modelID\<rparr> in
                answered r1 (\<lambda>_. reply_text (''Selected '' @ ticked_inline modelID @ '' for '' @ ticked (lq_purpose r) @
                    '' using credential '' @ ticked_inline (lq_label r) @
                    (if lq_auto_model r then '' (auto default for '' @ safe_inline (providerDisplayName (cr_provider_id c)) @ '').''
                     else ''.'')))
                  (on_right (lm_SelectModelProfile g \<lparr>sr_owner = guild_owner (ix_guild_id i), sr_purpose = lq_purpose r,
                     sr_credential_id = cr_id c, sr_provider_id = cr_provider_id c, sr_model_id = modelID,
                     sr_params_json = ''{}'', sr_actor_id = ix_user_id i\<rparr>) w1))))"

definition set_routing ::
  "'d policy_reader \<Rightarrow> (guild_policy_input \<Rightarrow> 'd \<Rightarrow> unit result \<times> 'd) \<Rightarrow> (modals \<times> 'd) interaction \<Rightarrow> llm_request \<Rightarrow> 'd \<Rightarrow>
     unit result \<times> 'd" where
  "set_routing read write i r d =
     db_bind (read (ix_guild_id i) d) (\<lambda>current d1.
       write \<lparr>gp_guild_id = ix_guild_id i, gp_personal_keys_mode = gp_personal_keys_mode current,
         gp_tool_routing_mode = lq_routing_mode r, gp_actor_user_id = ix_user_id i\<rparr> d1)"

definition executeLLMRequest ::
  "'d llm_config \<Rightarrow> 'd llm_manager \<Rightarrow> (modals \<times> 'd) interaction \<Rightarrow> llm_request \<Rightarrow> 'd llm_step" where
  "executeLLMRequest cfg g i r w =
     (let owner = guild_owner (ix_guild_id i); is = (\<lambda>grp action. lq_group r = grp \<and> lq_action r = action);
          said_text = (\<lambda>text. ((r, Inr (reply_text text)), w)) in
      if is ''provider'' ''list''
      then answered r (\<lambda>rs. reply_text (formatLLMCredentialList rs)) (on_right (lm_ListCredentials g owner) w)
      else if is ''provider'' ''add'' \<or> is ''provider'' ''rotate'' then enter_credential cfg g i r w
      else if is ''provider'' ''test''
      then (case on_right (lm_TestCredential g \<lparr>tc_owner = owner, tc_label = lq_label r, tc_actor_id = ix_user_id i\<rparr>) w of
          (Inl e, w1) \<Rightarrow> ((r, Inl e), w1)
        | (Inr t, w1) \<Rightarrow> ((r\<lparr>lq_provider_id := tr_provider_id t\<rparr>, Inr (reply_text (tested_text t))), w1))
      else if is ''provider'' ''delete''
      then answered r (\<lambda>_. reply_text (''Revoked LLM credential '' @ ticked_inline (lq_label r) @ ''.''))
        (on_right (lm_RevokeCredential g owner (lq_label r) (ix_user_id i)) w)
      else if is ''model'' ''show''
      then answered r (\<lambda>p. reply_text (''Active '' @ ticked (lq_purpose r) @ '' model: '' @ ticked_inline (mp_model_id p) @ '' via '' @
          ticked_inline (mp_provider_id p) @ '' ('' @ ticked_inline (mp_credential_id p) @ '').''))
        (on_right (lm_ActiveModelProfile g owner (lq_purpose r)) w)
      else if is ''model'' ''set'' then select_model g i r w
      else if is ''usage'' ''guild''
      then (case lx_usage cfg of
          None \<Rightarrow> said_text ''LLM usage reporting is not configured.''
        | Some report \<Rightarrow> answered r (\<lambda>s. reply_text (guild_usage_text s)) (on_right (report (ix_guild_id i)) w))
      else if is ''routing'' ''show''
      then (case lx_policy cfg of
          None \<Rightarrow> said_text ''LLM routing policy is not configured.''
        | Some (read, write) \<Rightarrow>
            answered r (\<lambda>p. reply_text (''LLM tool routing mode: '' @ ticked_inline (gp_tool_routing_mode p) @ ''.''))
              (on_right (read (ix_guild_id i)) w))
      else if is ''routing'' ''set''
      then (case lx_policy cfg of
          None \<Rightarrow> said_text ''LLM routing policy is not configured.''
        | Some (read, write) \<Rightarrow>
            answered r (\<lambda>_. reply_text (''Set LLM tool routing mode to '' @ ticked_inline (lq_routing_mode r) @ ''.''))
              (on_right (set_routing read write i r) w))
      else ((r, Inl (Errorf ''unsupported llm action'')), w))"

definition shouldAuditLLMAction :: "llm_request \<Rightarrow> bool" where
  "shouldAuditLLMAction r \<longleftrightarrow> lq_group r = ''provider'' \<and> lq_action r \<in> {''delete'', ''test''} \<or>
     lq_group r = ''model'' \<and> lq_action r = ''set'' \<or> lq_group r = ''routing'' \<and> lq_action r = ''set''"

definition llm_change :: "'w interaction \<Rightarrow> llm_request \<Rightarrow> audit_status \<Rightarrow> bool \<Rightarrow> audit_event" where
  "llm_change i r status ok =
     \<lparr>ev_kind = ''discord.llm.change'', ev_guild_id = ix_guild_id i, ev_actor_id = ix_user_id i, ev_status = status,
      ev_reason = (if ok then [] else ''llm_action_failed''),
      ev_metadata = [(''command'', ix_name i), (''group'', lq_group r), (''action'', lq_action r)] @
        (if lq_provider_id r \<noteq> [] then [(''provider_id'', lq_provider_id r)] else []) @
        (if lq_purpose r \<noteq> [] then [(''purpose'', lq_purpose r)] else []) @
        (if lq_model_id r \<noteq> [] then [(''model_id'', lq_model_id r)] else []) @
        (if lq_routing_mode r \<noteq> [] then [(''routing_mode'', lq_routing_mode r)] else []),
      ev_request_id = []\<rparr>"

definition recordLLMAction ::
  "'w audit_recorder option \<Rightarrow> 'w interaction \<Rightarrow> llm_request \<Rightarrow> audit_status \<Rightarrow> bool \<Rightarrow> 'w \<Rightarrow> unit result \<times> 'w" where
  "recordLLMAction recorder i r status ok w =
     (case recorder of
        None \<Rightarrow> (Inr (), w)
      | Some rec \<Rightarrow>
          if trim_space (ix_user_id i) = [] \<or> \<not> shouldAuditLLMAction r then (Inr (), w)
          else rec (llm_change i r status ok) w)"

definition llmHandler ::
  "(goerror \<Rightarrow> string) \<Rightarrow> 'd llm_config \<Rightarrow> 'd llm_manager option \<Rightarrow> (modals \<times> 'd) audit_recorder option \<Rightarrow>
     (modals \<times> 'd) command_handler" where
  "llmHandler shown cfg manager recorder i w =
     (case manager of
        None \<Rightarrow> (Inl (Errorf ''llm provider manager is required''), w)
      | Some g \<Rightarrow>
          (case parseLLMRequest i of
             (r, Some e) \<Rightarrow> (Inr (private_text (shown e)), snd (recordLLMAction recorder i r StatusFailed False w))
           | (r, None) \<Rightarrow>
               (case executeLLMRequest cfg g i r w of
                  ((r1, Inl e), w1) \<Rightarrow>
                    (Inr (private_text (cleanLLMError (shown e))), snd (recordLLMAction recorder i r1 StatusFailed False w1))
                | ((r1, Inr reply), w1) \<Rightarrow>
                    db_bind (if shouldAuditLLMAction r1 then recordLLMAction recorder i r1 StatusSucceeded True w1 else (Inr (), w1))
                      (\<lambda>_ w2. (Inr (reply\<lparr>cr_ephemeral := True\<rparr>), w2)))))"

subsection \<open>The answer of a modal\<close>

definition credential_change :: "modal_interaction \<Rightarrow> pending_credential \<Rightarrow> audit_status \<Rightarrow> bool \<Rightarrow> audit_event" where
  "credential_change m p status ok =
     \<lparr>ev_kind = ''discord.llm.change'', ev_guild_id = mi_guild_id m, ev_actor_id = mi_user_id m, ev_status = status,
      ev_reason = (if ok then [] else ''llm_action_failed''),
      ev_metadata = [(''command'', ''llm''), (''group'', ''provider''), (''action'', pc_action p)] @
        (if pc_provider_id p \<noteq> [] then [(''provider_id'', pc_provider_id p)] else []),
      ev_request_id = []\<rparr>"

definition recordLLMCredentialModal ::
  "'w audit_recorder option \<Rightarrow> modal_interaction \<Rightarrow> pending_credential \<Rightarrow> audit_status \<Rightarrow> bool \<Rightarrow> 'w \<Rightarrow> unit result \<times> 'w" where
  "recordLLMCredentialModal recorder m p status ok w =
     (case recorder of
        None \<Rightarrow> (Inr (), w)
      | Some rec \<Rightarrow> if trim_space (mi_user_id m) = [] then (Inr (), w) else rec (credential_change m p status ok) w)"

definition save_credential :: "'d llm_manager \<Rightarrow> string \<Rightarrow> add_credential_request \<Rightarrow> 'd \<Rightarrow> credential_record result \<times> 'd" where
  "save_credential g action req d =
     (if action = ''add'' then lm_AddCredential g req d
      else if action = ''rotate'' then lm_RotateCredential g req d
      else (Inl (Errorf ''unsupported credential modal action''), d))"

definition llmModalHandler ::
  "(goerror \<Rightarrow> string) \<Rightarrow> 'd llm_config \<Rightarrow> 'd llm_manager option \<Rightarrow> (modals \<times> 'd) audit_recorder option \<Rightarrow>
     (modals \<times> 'd) modal_handler" where
  "llmModalHandler shown cfg manager recorder m w =
     (case manager of
        None \<Rightarrow> (Inl (Errorf ''llm provider manager is required''), w)
      | Some g \<Rightarrow>
          (case consume_modal cfg (mi_custom_id m) (mi_guild_id m) (mi_user_id m) w of
             ((p, Some e), w1) \<Rightarrow>
               (Inr (private_text (cleanLLMError (shown e))), snd (recordLLMCredentialModal recorder m p StatusFailed False w1))
           | ((p, None), w1) \<Rightarrow>
               (let rawSecret = trim_space (mget (mi_values m) ''credential'') in
                if rawSecret = []
                then (Inr (private_text ''Credential value is required.''),
                  snd (recordLLMCredentialModal recorder m p StatusFailed False w1))
                else case on_right (save_credential g (pc_action p) \<lparr>ar_owner = guild_owner (mi_guild_id m),
                      ar_provider_id = pc_provider_id p, ar_label = pc_label p, ar_raw_secret = rawSecret,
                      ar_actor_id = mi_user_id m\<rparr>) w1 of
                    (Inl e, w2) \<Rightarrow>
                      (Inr (private_text (cleanLLMError (shown e))),
                       snd (recordLLMCredentialModal recorder m p StatusFailed False w2))
                  | (Inr r, w2) \<Rightarrow>
                      db_bind (recordLLMCredentialModal recorder m (p\<lparr>pc_provider_id := cr_provider_id r\<rparr>) StatusSucceeded True w2)
                        (\<lambda>_ w3. (Inr (private_text (formatLLMCredentialSaved r)), w3)))))"

definition LLMCommands ::
  "(goerror \<Rightarrow> string) \<Rightarrow> 'd llm_config \<Rightarrow> 'd llm_manager option \<Rightarrow> (modals \<times> 'd) audit_recorder option \<Rightarrow>
     (modals \<times> 'd) command list" where
  "LLMCommands shown cfg manager recorder = [\<lparr>co_name = ''llm'', co_description = ''Manage Gigi LLM provider settings.'',
     co_required = [], co_required_for = Some llmRequiredCapability, co_required_for_modal = Some llmRequiredCapabilityForModal,
     co_modal_prefixes = [llmCredentialModalPrefix],
     co_options = [llmProviderGroup, llmModelGroup, llmUsageGroup, llmRoutingGroup],
     co_handle = Some (llmHandler shown cfg manager recorder),
     co_handle_modal = Some (llmModalHandler shown cfg manager recorder)\<rparr>]"

subsection \<open>A modal is answered once\<close>

text \<open>What happened to the modals, the newest event first; what else the program does leaves them alone.\<close>

datatype modal_event =
  Issued (me_id: string) pending_credential
| Answered (me_id: string) string string pending_credential bool

inductive modal_history :: "'d llm_config \<Rightarrow> modals \<times> 'd \<Rightarrow> modal_event list \<Rightarrow> bool" for cfg where
  start: "modal_history cfg ([], d) []"
| issue: "modal_history cfg w es \<Longrightarrow> create_modal cfg p w = (Inr customID, w1) \<Longrightarrow> modal_history cfg w1 (Issued customID p # es)"
| answer: "modal_history cfg w es \<Longrightarrow> consume_modal cfg customID guildID actorID w = ((p, err), w1) \<Longrightarrow>
    modal_history cfg w1 (Answered (trim_space customID) guildID actorID p (err = None) # es)"
| elsewhere: "modal_history cfg (ms, d) es \<Longrightarrow> modal_history cfg (ms, d') es"

inductive_cases answered_cases: "modal_history cfg w (Answered customID guildID actorID p ok # es)"

definition last_event :: "string \<Rightarrow> modal_event list \<Rightarrow> modal_event option" where
  "last_event customID es = find (\<lambda>e. me_id e = customID) es"

definition asked_for :: "pending_credential \<Rightarrow> pending_credential \<Rightarrow> bool" where
  "asked_for q p \<longleftrightarrow> pc_guild_id p = pc_guild_id q \<and> pc_actor_id p = pc_actor_id q \<and> pc_action p = pc_action q \<and>
     pc_provider_id p = pc_provider_id q \<and> pc_label p = pc_label q"

lemma create_modal_Inr:
  "create_modal cfg p w = (Inr customID, w1) \<Longrightarrow> \<exists>t. fst w1 = mput customID (p\<lparr>pc_expires_at := t\<rparr>) (fst w)"
  by (auto simp: create_modal_def Let_def split: sum.splits prod.splits)

lemma map_of_without: "map_of (filter (\<lambda>(k, _). k \<noteq> x) m) y = (if y = x then None else map_of m y)"
  by (induction m) auto

lemma consume_modal_effect:
  assumes "consume_modal cfg customID guildID actorID w = ((p, err), w1)"
  shows "map_of (fst w1) k = (if k = trim_space customID then None else map_of (fst w) k)"
    and "err = None \<Longrightarrow> map_of (fst w) (trim_space customID) = Some p \<and> pc_guild_id p = trim_space guildID \<and>
      pc_actor_id p = trim_space actorID"
  using assms
  by (auto simp: consume_modal_def take_modal_def Let_def map_of_without split: option.splits prod.splits if_splits)

lemma modal_pending_issued:
  "modal_history cfg w es \<Longrightarrow> map_of (fst w) k = Some p \<Longrightarrow> \<exists>q. last_event k es = Some (Issued k q) \<and> asked_for q p"
proof (induction arbitrary: k p rule: modal_history.induct)
  case (issue w es p0 customID w1)
  obtain t where "fst w1 = mput customID (p0\<lparr>pc_expires_at := t\<rparr>) (fst w)" using create_modal_Inr [OF issue.hyps(2)] by blast
  then show ?case using issue.IH [of k p] issue.prems by (auto simp: AList.update_conv' last_event_def asked_for_def split: if_splits)
next
  case (answer w es customID guildID actorID p0 err w1)
  then show ?case using consume_modal_effect(1) [OF answer.hyps(2)] by (auto simp: last_event_def split: if_splits)
qed auto

text \<open>C27: an answer to a credential modal is accepted only if the last thing that happened to that modal is its being issued, to
  the same member of the same guild; what is then saved is the action, provider and label asked for. So no modal is used twice.\<close>

theorem credential_modal_once:
  assumes "modal_history cfg w (Answered customID guildID actorID p True # es)"
  shows "\<exists>q. last_event customID es = Some (Issued customID q) \<and> asked_for q p \<and> pc_guild_id q = trim_space guildID \<and>
    pc_actor_id q = trim_space actorID"
  using assms
proof (induction w "Answered customID guildID actorID p True # es" rule: modal_history.induct)
  case (answer w customID0 err w1)
  then show ?case
    using consume_modal_effect(2) [OF answer.hyps(3)] modal_pending_issued [OF answer.hyps(1)] by (fastforce simp: asked_for_def)
qed

definition modal_config :: "unit llm_config" where
  "modal_config = \<lparr>lx_entry_enabled = True, lx_modal_ttl = 0, lx_usage = None, lx_policy = None, lx_random16 = (\<lambda>d. (Inr [], d)),
     lx_now = (\<lambda>d. (5, d))\<rparr>"

definition add_key :: pending_credential where
  "add_key = \<lparr>pc_guild_id = ''g'', pc_actor_id = ''u'', pc_action = ''add'', pc_provider_id = ProviderOpenAI, pc_label = ''main'',
     pc_expires_at = zero_time\<rparr>"

lemma one_modal_history:
  "modal_history modal_config ([], ())
     [Answered llmCredentialModalPrefix ''g'' ''u'' (add_key\<lparr>pc_expires_at := 600000000005\<rparr>) True, Issued llmCredentialModalPrefix add_key]"
proof -
  let ?w = "([(llmCredentialModalPrefix, add_key\<lparr>pc_expires_at := 600000000005\<rparr>)], ())"
  have "create_modal modal_config add_key ([], ()) = (Inr llmCredentialModalPrefix, ?w)"
    by (simp add: create_modal_def modal_config_def hex_encode_def modal_ttl_def)
  then have issued: "modal_history modal_config ?w [Issued llmCredentialModalPrefix add_key]"
    by (rule modal_history.issue [OF modal_history.start])
  have trimmed: "trim_space llmCredentialModalPrefix = llmCredentialModalPrefix" "trim_space ''g'' = ''g''" "trim_space ''u'' = ''u''"
    by (simp_all add: llmCredentialModalPrefix_def go_eval)
  then have "consume_modal modal_config llmCredentialModalPrefix ''g'' ''u'' ?w = ((add_key\<lparr>pc_expires_at := 600000000005\<rparr>, None), [], ())"
    by (simp add: consume_modal_def take_modal_def modal_config_def add_key_def)
  from modal_history.answer [OF issued this] show ?thesis by (simp add: trimmed)
qed

lemma credential_modal_once_witness:
  "\<exists>q. last_event llmCredentialModalPrefix [Issued llmCredentialModalPrefix add_key] = Some (Issued llmCredentialModalPrefix q) \<and>
    asked_for q (add_key\<lparr>pc_expires_at := 600000000005\<rparr>) \<and> pc_guild_id q = trim_space ''g'' \<and> pc_actor_id q = trim_space ''u''"
  using credential_modal_once [OF one_modal_history] .

end
