(* ===== verification/DiscordAgent.thy ===== *)
theory DiscordAgent
  imports DiscordMemory
begin

text \<open>
  The \<^verbatim>\<open>agent\<close> command of \<^verbatim>\<open>internal/discord\<close>: managing one's runs (\<^verbatim>\<open>agent_commands.go\<close>) and looking at traces
  (\<^verbatim>\<open>agent_trace.go\<close>). The run a live sink collects is a cell of the world \<open>'w\<close>.
\<close>

subsection \<open>Managing a run\<close>

text \<open>The store of runs, with the \<^verbatim>\<open>LoadRun\<close> that only this command uses.\<close>

record 'w run_manager =
  rg_LoadRun :: "string \<Rightarrow> 'w \<Rightarrow> run_record option result \<times> 'w"
  rg_store :: "'w run_store"

definition agentRunOptions :: "command_option list" where
  "agentRunOptions =
     [CmdOption 1 ''cancel'' ''Request cancellation for one of your running agent runs.'' False []
        [stringOption ''run'' ''Agent run id.'' []],
      CmdOption 1 ''pending'' ''Show a pending confirmation for one of your agent runs.'' False []
        [stringOption ''run'' ''Agent run id.'' []],
      CmdOption 1 ''confirm'' ''Confirm a pending action for one of your agent runs.'' False []
        [stringOption ''run'' ''Agent run id.'' []],
      CmdOption 1 ''reject'' ''Reject a pending action for one of your agent runs.'' False []
        [stringOption ''run'' ''Agent run id.'' []]]"

record agent_command =
  ag_action :: string
  ag_run_id :: string
  ag_confirmation :: "confirmation_record option"

definition no_agent_command :: agent_command where
  "no_agent_command = \<lparr>ag_action = [], ag_run_id = [], ag_confirmation = None\<rparr>"

definition run_actions :: "string list" where
  "run_actions = [''cancel'', ''pending'', ''confirm'', ''reject'']"

definition parseAgentCommandRequest :: "'w interaction \<Rightarrow> agent_command \<times> goerror option" where
  "parseAgentCommandRequest i =
     (if trim_space (ix_guild_id i) = []
      then (no_agent_command, Some (Errorf ''Agent runs can only be managed inside a Discord server.''))
      else case ix_options i of
          [action] \<Rightarrow>
            (let r = no_agent_command\<lparr>ag_action := trim_space (io_name action),
                   ag_run_id := trim_space (optionByName (io_options action) ''run'')\<rparr> in
             if ag_action r \<notin> set run_actions then (r, Some (Errorf ''Unsupported agent action.''))
             else if ag_run_id r = [] then (r, Some (Errorf ''Agent run id is required.''))
             else (r, None))
        | _ \<Rightarrow> (no_agent_command, Some (Errorf ''Choose one agent action.'')))"

definition errAgentRunForbidden :: goerror where
  "errAgentRunForbidden = Errorf ''agent run forbidden''"

definition canManageAgentRun :: "'w interaction \<Rightarrow> string \<Rightarrow> bool" where
  "canManageAgentRun i ownerID \<longleftrightarrow>
     ix_has_administrator i \<or> (trim_space ownerID \<noteq> [] \<and> trim_space (ix_user_id i) = trim_space ownerID)"

definition confirmationOwner :: "confirmation_record \<Rightarrow> run_record \<Rightarrow> string" where
  "confirmationOwner c r = (if trim_space (co_created_by c) \<noteq> [] then co_created_by c else ru_actor_user_id r)"

text \<open>At most five entries of the payload, by their keys, after the filter of secrets.\<close>

definition formatAgentConfirmationPayload :: "gomap \<Rightarrow> string" where
  "formatAgentConfirmationPayload payload0 =
     (let payload = SanitizeMetadata payload0 in
      join '', '' (map (\<lambda>k. ticked (safe_inline_limit k 32 @ ''='' @ safe_inline_limit (mget payload k) 80))
        (take 5 (sort (map fst payload)))))"

definition formatAgentConfirmation :: "string \<Rightarrow> confirmation_record \<Rightarrow> string" where
  "formatAgentConfirmation runID c = join [CHR 0x0A]
     ([''Pending confirmation for agent run '' @ ticked_inline runID @ ''.'', ''Tool: '' @ ticked_inline (co_tool_name c) @ ''.'',
       ''Step: '' @ ticked (int_str (co_step_index c)) @ ''.'', ''Confirmation: '' @ ticked_inline (co_id c) @ ''.''] @
      (if formatAgentConfirmationPayload (co_payload c) \<noteq> []
       then [''Payload: '' @ formatAgentConfirmationPayload (co_payload c)] else []) @
      [''Use '' @ ticked (''/agent confirm run:'' @ safe_inline runID) @ '' or '' @
       ticked (''/agent reject run:'' @ safe_inline runID) @ ''.''])"

text \<open>The pending confirmation of a run, when the caller may see it: \<open>None\<close> if there is none.\<close>

definition own_confirmation ::
  "'w run_manager \<Rightarrow> 'w interaction \<Rightarrow> string \<Rightarrow> run_record \<Rightarrow> 'w \<Rightarrow> confirmation_record option result \<times> 'w" where
  "own_confirmation g i runID run w =
     db_bind (PendingConfirmation (rg_store g) runID w) (\<lambda>found w1.
       (case found of
          None \<Rightarrow> Inr None
        | Some c \<Rightarrow> if canManageAgentRun i (confirmationOwner c run) then Inr (Some c) else Inl errAgentRunForbidden, w1))"

definition resolve_own ::
  "'w run_manager \<Rightarrow> 'w interaction \<Rightarrow> agent_command \<Rightarrow> confirmation_record \<Rightarrow> 'w \<Rightarrow> string result \<times> 'w" where
  "resolve_own g i r c w =
     (let rejected = ag_action r = ''reject'' in
      db_bind (ResolveConfirmation (rg_store g) (co_id c)
          (if rejected then ConfirmationStatusCanceled else ConfirmationStatusConfirmed) (ix_user_id i) w)
        (\<lambda>_ w1. (Inr ((if rejected then ''Rejected'' else ''Confirmed'') @ '' pending agent action '' @
           ticked_inline (co_tool_name c) @ '' for run '' @ ticked_inline (ag_run_id r) @ ''.''), w1)))"

text \<open>The request comes back with the confirmation that was found.\<close>

definition executeAgentCommand ::
  "'w run_manager \<Rightarrow> 'w interaction \<Rightarrow> agent_command \<Rightarrow> 'w \<Rightarrow> (agent_command \<times> string result) \<times> 'w" where
  "executeAgentCommand g i r w =
     (case rg_LoadRun g (ag_run_id r) w of
        (Inl e, w1) \<Rightarrow> ((r, Inl e), w1)
      | (Inr None, w1) \<Rightarrow> ((r, Inl ErrNoRows), w1)
      | (Inr (Some run), w1) \<Rightarrow>
          if trim_space (ru_guild_id run) \<noteq> trim_space (ix_guild_id i) then ((r, Inl ErrNoRows), w1)
          else if \<not> canManageAgentRun i (ru_actor_user_id run) then ((r, Inl errAgentRunForbidden), w1)
          else if ag_action r = ''cancel''
          then (if ru_status run \<noteq> RunStatusRunning
            then ((r, Inr (''Agent run '' @ ticked_inline (ag_run_id r) @ '' is already '' @ ticked_inline (ru_status run) @ ''.'')), w1)
            else (case RequestCancelRun (rg_store g) (ag_run_id r) (ix_user_id i) w1 of
                (Inl e, w2) \<Rightarrow> ((r, Inl e), w2)
              | (Inr _, w2) \<Rightarrow> ((r, Inr (''Cancellation requested for agent run '' @ ticked_inline (ag_run_id r) @ ''.'')), w2)))
          else if ag_action r \<in> {''pending'', ''confirm'', ''reject''}
          then (case own_confirmation g i (ag_run_id r) run w1 of
              (Inl e, w2) \<Rightarrow> ((r, Inl e), w2)
            | (Inr None, w2) \<Rightarrow>
                ((r, Inr (''No pending confirmation for agent run '' @ ticked_inline (ag_run_id r) @ ''.'')), w2)
            | (Inr (Some c), w2) \<Rightarrow>
                (let r1 = r\<lparr>ag_confirmation := Some c\<rparr> in
                 if ag_action r = ''pending'' then ((r1, Inr (formatAgentConfirmation (ag_run_id r) c)), w2)
                 else (case resolve_own g i r c w2 of (res, w3) \<Rightarrow> ((r1, res), w3))))
          else ((r, Inl (Errorf ''unsupported agent action'')), w1))"

definition cleanAgentCommandError :: "goerror \<Rightarrow> string" where
  "cleanAgentCommandError e =
     (if errors_is e ErrNoRows then ''Agent run is not active or was not found.''
      else if errors_is e errAgentRunForbidden then ''Permission denied for that agent run.''
      else ''Agent command failed.'')"

definition safeAuditAction :: "string \<Rightarrow> string" where
  "safeAuditAction action = (if trim_space action \<in> set run_actions then trim_space action else ''unknown'')"

definition agent_command_event :: "'w interaction \<Rightarrow> agent_command \<Rightarrow> audit_status \<Rightarrow> string \<Rightarrow> audit_event" where
  "agent_command_event i r status reason =
     \<lparr>ev_kind = ''discord.agent.'' @ safeAuditAction (ag_action r), ev_guild_id = ix_guild_id i, ev_actor_id = ix_user_id i,
      ev_status = status, ev_reason = reason,
      ev_metadata = [(''command'', ix_name i), (''action'', ag_action r)] @
        (if ag_run_id r \<noteq> [] then [(''run_id'', ag_run_id r)] else []) @
        (case ag_confirmation r of
           None \<Rightarrow> []
         | Some c \<Rightarrow> if co_id c = [] then []
             else [(''confirmation_id'', co_id c), (''tool'', co_tool_name c), (''step_index'', int_str (co_step_index c))]),
      ev_request_id = []\<rparr>"

definition recordAgentCommand ::
  "'w audit_recorder option \<Rightarrow> 'w interaction \<Rightarrow> agent_command \<Rightarrow> audit_status \<Rightarrow> string \<Rightarrow> 'w \<Rightarrow> unit result \<times> 'w" where
  "recordAgentCommand recorder i r status reason w =
     (case recorder of
        None \<Rightarrow> (Inr (), w)
      | Some rec \<Rightarrow> if trim_space (ix_user_id i) = [] then (Inr (), w) else rec (agent_command_event i r status reason) w)"

definition agentCommandHandler :: "'w run_manager option \<Rightarrow> 'w audit_recorder option \<Rightarrow> 'w command_handler" where
  "agentCommandHandler manager recorder i w =
     (case parseAgentCommandRequest i of
        (r, Some e) \<Rightarrow> (Inr (private_text (error_text e)), snd (recordAgentCommand recorder i r StatusFailed ''invalid_request'' w))
      | (r, None) \<Rightarrow>
          (case manager of
             None \<Rightarrow>
               (Inr (private_text ''Agent run manager is unavailable.''),
                snd (recordAgentCommand recorder i r StatusFailed ''manager_missing'' w))
           | Some g \<Rightarrow>
               (case executeAgentCommand g i r w of
                  ((r1, Inl e), w1) \<Rightarrow>
                    (Inr (private_text (cleanAgentCommandError e)),
                     snd (if errors_is e errAgentRunForbidden
                       then recordAgentCommand recorder i r1 StatusDenied ''agent_run_forbidden'' w1
                       else recordAgentCommand recorder i r1 StatusFailed ''agent_command_failed'' w1))
                | ((r1, Inr answer), w1) \<Rightarrow>
                    (Inr (private_text answer), snd (recordAgentCommand recorder i r1 StatusSucceeded [] w1)))))"

subsection \<open>Whose runs are managed\<close>

definition SQLRunManager :: "run_db run_manager" where
  "SQLRunManager = \<lparr>rg_LoadRun = sql_LoadRun \<lparr>sq_exec = True, sq_query = True\<rparr>, rg_store = NewSQLRunStore\<rparr>"

definition managed_by :: "run_tables \<Rightarrow> string \<Rightarrow> 'w interaction \<Rightarrow> bool" where
  "managed_by t runID i \<longleftrightarrow> (\<exists>r\<in>set (runs t). ru_id r = trim_space runID \<and> trim_space (ru_guild_id r) = trim_space (ix_guild_id i) \<and>
     (ix_has_administrator i \<or> trim_space (ru_actor_user_id r) = trim_space (ix_user_id i) \<and> trim_space (ix_user_id i) \<noteq> []))"

lemma LoadRun_frame:
  "sql_LoadRun s runID db = (x, db') \<Longrightarrow> tables db' = tables db"
  by (auto simp: sql_LoadRun_def Let_def split: if_splits prod.splits sum.splits dest!: select_run_frame)

lemma LoadRun_found:
  assumes "sql_LoadRun s runID db = (Inr (Some run), db')"
  shows "\<exists>r\<in>set (runs (tables db)). ru_id r = trim_space runID \<and> run = run_record.truncate r"
proof -
  obtain r where "sql_exec (select_run (trim_space runID)) db = (Inr r, db')" "run = run_record.truncate r"
    using assms by (auto simp: sql_LoadRun_def Let_def split: if_splits prod.splits sum.splits)
  then have "row_of ru_id (trim_space runID) (runs (tables db)) = Some r"
    by (auto simp: select_run_def dest!: sql_exec_Inr split: option.splits)
  then show ?thesis using \<open>run = run_record.truncate r\<close> row_of_SomeD by metis
qed

text \<open>C28: a command of the \<^verbatim>\<open>agent\<close> group leaves the stored runs and confirmations as they are unless the run it names exists in
  the same guild and the caller started it or is an administrator.\<close>

theorem only_managed_runs_change:
  assumes "\<not> managed_by (tables db) (ag_run_id r) i"
  shows "tables (snd (executeAgentCommand SQLRunManager i r db)) = tables db"
proof -
  obtain x db1 where load: "sql_LoadRun \<lparr>sq_exec = True, sq_query = True\<rparr> (ag_run_id r) db = (x, db1)" by (metis surj_pair)
  note frame = LoadRun_frame [OF load]
  have "\<not> (trim_space (ru_guild_id run) = trim_space (ix_guild_id i) \<and> canManageAgentRun i (ru_actor_user_id run))"
    if found: "x = Inr (Some run)" for run
  proof -
    obtain row where "row \<in> set (runs (tables db))" "ru_id row = trim_space (ag_run_id r)" "run = run_record.truncate row"
      using LoadRun_found [OF load [unfolded found]] by blast
    then show ?thesis using assms unfolding managed_by_def canManageAgentRun_def by (fastforce simp: run_record.defs)
  qed
  then have "snd (executeAgentCommand SQLRunManager i r db) = db1"
    using load by (auto simp: executeAgentCommand_def SQLRunManager_def split: sum.split option.split)
  then show ?thesis using frame by simp
qed

definition meddler :: "run_db interaction" where
  "meddler = \<lparr>ix_guild_id = ''g'', ix_channel_id = ''c'', ix_user_id = ''v'', ix_role_ids = [], ix_has_administrator = False,
     ix_name = ''agent'', ix_text = [], ix_options = [], ix_attachments = [], ix_role_service = None\<rparr>"

lemma only_managed_runs_change_witness:
  "tables (snd (executeAgentCommand SQLRunManager meddler (no_agent_command\<lparr>ag_action := ''confirm'', ag_run_id := ''r1''\<rparr>) sample_db)) =
    tables sample_db"
  by (rule only_managed_runs_change)
    (simp add: managed_by_def sample_db_eval fresh_run_row_def sample_run_def meddler_def no_agent_command_def go_eval)

subsection \<open>Looking at traces\<close>

record 'w trace_command =
  tk_reader :: "(trace_query \<Rightarrow> 'w \<Rightarrow> trace_run option result \<times> 'w) option"
  tk_runtime :: "'w agent_runtime option"
  tk_set_live_debug :: "(string \<Rightarrow> string \<Rightarrow> bool \<Rightarrow> 'w \<Rightarrow> unit result \<times> 'w) option"
  tk_get_run :: "'w \<Rightarrow> trace_run"
  tk_put_run :: "trace_run \<Rightarrow> 'w \<Rightarrow> 'w"

text \<open>The options of the one action of the one group of an interaction, if it has that form.\<close>

definition action_options :: "interaction_option list \<Rightarrow> interaction_option list option" where
  "action_options os = (case os of [grp] \<Rightarrow> (case io_options grp of [action] \<Rightarrow> Some (io_options action) | _ \<Rightarrow> None) | _ \<Rightarrow> None)"

definition agentTracePath :: "'w interaction \<Rightarrow> (string \<times> string) option" where
  "agentTracePath i =
     (case ix_options i of
        [grp] \<Rightarrow> (case io_options grp of [action] \<Rightarrow> Some (io_name grp, io_name action) | _ \<Rightarrow> None)
      | _ \<Rightarrow> None)"

definition agentTraceVisibility :: "interaction_option list \<Rightarrow> string" where
  "agentTraceVisibility os = (case action_options os of None \<Rightarrow> ''private'' | Some a \<Rightarrow> optionByName a ''visibility'')"

definition agentTraceView :: "interaction_option list \<Rightarrow> string" where
  "agentTraceView os = (case action_options os of None \<Rightarrow> ''summary'' | Some a \<Rightarrow> optionByName a ''view'')"

definition agentTracePrompt :: "interaction_option list \<Rightarrow> string" where
  "agentTracePrompt os = (case action_options os of None \<Rightarrow> [] | Some a \<Rightarrow> optionByName a ''prompt'')"

definition agentTraceModeState :: "interaction_option list \<Rightarrow> string" where
  "agentTraceModeState os = (case action_options os of None \<Rightarrow> [] | Some a \<Rightarrow> optionByName a ''state'')"

definition normalizeAgentTraceVisibility :: "string \<Rightarrow> string" where
  "normalizeAgentTraceVisibility v = (if trim_space v = ''public'' then ''public'' else ''private'')"

definition normalizeAgentTraceView :: "string \<Rightarrow> string" where
  "normalizeAgentTraceView v = (if trim_space v \<in> {''thinking'', ''debug''} then trim_space v else ''summary'')"

definition agentTraceModeResponse :: "'w trace_command \<Rightarrow> 'w interaction \<Rightarrow> 'w \<Rightarrow> 'w command_response \<times> 'w" where
  "agentTraceModeResponse t i w =
     (case tk_set_live_debug t of
        None \<Rightarrow> (private_text ''Agent live debug mode is not configured yet.'', w)
      | Some set_mode \<Rightarrow>
          (let state = trim_space (agentTraceModeState (ix_options i));
               switch = (\<lambda>on text. case set_mode (ix_guild_id i) (ix_user_id i) on w of
                   (Inl e, w1) \<Rightarrow> (private_text ''Agent live debug mode update failed.'', w1)
                 | (Inr _, w1) \<Rightarrow> (private_text text, w1)) in
           if state = ''on'' then switch True (''Live debug is on for your @Gigi guild mentions. Debug cards are posted in-channel '' @
             ''because Discord message events cannot create ephemeral messages.'')
           else if state = ''off'' then switch False ''Live debug is off for your @Gigi guild mentions.''
           else (private_text (''Choose live debug mode '' @ ticked ''on'' @ '' or '' @ ticked ''off'' @ ''.''), w)))"

definition live_update :: "'w trace_command \<Rightarrow> 'w editor option \<Rightarrow> string \<Rightarrow> string \<Rightarrow> 'w \<Rightarrow> 'w" where
  "live_update t editor status answer w =
     (case editor of
        None \<Rightarrow> w
      | Some edit \<Rightarrow>
          (let run = tk_get_run t w; shown = (if tn_status run = [] then run\<lparr>tn_status := status\<rparr> else run) in
           snd (edit ''Live Gigi debug'' [debug_embed shown answer] w)))"

definition live_sink :: "'w trace_command \<Rightarrow> 'w editor option \<Rightarrow> 'w trace_sink" where
  "live_sink t editor request e w =
     (Inr (), live_update t editor (te_status e) [] (tk_put_run t (sink_event (tk_get_run t w) request e) w))"

definition live_request :: "'w interaction \<Rightarrow> string \<Rightarrow> request" where
  "live_request i prompt = \<lparr>rq_surface = SurfaceGuildMention, rq_guild_id = ix_guild_id i, rq_channel_id = ix_channel_id i,
     rq_actor_user_id = ix_user_id i, rq_role_ids = ix_role_ids i, rq_has_administrator = ix_has_administrator i,
     rq_context_scope = ''channel-auto'', rq_text = prompt, rq_raw_text = prompt, rq_prior_run = None, rq_context_pack = None\<rparr>"

definition runAgentTraceLive ::
  "'w trace_command \<Rightarrow> 'w agent_runtime \<Rightarrow> 'w interaction \<Rightarrow> string \<Rightarrow> 'w editor option \<Rightarrow> 'w \<Rightarrow> 'w" where
  "runAgentTraceLive t run i prompt editor w =
     (case run (Some (live_sink t editor)) (live_request i prompt)
         (live_update t editor ''running'' [] (tk_put_run t empty_run w)) of
        ((r, Some e), w1) \<Rightarrow> live_update t editor ''failed'' ''Agent debug run failed.'' w1
      | ((r, None), w1) \<Rightarrow>
          (let seen = tk_get_run t w1;
               final = seen\<lparr>tn_run_id := (if rs_run_id r \<noteq> [] then rs_run_id r else tn_run_id seen),
                 tn_status := (if rs_run_status r \<noteq> [] then rs_run_status r else tn_status seen)\<rparr>
           in live_update t editor (rs_run_status r) (rs_text r) (tk_put_run t final w1)))"

definition agentTraceLiveResponse :: "'w trace_command \<Rightarrow> 'w interaction \<Rightarrow> 'w command_response" where
  "agentTraceLiveResponse t i =
     (case tk_runtime t of
        None \<Rightarrow> private_text ''Agent runtime is not configured yet.''
      | Some run \<Rightarrow>
          (let prompt = trim_space (agentTracePrompt (ix_options i)) in
           if prompt = [] then private_text ''Prompt is required.''
           else empty_reply\<lparr>cr_ephemeral := True, cr_deferred := True,
             cr_after := Some (runAgentTraceLive t run i prompt)\<rparr>))"

definition last_trace_response :: "'w trace_command \<Rightarrow> bool \<Rightarrow> 'w interaction \<Rightarrow> 'w \<Rightarrow> 'w command_response \<times> 'w" where
  "last_trace_response t private i w =
     (case tk_reader t of
        None \<Rightarrow> ((reply_text ''Agent trace is not configured yet.'')\<lparr>cr_ephemeral := private\<rparr>, w)
      | Some last_trace \<Rightarrow>
          if agentTracePath i \<noteq> Some (''trace'', ''last'') then (private_text ''Choose an agent trace action.'', w)
          else (case last_trace \<lparr>tq_guild_id = ix_guild_id i, tq_channel_id = ix_channel_id i, tq_actor_user_id = ix_user_id i\<rparr> w of
              (Inl e, w1) \<Rightarrow> (private_text ''Agent trace lookup failed.'', w1)
            | (Inr None, w1) \<Rightarrow> (private_text ''No agent trace found for you in this channel.'', w1)
            | (Inr (Some run), w1) \<Rightarrow>
                (let view = normalizeAgentTraceView (agentTraceView (ix_options i)) in
                 ((if view = ''summary'' then reply_text (formatAgentTrace run)
                   else empty_reply\<lparr>cr_embeds := [formatAgentTraceEmbed run view]\<rparr>)\<lparr>cr_ephemeral := private\<rparr>, w1))))"

definition agentTraceHandler :: "'w trace_command \<Rightarrow> 'w command_handler" where
  "agentTraceHandler t i w =
     (if agentTracePath i = Some (''trace'', ''live'') then (Inr (agentTraceLiveResponse t i), w)
      else case (if agentTracePath i = Some (''trace'', ''mode'') then agentTraceModeResponse t i w
            else last_trace_response t (normalizeAgentTraceVisibility (agentTraceVisibility (ix_options i)) \<noteq> ''public'') i w) of
          (r, w1) \<Rightarrow> (Inr r, w1))"

definition agent_trace_options :: command_option where
  "agent_trace_options = CmdOption 2 ''trace'' ''Inspect safe agent traces.'' False []
     [CmdOption 1 ''last'' ''Show your last agent run in this channel.'' False []
        [optionalStringOption ''visibility'' ''Response visibility.'' [''private'', ''public''],
         optionalStringOption ''view'' ''Trace detail level.'' [''summary'', ''thinking'', ''debug'']],
      CmdOption 1 ''live'' ''Run Gigi with a private live debug card.'' False []
        [stringOption ''prompt'' ''Guild-style message to debug.'' []],
      CmdOption 1 ''mode'' ''Toggle live debug for your guild mentions.'' False []
        [stringOption ''state'' ''Live debug mode.'' [''on'', ''off'']]]"

end
