(* ===== verification/AgentAnalytics.thy ===== *)
theory AgentAnalytics
  imports Complex_Main FollowUp RunStore SqlTables "HOL-Library.Product_Lexorder"
begin

text \<open>
  \<^verbatim>\<open>internal/agent/analytics.go\<close>: the summary of a guild's runs. The queries read two tables: the runs, with the column
  \<^verbatim>\<open>created_at\<close> that the store of runs never reads, and their steps. A duration is a rational number of milliseconds, where
  Postgres has a double; the collation of names is the parameter \<open>collate\<close>.
\<close>

record analytics_query =
  aq_guild_id :: string
  aq_actor_user_id :: string
  aq_channel_id :: string
  aq_since :: gotime
  aq_until :: gotime
  aq_limit :: int

record tool_count =
  an_name :: string
  an_total :: int
  an_succeeded :: int
  an_failed :: int

text \<open>The fields of the summary that repeat another one in a second width are left out.\<close>

record analytics_summary =
  as_guild_id :: string
  as_actor_user_id :: string
  as_channel_id :: string
  as_total_runs :: int
  as_status_counts :: "(string \<times> int) list"
  as_termination_counts :: "(string \<times> int) list"
  as_average_ms :: int
  as_p50_ms :: int
  as_p95_ms :: int
  as_max_ms :: int
  as_steps_used :: int
  as_tool_calls_used :: int
  as_llm_calls_used :: int
  as_top_tools :: "tool_count list"

record timed_run = run_row +
  ru_created_at :: gotime

record analytics_tables =
  at_runs :: "timed_run list"
  at_steps :: "step_record list"

type_synonym analytics_db = "analytics_tables sqldb"

subsection \<open>The query\<close>

definition normalizeAnalyticsQuery :: "analytics_query \<Rightarrow> analytics_query" where
  "normalizeAnalyticsQuery q = q\<lparr>aq_guild_id := trim_space (aq_guild_id q), aq_actor_user_id := trim_space (aq_actor_user_id q),
     aq_channel_id := trim_space (aq_channel_id q)\<rparr>"

definition validateAnalyticsQuery :: "analytics_query \<Rightarrow> unit result" where
  "validateAnalyticsQuery q = checks
     [must (aq_guild_id q \<noteq> []) ''guild ID is required'',
      must (aq_since q = zero_time \<or> aq_until q = zero_time \<or> aq_until q > aq_since q) ''until must be after since'']"

definition analyticsTopToolsLimitFor :: "int \<Rightarrow> int" where
  "analyticsTopToolsLimitFor limit = (if limit \<le> 0 then 5 else if limit > 10 then 10 else limit)"

definition analyticsTimeArg :: "gotime \<Rightarrow> gotime option" where
  "analyticsTimeArg t = (if t = zero_time then None else Some (timestamptz t))"

definition analyticsRunFilter :: "analytics_query \<Rightarrow> timed_run \<Rightarrow> bool" where
  "analyticsRunFilter q r \<longleftrightarrow> ru_guild_id r = aq_guild_id q \<and>
     (case analyticsTimeArg (aq_since q) of None \<Rightarrow> True | Some t \<Rightarrow> ru_created_at r \<ge> t) \<and>
     (case analyticsTimeArg (aq_until q) of None \<Rightarrow> True | Some t \<Rightarrow> ru_created_at r < t) \<and>
     (aq_channel_id q = [] \<or> ru_channel_id r = aq_channel_id q) \<and>
     (aq_actor_user_id q = [] \<or> ru_actor_user_id r = aq_actor_user_id q)"

definition filtered_runs :: "analytics_query \<Rightarrow> analytics_tables \<Rightarrow> timed_run list" where
  "filtered_runs q t = filter (analyticsRunFilter q) (at_runs t)"

subsection \<open>The aggregate\<close>

definition duration_ms :: "timed_run \<Rightarrow> rat option" where
  "duration_ms r = map_option (\<lambda>c. max 0 (of_int (c - ru_created_at r) / 1000000)) (ru_completed_at r)"

text \<open>\<^verbatim>\<open>percentile_cont(p) within group (order by x)\<close>: linear interpolation; null for no rows.\<close>

definition percentile_cont :: "rat \<Rightarrow> rat list \<Rightarrow> rat option" where
  "percentile_cont p xs0 =
     (let xs = sort xs0; pos = p * of_nat (length xs - 1); lo = nat \<lfloor>pos\<rfloor>; hi = nat \<lceil>pos\<rceil> in
      if xs = [] then None else Some (xs ! lo + (pos - of_nat lo) * (xs ! hi - xs ! lo)))"

definition average :: "rat list \<Rightarrow> rat option" where
  "average xs = (if xs = [] then None else Some (sum_list xs / of_nat (length xs)))"

definition maximum :: "rat list \<Rightarrow> rat option" where
  "maximum xs = (if xs = [] then None else Some (Max (set xs)))"

text \<open>\<^verbatim>\<open>math.Round\<close>, half away from zero; zero for null.\<close>

definition analyticsFloatMS :: "rat option \<Rightarrow> int" where
  "analyticsFloatMS v =
     (case v of None \<Rightarrow> 0 | Some x \<Rightarrow> if x \<ge> 0 then \<lfloor>x + 1 / 2\<rfloor> else - \<lfloor>1 / 2 - x\<rfloor>)"

definition scanAggregate :: "analytics_query \<Rightarrow> (analytics_tables, analytics_summary) statement" where
  "scanAggregate q now t =
     (let rows = filtered_runs q t; ds = List.map_filter duration_ms rows in
      Inr (\<lparr>as_guild_id = aq_guild_id q, as_actor_user_id = aq_actor_user_id q, as_channel_id = aq_channel_id q,
         as_total_runs = int (length rows), as_status_counts = [], as_termination_counts = [],
         as_average_ms = analyticsFloatMS (average ds), as_p50_ms = analyticsFloatMS (percentile_cont (1 / 2) ds),
         as_p95_ms = analyticsFloatMS (percentile_cont (95 / 100) ds), as_max_ms = analyticsFloatMS (maximum ds),
         as_steps_used = int (sum_list (map ru_steps_used rows)),
         as_tool_calls_used = int (sum_list (map ru_tool_calls_used rows)),
         as_llm_calls_used = int (sum_list (map ru_llm_calls_used rows)), as_top_tools = []\<rparr>, t))"

subsection \<open>The groups\<close>

text \<open>\<^verbatim>\<open>group by\<close> a key, with the number of rows of each group, the largest first and then by the key.\<close>

definition grouped :: "(string \<Rightarrow> nat) \<Rightarrow> string list \<Rightarrow> (string \<times> nat) list" where
  "grouped collate keys =
     sort_key (\<lambda>(k, n). (- int n, collate k)) (map (\<lambda>k. (k, count_list keys k)) (remdups keys))"

definition counts_of :: "(string \<times> nat) list \<Rightarrow> (string \<times> int) list" where
  "counts_of gs = fold (\<lambda>(k, n) m. if trim_space k = [] then m else mput (trim_space k) (int n) m) gs []"

definition scanStatusCounts :: "(string \<Rightarrow> nat) \<Rightarrow> analytics_query \<Rightarrow> (analytics_tables, (string \<times> int) list) statement" where
  "scanStatusCounts collate q now t = Inr (counts_of (grouped collate (map ru_status (filtered_runs q t))), t)"

definition scanTerminationCounts ::
  "(string \<Rightarrow> nat) \<Rightarrow> analytics_query \<Rightarrow> (analytics_tables, (string \<times> int) list) statement" where
  "scanTerminationCounts collate q now t =
     Inr (counts_of (grouped collate (filter (\<lambda>k. k \<noteq> [])
       (List.map_filter ru_termination_reason (filtered_runs q t)))), t)"

text \<open>The steps of tools, with the run of each; the key \<^verbatim>\<open>run_id\<close> finds one run.\<close>

definition tool_steps :: "analytics_query \<Rightarrow> analytics_tables \<Rightarrow> (string \<times> string) list" where
  "tool_steps q t = List.map_filter (\<lambda>s.
     case row_of ru_id (st_run_id s) (at_runs t) of
       None \<Rightarrow> None
     | Some r \<Rightarrow> if analyticsRunFilter q r \<and> st_kind s = ''agent.tool'' \<and> mget (st_observation s) ''tool'' \<noteq> []
         then Some (mget (st_observation s) ''tool'', st_status s) else None) (at_steps t)"

definition scanTopTools ::
  "(string \<Rightarrow> nat) \<Rightarrow> analytics_query \<Rightarrow> int \<Rightarrow> (analytics_tables, tool_count list) statement" where
  "scanTopTools collate q limit now t =
     (let steps = tool_steps q t;
          with_status = (\<lambda>k s. int (count_list steps (k, s)));
          rows = take (nat limit) (grouped collate (map fst steps))
      in Inr (map (\<lambda>(k, n). \<lparr>an_name = trim_space k, an_total = int n, an_succeeded = with_status k ''succeeded'',
           an_failed = with_status k ''failed''\<rparr>) (filter (\<lambda>(k, n). trim_space k \<noteq> []) rows), t))"

text \<open>
  A database without \<^verbatim>\<open>QueryRow\<close> runs the aggregate as a query. With it, as with \<^verbatim>\<open>*sql.DB\<close>, any error of the aggregate, also
  of the query itself, shows when its row is scanned.
\<close>

record analytics_reader =
  ar_query :: bool
  ar_query_row :: bool

definition Summary ::
  "(string \<Rightarrow> nat) \<Rightarrow> analytics_reader \<Rightarrow> analytics_query \<Rightarrow> analytics_db \<Rightarrow> analytics_summary result \<times> analytics_db" where
  "Summary collate reader q0 db =
     (let q = normalizeAnalyticsQuery q0; limit = analyticsTopToolsLimitFor (aq_limit q) in
      case validateAnalyticsQuery q of
        Inl e \<Rightarrow> (Inl e, db)
      | Inr _ \<Rightarrow>
          if \<not> ar_query reader then (Inl (Errorf ''agent analytics query database is required''), db)
          else db_bind (wrap_err (if ar_query_row reader then ''scan agent analytics summary'' else ''query agent analytics summary'')
              (sql_exec (scanAggregate q) db)) (\<lambda>s db1.
            db_bind (wrap_err ''query agent analytics statuses'' (sql_exec (scanStatusCounts collate q) db1)) (\<lambda>statuses db2.
            db_bind (wrap_err ''query agent analytics terminations'' (sql_exec (scanTerminationCounts collate q) db2)) (\<lambda>reasons db3.
            db_bind (wrap_err ''query agent analytics top tools'' (sql_exec (scanTopTools collate q limit) db3)) (\<lambda>tools db4.
              (Inr (s\<lparr>as_status_counts := statuses, as_termination_counts := reasons, as_top_tools := tools\<rparr>), db4))))))"

subsection \<open>The counts agree\<close>

lemma mset_keys_grouped: "mset (map fst (grouped collate keys)) = mset (remdups keys)"
  by (simp add: grouped_def multiset.map_comp comp_def)

lemma distinct_grouped: "distinct (map fst (grouped collate keys))"
  using mset_keys_grouped [of collate keys] by (metis distinct_remdups mset_eq_imp_distinct_iff)

lemma set_grouped: "set (grouped collate keys) = (\<lambda>k. (k, count_list keys k)) ` set keys"
  by (simp add: grouped_def)

lemma sum_grouped: "sum_list (map snd (grouped collate keys)) = length keys"
proof -
  have "mset (map snd (grouped collate keys)) = mset (map (count_list keys) (remdups keys))"
    by (simp add: grouped_def multiset.map_comp comp_def)
  then have "sum_list (map snd (grouped collate keys)) = sum_list (map (count_list keys) (remdups keys))"
    by (metis sum_mset_sum_list)
  also have "\<dots> = sum (count_list keys) (set keys)" by (simp add: sum_list_distinct_conv_sum_set)
  finally show ?thesis by (simp add: sum_count_set)
qed

lemma int_sum_list: "int (sum_list ns) = sum_list (map int ns)"
  by (induction ns) simp_all

lemma counts_of_plain:
  assumes "distinct (map fst gs)" "\<forall>k\<in>set (map fst gs). trim_space k = k \<and> k \<noteq> []"
  shows "counts_of gs = map (\<lambda>(k, n). (k, int n)) gs"
proof -
  have "fold (\<lambda>(k, n) m. if trim_space k = [] then m else mput (trim_space k) (int n) m) gs m =
      m @ map (\<lambda>(k, n). (k, int n)) gs" if "set (map fst m) \<inter> set (map fst gs) = {}" for m
    using assms that
  proof (induction gs arbitrary: m)
    case (Cons g gs)
    obtain k n where g: "g = (k, n)" by fastforce
    have "mput k (int n) m = m @ [(k, int n)]" using Cons.prems(3) g by (intro mput_new) auto
    then show ?case using Cons.IH [of "m @ [(k, int n)]"] Cons.prems g by auto
  qed simp
  then show ?thesis by (simp add: counts_of_def)
qed

lemma status_visible: "run_status_check k \<Longrightarrow> trim_space k = k \<and> k \<noteq> []"
  by (auto simp: run_status_check_def go_eval)

lemma Summary_Inr:
  assumes "Summary collate reader q0 db = (Inr s, db')"
  shows "tables db' = tables db \<and> (\<exists>now0 now1 now2 now3 s0.
    scanAggregate (normalizeAnalyticsQuery q0) now0 (tables db) = Inr (s0, tables db) \<and>
    scanStatusCounts collate (normalizeAnalyticsQuery q0) now1 (tables db) = Inr (as_status_counts s, tables db) \<and>
    scanTerminationCounts collate (normalizeAnalyticsQuery q0) now2 (tables db) = Inr (as_termination_counts s, tables db) \<and>
    scanTopTools collate (normalizeAnalyticsQuery q0) (analyticsTopToolsLimitFor (aq_limit q0)) now3 (tables db) =
      Inr (as_top_tools s, tables db) \<and>
    s = s0\<lparr>as_status_counts := as_status_counts s, as_termination_counts := as_termination_counts s, as_top_tools := as_top_tools s\<rparr>)"
proof -
  let ?q = "normalizeAnalyticsQuery q0"
  have limit: "aq_limit ?q = aq_limit q0" by (simp add: normalizeAnalyticsQuery_def)
  obtain s0 db1 a db2 b db3 c db4 where runs:
    "sql_exec (scanAggregate ?q) db = (Inr s0, db1)" "sql_exec (scanStatusCounts collate ?q) db1 = (Inr a, db2)"
    "sql_exec (scanTerminationCounts collate ?q) db2 = (Inr b, db3)"
    "sql_exec (scanTopTools collate ?q (analyticsTopToolsLimitFor (aq_limit q0))) db3 = (Inr c, db4)"
    "s = s0\<lparr>as_status_counts := a, as_termination_counts := b, as_top_tools := c\<rparr>" "db' = db4"
    using assms by (auto simp: Summary_def Let_def limit split: sum.splits if_splits dest!: db_bind_InrD)
  note effects = runs(1-4) [THEN sql_exec_Inr]
  show ?thesis
    using effects runs(5,6) by (auto simp: scanAggregate_def scanStatusCounts_def scanTerminationCounts_def scanTopTools_def Let_def)
qed

text \<open>The runs a query asks for: those of the guild in the window, of the channel and of the actor if they are named.\<close>

definition asked_run :: "analytics_query \<Rightarrow> timed_run \<Rightarrow> bool" where
  "asked_run q r \<longleftrightarrow>
     ru_guild_id r = trim_space (aq_guild_id q) \<and>
     (aq_since q \<noteq> zero_time \<longrightarrow> timestamptz (aq_since q) \<le> ru_created_at r) \<and>
     (aq_until q \<noteq> zero_time \<longrightarrow> ru_created_at r < timestamptz (aq_until q)) \<and>
     (trim_space (aq_channel_id q) \<noteq> [] \<longrightarrow> ru_channel_id r = trim_space (aq_channel_id q)) \<and>
     (trim_space (aq_actor_user_id q) \<noteq> [] \<longrightarrow> ru_actor_user_id r = trim_space (aq_actor_user_id q))"

lemma filtered_runs_asked:
  "filtered_runs (normalizeAnalyticsQuery q) t = filter (asked_run q) (at_runs t)"
  unfolding filtered_runs_def
  by (rule filter_cong)
    (auto simp: asked_run_def analyticsRunFilter_def normalizeAnalyticsQuery_def analyticsTimeArg_def)

lemma tool_steps_asked:
  assumes "(k, st) \<in> set (tool_steps (normalizeAnalyticsQuery q) t)"
  shows "\<exists>p\<in>set (at_steps t). \<exists>r\<in>set (filter (asked_run q) (at_runs t)).
    ru_id r = st_run_id p \<and> st_kind p = ''agent.tool'' \<and> mget (st_observation p) ''tool'' = k"
proof -
  obtain p r where p: "p \<in> set (at_steps t)" "row_of ru_id (st_run_id p) (at_runs t) = Some r"
      "analyticsRunFilter (normalizeAnalyticsQuery q) r" "st_kind p = ''agent.tool''" "k = mget (st_observation p) ''tool''"
    using assms by (auto simp: tool_steps_def List.map_filter_def split: option.splits if_splits)
  have "r \<in> set (filtered_runs (normalizeAnalyticsQuery q) t)" "ru_id r = st_run_id p"
    using p(3) row_of_SomeD [OF p(2)] by (simp_all add: filtered_runs_def)
  then show ?thesis using p by (auto simp: filtered_runs_asked)
qed

lemma map_of_grouped:
  "map_of (map (\<lambda>(k, n). (k, int n)) (grouped collate keys)) k =
     (if k \<in> set keys then Some (int (count_list keys k)) else None)"
proof -
  have m: "map fst (map (\<lambda>(k, n). (k, int n)) (grouped collate keys)) = map fst (grouped collate keys)"
    by (simp add: comp_def case_prod_unfold)
  show ?thesis
  proof (cases "k \<in> set keys")
    case True
    then have "(k, int (count_list keys k)) \<in> set (map (\<lambda>(k, n). (k, int n)) (grouped collate keys))"
      by (auto simp: set_grouped image_image)
    then show ?thesis using True m distinct_grouped by (metis map_of_is_SomeI)
  next
    case False
    then show ?thesis by (auto simp: map_of_eq_None_iff set_grouped image_image)
  qed
qed

text \<open>
  C31: the summary of a guild counts just the runs of the guild in the window that was asked for, for the channel and the actor
  if one was named: their number, the number of each status, which add up to it, and the steps and calls they used. A tool is
  listed only if a step of one of these runs called it, and at most ten are; and the tables stay as they are.
\<close>

theorem analytics_counts_agree:
  assumes "Summary collate reader q db = (Inr s, db')" "list_all (\<lambda>r. run_status_check (ru_status r)) (at_runs (tables db))"
    and "rows = filter (asked_run q) (at_runs (tables db))"
  shows "as_total_runs s = int (length rows) \<and>
    (\<forall>st. map_of (as_status_counts s) st =
       (if st \<in> ru_status ` set rows then Some (int (length (filter (\<lambda>r. ru_status r = st) rows))) else None)) \<and>
    sum_list (map snd (as_status_counts s)) = as_total_runs s \<and>
    as_steps_used s = int (sum_list (map ru_steps_used rows)) \<and>
    as_tool_calls_used s = int (sum_list (map ru_tool_calls_used rows)) \<and>
    as_llm_calls_used s = int (sum_list (map ru_llm_calls_used rows)) \<and>
    (\<forall>c\<in>set (as_top_tools s). \<exists>p\<in>set (at_steps (tables db)). \<exists>r\<in>set rows.
       ru_id r = st_run_id p \<and> st_kind p = ''agent.tool'' \<and> trim_space (mget (st_observation p) ''tool'') = an_name c) \<and>
    length (as_top_tools s) \<le> 10 \<and> tables db' = tables db"
proof -
  let ?q = "normalizeAnalyticsQuery q"
  let ?keys = "map ru_status rows"
  let ?limit = "analyticsTopToolsLimitFor (aq_limit q)"
  have rows: "filtered_runs ?q (tables db) = rows" by (simp add: filtered_runs_asked assms(3))
  obtain now0 now1 now2 now3 s0 where frame: "tables db' = tables db"
    and aggregate: "scanAggregate ?q now0 (tables db) = Inr (s0, tables db)"
    and statuses: "scanStatusCounts collate ?q now1 (tables db) = Inr (as_status_counts s, tables db)"
    and tools: "scanTopTools collate ?q ?limit now3 (tables db) = Inr (as_top_tools s, tables db)"
    and s: "s = s0\<lparr>as_status_counts := as_status_counts s, as_termination_counts := as_termination_counts s,
      as_top_tools := as_top_tools s\<rparr>"
    using Summary_Inr [OF assms(1)] by (elim conjE exE) blast
  have "as_total_runs s = as_total_runs s0" "as_steps_used s = as_steps_used s0"
    "as_tool_calls_used s = as_tool_calls_used s0" "as_llm_calls_used s = as_llm_calls_used s0" by (subst s, simp)+
  with aggregate have sums: "as_total_runs s = int (length rows)" "as_steps_used s = int (sum_list (map ru_steps_used rows))"
    "as_tool_calls_used s = int (sum_list (map ru_tool_calls_used rows))"
    "as_llm_calls_used s = int (sum_list (map ru_llm_calls_used rows))"
    by (auto simp: scanAggregate_def Let_def rows)
  have status: "trim_space k = k \<and> k \<noteq> []" if "k \<in> set ?keys" for k
    using assms(2,3) that by (intro status_visible) (auto simp: list_all_iff)
  have "counts_of (grouped collate ?keys) = map (\<lambda>(k, n). (k, int n)) (grouped collate ?keys)"
    using distinct_grouped [of collate ?keys] status by (intro counts_of_plain) (auto simp: set_grouped)
  then have counts: "as_status_counts s = map (\<lambda>(k, n). (k, int n)) (grouped collate ?keys)"
    using statuses by (simp add: scanStatusCounts_def rows)
  have "count_list ?keys st = length (filter (\<lambda>r. ru_status r = st) rows)" for st
    by (induction rows) auto
  then have each: "map_of (as_status_counts s) st =
      (if st \<in> ru_status ` set rows then Some (int (length (filter (\<lambda>r. ru_status r = st) rows))) else None)" for st
    unfolding counts map_of_grouped by simp
  have "sum_list (map snd (as_status_counts s)) = int (sum_list (map snd (grouped collate ?keys)))"
    by (simp add: counts int_sum_list case_prod_unfold comp_def)
  then have total: "sum_list (map snd (as_status_counts s)) = as_total_runs s" by (simp add: sum_grouped sums(1))
  have listed: "as_top_tools s = map (\<lambda>(k, n). \<lparr>an_name = trim_space k, an_total = int n,
      an_succeeded = int (count_list (tool_steps ?q (tables db)) (k, ''succeeded'')),
      an_failed = int (count_list (tool_steps ?q (tables db)) (k, ''failed''))\<rparr>)
      (filter (\<lambda>(k, n). trim_space k \<noteq> []) (take (nat ?limit) (grouped collate (map fst (tool_steps ?q (tables db))))))"
    using tools by (simp add: scanTopTools_def Let_def)
  have "length (as_top_tools s) \<le> nat ?limit"
    unfolding listed length_map by (rule order_trans [OF length_filter_le]) simp
  moreover have "?limit \<le> 10" by (simp add: analyticsTopToolsLimitFor_def)
  ultimately have "length (as_top_tools s) \<le> 10" by linarith
  moreover have "\<exists>p\<in>set (at_steps (tables db)). \<exists>r\<in>set rows.
       ru_id r = st_run_id p \<and> st_kind p = ''agent.tool'' \<and> trim_space (mget (st_observation p) ''tool'') = an_name c"
    if c: "c \<in> set (as_top_tools s)" for c
  proof -
    obtain k n where k: "an_name c = trim_space k" "(k, n) \<in> set (grouped collate (map fst (tool_steps ?q (tables db))))"
      using c unfolding listed by (fastforce dest: in_set_takeD)
    then obtain st where "(k, st) \<in> set (tool_steps ?q (tables db))" by (auto simp: set_grouped)
    from tool_steps_asked [OF this] show ?thesis using k(1) unfolding assms(3) [symmetric] by metis
  qed
  ultimately show ?thesis using sums each total frame by blast
qed

subsection \<open>The latencies are in order\<close>

lemma sorted_nth_le: "sorted xs \<Longrightarrow> i \<le> j \<Longrightarrow> j < length xs \<Longrightarrow> xs ! i \<le> xs ! j"
  by (simp add: sorted_nth_mono)

text \<open>The position in the sorted list that a percentile has, and the value there.\<close>

definition interpolate :: "rat list \<Rightarrow> rat \<Rightarrow> rat" where
  "interpolate xs pos = xs ! nat \<lfloor>pos\<rfloor> + (pos - of_nat (nat \<lfloor>pos\<rfloor>)) * (xs ! nat \<lceil>pos\<rceil> - xs ! nat \<lfloor>pos\<rfloor>)"

lemma interpolate_between:
  assumes "sorted xs" "0 \<le> pos" "pos \<le> of_nat (length xs - 1)" "xs \<noteq> []"
  shows "xs ! nat \<lfloor>pos\<rfloor> \<le> interpolate xs pos \<and> interpolate xs pos \<le> xs ! nat \<lceil>pos\<rceil>"
proof -
  have top: "\<lceil>pos\<rceil> \<le> int (length xs - 1)" using assms(3) by (simp add: ceiling_le_iff)
  then have hi: "nat \<lceil>pos\<rceil> < length xs" using assms(4) by (cases xs) auto
  have "nat \<lfloor>pos\<rfloor> \<le> nat \<lceil>pos\<rceil>" by (intro nat_mono floor_le_ceiling)
  then have step: "0 \<le> xs ! nat \<lceil>pos\<rceil> - xs ! nat \<lfloor>pos\<rfloor>" using sorted_nth_le [OF assms(1) _ hi] by simp
  have "of_nat (nat \<lfloor>pos\<rfloor>) = (of_int \<lfloor>pos\<rfloor> :: rat)" using assms(2) by simp
  moreover have "of_int \<lfloor>pos\<rfloor> \<le> pos" "pos < of_int \<lfloor>pos\<rfloor> + 1" using floor_correct [of pos] by simp_all
  ultimately have "0 \<le> pos - of_nat (nat \<lfloor>pos\<rfloor>)" "pos - of_nat (nat \<lfloor>pos\<rfloor>) \<le> 1" by linarith+
  then show ?thesis using step mult_right_mono [of "pos - of_nat (nat \<lfloor>pos\<rfloor>)" 1 "xs ! nat \<lceil>pos\<rceil> - xs ! nat \<lfloor>pos\<rfloor>"]
    by (auto simp: interpolate_def)
qed

lemma interpolate_mono:
  assumes "sorted xs" "0 \<le> pos" "pos \<le> pos'" "pos' \<le> of_nat (length xs - 1)" "xs \<noteq> []"
  shows "interpolate xs pos \<le> interpolate xs pos'"
proof (cases "\<lfloor>pos\<rfloor> = \<lfloor>pos'\<rfloor>")
  case False
  then have floors: "\<lfloor>pos\<rfloor> < \<lfloor>pos'\<rfloor>" using floor_mono [OF assms(3)] by linarith
  have "nat \<lceil>pos\<rceil> \<le> nat \<lfloor>pos'\<rfloor>" using floors ceiling_diff_floor_le_1 [of pos] by (intro nat_mono) linarith
  moreover have "\<lfloor>pos'\<rfloor> \<le> int (length xs - 1)" using assms(4) by (simp add: floor_le_iff)
  then have "nat \<lfloor>pos'\<rfloor> < length xs" using assms(5) by (cases xs) auto
  ultimately have "xs ! nat \<lceil>pos\<rceil> \<le> xs ! nat \<lfloor>pos'\<rfloor>" by (rule sorted_nth_le [OF assms(1)])
  then show ?thesis
    using interpolate_between [OF assms(1,2) _ assms(5)] interpolate_between [OF assms(1) _ assms(4,5)] assms(2,3,4) by force
next
  case same: True
  show ?thesis
  proof (cases "\<lceil>pos\<rceil> = \<lceil>pos'\<rceil>")
    case True
    have top: "\<lceil>pos'\<rceil> \<le> int (length xs - 1)" using assms(4) by (simp add: ceiling_le_iff)
    then have hi: "nat \<lceil>pos'\<rceil> < length xs" using assms(5) by (cases xs) auto
    have "nat \<lfloor>pos'\<rfloor> \<le> nat \<lceil>pos'\<rceil>" by (intro nat_mono floor_le_ceiling)
    then have step: "0 \<le> xs ! nat \<lceil>pos'\<rceil> - xs ! nat \<lfloor>pos'\<rfloor>" using sorted_nth_le [OF assms(1) _ hi] by simp
    show ?thesis using mult_right_mono [OF _ step, of "pos - of_nat (nat \<lfloor>pos'\<rfloor>)" "pos' - of_nat (nat \<lfloor>pos'\<rfloor>)"] assms(3)
      by (simp add: interpolate_def same True)
  next
    case False
    then have "\<lceil>pos\<rceil> < \<lceil>pos'\<rceil>" using ceiling_mono [OF assms(3)] by linarith
    then have "\<lceil>pos\<rceil> = \<lfloor>pos'\<rfloor>" using same ceiling_diff_floor_le_1 [of pos'] floor_le_ceiling [of pos] by linarith
    then have "interpolate xs pos \<le> xs ! nat \<lfloor>pos'\<rfloor>"
      using interpolate_between [OF assms(1,2) _ assms(5)] assms(3,4) by force
    then show ?thesis using interpolate_between [OF assms(1) _ assms(4,5)] assms(2,3) by force
  qed
qed

lemma percentile_interpolate:
  "xs \<noteq> [] \<Longrightarrow> percentile_cont p xs = Some (interpolate (sort xs) (p * of_nat (length xs - 1)))"
  using length_sort [of "\<lambda>x. x" xs] by (auto simp: percentile_cont_def interpolate_def Let_def simp del: length_sort)

lemma percentiles_in_order:
  assumes ds: "ds \<noteq> []" "\<forall>d\<in>set ds. 0 \<le> d"
  shows "\<exists>a b. percentile_cont (1 / 2) ds = Some a \<and> percentile_cont (95 / 100) ds = Some b \<and> 0 \<le> a \<and> a \<le> b \<and> b \<le> Max (set ds)"
proof (intro exI conjI)
  let ?xs = "sort ds" and ?n = "rat_of_nat (length ds - 1)"
  have xs: "?xs \<noteq> []" using ds(1) length_sort [of "\<lambda>x. x" ds] by (auto simp del: length_sort)
  show "percentile_cont (1 / 2) ds = Some (interpolate ?xs (1 / 2 * ?n))" "percentile_cont (95 / 100) ds = Some (interpolate ?xs (95 / 100 * ?n))"
    using percentile_interpolate [OF ds(1)] by simp_all
  have "interpolate ?xs 0 \<in> set ds" using nth_mem [of 0 ?xs] ds(1) by (simp add: interpolate_def)
  then have "0 \<le> interpolate ?xs 0" using ds(2) by blast
  also have "\<dots> \<le> interpolate ?xs (1 / 2 * ?n)" using xs by (intro interpolate_mono) auto
  finally show "0 \<le> interpolate ?xs (1 / 2 * ?n)" .
  show "interpolate ?xs (1 / 2 * ?n) \<le> interpolate ?xs (95 / 100 * ?n)" using xs by (intro interpolate_mono) auto
  have "interpolate ?xs (95 / 100 * ?n) \<le> interpolate ?xs ?n" using xs by (intro interpolate_mono) auto
  also have "interpolate ?xs ?n \<in> set ds"
    using nth_mem [of "length ds - 1" ?xs] ds(1) by (simp add: interpolate_def)
  then have "interpolate ?xs ?n \<le> Max (set ds)" by simp
  finally show "interpolate ?xs (95 / 100 * ?n) \<le> Max (set ds)" .
qed

lemma round_mono: "x \<le> y \<Longrightarrow> analyticsFloatMS (Some x) \<le> analyticsFloatMS (Some y)"
proof -
  assume "x \<le> y"
  then have "\<lfloor>x + 1 / 2\<rfloor> \<le> \<lfloor>y + 1 / 2\<rfloor>" "\<lfloor>1 / 2 - y\<rfloor> \<le> \<lfloor>1 / 2 - x\<rfloor>" by (intro floor_mono; linarith)+
  moreover have "- \<lfloor>1 / 2 - x\<rfloor> \<le> \<lfloor>y + 1 / 2\<rfloor>" if "0 \<le> y" "\<not> 0 \<le> x"
  proof -
    have "0 \<le> \<lfloor>y + 1 / 2\<rfloor>" "0 \<le> \<lfloor>1 / 2 - x\<rfloor>" using that by (simp_all add: le_floor_iff)
    then show ?thesis by linarith
  qed
  ultimately show ?thesis using \<open>x \<le> y\<close> by (auto simp: analyticsFloatMS_def)
qed

text \<open>The latencies of a summary are in order: none is negative, and the median, the 95th percentile and the maximum do not
  decrease.\<close>

theorem analytics_latencies_in_order:
  assumes "Summary collate reader q db = (Inr s, db')"
  shows "0 \<le> as_p50_ms s \<and> as_p50_ms s \<le> as_p95_ms s \<and> as_p95_ms s \<le> as_max_ms s"
proof -
  let ?ds = "List.map_filter duration_ms (filtered_runs (normalizeAnalyticsQuery q) (tables db))"
  obtain now0 s0 where aggregate: "scanAggregate (normalizeAnalyticsQuery q) now0 (tables db) = Inr (s0, tables db)"
    and s: "s = s0\<lparr>as_status_counts := as_status_counts s, as_termination_counts := as_termination_counts s,
      as_top_tools := as_top_tools s\<rparr>"
    using Summary_Inr [OF assms] by (elim conjE exE) blast
  have "as_p50_ms s = as_p50_ms s0" "as_p95_ms s = as_p95_ms s0" "as_max_ms s = as_max_ms s0" by (subst s, simp)+
  then have vals: "as_p50_ms s = analyticsFloatMS (percentile_cont (1 / 2) ?ds)"
    "as_p95_ms s = analyticsFloatMS (percentile_cont (95 / 100) ?ds)" "as_max_ms s = analyticsFloatMS (maximum ?ds)"
    using aggregate by (auto simp: scanAggregate_def Let_def)
  show ?thesis
  proof (cases "?ds = []")
    case True
    then show ?thesis by (simp add: vals percentile_cont_def maximum_def analyticsFloatMS_def Let_def)
  next
    case False
    have "\<forall>d\<in>set ?ds. 0 \<le> d" by (auto simp: List.map_filter_def duration_ms_def)
    then obtain a b where "percentile_cont (1 / 2) ?ds = Some a" "percentile_cont (95 / 100) ?ds = Some b" "0 \<le> a" "a \<le> b"
        "b \<le> Max (set ?ds)"
      using percentiles_in_order [OF False] by blast
    then show ?thesis
      using round_mono [of 0 a] round_mono [of a b] round_mono [of b "Max (set ?ds)"] False
      by (simp add: vals maximum_def) (simp add: analyticsFloatMS_def)
  qed
qed

subsection \<open>One run\<close>

definition one_run :: timed_run where
  "one_run = \<lparr>ru_id = ''r1'', ru_guild_id = ''g'', ru_channel_id = ''c'', ru_actor_user_id = ''u'', ru_surface = ''guild_mention'',
     ru_context_scope = [], ru_status = RunStatusSucceeded, ru_max_steps = 8, ru_max_tool_calls = 4, ru_max_llm_calls = 2,
     ru_max_input_tokens = 0, ru_max_output_tokens = 0, ru_termination_reason = Some ''completed'', ru_steps_used = 2,
     ru_tool_calls_used = 1, ru_llm_calls_used = 1, ru_cancel_requested_at = None, ru_cancel_requested_by = None,
     ru_canceled_at = None, ru_completed_at = Some 1700000000, ru_updated_at = 1700000000, ru_created_at = 200000000\<rparr>"

definition one_run_db :: analytics_db where
  "one_run_db = \<lparr>tables = \<lparr>at_runs = [one_run], at_steps = []\<rparr>, clock = 0, faults = []\<rparr>"

definition guild_window :: analytics_query where
  "guild_window = \<lparr>aq_guild_id = ''g'', aq_actor_user_id = [], aq_channel_id = [], aq_since = zero_time, aq_until = zero_time, aq_limit = 5\<rparr>"

lemma guild_window_runs:
  "validateAnalyticsQuery (normalizeAnalyticsQuery guild_window) = Inr ()"
  "filtered_runs (normalizeAnalyticsQuery guild_window) (tables one_run_db) = [one_run]"
  "trim_space ''g'' = ''g''"
  by (simp_all add: normalizeAnalyticsQuery_def guild_window_def validateAnalyticsQuery_def checks_def must_def
      require_def attempt_def filtered_runs_def
      one_run_db_def one_run_def analyticsRunFilter_def analyticsTimeArg_def go_eval)

definition sql_reader :: analytics_reader where
  "sql_reader = \<lparr>ar_query = True, ar_query_row = True\<rparr>"

lemma one_run_summary: "\<exists>s db'. Summary length sql_reader guild_window one_run_db = (Inr s, db')"
  using guild_window_runs
  by (simp add: sql_reader_def Summary_def Let_def scanAggregate_def scanStatusCounts_def scanTerminationCounts_def scanTopTools_def sql_exec_ok
      one_run_db_def wrap_err_def db_bind_def sql_exec_def next_fault_def)

theorem analytics_latencies_in_order_witness:
  "\<exists>s db'. Summary length sql_reader guild_window one_run_db = (Inr s, db') \<and> 0 \<le> as_p50_ms s \<and> as_p50_ms s \<le> as_p95_ms s \<and>
    as_p95_ms s \<le> as_max_ms s"
  using one_run_summary analytics_latencies_in_order [of length sql_reader guild_window one_run_db] by blast

lemma analytics_counts_agree_witness:
  "\<exists>s db'. Summary length sql_reader guild_window one_run_db = (Inr s, db') \<and> as_total_runs s = 1 \<and>
    map_of (as_status_counts s) RunStatusSucceeded = Some 1 \<and> tables db' = tables one_run_db"
proof -
  obtain s db' where run: "Summary length sql_reader guild_window one_run_db = (Inr s, db')" using one_run_summary by blast
  have "list_all (\<lambda>r. run_status_check (ru_status r)) (at_runs (tables one_run_db))"
    by (simp add: one_run_db_def one_run_def run_status_check_def)
  note counts = analytics_counts_agree [OF run this refl]
  have "filter (asked_run guild_window) (at_runs (tables one_run_db)) = [one_run]"
    using guild_window_runs(2) by (simp add: filtered_runs_asked)
  moreover have "ru_status one_run = RunStatusSucceeded" by (simp add: one_run_def)
  ultimately show ?thesis using run counts by auto
qed

end
