(* ===== verification/DiscordStats.thy ===== *)
theory DiscordStats
  imports DiscordAgent AgentAnalytics
begin

text \<open>
  The \<^verbatim>\<open>stats\<close> action of the \<^verbatim>\<open>agent\<close> command (\<^verbatim>\<open>internal/discord/agent_stats.go\<close>) and the command itself, which
  \<^verbatim>\<open>agent_trace.go\<close> puts together.
\<close>

abbreviation agentAnalyticsCapability :: capability where "agentAnalyticsCapability \<equiv> ''agent.analytics''"
abbreviation agentReplyLatencyManageCapability :: capability where
  "agentReplyLatencyManageCapability \<equiv> ''agent.reply_latency.manage''"

subsection \<open>The request\<close>

record stats_request =
  sq_period :: string
  sq_since :: gotime
  sq_until :: gotime
  sq_latency_set :: bool
  sq_latency_enabled :: bool

definition no_stats_request :: stats_request where
  "no_stats_request =
     \<lparr>sq_period = [], sq_since = zero_time, sq_until = zero_time, sq_latency_set = False, sq_latency_enabled = False\<rparr>"

text \<open>
  A clock that is \<^verbatim>\<open>nil\<close> is the system's; here it is always given. \<open>sc_default_latency_store\<close> is the package's own store of the
  setting, in memory, which is used without another one.
\<close>

record 'w stats_config =
  sc_reader :: "(analytics_query \<Rightarrow> 'w \<Rightarrow> analytics_summary result \<times> 'w) option"
  sc_authorizer :: "'w command_authorizer option"
  sc_clock :: "'w \<Rightarrow> gotime \<times> 'w"
  sc_latency_store :: "'w latency_store option"
  sc_default_latency_store :: "'w latency_store"
  sc_tenths :: "int \<Rightarrow> string"

definition agentStatsOptions :: command_option where
  "agentStatsOptions = CmdOption 2 ''stats'' ''Inspect aggregate agent stats.'' False []
     [CmdOption 1 ''guild'' ''Show private aggregate agent stats for this server.'' False []
        [optionalStringOption ''period'' ''Stats window.'' [''24h'', ''7d'', ''30d'', ''all''],
         optionalStringOption ''reply-latency'' ''Append response time to guild replies.'' [''off'', ''on'']]]"

definition parseAgentStatsPeriod :: "string \<Rightarrow> string result" where
  "parseAgentStatsPeriod v =
     (if trim_space v = [] then Inr ''7d''
      else if trim_space v \<in> {''24h'', ''7d'', ''30d'', ''all''} then Inr (trim_space v)
      else Inl (Errorf (''Choose period: '' @ ticked ''24h'' @ '', '' @ ticked ''7d'' @ '', '' @ ticked ''30d'' @ '', or '' @
        ticked ''all'' @ ''.'')))"

text \<open>Whether the display is to be on, if it is to be set at all.\<close>

definition parseReplyLatencyPreference :: "string \<Rightarrow> bool option result" where
  "parseReplyLatencyPreference v =
     (if trim_space v = [] then Inr None
      else if trim_space v = ''off'' then Inr (Some False)
      else if trim_space v = ''on'' then Inr (Some True)
      else Inl (Errorf (''Choose reply latency: '' @ ticked ''off'' @ '' or '' @ ticked ''on'' @ ''.'')))"

definition hours :: "int \<Rightarrow> int" where
  "hours n = n * 3600 * 1000000000"

definition stats_window :: "string \<Rightarrow> gotime \<Rightarrow> (gotime \<times> gotime) option" where
  "stats_window period now =
     (if period = ''24h'' then Some (now - hours 24, now)
      else if period = ''7d'' then Some (now - 7 * hours 24, now)
      else if period = ''30d'' then Some (now - 30 * hours 24, now)
      else if period = ''all'' then Some (zero_time, zero_time) else None)"

definition parseAgentStatsRequest :: "('w \<Rightarrow> gotime \<times> 'w) \<Rightarrow> 'w interaction \<Rightarrow> 'w \<Rightarrow> stats_request result \<times> 'w" where
  "parseAgentStatsRequest clk i w =
     (if trim_space (ix_guild_id i) = []
      then (Inl (Errorf ''Agent stats can only be shown inside a Discord server.''), w)
      else if agentTracePath i \<noteq> Some (''stats'', ''guild'') then (Inl (Errorf ''Choose an agent stats action.''), w)
      else (let opts = the (action_options (ix_options i)) in
        case parseAgentStatsPeriod (optionByName opts ''period'') of
          Inl e \<Rightarrow> (Inl e, w)
        | Inr period \<Rightarrow>
            (case parseReplyLatencyPreference (optionByName opts ''reply-latency'') of
               Inl e \<Rightarrow> (Inl e, w)
             | Inr latency \<Rightarrow>
                 (case clk w of (now, w1) \<Rightarrow>
                    ((case stats_window period now of
                        None \<Rightarrow> Inl (Errorf ''Unsupported stats period.'')
                      | Some (since, until) \<Rightarrow> Inr \<lparr>sq_period = period, sq_since = since, sq_until = until,
                          sq_latency_set = latency \<noteq> None, sq_latency_enabled = (latency = Some True)\<rparr>), w1)))))"

subsection \<open>What is shown\<close>

definition formatReplyLatencyMode :: "bool \<Rightarrow> string" where
  "formatReplyLatencyMode on = (if on then ''on'' else ''off'')"

definition formatAgentStatsPeriod :: "string \<Rightarrow> string" where
  "formatAgentStatsPeriod period =
     (if period = ''24h'' then ''last 24 hours'' else if period = ''30d'' then ''last 30 days''
      else if period = ''all'' then ''all time'' else ''last 7 days'')"

definition count_in :: "(string \<times> int) list \<Rightarrow> string \<Rightarrow> int" where
  "count_in m k = (case map_of m k of None \<Rightarrow> 0 | Some n \<Rightarrow> n)"

definition shown_statuses :: "string list" where
  "shown_statuses = [RunStatusSucceeded, RunStatusFailed, RunStatusDenied, RunStatusDryRun, RunStatusConfirmationRequired,
     RunStatusCanceled, RunStatusRunning]"

definition formatAgentStatusCounts :: "(string \<times> int) list \<Rightarrow> string" where
  "formatAgentStatusCounts counts =
     (let parts = map (\<lambda>s. ticked (int_str (count_in counts s)) @ '' '' @ safe_inline s)
            (filter (\<lambda>s. count_in counts s > 0) shown_statuses)
      in if parts = [] then [] else '' ('' @ join '', '' parts @ '')'')"

definition sortAgentCountItems :: "(string \<times> int) list \<Rightarrow> (string \<times> int) list" where
  "sortAgentCountItems = sort_key (\<lambda>(name, n). (- n, name))"

definition top_reasons :: "(string \<times> int) list \<Rightarrow> (string \<times> int) list" where
  "top_reasons counts =
     take 3 (sortAgentCountItems (filter (\<lambda>(r, n). n > 0 \<and> r \<noteq> [] \<and> r \<noteq> TerminationCompleted) counts))"

definition formatTopAgentTerminations :: "(string \<times> int) list \<Rightarrow> string" where
  "formatTopAgentTerminations counts =
     join ''; '' (map (\<lambda>(r, n). ticked_inline r @ '' '' @ ticked (int_str n)) (top_reasons counts))"

definition formatTopAgentTools :: "tool_count list \<Rightarrow> string" where
  "formatTopAgentTools tools = join ''; ''
     (map (\<lambda>c. ticked_inline (an_name c) @ '' '' @ ticked (int_str (an_succeeded c)) @ '' ok / '' @
        ticked (int_str (an_failed c)) @ '' failed'')
        (filter (\<lambda>c. trim_space (an_name c) \<noteq> [] \<and> an_total c > 0) tools))"

definition formatAgentStatsSummary :: "(int \<Rightarrow> string) \<Rightarrow> analytics_summary \<Rightarrow> string \<Rightarrow> string" where
  "formatAgentStatsSummary tenths s period =
     (let header = ''Agent stats for this server ('' @ formatAgentStatsPeriod period @ ''):'';
          ms = (\<lambda>n. ticked (formatMillis tenths n));
          reasons = formatTopAgentTerminations (as_termination_counts s);
          tools = formatTopAgentTools (as_top_tools s)
      in if as_total_runs s = 0 then header @ '' no recorded agent runs.''
         else join [CHR 0x0A]
           ([header, ''runs: '' @ ticked (int_str (as_total_runs s)) @ '' total'' @ formatAgentStatusCounts (as_status_counts s)] @
            (if as_average_ms s > 0 \<or> as_p50_ms s > 0 \<or> as_p95_ms s > 0 \<or> as_max_ms s > 0
             then [''latency: avg '' @ ms (as_average_ms s) @ '', p50 '' @ ms (as_p50_ms s) @ '', p95 '' @ ms (as_p95_ms s) @
               '', max '' @ ms (as_max_ms s)] else []) @
            [''steps: '' @ ticked (int_str (as_steps_used s)) @ '' total, '' @ ticked (int_str (as_tool_calls_used s)) @
               '' tool, '' @ ticked (int_str (as_llm_calls_used s)) @ '' llm''] @
            (if reasons \<noteq> [] then [''top reasons: '' @ reasons] else []) @
            (if tools \<noteq> [] then [''top tools: '' @ tools] else [])))"

subsection \<open>The handler\<close>

definition agentStatsCapabilityFor :: "stats_request \<Rightarrow> capability" where
  "agentStatsCapabilityFor q = (if sq_latency_set q then agentReplyLatencyManageCapability else agentAnalyticsCapability)"

definition agent_stats_event :: "'w interaction \<Rightarrow> stats_request \<Rightarrow> audit_status \<Rightarrow> string \<Rightarrow> audit_event" where
  "agent_stats_event i q status reason =
     \<lparr>ev_kind = ''discord.agent.stats'', ev_guild_id = ix_guild_id i, ev_actor_id = ix_user_id i, ev_status = status,
      ev_reason = safe_inline reason,
      ev_metadata = [(''scope'', ''guild''), (''period'', safe_inline (sq_period q)), (''capability'', agentStatsCapabilityFor q)] @
        (if sq_latency_set q then [(''reply_latency'', formatReplyLatencyMode (sq_latency_enabled q))] else []),
      ev_request_id = []\<rparr>"

definition recordAgentStats ::
  "'w audit_recorder option \<Rightarrow> 'w interaction \<Rightarrow> stats_request \<Rightarrow> audit_status \<Rightarrow> string \<Rightarrow> 'w \<Rightarrow> unit result \<times> 'w" where
  "recordAgentStats recorder i q status reason w =
     (case recorder of None \<Rightarrow> (Inr (), w) | Some rec \<Rightarrow> rec (agent_stats_event i q status reason) w)"

text \<open>Both actions are checked alike: \<open>None\<close> lets one go on, and otherwise it is what is recorded and what is answered.\<close>

definition stats_check ::
  "'w command_authorizer option \<Rightarrow> 'w interaction \<Rightarrow> capability \<Rightarrow> 'w \<Rightarrow> (audit_status \<times> string \<times> string) option \<times> 'w" where
  "stats_check authorizer i cap w =
     (case authorizer of
        None \<Rightarrow> (Some (StatusDenied, ''authorizer_missing'', ''Permission denied.''), w)
      | Some check \<Rightarrow>
          (case check i cap w of
             ((d, Some e), w1) \<Rightarrow> (Some (StatusFailed, ''permission_check_failed'', ''Permission check failed.''), w1)
           | ((d, None), w1) \<Rightarrow>
               (if allowed d then None else Some (StatusDenied, dec_reason d, ''Permission denied.''), w1)))"

definition reply_latency_store :: "'w stats_config \<Rightarrow> 'w latency_store" where
  "reply_latency_store cfg = (case sc_latency_store cfg of None \<Rightarrow> sc_default_latency_store cfg | Some st \<Rightarrow> st)"

definition set_latency :: "'w stats_config \<Rightarrow> 'w interaction \<Rightarrow> stats_request \<Rightarrow> 'w \<Rightarrow> (audit_status \<times> string \<times> string) \<times> 'w" where
  "set_latency cfg i q w =
     (case stats_check (sc_authorizer cfg) i agentReplyLatencyManageCapability w of
        (Some refusal, w1) \<Rightarrow> (refusal, w1)
      | (None, w1) \<Rightarrow>
          (case ly_set (reply_latency_store cfg) (ix_guild_id i) (sq_latency_enabled q) w1 of
             (Inl e, w2) \<Rightarrow> ((StatusFailed, ''reply_latency_set_failed'', ''Agent reply latency setting failed.''), w2)
           | (Inr _, w2) \<Rightarrow> ((StatusSucceeded, [], ''Set guild reply latency display to '' @
               ticked (formatReplyLatencyMode (sq_latency_enabled q)) @ ''.''), w2)))"

definition show_stats :: "'w stats_config \<Rightarrow> 'w interaction \<Rightarrow> stats_request \<Rightarrow> 'w \<Rightarrow> (audit_status \<times> string \<times> string) \<times> 'w" where
  "show_stats cfg i q w =
     (case sc_reader cfg of
        None \<Rightarrow> ((StatusFailed, ''reader_missing'', ''Agent stats are not configured yet.''), w)
      | Some reader \<Rightarrow>
          (case stats_check (sc_authorizer cfg) i agentAnalyticsCapability w of
             (Some refusal, w1) \<Rightarrow> (refusal, w1)
           | (None, w1) \<Rightarrow>
               (case reader \<lparr>aq_guild_id = ix_guild_id i, aq_actor_user_id = [], aq_channel_id = [], aq_since = sq_since q,
                    aq_until = sq_until q, aq_limit = 5\<rparr> w1 of
                  (Inl e, w2) \<Rightarrow> ((StatusFailed, ''lookup_failed'', ''Agent stats lookup failed.''), w2)
                | (Inr s, w2) \<Rightarrow> ((StatusSucceeded, [], formatAgentStatsSummary (sc_tenths cfg) s (sq_period q)), w2))))"

definition agentStatsHandler :: "'w stats_config \<Rightarrow> 'w audit_recorder option \<Rightarrow> 'w command_handler" where
  "agentStatsHandler cfg recorder i w =
     (case parseAgentStatsRequest (sc_clock cfg) i w of
        (Inl e, w1) \<Rightarrow>
          (Inr (private_text (error_text e)), snd (recordAgentStats recorder i no_stats_request StatusFailed ''invalid_request'' w1))
      | (Inr q, w1) \<Rightarrow>
          (case (if sq_latency_set q then set_latency cfg i q w1 else show_stats cfg i q w1) of
             ((status, reason, answer), w2) \<Rightarrow>
               (Inr (private_text answer), snd (recordAgentStats recorder i q status reason w2))))"

subsection \<open>The command\<close>

definition agentHandler ::
  "'w trace_command \<Rightarrow> 'w run_manager option \<Rightarrow> 'w audit_recorder option \<Rightarrow> 'w stats_config \<Rightarrow> 'w command_handler" where
  "agentHandler traces manager recorder stats i =
     (case ix_options i of
        [action] \<Rightarrow>
          if io_name action = ''trace'' then agentTraceHandler traces i
          else if io_name action = ''stats'' then agentStatsHandler stats recorder i
          else agentCommandHandler manager recorder i
      | _ \<Rightarrow> agentCommandHandler manager recorder i)"

definition AgentCommands ::
  "'w trace_command \<Rightarrow> 'w run_manager option \<Rightarrow> 'w audit_recorder option \<Rightarrow> 'w stats_config \<Rightarrow> 'w command list" where
  "AgentCommands traces manager recorder stats =
     [\<lparr>co_name = ''agent'', co_description = ''Manage Gigi agent runs and diagnostics.'', co_required = [],
       co_required_for = None, co_required_for_modal = None, co_modal_prefixes = [],
       co_options = [agent_trace_options, agentStatsOptions] @ agentRunOptions,
       co_handle = Some (agentHandler traces manager recorder stats), co_handle_modal = None\<rparr>]"

subsection \<open>Who sees the numbers\<close>

lemma stats_check_refuses:
  assumes "\<not> entitled_caller (tables (fst w)) i cap"
  shows "fst (stats_check (Some (sql_authorizer rec)) i cap w) \<noteq> None"
proof -
  obtain d err w1 where check: "sql_authorizer rec i cap w = ((d, err), w1)" by (metis surj_pair)
  then show ?thesis using sql_authorizer_refuses [OF check assms] by (cases err) (auto simp: stats_check_def)
qed

lemma parse_stats_clock:
  "parseAgentStatsRequest clk i w = (x, w1) \<Longrightarrow> w1 = w \<or> w1 = snd (clk w)"
  by (auto simp: parseAgentStatsRequest_def Let_def split: if_splits sum.splits option.splits prod.splits)

lemma set_latency_refused:
  "fst (stats_check (sc_authorizer cfg) i agentReplyLatencyManageCapability w) \<noteq> None \<Longrightarrow>
     set_latency (cfg\<lparr>sc_latency_store := st, sc_default_latency_store := d\<rparr>) i q w = set_latency cfg i q w"
  by (auto simp: set_latency_def split: prod.split option.split)

lemma show_stats_refused:
  "fst (stats_check (sc_authorizer cfg) i agentAnalyticsCapability w) \<noteq> None \<Longrightarrow>
     show_stats (cfg\<lparr>sc_reader := Some r1\<rparr>) i q w = show_stats (cfg\<lparr>sc_reader := Some r2\<rparr>) i q w"
  by (auto simp: show_stats_def split: prod.split option.split)

lemma other_action:
  "set_latency (cfg\<lparr>sc_reader := rd\<rparr>) i q w = set_latency cfg i q w"
  "show_stats (cfg\<lparr>sc_latency_store := st, sc_default_latency_store := d\<rparr>) i q w = show_stats cfg i q w"
  by (auto simp: set_latency_def show_stats_def reply_latency_store_def split: option.split prod.split sum.split)

text \<open>
  C30: the statistics and the setting of reply latency are kept from callers nothing entitles to them, where an administrator
  is entitled, and so is who has a stored grant of the capability, directly or through a role. A caller not entitled to
  \<^verbatim>\<open>agent.analytics\<close> learns nothing from the statistics: whatever the reader would report and do, the answer and the resulting state are
  the same. And a call of one not entitled to \<^verbatim>\<open>agent.reply_latency.manage\<close> does not set the latency: whatever the store of the setting
  would do, the answer and the resulting state are the same.
\<close>

theorem stats_withheld:
  assumes authorizer: "sc_authorizer cfg = Some (sql_authorizer rec)"
    and clk: "\<And>w. tables (fst (snd (sc_clock cfg w))) = tables (fst w)"
  shows "(\<not> entitled_caller (tables (fst w)) i agentAnalyticsCapability \<longrightarrow>
      agentStatsHandler (cfg\<lparr>sc_reader := Some r1\<rparr>) recorder i w = agentStatsHandler (cfg\<lparr>sc_reader := Some r2\<rparr>) recorder i w) \<and>
    (\<not> entitled_caller (tables (fst w)) i agentReplyLatencyManageCapability \<longrightarrow>
      agentStatsHandler (cfg\<lparr>sc_latency_store := st1, sc_default_latency_store := d1\<rparr>) recorder i w =
      agentStatsHandler (cfg\<lparr>sc_latency_store := st2, sc_default_latency_store := d2\<rparr>) recorder i w)"
proof -
  obtain x w1 where parsed: "parseAgentStatsRequest (sc_clock cfg) i w = (x, w1)" by (metis surj_pair)
  have grants: "tables (fst w1) = tables (fst w)" using parse_stats_clock [OF parsed] clk [of w] by metis
  have "show_stats (cfg\<lparr>sc_reader := Some r1\<rparr>) i q w1 = show_stats (cfg\<lparr>sc_reader := Some r2\<rparr>) i q w1"
    if "\<not> entitled_caller (tables (fst w)) i agentAnalyticsCapability" for q
    using show_stats_refused [of cfg i w1] stats_check_refuses [of w1 i _ rec] that grants authorizer by simp
  moreover have "set_latency (cfg\<lparr>sc_latency_store := st1, sc_default_latency_store := d1\<rparr>) i q w1 =
      set_latency (cfg\<lparr>sc_latency_store := st2, sc_default_latency_store := d2\<rparr>) i q w1"
    if "\<not> entitled_caller (tables (fst w)) i agentReplyLatencyManageCapability" for q
    using set_latency_refused [of cfg i w1 _ _ q] stats_check_refuses [of w1 i _ rec] that grants authorizer by simp
  ultimately show ?thesis using parsed by (auto simp: agentStatsHandler_def other_action split: sum.split)
qed

definition sample_stats :: "(grant_db \<times> unit) stats_config" where
  "sample_stats = \<lparr>sc_reader = None, sc_authorizer = Some (sql_authorizer None), sc_clock = (\<lambda>w. (7, w)),
     sc_latency_store = None, sc_default_latency_store = \<lparr>ly_enabled = (\<lambda>_ w. (Inr False, w)), ly_set = (\<lambda>_ _ w. (Inr (), w))\<rparr>,
     sc_tenths = (\<lambda>_. [])\<rparr>"

definition stats_call :: "(grant_db \<times> unit) interaction" where
  "stats_call = (interaction_of stranger_event mute_responder ''agent'' [] [])\<lparr>ix_options :=
     [IntOption ''stats'' 2 [] [IntOption ''guild'' 1 [] [IntOption ''period'' 3 ''24h'' []]]]\<rparr>"

lemma stats_withheld_witness:
  "\<forall>r1 r2. agentStatsHandler (sample_stats\<lparr>sc_reader := Some r1\<rparr>) None stats_call
      (\<lparr>tables = other_grants, clock = 0, faults = []\<rparr>, ()) =
    agentStatsHandler (sample_stats\<lparr>sc_reader := Some r2\<rparr>) None stats_call (\<lparr>tables = other_grants, clock = 0, faults = []\<rparr>, ())"
proof (intro allI)
  fix r1 r2
  have "\<not> entitled_caller (tables (fst (\<lparr>tables = other_grants, clock = 0, faults = []\<rparr>, ()))) stats_call agentAnalyticsCapability"
    by (simp add: stats_call_def entitled_caller_def interaction_of_def stranger_event_def
      interactionHasAdministrator_def other_grants_def interactionRoleIDs_def granted_def go_eval)
  then show "agentStatsHandler (sample_stats\<lparr>sc_reader := Some r1\<rparr>) None stats_call
      (\<lparr>tables = other_grants, clock = 0, faults = []\<rparr>, ()) =
    agentStatsHandler (sample_stats\<lparr>sc_reader := Some r2\<rparr>) None stats_call (\<lparr>tables = other_grants, clock = 0, faults = []\<rparr>, ())"
    using stats_withheld [of sample_stats None] by (simp add: sample_stats_def)
qed

end
