(* ===== verification/AppRuntime.thy ===== *)
theory AppRuntime
  imports AppConfig DiscordGateway DiscordLlm DiscordStats DiscordPermissions LlmPlanner LlmAnswerer
begin

text \<open>
  \<^verbatim>\<open>internal/app/app.go\<close>: how the parts are put together. The services, each over one world, are the record \<open>app\<close>; the modals
  that wait are the left half of the world, as in the \<^verbatim>\<open>llm\<close> command. Opening the database, the migrations and logging are not
  part of the model.
\<close>

type_synonym 'd app_world = "modals \<times> 'd"

text \<open>
  \<open>ap_in_jobs\<close> carries out a step of the jobs' database in the world; the IDs are what \<^verbatim>\<open>storage.NewID\<close> gives next;
  \<open>ap_get_run\<close> and \<open>ap_put_run\<close> reach the run a live card shows.
\<close>

record 'd app =
  ap_lib :: tool_lib
  ap_plan_json :: plan_json
  ap_proposal_json :: proposal_json
  ap_shown :: "goerror \<Rightarrow> string"
  ap_quote :: "string \<Rightarrow> string"
  ap_json_object :: "string \<Rightarrow> bool option"
  ap_tenths :: "int \<Rightarrow> string"
  ap_gcm :: "string \<Rightarrow> aead"
  ap_net :: "'d app_world net"
  ap_clock :: "'d app_world \<Rightarrow> gotime \<times> 'd app_world"
  ap_now :: gotime
  ap_job_id :: string
  ap_run_id :: string
  ap_confirmation_id :: string
  ap_grants :: "'d app_world grant_service"
  ap_check :: "'d app_world capability_checker"
  ap_audit :: "audit_event \<Rightarrow> 'd app_world \<Rightarrow> unit result \<times> 'd app_world"
  ap_plugins :: "'d app_world plugin_manager"
  ap_fetcher :: "'d app_world manifest_fetcher"
  ap_memory :: "'d app_world memory_reader"
  ap_memory_settings :: "'d app_world memory_manager"
  ap_ingest :: "message_event \<Rightarrow> 'd app_world \<Rightarrow> bool \<times> 'd app_world"
  ap_turns :: "conversation_turn \<Rightarrow> 'd app_world \<Rightarrow> unit result \<times> 'd app_world"
  ap_text :: "'d app_world text_runtime"
  ap_usage :: "string \<Rightarrow> 'd \<Rightarrow> usage_summary result \<times> 'd"
  ap_policy :: "'d policy_reader"
  ap_set_policy :: "guild_policy_input \<Rightarrow> 'd \<Rightarrow> unit result \<times> 'd"
  ap_llm :: "'d llm_manager"
  ap_random16 :: "'d \<Rightarrow> string result \<times> 'd"
  ap_llm_now :: "'d \<Rightarrow> gotime \<times> 'd"
  ap_runs :: "'d app_world run_manager"
  ap_follow_ups :: "'d app_world follow_ups"
  ap_traces :: "'d app_world trace_sink"
  ap_last_trace :: "trace_query \<Rightarrow> 'd app_world \<Rightarrow> trace_run option result \<times> 'd app_world"
  ap_stats :: "analytics_query \<Rightarrow> 'd app_world \<Rightarrow> analytics_summary result \<times> 'd app_world"
  ap_latency :: "'d app_world latency_store"
  ap_default_latency :: "'d app_world latency_store"
  ap_live_debug :: "string \<Rightarrow> string \<Rightarrow> 'd app_world \<Rightarrow> bool result \<times> 'd app_world"
  ap_set_live_debug :: "string \<Rightarrow> string \<Rightarrow> bool \<Rightarrow> 'd app_world \<Rightarrow> unit result \<times> 'd app_world"
  ap_get_run :: "'d app_world \<Rightarrow> trace_run"
  ap_put_run :: "trace_run \<Rightarrow> 'd app_world \<Rightarrow> 'd app_world"
  ap_enqueue :: "job \<Rightarrow> 'd app_world \<Rightarrow> unit result \<times> 'd app_world"
  ap_in_jobs :: "(jobs_db \<Rightarrow> tool_result result \<times> jobs_db) \<Rightarrow> 'd app_world \<Rightarrow> tool_result result \<times> 'd app_world"

subsection \<open>The agent\<close>

definition jobs_tool :: "'d app \<Rightarrow> jobs_db tool \<Rightarrow> 'd app_world tool" where
  "jobs_tool a t = \<lparr>tl_spec = tl_spec t, tl_execute = (\<lambda>request call. ap_in_jobs a (tl_execute t request call))\<rparr>"

definition builtin_tools :: "'d app \<Rightarrow> config \<Rightarrow> 'd app_world tool list" where
  "builtin_tools a cfg =
     [MemoryCountTool (ap_lib a) (Some (ap_memory a)) (Some (ap_check a)),
      MemorySearchTool (ap_lib a) (Some (ap_memory a)) (Some (ap_check a)),
      MemoryRecentTool (ap_lib a) (Some (ap_memory a)) (Some (ap_check a)),
      PluginsEnabledTool (Some (pm_enabled (ap_plugins a))),
      PluginPlanTool (Some (pm_enabled (ap_plugins a))) (Some (ap_check a)),
      PermissionsCheckTool (Some (ap_check a)),
      LLMUsageGuildTool (Some (\<lambda>guildID. on_right (ap_usage a guildID))),
      WebSearchTool (ap_quote a) (webSearchProvider (search_config_of cfg) (ap_net a)),
      WebFetchTool (ap_net a),
      JobsScheduleTool \<lparr>sj_enqueue = Some (ap_enqueue a), sj_new_job_id = Some (ap_job_id a), sj_allowed_kinds = [],
        sj_now = ap_now a, sj_json_object = ap_json_object a, sj_quote = ap_quote a\<rparr>,
      jobs_tool a (JobsListTool True),
      jobs_tool a (JobsCancelTool True)]"

definition app_registry :: "'d app \<Rightarrow> config \<Rightarrow> 'd app_world registry" where
  "app_registry a cfg = NewRegistry (map Some (builtin_tools a cfg))"

definition guildMentionPlanner :: "'d app \<Rightarrow> 'd app_world planner" where
  "guildMentionPlanner a = MultiPlanner
     [Some (LLMPlanner (ap_plan_json a) \<lparr>lp_runtime = Some (ap_text a), lp_max_output_tokens = 0, lp_max_tool_calls = 0\<rparr>),
      Some (SemanticMemoryPlannerAdapter (Some (plan_memory (ap_proposal_json a)
        \<lparr>se_runtime = Some (ap_text a), se_max_output_tokens = 0\<rparr>)))]"

text \<open>The fetcher's interface has the pack beside the error; with an error the pack is the zero value.\<close>

definition fetched :: "pack result \<times> 'w \<Rightarrow> (pack \<times> goerror option) \<times> 'w" where
  "fetched p = (case p of (Inl e, w) \<Rightarrow> ((empty_pack [], Some e), w) | (Inr pk, w) \<Rightarrow> ((pk, None), w))"

definition app_planning :: "'d app \<Rightarrow> config \<Rightarrow> 'd app_world planning_handler" where
  "app_planning a cfg = \<lparr>ph_planner = Some (guildMentionPlanner a), ph_tools = app_registry a cfg,
     ph_answerer = Some (LLMAnswerer \<lparr>la_runtime = Some (ap_text a), la_max_output_tokens = 0, la_max_input_chars = 0\<rparr>),
     ph_context_fetcher = Some (\<lambda>request w. fetched (FetchContext
       \<lparr>cf_source = Some (AgentMemory.Fetch (ap_lib a) (Some (mo_recent (ap_memory a)))), cf_checker = Some (ap_check a), cf_limit = 0,
         cf_max_chars = 0\<rparr> request w)),
     ph_policy = Some (\<lambda>guildID. on_right (ap_policy a guildID)), ph_checker = Some (ap_check a), ph_recorder = Some (ap_audit a),
     ph_required = [], ph_limits = \<lparr>li_max_steps = 0, li_max_tool_calls = 0, li_budget = \<lparr>bu_max_input_tokens = 0, bu_max_output_tokens = 0,
       bu_max_llm_calls = 0\<rparr>\<rparr>, ph_new_run_id = None, ph_follow_ups = Some (ap_follow_ups a),
     ph_run_store = Some (rg_store (ap_runs a)), ph_trace_sink = Some (ap_traces a), ph_generated_id = ap_run_id a,
     ph_confirmation_id = ap_confirmation_id a\<rparr>"

definition planning :: "'w planning_handler \<Rightarrow> 'w trace_sink option \<Rightarrow> 'w handler" where
  "planning h sink request w =
     (case run_state (HandleAgentRequest h sink request) \<lparr>env = w, trail = []\<rparr> of
        ((response, handled), s) \<Rightarrow> ((response, handled, None), env s))"

definition app_assistant :: "'d app \<Rightarrow> 'd app_world chat_handler" where
  "app_assistant a = (NewHandler (Some (ap_text a)))\<lparr>ch_recorder := Some (ap_turns a)\<rparr>"

definition app_agent :: "'d app \<Rightarrow> config \<Rightarrow> 'd app_world agent_runtime" where
  "app_agent a cfg sink =
     Runtime_Run \<lparr>rt_handlers = [Some (planning (app_planning a cfg) sink), Some (ChatHandler (Some (Reply (app_assistant a))))],
       rt_fallback = None\<rparr>"

subsection \<open>The commands\<close>

text \<open>Whether keys may be entered: a sealer, if a key is configured; a key that cannot be used stops the program.\<close>

definition app_sealer :: "'d app \<Rightarrow> config \<Rightarrow> aes_gcm_sealer option result" where
  "app_sealer a cfg = attempt (DecodedLLMSecretKey cfg) (\<lambda>key.
     case key of
       None \<Rightarrow> Inr None
     | Some k \<Rightarrow> attempt (NewAESGCMSealer (ap_gcm a) k (cfg_llm_secret_key_id cfg)) (\<lambda>s. Inr (Some s)))"

definition app_llm_config :: "'d app \<Rightarrow> aes_gcm_sealer option \<Rightarrow> 'd llm_config" where
  "app_llm_config a sealer = \<lparr>lx_entry_enabled = sealer \<noteq> None, lx_modal_ttl = 0, lx_usage = Some (ap_usage a),
     lx_policy = Some (ap_policy a, ap_set_policy a), lx_random16 = ap_random16 a, lx_now = ap_llm_now a\<rparr>"

definition app_latency :: "'d app \<Rightarrow> 'd app_world latency_config" where
  "app_latency a = \<lparr>lc_store = Some (ap_latency a), lc_now = ap_clock a, lc_tenths = ap_tenths a\<rparr>"

definition app_authorizer :: "'d app \<Rightarrow> 'd app_world command_authorizer" where
  "app_authorizer a = authorizer_Check (NewCapabilityAuthorizer (Some (ap_check a)) (Some (ap_audit a)))"

definition app_trace_command :: "'d app \<Rightarrow> config \<Rightarrow> 'd app_world trace_command" where
  "app_trace_command a cfg = \<lparr>tk_reader = Some (ap_last_trace a), tk_runtime = Some (app_agent a cfg),
     tk_set_live_debug = Some (ap_set_live_debug a), tk_get_run = ap_get_run a, tk_put_run = ap_put_run a\<rparr>"

definition app_stats_config :: "'d app \<Rightarrow> 'd app_world stats_config" where
  "app_stats_config a = \<lparr>sc_reader = Some (ap_stats a), sc_authorizer = Some (app_authorizer a), sc_clock = ap_clock a,
     sc_latency_store = Some (ap_latency a), sc_default_latency_store = ap_default_latency a, sc_tenths = ap_tenths a\<rparr>"

definition app_commands :: "'d app \<Rightarrow> config \<Rightarrow> aes_gcm_sealer option \<Rightarrow> 'd app_world command list" where
  "app_commands a cfg sealer =
     CoreCommands @ [AskCommand (Some (app_agent a cfg)) (app_latency a)] @
     AgentCommands (app_trace_command a cfg) (Some (ap_runs a)) (Some (ap_audit a)) (app_stats_config a) @
     PermissionCommands (Some (ap_grants a)) None (Some (ap_audit a)) @
     PluginCommands (ap_shown a) (Some (ap_plugins a)) (Some (ap_fetcher a)) (Some (ap_audit a)) @
     LLMCommands (ap_shown a) (app_llm_config a sealer) (Some (ap_llm a)) (Some (ap_audit a)) @
     MemoryCommands (Some (ap_memory_settings a)) (Some (ap_audit a))"

definition app_router :: "'d app \<Rightarrow> config \<Rightarrow> aes_gcm_sealer option \<Rightarrow> 'd app_world command_router result" where
  "app_router a cfg sealer =
     attempt (NewCommandRouter (app_commands a cfg sealer)) (\<lambda>r. Inr (SetAuthorizer r (Some (app_authorizer a))))"

subsection \<open>Messages\<close>

definition app_messages :: "'d app \<Rightarrow> config \<Rightarrow> 'd app_world message_handler" where
  "app_messages a cfg =
     MemoryQuestionHandler (Some (mo_count (ap_memory a))) (Some (ap_check a)) (Some (ap_audit a))
       (Some (ExternalAppDryRunHandler (ap_proposal_json a)
          \<lparr>xa_registry = Some (pm_enabled (ap_plugins a)), xa_checker = Some (ap_check a), xa_recorder = Some (ap_audit a),
            xa_fallback = Some (AgentMessageHandler (Some (app_agent a cfg)) (Some CoreMessageHandler)),
            xa_semantic = \<lparr>se_runtime = Some (ap_text a), se_max_output_tokens = 0\<rparr>,
            xa_policy = Some (\<lambda>guildID. on_right (ap_policy a guildID))\<rparr>))"

definition NewMessageRouter :: "'d app \<Rightarrow> string \<Rightarrow> 'd app_world message_handler \<Rightarrow> 'd app_world message_router result" where
  "NewMessageRouter a botUserID0 handler =
     (let botUserID = trim_space botUserID0 in
      require (botUserID \<noteq> []) ''bot user ID is required''
        (Inr \<lparr>mx_bot_user_id = botUserID, mx_handler = handler, mx_audit = (\<lambda>_ w. (Inr (), w)), mx_ingest = Some (ap_ingest a),
           mx_latency = app_latency a, mx_live_debug = Some (ap_live_debug a), mx_get_run = ap_get_run a,
           mx_put_run = ap_put_run a\<rparr>))"

subsection \<open>The program\<close>

text \<open>The part of \<^verbatim>\<open>New\<close> that runs when Discord is enabled and no client was given: the gateway, or the first error.\<close>

definition app_gateway ::
  "'d app \<Rightarrow> config \<Rightarrow> (string \<Rightarrow> nat \<Rightarrow> 'd app_world session result) \<Rightarrow> 'd app_world gateway result" where
  "app_gateway a cfg factory =
     attempt (app_sealer a cfg) (\<lambda>sealer.
     attempt (app_router a cfg sealer) (\<lambda>router.
     attempt (NewMessageRouter a (cfg_discord_client_id cfg) (app_messages a cfg)) (\<lambda>messages.
       newGatewayWithFactory \<lparr>gw_token = cfg_discord_token cfg, gw_client_id = cfg_discord_client_id cfg,
         gw_guild_id = cfg_discord_guild_id cfg, gw_sync_commands = cfg_discord_sync_commands cfg, gw_intents = 0,
         gw_command_router = Some router, gw_message_router = Some messages\<rparr> factory)))"

text \<open>What is running: the pool, the gateway, the database and the server, each if there is one.\<close>

record 'w running =
  ru_stop_pool :: "('w \<Rightarrow> 'w) option"
  ru_start_pool :: "'w \<Rightarrow> 'w"
  ru_start_discord :: "('w \<Rightarrow> unit result \<times> 'w) option"
  ru_close_discord :: "'w \<Rightarrow> unit result \<times> 'w"
  ru_close_db :: "('w \<Rightarrow> unit result \<times> 'w) option"
  ru_shutdown_server :: "'w \<Rightarrow> unit result \<times> 'w"

definition stop_pool :: "'w running \<Rightarrow> 'w \<Rightarrow> 'w" where
  "stop_pool r w = (case ru_stop_pool r of None \<Rightarrow> w | Some stop \<Rightarrow> stop w)"

definition closeDiscord :: "'w running \<Rightarrow> 'w \<Rightarrow> unit result \<times> 'w" where
  "closeDiscord r w = (let w1 = stop_pool r w in case ru_start_discord r of None \<Rightarrow> (Inr (), w1) | Some _ \<Rightarrow> ru_close_discord r w1)"

definition closeDatabase :: "'w running \<Rightarrow> 'w \<Rightarrow> unit result \<times> 'w" where
  "closeDatabase r w = (case ru_close_db r of None \<Rightarrow> (Inr (), w) | Some close_db \<Rightarrow> close_db w)"

text \<open>
  \<open>serve\<close> runs the server until it ends with an error or, \<open>None\<close>, the context is done; the server exists from then on, which
  the flag beside the result says.
\<close>

definition app_Run :: "'w running \<Rightarrow> ('w \<Rightarrow> goerror option \<times> 'w) \<Rightarrow> 'w \<Rightarrow> (unit result \<times> bool) \<times> 'w" where
  "app_Run r serve w =
     (let w1 = (case ru_stop_pool r of None \<Rightarrow> w | Some _ \<Rightarrow> ru_start_pool r w) in
      case (case ru_start_discord r of None \<Rightarrow> (Inr (), w1) | Some start_discord \<Rightarrow> start_discord w1) of
        (Inl e, w2) \<Rightarrow> ((Inl e, False), stop_pool r w2)
      | (Inr _, w2) \<Rightarrow>
          (case serve w2 of
             (None, w3) \<Rightarrow> ((Inr (), True), w3)
           | (Some e, w3) \<Rightarrow> ((Inl e, True), snd (closeDatabase r (snd (closeDiscord r w3))))))"

definition app_Shutdown :: "'w running \<Rightarrow> bool \<Rightarrow> 'w \<Rightarrow> unit result \<times> 'w" where
  "app_Shutdown r serving w =
     db_bind (closeDiscord r (stop_pool r w)) (\<lambda>_ w1.
     db_bind (closeDatabase r w1) (\<lambda>_ w2. if serving then ru_shutdown_server r w2 else (Inr (), w2)))"

subsection \<open>The router of the program\<close>

definition command_names :: "string list" where
  "command_names = [''ping'', ''ask'', ''agent'', ''permissions'', ''plugins'', ''llm'', ''memory'']"

lemma add_commands_plain:
  "list_all (\<lambda>c. trim_space (co_name c) = co_name c \<and> co_name c \<noteq> [] \<and> co_description c \<noteq> [] \<and> co_handle c \<noteq> None) cs \<Longrightarrow>
   distinct (map fst m @ map co_name cs) \<Longrightarrow> add_commands cs m = Inr (m @ map (\<lambda>c. (co_name c, c)) cs)"
proof (induction cs arbitrary: m)
  case (Cons c cs)
  have "mput (co_name c) c m = m @ [(co_name c, c)]" using Cons.prems(2) by (induction m) auto
  moreover have "map_of m (co_name c) = None" using Cons.prems(2) by (auto simp: map_of_eq_None_iff)
  ultimately show ?case using Cons by (simp add: attempt_def checks_def must_def require_def)
qed simp

lemma app_command_names: "map co_name (app_commands a cfg sealer) = command_names"
  by (simp add: app_commands_def CoreCommands_def AskCommand_def AgentCommands_def PermissionCommands_def PluginCommands_def
      LLMCommands_def MemoryCommands_def command_names_def)

lemma app_commands_plain:
  "list_all (\<lambda>c. trim_space (co_name c) = co_name c \<and> co_name c \<noteq> [] \<and> co_description c \<noteq> [] \<and> co_handle c \<noteq> None)
     (app_commands a cfg sealer)"
  by (simp add: app_commands_def CoreCommands_def AskCommand_def AgentCommands_def PermissionCommands_def PluginCommands_def
      LLMCommands_def MemoryCommands_def go_eval)

lemma app_router_is:
  "app_router a cfg sealer = Inr \<lparr>rt_commands = map (\<lambda>c. (co_name c, c)) (app_commands a cfg sealer),
     rt_authorizer = Some (app_authorizer a)\<rparr>"
proof -
  have "unique_key co_name (app_commands a cfg sealer)" by (simp only: app_command_names) (simp add: command_names_def)
  then have "add_commands (app_commands a cfg sealer) [] = Inr (map (\<lambda>c. (co_name c, c)) (app_commands a cfg sealer))"
    using add_commands_plain [OF app_commands_plain, of "[]"] by simp
  then show ?thesis by (simp add: app_router_def NewCommandRouter_def SetAuthorizer_def)
qed

text \<open>
  What the commands of the server's settings are meant to ask for, as a table: the group and the action a call names, and the
  capability of it. A call that names nothing of the table has none.
\<close>

definition llm_actions :: "((string \<times> string) \<times> capability) list" where
  "llm_actions =
     [((''provider'', ''add''), ''llm.provider.write''), ((''provider'', ''rotate''), ''llm.provider.write''),
      ((''provider'', ''delete''), ''llm.provider.write''), ((''provider'', ''list''), ''llm.provider.write''),
      ((''provider'', ''test''), ''llm.provider.test''), ((''model'', ''show''), ''llm.provider.select''),
      ((''model'', ''set''), ''llm.provider.select''), ((''usage'', ''guild''), ''llm.provider.select''),
      ((''routing'', ''show''), ''llm.provider.select''), ((''routing'', ''set''), ''llm.provider.write'')]"

definition memory_actions :: "((string \<times> string) \<times> capability) list" where
  "memory_actions =
     [((''settings'', ''show''), ''memory.manage.guild''), ((''settings'', ''set''), ''memory.manage.guild'')]"

definition settings_capability :: "string \<Rightarrow> 'w interaction \<Rightarrow> capability option" where
  "settings_capability name i =
     (if name = ''permissions'' then Some ''capability.manage''
      else if name = ''plugins'' then Some ''plugin.install''
      else if name = ''llm'' then Option.bind (llmPath i) (map_of llm_actions)
      else Option.bind (memoryPath i) (\<lambda>(grp, action).
        if grp \<in> {''status'', ''count'', ''search''} then Some ''memory.read.guild'' else map_of memory_actions (grp, action)))"

text \<open>What runs for the name of such a command.\<close>

definition settings_handler :: "'d app \<Rightarrow> aes_gcm_sealer option \<Rightarrow> string \<Rightarrow> 'd app_world command_handler" where
  "settings_handler a sealer name =
     (if name = ''permissions'' then permissionHandler (Some (ap_grants a)) None (Some (ap_audit a))
      else if name = ''plugins'' then pluginHandler (ap_shown a) (Some (ap_plugins a)) (Some (ap_fetcher a)) (Some (ap_audit a))
      else if name = ''llm'' then llmHandler (ap_shown a) (app_llm_config a sealer) (Some (ap_llm a)) (Some (ap_audit a))
      else memoryHandler (Some (ap_memory_settings a)) (Some (ap_audit a)))"

lemma llm_needed: "needed_capability [] (Some (llmRequiredCapability i)) = settings_capability ''llm'' i"
proof (cases "llmPath i")
  case (Some p)
  obtain g b where p: "p = (g, b)" by (cases p)
  consider "g = ''provider''" | "g = ''model''" | "g = ''usage''" | "g = ''routing''"
    | "g \<notin> {''provider'', ''model'', ''usage'', ''routing''}" by blast
  then show ?thesis
    by cases (simp_all add: needed_capability_def settings_capability_def llmRequiredCapability_def llm_actions_def Some p)
qed (simp add: needed_capability_def settings_capability_def llmRequiredCapability_def)

lemma memory_needed: "needed_capability [] (Some (memoryRequiredCapability i)) = settings_capability ''memory'' i"
  by (cases "memoryPath i") (auto simp: needed_capability_def settings_capability_def memoryRequiredCapability_def memory_actions_def
      split: if_splits)

lemma settings_capability_not_empty: "settings_capability name i \<noteq> Some []"
proof -
  have "list_all (\<lambda>(_, c). c \<noteq> []) llm_actions" "list_all (\<lambda>(_, c). c \<noteq> []) memory_actions"
    by (simp_all add: llm_actions_def memory_actions_def)
  then have "map_of llm_actions p \<noteq> Some []" "map_of memory_actions p \<noteq> Some []" for p
    by (auto simp: list_all_iff dest: map_of_SomeD)
  then show ?thesis by (auto simp: settings_capability_def bind_eq_Some_conv)
qed

lemma app_commands_heads:
  obtains c1 c2 c3 c4 c5 c6 c7 where "app_commands a cfg sealer = [c1, c2, c3, c4, c5, c6, c7]"
    "co_required c4 = CapabilityManage" "co_required_for c4 = None" "co_required c5 = ''plugin.install''" "co_required_for c5 = None"
    "co_required c6 = []" "co_required_for c6 = Some llmRequiredCapability"
    "co_required c7 = []" "co_required_for c7 = Some memoryRequiredCapability"
    "co_handle c4 = Some (permissionHandler (Some (ap_grants a)) None (Some (ap_audit a)))"
    "co_handle c5 = Some (pluginHandler (ap_shown a) (Some (ap_plugins a)) (Some (ap_fetcher a)) (Some (ap_audit a)))"
    "co_handle c6 = Some (llmHandler (ap_shown a) (app_llm_config a sealer) (Some (ap_llm a)) (Some (ap_audit a)))"
    "co_handle c7 = Some (memoryHandler (Some (ap_memory_settings a)) (Some (ap_audit a)))"
proof -
  have "app_commands a cfg sealer = CoreCommands @ [AskCommand (Some (app_agent a cfg)) (app_latency a)] @
      AgentCommands (app_trace_command a cfg) (Some (ap_runs a)) (Some (ap_audit a)) (app_stats_config a) @
      [hd (PermissionCommands (Some (ap_grants a)) None (Some (ap_audit a))),
       hd (PluginCommands (ap_shown a) (Some (ap_plugins a)) (Some (ap_fetcher a)) (Some (ap_audit a))),
       hd (LLMCommands (ap_shown a) (app_llm_config a sealer) (Some (ap_llm a)) (Some (ap_audit a))),
       hd (MemoryCommands (Some (ap_memory_settings a)) (Some (ap_audit a)))]"
    by (simp add: app_commands_def PermissionCommands_def PluginCommands_def LLMCommands_def MemoryCommands_def)
  also have "\<dots> = [hd CoreCommands, AskCommand (Some (app_agent a cfg)) (app_latency a),
      hd (AgentCommands (app_trace_command a cfg) (Some (ap_runs a)) (Some (ap_audit a)) (app_stats_config a)),
      hd (PermissionCommands (Some (ap_grants a)) None (Some (ap_audit a))),
      hd (PluginCommands (ap_shown a) (Some (ap_plugins a)) (Some (ap_fetcher a)) (Some (ap_audit a))),
      hd (LLMCommands (ap_shown a) (app_llm_config a sealer) (Some (ap_llm a)) (Some (ap_audit a))),
      hd (MemoryCommands (Some (ap_memory_settings a)) (Some (ap_audit a)))]"
    by (simp add: CoreCommands_def AgentCommands_def)
  finally show thesis
    by (rule that) (simp_all add: PermissionCommands_def PluginCommands_def LLMCommands_def MemoryCommands_def)
qed

lemma settings_command:
  assumes "app_router a cfg sealer = Inr r" "name \<in> {''permissions'', ''plugins'', ''llm'', ''memory''}"
  shows "\<exists>c. map_of (rt_commands r) name = Some c \<and> co_handle c = Some (settings_handler a sealer name) \<and>
    (\<forall>i. needed_capability (co_required c) (map_option (\<lambda>f. f i) (co_required_for c)) = settings_capability name i)"
proof -
  obtain c1 c2 c3 c4 c5 c6 c7 where cs: "app_commands a cfg sealer = [c1, c2, c3, c4, c5, c6, c7]"
    and req: "co_required c4 = CapabilityManage" "co_required_for c4 = None" "co_required c5 = ''plugin.install''"
      "co_required_for c5 = None" "co_required c6 = []" "co_required_for c6 = Some llmRequiredCapability"
      "co_required c7 = []" "co_required_for c7 = Some memoryRequiredCapability"
    and handlers: "co_handle c4 = Some (permissionHandler (Some (ap_grants a)) None (Some (ap_audit a)))"
      "co_handle c5 = Some (pluginHandler (ap_shown a) (Some (ap_plugins a)) (Some (ap_fetcher a)) (Some (ap_audit a)))"
      "co_handle c6 = Some (llmHandler (ap_shown a) (app_llm_config a sealer) (Some (ap_llm a)) (Some (ap_audit a)))"
      "co_handle c7 = Some (memoryHandler (Some (ap_memory_settings a)) (Some (ap_audit a)))"
    by (rule app_commands_heads)
  have names: "co_name c1 = ''ping''" "co_name c2 = ''ask''" "co_name c3 = ''agent''" "co_name c4 = ''permissions''"
      "co_name c5 = ''plugins''" "co_name c6 = ''llm''" "co_name c7 = ''memory''"
    using app_command_names [of a cfg sealer] by (simp_all add: cs command_names_def)
  have fixed: "needed_capability CapabilityManage None = settings_capability ''permissions'' i"
    "needed_capability ''plugin.install'' None = settings_capability ''plugins'' i" for i :: "'a app_world interaction"
    by (simp_all add: needed_capability_def settings_capability_def)
  have "rt_commands r = map (\<lambda>c. (co_name c, c)) [c1, c2, c3, c4, c5, c6, c7]" using assms(1) by (auto simp: app_router_is cs)
  then show ?thesis
    using assms(2)
    by (elim insertE emptyE) (simp_all add: names req handlers fixed llm_needed memory_needed settings_handler_def)
qed

text \<open>C25: in the program as it is put together, a call of /permissions, /plugins, /llm or /memory needs the capability of the
  table: capability.manage for /permissions, plugin.install for /plugins, and for /llm and /memory the one of the group and action
  it names. A call that names none is denied in private and nothing runs. Otherwise the authorizer is asked for that capability
  for the caller: if the check fails, or denies it, only the refusal is sent, and if it allows it the command's own handler runs in
  the state the check left. (The reply-latency setting, which is under /agent, has a gate of its own in its handler.)\<close>

theorem settings_commands_gated:
  assumes "app_router a cfg sealer = Inr r" "name \<in> {''permissions'', ''plugins'', ''llm'', ''memory''}"
    and event: "ic_data e = CommandData name opts atts"
  shows "HandleInteraction r resp (Some e) w =
    (let i = interaction_of e resp name opts atts in
     case settings_capability name i of
       None \<Rightarrow> respond resp (private_text ''Permission denied.'') w
     | Some cap \<Rightarrow>
         (case app_authorizer a i cap w of
            ((_, Some _), w1) \<Rightarrow> respond resp (private_text ''Permission check failed.'') w1
          | ((d, None), w1) \<Rightarrow>
              if allowed d then run_handler resp True (settings_handler a sealer name i) w1
              else respond resp (private_text ''Permission denied.'') w1))"
proof -
  let ?i = "interaction_of e resp name opts atts"
  obtain c where c: "map_of (rt_commands r) name = Some c" "co_handle c = Some (settings_handler a sealer name)"
    "needed_capability (co_required c) (map_option (\<lambda>f. f ?i) (co_required_for c)) = settings_capability name ?i"
    using settings_command [OF assms(1,2)] by blast
  have "rt_authorizer r = Some (app_authorizer a)" using assms(1) by (auto simp: app_router_is)
  then show ?thesis
    using c settings_capability_not_empty [of name ?i]
    by (simp add: HandleInteraction_def event gate_def Let_def split: option.split prod.split)
qed

definition silent_responder :: "unit app_world responder" where
  "silent_responder = \<lparr>rp_respond = (\<lambda>_ w. (Inr (), w)), rp_edit = None, rp_roles = None\<rparr>"

lemma settings_commands_gated_witness:
  "\<forall>(a :: unit app) cfg w. \<exists>r. app_router a cfg None = Inr r \<and>
    HandleInteraction r silent_responder (Some stranger_event) w =
      (let i = interaction_of stranger_event silent_responder ''permissions'' [] [] in
       case app_authorizer a i ''capability.manage'' w of
         ((_, Some _), w1) \<Rightarrow> respond silent_responder (private_text ''Permission check failed.'') w1
       | ((d, None), w1) \<Rightarrow>
           if allowed d then run_handler silent_responder True (permissionHandler (Some (ap_grants a)) None (Some (ap_audit a)) i) w1
           else respond silent_responder (private_text ''Permission denied.'') w1)"
proof (intro allI)
  fix a :: "unit app" and cfg w
  have data: "ic_data stranger_event = CommandData ''permissions'' [] []" by (simp add: stranger_event_def)
  have mem: "''permissions'' \<in> {''permissions'', ''plugins'', ''llm'', ''memory''}" by simp
  have handler: "settings_handler a None ''permissions'' = permissionHandler (Some (ap_grants a)) None (Some (ap_audit a))"
    and cap: "settings_capability ''permissions'' (interaction_of stranger_event silent_responder ''permissions'' [] []) =
      Some ''capability.manage''"
    by (simp_all add: settings_handler_def settings_capability_def)
  show "\<exists>r. app_router a cfg None = Inr r \<and>
    HandleInteraction r silent_responder (Some stranger_event) w =
      (let i = interaction_of stranger_event silent_responder ''permissions'' [] [] in
       case app_authorizer a i ''capability.manage'' w of
         ((_, Some _), w1) \<Rightarrow> respond silent_responder (private_text ''Permission check failed.'') w1
       | ((d, None), w1) \<Rightarrow>
           if allowed d then run_handler silent_responder True (permissionHandler (Some (ap_grants a)) None (Some (ap_audit a)) i) w1
           else respond silent_responder (private_text ''Permission denied.'') w1)"
    by (rule exI, rule conjI, rule app_router_is)
      (simp only: settings_commands_gated [OF app_router_is mem data] Let_def cap handler option.case)
qed

subsection \<open>The tools of the program\<close>

definition spec_key :: "tool_spec \<Rightarrow> string \<times> tool_kind \<times> capability" where
  "spec_key s = (sp_name s, sp_kind s, sp_capability s)"

definition tool_keys :: "(string \<times> tool_kind \<times> capability) list" where
  "tool_keys =
     [(''memory.count'', ToolKindRead, ''memory.read.guild''), (''memory.search'', ToolKindRead, ''memory.read.guild''),
      (''memory.recent'', ToolKindRead, ''memory.read.guild''), (''plugins.enabled'', ToolKindRead, ''plugin.install''),
      (''plugins.plan'', ToolKindRead, []), (''permissions.check'', ToolKindRead, []),
      (''llm.usage.guild'', ToolKindRead, ''llm.provider.select''), (''web.search'', ToolKindRead, ''web.search''),
      (''web.fetch'', ToolKindRead, ''web.fetch''), (''jobs.schedule'', ToolKindWrite, ''job.schedule''),
      (''jobs.list'', ToolKindRead, ''job.read''), (''jobs.cancel'', ToolKindWrite, ''job.write'')]"

lemma builtin_keys: "map (\<lambda>t. spec_key (tl_spec t)) (builtin_tools a cfg) = tool_keys"
  by (simp add: builtin_tools_def tool_keys_def spec_key_def jobs_tool_def MemoryCountTool_def MemorySearchTool_def
      MemoryRecentTool_def memory_tool_spec_def PluginsEnabledTool_def PluginPlanTool_def PermissionsCheckTool_def
      LLMUsageGuildTool_def WebSearchTool_def WebFetchTool_def JobsScheduleTool_def JobsListTool_def JobsCancelTool_def)

lemma fold_Register:
  "list_all (\<lambda>t. trim_space (sp_name (tl_spec t)) = sp_name (tl_spec t) \<and> sp_name (tl_spec t) \<noteq> []) ts \<Longrightarrow>
   distinct (map fst r @ map (\<lambda>t. sp_name (tl_spec t)) ts) \<Longrightarrow>
   fold Register (map Some ts) r = r @ map (\<lambda>t. (sp_name (tl_spec t), t)) ts"
proof (induction ts arbitrary: r)
  case (Cons t ts)
  have "mput (sp_name (tl_spec t)) t r = r @ [(sp_name (tl_spec t), t)]" using Cons.prems(2) by (induction r) auto
  then show ?case using Cons by (simp add: Register_def NormalizeToolSpec_def Let_def)
qed simp

lemma tool_keys_trimmed:
  "list_all (\<lambda>(n, kind, c). trim_space n = n \<and> n \<noteq> [] \<and> trim_space kind = kind \<and> kind \<in> {ToolKindRead, ToolKindWrite} \<and>
     trim_space c = c) tool_keys"
  by (simp add: tool_keys_def go_eval)

lemma tool_keys_distinct: "distinct (map fst tool_keys)"
  by (simp add: tool_keys_def)

lemma app_registry_is: "app_registry a cfg = map (\<lambda>t. (sp_name (tl_spec t), t)) (builtin_tools a cfg)"
proof -
  have names: "map (\<lambda>t. sp_name (tl_spec t)) (builtin_tools a cfg) = map fst tool_keys"
    unfolding builtin_keys [of a cfg, symmetric] by (simp add: spec_key_def)
  have "list_all (\<lambda>n. trim_space n = n \<and> n \<noteq> []) (map fst tool_keys)" using tool_keys_trimmed by (auto simp: list_all_iff)
  then have "list_all (\<lambda>t. trim_space (sp_name (tl_spec t)) = sp_name (tl_spec t) \<and> sp_name (tl_spec t) \<noteq> []) (builtin_tools a cfg)"
    unfolding names [symmetric] by (simp add: list_all_iff)
  then show ?thesis
    using fold_Register [of "builtin_tools a cfg" "[]"] names tool_keys_distinct by (simp add: app_registry_def NewRegistry_def)
qed

lemma normal_key:
  assumes "t \<in> set (builtin_tools a cfg)"
  shows "spec_key (NormalizeToolSpec (tl_spec t)) = spec_key (tl_spec t) \<and> spec_key (tl_spec t) \<in> set tool_keys"
proof -
  have "spec_key (tl_spec t) \<in> set tool_keys" using assms unfolding builtin_keys [of a cfg, symmetric] by simp
  moreover from this have "trim_space (sp_name (tl_spec t)) = sp_name (tl_spec t) \<and> trim_space (sp_kind (tl_spec t)) = sp_kind (tl_spec t) \<and>
      sp_kind (tl_spec t) \<in> {ToolKindRead, ToolKindWrite} \<and> trim_space (sp_capability (tl_spec t)) = sp_capability (tl_spec t)"
    using tool_keys_trimmed unfolding list_all_iff spec_key_def by fastforce
  ultimately show ?thesis by (auto simp: spec_key_def NormalizeToolSpec_def Let_def)
qed

text \<open>C26: the tools the program's agent can look up are just these twelve, each with its kind and with no capability or a known
  one; only those that schedule and cancel jobs write.\<close>

theorem agent_tools_well_typed:
  "((\<exists>t spec. Lookup (app_registry a cfg) name = Inr (t, spec) \<and> spec_key spec = key) \<longleftrightarrow>
      key \<in> set tool_keys \<and> fst key = trim_space name) \<and>
   list_all (\<lambda>(n, kind, c). kind \<in> {ToolKindRead, ToolKindWrite} \<and> c \<in> set ([] # KnownCapabilities)) tool_keys"
proof
  let ?ts = "builtin_tools a cfg"
  have "distinct (map (\<lambda>t. sp_name (tl_spec t)) ?ts)"
    using tool_keys_distinct unfolding builtin_keys [of a cfg, symmetric] by (simp add: spec_key_def comp_def)
  then have found: "map_of (app_registry a cfg) n = Some t \<longleftrightarrow> t \<in> set ?ts \<and> sp_name (tl_spec t) = n" for n t
    by (auto simp: app_registry_is map_of_eq_Some_iff comp_def)
  show "(\<exists>t spec. Lookup (app_registry a cfg) name = Inr (t, spec) \<and> spec_key spec = key) \<longleftrightarrow>
      key \<in> set tool_keys \<and> fst key = trim_space name"
  proof
    assume "\<exists>t spec. Lookup (app_registry a cfg) name = Inr (t, spec) \<and> spec_key spec = key"
    then obtain t where t: "map_of (app_registry a cfg) (trim_space name) = Some t" "key = spec_key (NormalizeToolSpec (tl_spec t))"
      by (auto dest: Lookup_Inr)
    then show "key \<in> set tool_keys \<and> fst key = trim_space name" using normal_key [of t a cfg] found by (auto simp: spec_key_def)
  next
    assume key: "key \<in> set tool_keys \<and> fst key = trim_space name"
    then obtain t where t: "t \<in> set ?ts" "key = spec_key (tl_spec t)" unfolding builtin_keys [of a cfg, symmetric] by auto
    then have "map_of (app_registry a cfg) (trim_space name) = Some t" using key found by (auto simp: spec_key_def)
    moreover have "trim_space name \<noteq> []" using key tool_keys_trimmed by (auto simp: list_all_iff)
    ultimately show "\<exists>t spec. Lookup (app_registry a cfg) name = Inr (t, spec) \<and> spec_key spec = key"
      using normal_key [OF t(1)] t(2) by (simp add: Lookup_def)
  qed
  show "list_all (\<lambda>(n, kind, c). kind \<in> {ToolKindRead, ToolKindWrite} \<and> c \<in> set ([] # KnownCapabilities)) tool_keys"
    by (simp add: tool_keys_def KnownCapabilities_def)
qed

text \<open>As it is put together, the tool that schedules jobs has no kind of job it would accept.\<close>

lemma scheduling_always_refused:
  assumes "Lookup (app_registry a cfg) ''jobs.schedule'' = Inr (t, spec)"
  shows "fst (tl_execute t request call w) \<in> range Inl \<and> snd (tl_execute t request call w) = w"
proof -
  have "map_of (app_registry a cfg) ''jobs.schedule'' = Some t" using Lookup_Inr [OF assms] by (simp add: go_eval)
  moreover have "map_of (app_registry a cfg) ''jobs.schedule'' = Some (JobsScheduleTool \<lparr>sj_enqueue = Some (ap_enqueue a),
      sj_new_job_id = Some (ap_job_id a), sj_allowed_kinds = [], sj_now = ap_now a, sj_json_object = ap_json_object a,
      sj_quote = ap_quote a\<rparr>)"
    by (simp add: app_registry_is builtin_tools_def jobs_tool_def MemoryCountTool_def MemorySearchTool_def MemoryRecentTool_def
        memory_tool_spec_def PluginsEnabledTool_def PluginPlanTool_def PermissionsCheckTool_def LLMUsageGuildTool_def
        WebSearchTool_def WebFetchTool_def JobsScheduleTool_def)
  ultimately show ?thesis
    by (auto simp: JobsScheduleTool_def jobs_schedule_execute_def allowedJobKind_def checks_def must_def require_def Let_def
        attempt_def)
qed

end
