(* ===== verification/Startup.thy ===== *)
theory Startup
  imports AppRuntime
begin

text \<open>
  What runs before and beside the program: \<^verbatim>\<open>internal/storage\<close> (IDs, migrations, the check whether the database can be reached),
  the server of \<^verbatim>\<open>internal/web\<close> and \<^verbatim>\<open>cmd/gigi\<close>. The file system, the parser of URLs and the network are parameters.
\<close>

subsection \<open>IDs\<close>

text \<open>\<open>raw\<close> is what the random source gives, sixteen bytes or nothing; \<open>nanos\<close> the clock.\<close>

definition NewID :: "string \<Rightarrow> string option \<Rightarrow> int \<Rightarrow> string" where
  "NewID prefix0 raw nanos =
     (let p = trim_space prefix0; tail = (case raw of Some bytes \<Rightarrow> hex_encode bytes | None \<Rightarrow> int_str nanos) in
      if p = [] then tail else p @ ''_'' @ tail)"

subsection \<open>Migrations\<close>

text \<open>\<open>fs_read_dir\<close> gives the names in a directory and whether they are directories; \<open>fs_join\<close> is \<^verbatim>\<open>filepath.Join\<close>.\<close>

record file_system =
  fs_read_dir :: "string \<Rightarrow> (string \<times> bool) list result"
  fs_read_file :: "string \<Rightarrow> string result"
  fs_join :: "string \<Rightarrow> string \<Rightarrow> string"

text \<open>\<^verbatim>\<open>filepath.Ext\<close>: from the last dot of the last element.\<close>

definition file_ext :: "string \<Rightarrow> string" where
  "file_ext name =
     (let rest = takeWhile (\<lambda>c. c \<noteq> CHR ''.'' \<and> c \<noteq> CHR ''/'') (rev name) in
      if length rest < length name \<and> rev name ! length rest = CHR ''.'' then CHR ''.'' # rev rest else [])"

definition migration_files :: "file_system \<Rightarrow> string \<Rightarrow> (string \<times> bool) list \<Rightarrow> string list" where
  "migration_files fs dir entries =
     sort (map (\<lambda>(name, _). fs_join fs dir name) (filter (\<lambda>(name, is_dir). \<not> is_dir \<and> file_ext name = ''.sql'') entries))"

fun apply_files :: "file_system \<Rightarrow> (string \<Rightarrow> 'w \<Rightarrow> unit result \<times> 'w) \<Rightarrow> string list \<Rightarrow> 'w \<Rightarrow> unit result \<times> 'w" where
  "apply_files fs exec [] w = (Inr (), w)"
| "apply_files fs exec (f # files) w =
     (case fs_read_file fs f of
        Inl e \<Rightarrow> (Inl (Wrap ''read migration %s'' e), w)
      | Inr contents \<Rightarrow>
          if trim_space contents = [] then apply_files fs exec files w
          else db_bind (wrap_err ''apply migration %s'' (exec (trim_space contents) w)) (\<lambda>_ w1. apply_files fs exec files w1))"

definition ApplyMigrationsFromDir ::
  "file_system \<Rightarrow> (string \<Rightarrow> 'w \<Rightarrow> unit result \<times> 'w) option \<Rightarrow> string \<Rightarrow> 'w \<Rightarrow> unit result \<times> 'w" where
  "ApplyMigrationsFromDir fs db dir0 w =
     (let dir = trim_space dir0 in
      if dir = [] then (Inl (Errorf ''migrations directory is required''), w)
      else case db of
          None \<Rightarrow> (Inl (Errorf ''migration database is required''), w)
        | Some exec \<Rightarrow>
            (case fs_read_dir fs dir of
               Inl e \<Rightarrow> (Inl (Wrap ''read migrations directory'' e), w)
             | Inr entries \<Rightarrow>
                 (let files = migration_files fs dir entries in
                  if files = [] then (Inl (Errorf ''no migration files found in %s''), w)
                  else apply_files fs exec files w)))"

subsection \<open>Readiness\<close>

text \<open>The scheme, host and port of a URL.\<close>

definition postgresTCPAddress :: "(string \<Rightarrow> (string \<times> string \<times> string) result) \<Rightarrow> string \<Rightarrow> (string \<times> string) result" where
  "postgresTCPAddress parse databaseURL =
     (case parse databaseURL of
        Inl e \<Rightarrow> Inl (Wrap ''parse database URL'' e)
      | Inr (scheme, host, port) \<Rightarrow>
          require (scheme \<in> {''postgres'', ''postgresql''}) ''unsupported database URL scheme %q''
         (require (host \<noteq> []) ''database URL host is required'' (Inr (host, if port = [] then ''5432'' else port))))"

definition TCP_Ready ::
  "(string \<Rightarrow> (string \<times> string \<times> string) result) \<Rightarrow> (string \<times> string \<Rightarrow> 'w \<Rightarrow> unit result result \<times> 'w) \<Rightarrow> string \<Rightarrow> 'w \<Rightarrow> unit result \<times> 'w" where
  "TCP_Ready parse dial databaseURL w =
     (case postgresTCPAddress parse databaseURL of
        Inl e \<Rightarrow> (Inl e, w)
      | Inr target \<Rightarrow>
          (case dial target w of
             (Inl e, w1) \<Rightarrow> (Inl (Wrap ''database is not reachable'' e), w1)
           | (Inr hung_up, w1) \<Rightarrow> (hung_up, w1)))"

text \<open>The two routes of the server: a status and the body's members.\<close>

datatype route = Healthz | Readyz

definition NewServer ::
  "string \<times> string \<times> string \<Rightarrow> ('w \<Rightarrow> unit result \<times> 'w) option \<Rightarrow> (goerror \<Rightarrow> string) \<Rightarrow> route \<Rightarrow> 'w \<Rightarrow>
     (int \<times> bool \<times> (string \<times> string) list) \<times> 'w" where
  "NewServer build ready shown r w =
     (case r of
        Healthz \<Rightarrow> ((200, True, [(''version'', fst build), (''commit'', fst (snd build)), (''build_time'', snd (snd build))]), w)
      | Readyz \<Rightarrow>
          (case ready of
             None \<Rightarrow> ((503, False, [(''error'', ''ready check is not configured'')]), w)
           | Some check \<Rightarrow>
               (case check w of
                  (Inl e, w1) \<Rightarrow> ((503, False, [(''error'', shown e)]), w1)
                | (Inr _, w1) \<Rightarrow> ((200, True, []), w1))))"

subsection \<open>Migrations are applied in order\<close>

text \<open>A database that keeps the statements it ran, and refuses one that is \<open>bad\<close>.\<close>

definition logging :: "(string \<Rightarrow> bool) \<Rightarrow> string \<Rightarrow> string list \<Rightarrow> unit result \<times> string list" where
  "logging bad sql done_before = (if bad sql then Inl (Errorf ''failed'') else Inr (), done_before @ [sql])"

definition texts_of :: "file_system \<Rightarrow> string list \<Rightarrow> string list" where
  "texts_of fs files =
     filter (\<lambda>t. t \<noteq> []) (map (\<lambda>f. case fs_read_file fs f of Inl _ \<Rightarrow> [] | Inr c \<Rightarrow> trim_space c) files)"

lemma apply_files_prefix:
  "apply_files fs (logging bad) files done_before = (x, done_before') \<Longrightarrow>
     \<exists>n. done_before' = done_before @ take n (texts_of fs files) \<and> list_all (\<lambda>t. \<not> bad t) (take (n - 1) (texts_of fs files)) \<and>
       (x = Inr () \<longrightarrow> take n (texts_of fs files) = texts_of fs files)"
proof (induction files arbitrary: done_before)
  case Nil
  then show ?case by (simp add: texts_of_def)
next
  case (Cons f files)
  consider (unread) e where "fs_read_file fs f = Inl e" | (blank) c where "fs_read_file fs f = Inr c" "trim_space c = []"
    | (bad) c where "fs_read_file fs f = Inr c" "trim_space c \<noteq> []" "bad (trim_space c)"
    | (good) c where "fs_read_file fs f = Inr c" "trim_space c \<noteq> []" "\<not> bad (trim_space c)"
    by (cases "fs_read_file fs f") blast+
  then show ?case
  proof cases
    case unread
    then show ?thesis using Cons.prems by (intro exI [of _ 0]) auto
  next
    case blank
    then show ?thesis using Cons.IH [of done_before] Cons.prems by (simp add: texts_of_def)
  next
    case bad
    then show ?thesis using Cons.prems by (intro exI [of _ 1]) (auto simp: logging_def db_bind_def wrap_err_def texts_of_def)
  next
    case good
    then have "apply_files fs (logging bad) files (done_before @ [trim_space c]) = (x, done_before')"
      using Cons.prems by (simp add: logging_def [of bad "trim_space c" done_before] db_bind_def wrap_err_def)
    from Cons.IH [OF this] obtain n where n: "done_before' = done_before @ [trim_space c] @ take n (texts_of fs files)"
      "list_all (\<lambda>t. \<not> bad t) (take (n - 1) (texts_of fs files))" "x = Inr () \<longrightarrow> take n (texts_of fs files) = texts_of fs files"
      by auto
    have "texts_of fs (f # files) = trim_space c # texts_of fs files" using good by (simp add: texts_of_def)
    then show ?thesis using n good by (intro exI [of _ "Suc n"]) (cases n; auto)
  qed
qed

end
