(* ===== verification/Spec2Isabelle.thy ===== *)
theory Spec2Isabelle
  imports AuditLog CapabilityManager ContextBroker GuildPolicy AgentSafety JobWorker PluginCatalog LlmUsage MemoryIngestor
    ManifestFetcher WebSafety ProviderClient EvalHarness AppRuntime Startup
begin

text \<open>
  GigiDC is a Discord assistant written in Go. A message that mentions the bot, or a command, comes in through
  \<^verbatim>\<open>internal/discord\<close>; the caller's capabilities are checked (\<^verbatim>\<open>internal/identity\<close>, \<^verbatim>\<open>internal/capability\<close>); the agent of
  \<^verbatim>\<open>internal/agent\<close> plans tool calls, with a language model (\<^verbatim>\<open>internal/llm\<close>) if the guild allows it, runs the tools and
  answers; and what happened is audited, traced and stored in Postgres. This development models that path and its stores.

  The parts and the theories that model them:

  \<^item> \<^verbatim>\<open>GoPrelude\<close>, \<^verbatim>\<open>Unicode_Tables\<close>, \<^verbatim>\<open>Utf8\<close>, \<^verbatim>\<open>GoText\<close>, \<^verbatim>\<open>TextNormal\<close>: what the code uses of Go's library. A Go string is a list of bytes;
    \<^verbatim>\<open>range\<close> over it, \<^verbatim>\<open>unicode/utf8\<close>, \<^verbatim>\<open>strings.TrimSpace\<close>, \<^verbatim>\<open>strings.EqualFold\<close> and the case tables are written out. A time is
    an integer of nanoseconds, an error a value of \<^verbatim>\<open>goerror\<close> with the format string of its text left unexpanded.
    \<^verbatim>\<open>JsonText\<close>: what becomes of a text that \<^verbatim>\<open>encoding/json\<close> writes and a \<^verbatim>\<open>jsonb\<close> column reads back, a NUL being refused.
  \<^item> \<^verbatim>\<open>Sql\<close>, \<^verbatim>\<open>SqlTables\<close>, \<^verbatim>\<open>Effects\<close>: a database is its tables, its clock and the faults that are to come; a statement runs on
    all of its tables or, when it fails, on none; a transaction is a statement made of statements. Every store of the program is
    written as operations on such a database, with the unique indexes and checks of \<^verbatim>\<open>db/migrations\<close>.
  \<^item> \<^verbatim>\<open>AuditLog\<close> (\<^verbatim>\<open>internal/audit\<close>), \<^verbatim>\<open>Capability\<close>, \<^verbatim>\<open>CapabilityManager\<close> (\<^verbatim>\<open>internal/capability\<close>), \<^verbatim>\<open>Identity\<close> (\<^verbatim>\<open>internal/identity\<close>).
  \<^item> \<^verbatim>\<open>AgentTypes\<close>, \<^verbatim>\<open>RunStore\<close>, \<^verbatim>\<open>AgentTrace\<close>, \<^verbatim>\<open>FollowUp\<close>, \<^verbatim>\<open>AgentExecutor\<close>, \<^verbatim>\<open>AgentRunner\<close>, \<^verbatim>\<open>AgentSafety\<close>: the agent, its registry
    of tools, the store of runs, the trace, and the loop that plans, checks, executes and answers. An interface of the code is a
    record of functions over a world \<open>'w\<close>, and \<open>nil\<close> is \<open>None\<close>.
  \<^item> \<^verbatim>\<open>AgentMemory\<close>, \<^verbatim>\<open>AgentTools\<close>, \<^verbatim>\<open>WebTools\<close>, \<^verbatim>\<open>WebSafety\<close>: the built-in tools, among them fetching and searching the web.
  \<^item> \<^verbatim>\<open>LlmPlanner\<close>, \<^verbatim>\<open>LlmAnswerer\<close>, \<^verbatim>\<open>Assistant\<close>: what is asked of a model and what is accepted of its answer.
  \<^item> \<^verbatim>\<open>ContextBroker\<close>: the pack of context within a budget of characters.
  \<^item> \<^verbatim>\<open>Jobs\<close>, \<^verbatim>\<open>JobWorker\<close>: the queue and its pool of workers, a state machine whose steps interleave. The table \<open>jobs\<close> has the
    columns and the status check of the migration that created it (\<open>initial_jobs\<close>, \<open>durable_jobs\<close>), each statement names the columns
    it uses, and one the table does not have is its error.
  \<^item> \<^verbatim>\<open>PluginManifest\<close>, \<^verbatim>\<open>PluginMatcher\<close>, \<^verbatim>\<open>PluginCatalog\<close>, \<^verbatim>\<open>ManifestFetcher\<close>: plugins, from a manifest to a planned command.
  \<^item> \<^verbatim>\<open>ProviderRegistry\<close>, \<^verbatim>\<open>ProviderStore\<close>, \<^verbatim>\<open>ProviderService\<close>, \<^verbatim>\<open>GuildPolicy\<close>, \<^verbatim>\<open>LlmUsage\<close>: the providers of models, their sealed
    keys, the guild's policy and the usage of each call.
  \<^item> \<^verbatim>\<open>MemoryStore\<close>, \<^verbatim>\<open>MemoryIngestor\<close>: the messages of a guild that are kept, and the goroutine that keeps them.
  \<^item> \<^verbatim>\<open>ProviderClient\<close> (\<^verbatim>\<open>internal/llm/provider_client.go\<close>): one request to the provider of a resolved model.
  \<^item> \<^verbatim>\<open>DiscordRouter\<close>, \<^verbatim>\<open>DiscordPermissions\<close>, \<^verbatim>\<open>DiscordText\<close>, \<^verbatim>\<open>DiscordMessages\<close>, \<^verbatim>\<open>DiscordMemory\<close>, \<^verbatim>\<open>DiscordPlugins\<close>,
    \<^verbatim>\<open>DiscordLlm\<close>, \<^verbatim>\<open>DiscordAgent\<close>, \<^verbatim>\<open>DiscordStats\<close>, \<^verbatim>\<open>DiscordGateway\<close>: commands, modals and messages, one theory for each command of
    \<^verbatim>\<open>internal/discord\<close>, and the gateway that hands the events of Discord to the routers. \<^verbatim>\<open>AgentAnalytics\<close>
    (\<^verbatim>\<open>internal/agent/analytics.go\<close>): the numbers the \<^verbatim>\<open>stats\<close> action shows.
  \<^item> \<^verbatim>\<open>AppConfig\<close>, \<^verbatim>\<open>AppRuntime\<close>, \<^verbatim>\<open>Startup\<close>: the configuration (\<^verbatim>\<open>internal/config\<close>), how \<^verbatim>\<open>internal/app\<close> puts the parts
    together, runs and stops them, the migrations, IDs and readiness check of \<^verbatim>\<open>internal/storage\<close> and the routes of \<^verbatim>\<open>internal/web\<close>.
  \<^item> \<^verbatim>\<open>EvalHarness\<close> (\<^verbatim>\<open>internal/evalharness\<close>): one case of the agent over a run store in memory, the second interpretation of the
    contract \<^verbatim>\<open>cancel_store\<close> after the one for the SQL store.

  How the parts fit. \<^verbatim>\<open>DiscordGateway\<close> delivers an event to \<^verbatim>\<open>HandleInteraction\<close> or \<^verbatim>\<open>HandleMessage\<close>. An interaction passes the
  gate of \<^verbatim>\<open>DiscordRouter\<close>, which asks the authorizer over the grants of \<^verbatim>\<open>Capability\<close>, and reaches the handler of its command.
  A message goes down a chain of handlers, each the fallback of the one before: memory questions, external apps, and the agent,
  whose runtime tries \<^verbatim>\<open>PlanningHandler\<close> and then the chat of \<^verbatim>\<open>Assistant\<close>. \<^verbatim>\<open>AppRuntime\<close> has these chains as \<^verbatim>\<open>New\<close> builds them.

  What the lemmas show. Each store has an invariant of its tables that every operation keeps (\<^verbatim>\<open>run_tables_sound\<close>,
  \<^verbatim>\<open>jobs_table_sound\<close>, \<^verbatim>\<open>llm_tables_sound\<close>, \<^verbatim>\<open>audit_log_clean\<close>) and the effect of its operations (\<^verbatim>\<open>check_exact\<close>,
  \<^verbatim>\<open>cancellation_is_final\<close>, \<^verbatim>\<open>added_credential_resolves\<close>, \<^verbatim>\<open>analytics_counts_agree\<close>). The agent runs only tools its caller may
  run, within its limits, until a cancellation is seen, and completes its run once (\<^verbatim>\<open>AgentSafety\<close>). The tools reach only public
  addresses (\<^verbatim>\<open>WebSafety\<close>) and only memory the caller may read (\<^verbatim>\<open>AgentMemory\<close>). A model's answer is cut to what was offered to it
  (\<^verbatim>\<open>LlmPlanner\<close>, \<^verbatim>\<open>LlmAnswerer\<close>), and the messages it is shown stay in their quotations however they are cut. The commands are gated one by one (\<^verbatim>\<open>DiscordRouter\<close>, \<^verbatim>\<open>DiscordPlugins\<close>, \<^verbatim>\<open>DiscordLlm\<close>,
  \<^verbatim>\<open>DiscordAgent\<close>, \<^verbatim>\<open>DiscordStats\<close>) and in the program as a whole (\<^verbatim>\<open>AppRuntime\<close>).

  Interfaces are locales where several operations share a contract: the grant store the evaluator reads, the store the runner
  relies on for cancellation, the queue the workers take jobs from, and others; each is interpreted on the models of the code's own
  stores. The queue's contract has two parts: \<open>bounded_queue\<close>, a claim returns at most as many jobs as it was asked for, which bounds
  the pool whatever the other users of the queue do, and \<open>claim_queue\<close>, which extends it by what the other users may do for the jobs in
  the pool's charge to stay theirs alone.

  Bounds. No definition uses fuel: loops of the code are recursions with a termination proof, and the loop of a web redirect ends
  because its client stops after a fixed number of requests. Integers are unbounded except where the code wraps around
  (\<^verbatim>\<open>time.Duration\<close> in \<^verbatim>\<open>run_after\<close>, the bits of permissions, the bytes of addresses).

  Parameters. The decoders of \<^verbatim>\<open>encoding/json\<close>, the parsers of \<^verbatim>\<open>net/url\<close>, \<^verbatim>\<open>net/netip\<close> and \<^verbatim>\<open>html\<close>, SHA-256, AES-GCM, the
  random source, the clock, the resolver, HTTP, the collation of Postgres and the float format of a duration are arguments of the
  definitions that use them; a law a property needs of one, such as the round trip of AES-GCM, is a hypothesis of it. Regular expressions are
  written out as functions.

  Not modelled: \<^verbatim>\<open>cmd/gigi/main.go\<close> (reading the configuration, signals and the exit code), \<^verbatim>\<open>internal/buildinfo\<close> (three strings set by the linker),
  \<^verbatim>\<open>storage.OpenDB\<close> (settings of the driver's pool), logging, and the deadlines of contexts, which show as faults of the call they cut off. The text of an
  error is its format string; the two commands that look into one take the expanded text as a parameter.
\<close>

end
